(* ===== verification/Playit_Prelude.thy ===== *)
theory Playit_Prelude
  imports Main "HOL-Library.Word"
begin

section \<open>Prelude: machine integers, byte strings, fallible readers and writers\<close>

text \<open>
  What every component of the agent shares.
  \<^item> Names for the machine integers of the source and the saturating and checked operations of the
    Rust standard library that the source calls on them.
  \<^item> Big-endian byte strings (\<^verbatim>\<open>to_be_bytes\<close>, \<^verbatim>\<open>from_be_bytes\<close>) with their round trips.
  \<^item> The parts of \<^verbatim>\<open>std::io\<close> the protocol code uses: errors, \<^verbatim>\<open>Read\<close> on a byte slice and \<^verbatim>\<open>Write\<close>
    on a vector (unbounded) or on a slice (bounded), with the \<^verbatim>\<open>?\<close> operator as sequencing.
  \<^item> The vocabulary of wire-format proofs: \<open>exact\<close> (a writer appends these bytes and returns their
    number), \<open>emits\<close> (it appends these bytes), \<open>decodes\<close> (a reader turns these bytes, whatever
    follows them, into this value) and \<open>roundtrips\<close>, each with one rule per combinator, so that
    the proof for a struct follows the order of its fields.

  A panic is a value too (constructor \<open>Panic\<close>): it unwinds through every \<^verbatim>\<open>?\<close>.
\<close>

subsection \<open>Machine integers\<close>

type_synonym u8 = "8 word"
type_synonym u16 = "16 word"
type_synonym u32 = "32 word"
type_synonym u64 = "64 word"
type_synonym u128 = "128 word"
type_synonym bytes = "8 word list"

named_theorems wire_simps \<open>unfolding rules for encoders and decoders\<close>
named_theorems wire_intros \<open>introduction rules for wire-format judgements\<close>

text \<open>\<^verbatim>\<open>saturating_sub\<close>, \<^verbatim>\<open>saturating_add\<close> and \<^verbatim>\<open>checked_add\<close> of Rust's unsigned integers.\<close>

definition saturating_sub :: "'a::len word \<Rightarrow> 'a word \<Rightarrow> 'a word" where
  "saturating_sub a b = (if a < b then 0 else a - b)"

definition saturating_add :: "'a::len word \<Rightarrow> 'a word \<Rightarrow> 'a word" where
  "saturating_add a b = (if unat a + unat b < 2 ^ LENGTH('a) then a + b else - 1)"

definition checked_add :: "'a::len word \<Rightarrow> 'a word \<Rightarrow> 'a word option" where
  "checked_add a b = (if unat a + unat b < 2 ^ LENGTH('a) then Some (a + b) else None)"

lemma unat_saturating_sub [simp]: "unat (saturating_sub a b) = unat a - unat b"
proof (cases "a < b")
  case True
  then show ?thesis by (simp add: saturating_sub_def word_less_nat_alt)
next
  case False
  then show ?thesis by (simp add: saturating_sub_def unat_sub not_less)
qed

lemma checked_add_Some:
  "checked_add a b = Some c \<longleftrightarrow> unat a + unat b < 2 ^ LENGTH('a) \<and> c = a + b"
  for a b c :: "'a::len word"
  by (auto simp: checked_add_def)

lemma unat_add_lem_lt:
  "unat a + unat b < 2 ^ LENGTH('a) \<Longrightarrow> unat (a + b) = unat a + unat b"
  for a b :: "'a::len word"
  by (simp add: unat_word_ariths)

lemma saturating_add_le:
  "unat (saturating_add a b) = min (unat a + unat b) (2 ^ LENGTH('a) - 1)"
  for a b :: "'a::len word"
proof (cases "unat a + unat b < 2 ^ LENGTH('a)")
  case True
  then show ?thesis by (simp add: saturating_add_def unat_add_lem_lt)
next
  case False
  then show ?thesis by (simp add: saturating_add_def unsigned_minus_1_eq_mask mask_eq_exp_minus_1)
qed

subsection \<open>Big-endian byte strings\<close>

text \<open>
  \<open>nat_to_be n x\<close> are the \<open>n\<close> low bytes of \<open>x\<close>, most significant first;
  \<open>nat_of_be\<close> reads them back.
\<close>

fun nat_to_be :: "nat \<Rightarrow> nat \<Rightarrow> bytes" where
  "nat_to_be 0 x = []"
| "nat_to_be (Suc n) x = nat_to_be n (x div 256) @ [of_nat (x mod 256)]"

definition nat_of_be :: "bytes \<Rightarrow> nat" where
  "nat_of_be bs = foldl (\<lambda>a b. 256 * a + unat b) 0 bs"

lemma nat_of_be_Nil [simp]: "nat_of_be [] = 0"
  by (simp add: nat_of_be_def)

lemma nat_of_be_snoc [simp]: "nat_of_be (bs @ [b]) = 256 * nat_of_be bs + unat b"
  by (simp add: nat_of_be_def)

lemma length_nat_to_be [simp]: "length (nat_to_be n x) = n"
  by (induction n arbitrary: x) simp_all

lemma nat_of_be_bound: "nat_of_be bs < 256 ^ length bs"
proof (induction bs rule: rev_induct)
  case Nil
  then show ?case by simp
next
  case (snoc b bs)
  have "unat b < 256" using unsigned_less [of b] by simp
  with snoc show ?case by simp
qed

lemma unat_of_nat_byte [simp]: "unat (of_nat (x mod 256) :: u8) = x mod 256"
  by (simp add: unat_of_nat)

lemma nat_of_be_to_be: "nat_of_be (nat_to_be n x) = x mod 256 ^ n"
proof (induction n arbitrary: x)
  case 0
  then show ?case by simp
next
  case (Suc n)
  have "x mod (256 * 256 ^ n) = 256 * (x div 256 mod 256 ^ n) + x mod 256"
    by (rule mod_mult2_eq)
  with Suc show ?case by simp
qed

lemma nat_to_be_of_be: "nat_to_be (length bs) (nat_of_be bs) = bs"
proof (induction bs rule: rev_induct)
  case Nil
  then show ?case by simp
next
  case (snoc b bs)
  have b: "unat b < 256" using unsigned_less [of b] by simp
  then have "(256 * nat_of_be bs + unat b) div 256 = nat_of_be bs"
    and "(256 * nat_of_be bs + unat b) mod 256 = unat b" by simp_all
  with snoc show ?case by simp
qed

text \<open>\<^verbatim>\<open>to_be_bytes\<close> and \<^verbatim>\<open>from_be_bytes\<close> at each width.\<close>

definition be8 :: "u8 \<Rightarrow> bytes" where "be8 x = [x]"
definition be16 :: "u16 \<Rightarrow> bytes" where "be16 x = nat_to_be 2 (unat x)"
definition be32 :: "u32 \<Rightarrow> bytes" where "be32 x = nat_to_be 4 (unat x)"
definition be64 :: "u64 \<Rightarrow> bytes" where "be64 x = nat_to_be 8 (unat x)"
definition be128 :: "u128 \<Rightarrow> bytes" where "be128 x = nat_to_be 16 (unat x)"

definition of_be :: "bytes \<Rightarrow> 'a::len word" where
  "of_be bs = of_nat (nat_of_be bs)"

lemma length_be [simp]:
  "length (be8 a) = 1" "length (be16 b) = 2" "length (be32 c) = 4"
  "length (be64 d) = 8" "length (be128 e) = 16"
  by (simp_all add: be8_def be16_def be32_def be64_def be128_def)

lemma be8_not_Nil [simp]: "be8 x \<noteq> []"
  by (simp add: be8_def)

lemma of_be_be8 [simp]: "of_be (be8 x) = x"
  by (simp add: of_be_def be8_def nat_of_be_def)

lemma of_be_nat_to_be:
  fixes x :: "'a::len word"
  assumes "LENGTH('a) = 8 * n"
  shows "of_be (nat_to_be n (unat x)) = x"
proof -
  have "unat x < 2 ^ (8 * n)" using unsigned_less [of x] assms by simp
  then have "unat x mod 256 ^ n = unat x" by (simp add: power_mult)
  then show ?thesis by (simp add: of_be_def nat_of_be_to_be)
qed

lemma of_be_be [simp]:
  "of_be (be16 b) = b" "of_be (be32 c) = c" "of_be (be64 d) = d" "of_be (be128 e) = e"
  by (simp_all add: be16_def be32_def be64_def be128_def of_be_nat_to_be)

lemma be_of_be:
  "length bs = 2 \<Longrightarrow> be16 (of_be bs) = bs"
  "length bs = 4 \<Longrightarrow> be32 (of_be bs) = bs"
  "length bs = 8 \<Longrightarrow> be64 (of_be bs) = bs"
  "length bs = 16 \<Longrightarrow> be128 (of_be bs) = bs"
proof -
  have mod_id: "nat_of_be bs mod 256 ^ length bs = nat_of_be bs"
    using nat_of_be_bound [of bs] by simp
  show "length bs = 2 \<Longrightarrow> be16 (of_be bs) = bs"
    using nat_to_be_of_be [of bs] mod_id by (simp add: be16_def of_be_def unat_of_nat)
  show "length bs = 4 \<Longrightarrow> be32 (of_be bs) = bs"
    using nat_to_be_of_be [of bs] mod_id by (simp add: be32_def of_be_def unat_of_nat)
  show "length bs = 8 \<Longrightarrow> be64 (of_be bs) = bs"
    using nat_to_be_of_be [of bs] mod_id by (simp add: be64_def of_be_def unat_of_nat)
  show "length bs = 16 \<Longrightarrow> be128 (of_be bs) = bs"
    using nat_to_be_of_be [of bs] mod_id by (simp add: be128_def of_be_def unat_of_nat)
qed

subsection \<open>The parts of \<^verbatim>\<open>std::io\<close> the source uses\<close>

datatype ErrorKind =
    UnexpectedEof | WriteZero | InvalidData | InvalidInput | Unsupported | NotFound | PermissionDenied | BrokenPipe | ConnectionRefused
  | ConnectionAborted | ConnectionReset | NotConnected | OtherKind

datatype io_error = Error ErrorKind string | Panic string

text \<open>The \<^verbatim>\<open>?\<close> operator on results.\<close>

definition and_then :: "'e + 'a \<Rightarrow> ('a \<Rightarrow> 'e + 'b) \<Rightarrow> 'e + 'b" where
  "and_then m f = (case m of Inl e \<Rightarrow> Inl e | Inr x \<Rightarrow> f x)"

lemma and_then_simps [simp]:
  "and_then (Inl e) f = Inl e"
  "and_then (Inr x) f = f x"
  by (simp_all add: and_then_def)

lemma and_then_Inr_conv:
  "and_then m f = Inr y \<longleftrightarrow> (\<exists>x. m = Inr x \<and> f x = Inr y)"
  by (cases m) simp_all

subsubsection \<open>Reading from a byte slice\<close>

type_synonym 'a reader = "bytes \<Rightarrow> io_error + ('a \<times> bytes)"

definition rret :: "'a \<Rightarrow> 'a reader" where
  "rret x = (\<lambda>bs. Inr (x, bs))"

definition rfail :: "io_error \<Rightarrow> 'a reader" where
  "rfail e = (\<lambda>bs. Inl e)"

definition rbind :: "'a reader \<Rightarrow> ('a \<Rightarrow> 'b reader) \<Rightarrow> 'b reader" where
  "rbind p f = (\<lambda>bs. and_then (p bs) (\<lambda>(x, rest). f x rest))"

text \<open>
  \<^verbatim>\<open>Read::read_exact\<close> on a slice: all \<open>n\<close> bytes or \<^verbatim>\<open>UnexpectedEof\<close>;
  \<^verbatim>\<open>Read::read\<close> on a slice: as many of the \<open>n\<close> bytes as there are.
\<close>

definition unexpected_eof :: io_error where
  "unexpected_eof = Error UnexpectedEof ''failed to fill whole buffer''"

definition read_exact :: "nat \<Rightarrow> bytes reader" where
  "read_exact n = (\<lambda>bs. if length bs < n then Inl unexpected_eof else Inr (take n bs, drop n bs))"

definition read_some :: "nat \<Rightarrow> bytes reader" where
  "read_some n = (\<lambda>bs. Inr (take n bs, drop n bs))"

subsubsection \<open>Writing to a vector or to a slice\<close>

text \<open>
  \<open>written\<close> are the bytes written so far, \<open>room\<close> the bytes left: \<open>None\<close> for a \<^verbatim>\<open>Vec<u8>\<close>.
  A writer returns the number of bytes it claims to have written.
\<close>

record sink =
  written :: bytes
  room :: "nat option"

type_synonym 'a put = "sink \<Rightarrow> io_error + ('a \<times> sink)"
type_synonym writer = "nat put"

definition vec_sink :: "bytes \<Rightarrow> sink" where
  "vec_sink bs = \<lparr>written = bs, room = None\<rparr>"

definition slice_sink :: "nat \<Rightarrow> sink" where
  "slice_sink n = \<lparr>written = [], room = Some n\<rparr>"

definition fits :: "bytes \<Rightarrow> sink \<Rightarrow> bool" where
  "fits bs s = (case room s of None \<Rightarrow> True | Some n \<Rightarrow> length bs \<le> n)"

definition append_sink :: "bytes \<Rightarrow> sink \<Rightarrow> sink" where
  "append_sink bs s = s\<lparr>written := written s @ bs, room := map_option (\<lambda>n. n - length bs) (room s)\<rparr>"

definition write_zero :: io_error where
  "write_zero = Error WriteZero ''failed to write whole buffer''"

definition write_all :: "bytes \<Rightarrow> unit put" where
  "write_all bs s = (if fits bs s then Inr ((), append_sink bs s) else Inl write_zero)"

text \<open>\<^verbatim>\<open>Write::write\<close>: as much as there is room for, with the number of bytes taken.\<close>

definition write_some :: "bytes \<Rightarrow> nat put" where
  "write_some bs s =
     (let n = (case room s of None \<Rightarrow> length bs | Some r \<Rightarrow> min r (length bs))
      in Inr (n, append_sink (take n bs) s))"

definition put_bytes :: "bytes \<Rightarrow> writer" where
  "put_bytes bs s = and_then (write_all bs s) (\<lambda>(_, s'). Inr (length bs, s'))"

text \<open>\<open>sum += a.write_to(out)?; \<dots> Ok(sum)\<close>; \<open>wthen\<close> drops the count of its first part.\<close>

definition wok :: writer where
  "wok s = Inr (0, s)"

definition wfail :: "io_error \<Rightarrow> writer" where
  "wfail e s = Inl e"

definition wseq :: "writer \<Rightarrow> writer \<Rightarrow> writer" where
  "wseq a b s = and_then (a s) (\<lambda>(n, s'). and_then (b s') (\<lambda>(m, s''). Inr (n + m, s'')))"

definition wthen :: "'a put \<Rightarrow> writer \<Rightarrow> writer" where
  "wthen a b s = and_then (a s) (\<lambda>(_, s'). b s')"

definition wcount :: "nat \<Rightarrow> writer" where
  "wcount n s = Inr (n, s)"

subsection \<open>Judgements on writers and readers\<close>

definition exact :: "writer \<Rightarrow> bytes \<Rightarrow> bool" where
  "exact w bs \<longleftrightarrow> (\<forall>s. w s = put_bytes bs s)"

definition emits :: "'a put \<Rightarrow> bytes \<Rightarrow> bool" where
  "emits w bs \<longleftrightarrow> (\<forall>s. map_sum id snd (w s) = map_sum id snd (put_bytes bs s))"

definition decodes :: "'a reader \<Rightarrow> bytes \<Rightarrow> 'a \<Rightarrow> bool" where
  "decodes r bs x \<longleftrightarrow> (\<forall>rest. r (bs @ rest) = Inr (x, rest))"

definition roundtrips :: "'b put \<Rightarrow> 'a reader \<Rightarrow> 'a \<Rightarrow> bool" where
  "roundtrips w r x \<longleftrightarrow> (\<exists>bs. emits w bs \<and> decodes r bs x)"

definition counted :: "writer \<Rightarrow> bool" where
  "counted w \<longleftrightarrow> (\<exists>bs. exact w bs)"

subsubsection \<open>The rules of the judgements\<close>

lemma fits_append: "fits (a @ b) s \<longleftrightarrow> fits a s \<and> fits b (append_sink a s)"
  by (auto simp: fits_def append_sink_def split: option.splits)

lemma append_sink_append: "append_sink (a @ b) s = append_sink b (append_sink a s)"
  by (simp add: append_sink_def option.map_comp comp_def)

lemma append_sink_Nil [simp]: "append_sink [] s = s"
  by (simp add: append_sink_def option.map_ident)

lemma fits_Nil [simp]: "fits [] s"
  by (simp add: fits_def split: option.splits)

lemma fits_vec [simp]: "fits bs (vec_sink xs)"
  by (simp add: fits_def vec_sink_def)

lemma append_vec [simp]: "append_sink bs (vec_sink xs) = vec_sink (xs @ bs)"
  by (simp add: append_sink_def vec_sink_def)

lemma put_bytes_vec [simp]: "put_bytes bs (vec_sink xs) = Inr (length bs, vec_sink (xs @ bs))"
  by (simp add: put_bytes_def write_all_def)

lemma written_vec_sink [simp]: "written (vec_sink xs) = xs"
  by (simp add: vec_sink_def)

lemma vec_sink_eq [simp]: "vec_sink xs = vec_sink ys \<longleftrightarrow> xs = ys"
  by (simp add: vec_sink_def)

lemma put_bytes_Nil: "put_bytes [] s = Inr (0, s)"
  by (simp add: put_bytes_def write_all_def)

lemma put_bytes_append: "put_bytes (a @ b) s = wseq (put_bytes a) (put_bytes b) s"
  by (simp add: put_bytes_def wseq_def write_all_def fits_append append_sink_append)

lemma exact_put_bytes [wire_intros]: "exact (put_bytes bs) bs"
  by (simp add: exact_def)

lemma exact_wok [wire_intros]: "exact wok []"
  by (simp add: exact_def wok_def put_bytes_Nil)

lemma exact_wseq [wire_intros]: "exact a xs \<Longrightarrow> exact b ys \<Longrightarrow> exact (wseq a b) (xs @ ys)"
  by (simp add: exact_def put_bytes_append wseq_def)

lemma exact_emits: "exact (w :: writer) bs \<Longrightarrow> emits w bs"
  by (simp add: exact_def emits_def)

lemma emits_exact_put: "emits w bs \<longleftrightarrow>
    (\<forall>s. (\<exists>n. w s = Inr (n, append_sink bs s)) \<and> fits bs s \<or> w s = Inl write_zero \<and> \<not> fits bs s)"
proof -
  have "map_sum id snd (w s) = map_sum id snd (put_bytes bs s) \<longleftrightarrow>
      (\<exists>n. w s = Inr (n, append_sink bs s)) \<and> fits bs s \<or> w s = Inl write_zero \<and> \<not> fits bs s" for s
    by (cases "w s") (auto simp: put_bytes_def write_all_def)
  then show ?thesis by (simp add: emits_def)
qed

lemma emitsE:
  assumes "emits w bs"
  obtains (ok) n where "w s = Inr (n, append_sink bs s)" "fits bs s"
  | (full) "w s = Inl write_zero" "\<not> fits bs s"
  using assms by (auto simp: emits_exact_put)

lemma emits_write_all [wire_intros]: "emits (write_all bs) bs"
  by (simp add: emits_exact_put write_all_def)

lemma emits_wcount: "emits (wcount n) []"
  by (simp add: emits_exact_put wcount_def)

lemma emits_wseq: "emits a xs \<Longrightarrow> emits b ys \<Longrightarrow> emits (wseq a b) (xs @ ys)"
  unfolding emits_exact_put [of "wseq a b"]
proof
  fix s
  assume a: "emits a xs" and b: "emits b ys"
  show "(\<exists>n. wseq a b s = Inr (n, append_sink (xs @ ys) s)) \<and> fits (xs @ ys) s \<or>
        wseq a b s = Inl write_zero \<and> \<not> fits (xs @ ys) s"
    using a
  proof (cases rule: emitsE [of a xs s])
    case (ok n)
    with b show ?thesis
      by (cases rule: emitsE [of b ys "append_sink xs s"])
        (auto simp: wseq_def fits_append append_sink_append)
  next
    case full
    then show ?thesis by (simp add: wseq_def fits_append)
  qed
qed

lemma emits_wthen: "emits a xs \<Longrightarrow> emits b ys \<Longrightarrow> emits (wthen a b) (xs @ ys)"
  unfolding emits_exact_put [of "wthen a b"]
proof
  fix s
  assume a: "emits a xs" and b: "emits b ys"
  show "(\<exists>n. wthen a b s = Inr (n, append_sink (xs @ ys) s)) \<and> fits (xs @ ys) s \<or>
        wthen a b s = Inl write_zero \<and> \<not> fits (xs @ ys) s"
    using a
  proof (cases rule: emitsE [of a xs s])
    case (ok n)
    with b show ?thesis
      by (cases rule: emitsE [of b ys "append_sink xs s"])
        (auto simp: wthen_def fits_append append_sink_append)
  next
    case full
    then show ?thesis by (simp add: wthen_def fits_append)
  qed
qed

text \<open>\<open>puts w r bs\<close>: the writer appends \<open>bs\<close> and returns \<open>r\<close>.\<close>

definition puts :: "'a put \<Rightarrow> 'a \<Rightarrow> bytes \<Rightarrow> bool" where
  "puts w r bs \<longleftrightarrow> (\<forall>s. w s = (if fits bs s then Inr (r, append_sink bs s) else Inl write_zero))"

lemma exact_puts: "exact w bs \<longleftrightarrow> puts w (length bs) bs"
  by (simp add: exact_def puts_def put_bytes_def write_all_def)

lemma puts_emits: "puts w r bs \<Longrightarrow> emits w bs"
  by (simp add: puts_def emits_exact_put)

lemma puts_write_all: "puts (write_all bs) () bs"
  by (simp add: puts_def write_all_def)

lemma puts_wcount: "puts (wcount n) n []"
  by (simp add: puts_def wcount_def)

lemma puts_wseq: "puts a k xs \<Longrightarrow> puts b m ys \<Longrightarrow> puts (wseq a b) (k + m) (xs @ ys)"
  by (simp add: puts_def wseq_def fits_append append_sink_append)

lemma puts_wthen: "puts a u xs \<Longrightarrow> puts b m ys \<Longrightarrow> puts (wthen a b) m (xs @ ys)"
  by (simp add: puts_def wthen_def fits_append append_sink_append)

lemma puts_write_all_then: "puts b m ys \<Longrightarrow> puts (wthen (write_all xs) b) m (xs @ ys)"
  by (rule puts_wthen [OF puts_write_all])

lemma puts_wok: "puts wok 0 []"
  by (simp add: puts_def wok_def)

lemma counted_puts: "puts w n bs \<Longrightarrow> n = length bs \<Longrightarrow> counted w"
  by (auto simp: counted_def exact_puts)

lemma countedE:
  assumes "counted w"
  obtains bs where "puts w (length bs) bs"
  using assms by (auto simp: counted_def exact_puts)

lemma decodes_rret [wire_intros]: "decodes (rret x) [] x"
  by (simp add: decodes_def rret_def)

lemma decodes_rbind: "decodes p xs x \<Longrightarrow> decodes (f x) ys y \<Longrightarrow> decodes (rbind p f) (xs @ ys) y"
  by (simp add: decodes_def rbind_def)

lemma decodes_read_exact: "length bs = n \<Longrightarrow> decodes (read_exact n) bs bs"
  by (simp add: decodes_def read_exact_def)

lemma decodes_read_some: "length bs = n \<Longrightarrow> decodes (read_some n) bs bs"
  by (simp add: decodes_def read_some_def)

lemma roundtripsI: "emits w bs \<Longrightarrow> decodes r bs x \<Longrightarrow> roundtrips w r x"
  by (auto simp: roundtrips_def)

lemma roundtrips_wok [wire_intros]: "roundtrips wok (rret x) x"
  by (rule roundtripsI [OF exact_emits [OF exact_wok] decodes_rret])

lemma roundtrips_done: "y = x \<Longrightarrow> roundtrips wok (rret y) x"
  using roundtrips_wok by simp

lemma roundtrips_wseq [wire_intros]:
  assumes "roundtrips a p x" "roundtrips b (f x) y"
  shows "roundtrips (wseq a b) (rbind p f) y"
  using assms emits_wseq decodes_rbind unfolding roundtrips_def by metis

lemma roundtrips_wthen [wire_intros]:
  assumes "roundtrips a p x" "roundtrips b (f x) y"
  shows "roundtrips (wthen a b) (rbind p f) y"
  using assms emits_wthen decodes_rbind unfolding roundtrips_def by metis

lemma roundtrips_wcount [wire_intros]: "roundtrips (wcount n) (rret x) x"
  by (rule roundtripsI [OF emits_wcount decodes_rret])

lemma roundtrips_last:
  assumes "roundtrips w p x" "f x = rret y"
  shows "roundtrips w (rbind p f) y"
  using assms unfolding roundtrips_def decodes_def rbind_def rret_def by auto

lemma counted_wok [wire_intros]: "counted wok"
  using exact_wok by (auto simp: counted_def)

lemma counted_wseq [wire_intros]: "counted a \<Longrightarrow> counted b \<Longrightarrow> counted (wseq a b)"
  using exact_wseq unfolding counted_def by blast

lemma counted_put_bytes [wire_intros]: "counted (put_bytes bs)"
  using exact_put_bytes by (auto simp: counted_def)

text \<open>What the judgements say of a vector: nothing is lost and nothing else is written.\<close>

lemma emits_vec: "emits w bs \<Longrightarrow> \<exists>n. w (vec_sink xs) = Inr (n, vec_sink (xs @ bs))"
  by (auto simp: emits_exact_put elim!: allE [of _ "vec_sink xs"])

lemma roundtrips_vec:
  assumes "roundtrips w r x"
  shows "\<exists>n bs. w (vec_sink xs) = Inr (n, vec_sink (xs @ bs)) \<and> (\<forall>rest. r (bs @ rest) = Inr (x, rest))"
proof -
  from assms obtain bs where e: "emits w bs" and d: "decodes r bs x"
    by (auto simp: roundtrips_def)
  from emits_vec [OF e] obtain n where "w (vec_sink xs) = Inr (n, vec_sink (xs @ bs))" by blast
  with d show ?thesis by (auto simp: decodes_def)
qed

lemma counted_vec:
  assumes "counted w"
  shows "\<exists>bs. w (vec_sink xs) = Inr (length bs, vec_sink (xs @ bs))"
  using assms by (auto simp: counted_def exact_def)

subsection \<open>Text\<close>

text \<open>
  \<^verbatim>\<open>str::trim\<close> takes white space off both ends. A string is its UTF-8 bytes; only the ASCII white space is known here.
\<close>

definition is_ws :: "char \<Rightarrow> bool" where
  "is_ws c \<longleftrightarrow> of_char c \<in> {9 :: nat, 10, 11, 12, 13, 32}"

definition trim :: "string \<Rightarrow> string" where
  "trim s = rev (dropWhile is_ws (rev (dropWhile is_ws s)))"

lemma trim_idem [simp]: "trim (trim s) = trim s"
proof -
  have hd: "dropWhile is_ws (rev (dropWhile is_ws (rev t))) = rev (dropWhile is_ws (rev t))"
    if "dropWhile is_ws t = t" for t
  proof (cases "dropWhile is_ws (rev t)")
    case (Cons c cs)
    obtain ws where "rev t = ws @ c # cs"
      using takeWhile_dropWhile_id [of is_ws "rev t"] Cons by metis
    then have "t = rev (c # cs) @ rev ws" by (metis rev_append rev_rev_ident)
    then have "hd t = hd (rev (c # cs))" and "t \<noteq> []" by (auto simp: hd_append)
    moreover have "\<not> is_ws (hd t)" using that \<open>t \<noteq> []\<close> by (metis hd_dropWhile)
    ultimately have "\<not> is_ws (hd (rev (c # cs)))" by simp
    then have "dropWhile is_ws (rev (c # cs)) = rev (c # cs)"
      by (cases "rev (c # cs)") auto
    then show ?thesis by (simp add: Cons)
  next
    case Nil
    show ?thesis by (simp only: Nil rev.simps dropWhile.simps)
  qed
  show ?thesis
    unfolding trim_def by (simp add: hd)
qed

definition ascii_lower :: "char \<Rightarrow> char" where
  "ascii_lower c = (if 65 \<le> (of_char c :: nat) \<and> (of_char c :: nat) \<le> 90 then char_of ((of_char c :: nat) + 32) else c)"

subsection \<open>Tasks\<close>

text \<open>The handle of a Tokio task. The first await that returns takes the result; awaiting the handle again after that panics, which is \<open>None\<close>.\<close>

datatype join_handle = HandlePending | HandleTaken

definition await_handle :: "join_handle \<Rightarrow> join_handle option" where
  "await_handle h = (case h of HandlePending \<Rightarrow> Some HandleTaken | HandleTaken \<Rightarrow> None)"

end
