(* ===== verification/Wire.thy ===== *)
theory Wire
  imports Playit_Prelude
begin

section \<open>Network addresses and the two encoding libraries\<close>

text \<open>
  The address types of \<^verbatim>\<open>std::net\<close>, and the two third-party crates the protocol code is written
  against: \<^verbatim>\<open>byteorder\<close> (record \<open>byteorder\<close>) and \<^verbatim>\<open>message_encoding\<close> (record
  \<open>message_encoding\<close>). Neither crate is part of the repository, so every encoder and decoder takes
  them as arguments; the locales \<open>big_endian_io\<close> and \<open>wire_library\<close> state what the protocol relies
  on: big-endian integers as documented by \<^verbatim>\<open>byteorder\<close> and as fixed by the hexadecimal
  encodings in the tests of \<^verbatim>\<open>agent_proto/src/control_messages.rs\<close>, and that the crate's own
  address, option and byte-vector codecs read back what they write. The instances
  \<open>be_byteorder\<close> and \<open>be_message_encoding\<close> at the end interpret the locales; the address layout
  of the latter (one family byte, the address, the port) is the one those tests show.
\<close>

subsection \<open>Addresses of \<^verbatim>\<open>std::net\<close>\<close>

type_synonym Ipv4Addr = u32
type_synonym Ipv6Addr = u128

datatype IpAddr = IpV4 Ipv4Addr | IpV6 Ipv6Addr

record SocketAddrV4 =
  v4_ip :: Ipv4Addr
  v4_port :: u16

record SocketAddrV6 =
  v6_ip :: Ipv6Addr
  v6_port :: u16
  v6_flowinfo :: u32
  v6_scope_id :: u32

datatype SocketAddr = SockV4 SocketAddrV4 | SockV6 SocketAddrV6

definition sock_v4 :: "Ipv4Addr \<Rightarrow> u16 \<Rightarrow> SocketAddrV4" where
  "sock_v4 ip port = \<lparr>v4_ip = ip, v4_port = port\<rparr>"

definition sock_v6 :: "Ipv6Addr \<Rightarrow> u16 \<Rightarrow> SocketAddrV6" where
  "sock_v6 ip port = \<lparr>v6_ip = ip, v6_port = port, v6_flowinfo = 0, v6_scope_id = 0\<rparr>"

text \<open>\<^verbatim>\<open>SocketAddr::new\<close>, \<^verbatim>\<open>ip\<close>, \<^verbatim>\<open>port\<close>, \<^verbatim>\<open>is_ipv6\<close>, \<^verbatim>\<open>is_loopback\<close>.\<close>

fun sock_addr_new :: "IpAddr \<Rightarrow> u16 \<Rightarrow> SocketAddr" where
  "sock_addr_new (IpV4 ip) port = SockV4 (sock_v4 ip port)"
| "sock_addr_new (IpV6 ip) port = SockV6 (sock_v6 ip port)"

fun sock_ip :: "SocketAddr \<Rightarrow> IpAddr" where
  "sock_ip (SockV4 a) = IpV4 (v4_ip a)"
| "sock_ip (SockV6 a) = IpV6 (v6_ip a)"

fun sock_port :: "SocketAddr \<Rightarrow> u16" where
  "sock_port (SockV4 a) = v4_port a"
| "sock_port (SockV6 a) = v6_port a"

fun is_ipv6 :: "SocketAddr \<Rightarrow> bool" where
  "is_ipv6 (SockV4 _) = False"
| "is_ipv6 (SockV6 _) = True"

definition v4_is_loopback :: "Ipv4Addr \<Rightarrow> bool" where
  "v4_is_loopback ip \<longleftrightarrow> drop_bit 24 ip = 127"

fun ip_is_loopback :: "IpAddr \<Rightarrow> bool" where
  "ip_is_loopback (IpV4 ip) = v4_is_loopback ip"
| "ip_is_loopback (IpV6 ip) = (ip = 1)"

text \<open>An address as \<^verbatim>\<open>SocketAddr::new\<close> makes it: no flow label and no scope.\<close>

fun plain_addr :: "SocketAddr \<Rightarrow> bool" where
  "plain_addr (SockV4 a) = True"
| "plain_addr (SockV6 a) = (v6_flowinfo a = 0 \<and> v6_scope_id a = 0)"

lemma sock_new_sel [simp]:
  "v4_ip (sock_v4 ip port) = ip" "v4_port (sock_v4 ip port) = port"
  "v6_ip (sock_v6 ip6 port) = ip6" "v6_port (sock_v6 ip6 port) = port"
  "v6_flowinfo (sock_v6 ip6 port) = 0" "v6_scope_id (sock_v6 ip6 port) = 0"
  by (simp_all add: sock_v4_def sock_v6_def)

lemma plain_addr_new [simp]: "plain_addr (sock_addr_new ip port)"
  by (cases ip) (simp_all add: sock_v6_def)

lemma sock_addr_new_sel [simp]:
  "sock_ip (sock_addr_new ip port) = ip" "sock_port (sock_addr_new ip port) = port"
  by (cases ip; simp add: sock_v4_def sock_v6_def)+

lemma sock_addr_new_ip_port: "plain_addr a \<Longrightarrow> sock_addr_new (sock_ip a) (sock_port a) = a"
  by (cases a) (simp_all add: sock_v4_def sock_v6_def)

subsection \<open>The interfaces of \<^verbatim>\<open>byteorder\<close> and \<^verbatim>\<open>message_encoding\<close>\<close>

record byteorder =
  bo_read_u8 :: "u8 reader"
  bo_read_u16 :: "u16 reader"
  bo_read_u32 :: "u32 reader"
  bo_read_u64 :: "u64 reader"
  bo_read_u128 :: "u128 reader"
  bo_write_u8 :: "u8 \<Rightarrow> unit put"
  bo_write_u16 :: "u16 \<Rightarrow> unit put"
  bo_write_u32 :: "u32 \<Rightarrow> unit put"
  bo_write_u64 :: "u64 \<Rightarrow> unit put"
  bo_write_u128 :: "u128 \<Rightarrow> unit put"
  bo_get_u16 :: "bytes \<Rightarrow> u16"
  bo_get_u32 :: "bytes \<Rightarrow> u32"
  bo_get_u64 :: "bytes \<Rightarrow> u64"
  bo_put_u16 :: "u16 \<Rightarrow> bytes"
  bo_put_u64 :: "u64 \<Rightarrow> bytes"

text \<open>
  \<open>bo_read_*\<close> and \<open>bo_write_*\<close> are \<^verbatim>\<open>ReadBytesExt\<close> and \<^verbatim>\<open>WriteBytesExt\<close> at \<^verbatim>\<open>BigEndian\<close>;
  \<open>bo_get_*\<close> is \<^verbatim>\<open>BigEndian::read_u*\<close> on a slice that is long enough, \<open>bo_put_*\<close> the bytes
  \<^verbatim>\<open>BigEndian::write_u*\<close> stores.
\<close>

record 'a codec =
  enc :: "'a \<Rightarrow> writer"
  dec :: "'a reader"

record ('s, 'f) message_encoding =
  me_u16 :: "u16 codec"
  me_u32 :: "u32 codec"
  me_u64 :: "u64 codec"
  me_IpAddr :: "IpAddr codec"
  me_SocketAddr :: "SocketAddr codec"
  me_Vec_u8 :: "bytes codec"
  me_Option_u32 :: "u32 codec \<Rightarrow> u32 option codec"
  me_Option_u64 :: "u64 codec \<Rightarrow> u64 option codec"
  me_Option_session :: "'s codec \<Rightarrow> 's option codec"
  me_Option_found :: "'f codec \<Rightarrow> 'f option codec"

definition be_read :: "nat \<Rightarrow> 'a::len word reader" where
  "be_read n = rbind (read_exact n) (\<lambda>b. rret (of_be b))"

text \<open>A codec that reads back every value of \<open>dom\<close> it wrote, and counts its bytes.\<close>

locale codec_law =
  fixes dom :: "'a \<Rightarrow> bool" and c :: "'a codec"
  assumes law: "dom x \<Longrightarrow> \<exists>bs. exact (enc c x) bs \<and> decodes (dec c) bs x"
begin

lemma roundtrip: "dom x \<Longrightarrow> roundtrips (enc c x) (dec c) x"
  using law exact_emits unfolding roundtrips_def by blast

lemma count: "dom x \<Longrightarrow> counted (enc c x)"
  using law unfolding counted_def by blast

end

locale big_endian_io =
  fixes bo :: byteorder
  assumes read_u8: "bo_read_u8 bo = be_read 1"
    and read_u16: "bo_read_u16 bo = be_read 2"
    and read_u32: "bo_read_u32 bo = be_read 4"
    and read_u64: "bo_read_u64 bo = be_read 8"
    and read_u128: "bo_read_u128 bo = be_read 16"
    and write_u8: "bo_write_u8 bo x8 = write_all (be8 x8)"
    and write_u16: "bo_write_u16 bo x16 = write_all (be16 x16)"
    and write_u32: "bo_write_u32 bo x32 = write_all (be32 x32)"
    and write_u64: "bo_write_u64 bo x64 = write_all (be64 x64)"
    and write_u128: "bo_write_u128 bo x128 = write_all (be128 x128)"
    and get_u16: "2 \<le> length bs \<Longrightarrow> bo_get_u16 bo bs = of_be (take 2 bs)"
    and get_u32: "4 \<le> length bs \<Longrightarrow> bo_get_u32 bo bs = of_be (take 4 bs)"
    and get_u64: "8 \<le> length bs \<Longrightarrow> bo_get_u64 bo bs = of_be (take 8 bs)"
    and put_u16: "bo_put_u16 bo x16 = be16 x16"
    and put_u64: "bo_put_u64 bo x64 = be64 x64"
begin

lemmas bo_simps = read_u8 read_u16 read_u32 read_u64 read_u128
  write_u8 write_u16 write_u32 write_u64 write_u128 put_u16 put_u64

end

locale wire_library = big_endian_io bo
  for bo :: byteorder +
  fixes me :: "('s, 'f) message_encoding"
  assumes me_u16: "enc (me_u16 me) x16 = put_bytes (be16 x16)" "dec (me_u16 me) = be_read 2"
    and me_u32: "enc (me_u32 me) x32 = put_bytes (be32 x32)" "dec (me_u32 me) = be_read 4"
    and me_u64: "enc (me_u64 me) x64 = put_bytes (be64 x64)" "dec (me_u64 me) = be_read 8"
    and me_IpAddr: "codec_law (\<lambda>_. True) (me_IpAddr me)"
    and me_SocketAddr: "codec_law plain_addr (me_SocketAddr me)"
    and me_Vec_u8: "codec_law (\<lambda>v. length v < 2 ^ 16) (me_Vec_u8 me)"
    and me_Option_u32: "codec_law d32 c32 \<Longrightarrow> codec_law (pred_option d32) (me_Option_u32 me c32)"
    and me_Option_u64: "codec_law d64 c64 \<Longrightarrow> codec_law (pred_option d64) (me_Option_u64 me c64)"
    and me_Option_session: "codec_law ds cs \<Longrightarrow> codec_law (pred_option ds) (me_Option_session me cs)"
    and me_Option_found: "codec_law df cf \<Longrightarrow> codec_law (pred_option df) (me_Option_found me cf)"

subsection \<open>Consequences the message theories use\<close>

lemma decodes_be_read:
  fixes x :: "'a::len word"
  assumes "length bs = n" "of_be bs = x"
  shows "decodes (be_read n) bs x"
proof -
  have "decodes (rret (of_be bs)) [] x" using assms(2) decodes_rret by simp
  then have "decodes (rbind (read_exact n) (\<lambda>b. rret (of_be b))) (bs @ []) x"
    by (intro decodes_rbind [OF decodes_read_exact [OF assms(1)]])
  then show ?thesis by (simp add: be_read_def)
qed

lemma be_read_be [simp, wire_simps]:
  "be_read 1 (be8 x8 @ rest) = Inr (x8, rest)"
  "be_read 2 (be16 x16 @ rest) = Inr (x16, rest)"
  "be_read 4 (be32 x32 @ rest) = Inr (x32, rest)"
  "be_read 8 (be64 x64 @ rest) = Inr (x64, rest)"
  "be_read 16 (be128 x128 @ rest) = Inr (x128, rest)"
  "be_read (Suc 0) (be8 x8 @ rest) = Inr (x8, rest)"
  by (simp_all add: be_read_def rbind_def read_exact_def rret_def)

lemma reader_apply [wire_simps]:
  "rbind p f bs = and_then (p bs) (\<lambda>(x, rest). f x rest)"
  "rret x bs = Inr (x, bs)"
  "rfail e bs = Inl e"
  by (simp_all add: rbind_def rret_def rfail_def)

lemma be_read_roundtrips [wire_intros]:
  "emits w (be8 x8) \<Longrightarrow> roundtrips w (be_read 1) x8"
  "emits w (be16 x16) \<Longrightarrow> roundtrips w (be_read 2) x16"
  "emits w (be32 x32) \<Longrightarrow> roundtrips w (be_read 4) x32"
  "emits w (be64 x64) \<Longrightarrow> roundtrips w (be_read 8) x64"
  "emits w (be128 x128) \<Longrightarrow> roundtrips w (be_read 16) x128"
  by (auto intro!: roundtripsI decodes_be_read)

lemma emits_put_bytes [wire_intros]: "emits (put_bytes bs) bs"
  by (rule exact_emits [OF exact_put_bytes])

lemma codec_law_be:
  "enc c16 = (\<lambda>x. put_bytes (be16 x)) \<Longrightarrow> dec c16 = be_read 2 \<Longrightarrow> codec_law (\<lambda>_. True) c16"
  "enc c32 = (\<lambda>x. put_bytes (be32 x)) \<Longrightarrow> dec c32 = be_read 4 \<Longrightarrow> codec_law (\<lambda>_. True) c32"
  "enc c64 = (\<lambda>x. put_bytes (be64 x)) \<Longrightarrow> dec c64 = be_read 8 \<Longrightarrow> codec_law (\<lambda>_. True) c64"
  by (unfold_locales; simp; blast intro: exact_put_bytes decodes_be_read length_be of_be_be)+

context wire_library
begin

lemma u16_codec: "codec_law (\<lambda>_. True) (me_u16 me)"
  by (rule codec_law_be) (auto simp: me_u16)

lemma u32_codec: "codec_law (\<lambda>_. True) (me_u32 me)"
  by (rule codec_law_be) (auto simp: me_u32)

lemma u64_codec: "codec_law (\<lambda>_. True) (me_u64 me)"
  by (rule codec_law_be) (auto simp: me_u64)

lemmas me_int_simps = me_u16 me_u32 me_u64

lemma sock_roundtrip: "plain_addr a \<Longrightarrow> roundtrips (enc (me_SocketAddr me) a) (dec (me_SocketAddr me)) a"
  by (rule codec_law.roundtrip [OF me_SocketAddr])

lemma sock_counted: "plain_addr a \<Longrightarrow> counted (enc (me_SocketAddr me) a)"
  by (rule codec_law.count [OF me_SocketAddr])

lemma ip_roundtrip: "roundtrips (enc (me_IpAddr me) ip) (dec (me_IpAddr me)) ip"
  by (rule codec_law.roundtrip [OF me_IpAddr]) simp

lemma ip_counted: "counted (enc (me_IpAddr me) ip)"
  by (rule codec_law.count [OF me_IpAddr]) simp

lemma vec_roundtrip: "length v < 2 ^ 16 \<Longrightarrow> roundtrips (enc (me_Vec_u8 me) v) (dec (me_Vec_u8 me)) v"
  by (rule codec_law.roundtrip [OF me_Vec_u8])

lemma vec_counted: "length v < 2 ^ 16 \<Longrightarrow> counted (enc (me_Vec_u8 me) v)"
  by (rule codec_law.count [OF me_Vec_u8])

lemma opt_u32_codec: "codec_law (\<lambda>_. True) (me_Option_u32 me (me_u32 me))"
  using me_Option_u32 [OF u32_codec] by (simp add: codec_law_def pred_option_def)

lemma opt_u64_codec: "codec_law (\<lambda>_. True) (me_Option_u64 me (me_u64 me))"
  using me_Option_u64 [OF u64_codec] by (simp add: codec_law_def pred_option_def)

end

subsection \<open>A concrete library\<close>

definition be_byteorder :: byteorder where
  "be_byteorder =
     \<lparr>bo_read_u8 = be_read 1, bo_read_u16 = be_read 2, bo_read_u32 = be_read 4,
      bo_read_u64 = be_read 8, bo_read_u128 = be_read 16,
      bo_write_u8 = (\<lambda>x. write_all (be8 x)), bo_write_u16 = (\<lambda>x. write_all (be16 x)),
      bo_write_u32 = (\<lambda>x. write_all (be32 x)), bo_write_u64 = (\<lambda>x. write_all (be64 x)),
      bo_write_u128 = (\<lambda>x. write_all (be128 x)),
      bo_get_u16 = (\<lambda>bs. of_be (take 2 bs)), bo_get_u32 = (\<lambda>bs. of_be (take 4 bs)),
      bo_get_u64 = (\<lambda>bs. of_be (take 8 bs)), bo_put_u16 = be16, bo_put_u64 = be64\<rparr>"

interpretation be_io: big_endian_io be_byteorder
  by unfold_locales (simp_all add: be_byteorder_def)

definition tagged :: "(u8 \<Rightarrow> 'a reader option) \<Rightarrow> 'a reader" where
  "tagged f = rbind (be_read 1) (\<lambda>t. case f t of Some r \<Rightarrow> r | None \<Rightarrow> rfail (Error InvalidData ''tag''))"

fun ip_layout :: "IpAddr \<Rightarrow> bytes" where
  "ip_layout (IpV4 a) = be8 4 @ be32 a"
| "ip_layout (IpV6 a) = be8 6 @ be128 a"

fun sock_layout :: "SocketAddr \<Rightarrow> bytes" where
  "sock_layout (SockV4 a) = be8 4 @ be32 (v4_ip a) @ be16 (v4_port a)"
| "sock_layout (SockV6 a) = be8 6 @ be128 (v6_ip a) @ be16 (v6_port a)"

definition be_ip_codec :: "IpAddr codec" where
  "be_ip_codec = \<lparr>enc = (\<lambda>a. put_bytes (ip_layout a)),
     dec = tagged (\<lambda>t. if t = 4 then Some (rbind (be_read 4) (\<lambda>a. rret (IpV4 a)))
       else if t = 6 then Some (rbind (be_read 16) (\<lambda>a. rret (IpV6 a))) else None)\<rparr>"

definition be_sock_codec :: "SocketAddr codec" where
  "be_sock_codec = \<lparr>enc = (\<lambda>a. put_bytes (sock_layout a)),
     dec = tagged (\<lambda>t.
       if t = 4 then Some (rbind (be_read 4) (\<lambda>a. rbind (be_read 2) (\<lambda>p. rret (SockV4 (sock_v4 a p)))))
       else if t = 6 then Some (rbind (be_read 16) (\<lambda>a. rbind (be_read 2) (\<lambda>p. rret (SockV6 (sock_v6 a p)))))
       else None)\<rparr>"

definition be_vec_codec :: "bytes codec" where
  "be_vec_codec = \<lparr>enc = (\<lambda>v. put_bytes (be64 (of_nat (length v)) @ v)),
     dec = rbind (be_read 8) (\<lambda>n. read_exact (unat (n :: u64)))\<rparr>"

definition be_option_codec :: "'a codec \<Rightarrow> 'a option codec" where
  "be_option_codec c = \<lparr>enc = (\<lambda>v. case v of None \<Rightarrow> put_bytes (be8 0)
        | Some x \<Rightarrow> wseq (put_bytes (be8 1)) (enc c x)),
     dec = tagged (\<lambda>t. if t = 0 then Some (rret None)
       else if t = 1 then Some (rbind (dec c) (\<lambda>x. rret (Some x))) else None)\<rparr>"

definition be_message_encoding :: "('s, 'f) message_encoding" where
  "be_message_encoding =
     \<lparr>me_u16 = \<lparr>enc = (\<lambda>x. put_bytes (be16 x)), dec = be_read 2\<rparr>,
      me_u32 = \<lparr>enc = (\<lambda>x. put_bytes (be32 x)), dec = be_read 4\<rparr>,
      me_u64 = \<lparr>enc = (\<lambda>x. put_bytes (be64 x)), dec = be_read 8\<rparr>,
      me_IpAddr = be_ip_codec, me_SocketAddr = be_sock_codec, me_Vec_u8 = be_vec_codec,
      me_Option_u32 = be_option_codec, me_Option_u64 = be_option_codec,
      me_Option_session = be_option_codec, me_Option_found = be_option_codec\<rparr>"

lemma be_ip_codec_law: "codec_law (\<lambda>_. True) be_ip_codec"
proof
  fix a
  have "decodes (dec be_ip_codec) (ip_layout a) a"
    by (cases a) (simp_all add: be_ip_codec_def decodes_def tagged_def wire_simps)
  moreover have "exact (enc be_ip_codec a) (ip_layout a)"
    by (simp add: be_ip_codec_def exact_put_bytes)
  ultimately show "\<exists>bs. exact (enc be_ip_codec a) bs \<and> decodes (dec be_ip_codec) bs a" by blast
qed

lemma be_sock_codec_law: "codec_law plain_addr be_sock_codec"
proof
  fix a
  assume a: "plain_addr a"
  have "decodes (dec be_sock_codec) (sock_layout a) a"
    using a
    by (cases a)
      (simp_all add: be_sock_codec_def decodes_def tagged_def wire_simps sock_v4_def sock_v6_def)
  moreover have "exact (enc be_sock_codec a) (sock_layout a)"
    by (simp add: be_sock_codec_def exact_put_bytes)
  ultimately show "\<exists>bs. exact (enc be_sock_codec a) bs \<and> decodes (dec be_sock_codec) bs a" by blast
qed

lemma be_vec_codec_law: "codec_law (\<lambda>v. length v < 2 ^ 16) be_vec_codec"
proof
  fix v :: bytes
  assume v: "length v < 2 ^ 16"
  then have "unat (of_nat (length v) :: u64) = length v"
    by (simp add: unat_of_nat)
  then have "decodes (dec be_vec_codec) (be64 (of_nat (length v)) @ v) v"
    by (simp add: be_vec_codec_def decodes_def wire_simps read_exact_def)
  moreover have "exact (enc be_vec_codec v) (be64 (of_nat (length v)) @ v)"
    by (simp add: be_vec_codec_def exact_put_bytes)
  ultimately show "\<exists>bs. exact (enc be_vec_codec v) bs \<and> decodes (dec be_vec_codec) bs v" by blast
qed

lemma be_option_codec_law:
  assumes "codec_law d c"
  shows "codec_law (pred_option d) (be_option_codec c)"
proof
  fix v :: "'a option"
  assume v: "pred_option d v"
  show "\<exists>bs. exact (enc (be_option_codec c) v) bs \<and> decodes (dec (be_option_codec c)) bs v"
  proof (cases v)
    case None
    have "decodes (dec (be_option_codec c)) (be8 0) None"
      by (simp add: be_option_codec_def decodes_def tagged_def wire_simps)
    with None show ?thesis
      by (auto simp: be_option_codec_def intro: exact_put_bytes)
  next
    case (Some x)
    with v have "d x" by simp
    with assms obtain bs where e: "exact (enc c x) bs" and "decodes (dec c) bs x"
      by (auto simp: codec_law_def)
    then have "decodes (dec (be_option_codec c)) (be8 1 @ bs) (Some x)"
      by (simp add: be_option_codec_def decodes_def tagged_def wire_simps)
    moreover have "exact (enc (be_option_codec c) (Some x)) (be8 1 @ bs)"
      using e by (simp add: be_option_codec_def exact_wseq exact_put_bytes)
    ultimately show ?thesis using Some by blast
  qed
qed

interpretation be_wire: wire_library be_byteorder be_message_encoding
  by (intro_locales)
    (simp add: wire_library_axioms_def be_message_encoding_def be_ip_codec_law be_sock_codec_law
      be_vec_codec_law [simplified] be_option_codec_law)

end
