(* ===== verification/Proto_Core.thy ===== *)
theory Proto_Core
  imports Wire
begin

section \<open>The common protocol types\<close>

text \<open>
  \<^verbatim>\<open>packages/agent_proto/src/lib.rs\<close>, \<^verbatim>\<open>rpc.rs\<close> and \<^verbatim>\<open>raw_slice.rs\<close>: session ids, port ranges, the
  request/response envelope and the raw slice that carries an already signed registration. Each
  type has its \<^verbatim>\<open>write_to\<close> and \<^verbatim>\<open>read_from\<close>; the codecs made of them satisfy \<open>codec_law\<close>
  relative to \<open>wire_library\<close>, stated as sublocales so that later theories use the law by name.
\<close>

record AgentSessionId =
  session_id :: u64
  account_id :: u64
  agent_id :: u64

datatype PortProto = Both | Tcp | Udp

record PortRange =
  pr_ip :: IpAddr
  port_start :: u16
  port_end :: u16
  port_proto :: PortProto

subsection \<open>\<^verbatim>\<open>impl MessageEncoding for AgentSessionId\<close>\<close>

definition AgentSessionId_STATIC_SIZE :: "nat option" where
  "AgentSessionId_STATIC_SIZE = Some (8 * 3)"

definition write_AgentSessionId :: "('s, 'f) message_encoding \<Rightarrow> AgentSessionId \<Rightarrow> writer" where
  "write_AgentSessionId me x =
     wseq (enc (me_u64 me) (session_id x))
    (wseq (enc (me_u64 me) (account_id x))
    (wseq (enc (me_u64 me) (agent_id x)) wok))"

definition read_AgentSessionId :: "byteorder \<Rightarrow> AgentSessionId reader" where
  "read_AgentSessionId bo =
     rbind (bo_read_u64 bo) (\<lambda>sid.
     rbind (bo_read_u64 bo) (\<lambda>acc.
     rbind (bo_read_u64 bo) (\<lambda>ag.
     rret \<lparr>session_id = sid, account_id = acc, agent_id = ag\<rparr>)))"

definition session_codec :: "byteorder \<Rightarrow> ('s, 'f) message_encoding \<Rightarrow> AgentSessionId codec" where
  "session_codec bo me = \<lparr>enc = write_AgentSessionId me, dec = read_AgentSessionId bo\<rparr>"

subsection \<open>\<^verbatim>\<open>impl MessageEncoding for PortProto\<close>\<close>

definition PortProto_STATIC_SIZE :: "nat option" where
  "PortProto_STATIC_SIZE = Some 1"

fun write_PortProto :: "byteorder \<Rightarrow> PortProto \<Rightarrow> writer" where
  "write_PortProto bo Tcp = wthen (bo_write_u8 bo 1) (wcount 1)"
| "write_PortProto bo Udp = wthen (bo_write_u8 bo 2) (wcount 1)"
| "write_PortProto bo Both = wthen (bo_write_u8 bo 3) (wcount 1)"

definition read_PortProto :: "byteorder \<Rightarrow> PortProto reader" where
  "read_PortProto bo = rbind (bo_read_u8 bo) (\<lambda>v.
     if v = 1 then rret Tcp else if v = 2 then rret Udp else if v = 3 then rret Both
     else rfail (Error OtherKind ''invalid port proto''))"

subsection \<open>\<^verbatim>\<open>impl MessageEncoding for PortRange\<close>\<close>

definition write_PortRange ::
  "byteorder \<Rightarrow> ('s, 'f) message_encoding \<Rightarrow> PortRange \<Rightarrow> writer" where
  "write_PortRange bo me x =
     wseq (wcount 4)
    (wseq (enc (me_IpAddr me) (pr_ip x))
    (wthen (bo_write_u16 bo (port_start x))
    (wthen (bo_write_u16 bo (port_end x))
    (wseq (write_PortProto bo (port_proto x)) wok))))"

definition read_PortRange ::
  "byteorder \<Rightarrow> ('s, 'f) message_encoding \<Rightarrow> PortRange reader" where
  "read_PortRange bo me =
     rbind (dec (me_IpAddr me)) (\<lambda>ip.
     rbind (bo_read_u16 bo) (\<lambda>ps.
     rbind (bo_read_u16 bo) (\<lambda>pe.
     rbind (read_PortProto bo) (\<lambda>pp.
     rret \<lparr>pr_ip = ip, port_start = ps, port_end = pe, port_proto = pp\<rparr>))))"

definition port_range_codec :: "byteorder \<Rightarrow> ('s, 'f) message_encoding \<Rightarrow> PortRange codec" where
  "port_range_codec bo me = \<lparr>enc = write_PortRange bo me, dec = read_PortRange bo me\<rparr>"

subsection \<open>\<^verbatim>\<open>ControlRpcMessage\<close> and \<^verbatim>\<open>RawSlice\<close>\<close>

record 'a ControlRpcMessage =
  request_id :: u64
  content :: 'a

definition write_ControlRpcMessage ::
  "('s, 'f) message_encoding \<Rightarrow> ('a \<Rightarrow> writer) \<Rightarrow> 'a ControlRpcMessage \<Rightarrow> writer" where
  "write_ControlRpcMessage me write_content x =
     wseq (enc (me_u64 me) (request_id x))
    (wseq (write_content (content x)) wok)"

definition read_ControlRpcMessage ::
  "byteorder \<Rightarrow> 'a reader \<Rightarrow> 'a ControlRpcMessage reader" where
  "read_ControlRpcMessage bo read_content =
     rbind (bo_read_u64 bo) (\<lambda>rid.
     rbind read_content (\<lambda>c.
     rret \<lparr>request_id = rid, content = c\<rparr>))"

definition rpc_static_size :: "nat option \<Rightarrow> nat option" where
  "rpc_static_size inner = map_option (\<lambda>v. 8 + v) inner"

definition write_RawSlice :: "bytes \<Rightarrow> writer" where
  "write_RawSlice raw s = and_then (write_some raw s) (\<lambda>(n, s').
     if n \<noteq> length raw then Inl (Error WriteZero ''not enough space to write raw slice'')
     else Inr (length raw, s'))"

definition read_RawSlice :: "bytes reader" where
  "read_RawSlice = rfail (Error Unsupported ''cannot read for RawSlice'')"

subsection \<open>Laws\<close>

lemma read_PortProto_of_write:
  assumes "big_endian_io bo"
  shows "roundtrips (write_PortProto bo p) (read_PortProto bo) p"
    and "counted (write_PortProto bo p)"
proof -
  have w: "bo_write_u8 bo x = write_all (be8 x)" and r: "bo_read_u8 bo = be_read 1" for x
    using big_endian_io.write_u8 [OF assms] big_endian_io.read_u8 [OF assms] by blast+
  have puts: "puts (wthen (write_all (be8 x)) (wcount 1)) 1 (be8 x)" for x
    using puts_wthen [OF puts_write_all [of "be8 x"] puts_wcount [of 1]] by simp
  show "roundtrips (write_PortProto bo p) (read_PortProto bo) p"
    by (cases p; simp only: write_PortProto.simps w; rule roundtripsI [OF puts_emits [OF puts]];
        simp add: r read_PortProto_def decodes_def wire_simps)
  show "counted (write_PortProto bo p)"
    by (cases p; simp only: write_PortProto.simps w; rule counted_puts [OF puts]; simp)
qed

context wire_library
begin

lemma write_AgentSessionId_exact:
  "exact (write_AgentSessionId me x) (be64 (session_id x) @ be64 (account_id x) @ be64 (agent_id x))"
  unfolding write_AgentSessionId_def me_u64
  using exact_wseq [OF exact_put_bytes exact_wseq [OF exact_put_bytes
        exact_wseq [OF exact_put_bytes exact_wok]]] by simp

lemma read_AgentSessionId_decodes:
  "decodes (read_AgentSessionId bo) (be64 (session_id x) @ be64 (account_id x) @ be64 (agent_id x)) x"
  by (simp add: decodes_def read_AgentSessionId_def bo_simps wire_simps)

lemma session_codec_law: "codec_law (\<lambda>_. True) (session_codec bo me)"
  using write_AgentSessionId_exact read_AgentSessionId_decodes
  by unfold_locales (auto simp: session_codec_def)

lemma write_PortRange_counted: "counted (write_PortRange bo me x)"
proof -
  obtain ips where ips: "puts (enc (me_IpAddr me) (pr_ip x)) (length ips) ips"
    using ip_counted countedE by blast
  obtain pps where pps: "puts (write_PortProto bo (port_proto x)) (length pps) pps"
    using read_PortProto_of_write(2) [OF big_endian_io_axioms] countedE by blast
  have "puts (write_PortRange bo me x) (4 + (length ips + (length pps + 0)))
      ([] @ ips @ be16 (port_start x) @ be16 (port_end x) @ pps @ [])"
    unfolding write_PortRange_def write_u16
    by (intro puts_wseq puts_write_all_then puts_wcount puts_wok ips pps)
  then show ?thesis by (rule counted_puts) simp
qed

lemma PortRange_roundtrips: "roundtrips (write_PortRange bo me x) (read_PortRange bo me) x"
proof -
  have read: "read_PortRange bo me = rbind (rret ()) (\<lambda>_. read_PortRange bo me)"
    by (simp add: fun_eq_iff wire_simps)
  show ?thesis
    unfolding write_PortRange_def
    apply (subst read)
    unfolding read_PortRange_def bo_simps
    by (rule roundtrips_wseq roundtrips_wthen roundtrips_wcount ip_roundtrip be_read_roundtrips
        emits_write_all read_PortProto_of_write(1) [OF big_endian_io_axioms]
        | (rule roundtrips_done, simp))+
qed

end

sublocale wire_library \<subseteq> session: codec_law "\<lambda>_. True" "session_codec bo me"
  by (rule session_codec_law)

context wire_library
begin

lemma session_roundtrips: "roundtrips (write_AgentSessionId me x) (read_AgentSessionId bo) x"
  using session.roundtrip [of x] by (simp add: session_codec_def)

lemma session_counted: "counted (write_AgentSessionId me x)"
  using session.count [of x] by (simp add: session_codec_def)

lemma rpc_roundtrips:
  assumes "roundtrips (wc (content x)) rc (content x)"
  shows "roundtrips (write_ControlRpcMessage me wc x) (read_ControlRpcMessage bo rc) x"
  unfolding write_ControlRpcMessage_def read_ControlRpcMessage_def bo_simps me_u64
  by (rule roundtrips_wseq be_read_roundtrips emits_put_bytes assms
      | (rule roundtrips_done, simp))+

lemma rpc_counted:
  "counted (wc (content x)) \<Longrightarrow> counted (write_ControlRpcMessage me wc x)"
  unfolding write_ControlRpcMessage_def me_u64
  by (intro counted_wseq counted_put_bytes counted_wok)

end

text \<open>A raw slice is written whole or not at all.\<close>

lemma write_RawSlice_vec: "write_RawSlice raw (vec_sink xs) = Inr (length raw, vec_sink (xs @ raw))"
  by (simp add: write_RawSlice_def write_some_def vec_sink_def append_sink_def)

lemma write_RawSlice_full:
  assumes "\<not> fits raw s"
  shows "write_RawSlice raw s = Inl (Error WriteZero ''not enough space to write raw slice'')"
  using assms by (auto simp: write_RawSlice_def write_some_def fits_def Let_def split: option.splits)

end
