(* ===== verification/Control_Messages.thy ===== *)
theory Control_Messages
  imports Proto_Core
begin

section \<open>The control protocol messages\<close>

text \<open>
  \<^verbatim>\<open>packages/agent_proto/src/control_messages.rs\<close> and \<^verbatim>\<open>hmac.rs\<close>: the requests an agent sends, the
  responses it receives, the MTU probe pattern and the signed registration. The data types come
  first, then one \<^verbatim>\<open>write_to\<close> and one \<^verbatim>\<open>read_from\<close> per type in the order of the source, then the
  laws. The MAC library (\<^verbatim>\<open>hmac\<close>, \<^verbatim>\<open>sha2\<close>) is the argument \<open>mac_lib\<close>.
\<close>

unbundle bit_operations_syntax

subsection \<open>The MTU test pattern\<close>

definition MTU_PATTERN_SIZE :: nat where
  "MTU_PATTERN_SIZE = 4"

definition MTU_TEST_PATTERN :: bytes where
  "MTU_TEST_PATTERN = map (\<lambda>i. [0x0a, 0x0b, 0x0c, 0x0d] ! (i mod 4)) [0..<2048]"

definition write_mtu_pattern :: "nat \<Rightarrow> writer" where
  "write_mtu_pattern len s =
     (if \<not> len \<le> 2048 then Inl (Panic ''assertion failed: len <= 2048'')
      else wthen (write_all (take len MTU_TEST_PATTERN)) (wcount len) s)"

function verify_mtu_from :: "nat \<Rightarrow> nat \<Rightarrow> unit reader" where
  "verify_mtu_from len i bs =
     (if i < len then
        let n = min (len - i) 128 in
        and_then (read_exact n bs) (\<lambda>(buffer, rest).
          if buffer \<noteq> take n (drop (i mod MTU_PATTERN_SIZE) MTU_TEST_PATTERN)
          then Inl (Error InvalidData ''invalid mtu test pattern'')
          else verify_mtu_from len (i + n) rest)
      else Inr ((), bs))"
  by pat_completeness auto
termination
  by (relation "measure (\<lambda>(len, i, bs). len - i)") auto

declare verify_mtu_from.simps [simp del]

definition read_and_verify_mtu_pattern :: "nat \<Rightarrow> unit reader" where
  "read_and_verify_mtu_pattern len = verify_mtu_from len 0"

subsection \<open>Data\<close>

record CheckMtuReceived =
  cmr_id :: u64
  cmr_message_size :: u32

record SendMtuTest =
  smt_id :: u64
  smt_data_center_id :: u32
  smt_udp_payload_length :: u32

record AgentCheckPortMapping =
  acpm_agent_session_id :: AgentSessionId
  acpm_port_range :: PortRange

record Ping =
  ping_now :: u64
  ping_current_ping :: "u32 option"
  ping_session_id :: "AgentSessionId option"

record AgentRegister =
  reg_proto_version :: u64
  reg_account_id :: u64
  reg_agent_id :: u64
  reg_agent_version :: u64
  reg_timestamp :: u64
  reg_client_addr :: SocketAddr
  reg_tunnel_addr :: SocketAddr
  reg_signature :: bytes

record AgentRegisterV1 =
  reg1_account_id :: u64
  reg1_agent_id :: u64
  reg1_agent_version :: u64
  reg1_timestamp :: u64
  reg1_client_addr :: SocketAddr
  reg1_tunnel_addr :: SocketAddr
  reg1_signature :: bytes

datatype ControlRequest =
    ReqPing Ping
  | ReqAgentRegister AgentRegister
  | ReqAgentKeepAlive AgentSessionId
  | ReqSetupUdpChannel AgentSessionId
  | ReqAgentCheckPortMapping AgentCheckPortMapping
  | ReqCheckMtuReceived CheckMtuReceived
  | ReqSendMtuTest SendMtuTest

datatype ControlRequestId =
    PingV1 | AgentRegisterV1Id | AgentKeepAliveV1 | SetupUdpChannelV1 | AgentCheckPortMappingV1
  | PingV2 | AgentRegisterV2 | CheckMtuReceivedV1 | SendMtuTestV1 | END

record CheckMtuReceivedAck =
  ack_id :: u64
  ack_message_length :: u32
  ack_ip_header_length :: u32
  ack_udp_payload_length :: u32

record MtuTestPacket =
  mtp_data_center_id :: u32
  mtp_udp_payload_length :: u32

datatype MtuTestFailCode = InvalidUdpPayloadLength | InvalidDcId | UnknownFailCode

record MtuTestFail =
  mtf_error_code :: MtuTestFailCode

datatype AgentPortMappingFound = ToAgent AgentSessionId

record AgentPortMapping =
  apm_range :: PortRange
  apm_found :: "AgentPortMappingFound option"

record UdpChannelDetails =
  ucd_tunnel_addr :: SocketAddr
  ucd_token :: bytes

record Pong =
  pong_request_now :: u64
  pong_server_now :: u64
  pong_server_id :: u64
  pong_data_center_id :: u32
  pong_client_addr :: SocketAddr
  pong_tunnel_addr :: SocketAddr
  pong_session_expire_at :: "u64 option"

record AgentRegistered =
  registered_id :: AgentSessionId
  registered_expires_at :: u64

datatype ControlResponse =
    ResPong Pong
  | InvalidSignature
  | Unauthorized
  | RequestQueued
  | TryAgainLater
  | ResAgentRegistered AgentRegistered
  | ResAgentPortMapping AgentPortMapping
  | ResUdpChannelDetails UdpChannelDetails
  | ResCheckMtuReceivedAck CheckMtuReceivedAck
  | ResMtuTestPacket MtuTestPacket
  | ResMtuTestFail MtuTestFail

type_synonym proto_encoding = "(AgentSessionId, AgentPortMappingFound) message_encoding"

subsection \<open>Request identifiers\<close>

fun request_num :: "ControlRequestId \<Rightarrow> u32" where
  "request_num PingV1 = 1"
| "request_num AgentRegisterV1Id = 2"
| "request_num AgentKeepAliveV1 = 3"
| "request_num SetupUdpChannelV1 = 4"
| "request_num AgentCheckPortMappingV1 = 5"
| "request_num PingV2 = 6"
| "request_num AgentRegisterV2 = 7"
| "request_num CheckMtuReceivedV1 = 8"
| "request_num SendMtuTestV1 = 9"
| "request_num END = 10"

text \<open>
  \<^verbatim>\<open>std::mem::transmute\<close> of a number to the enumeration: \<open>None\<close> where the number is no
  discriminant, which is undefined behaviour in the source.
\<close>

definition transmute_request_id :: "u32 \<Rightarrow> ControlRequestId option" where
  "transmute_request_id num = find (\<lambda>v. request_num v = num)
     [PingV1, AgentRegisterV1Id, AgentKeepAliveV1, SetupUdpChannelV1, AgentCheckPortMappingV1,
      PingV2, AgentRegisterV2, CheckMtuReceivedV1, SendMtuTestV1, END]"

definition ControlRequestId_from_num :: "u32 \<Rightarrow> ControlRequestId option" where
  "ControlRequestId_from_num num =
     (if request_num END \<le> num \<or> num = 0 then None else transmute_request_id num)"

definition write_ControlRequestId :: "proto_encoding \<Rightarrow> ControlRequestId \<Rightarrow> writer" where
  "write_ControlRequestId me rid = enc (me_u32 me) (request_num rid)"

definition read_ControlRequestId :: "proto_encoding \<Rightarrow> ControlRequestId reader" where
  "read_ControlRequestId me = rbind (dec (me_u32 me)) (\<lambda>v.
     case ControlRequestId_from_num v of
       None \<Rightarrow> rfail (Error InvalidData ''invalid request id'')
     | Some rid \<Rightarrow> rret rid)"

subsection \<open>Requests\<close>

definition write_CheckMtuReceived :: "proto_encoding \<Rightarrow> CheckMtuReceived \<Rightarrow> writer" where
  "write_CheckMtuReceived me x =
     wseq (enc (me_u64 me) (cmr_id x))
    (wseq (enc (me_u32 me) (cmr_message_size x))
    (wseq (write_mtu_pattern (unat (cmr_message_size x))) wok))"

definition read_CheckMtuReceived :: "proto_encoding \<Rightarrow> CheckMtuReceived reader" where
  "read_CheckMtuReceived me =
     rbind (dec (me_u64 me)) (\<lambda>i.
     rbind (dec (me_u32 me)) (\<lambda>message_size.
     rbind (read_and_verify_mtu_pattern (unat message_size)) (\<lambda>_.
     rret \<lparr>cmr_id = i, cmr_message_size = message_size\<rparr>)))"

definition SendMtuTest_STATIC_SIZE :: "nat option" where
  "SendMtuTest_STATIC_SIZE = Some (8 + 4 + 4)"

definition write_SendMtuTest :: "proto_encoding \<Rightarrow> SendMtuTest \<Rightarrow> writer" where
  "write_SendMtuTest me x =
     wseq (enc (me_u64 me) (smt_id x))
    (wseq (enc (me_u32 me) (smt_data_center_id x))
    (wseq (enc (me_u32 me) (smt_udp_payload_length x)) wok))"

definition read_SendMtuTest :: "proto_encoding \<Rightarrow> SendMtuTest reader" where
  "read_SendMtuTest me =
     rbind (dec (me_u64 me)) (\<lambda>i.
     rbind (dec (me_u32 me)) (\<lambda>dc.
     rbind (dec (me_u32 me)) (\<lambda>len.
     rret \<lparr>smt_id = i, smt_data_center_id = dc, smt_udp_payload_length = len\<rparr>)))"

definition write_AgentCheckPortMapping ::
  "byteorder \<Rightarrow> proto_encoding \<Rightarrow> AgentCheckPortMapping \<Rightarrow> writer" where
  "write_AgentCheckPortMapping bo me x =
     wseq (write_AgentSessionId me (acpm_agent_session_id x))
    (wseq (write_PortRange bo me (acpm_port_range x)) wok)"

definition read_AgentCheckPortMapping ::
  "byteorder \<Rightarrow> proto_encoding \<Rightarrow> AgentCheckPortMapping reader" where
  "read_AgentCheckPortMapping bo me =
     rbind (read_AgentSessionId bo) (\<lambda>s.
     rbind (read_PortRange bo me) (\<lambda>r.
     rret \<lparr>acpm_agent_session_id = s, acpm_port_range = r\<rparr>))"

definition write_Ping :: "byteorder \<Rightarrow> proto_encoding \<Rightarrow> Ping \<Rightarrow> writer" where
  "write_Ping bo me x =
     wseq (enc (me_u64 me) (ping_now x))
    (wseq (enc (me_Option_u32 me (me_u32 me)) (ping_current_ping x))
    (wseq (enc (me_Option_session me (session_codec bo me)) (ping_session_id x)) wok))"

definition read_Ping :: "byteorder \<Rightarrow> proto_encoding \<Rightarrow> Ping reader" where
  "read_Ping bo me =
     rbind (dec (me_u64 me)) (\<lambda>now.
     rbind (dec (me_Option_u32 me (me_u32 me))) (\<lambda>cp.
     rbind (dec (me_Option_session me (session_codec bo me))) (\<lambda>sid.
     rret \<lparr>ping_now = now, ping_current_ping = cp, ping_session_id = sid\<rparr>)))"

subsection \<open>Registration\<close>

definition ENCODING_INCLUDES_VERSION_BIT :: u64 where
  "ENCODING_INCLUDES_VERSION_BIT = push_bit 63 1"

definition write_AgentRegister :: "proto_encoding \<Rightarrow> AgentRegister \<Rightarrow> writer" where
  "write_AgentRegister me x =
     wseq
      (if reg_proto_version x \<le> 1 then
         (if reg_account_id x AND ENCODING_INCLUDES_VERSION_BIT = ENCODING_INCLUDES_VERSION_BIT
          then wfail (Error InvalidInput ''account id too large for proto version 1'')
          else enc (me_u64 me) (reg_account_id x))
       else
         (if reg_proto_version x AND ENCODING_INCLUDES_VERSION_BIT = ENCODING_INCLUDES_VERSION_BIT
          then wfail (Error InvalidInput ''invalid proto version'')
          else wseq (enc (me_u64 me) (reg_proto_version x OR ENCODING_INCLUDES_VERSION_BIT))
                    (enc (me_u64 me) (reg_account_id x))))
    (wseq (enc (me_u64 me) (reg_agent_id x))
    (wseq (enc (me_u64 me) (reg_agent_version x))
    (wseq (enc (me_u64 me) (reg_timestamp x))
    (wseq (enc (me_SocketAddr me) (reg_client_addr x))
    (wseq (enc (me_SocketAddr me) (reg_tunnel_addr x))
    (wseq (wthen (write_all (reg_signature x)) (wcount (length (reg_signature x)))) wok))))))"

definition read_AgentRegister :: "proto_encoding \<Rightarrow> AgentRegister reader" where
  "read_AgentRegister me =
     rbind (rbind (dec (me_u64 me)) (\<lambda>first_word.
       if first_word AND ENCODING_INCLUDES_VERSION_BIT = ENCODING_INCLUDES_VERSION_BIT
       then rbind (dec (me_u64 me)) (\<lambda>acc.
              rret (first_word AND NOT ENCODING_INCLUDES_VERSION_BIT, acc))
       else rret (1, first_word))) (\<lambda>(proto_version, acc).
     rbind (dec (me_u64 me)) (\<lambda>ag.
     rbind (dec (me_u64 me)) (\<lambda>ver.
     rbind (dec (me_u64 me)) (\<lambda>ts.
     rbind (dec (me_SocketAddr me)) (\<lambda>ca.
     rbind (dec (me_SocketAddr me)) (\<lambda>ta.
     rbind (read_exact 32) (\<lambda>sig.
     rret \<lparr>reg_proto_version = proto_version, reg_account_id = acc, reg_agent_id = ag,
           reg_agent_version = ver, reg_timestamp = ts, reg_client_addr = ca,
           reg_tunnel_addr = ta, reg_signature = sig\<rparr>)))))))"

definition write_AgentRegisterV1 ::
  "byteorder \<Rightarrow> proto_encoding \<Rightarrow> AgentRegisterV1 \<Rightarrow> writer" where
  "write_AgentRegisterV1 bo me x =
     wthen (bo_write_u64 bo (reg1_account_id x))
    (wthen (bo_write_u64 bo (reg1_agent_id x))
    (wthen (bo_write_u64 bo (reg1_agent_version x))
    (wthen (bo_write_u64 bo (reg1_timestamp x))
    (wseq (wcount (8 + 8 + 8 + 8))
    (wseq (enc (me_SocketAddr me) (reg1_client_addr x))
    (wseq (enc (me_SocketAddr me) (reg1_tunnel_addr x))
          (\<lambda>s. and_then (write_some (reg1_signature x) s) (\<lambda>(n, s').
             if n \<noteq> 32 then Inl (Error WriteZero ''failed to write full signature'')
             else Inr (32, s')))))))))"

definition read_AgentRegisterV1 :: "byteorder \<Rightarrow> proto_encoding \<Rightarrow> AgentRegisterV1 reader" where
  "read_AgentRegisterV1 bo me =
     rbind (bo_read_u64 bo) (\<lambda>acc.
     rbind (bo_read_u64 bo) (\<lambda>ag.
     rbind (bo_read_u64 bo) (\<lambda>ver.
     rbind (bo_read_u64 bo) (\<lambda>ts.
     rbind (dec (me_SocketAddr me)) (\<lambda>ca.
     rbind (dec (me_SocketAddr me)) (\<lambda>ta.
     rbind (read_some 32) (\<lambda>sig.
     if length sig \<noteq> 32 then rfail (Error UnexpectedEof ''missing signature'')
     else rret \<lparr>reg1_account_id = acc, reg1_agent_id = ag, reg1_agent_version = ver,
           reg1_timestamp = ts, reg1_client_addr = ca, reg1_tunnel_addr = ta,
           reg1_signature = sig\<rparr>)))))))"

definition AgentRegisterV1_upgrade :: "AgentRegisterV1 \<Rightarrow> AgentRegister" where
  "AgentRegisterV1_upgrade x =
     \<lparr>reg_proto_version = 1, reg_account_id = reg1_account_id x, reg_agent_id = reg1_agent_id x,
      reg_agent_version = reg1_agent_version x, reg_timestamp = reg1_timestamp x,
      reg_client_addr = reg1_client_addr x, reg_tunnel_addr = reg1_tunnel_addr x,
      reg_signature = reg1_signature x\<rparr>"

subsection \<open>Signing\<close>

text \<open>
  The MAC of the \<^verbatim>\<open>hmac\<close> and \<^verbatim>\<open>sha2\<close> crates: a key made from a secret, the tag of a message, and the
  check of a tag. \<open>HmacSha256_*\<close> are the wrappers of \<^verbatim>\<open>hmac.rs\<close>.
\<close>

record 'k mac_lib =
  mac_new_from_slice :: "bytes \<Rightarrow> 'k option"
  mac_finalize :: "'k \<Rightarrow> bytes \<Rightarrow> bytes"
  mac_verify_slice :: "'k \<Rightarrow> bytes \<Rightarrow> bytes \<Rightarrow> bool"

definition HmacSha256_create :: "'k mac_lib \<Rightarrow> bytes \<Rightarrow> io_error + 'k" where
  "HmacSha256_create mac secret =
     (case mac_new_from_slice mac secret of None \<Rightarrow> Inl (Panic ''unwrap'') | Some k \<Rightarrow> Inr k)"

definition HmacSha256_verify :: "'k mac_lib \<Rightarrow> 'k \<Rightarrow> bytes \<Rightarrow> bytes \<Rightarrow> bool" where
  "HmacSha256_verify mac k data sig = mac_verify_slice mac k data sig"

definition HmacSha256_sign :: "'k mac_lib \<Rightarrow> 'k \<Rightarrow> bytes \<Rightarrow> bytes" where
  "HmacSha256_sign mac k data = mac_finalize mac k data"

text \<open>The buffer is cleared first, so its old contents do not matter.\<close>

definition write_plain :: "proto_encoding \<Rightarrow> AgentRegister \<Rightarrow> bytes \<Rightarrow> io_error + bytes" where
  "write_plain me x temp_buffer =
     (case write_AgentRegister me x (vec_sink []) of
        Inl e \<Rightarrow> Inl (Panic ''unwrap'')
      | Inr (_, s) \<Rightarrow>
          if \<not> length (reg_signature x) \<le> length (written s)
          then Inl (Panic ''assertion failed: self.signature.len() <= temp_buffer.len()'')
          else Inr (take (length (written s) - length (reg_signature x)) (written s)))"

definition update_signature ::
  "'k mac_lib \<Rightarrow> proto_encoding \<Rightarrow> 'k \<Rightarrow> bytes \<Rightarrow> AgentRegister \<Rightarrow> io_error + (AgentRegister \<times> bytes)" where
  "update_signature mac me k temp_buffer x =
     and_then (write_plain me x temp_buffer) (\<lambda>buf.
       Inr (x\<lparr>reg_signature := HmacSha256_sign mac k buf\<rparr>, buf))"

definition verify_signature ::
  "'k mac_lib \<Rightarrow> proto_encoding \<Rightarrow> 'k \<Rightarrow> bytes \<Rightarrow> AgentRegister \<Rightarrow> io_error + (bool \<times> bytes)" where
  "verify_signature mac me k temp_buffer x =
     and_then (write_plain me x temp_buffer) (\<lambda>buf.
       Inr (HmacSha256_verify mac k buf (reg_signature x), buf))"

subsection \<open>\<^verbatim>\<open>impl MessageEncoding for ControlRequest\<close>\<close>

fun write_ControlRequest :: "byteorder \<Rightarrow> proto_encoding \<Rightarrow> ControlRequest \<Rightarrow> writer" where
  "write_ControlRequest bo me (ReqPing d) =
     wseq (write_ControlRequestId me PingV2) (wseq (write_Ping bo me d) wok)"
| "write_ControlRequest bo me (ReqAgentRegister d) =
     wseq (if reg_proto_version d \<le> 1 then write_ControlRequestId me AgentRegisterV1Id
           else write_ControlRequestId me AgentRegisterV2)
    (wseq (write_AgentRegister me d) wok)"
| "write_ControlRequest bo me (ReqAgentKeepAlive d) =
     wseq (write_ControlRequestId me AgentKeepAliveV1) (wseq (write_AgentSessionId me d) wok)"
| "write_ControlRequest bo me (ReqSetupUdpChannel d) =
     wseq (write_ControlRequestId me SetupUdpChannelV1) (wseq (write_AgentSessionId me d) wok)"
| "write_ControlRequest bo me (ReqAgentCheckPortMapping d) =
     wseq (write_ControlRequestId me AgentCheckPortMappingV1)
    (wseq (write_AgentCheckPortMapping bo me d) wok)"
| "write_ControlRequest bo me (ReqCheckMtuReceived d) =
     wseq (write_ControlRequestId me CheckMtuReceivedV1) (wseq (write_CheckMtuReceived me d) wok)"
| "write_ControlRequest bo me (ReqSendMtuTest d) =
     wseq (write_ControlRequestId me SendMtuTestV1) (wseq (write_SendMtuTest me d) wok)"

definition read_ControlRequest :: "byteorder \<Rightarrow> proto_encoding \<Rightarrow> ControlRequest reader" where
  "read_ControlRequest bo me = rbind (read_ControlRequestId me) (\<lambda>rid. case rid of
       PingV2 \<Rightarrow> rbind (read_Ping bo me) (\<lambda>d. rret (ReqPing d))
     | AgentRegisterV1Id \<Rightarrow>
         rbind (read_AgentRegisterV1 bo me) (\<lambda>d. rret (ReqAgentRegister (AgentRegisterV1_upgrade d)))
     | AgentRegisterV2 \<Rightarrow> rbind (read_AgentRegister me) (\<lambda>d. rret (ReqAgentRegister d))
     | AgentKeepAliveV1 \<Rightarrow> rbind (read_AgentSessionId bo) (\<lambda>d. rret (ReqAgentKeepAlive d))
     | SetupUdpChannelV1 \<Rightarrow> rbind (read_AgentSessionId bo) (\<lambda>d. rret (ReqSetupUdpChannel d))
     | AgentCheckPortMappingV1 \<Rightarrow>
         rbind (read_AgentCheckPortMapping bo me) (\<lambda>d. rret (ReqAgentCheckPortMapping d))
     | CheckMtuReceivedV1 \<Rightarrow> rbind (read_CheckMtuReceived me) (\<lambda>d. rret (ReqCheckMtuReceived d))
     | SendMtuTestV1 \<Rightarrow> rbind (read_SendMtuTest me) (\<lambda>d. rret (ReqSendMtuTest d))
     | PingV1 \<Rightarrow> rbind (dec (me_u64 me)) (\<lambda>now.
         rret (ReqPing \<lparr>ping_now = now, ping_current_ping = None, ping_session_id = None\<rparr>))
     | END \<Rightarrow> rfail (Error OtherKind ''old control request no longer supported''))"

subsection \<open>Responses\<close>

definition CheckMtuReceivedAck_STATIC_SIZE :: "nat option" where
  "CheckMtuReceivedAck_STATIC_SIZE = Some (8 + 4 + 4 + 4)"

definition write_CheckMtuReceivedAck :: "proto_encoding \<Rightarrow> CheckMtuReceivedAck \<Rightarrow> writer" where
  "write_CheckMtuReceivedAck me x =
     wseq (enc (me_u64 me) (ack_id x))
    (wseq (enc (me_u32 me) (ack_message_length x))
    (wseq (enc (me_u32 me) (ack_ip_header_length x))
    (wseq (enc (me_u32 me) (ack_udp_payload_length x)) wok)))"

definition read_CheckMtuReceivedAck :: "proto_encoding \<Rightarrow> CheckMtuReceivedAck reader" where
  "read_CheckMtuReceivedAck me =
     rbind (dec (me_u64 me)) (\<lambda>i.
     rbind (dec (me_u32 me)) (\<lambda>ml.
     rbind (dec (me_u32 me)) (\<lambda>ih.
     rbind (dec (me_u32 me)) (\<lambda>up.
     rret \<lparr>ack_id = i, ack_message_length = ml, ack_ip_header_length = ih,
           ack_udp_payload_length = up\<rparr>))))"

text \<open>The first count is dropped: \<^verbatim>\<open>self.data_center_id.write_to(out)?; self.udp_payload_length.write_to(out)\<close>.\<close>

definition MtuTestPacket_STATIC_SIZE :: "nat option" where
  "MtuTestPacket_STATIC_SIZE = Some 4"

definition write_MtuTestPacket :: "proto_encoding \<Rightarrow> MtuTestPacket \<Rightarrow> writer" where
  "write_MtuTestPacket me x =
     wthen (enc (me_u32 me) (mtp_data_center_id x))
           (enc (me_u32 me) (mtp_udp_payload_length x))"

definition read_MtuTestPacket :: "proto_encoding \<Rightarrow> MtuTestPacket reader" where
  "read_MtuTestPacket me =
     rbind (dec (me_u32 me)) (\<lambda>dc.
     rbind (dec (me_u32 me)) (\<lambda>len.
     rret \<lparr>mtp_data_center_id = dc, mtp_udp_payload_length = len\<rparr>))"

fun fail_code_num :: "MtuTestFailCode \<Rightarrow> u32" where
  "fail_code_num InvalidUdpPayloadLength = 0"
| "fail_code_num InvalidDcId = 1"
| "fail_code_num UnknownFailCode = 2"

definition transmute_fail_code :: "u32 \<Rightarrow> MtuTestFailCode option" where
  "transmute_fail_code num = find (\<lambda>v. fail_code_num v = num)
     [InvalidUdpPayloadLength, InvalidDcId, UnknownFailCode]"

definition write_MtuTestFailCode :: "proto_encoding \<Rightarrow> MtuTestFailCode \<Rightarrow> writer" where
  "write_MtuTestFailCode me x = enc (me_u32 me) (fail_code_num x)"

definition read_MtuTestFailCode :: "proto_encoding \<Rightarrow> MtuTestFailCode reader" where
  "read_MtuTestFailCode me = rbind (dec (me_u32 me)) (\<lambda>num.
     if fail_code_num UnknownFailCode \<le> num then rret UnknownFailCode
     else (case transmute_fail_code num of
             Some v \<Rightarrow> rret v
           | None \<Rightarrow> rfail (Panic ''transmute: invalid discriminant'')))"

definition write_MtuTestFail :: "proto_encoding \<Rightarrow> MtuTestFail \<Rightarrow> writer" where
  "write_MtuTestFail me x = write_MtuTestFailCode me (mtf_error_code x)"

definition read_MtuTestFail :: "proto_encoding \<Rightarrow> MtuTestFail reader" where
  "read_MtuTestFail me = rbind (read_MtuTestFailCode me) (\<lambda>c. rret \<lparr>mtf_error_code = c\<rparr>)"

fun write_AgentPortMappingFound :: "proto_encoding \<Rightarrow> AgentPortMappingFound \<Rightarrow> writer" where
  "write_AgentPortMappingFound me (ToAgent i) =
     wseq (enc (me_u32 me) 1) (wseq (write_AgentSessionId me i) wok)"

definition read_AgentPortMappingFound :: "byteorder \<Rightarrow> AgentPortMappingFound reader" where
  "read_AgentPortMappingFound bo = rbind (bo_read_u32 bo) (\<lambda>v.
     if v = 1 then rbind (read_AgentSessionId bo) (\<lambda>i. rret (ToAgent i))
     else rfail (Error OtherKind ''unknown AgentPortMappingFound id''))"

definition found_codec :: "byteorder \<Rightarrow> proto_encoding \<Rightarrow> AgentPortMappingFound codec" where
  "found_codec bo me = \<lparr>enc = write_AgentPortMappingFound me, dec = read_AgentPortMappingFound bo\<rparr>"

definition write_AgentPortMapping :: "byteorder \<Rightarrow> proto_encoding \<Rightarrow> AgentPortMapping \<Rightarrow> writer" where
  "write_AgentPortMapping bo me x =
     wseq (write_PortRange bo me (apm_range x))
    (wseq (enc (me_Option_found me (found_codec bo me)) (apm_found x)) wok)"

definition read_AgentPortMapping :: "byteorder \<Rightarrow> proto_encoding \<Rightarrow> AgentPortMapping reader" where
  "read_AgentPortMapping bo me =
     rbind (read_PortRange bo me) (\<lambda>r.
     rbind (dec (me_Option_found me (found_codec bo me))) (\<lambda>f.
     rret \<lparr>apm_range = r, apm_found = f\<rparr>))"

definition write_UdpChannelDetails :: "proto_encoding \<Rightarrow> UdpChannelDetails \<Rightarrow> writer" where
  "write_UdpChannelDetails me x =
     wseq (enc (me_SocketAddr me) (ucd_tunnel_addr x))
    (wseq (enc (me_Vec_u8 me) (ucd_token x)) wok)"

definition read_UdpChannelDetails :: "proto_encoding \<Rightarrow> UdpChannelDetails reader" where
  "read_UdpChannelDetails me =
     rbind (dec (me_SocketAddr me)) (\<lambda>a.
     rbind (dec (me_Vec_u8 me)) (\<lambda>t.
     rret \<lparr>ucd_tunnel_addr = a, ucd_token = t\<rparr>))"

definition write_Pong :: "proto_encoding \<Rightarrow> Pong \<Rightarrow> writer" where
  "write_Pong me x =
     wseq (enc (me_u64 me) (pong_request_now x))
    (wseq (enc (me_u64 me) (pong_server_now x))
    (wseq (enc (me_u64 me) (pong_server_id x))
    (wseq (enc (me_u32 me) (pong_data_center_id x))
    (wseq (enc (me_SocketAddr me) (pong_client_addr x))
    (wseq (enc (me_SocketAddr me) (pong_tunnel_addr x))
    (wseq (enc (me_Option_u64 me (me_u64 me)) (pong_session_expire_at x)) wok))))))"

definition read_Pong :: "byteorder \<Rightarrow> proto_encoding \<Rightarrow> Pong reader" where
  "read_Pong bo me =
     rbind (bo_read_u64 bo) (\<lambda>rn.
     rbind (bo_read_u64 bo) (\<lambda>sn.
     rbind (bo_read_u64 bo) (\<lambda>si.
     rbind (bo_read_u32 bo) (\<lambda>dc.
     rbind (dec (me_SocketAddr me)) (\<lambda>ca.
     rbind (dec (me_SocketAddr me)) (\<lambda>ta.
     rbind (dec (me_Option_u64 me (me_u64 me))) (\<lambda>ex.
     rret \<lparr>pong_request_now = rn, pong_server_now = sn, pong_server_id = si,
           pong_data_center_id = dc, pong_client_addr = ca, pong_tunnel_addr = ta,
           pong_session_expire_at = ex\<rparr>)))))))"

definition write_AgentRegistered :: "proto_encoding \<Rightarrow> AgentRegistered \<Rightarrow> writer" where
  "write_AgentRegistered me x =
     wseq (write_AgentSessionId me (registered_id x))
    (wseq (enc (me_u64 me) (registered_expires_at x)) wok)"

definition read_AgentRegistered :: "byteorder \<Rightarrow> AgentRegistered reader" where
  "read_AgentRegistered bo =
     rbind (read_AgentSessionId bo) (\<lambda>i.
     rbind (bo_read_u64 bo) (\<lambda>e.
     rret \<lparr>registered_id = i, registered_expires_at = e\<rparr>))"

subsection \<open>\<^verbatim>\<open>impl MessageEncoding for ControlResponse\<close>\<close>

fun write_ControlResponse :: "byteorder \<Rightarrow> proto_encoding \<Rightarrow> ControlResponse \<Rightarrow> writer" where
  "write_ControlResponse bo me (ResPong d) = wseq (enc (me_u32 me) 1) (wseq (write_Pong me d) wok)"
| "write_ControlResponse bo me InvalidSignature = wseq (enc (me_u32 me) 2) wok"
| "write_ControlResponse bo me Unauthorized = wseq (enc (me_u32 me) 3) wok"
| "write_ControlResponse bo me RequestQueued = wseq (enc (me_u32 me) 4) wok"
| "write_ControlResponse bo me TryAgainLater = wseq (enc (me_u32 me) 5) wok"
| "write_ControlResponse bo me (ResAgentRegistered d) =
     wseq (enc (me_u32 me) 6) (wseq (write_AgentRegistered me d) wok)"
| "write_ControlResponse bo me (ResAgentPortMapping d) =
     wseq (enc (me_u32 me) 7) (wseq (write_AgentPortMapping bo me d) wok)"
| "write_ControlResponse bo me (ResUdpChannelDetails d) =
     wseq (enc (me_u32 me) 8) (wseq (write_UdpChannelDetails me d) wok)"
| "write_ControlResponse bo me (ResCheckMtuReceivedAck d) =
     wseq (enc (me_u32 me) 9) (wseq (write_CheckMtuReceivedAck me d) wok)"
| "write_ControlResponse bo me (ResMtuTestPacket d) =
     wseq (enc (me_u32 me) 10) (wseq (write_MtuTestPacket me d) wok)"
| "write_ControlResponse bo me (ResMtuTestFail d) =
     wseq (enc (me_u32 me) 11) (wseq (write_MtuTestFail me d) wok)"

definition read_ControlResponse :: "byteorder \<Rightarrow> proto_encoding \<Rightarrow> ControlResponse reader" where
  "read_ControlResponse bo me = rbind (bo_read_u32 bo) (\<lambda>v.
     if v = 1 then rbind (read_Pong bo me) (\<lambda>d. rret (ResPong d))
     else if v = 2 then rret InvalidSignature
     else if v = 3 then rret Unauthorized
     else if v = 4 then rret RequestQueued
     else if v = 5 then rret TryAgainLater
     else if v = 6 then rbind (read_AgentRegistered bo) (\<lambda>d. rret (ResAgentRegistered d))
     else if v = 7 then rbind (read_AgentPortMapping bo me) (\<lambda>d. rret (ResAgentPortMapping d))
     else if v = 8 then rbind (read_UdpChannelDetails me) (\<lambda>d. rret (ResUdpChannelDetails d))
     else if v = 9 then rbind (read_CheckMtuReceivedAck me) (\<lambda>d. rret (ResCheckMtuReceivedAck d))
     else if v = 10 then rbind (read_MtuTestPacket me) (\<lambda>d. rret (ResMtuTestPacket d))
     else if v = 11 then rbind (read_MtuTestFail me) (\<lambda>d. rret (ResMtuTestFail d))
     else rfail (Error OtherKind ''invalid ControlResponse id''))"

end
