(* ===== verification/Control_Laws.thy ===== *)
theory Control_Laws
  imports Control_Messages
begin

section \<open>Laws of the control protocol\<close>

text \<open>
  What the codecs of \<^verbatim>\<open>Control_Messages\<close> promise. The locale \<open>proto_wire\<close> fixes the two encoding
  libraries at the types of the control protocol; inside it every message type gets its round trip
  and its byte count, and the two top-level enumerations follow by cases. The locale \<open>mac_law\<close> is what
  \<^verbatim>\<open>hmac.rs\<close> relies on; under it a registration that \<open>update_signature\<close> signed passes
  \<open>verify_signature\<close>. The MTU pattern check, a loop over 128-byte blocks, is shown equal to a direct
  comparison with the repeating pattern.
\<close>

unbundle bit_operations_syntax

locale proto_wire = wire_library bo me
  for bo :: byteorder and me :: proto_encoding

locale mac_law =
  fixes mac :: "'k mac_lib"
  assumes tag_length: "length (mac_finalize mac k d) = 32"
    and verify_tag: "mac_verify_slice mac k d t \<longleftrightarrow> t = mac_finalize mac k d"
    and any_key: "mac_new_from_slice mac secret \<noteq> None"

subsection \<open>The MTU pattern\<close>

lemma length_MTU_TEST_PATTERN [simp]: "length MTU_TEST_PATTERN = 2048"
  by (simp add: MTU_TEST_PATTERN_def)

definition mtu_byte :: "nat \<Rightarrow> u8" where
  "mtu_byte i = [0x0a, 0x0b, 0x0c, 0x0d] ! (i mod 4)"

lemma take_MTU: "n \<le> 2048 \<Longrightarrow> take n MTU_TEST_PATTERN = map mtu_byte [0..<n]"
  by (simp add: MTU_TEST_PATTERN_def take_map take_upt mtu_byte_def)

lemma take_drop_MTU:
  assumes "n \<le> 128"
  shows "take n (drop (i mod MTU_PATTERN_SIZE) MTU_TEST_PATTERN) = map mtu_byte [i..<i + n]"
proof (rule nth_equalityI)
  have m: "i mod 4 < 4" by simp
  show "length (take n (drop (i mod MTU_PATTERN_SIZE) MTU_TEST_PATTERN))
      = length (map mtu_byte [i..<i + n])"
    using assms m by (simp add: MTU_PATTERN_SIZE_def)
  fix j
  assume "j < length (take n (drop (i mod MTU_PATTERN_SIZE) MTU_TEST_PATTERN))"
  then have j: "j < n" by simp
  with assms m have "i mod 4 + j < 2048" by linarith
  with j assms show "take n (drop (i mod MTU_PATTERN_SIZE) MTU_TEST_PATTERN) ! j
      = map mtu_byte [i..<i + n] ! j"
    by (simp add: MTU_PATTERN_SIZE_def MTU_TEST_PATTERN_def mtu_byte_def mod_add_left_eq)
qed

text \<open>The reference: the next \<open>len - i\<close> bytes are the pattern from position \<open>i\<close> on.\<close>

lemma verify_mtu_from_iff:
  assumes "i \<le> len"
  shows "verify_mtu_from len i bs = Inr ((), rest) \<longleftrightarrow> bs = map mtu_byte [i..<len] @ rest"
  using assms
proof (induction len i bs rule: verify_mtu_from.induct)
  case (1 len i bs)
  show ?case
  proof (cases "i < len")
    case False
    with 1(2) show ?thesis by (subst verify_mtu_from.simps) auto
  next
    case True
    define n where "n = min (len - i) 128"
    have n: "0 < n" "n \<le> 128" "i + n \<le> len" using True by (auto simp: n_def)
    have split: "map mtu_byte [i..<len] = map mtu_byte [i..<i + n] @ map mtu_byte [i + n..<len]"
      using n(3) by (metis le_add1 map_append upt_add_eq_append le_Suc_ex)
    have IH: "verify_mtu_from len (i + n) (drop n bs) = Inr ((), rest)
        \<longleftrightarrow> drop n bs = map mtu_byte [i + n..<len] @ rest"
      if "\<not> length bs < n" "take n bs = map mtu_byte [i..<i + n]"
      using 1(1) [OF True n_def, of "take n bs" "drop n bs"] that n(3) take_drop_MTU [OF n(2), of i]
      by simp
    have "verify_mtu_from len i bs = Inr ((), rest) \<longleftrightarrow> \<not> length bs < n \<and>
        take n bs = map mtu_byte [i..<i + n] \<and> drop n bs = map mtu_byte [i + n..<len] @ rest"
      using True IH
      by (subst verify_mtu_from.simps)
        (auto simp: Let_def n_def [symmetric] read_exact_def take_drop_MTU [OF n(2)])
    also have "\<dots> \<longleftrightarrow> bs = map mtu_byte [i..<i + n] @ map mtu_byte [i + n..<len] @ rest"
      by (auto simp: append_eq_conv_conj) (metis append_take_drop_id)+
    finally show ?thesis by (simp add: split)
  qed
qed

lemma read_and_verify_iff:
  "read_and_verify_mtu_pattern len bs = Inr ((), rest) \<longleftrightarrow> bs = map mtu_byte [0..<len] @ rest"
  by (simp add: read_and_verify_mtu_pattern_def verify_mtu_from_iff)

lemma mtu_pattern_puts:
  "len \<le> 2048 \<Longrightarrow> puts (write_mtu_pattern len) len (map mtu_byte [0..<len])"
  using puts_write_all_then [OF puts_wcount [of len], of "map mtu_byte [0..<len]"]
  by (simp add: puts_def write_mtu_pattern_def take_MTU)

lemma mtu_pattern_roundtrips:
  "len \<le> 2048 \<Longrightarrow> roundtrips (write_mtu_pattern len) (read_and_verify_mtu_pattern len) ()"
  by (rule roundtripsI [OF puts_emits [OF mtu_pattern_puts]])
    (simp_all add: decodes_def read_and_verify_iff)

subsection \<open>Identifiers\<close>

lemma transmute_request_num [simp]: "transmute_request_id (request_num v) = Some v"
  by (cases v) (simp_all add: transmute_request_id_def)

lemma from_num_request_num [simp]: "v \<noteq> END \<Longrightarrow> ControlRequestId_from_num (request_num v) = Some v"
  by (cases v) (simp_all add: ControlRequestId_from_num_def transmute_request_id_def word_le_nat_alt)

lemma u32_below_10:
  fixes n :: u32
  assumes "n < 10"
  shows "n \<in> {0, 1, 2, 3, 4, 5, 6, 7, 8, 9}"
proof -
  have "unat n < 10" using assms by (simp add: word_less_nat_alt)
  then have "unat n \<in> set [0..<10]" by simp
  then have "of_nat (unat n) \<in> (of_nat ` set [0..<10] :: u32 set)" by (rule imageI)
  then show ?thesis by (simp add: upt_rec numeral_eq_Suc)
qed

lemma from_num_valid: "num \<in> request_num ` (UNIV - {END}) \<Longrightarrow> ControlRequestId_from_num num \<noteq> None"
  by auto

lemma request_nums: "n \<in> {1, 2, 3, 4, 5, 6, 7, 8, 9} \<Longrightarrow> n \<in> request_num ` (UNIV - {END})"
  unfolding image_iff
  by (elim insertE emptyE)
    (rule bexI [of _ PingV1] bexI [of _ AgentRegisterV1Id] bexI [of _ AgentKeepAliveV1]
      bexI [of _ SetupUdpChannelV1] bexI [of _ AgentCheckPortMappingV1] bexI [of _ PingV2]
      bexI [of _ AgentRegisterV2] bexI [of _ CheckMtuReceivedV1] bexI [of _ SendMtuTestV1]; simp; fail)+

lemma from_num_SomeD:
  assumes "ControlRequestId_from_num num = Some v"
  shows "request_num v = num \<and> v \<noteq> END"
proof -
  have f: "transmute_request_id num = Some v" and n: "\<not> request_num END \<le> num"
    using assms by (auto simp: ControlRequestId_from_num_def split: if_splits)
  from f have "request_num v = num"
    unfolding transmute_request_id_def find_Some_iff by auto
  with n show ?thesis by auto
qed

lemma fail_code_total: "num < fail_code_num UnknownFailCode \<Longrightarrow> transmute_fail_code num \<noteq> None"
  using u32_below_10 [of num] by (auto simp: transmute_fail_code_def word_less_nat_alt)

subsection \<open>Round trips of the message structures\<close>

definition wf_register :: "AgentRegister \<Rightarrow> bool" where
  "wf_register x \<longleftrightarrow> plain_addr (reg_client_addr x) \<and> plain_addr (reg_tunnel_addr x) \<and>
     length (reg_signature x) = 32 \<and>
     (reg_proto_version x = 1 \<and> \<not> bit (reg_account_id x) 63 \<or>
      1 < reg_proto_version x \<and> \<not> bit (reg_proto_version x) 63)"

text \<open>What the encoder accepts (protocol version 0 is encoded as version 1), and what signing needs besides.\<close>

definition encodable_register :: "AgentRegister \<Rightarrow> bool" where
  "encodable_register x \<longleftrightarrow>
     (if reg_proto_version x \<le> 1 then \<not> bit (reg_account_id x) 63 else \<not> bit (reg_proto_version x) 63)"

definition plain_register :: "AgentRegister \<Rightarrow> bool" where
  "plain_register x \<longleftrightarrow> plain_addr (reg_client_addr x) \<and> plain_addr (reg_tunnel_addr x) \<and> length (reg_signature x) = 32"

lemma wf_register_plain: "wf_register x \<Longrightarrow> plain_register x \<and> encodable_register x"
  by (auto simp: wf_register_def plain_register_def encodable_register_def)

lemma bit_version_bit: "bit ENCODING_INCLUDES_VERSION_BIT n \<longleftrightarrow> n = 63"
  unfolding ENCODING_INCLUDES_VERSION_BIT_def bit_push_bit_iff by auto

lemma version_bit_iff:
  fixes x :: u64
  shows "x AND ENCODING_INCLUDES_VERSION_BIT = ENCODING_INCLUDES_VERSION_BIT \<longleftrightarrow> bit x 63"
  by (auto simp: bit_eq_iff [where 'a = u64] bit_and_iff bit_version_bit elim!: allE [of _ 63])

lemma version_bit_clear:
  fixes x :: u64
  assumes "\<not> bit x 63"
  shows "(x OR ENCODING_INCLUDES_VERSION_BIT) AND NOT ENCODING_INCLUDES_VERSION_BIT = x"
  by (rule bit_word_eqI) (use assms in \<open>auto simp: bit_simps bit_version_bit\<close>)

lemma version_bit_set:
  fixes x :: u64
  shows "bit (x OR ENCODING_INCLUDES_VERSION_BIT) 63"
  by (simp add: bit_or_iff bit_version_bit)

text \<open>
  What a request must satisfy to be read back unchanged: addresses without flow label and scope,
  a probe that fits the pattern, and a registration that the encoder accepts.
\<close>

fun wf_request :: "ControlRequest \<Rightarrow> bool" where
  "wf_request (ReqAgentRegister d) = wf_register d"
| "wf_request (ReqCheckMtuReceived d) = (unat (cmr_message_size d) \<le> 2048)"
| "wf_request _ = True"

fun wf_response :: "ControlResponse \<Rightarrow> bool" where
  "wf_response (ResPong d) = (plain_addr (pong_client_addr d) \<and> plain_addr (pong_tunnel_addr d))"
| "wf_response (ResUdpChannelDetails d) = (plain_addr (ucd_tunnel_addr d) \<and> length (ucd_token d) < 2 ^ 16)"
| "wf_response _ = True"

lemmas struct_rules = roundtrips_wseq roundtrips_wthen roundtrips_wcount be_read_roundtrips
  emits_put_bytes emits_write_all

context proto_wire
begin

lemma found_codec_law: "codec_law (\<lambda>_. True) (found_codec bo me)"
proof
  fix f
  obtain i where f: "f = ToAgent i" by (cases f)
  let ?s = "be64 (session_id i) @ be64 (account_id i) @ be64 (agent_id i)"
  have "exact (wseq (put_bytes (be32 1)) (wseq (write_AgentSessionId me i) wok)) (be32 1 @ ?s @ [])"
    by (intro exact_wseq exact_put_bytes exact_wok write_AgentSessionId_exact)
  moreover have "decodes (read_AgentPortMappingFound bo) (be32 1 @ ?s @ []) f"
    by (simp add: decodes_def read_AgentPortMappingFound_def read_AgentSessionId_def bo_simps
        wire_simps f)
  ultimately show "\<exists>bs. exact (enc (found_codec bo me) f) bs \<and> decodes (dec (found_codec bo me)) bs f"
    by (auto simp: found_codec_def f me_u32)
qed

lemma opt_session_codec: "codec_law (\<lambda>_. True) (me_Option_session me (session_codec bo me))"
  using me_Option_session [OF session_codec_law] by (simp add: codec_law_def pred_option_def)

lemma opt_found_codec: "codec_law (\<lambda>_. True) (me_Option_found me (found_codec bo me))"
  using me_Option_found [OF found_codec_law] by (simp add: codec_law_def pred_option_def)

lemmas option_roundtrips =
  codec_law.roundtrip [OF opt_u32_codec TrueI] codec_law.roundtrip [OF opt_u64_codec TrueI]
  codec_law.roundtrip [OF opt_session_codec TrueI] codec_law.roundtrip [OF opt_found_codec TrueI]

lemmas option_counted =
  codec_law.count [OF opt_u32_codec TrueI] codec_law.count [OF opt_u64_codec TrueI]
  codec_law.count [OF opt_session_codec TrueI] codec_law.count [OF opt_found_codec TrueI]

lemma int_roundtrips:
  "roundtrips (enc (me_u32 me) x32) (be_read 4) x32" "roundtrips (enc (me_u32 me) x32) (dec (me_u32 me)) x32"
  "roundtrips (enc (me_u64 me) x64) (be_read 8) x64" "roundtrips (enc (me_u64 me) x64) (dec (me_u64 me)) x64"
  unfolding me_int_simps by (rule be_read_roundtrips emits_put_bytes)+

lemmas field_rules = struct_rules int_roundtrips option_roundtrips session_roundtrips
  PortRange_roundtrips mtu_pattern_roundtrips sock_roundtrip vec_roundtrip

lemma Ping_roundtrips:
  "roundtrips (write_Ping bo me x) (read_Ping bo me) x"
  unfolding write_Ping_def read_Ping_def bo_simps
  by (rule field_rules | (rule roundtrips_done, simp))+

lemma CheckMtuReceived_roundtrips:
  assumes "unat (cmr_message_size x) \<le> 2048"
  shows "roundtrips (write_CheckMtuReceived me x) (read_CheckMtuReceived me) x"
  unfolding write_CheckMtuReceived_def read_CheckMtuReceived_def
  by (rule field_rules assms | (rule roundtrips_done, simp))+

lemma SendMtuTest_roundtrips:
  "roundtrips (write_SendMtuTest me x) (read_SendMtuTest me) x"
  unfolding write_SendMtuTest_def read_SendMtuTest_def
  by (rule field_rules | (rule roundtrips_done, simp))+

lemma AgentCheckPortMapping_roundtrips:
  "roundtrips (write_AgentCheckPortMapping bo me x) (read_AgentCheckPortMapping bo me) x"
  unfolding write_AgentCheckPortMapping_def read_AgentCheckPortMapping_def bo_simps
  by (rule field_rules | (rule roundtrips_done, simp))+

lemma Pong_roundtrips:
  assumes "plain_addr (pong_client_addr x)" "plain_addr (pong_tunnel_addr x)"
  shows "roundtrips (write_Pong me x) (read_Pong bo me) x"
  unfolding write_Pong_def read_Pong_def bo_simps
  by (rule field_rules assms | (rule roundtrips_done, simp))+

lemma AgentRegistered_roundtrips:
  "roundtrips (write_AgentRegistered me x) (read_AgentRegistered bo) x"
  unfolding write_AgentRegistered_def read_AgentRegistered_def bo_simps
  by (rule field_rules | (rule roundtrips_done, simp))+

lemma AgentPortMapping_roundtrips:
  "roundtrips (write_AgentPortMapping bo me x) (read_AgentPortMapping bo me) x"
  unfolding write_AgentPortMapping_def read_AgentPortMapping_def bo_simps
  by (rule field_rules | (rule roundtrips_done, simp))+

lemma UdpChannelDetails_roundtrips:
  assumes "plain_addr (ucd_tunnel_addr x)" "length (ucd_token x) < 2 ^ 16"
  shows "roundtrips (write_UdpChannelDetails me x) (read_UdpChannelDetails me) x"
  unfolding write_UdpChannelDetails_def read_UdpChannelDetails_def
  by (rule field_rules assms | (rule roundtrips_done, simp))+

lemma CheckMtuReceivedAck_roundtrips:
  "roundtrips (write_CheckMtuReceivedAck me x) (read_CheckMtuReceivedAck me) x"
  unfolding write_CheckMtuReceivedAck_def read_CheckMtuReceivedAck_def
  by (rule field_rules | (rule roundtrips_done, simp))+

lemma MtuTestPacket_puts:
  "puts (write_MtuTestPacket me x) 4 (be32 (mtp_data_center_id x) @ be32 (mtp_udp_payload_length x))"
proof -
  have "puts (put_bytes bs) (length bs) bs" for bs
    using exact_put_bytes exact_puts by blast
  from puts_wthen [OF this this] show ?thesis
    unfolding write_MtuTestPacket_def me_u32 by (metis length_be(3))
qed

lemma MtuTestPacket_roundtrips: "roundtrips (write_MtuTestPacket me x) (read_MtuTestPacket me) x"
  by (rule roundtripsI [OF puts_emits [OF MtuTestPacket_puts]])
    (simp add: decodes_def read_MtuTestPacket_def me_u32 wire_simps)

lemma MtuTestFail_roundtrips: "roundtrips (write_MtuTestFail me x) (read_MtuTestFail me) x"
  unfolding write_MtuTestFail_def write_MtuTestFailCode_def me_u32
  by (rule roundtripsI [OF emits_put_bytes], cases "mtf_error_code x")
    (simp_all add: decodes_def read_MtuTestFail_def read_MtuTestFailCode_def me_u32 wire_simps
      transmute_fail_code_def word_le_nat_alt)

lemma signature_roundtrips:
  assumes "length sig = 32"
  shows "roundtrips (wthen (write_all sig) (wcount (length sig))) (read_exact 32) sig"
    and "roundtrips (wthen (write_all sig) (wcount (length sig))) (read_some 32) sig"
proof -
  have "emits (wthen (write_all sig) (wcount (length sig))) sig"
    using emits_wthen [OF emits_write_all [of sig] emits_wcount [of "length sig"]] by simp
  then show "roundtrips (wthen (write_all sig) (wcount (length sig))) (read_exact 32) sig"
    and "roundtrips (wthen (write_all sig) (wcount (length sig))) (read_some 32) sig"
    using assms by (auto intro: roundtripsI decodes_read_exact decodes_read_some)
qed

text \<open>The head of a registration: version and account, in one word or in two.\<close>

lemma register_head_roundtrips:
  assumes "wf_register x"
  shows "roundtrips
      (if reg_proto_version x \<le> 1 then
         (if reg_account_id x AND ENCODING_INCLUDES_VERSION_BIT = ENCODING_INCLUDES_VERSION_BIT
          then wfail (Error InvalidInput ''account id too large for proto version 1'')
          else enc (me_u64 me) (reg_account_id x))
       else
         (if reg_proto_version x AND ENCODING_INCLUDES_VERSION_BIT = ENCODING_INCLUDES_VERSION_BIT
          then wfail (Error InvalidInput ''invalid proto version'')
          else wseq (enc (me_u64 me) (reg_proto_version x OR ENCODING_INCLUDES_VERSION_BIT))
                    (enc (me_u64 me) (reg_account_id x))))
      (rbind (dec (me_u64 me)) (\<lambda>first_word.
         if first_word AND ENCODING_INCLUDES_VERSION_BIT = ENCODING_INCLUDES_VERSION_BIT
         then rbind (dec (me_u64 me)) (\<lambda>acc.
                rret (first_word AND NOT ENCODING_INCLUDES_VERSION_BIT, acc))
         else rret (1, first_word)))
      (reg_proto_version x, reg_account_id x)"
proof (cases "reg_proto_version x \<le> 1")
  case True
  with assms have v: "reg_proto_version x = 1" and a: "\<not> bit (reg_account_id x) 63"
    by (auto simp: wf_register_def)
  have "roundtrips (enc (me_u64 me) (reg_account_id x)) (rbind (dec (me_u64 me)) (\<lambda>first_word.
         if bit first_word 63
         then rbind (dec (me_u64 me)) (\<lambda>acc.
                rret (first_word AND NOT ENCODING_INCLUDES_VERSION_BIT, acc))
         else rret (1, first_word))) (1, reg_account_id x)"
    by (rule roundtrips_last [OF int_roundtrips(4)]) (simp add: a)
  with v a show ?thesis by (simp add: version_bit_iff)
next
  case False
  with assms have b: "\<not> bit (reg_proto_version x) 63" by (auto simp: wf_register_def)
  let ?v = "reg_proto_version x OR ENCODING_INCLUDES_VERSION_BIT"
  have "roundtrips (wseq (enc (me_u64 me) ?v) (enc (me_u64 me) (reg_account_id x)))
      (rbind (dec (me_u64 me)) (\<lambda>first_word.
         if bit first_word 63
         then rbind (dec (me_u64 me)) (\<lambda>acc.
                rret (first_word AND NOT ENCODING_INCLUDES_VERSION_BIT, acc))
         else rret (1, first_word))) (reg_proto_version x, reg_account_id x)"
    by (rule roundtrips_wseq [OF int_roundtrips(4)])
      (simp add: version_bit_set version_bit_clear [OF b] roundtrips_last [OF int_roundtrips(4)])
  with False b show ?thesis by (simp add: version_bit_iff)
qed

lemma AgentRegister_roundtrips:
  assumes "wf_register x"
  shows "roundtrips (write_AgentRegister me x) (read_AgentRegister me) x"
  unfolding write_AgentRegister_def read_AgentRegister_def
  apply (rule roundtrips_wseq [OF register_head_roundtrips [OF assms]])
  apply (simp only: prod.case)
  using assms unfolding wf_register_def
  by (elim conjE) (rule field_rules signature_roundtrips | assumption | (rule roundtrips_done, simp))+

text \<open>The two encodings of a version 1 registration agree: the newer writer, the older reader.\<close>

lemma AgentRegister_as_V1:
  assumes "wf_register x" "reg_proto_version x \<le> 1"
  shows "roundtrips (write_AgentRegister me x)
    (rbind (read_AgentRegisterV1 bo me) (\<lambda>d. rret (f (AgentRegisterV1_upgrade d)))) (f x)"
proof -
  have v: "reg_proto_version x = 1" "\<not> bit (reg_account_id x) 63"
    and sig: "length (reg_signature x) = 32"
    and a: "plain_addr (reg_client_addr x)" "plain_addr (reg_tunnel_addr x)"
    using assms by (auto simp: wf_register_def)
  let ?y = "\<lparr>reg1_account_id = reg_account_id x, reg1_agent_id = reg_agent_id x,
    reg1_agent_version = reg_agent_version x, reg1_timestamp = reg_timestamp x,
    reg1_client_addr = reg_client_addr x, reg1_tunnel_addr = reg_tunnel_addr x,
    reg1_signature = reg_signature x\<rparr>"
  have "roundtrips (write_AgentRegister me x) (read_AgentRegisterV1 bo me) ?y"
    unfolding write_AgentRegister_def read_AgentRegisterV1_def bo_simps version_bit_iff v(1)
    apply (simp only: v order_refl if_True if_False not_False_eq_True)
    by (rule field_rules signature_roundtrips a sig
        | (simp only: sig simp_thms if_False, rule roundtrips_done, simp))+
  moreover have "AgentRegisterV1_upgrade ?y = x"
    using v(1) by (cases x) (simp add: AgentRegisterV1_upgrade_def)
  ultimately show ?thesis by (metis roundtrips_last)
qed

lemma wok_after: "roundtrips w r x \<Longrightarrow> roundtrips (wseq w wok) r x"
  using emits_wseq [OF _ exact_emits [OF exact_wok]] unfolding roundtrips_def by fastforce

lemma request_id_roundtrips:
  "v \<noteq> END \<Longrightarrow> roundtrips (write_ControlRequestId me v) (read_ControlRequestId me) v"
  unfolding write_ControlRequestId_def read_ControlRequestId_def
  by (rule roundtrips_last [OF int_roundtrips(2)]) simp

lemma tagged_request:
  assumes "v \<noteq> END" "roundtrips w (g v) x"
  shows "roundtrips (wseq (write_ControlRequestId me v) (wseq w wok))
    (rbind (read_ControlRequestId me) g) x"
  by (rule roundtrips_wseq) (rule request_id_roundtrips assms(1) wok_after assms(2))+

lemmas request_rules = roundtrips_last [OF Ping_roundtrips]
  roundtrips_last [OF CheckMtuReceived_roundtrips] roundtrips_last [OF SendMtuTest_roundtrips]
  roundtrips_last [OF AgentCheckPortMapping_roundtrips] roundtrips_last [OF session_roundtrips]
  roundtrips_last [OF AgentRegister_roundtrips] AgentRegister_as_V1

lemma register_request_roundtrips:
  assumes "wf_register d"
  shows "roundtrips (write_ControlRequest bo me (ReqAgentRegister d)) (read_ControlRequest bo me)
    (ReqAgentRegister d)"
  unfolding write_ControlRequest.simps read_ControlRequest_def
  by (cases "reg_proto_version d \<le> 1"; simp only: if_True if_False;
      intro tagged_request; simp add: request_rules assms)

lemma ControlRequest_roundtrips:
  assumes "wf_request x"
  shows "roundtrips (write_ControlRequest bo me x) (read_ControlRequest bo me) x"
proof (cases "\<exists>d. x = ReqAgentRegister d")
  case True
  with assms show ?thesis by (auto intro: register_request_roundtrips)
next
  case False
  then show ?thesis
    by (cases x; use assms in \<open>simp only: write_ControlRequest.simps read_ControlRequest_def\<close>;
        (intro tagged_request)?; use assms in \<open>simp add: request_rules\<close>)
qed

lemma tagged_response:
  assumes "roundtrips w (g n) x"
  shows "roundtrips (wseq (enc (me_u32 me) n) (wseq w wok)) (rbind (bo_read_u32 bo) g) x"
  unfolding read_u32 by (rule roundtrips_wseq) (rule int_roundtrips(1) wok_after assms)+

lemma tagged_response_empty:
  "g n = rret x \<Longrightarrow> roundtrips (wseq (enc (me_u32 me) n) wok) (rbind (bo_read_u32 bo) g) x"
  unfolding read_u32 by (rule roundtrips_wseq [OF int_roundtrips(1)]) (simp add: roundtrips_done)

lemmas response_rules = roundtrips_last [OF AgentRegistered_roundtrips]
  roundtrips_last [OF AgentPortMapping_roundtrips] roundtrips_last [OF Pong_roundtrips]
  roundtrips_last [OF UdpChannelDetails_roundtrips] roundtrips_last [OF CheckMtuReceivedAck_roundtrips]
  roundtrips_last [OF MtuTestPacket_roundtrips] roundtrips_last [OF MtuTestFail_roundtrips]

lemma ControlResponse_roundtrips:
  assumes "wf_response x"
  shows "roundtrips (write_ControlResponse bo me x) (read_ControlResponse bo me) x"
  by (cases x; use assms in \<open>simp only: write_ControlResponse.simps read_ControlResponse_def,
      intro tagged_response tagged_response_empty, simp add: response_rules\<close>)

subsection \<open>Byte counts\<close>

lemma int_counted: "counted (enc (me_u32 me) x32)" "counted (enc (me_u64 me) x64)"
  unfolding me_int_simps by (rule counted_put_bytes)+

lemma mtu_pattern_counted: "len \<le> 2048 \<Longrightarrow> counted (write_mtu_pattern len)"
  by (rule counted_puts [OF mtu_pattern_puts]) simp_all

lemmas count_rules = counted_wseq counted_wok int_counted option_counted session_counted
  write_PortRange_counted sock_counted vec_counted mtu_pattern_counted

lemma register_puts:
  assumes "plain_register x" "encodable_register x"
  obtains bs where "\<And>sig. length sig = 32 \<Longrightarrow>
    puts (write_AgentRegister me (x\<lparr>reg_signature := sig\<rparr>)) (length bs + 32) (bs @ sig)"
proof -
  let ?head = "if reg_proto_version x \<le> 1 then enc (me_u64 me) (reg_account_id x)
     else wseq (enc (me_u64 me) (reg_proto_version x OR ENCODING_INCLUDES_VERSION_BIT))
                    (enc (me_u64 me) (reg_account_id x))"
  have a: "plain_addr (reg_client_addr x)" "plain_addr (reg_tunnel_addr x)"
    using assms(1) by (auto simp: plain_register_def)
  have "counted ?head" by (simp add: count_rules)
  then obtain hs where h: "puts ?head (length hs) hs" by (rule countedE)
  obtain cs where c: "puts (enc (me_SocketAddr me) (reg_client_addr x)) (length cs) cs"
    using sock_counted [OF a(1)] by (rule countedE)
  obtain ts where t: "puts (enc (me_SocketAddr me) (reg_tunnel_addr x)) (length ts) ts"
    using sock_counted [OF a(2)] by (rule countedE)
  have u: "puts (enc (me_u64 me) w) 8 (be64 w)" for w
    using exact_put_bytes [of "be64 w"] by (simp add: me_u64 exact_puts)
  let ?fixed = "be64 (reg_agent_id x) @ be64 (reg_agent_version x) @ be64 (reg_timestamp x)"
  have "puts (write_AgentRegister me (x\<lparr>reg_signature := sig\<rparr>)) (length (hs @ ?fixed @ cs @ ts) + 32)
      ((hs @ ?fixed @ cs @ ts) @ sig)" if "length sig = 32" for sig
  proof -
    have w: "write_AgentRegister me (x\<lparr>reg_signature := sig\<rparr>) = wseq ?head
      (wseq (enc (me_u64 me) (reg_agent_id x)) (wseq (enc (me_u64 me) (reg_agent_version x))
      (wseq (enc (me_u64 me) (reg_timestamp x)) (wseq (enc (me_SocketAddr me) (reg_client_addr x))
      (wseq (enc (me_SocketAddr me) (reg_tunnel_addr x))
      (wseq (wthen (write_all sig) (wcount 32)) wok))))))"
      using assms that by (auto simp: write_AgentRegister_def version_bit_iff encodable_register_def)
    have "puts (write_AgentRegister me (x\<lparr>reg_signature := sig\<rparr>))
        (length hs + (8 + (8 + (8 + (length cs + (length ts + (32 + 0)))))))
        (hs @ be64 (reg_agent_id x) @ be64 (reg_agent_version x) @ be64 (reg_timestamp x) @ cs @ ts @
         (sig @ []) @ [])"
      unfolding w by (intro puts_wseq puts_write_all_then puts_wcount puts_wok h c t u)
    then show ?thesis by (simp add: add.assoc)
  qed
  then show thesis by (rule that)
qed

lemma register_counted: "wf_register x \<Longrightarrow> counted (write_AgentRegister me x)"
proof -
  assume x: "wf_register x"
  then obtain bs where "\<And>sig. length sig = 32 \<Longrightarrow>
      puts (write_AgentRegister me (x\<lparr>reg_signature := sig\<rparr>)) (length bs + 32) (bs @ sig)"
    using register_puts [of x] wf_register_plain by blast
  from this [of "reg_signature x"] x show ?thesis
    by (auto simp: wf_register_def intro: counted_puts)
qed

lemma ControlRequest_counted:
  assumes "wf_request x"
  shows "counted (write_ControlRequest bo me x)"
  using assms
  by (cases x)
    (simp_all add: count_rules register_counted write_ControlRequestId_def write_Ping_def
      write_AgentCheckPortMapping_def write_CheckMtuReceived_def write_SendMtuTest_def)

lemma ControlResponse_counted:
  assumes "wf_response x" "\<forall>d. x \<noteq> ResMtuTestPacket d"
  shows "counted (write_ControlResponse bo me x)"
  using assms
  by (cases x)
    (simp_all add: count_rules write_Pong_def write_AgentRegistered_def write_AgentPortMapping_def
      write_UdpChannelDetails_def write_CheckMtuReceivedAck_def write_MtuTestFail_def
      write_MtuTestFailCode_def)

lemma MtuTestPacket_miscount:
  "\<exists>bs. puts (write_ControlResponse bo me (ResMtuTestPacket d)) 8 bs \<and> length bs = 12"
proof -
  have "puts (put_bytes (be32 10)) (length (be32 10)) (be32 10)"
    using exact_puts exact_put_bytes by blast
  then have "puts (write_ControlResponse bo me (ResMtuTestPacket d)) (length (be32 10) + (4 + 0))
      (be32 10 @ (be32 (mtp_data_center_id d) @ be32 (mtp_udp_payload_length d)) @ [])"
    unfolding write_ControlResponse.simps me_u32 by (intro puts_wseq puts_wok MtuTestPacket_puts)
  then show ?thesis by (intro exI conjI) (simp, simp)
qed

lemma response_count:
  assumes "wf_response res"
    and w: "write_ControlResponse bo me res (vec_sink pre) = Inr (n, vec_sink (pre @ bs))"
  shows "length bs = n + (case res of ResMtuTestPacket _ \<Rightarrow> 4 | _ \<Rightarrow> 0)"
proof (cases "\<exists>d. res = ResMtuTestPacket d")
  case True
  then obtain d where d: "res = ResMtuTestPacket d" by blast
  obtain bs' where "puts (write_ControlResponse bo me (ResMtuTestPacket d)) 8 bs'" "length bs' = 12"
    using MtuTestPacket_miscount by blast
  with w d show ?thesis by (simp add: puts_def del: write_ControlResponse.simps)
next
  case False
  then have "counted (write_ControlResponse bo me res)" using assms(1) ControlResponse_counted by blast
  from counted_vec [OF this, of pre] w False show ?thesis by (cases res) auto
qed

subsection \<open>Signatures\<close>

lemma write_plain_eq:
  assumes "plain_register x" "encodable_register x"
  obtains p where "\<And>sig buf. length sig = 32 \<Longrightarrow> write_plain me (x\<lparr>reg_signature := sig\<rparr>) buf = Inr p"
proof -
  obtain bs where "\<And>sig. length sig = 32 \<Longrightarrow>
      puts (write_AgentRegister me (x\<lparr>reg_signature := sig\<rparr>)) (length bs + 32) (bs @ sig)"
    using register_puts [OF assms] by blast
  then have "write_plain me (x\<lparr>reg_signature := sig\<rparr>) buf = Inr bs" if "length sig = 32" for sig buf
    using that by (simp add: write_plain_def puts_def)
  then show thesis by (rule that)
qed

lemma write_plain_panics: "\<not> encodable_register x \<Longrightarrow> write_plain me x buf = Inl (Panic ''unwrap'')"
  by (auto simp: write_plain_def write_AgentRegister_def encodable_register_def version_bit_iff wseq_def [abs_def] wfail_def split: if_splits)

end

lemma signed_verifies:
  assumes "proto_wire bo me" "mac_law mac" "plain_register x" "encodable_register x"
  shows "\<exists>y p. update_signature mac me k buf x = Inr (y, p) \<and> plain_register y \<and>
    y = x\<lparr>reg_signature := mac_finalize mac k p\<rparr> \<and>
    (\<forall>sig buf'. length sig = 32 \<longrightarrow>
      verify_signature mac me k buf' (y\<lparr>reg_signature := sig\<rparr>) = Inr (sig = reg_signature y, p))"
proof -
  obtain p where p: "\<And>sig buf. length sig = 32 \<Longrightarrow> write_plain me (x\<lparr>reg_signature := sig\<rparr>) buf = Inr p"
    using proto_wire.write_plain_eq [OF assms(1,3,4)] by blast
  have len: "length (reg_signature x) = 32" using assms(3) by (simp add: plain_register_def)
  have plain: "write_plain me x buf = Inr p" using p [OF len] by simp
  have tag: "length (mac_finalize mac k p) = 32" by (rule mac_law.tag_length [OF assms(2)])
  then have "plain_register (x\<lparr>reg_signature := mac_finalize mac k p\<rparr>)"
    using assms(3) by (simp add: plain_register_def)
  with plain p show ?thesis
    by (simp add: update_signature_def verify_signature_def HmacSha256_sign_def
        HmacSha256_verify_def mac_law.verify_tag [OF assms(2)])
qed

lemma be_proto: "proto_wire be_byteorder be_message_encoding"
  by (simp add: proto_wire_def be_wire.wire_library_axioms)

interpretation be_proto: proto_wire be_byteorder be_message_encoding
  by (rule be_proto)

text \<open>
  An example MAC and registration: the tag is the exclusive or of the message bytes with the key, which
  satisfies the laws (it is not meant to be unforgeable; the laws say nothing about that).
\<close>

definition xor_mac :: "u8 mac_lib" where
  "xor_mac = \<lparr>mac_new_from_slice = (\<lambda>s. Some (foldr (XOR) s 0)),
     mac_finalize = (\<lambda>k d. replicate 32 (foldr (XOR) d k)),
     mac_verify_slice = (\<lambda>k d t. t = replicate 32 (foldr (XOR) d k))\<rparr>"

lemma xor_mac_law: "mac_law xor_mac"
  by unfold_locales (simp_all add: xor_mac_def)

interpretation xor_mac: mac_law xor_mac
  by (rule xor_mac_law)

definition example_register :: AgentRegister where
  "example_register =
     \<lparr>reg_proto_version = 2, reg_account_id = 100, reg_agent_id = 7, reg_agent_version = 1,
      reg_timestamp = 1234, reg_client_addr = sock_addr_new (IpV4 0x7f000001) 5000,
      reg_tunnel_addr = sock_addr_new (IpV4 0x01020304) 5525, reg_signature = replicate 32 0\<rparr>"

subsection \<open>Properties of the control protocol\<close>

text \<open>
  C8: Every control request that the agent can send is read back unchanged by the peer's decoder, whatever
  bytes follow it, and the number the encoder returns is the number of bytes it appended. This
  covers both registration encodings (the version 1 one is read by the decoder of
  \<^verbatim>\<open>AgentRegisterV1\<close> and upgraded).
\<close>

theorem request_wire_roundtrip:
  assumes "proto_wire bo me" "wf_request req"
  shows "\<exists>bs. write_ControlRequest bo me req (vec_sink pre) = Inr (length bs, vec_sink (pre @ bs)) \<and>
    (\<forall>rest. read_ControlRequest bo me (bs @ rest) = Inr (req, rest))"
  using roundtrips_vec [OF proto_wire.ControlRequest_roundtrips [OF assms], of pre]
    counted_vec [OF proto_wire.ControlRequest_counted [OF assms], of pre]
  by auto

theorem request_wire_roundtrip_witness:
  "\<exists>bs. write_ControlRequest be_byteorder be_message_encoding (ReqSetupUdpChannel
        \<lparr>session_id = 1, account_id = 2, agent_id = 3\<rparr>) (vec_sink []) = Inr (length bs, vec_sink ([] @ bs)) \<and>
    (\<forall>rest. read_ControlRequest be_byteorder be_message_encoding (bs @ rest) =
      Inr (ReqSetupUdpChannel \<lparr>session_id = 1, account_id = 2, agent_id = 3\<rparr>, rest))"
  by (rule request_wire_roundtrip [OF be_proto]) simp

text \<open>
  C9: Every control response whose addresses carry no flow information and no scope id (which the encoding drops) and whose token has fewer than
  65536 bytes is read back unchanged, whatever bytes follow it. The number the
  encoder returns is the number of bytes it appended, except for \<^verbatim>\<open>MtuTestPacket\<close>, whose encoder
  returns four bytes too few.
\<close>

theorem response_wire_roundtrip:
  assumes "proto_wire bo me" "wf_response res"
  shows "\<exists>n bs. write_ControlResponse bo me res (vec_sink pre) = Inr (n, vec_sink (pre @ bs)) \<and>
    (\<forall>rest. read_ControlResponse bo me (bs @ rest) = Inr (res, rest)) \<and>
    length bs = n + (case res of ResMtuTestPacket _ \<Rightarrow> 4 | _ \<Rightarrow> 0)"
proof -
  obtain n bs where w: "write_ControlResponse bo me res (vec_sink pre) = Inr (n, vec_sink (pre @ bs))"
    and r: "\<forall>rest. read_ControlResponse bo me (bs @ rest) = Inr (res, rest)"
    using roundtrips_vec [OF proto_wire.ControlResponse_roundtrips [OF assms]] by blast
  have "length bs = n + (case res of ResMtuTestPacket _ \<Rightarrow> 4 | _ \<Rightarrow> 0)"
    using w by (rule proto_wire.response_count [OF assms])
  with w r show ?thesis by blast
qed

theorem response_wire_roundtrip_witness:
  "\<exists>n bs. write_ControlResponse be_byteorder be_message_encoding
      (ResMtuTestPacket \<lparr>mtp_data_center_id = 7, mtp_udp_payload_length = 1400\<rparr>) (vec_sink []) =
        Inr (n, vec_sink ([] @ bs)) \<and>
    (\<forall>rest. read_ControlResponse be_byteorder be_message_encoding (bs @ rest) =
      Inr (ResMtuTestPacket \<lparr>mtp_data_center_id = 7, mtp_udp_payload_length = 1400\<rparr>, rest)) \<and>
    length bs = n + (case ResMtuTestPacket \<lparr>mtp_data_center_id = 7, mtp_udp_payload_length = 1400\<rparr> of
      ResMtuTestPacket _ \<Rightarrow> 4 | _ \<Rightarrow> 0)"
  by (rule response_wire_roundtrip [OF be_proto]) simp

text \<open>
  C11: Signing a registration with a 32-byte signature field and addresses without flow information and scope id. If the encoder accepts the
  registration (bit 63 is clear in the account id up to protocol version 1 and in the protocol version above),
  \<^verbatim>\<open>update_signature\<close> does not panic and changes the signature only, and
  \<^verbatim>\<open>verify_signature\<close> accepts exactly that signature: the signed bytes do not
  depend on the old signature or on the scratch buffer, and every other 32-byte signature is refused. If the encoder refuses the registration,
  signing it panics.
\<close>

theorem signed_registration_verifies:
  assumes "proto_wire bo me" "mac_law mac" "plain_register x"
  shows "if encodable_register x
    then \<exists>y p. update_signature mac me k buf x = Inr (y, p) \<and> length (reg_signature y) = 32 \<and>
      y\<lparr>reg_signature := reg_signature x\<rparr> = x \<and>
      (\<forall>sig buf'. length sig = 32 \<longrightarrow>
        verify_signature mac me k buf' (y\<lparr>reg_signature := sig\<rparr>) = Inr (sig = reg_signature y, p))
    else update_signature mac me k buf x = Inl (Panic ''unwrap'')"
proof (cases "encodable_register x")
  case True
  obtain y p where u: "update_signature mac me k buf x = Inr (y, p)" "plain_register y"
    and y: "y = x\<lparr>reg_signature := mac_finalize mac k p\<rparr>"
    and v: "\<forall>sig buf'. length sig = 32 \<longrightarrow>
      verify_signature mac me k buf' (y\<lparr>reg_signature := sig\<rparr>) = Inr (sig = reg_signature y, p)"
    using signed_verifies [OF assms True] by blast
  have "y\<lparr>reg_signature := reg_signature x\<rparr> = x" by (simp add: y)
  with u v True show ?thesis by (auto simp: plain_register_def)
next
  case False
  then show ?thesis
    using proto_wire.write_plain_panics [OF assms(1)] by (simp add: update_signature_def)
qed

theorem signed_registration_verifies_witness:
  "\<exists>y p. update_signature xor_mac be_message_encoding 5 [] example_register = Inr (y, p) \<and>
    y\<lparr>reg_signature := reg_signature example_register\<rparr> = example_register \<and>
    (\<forall>sig buf'. length sig = 32 \<longrightarrow>
      verify_signature xor_mac be_message_encoding 5 buf' (y\<lparr>reg_signature := sig\<rparr>)
        = Inr (sig = reg_signature y, p))"
proof -
  have "plain_register example_register" "encodable_register example_register"
    by (simp_all add: plain_register_def encodable_register_def example_register_def word_less_nat_alt bit_simps)
  with signed_registration_verifies [OF be_proto xor_mac_law, of example_register 5 "[]"] show ?thesis by auto
qed

text \<open>
  A request id read from the wire is one of the nine live requests: \<^verbatim>\<open>from_num\<close> returns a value
  exactly for the discriminants 1 to 9, the value has that discriminant, and it is never \<^verbatim>\<open>END\<close>; so
  the \<^verbatim>\<open>transmute\<close> in it is always given a valid discriminant.
\<close>

theorem from_num_sound:
  "(0 < num \<and> num < 10 \<longleftrightarrow> ControlRequestId_from_num num \<noteq> None) \<and>
   (ControlRequestId_from_num num = Some v \<longleftrightarrow> v \<noteq> END \<and> request_num v = num)"
proof -
  have lt: "0 < num \<and> num < 10 \<longleftrightarrow> num \<noteq> 0 \<and> \<not> request_num END \<le> num"
    by (auto simp: word_gt_0)
  have some: "ControlRequestId_from_num num \<noteq> None" if "num \<noteq> 0" "num < 10"
    using that u32_below_10 [of num] by (intro from_num_valid request_nums) auto
  have num: "request_num v = num" "v \<noteq> END" if "ControlRequestId_from_num num = Some v"
    using that from_num_SomeD by blast+
  show ?thesis
    using some num lt from_num_request_num [of v]
    by (auto simp: ControlRequestId_from_num_def word_gt_0 split: if_splits)
qed

text \<open>
  C16: The block-wise check of an MTU probe accepts exactly the probes that consist of the repeating
  pattern, for every length: no block boundary lets a wrong byte through and no right probe is
  refused. It always terminates, and consumes exactly \<^verbatim>\<open>len\<close> bytes.
\<close>

theorem mtu_check_equiv:
  "read_and_verify_mtu_pattern len bs = Inr ((), rest) \<longleftrightarrow>
   len \<le> length bs \<and> rest = drop len bs \<and>
   take len bs = map (\<lambda>i. [0x0a, 0x0b, 0x0c, 0x0d] ! (i mod 4)) [0..<len]"
proof -
  have "bs = map mtu_byte [0..<len] @ rest \<longleftrightarrow>
      len \<le> length bs \<and> rest = drop len bs \<and> take len bs = map mtu_byte [0..<len]"
    by (auto simp: append_eq_conv_conj) (metis append_take_drop_id)
  then show ?thesis by (simp add: read_and_verify_iff mtu_byte_def [abs_def])
qed

end
