(* ===== verification/Control_Feed.thy ===== *)
theory Control_Feed
  imports Control_Laws
begin

section \<open>The control feed\<close>

text \<open>
  \<^verbatim>\<open>packages/agent_proto/src/control_feed.rs\<close>: what the tunnel server sends to an agent on the control
  channel, either the response to a request or the announcement of a new TCP client with the
  instructions to claim it. The older announcement is still written with its own tag; the reader
  converts it to the newer one.
\<close>

record ClaimInstructions =
  claim_address :: SocketAddr
  claim_token :: bytes

record NewClient =
  nc_connect_addr :: SocketAddr
  nc_peer_addr :: SocketAddr
  nc_data_center_id :: u32
  nc_tunnel_id :: u64
  nc_port_offset :: u16
  nc_claim_instructions :: ClaimInstructions

record NewClientOld =
  nco_connect_addr :: SocketAddr
  nco_peer_addr :: SocketAddr
  nco_claim_instructions :: ClaimInstructions
  nco_tunnel_server_id :: u64
  nco_data_center_id :: u32

datatype ControlFeed =
    FeedResponse "ControlResponse ControlRpcMessage"
  | FeedNewClient NewClient
  | FeedNewClientOld NewClientOld

definition write_ClaimInstructions :: "proto_encoding \<Rightarrow> ClaimInstructions \<Rightarrow> writer" where
  "write_ClaimInstructions me x =
     wseq (enc (me_SocketAddr me) (claim_address x))
    (wseq (enc (me_Vec_u8 me) (claim_token x)) wok)"

definition read_ClaimInstructions :: "proto_encoding \<Rightarrow> ClaimInstructions reader" where
  "read_ClaimInstructions me =
     rbind (dec (me_SocketAddr me)) (\<lambda>a.
     rbind (dec (me_Vec_u8 me)) (\<lambda>t.
     rret \<lparr>claim_address = a, claim_token = t\<rparr>))"

definition write_NewClient :: "proto_encoding \<Rightarrow> NewClient \<Rightarrow> writer" where
  "write_NewClient me x =
     wseq (enc (me_SocketAddr me) (nc_connect_addr x))
    (wseq (enc (me_SocketAddr me) (nc_peer_addr x))
    (wseq (enc (me_u32 me) (nc_data_center_id x))
    (wseq (enc (me_u64 me) (nc_tunnel_id x))
    (wseq (enc (me_u16 me) (nc_port_offset x))
    (wseq (write_ClaimInstructions me (nc_claim_instructions x)) wok)))))"

definition read_NewClient :: "proto_encoding \<Rightarrow> NewClient reader" where
  "read_NewClient me =
     rbind (dec (me_SocketAddr me)) (\<lambda>ca.
     rbind (dec (me_SocketAddr me)) (\<lambda>pa.
     rbind (dec (me_u32 me)) (\<lambda>dc.
     rbind (dec (me_u64 me)) (\<lambda>tid.
     rbind (dec (me_u16 me)) (\<lambda>po.
     rbind (read_ClaimInstructions me) (\<lambda>ci.
     rret \<lparr>nc_connect_addr = ca, nc_peer_addr = pa, nc_data_center_id = dc, nc_tunnel_id = tid,
           nc_port_offset = po, nc_claim_instructions = ci\<rparr>))))))"

definition NewClient_from :: "NewClientOld \<Rightarrow> NewClient" where
  "NewClient_from value =
     \<lparr>nc_connect_addr = nco_connect_addr value, nc_peer_addr = nco_peer_addr value,
      nc_data_center_id = nco_data_center_id value, nc_tunnel_id = 0, nc_port_offset = 0,
      nc_claim_instructions = nco_claim_instructions value\<rparr>"

definition write_NewClientOld :: "proto_encoding \<Rightarrow> NewClientOld \<Rightarrow> writer" where
  "write_NewClientOld me x =
     wseq (enc (me_SocketAddr me) (nco_connect_addr x))
    (wseq (enc (me_SocketAddr me) (nco_peer_addr x))
    (wseq (write_ClaimInstructions me (nco_claim_instructions x))
    (wseq (enc (me_u64 me) (nco_tunnel_server_id x))
    (wseq (enc (me_u32 me) (nco_data_center_id x)) wok))))"

definition read_NewClientOld :: "byteorder \<Rightarrow> proto_encoding \<Rightarrow> NewClientOld reader" where
  "read_NewClientOld bo me =
     rbind (dec (me_SocketAddr me)) (\<lambda>ca.
     rbind (dec (me_SocketAddr me)) (\<lambda>pa.
     rbind (read_ClaimInstructions me) (\<lambda>ci.
     rbind (bo_read_u64 bo) (\<lambda>ts.
     rbind (bo_read_u32 bo) (\<lambda>dc.
     rret \<lparr>nco_connect_addr = ca, nco_peer_addr = pa, nco_claim_instructions = ci,
           nco_tunnel_server_id = ts, nco_data_center_id = dc\<rparr>)))))"

fun write_ControlFeed :: "byteorder \<Rightarrow> proto_encoding \<Rightarrow> ControlFeed \<Rightarrow> writer" where
  "write_ControlFeed bo me (FeedResponse res) =
     wseq (enc (me_u32 me) 1) (wseq (write_ControlRpcMessage me (write_ControlResponse bo me) res) wok)"
| "write_ControlFeed bo me (FeedNewClientOld client) =
     wseq (enc (me_u32 me) 2) (wseq (write_NewClientOld me client) wok)"
| "write_ControlFeed bo me (FeedNewClient client) =
     wseq (enc (me_u32 me) 3) (wseq (write_NewClient me client) wok)"

definition read_ControlFeed :: "byteorder \<Rightarrow> proto_encoding \<Rightarrow> ControlFeed reader" where
  "read_ControlFeed bo me = rbind (bo_read_u32 bo) (\<lambda>v.
     if v = 1 then rbind (read_ControlRpcMessage bo (read_ControlResponse bo me)) (\<lambda>m. rret (FeedResponse m))
     else if v = 2 then rbind (read_NewClientOld bo me) (\<lambda>c. rret (FeedNewClient (NewClient_from c)))
     else if v = 3 then rbind (read_NewClient me) (\<lambda>c. rret (FeedNewClient c))
     else rfail (Error OtherKind ''invalid ControlFeed id''))"

subsection \<open>Laws\<close>

definition wf_claim :: "ClaimInstructions \<Rightarrow> bool" where
  "wf_claim x \<longleftrightarrow> plain_addr (claim_address x) \<and> length (claim_token x) < 2 ^ 16"

fun wf_feed :: "ControlFeed \<Rightarrow> bool" where
  "wf_feed (FeedResponse m) = wf_response (content m)"
| "wf_feed (FeedNewClient c) =
     (plain_addr (nc_connect_addr c) \<and> plain_addr (nc_peer_addr c) \<and> wf_claim (nc_claim_instructions c))"
| "wf_feed (FeedNewClientOld c) =
     (plain_addr (nco_connect_addr c) \<and> plain_addr (nco_peer_addr c) \<and> wf_claim (nco_claim_instructions c))"

text \<open>What the agent sees of a feed message.\<close>

fun feed_view :: "ControlFeed \<Rightarrow> ControlFeed" where
  "feed_view (FeedNewClientOld c) = FeedNewClient (NewClient_from c)"
| "feed_view f = f"

context proto_wire
begin

lemma u16_roundtrips: "roundtrips (enc (me_u16 me) x) (dec (me_u16 me)) x"
  unfolding me_int_simps by (rule be_read_roundtrips emits_put_bytes)+

lemma ClaimInstructions_roundtrips:
  assumes "wf_claim x"
  shows "roundtrips (write_ClaimInstructions me x) (read_ClaimInstructions me) x"
  using assms unfolding write_ClaimInstructions_def read_ClaimInstructions_def wf_claim_def
  by (elim conjE) (rule field_rules | assumption | (rule roundtrips_done, simp))+

lemma NewClient_roundtrips:
  assumes "wf_feed (FeedNewClient x)"
  shows "roundtrips (write_NewClient me x) (read_NewClient me) x"
  using assms unfolding write_NewClient_def read_NewClient_def wf_feed.simps
  by (elim conjE)
    (rule field_rules u16_roundtrips ClaimInstructions_roundtrips | assumption
      | (rule roundtrips_done, simp))+

lemma NewClientOld_roundtrips:
  assumes "wf_feed (FeedNewClientOld x)"
  shows "roundtrips (write_NewClientOld me x) (read_NewClientOld bo me) x"
  using assms unfolding write_NewClientOld_def read_NewClientOld_def wf_feed.simps bo_simps
  by (elim conjE)
    (rule field_rules ClaimInstructions_roundtrips | assumption | (rule roundtrips_done, simp))+

lemma response_rpc_roundtrips:
  "wf_response (content m) \<Longrightarrow>
   roundtrips (write_ControlRpcMessage me (write_ControlResponse bo me) m)
     (read_ControlRpcMessage bo (read_ControlResponse bo me)) m"
  by (rule rpc_roundtrips) (rule ControlResponse_roundtrips)

lemma feed_roundtrips:
  assumes "wf_feed f"
  shows "roundtrips (write_ControlFeed bo me f) (read_ControlFeed bo me) (feed_view f)"
  by (cases f; use assms in \<open>simp only: write_ControlFeed.simps read_ControlFeed_def feed_view.simps\<close>;
      intro tagged_response; use assms in \<open>simp add: roundtrips_last [OF NewClient_roundtrips]
        roundtrips_last [OF NewClientOld_roundtrips]
        roundtrips_last [OF response_rpc_roundtrips]\<close>)

end

text \<open>
  C10: Every message of the control feed whose addresses carry no flow information and no scope id (which the encoding drops) and whose token has fewer than
  65536 bytes is read back as the agent should see it, whatever follows: responses and new
  clients unchanged, and an announcement in the old format as a new client with tunnel id and port offset zero
  and the same addresses, data centre and claim.
\<close>

theorem feed_wire_roundtrip:
  assumes "proto_wire bo me" "wf_feed f"
  shows "\<exists>n bs. write_ControlFeed bo me f (vec_sink pre) = Inr (n, vec_sink (pre @ bs)) \<and>
    (\<forall>rest. read_ControlFeed bo me (bs @ rest) = Inr (feed_view f, rest))"
  by (rule roundtrips_vec [OF proto_wire.feed_roundtrips [OF assms]])

definition example_claim :: ClaimInstructions where
  "example_claim = \<lparr>claim_address = sock_addr_new (IpV4 0x0a000001) 7000, claim_token = [1, 2, 3]\<rparr>"

definition example_old_client :: NewClientOld where
  "example_old_client =
     \<lparr>nco_connect_addr = sock_addr_new (IpV4 0x0a000002) 25565, nco_peer_addr = sock_addr_new (IpV6 99) 4000,
      nco_claim_instructions = example_claim, nco_tunnel_server_id = 12, nco_data_center_id = 3\<rparr>"

theorem feed_wire_roundtrip_witness:
  "\<exists>n bs. write_ControlFeed be_byteorder be_message_encoding (FeedNewClientOld example_old_client)
      (vec_sink []) = Inr (n, vec_sink ([] @ bs)) \<and>
    (\<forall>rest. read_ControlFeed be_byteorder be_message_encoding (bs @ rest) =
      Inr (feed_view (FeedNewClientOld example_old_client), rest))"
  by (rule feed_wire_roundtrip [OF be_proto])
    (simp add: example_old_client_def example_claim_def wf_claim_def)

end
