(* ===== verification/Udp_Proto.thy ===== *)
theory Udp_Proto
  imports Wire
begin

section \<open>The footer of tunnelled UDP packets\<close>

text \<open>
  \<^verbatim>\<open>packages/agent_proto/src/udp_proto.rs\<close>: a tunnelled datagram carries its flow (source,
  destination, fragment and extension data) in a footer whose last eight bytes say which of four layouts
  it has. \<^verbatim>\<open>write_to\<close> fills a slice that has room for the footer, \<^verbatim>\<open>from_tail\<close> parses the end of a
  packet. Both \<^verbatim>\<open>unwrap\<close> every integer access, so a wrong length computation would panic; the laws
  show that it never does. \<^verbatim>\<open>NonZeroU64\<close> and \<^verbatim>\<open>NonZeroU16\<close> are plain words, with \<open>wf_flow\<close> for their
  invariant.
\<close>

definition REDIRECT_FLOW_4_FOOTER_ID_V1 :: u64 where "REDIRECT_FLOW_4_FOOTER_ID_V1 = 0x5cb867cf788173b2"
definition REDIRECT_FLOW_6_FOOTER_ID_V1 :: u64 where "REDIRECT_FLOW_6_FOOTER_ID_V1 = 0x6668676f68616366"
definition REDIRECT_FLOW_4_FOOTER_ID_V2 :: u64 where "REDIRECT_FLOW_4_FOOTER_ID_V2 = 0x5cb867cf78817399"
definition REDIRECT_FLOW_6_FOOTER_ID_V2 :: u64 where "REDIRECT_FLOW_6_FOOTER_ID_V2 = 0x6cb667cf78817369"
definition UDP_CHANNEL_ESTABLISH_ID :: u64 where "UDP_CHANNEL_ESTABLISH_ID = 0xd01fe6830ddce781"

definition EXT_LEN :: nat where "EXT_LEN = 18"
definition IP4_LEN_V1 :: nat where "IP4_LEN_V1 = 20"
definition IP4_LEN_V2_WITHOUT_FRAG :: nat where "IP4_LEN_V2_WITHOUT_FRAG = 20 + EXT_LEN + 2"
definition IP4_LEN_V2_WITH_FRAG :: nat where "IP4_LEN_V2_WITH_FRAG = IP4_LEN_V2_WITHOUT_FRAG + 3"
definition IP6_LEN_V1 :: nat where "IP6_LEN_V1 = 48"
definition IP6_LEN_V2 :: nat where "IP6_LEN_V2 = IP6_LEN_V1 - 4 + EXT_LEN"

lemmas footer_consts = REDIRECT_FLOW_4_FOOTER_ID_V1_def REDIRECT_FLOW_6_FOOTER_ID_V1_def
  REDIRECT_FLOW_4_FOOTER_ID_V2_def REDIRECT_FLOW_6_FOOTER_ID_V2_def

lemmas footer_lens = EXT_LEN_def IP4_LEN_V1_def IP4_LEN_V2_WITHOUT_FRAG_def IP4_LEN_V2_WITH_FRAG_def
  IP6_LEN_V1_def IP6_LEN_V2_def

record UdpFlowExtension =
  client_server_id :: u64
  tunnel_id :: u64
  port_offset :: u16

record FragmentInfo =
  packet_id :: u16
  frag_offset :: u16
  has_more :: bool

datatype UdpFlow =
    FlowV4 SocketAddrV4 SocketAddrV4 "FragmentInfo option" "UdpFlowExtension option"
  | FlowV6 "Ipv6Addr \<times> u16" "Ipv6Addr \<times> u16" "UdpFlowExtension option"

subsection \<open>Accessors\<close>

fun flow_extension :: "UdpFlow \<Rightarrow> UdpFlowExtension option" where
  "flow_extension (FlowV4 src dst frag ext) = ext"
| "flow_extension (FlowV6 src dst ext) = ext"

definition flow_client_server_id :: "UdpFlow \<Rightarrow> u64 option" where
  "flow_client_server_id f = map_option client_server_id (flow_extension f)"

fun update_client_server_id :: "u64 \<Rightarrow> UdpFlow \<Rightarrow> UdpFlow" where
  "update_client_server_id i (FlowV4 src dst frag ext) =
     FlowV4 src dst frag (map_option (client_server_id_update (\<lambda>_. i)) ext)"
| "update_client_server_id i (FlowV6 src dst ext) =
     FlowV6 src dst (map_option (client_server_id_update (\<lambda>_. i)) ext)"

fun flip :: "UdpFlow \<Rightarrow> UdpFlow" where
  "flip (FlowV4 src dst frag ext) = FlowV4 dst src frag ext"
| "flip (FlowV6 src dst ext) = FlowV6 dst src ext"

fun flow_src :: "UdpFlow \<Rightarrow> SocketAddr" where
  "flow_src (FlowV4 src dst frag ext) = SockV4 src"
| "flow_src (FlowV6 (ip, port) dst ext) = SockV6 (sock_v6 ip port)"

fun flow_dst :: "UdpFlow \<Rightarrow> SocketAddr" where
  "flow_dst (FlowV4 src dst frag ext) = SockV4 dst"
| "flow_dst (FlowV6 src (ip, port) ext) = SockV6 (sock_v6 ip port)"

fun footer_len :: "UdpFlow \<Rightarrow> nat" where
  "footer_len (FlowV4 src dst frag None) = IP4_LEN_V1"
| "footer_len (FlowV4 src dst (Some fr) (Some e)) = IP4_LEN_V2_WITH_FRAG"
| "footer_len (FlowV4 src dst None (Some e)) = IP4_LEN_V2_WITHOUT_FRAG"
| "footer_len (FlowV6 src dst None) = IP6_LEN_V1"
| "footer_len (FlowV6 src dst (Some e)) = IP6_LEN_V2"

definition MAX_IP4_LEN :: nat where
  "MAX_IP4_LEN = Max (set [IP4_LEN_V1, IP4_LEN_V2_WITH_FRAG, IP4_LEN_V2_WITHOUT_FRAG])"

definition MAX_IP6_LEN :: nat where
  "MAX_IP6_LEN = Max (set [IP6_LEN_V1, IP6_LEN_V2])"

definition MX_LEN :: nat where
  "MX_LEN = Max (set [MAX_IP4_LEN, MAX_IP6_LEN])"

subsection \<open>\<^verbatim>\<open>write_to\<close>\<close>

text \<open>\<^verbatim>\<open>slice.write_u32::<BigEndian>(\<dots>).unwrap()\<close>, followed by the rest.\<close>

definition put_unwrap :: "unit put \<Rightarrow> writer \<Rightarrow> writer" where
  "put_unwrap a b s = (case a s of Inl e \<Rightarrow> Inl (Panic ''unwrap'') | Inr (_, s') \<Rightarrow> b s')"

definition write_extension :: "byteorder \<Rightarrow> UdpFlowExtension \<Rightarrow> writer \<Rightarrow> writer" where
  "write_extension bo e k =
     put_unwrap (bo_write_u64 bo (client_server_id e))
    (put_unwrap (bo_write_u64 bo (tunnel_id e))
    (put_unwrap (bo_write_u16 bo (port_offset e)) k))"

fun write_footer :: "byteorder \<Rightarrow> UdpFlow \<Rightarrow> writer" where
  "write_footer bo (FlowV4 src dst frag ext) =
     put_unwrap (bo_write_u32 bo (v4_ip src))
    (put_unwrap (bo_write_u32 bo (v4_ip dst))
    (put_unwrap (bo_write_u16 bo (v4_port src))
    (put_unwrap (bo_write_u16 bo (v4_port dst))
    (case ext of
       Some e \<Rightarrow> write_extension bo e
         ((case frag of
             None \<Rightarrow> put_unwrap (bo_write_u16 bo 0)
           | Some fr \<Rightarrow> (\<lambda>k.
               put_unwrap (bo_write_u8 bo (if has_more fr then 1 else 0))
              (put_unwrap (bo_write_u16 bo (frag_offset fr))
              (put_unwrap (bo_write_u16 bo (packet_id fr)) k))))
          (put_unwrap (bo_write_u64 bo REDIRECT_FLOW_4_FOOTER_ID_V2) wok))
     | None \<Rightarrow> put_unwrap (bo_write_u64 bo REDIRECT_FLOW_4_FOOTER_ID_V1) wok))))"
| "write_footer bo (FlowV6 src dst ext) =
     put_unwrap (bo_write_u128 bo (fst src))
    (put_unwrap (bo_write_u128 bo (fst dst))
    (put_unwrap (bo_write_u16 bo (snd src))
    (put_unwrap (bo_write_u16 bo (snd dst))
    (case ext of
       Some e \<Rightarrow> write_extension bo e (put_unwrap (bo_write_u64 bo REDIRECT_FLOW_6_FOOTER_ID_V2) wok)
     | None \<Rightarrow> put_unwrap (bo_write_u32 bo 0)
         (put_unwrap (bo_write_u64 bo REDIRECT_FLOW_6_FOOTER_ID_V1) wok)))))"

text \<open>The result and the contents of the slice afterwards.\<close>

definition UdpFlow_write_to :: "byteorder \<Rightarrow> UdpFlow \<Rightarrow> bytes \<Rightarrow> io_error + (bool \<times> bytes)" where
  "UdpFlow_write_to bo f buf =
     (if length buf < footer_len f then Inr (False, buf)
      else and_then (write_footer bo f (slice_sink (length buf)))
        (\<lambda>(_, s). Inr (True, written s @ drop (length (written s)) buf)))"

subsection \<open>\<^verbatim>\<open>from_tail\<close>\<close>

definition get_unwrap :: "'a reader \<Rightarrow> ('a \<Rightarrow> 'b reader) \<Rightarrow> 'b reader" where
  "get_unwrap p f bs = (case p bs of Inl e \<Rightarrow> Inl (Panic ''unwrap'') | Inr (x, rest) \<Rightarrow> f x rest)"

text \<open>\<^verbatim>\<open>NonZeroU64::new(x).ok_or(None)?\<close>\<close>

definition non_zero :: "u64 \<Rightarrow> (u64 \<Rightarrow> (u64 option + 'b) reader) \<Rightarrow> (u64 option + 'b) reader" where
  "non_zero x k = (if x = 0 then rret (Inl None) else k x)"

definition read_extension ::
  "byteorder \<Rightarrow> (UdpFlowExtension \<Rightarrow> (u64 option + 'b) reader) \<Rightarrow> (u64 option + 'b) reader" where
  "read_extension bo k =
     get_unwrap (bo_read_u64 bo) (\<lambda>c. non_zero c (\<lambda>csi.
     get_unwrap (bo_read_u64 bo) (\<lambda>t. non_zero t (\<lambda>tid.
     get_unwrap (bo_read_u16 bo) (\<lambda>po.
     k \<lparr>client_server_id = csi, tunnel_id = tid, port_offset = po\<rparr>)))))"

definition read_v4_addrs ::
  "byteorder \<Rightarrow> (SocketAddrV4 \<Rightarrow> SocketAddrV4 \<Rightarrow> 'b reader) \<Rightarrow> 'b reader" where
  "read_v4_addrs bo k =
     get_unwrap (bo_read_u32 bo) (\<lambda>src_ip.
     get_unwrap (bo_read_u32 bo) (\<lambda>dst_ip.
     get_unwrap (bo_read_u16 bo) (\<lambda>src_port.
     get_unwrap (bo_read_u16 bo) (\<lambda>dst_port.
     k (sock_v4 src_ip src_port) (sock_v4 dst_ip dst_port)))))"

definition read_v6_addrs ::
  "byteorder \<Rightarrow> (Ipv6Addr \<times> u16 \<Rightarrow> Ipv6Addr \<times> u16 \<Rightarrow> 'b reader) \<Rightarrow> 'b reader" where
  "read_v6_addrs bo k =
     get_unwrap (bo_read_u128 bo) (\<lambda>src_ip.
     get_unwrap (bo_read_u128 bo) (\<lambda>dst_ip.
     get_unwrap (bo_read_u16 bo) (\<lambda>src_port.
     get_unwrap (bo_read_u16 bo) (\<lambda>dst_port.
     k (src_ip, src_port) (dst_ip, dst_port)))))"

text \<open>\<^verbatim>\<open>&slice[slice.len() - n..]\<close>: the subtraction, or the index it gives, panics on a shorter slice.\<close>

definition tail_slice :: "nat \<Rightarrow> bytes \<Rightarrow> io_error + bytes" where
  "tail_slice n bs =
     (if length bs < n then Inl (Panic ''range start index out of range'') else Inr (drop (length bs - n) bs))"

definition parsed :: "(u64 option + UdpFlow) reader \<Rightarrow> nat \<Rightarrow> bytes \<Rightarrow> io_error + (u64 option + UdpFlow)" where
  "parsed r n bs = and_then (tail_slice n bs) (\<lambda>t. and_then (r t) (\<lambda>(x, _). Inr x))"

definition from_tail :: "byteorder \<Rightarrow> bytes \<Rightarrow> io_error + (u64 option + UdpFlow)" where
  "from_tail bo buf =
     (if length buf < 8 then Inr (Inl None)
      else and_then (tail_slice 8 buf) (\<lambda>id_bytes. let footer_id = bo_get_u64 bo id_bytes in
      if footer_id = REDIRECT_FLOW_4_FOOTER_ID_V1 then
        (if length buf < IP4_LEN_V1 then Inr (Inl None)
         else parsed (read_v4_addrs bo (\<lambda>src dst. rret (Inr (FlowV4 src dst None None)))) IP4_LEN_V1 buf)
      else if footer_id = REDIRECT_FLOW_4_FOOTER_ID_V2 then
        (if length buf < 10 then Inr (Inl None)
         else and_then (tail_slice 10 buf) (\<lambda>pid_bytes. let pid = bo_get_u16 bo pid_bytes;
                  n = (if pid = 0 then IP4_LEN_V2_WITHOUT_FRAG else IP4_LEN_V2_WITH_FRAG) in
           if length buf < n then Inr (Inl None)
           else parsed (read_v4_addrs bo (\<lambda>src dst. read_extension bo (\<lambda>e.
             if pid \<noteq> 0 then
               get_unwrap (bo_read_u8 bo) (\<lambda>hm.
               get_unwrap (bo_read_u16 bo) (\<lambda>fo.
               rret (Inr (FlowV4 src dst
                 (Some \<lparr>packet_id = pid, frag_offset = fo, has_more = (hm \<noteq> 0)\<rparr>) (Some e)))))
             else rret (Inr (FlowV4 src dst None (Some e)))))) n buf))
      else if footer_id = REDIRECT_FLOW_6_FOOTER_ID_V1 then
        (if length buf < IP6_LEN_V1 then Inr (Inl None)
         else parsed (read_v6_addrs bo (\<lambda>src dst. get_unwrap (bo_read_u32 bo) (\<lambda>_.
           rret (Inr (FlowV6 src dst None))))) IP6_LEN_V1 buf)
      else if footer_id = REDIRECT_FLOW_6_FOOTER_ID_V2 then
        (if length buf < IP6_LEN_V2 then Inr (Inl None)
         else parsed (read_v6_addrs bo (\<lambda>src dst. read_extension bo (\<lambda>e.
           rret (Inr (FlowV6 src dst (Some e)))))) IP6_LEN_V2 buf)
      else Inr (Inl (Some footer_id))))"

subsection \<open>Laws\<close>

text \<open>The four layouts.\<close>

fun extension_bytes :: "UdpFlowExtension \<Rightarrow> bytes" where
  "extension_bytes e = be64 (client_server_id e) @ be64 (tunnel_id e) @ be16 (port_offset e)"

fun frag_bytes :: "FragmentInfo option \<Rightarrow> bytes" where
  "frag_bytes None = be16 0"
| "frag_bytes (Some fr) = be8 (if has_more fr then 1 else 0) @ be16 (frag_offset fr) @ be16 (packet_id fr)"

fun footer_bytes :: "UdpFlow \<Rightarrow> bytes" where
  "footer_bytes (FlowV4 src dst frag ext) =
     be32 (v4_ip src) @ be32 (v4_ip dst) @ be16 (v4_port src) @ be16 (v4_port dst) @
     (case ext of
        Some e \<Rightarrow> extension_bytes e @ frag_bytes frag @ be64 REDIRECT_FLOW_4_FOOTER_ID_V2
      | None \<Rightarrow> be64 REDIRECT_FLOW_4_FOOTER_ID_V1)"
| "footer_bytes (FlowV6 src dst ext) =
     be128 (fst src) @ be128 (fst dst) @ be16 (snd src) @ be16 (snd dst) @
     (case ext of
        Some e \<Rightarrow> extension_bytes e @ be64 REDIRECT_FLOW_6_FOOTER_ID_V2
      | None \<Rightarrow> be32 0 @ be64 REDIRECT_FLOW_6_FOOTER_ID_V1)"

lemma length_footer_bytes: "length (footer_bytes f) = footer_len f"
  by (cases f rule: footer_len.cases) (simp_all add: footer_lens)

text \<open>The invariant of the \<^verbatim>\<open>NonZero\<close> fields.\<close>

fun wf_flow :: "UdpFlow \<Rightarrow> bool" where
  "wf_flow (FlowV4 src dst frag ext) =
     (pred_option (\<lambda>fr. packet_id fr \<noteq> 0) frag \<and>
      pred_option (\<lambda>e. client_server_id e \<noteq> 0 \<and> tunnel_id e \<noteq> 0) ext)"
| "wf_flow (FlowV6 src dst ext) = pred_option (\<lambda>e. client_server_id e \<noteq> 0 \<and> tunnel_id e \<noteq> 0) ext"

text \<open>What survives the encoding: the version 1 layout has no place for fragment data.\<close>

fun flow_view :: "UdpFlow \<Rightarrow> UdpFlow" where
  "flow_view (FlowV4 src dst frag None) = FlowV4 src dst None None"
| "flow_view f = f"

text \<open>A result of the parser that is no panic, and a well-formed flow that fits the packet if it is a flow.\<close>

definition good_parse :: "bytes \<Rightarrow> io_error + (u64 option + UdpFlow) \<Rightarrow> bool" where
  "good_parse bs r \<longleftrightarrow> (\<exists>e. r = Inr (Inl e)) \<or>
     (\<exists>f. r = Inr (Inr f) \<and> wf_flow f \<and> flow_view f = f \<and> footer_len f \<le> length bs)"

lemma good_parse_if:
  "(c \<Longrightarrow> good_parse bs a) \<Longrightarrow> (\<not> c \<Longrightarrow> good_parse bs b) \<Longrightarrow> good_parse bs (if c then a else b)"
  by simp

lemma good_parse_tail:
  "n \<le> length bs \<Longrightarrow> (\<And>t. good_parse bs (k t)) \<Longrightarrow> good_parse bs (and_then (tail_slice n bs) k)"
  by (simp add: tail_slice_def)

definition fills :: "writer \<Rightarrow> bytes \<Rightarrow> bool" where
  "fills w bs \<longleftrightarrow> (\<forall>s. fits bs s \<longrightarrow> w s = Inr (0, append_sink bs s))"

lemma fills_wok: "fills wok []"
  by (simp add: fills_def wok_def)

lemma fills_put_unwrap: "fills k ys \<Longrightarrow> fills (put_unwrap (write_all xs) k) (xs @ ys)"
  by (simp add: fills_def put_unwrap_def write_all_def fits_append append_sink_append)

lemma tail_slice_drop: "n \<le> length ys \<Longrightarrow> tail_slice n (xs @ ys) = tail_slice n ys"
  by (simp add: tail_slice_def)

lemma tail_slice_ok: "n \<le> length bs \<Longrightarrow> tail_slice n bs = Inr (drop (length bs - n) bs)"
  by (simp add: tail_slice_def)

lemma tail_slice_all: "length ys = n \<Longrightarrow> tail_slice n ys = Inr ys"
  by (simp add: tail_slice_def)

lemma get_unwrap_be:
  "n \<le> length bs \<Longrightarrow> get_unwrap (be_read n) k bs = k (of_be (take n bs)) (drop n bs)"
  by (simp add: get_unwrap_def be_read_def rbind_def read_exact_def rret_def)

lemma get_unwrap_decodes:
  "get_unwrap (be_read 1) k8 (be8 x8 @ rest) = k8 x8 rest"
  "get_unwrap (be_read 2) k16 (be16 x16 @ rest) = k16 x16 rest"
  "get_unwrap (be_read 4) k32 (be32 x32 @ rest) = k32 x32 rest"
  "get_unwrap (be_read 8) k64 (be64 x64 @ rest) = k64 x64 rest"
  "get_unwrap (be_read 16) k128 (be128 x128 @ rest) = k128 x128 rest"
  using be_read_be by (simp_all add: get_unwrap_def)

lemma get_unwrap_byte: "get_unwrap (be_read (Suc 0)) k8 (be8 x8 @ rest) = k8 x8 rest"
  using get_unwrap_decodes(1) by simp

context big_endian_io
begin

lemma write_footer_fills: "fills (write_footer bo f) (footer_bytes f)"
proof (cases f)
  case (FlowV4 src dst frag ext)
  show ?thesis unfolding FlowV4
    by (cases ext; cases frag)
      (simp_all add: bo_simps write_extension_def fills_put_unwrap fills_wok
        fills_put_unwrap [OF fills_wok, simplified])
next
  case (FlowV6 src dst ext)
  show ?thesis unfolding FlowV6
    by (cases ext)
      (simp_all add: bo_simps write_extension_def fills_put_unwrap fills_wok
        fills_put_unwrap [OF fills_wok, simplified])
qed

lemma write_to_eq:
  "UdpFlow_write_to bo f buf = Inr
    (if length buf < footer_len f then (False, buf)
     else (True, footer_bytes f @ drop (footer_len f) buf))"
proof (cases "length buf < footer_len f")
  case False
  then have "fits (footer_bytes f) (slice_sink (length buf))"
    by (simp add: fits_def slice_sink_def length_footer_bytes)
  with write_footer_fills [of f] have
    "write_footer bo f (slice_sink (length buf)) = Inr (0, append_sink (footer_bytes f) (slice_sink (length buf)))"
    by (simp add: fills_def)
  with False show ?thesis
    by (simp add: UdpFlow_write_to_def append_sink_def slice_sink_def length_footer_bytes)
qed (simp add: UdpFlow_write_to_def)

lemmas tail_reads = read_v4_addrs_def read_v6_addrs_def read_extension_def bo_simps get_unwrap_decodes
  get_unwrap_byte non_zero_def parsed_def tail_slice_drop tail_slice_ok get_u64 get_u16 rret_def

lemma from_tail_footer_v4:
  assumes "wf_flow (FlowV4 src dst frag ext)"
  shows "from_tail bo (pre @ footer_bytes (FlowV4 src dst frag ext)) = Inr (Inr (flow_view (FlowV4 src dst frag ext)))"
  using assms
  by (cases ext; cases frag; simp add: from_tail_def tail_reads footer_lens footer_consts sock_v4_def)

lemma from_tail_footer_v6:
  assumes "wf_flow (FlowV6 src dst ext)"
  shows "from_tail bo (pre @ footer_bytes (FlowV6 src dst ext)) = Inr (Inr (FlowV6 src dst ext))"
  using assms
  by (cases ext; simp add: from_tail_def tail_reads footer_lens footer_consts)

lemma from_tail_footer: "wf_flow f \<Longrightarrow> from_tail bo (pre @ footer_bytes f) = Inr (Inr (flow_view f))"
  by (cases f) (simp_all only: from_tail_footer_v4 from_tail_footer_v6 flow_view.simps)

text \<open>The parsers of the four layouts, on a tail that is long enough.\<close>

lemma read_v4_addrs_total:
  "12 \<le> length bs \<Longrightarrow> \<exists>src dst. read_v4_addrs bo k bs = k src dst (drop 12 bs)"
  by (auto simp: read_v4_addrs_def bo_simps get_unwrap_be)

lemma read_v6_addrs_total:
  "36 \<le> length bs \<Longrightarrow> \<exists>src dst. read_v6_addrs bo k bs = k src dst (drop 36 bs)"
  by (auto simp: read_v6_addrs_def bo_simps get_unwrap_be)

lemma read_extension_total:
  assumes "18 \<le> length bs"
  shows "(\<exists>rest. read_extension bo k bs = Inr (Inl None, rest)) \<or>
    (\<exists>e. client_server_id e \<noteq> 0 \<and> tunnel_id e \<noteq> 0 \<and> read_extension bo k bs = k e (drop 18 bs))"
proof -
  define e where "e = \<lparr>client_server_id = of_be (take 8 bs), tunnel_id = of_be (take 8 (drop 8 bs)),
    port_offset = of_be (take 2 (drop 16 bs))\<rparr>"
  have "read_extension bo k bs =
      (if client_server_id e = 0 then Inr (Inl None, drop 8 bs)
       else if tunnel_id e = 0 then Inr (Inl None, drop 16 bs) else k e (drop 18 bs))"
    using assms by (simp add: read_extension_def bo_simps get_unwrap_be non_zero_def rret_def e_def)
  then show ?thesis by (cases "client_server_id e = 0"; cases "tunnel_id e = 0") auto
qed

lemma parsed_v4_ext:
  assumes "n \<le> length bs" "n = (if pid = 0 then 40 else 43)"
  shows "good_parse bs (parsed (read_v4_addrs bo (\<lambda>src dst. read_extension bo (\<lambda>e.
             if pid \<noteq> 0 then
               get_unwrap (bo_read_u8 bo) (\<lambda>hm.
               get_unwrap (bo_read_u16 bo) (\<lambda>fo.
               rret (Inr (FlowV4 src dst
                 (Some \<lparr>packet_id = pid, frag_offset = fo, has_more = (hm \<noteq> 0)\<rparr>) (Some e)))))
             else rret (Inr (FlowV4 src dst None (Some e)))))) n bs)"
    (is "good_parse bs (parsed (read_v4_addrs bo ?k) n bs)")
proof -
  let ?t = "drop (length bs - n) bs"
  have len: "length ?t = n" "12 \<le> n" using assms by auto
  then obtain src dst where 1: "read_v4_addrs bo ?k ?t = ?k src dst (drop 12 ?t)"
    using read_v4_addrs_total [of ?t ?k] by auto
  have 2: "(\<exists>rest. ?k src dst (drop 12 ?t) = Inr (Inl None, rest)) \<or>
    (\<exists>e. client_server_id e \<noteq> 0 \<and> tunnel_id e \<noteq> 0 \<and> ?k src dst (drop 12 ?t) =
       (if pid \<noteq> 0 then
               get_unwrap (bo_read_u8 bo) (\<lambda>hm.
               get_unwrap (bo_read_u16 bo) (\<lambda>fo.
               rret (Inr (FlowV4 src dst
                 (Some \<lparr>packet_id = pid, frag_offset = fo, has_more = (hm \<noteq> 0)\<rparr>) (Some e)))))
             else rret (Inr (FlowV4 src dst None (Some e)))) (drop 18 (drop 12 ?t)))"
    using len assms(2) by (intro read_extension_total) auto
  have p: "parsed (read_v4_addrs bo ?k) n bs = and_then (?k src dst (drop 12 ?t)) (\<lambda>(x, _). Inr x)"
    using assms(1) by (simp add: parsed_def tail_slice_ok 1)
  show ?thesis using 2 assms unfolding p
    by (auto simp: good_parse_def bo_simps get_unwrap_be rret_def footer_lens)
qed

lemma parsed_v6_ext:
  assumes "n \<le> length bs" "n = 62"
  shows "good_parse bs (parsed (read_v6_addrs bo (\<lambda>src dst. read_extension bo (\<lambda>e.
           rret (Inr (FlowV6 src dst (Some e)))))) n bs)"
    (is "good_parse bs (parsed (read_v6_addrs bo ?k) n bs)")
proof -
  let ?t = "drop (length bs - n) bs"
  have len: "length ?t = 62" using assms by auto
  then obtain src dst where 1: "read_v6_addrs bo ?k ?t = ?k src dst (drop 36 ?t)"
    using read_v6_addrs_total [of ?t ?k] by auto
  have 2: "(\<exists>rest. ?k src dst (drop 36 ?t) = Inr (Inl None, rest)) \<or>
    (\<exists>e. client_server_id e \<noteq> 0 \<and> tunnel_id e \<noteq> 0 \<and> ?k src dst (drop 36 ?t) =
       rret (Inr (FlowV6 src dst (Some e))) (drop 18 (drop 36 ?t)))"
    using len by (intro read_extension_total) auto
  have p: "parsed (read_v6_addrs bo ?k) n bs = and_then (?k src dst (drop 36 ?t)) (\<lambda>(x, _). Inr x)"
    using assms(1) by (simp add: parsed_def tail_slice_ok 1)
  show ?thesis using 2 assms unfolding p by (auto simp: good_parse_def rret_def footer_lens)
qed

lemma from_tail_good: "good_parse bs (from_tail bo bs)"
proof -
  have v4: "good_parse bs (parsed (read_v4_addrs bo (\<lambda>src dst. rret (Inr (FlowV4 src dst None None)))) 20 bs)"
    if "20 \<le> length bs"
    using that by (simp add: parsed_def read_v4_addrs_def bo_simps get_unwrap_be rret_def good_parse_def footer_lens tail_slice_ok)
  have v6: "good_parse bs (parsed (read_v6_addrs bo (\<lambda>src dst. get_unwrap (bo_read_u32 bo) (\<lambda>_.
           rret (Inr (FlowV6 src dst None))))) 48 bs)"
    if "48 \<le> length bs"
    using that by (simp add: parsed_def read_v6_addrs_def bo_simps get_unwrap_be rret_def good_parse_def footer_lens tail_slice_ok)
  have err: "good_parse bs (Inr (Inl e))" for e by (simp add: good_parse_def)
  show ?thesis
    unfolding from_tail_def Let_def footer_lens
    by (rule good_parse_if err | (rule good_parse_tail, linarith) | (rule v4 v6; linarith) | (rule parsed_v4_ext parsed_v6_ext; simp))+
qed

end

subsection \<open>Properties of the UDP footer\<close>

text \<open>
  C6: \<^verbatim>\<open>UdpFlow::write_to\<close> never panics; on a slice with room for the footer it reports success, overwrites
  exactly \<^verbatim>\<open>footer_len\<close> bytes at its start and leaves the rest, and \<^verbatim>\<open>from_tail\<close> of any packet that
  ends with these bytes gives the flow back (without the fragment data of a flow that has no
  extension, for which the old layout has no place). On a shorter slice it reports failure and writes
  nothing.
\<close>

theorem udp_footer_roundtrip:
  assumes "big_endian_io bo" "wf_flow f"
  shows "(length buf < footer_len f \<longrightarrow> UdpFlow_write_to bo f buf = Inr (False, buf)) \<and>
    (footer_len f \<le> length buf \<longrightarrow> (\<exists>footer. UdpFlow_write_to bo f buf = Inr (True, footer @ drop (footer_len f) buf) \<and>
       length footer = footer_len f \<and> (\<forall>payload. from_tail bo (payload @ footer) = Inr (Inr (flow_view f)))))"
  using big_endian_io.write_to_eq [OF assms(1), of f buf] length_footer_bytes [of f]
    big_endian_io.from_tail_footer [OF assms]
  by auto

text \<open>
  C7: \<^verbatim>\<open>from_tail\<close> never panics, whatever the packet: none of its \<^verbatim>\<open>unwrap\<close>s fails and no index is out of
  range (\<^verbatim>\<open>&slice[slice.len() - n..]\<close> on a slice of fewer than \<open>n\<close> bytes would panic). A flow it returns has non-zero ids, is one that \<^verbatim>\<open>write_to\<close> would preserve, and its footer fits in the packet.
\<close>

theorem from_tail_total:
  assumes "big_endian_io bo"
  shows "\<exists>r. from_tail bo bs = Inr r \<and>
    (\<forall>f. r = Inr f \<longrightarrow> wf_flow f \<and> flow_view f = f \<and> footer_len f \<le> length bs)"
  using big_endian_io.from_tail_good [OF assms, of bs] by (auto simp: good_parse_def)

text \<open>
  \<^verbatim>\<open>flip\<close> exchanges source and destination, keeps everything else and is its own inverse; every footer fits in the
  space the packet buffers reserve for it.
\<close>

theorem flip_and_len:
  "flow_src (flip f) = flow_dst f \<and> flow_dst (flip f) = flow_src f \<and> flip (flip f) = f \<and>
   flow_extension (flip f) = flow_extension f \<and> footer_len (flip f) = footer_len f \<and> footer_len f \<le> MX_LEN"
  by (cases f rule: footer_len.cases)
    (auto simp: footer_lens MX_LEN_def MAX_IP4_LEN_def MAX_IP6_LEN_def)

definition example_flow :: UdpFlow where
  "example_flow = FlowV4 (sock_v4 0x01020304 9000) (sock_v4 0x7f000001 25565)
     (Some \<lparr>packet_id = 5, frag_offset = 185, has_more = True\<rparr>)
     (Some \<lparr>client_server_id = 77, tunnel_id = 12, port_offset = 3\<rparr>)"

theorem udp_footer_roundtrip_witness:
  "\<exists>footer. UdpFlow_write_to be_byteorder example_flow (replicate 50 0) =
      Inr (True, footer @ drop (footer_len example_flow) (replicate 50 0)) \<and>
    length footer = footer_len example_flow \<and>
    (\<forall>payload. from_tail be_byteorder (payload @ footer) = Inr (Inr (flow_view example_flow)))"
proof -
  have "wf_flow example_flow" "footer_len example_flow \<le> length (replicate 50 0 :: bytes)"
    by (simp_all add: example_flow_def footer_lens)
  with udp_footer_roundtrip [OF be_io.big_endian_io_axioms, of example_flow "replicate 50 0"]
  show ?thesis by blast
qed

theorem from_tail_total_witness:
  "\<exists>r. from_tail be_byteorder [1, 2, 3] = Inr r \<and>
    (\<forall>f. r = Inr f \<longrightarrow> wf_flow f \<and> flow_view f = f \<and> footer_len f \<le> length [1, 2, 3 :: u8])"
  by (rule from_tail_total [OF be_io.big_endian_io_axioms])

end
