(* ===== verification/Id_Slab.thy ===== *)
theory Id_Slab
  imports Playit_Prelude
begin

section \<open>Slabs with stable ids\<close>

text \<open>
  \<^verbatim>\<open>packages/agent_core/src/utils/id_slab.rs\<close> and \<^verbatim>\<open>key_to_id.rs\<close>: a slot map with a capacity limit whose
  keys are exposed as 64-bit ids, and on top of it a table that gives each key one id. The slot map is
  the \<^verbatim>\<open>slotmap\<close> crate, so it is the argument \<open>sm\<close>; the locale \<open>slot_map\<close> states what the crate
  documents: fresh keys, lookup after insertion and removal, and keys that survive the conversion to an
  integer. At the end a list of slots that reuses the least free index interprets it.
\<close>

record ('m, 'k, 'v) slotmap =
  sm_with_capacity :: "nat \<Rightarrow> 'm"
  sm_len :: "'m \<Rightarrow> nat"
  sm_get :: "'m \<Rightarrow> 'k \<Rightarrow> 'v option"
  sm_insert :: "'m \<Rightarrow> 'v \<Rightarrow> 'k \<times> 'm"
  sm_remove :: "'m \<Rightarrow> 'k \<Rightarrow> 'v option \<times> 'm"
  sm_set :: "'m \<Rightarrow> 'k \<Rightarrow> 'v \<Rightarrow> 'm"
  sm_values :: "'m \<Rightarrow> 'v list"
  sm_as_ffi :: "'k \<Rightarrow> u64"
  sm_from_ffi :: "u64 \<Rightarrow> 'k"

text \<open>\<open>sm_set m k v\<close> is the assignment through \<^verbatim>\<open>get_mut(k)\<close>.\<close>

subsection \<open>\<^verbatim>\<open>IdSlab\<close>\<close>

datatype 'v Entry = Reserved | Occupied 'v

record 'm IdSlab =
  entries :: 'm
  capacity :: nat

fun entry_value :: "'v Entry \<Rightarrow> 'v option" where
  "entry_value Reserved = None"
| "entry_value (Occupied v) = Some v"

definition slab_with_capacity :: "('m, 'k, 'v Entry) slotmap \<Rightarrow> nat \<Rightarrow> 'm IdSlab" where
  "slab_with_capacity sm n = \<lparr>entries = sm_with_capacity sm n, capacity = n\<rparr>"

definition slab_len :: "('m, 'k, 'v Entry) slotmap \<Rightarrow> 'm IdSlab \<Rightarrow> nat" where
  "slab_len sm s = sm_len sm (entries s)"

definition slab_is_empty :: "('m, 'k, 'v Entry) slotmap \<Rightarrow> 'm IdSlab \<Rightarrow> bool" where
  "slab_is_empty sm s \<longleftrightarrow> sm_len sm (entries s) = 0"

definition slab_available :: "('m, 'k, 'v Entry) slotmap \<Rightarrow> 'm IdSlab \<Rightarrow> nat" where
  "slab_available sm s = capacity s - sm_len sm (entries s)"

definition slab_get :: "('m, 'k, 'v Entry) slotmap \<Rightarrow> 'm IdSlab \<Rightarrow> u64 \<Rightarrow> 'v option" where
  "slab_get sm s i = Option.bind (sm_get sm (entries s) (sm_from_ffi sm i)) entry_value"

text \<open>\<^verbatim>\<open>get_mut\<close>, as the update it is used for.\<close>

definition slab_modify ::
  "('m, 'k, 'v Entry) slotmap \<Rightarrow> 'm IdSlab \<Rightarrow> u64 \<Rightarrow> ('v \<Rightarrow> 'v) \<Rightarrow> 'm IdSlab option" where
  "slab_modify sm s i f = (case sm_get sm (entries s) (sm_from_ffi sm i) of
       Some (Occupied v) \<Rightarrow>
         Some (s\<lparr>entries := sm_set sm (entries s) (sm_from_ffi sm i) (Occupied (f v))\<rparr>)
     | _ \<Rightarrow> None)"

definition slab_remove ::
  "('m, 'k, 'v Entry) slotmap \<Rightarrow> 'm IdSlab \<Rightarrow> u64 \<Rightarrow> 'v option \<times> 'm IdSlab" where
  "slab_remove sm s i = (case sm_remove sm (entries s) (sm_from_ffi sm i) of
     (r, m) \<Rightarrow> (Option.bind r entry_value, s\<lparr>entries := m\<rparr>))"

definition slab_insert ::
  "('m, 'k, 'v Entry) slotmap \<Rightarrow> 'm IdSlab \<Rightarrow> 'v \<Rightarrow> ('v + u64) \<times> 'm IdSlab" where
  "slab_insert sm s v =
     (if capacity s \<le> sm_len sm (entries s) then (Inl v, s)
      else (case sm_insert sm (entries s) (Occupied v) of
              (k, m) \<Rightarrow> (Inr (sm_as_ffi sm k), s\<lparr>entries := m\<rparr>)))"

definition slab_vacant_entry ::
  "('m, 'k, 'v Entry) slotmap \<Rightarrow> 'm IdSlab \<Rightarrow> ('k \<times> 'm IdSlab) option" where
  "slab_vacant_entry sm s =
     (if capacity s \<le> sm_len sm (entries s) then None
      else (case sm_insert sm (entries s) Reserved of (k, m) \<Rightarrow> Some (k, s\<lparr>entries := m\<rparr>)))"

definition slab_iter :: "('m, 'k, 'v Entry) slotmap \<Rightarrow> 'm IdSlab \<Rightarrow> 'v list" where
  "slab_iter sm s = List.map_filter entry_value (sm_values sm (entries s))"

text \<open>The guard returned by \<^verbatim>\<open>vacant_entry\<close>: its id, filling it, and dropping it unused.\<close>

definition vacant_id :: "('m, 'k, 'v Entry) slotmap \<Rightarrow> 'k \<Rightarrow> u64" where
  "vacant_id sm k = sm_as_ffi sm k"

definition vacant_insert ::
  "('m, 'k, 'v Entry) slotmap \<Rightarrow> 'k \<Rightarrow> 'm IdSlab \<Rightarrow> 'v \<Rightarrow> io_error + (u64 \<times> 'm IdSlab)" where
  "vacant_insert sm k s v = (case sm_get sm (entries s) k of
       None \<Rightarrow> Inl (Panic ''reserved slot must exist'')
     | Some _ \<Rightarrow> Inr (sm_as_ffi sm k, s\<lparr>entries := sm_set sm (entries s) k (Occupied v)\<rparr>))"

definition vacant_drop :: "('m, 'k, 'v Entry) slotmap \<Rightarrow> 'k \<Rightarrow> 'm IdSlab \<Rightarrow> 'm IdSlab" where
  "vacant_drop sm k s = s\<lparr>entries := snd (sm_remove sm (entries s) k)\<rparr>"

subsection \<open>\<^verbatim>\<open>KeyToId\<close>\<close>

record ('m, 'key) KeyToId =
  items :: "'m IdSlab"
  lookup :: "'key \<rightharpoonup> u64"

definition KeyToId_default :: "('m, 'k, 'v Entry) slotmap \<Rightarrow> ('m, 'key) KeyToId" where
  "KeyToId_default sm = \<lparr>items = slab_with_capacity sm (1024 * 1024), lookup = Map.empty\<rparr>"

definition get_or_add ::
  "('m, 'k, 'v Entry) slotmap \<Rightarrow> ('m, 'key) KeyToId \<Rightarrow> 'key \<Rightarrow> (unit \<Rightarrow> 'v) \<Rightarrow>
   io_error + (u64 option \<times> ('m, 'key) KeyToId)" where
  "get_or_add sm t key value_fn = (case lookup t key of
       Some i \<Rightarrow> Inr (Some i, t)
     | None \<Rightarrow> (case slab_vacant_entry sm (items t) of
         None \<Rightarrow> Inr (None, t)
       | Some (k, s) \<Rightarrow> and_then (vacant_insert sm k s (value_fn ())) (\<lambda>(_, s').
           Inr (Some (vacant_id sm k), t\<lparr>items := s', lookup := (lookup t)(key \<mapsto> vacant_id sm k)\<rparr>))))"

definition kti_remove ::
  "('m, 'k, 'v Entry) slotmap \<Rightarrow> ('m, 'key) KeyToId \<Rightarrow> 'key \<Rightarrow>
   io_error + ((u64 \<times> 'v) option \<times> ('m, 'key) KeyToId)" where
  "kti_remove sm t key = (case lookup t key of
       None \<Rightarrow> Inr (None, t)
     | Some i \<Rightarrow> (case slab_remove sm (items t) i of
         (None, s) \<Rightarrow> Inl (Panic ''item at id not found'')
       | (Some v, s) \<Rightarrow> Inr (Some (i, v), t\<lparr>items := s, lookup := (lookup t)(key := None)\<rparr>)))"

subsection \<open>The contract of the slot map\<close>

locale slot_map =
  fixes sm :: "('m, 'k, 'v) slotmap" and valid :: "'m \<Rightarrow> bool"
  assumes new: "valid (sm_with_capacity sm n)" "sm_get sm (sm_with_capacity sm n) k = None"
    and live: "valid m \<Longrightarrow> finite {k. sm_get sm m k \<noteq> None} \<and> sm_len sm m = card {k. sm_get sm m k \<noteq> None}"
    and insert_law: "valid m \<Longrightarrow> sm_len sm m < 2 ^ 32 - 2 \<Longrightarrow> sm_insert sm m v = (k, m') \<Longrightarrow>
      valid m' \<and> sm_get sm m k = None \<and> sm_from_ffi sm (sm_as_ffi sm k) = k \<and>
      (\<forall>j. sm_get sm m' j = (if j = k then Some v else sm_get sm m j))"
    and remove_law: "valid m \<Longrightarrow> sm_remove sm m k = (r, m') \<Longrightarrow>
      valid m' \<and> r = sm_get sm m k \<and> (\<forall>j. sm_get sm m' j = (if j = k then None else sm_get sm m j))"
    and set_law: "valid m \<Longrightarrow> sm_get sm m k \<noteq> None \<Longrightarrow> valid (sm_set sm m k v) \<and>
      (\<forall>j. sm_get sm (sm_set sm m k v) j = (if j = k then Some v else sm_get sm m j))"
    and values_law: "valid m \<Longrightarrow> set (sm_values sm m) = {v. \<exists>k. sm_get sm m k = Some v}"
begin

lemma insert_len:
  assumes "valid m" "sm_len sm m < 2 ^ 32 - 2" "sm_insert sm m v = (k, m')"
  shows "sm_len sm m' = Suc (sm_len sm m)"
proof -
  note l = insert_law [OF assms]
  have "{j. sm_get sm m' j \<noteq> None} = insert k {j. sm_get sm m j \<noteq> None}" using l by auto
  then show ?thesis using live [of m] live [of m'] assms(1) l by (simp add: card_insert_if)
qed

lemma remove_len:
  assumes "valid m" "sm_remove sm m k = (r, m')"
  shows "sm_len sm m' = sm_len sm m - (if sm_get sm m k = None then 0 else 1)"
proof -
  note l = remove_law [OF assms]
  have "{j. sm_get sm m' j \<noteq> None} = {j. sm_get sm m j \<noteq> None} - {k}" using l by auto
  then show ?thesis using live [of m] live [of m'] assms(1) l by (auto simp: card_Diff_singleton_if)
qed

lemma set_len:
  assumes "valid m" "sm_get sm m k \<noteq> None"
  shows "sm_len sm (sm_set sm m k v) = sm_len sm m"
proof -
  note l = set_law [OF assms, of v]
  have "{j. sm_get sm (sm_set sm m k v) j \<noteq> None} = {j. sm_get sm m j \<noteq> None}" using l assms(2) by auto
  then show ?thesis using live [of m] live [of "sm_set sm m k v"] assms(1) l by simp
qed

end

text \<open>A slab is fine when its slot map is and it holds no more than its capacity.\<close>

definition slab_ok :: "('m, 'k, 'v Entry) slotmap \<Rightarrow> ('m \<Rightarrow> bool) \<Rightarrow> 'm IdSlab \<Rightarrow> bool" where
  "slab_ok sm valid s \<longleftrightarrow> valid (entries s) \<and> sm_len sm (entries s) \<le> capacity s \<and> capacity s \<le> 2 ^ 32 - 2"

subsection \<open>Laws of \<^verbatim>\<open>IdSlab\<close>\<close>

locale id_slab = slot_map sm valid
  for sm :: "('m, 'k, 'v Entry) slotmap" and valid
begin

lemma with_capacity_ok: "n \<le> 2 ^ 32 - 2 \<Longrightarrow> slab_ok sm valid (slab_with_capacity sm n)"
  using new live [OF new(1), of n] by (simp add: slab_ok_def slab_with_capacity_def)

lemma insert_ok:
  assumes ok: "slab_ok sm valid s" and i: "slab_insert sm s v = (r, s')"
  shows "slab_ok sm valid s'"
    and "slab_len sm s = capacity s \<Longrightarrow> r = Inl v \<and> s' = s"
    and "slab_len sm s < capacity s \<Longrightarrow> \<exists>i. r = Inr i \<and> slab_get sm s i = None \<and> slab_get sm s' i = Some v \<and>
      slab_len sm s' = Suc (slab_len sm s) \<and> (\<forall>j w. slab_get sm s j = Some w \<longrightarrow> slab_get sm s' j = Some w)"
proof -
  obtain k m where km: "sm_insert sm (entries s) (Occupied v) = (k, m)" by fastforce
  have full: "r = Inl v \<and> s' = s" if "capacity s \<le> sm_len sm (entries s)"
    using i that by (simp add: slab_insert_def)
  then show "slab_len sm s = capacity s \<Longrightarrow> r = Inl v \<and> s' = s" by (simp add: slab_len_def)
  have free: "r = Inr (sm_as_ffi sm k)" "s' = s\<lparr>entries := m\<rparr>" "sm_len sm (entries s) < 2 ^ 32 - 2"
    if "\<not> capacity s \<le> sm_len sm (entries s)"
    using i that ok by (auto simp: slab_insert_def km slab_ok_def)
  have v: "valid (entries s)" using ok by (simp add: slab_ok_def)
  note law = insert_law [OF v _ km] insert_len [OF v _ km]
  show "slab_ok sm valid s'"
    using full free law ok by (cases "capacity s \<le> sm_len sm (entries s)") (auto simp: slab_ok_def)
  assume "slab_len sm s < capacity s"
  then have "\<not> capacity s \<le> sm_len sm (entries s)" by (simp add: slab_len_def)
  with free law show "\<exists>i. r = Inr i \<and> slab_get sm s i = None \<and> slab_get sm s' i = Some v \<and>
      slab_len sm s' = Suc (slab_len sm s) \<and> (\<forall>j w. slab_get sm s j = Some w \<longrightarrow> slab_get sm s' j = Some w)"
    by (auto simp: slab_get_def slab_len_def)
qed

lemma remove_ok:
  assumes ok: "slab_ok sm valid s" and r: "slab_remove sm s i = (r, s')"
  shows "slab_ok sm valid s'" and "r = slab_get sm s i" and "slab_get sm s' i = None"
    and "sm_from_ffi sm j \<noteq> sm_from_ffi sm i \<Longrightarrow> slab_get sm s' j = slab_get sm s j"
    and "capacity s' = capacity s"
proof -
  obtain x m where xm: "sm_remove sm (entries s) (sm_from_ffi sm i) = (x, m)" by fastforce
  have v: "valid (entries s)" using ok by (simp add: slab_ok_def)
  note law = remove_law [OF v xm] remove_len [OF v xm]
  have s': "r = Option.bind x entry_value" "s' = s\<lparr>entries := m\<rparr>"
    using r by (simp_all add: slab_remove_def xm)
  show "slab_ok sm valid s'" using ok law by (auto simp: s' slab_ok_def)
  show "r = slab_get sm s i" "slab_get sm s' i = None" "capacity s' = capacity s"
    using law by (simp_all add: s' slab_get_def)
  show "sm_from_ffi sm j \<noteq> sm_from_ffi sm i \<Longrightarrow> slab_get sm s' j = slab_get sm s j"
    using law by (simp add: s' slab_get_def)
qed

lemma vacant_ok:
  assumes ok: "slab_ok sm valid s" and e: "slab_vacant_entry sm s = Some (k, s1)"
  shows "slab_ok sm valid s1" "capacity s1 = capacity s" "slab_len sm s < capacity s"
    and "sm_from_ffi sm (vacant_id sm k) = k" "sm_get sm (entries s) k = None"
    and "sm_get sm (entries s1) j = (if j = k then Some Reserved else sm_get sm (entries s) j)"
proof -
  obtain k' m where km: "sm_insert sm (entries s) Reserved = (k', m)" by fastforce
  have c: "sm_len sm (entries s) < capacity s" "k' = k" "s1 = s\<lparr>entries := m\<rparr>"
    using e by (auto simp: slab_vacant_entry_def km split: if_splits)
  have v: "valid (entries s)" and l: "sm_len sm (entries s) < 2 ^ 32 - 2"
    using ok c by (auto simp: slab_ok_def)
  note law = insert_law [OF v l km] insert_len [OF v l km]
  show "slab_ok sm valid s1" "capacity s1 = capacity s" "slab_len sm s < capacity s"
    using ok c law by (auto simp: slab_ok_def slab_len_def)
  show "sm_from_ffi sm (vacant_id sm k) = k" "sm_get sm (entries s) k = None"
    and "sm_get sm (entries s1) j = (if j = k then Some Reserved else sm_get sm (entries s) j)"
    using law c by (auto simp: vacant_id_def)
qed

text \<open>A dropped guard leaves every lookup and the number of entries as they were.\<close>

lemma vacant_drop_restores:
  assumes ok: "slab_ok sm valid s" and e: "slab_vacant_entry sm s = Some (k, s1)"
  shows "slab_ok sm valid (vacant_drop sm k s1)"
    and "slab_get sm (vacant_drop sm k s1) i = slab_get sm s i"
    and "slab_len sm (vacant_drop sm k s1) = slab_len sm s"
    and "slab_available sm (vacant_drop sm k s1) = slab_available sm s"
proof -
  note v = vacant_ok [OF ok e]
  have valid1: "valid (entries s1)" using v(1) by (simp add: slab_ok_def)
  obtain x m where xm: "sm_remove sm (entries s1) k = (x, m)" by fastforce
  note law = remove_law [OF valid1 xm]
  have get: "sm_get sm m j = sm_get sm (entries s) j" for j
    using law v(5) v(6) [of j] by auto
  have dom: "{j. sm_get sm m j \<noteq> None} = {j. sm_get sm (entries s) j \<noteq> None}" by (simp add: get)
  have "valid m" "valid (entries s)" using law ok by (simp_all add: slab_ok_def)
  then have len: "sm_len sm m = sm_len sm (entries s)"
    using live [of m] live [of "entries s"] dom by metis
  show "slab_ok sm valid (vacant_drop sm k s1)"
    using law ok v(2) by (simp add: slab_ok_def vacant_drop_def xm len)
  show "slab_get sm (vacant_drop sm k s1) i = slab_get sm s i"
    and "slab_len sm (vacant_drop sm k s1) = slab_len sm s"
    and "slab_available sm (vacant_drop sm k s1) = slab_available sm s"
    using v(2) by (simp_all add: vacant_drop_def xm slab_get_def get slab_len_def slab_available_def len)
qed

lemma vacant_insert_fills:
  assumes ok: "slab_ok sm valid s" and e: "slab_vacant_entry sm s = Some (k, s1)"
  obtains s2 where "vacant_insert sm k s1 v = Inr (vacant_id sm k, s2)" "slab_ok sm valid s2"
    "capacity s2 = capacity s"
    "\<And>j. slab_get sm s2 j = (if sm_from_ffi sm j = k then Some v else slab_get sm s j)"
proof -
  note w = vacant_ok [OF ok e]
  have valid1: "valid (entries s1)" using w(1) by (simp add: slab_ok_def)
  have there: "sm_get sm (entries s1) k \<noteq> None" using w(6) [of k] by simp
  note law = set_law [OF valid1 there, of "Occupied v"] set_len [OF valid1 there, of "Occupied v"]
  define s2 where "s2 = s1\<lparr>entries := sm_set sm (entries s1) k (Occupied v)\<rparr>"
  have "vacant_insert sm k s1 v = Inr (vacant_id sm k, s2)"
    using there by (auto simp: vacant_insert_def vacant_id_def s2_def)
  moreover have "slab_ok sm valid s2" using w(1) law by (simp add: slab_ok_def s2_def)
  moreover have "slab_get sm s2 j = (if sm_from_ffi sm j = k then Some v else slab_get sm s j)" for j
    using law w(6) by (simp add: slab_get_def s2_def)
  ultimately show thesis using that w(2) by (simp add: s2_def)
qed

end

subsection \<open>Laws of \<^verbatim>\<open>KeyToId\<close>\<close>

text \<open>
  The table keeps an occupied slot for every key it knows, and different slots for different keys. What
  it means is the map from keys to values.
\<close>

definition kti_ok :: "('m, 'k, 'v Entry) slotmap \<Rightarrow> ('m \<Rightarrow> bool) \<Rightarrow> ('m, 'key) KeyToId \<Rightarrow> bool" where
  "kti_ok sm valid t \<longleftrightarrow> slab_ok sm valid (items t) \<and>
     (\<forall>key i. lookup t key = Some i \<longrightarrow> slab_get sm (items t) i \<noteq> None) \<and>
     (\<forall>k1 k2 i1 i2. lookup t k1 = Some i1 \<longrightarrow> lookup t k2 = Some i2 \<longrightarrow>
        sm_from_ffi sm i1 = sm_from_ffi sm i2 \<longrightarrow> k1 = k2)"

definition kti_map :: "('m, 'k, 'v Entry) slotmap \<Rightarrow> ('m, 'key) KeyToId \<Rightarrow> 'key \<rightharpoonup> 'v" where
  "kti_map sm t = (\<lambda>key. Option.bind (lookup t key) (slab_get sm (items t)))"

definition kti_full :: "('m, 'k, 'v Entry) slotmap \<Rightarrow> ('m, 'key) KeyToId \<Rightarrow> bool" where
  "kti_full sm t \<longleftrightarrow> slab_available sm (items t) = 0"

context id_slab
begin

lemma default_ok: "kti_ok sm valid (KeyToId_default sm)"
  using with_capacity_ok [of "1024 * 1024"] by (simp add: kti_ok_def KeyToId_default_def)

lemma fresh_slot:
  assumes "kti_ok sm valid t" "sm_get sm (entries (items t)) k = None" "lookup t key = Some i"
  shows "sm_from_ffi sm i \<noteq> k"
  using assms unfolding kti_ok_def slab_get_def by (metis bind.bind_lzero)

lemma get_or_add_new:
  assumes ok: "kti_ok sm valid t" and key: "lookup t key = None"
    and e: "slab_vacant_entry sm (items t) = Some (k, s1)"
  obtains t' where "get_or_add sm t key f = Inr (Some (vacant_id sm k), t')" "kti_ok sm valid t'"
    "kti_map sm t' = (kti_map sm t)(key \<mapsto> f ())"
proof -
  have s: "slab_ok sm valid (items t)" using ok by (simp add: kti_ok_def)
  obtain s2 where i: "vacant_insert sm k s1 (f ()) = Inr (vacant_id sm k, s2)" and s2: "slab_ok sm valid s2"
    and get: "\<And>j. slab_get sm s2 j = (if sm_from_ffi sm j = k then Some (f ()) else slab_get sm (items t) j)"
    using vacant_insert_fills [OF s e] by metis
  have id: "sm_from_ffi sm (vacant_id sm k) = k" and free: "sm_get sm (entries (items t)) k = None"
    using vacant_ok [OF s e] by simp_all
  define t' where "t' = t\<lparr>items := s2, lookup := (lookup t)(key \<mapsto> vacant_id sm k)\<rparr>"
  have "get_or_add sm t key f = Inr (Some (vacant_id sm k), t')"
    by (simp add: get_or_add_def key e i t'_def)
  moreover have "kti_ok sm valid t'"
    using ok s2 fresh_slot [OF ok free] by (auto simp: kti_ok_def t'_def get id split: if_splits)
  moreover have "kti_map sm t' = (kti_map sm t)(key \<mapsto> f ())"
  proof
    fix x
    show "kti_map sm t' x = ((kti_map sm t)(key \<mapsto> f ())) x"
      using fresh_slot [OF ok free, of x]
      by (cases "lookup t x") (auto simp: kti_map_def t'_def get id)
  qed
  ultimately show thesis by (rule that)
qed

lemma get_or_add_spec:
  assumes ok: "kti_ok sm valid t"
  shows "\<exists>r t'. get_or_add sm t key f = Inr (r, t') \<and> kti_ok sm valid t' \<and>
    (if kti_map sm t key \<noteq> None then r = lookup t key \<and> t' = t
     else if kti_full sm t then r = None \<and> t' = t
     else r \<noteq> None \<and> lookup t' key = r \<and> kti_map sm t' = (kti_map sm t)(key \<mapsto> f ()))"
proof (cases "lookup t key")
  case (Some i)
  with ok have "kti_map sm t key \<noteq> None" by (auto simp: kti_ok_def kti_map_def)
  with Some ok show ?thesis by (simp add: get_or_add_def)
next
  case None
  then have new: "kti_map sm t key = None" by (simp add: kti_map_def)
  show ?thesis
  proof (cases "slab_vacant_entry sm (items t)")
    case None': None
    then have "kti_full sm t"
      by (auto simp: slab_vacant_entry_def kti_full_def slab_available_def split: if_splits prod.splits)
    with None None' new ok show ?thesis by (simp add: get_or_add_def)
  next
    case (Some e)
    obtain k s1 where e: "e = (k, s1)" by fastforce
    from Some have nf: "\<not> kti_full sm t"
      by (auto simp: slab_vacant_entry_def kti_full_def slab_available_def split: if_splits)
    obtain t' where t': "get_or_add sm t key f = Inr (Some (vacant_id sm k), t')" "kti_ok sm valid t'"
      "kti_map sm t' = (kti_map sm t)(key \<mapsto> f ())"
      using get_or_add_new [OF ok None Some [unfolded e]] by metis
    moreover have "lookup t' key = Some (vacant_id sm k)"
      using t'(1) None Some e by (auto simp: get_or_add_def and_then_Inr_conv)
    ultimately show ?thesis using new nf by simp
  qed
qed

lemma kti_remove_spec:
  assumes ok: "kti_ok sm valid t"
  shows "\<exists>r t'. kti_remove sm t key = Inr (r, t') \<and> kti_ok sm valid t' \<and>
    map_option snd r = kti_map sm t key \<and> map_option fst r = lookup t key \<and>
    kti_map sm t' = (kti_map sm t)(key := None)"
proof (cases "lookup t key")
  case None
  with ok show ?thesis by (simp add: kti_remove_def kti_map_def fun_upd_idem)
next
  case (Some i)
  with ok obtain v where v: "slab_get sm (items t) i = Some v" unfolding kti_ok_def by blast
  have s: "slab_ok sm valid (items t)" using ok by (simp add: kti_ok_def)
  obtain r s1 where rs: "slab_remove sm (items t) i = (r, s1)" by fastforce
  note law = remove_ok [OF s rs]
  have other: "sm_from_ffi sm j \<noteq> sm_from_ffi sm i" if "lookup t x = Some j" "x \<noteq> key" for x j
    using ok that Some unfolding kti_ok_def by blast
  define t' where "t' = t\<lparr>items := s1, lookup := (lookup t)(key := None)\<rparr>"
  have "kti_remove sm t key = Inr (Some (i, v), t')"
    using law(2) by (simp add: kti_remove_def Some rs v t'_def)
  moreover have "kti_ok sm valid t'"
    using ok law(1) other law(4) by (auto simp: kti_ok_def t'_def split: if_splits)
  moreover have "kti_map sm t' = (kti_map sm t)(key := None)"
  proof
    fix x
    show "kti_map sm t' x = ((kti_map sm t)(key := None)) x"
      using other [of x] law(4) by (cases "lookup t x") (auto simp: kti_map_def t'_def)
  qed
  ultimately show ?thesis using Some v by (simp add: kti_map_def)
qed

end

subsection \<open>A concrete slot map\<close>

fun ls_insert :: "'v option list \<Rightarrow> 'v \<Rightarrow> nat \<times> 'v option list" where
  "ls_insert [] v = (0, [Some v])"
| "ls_insert (None # xs) v = (0, Some v # xs)"
| "ls_insert (Some w # xs) v = (case ls_insert xs v of (k, ys) \<Rightarrow> (Suc k, Some w # ys))"

definition ls_get :: "'v option list \<Rightarrow> nat \<Rightarrow> 'v option" where
  "ls_get xs k = (if k < length xs then xs ! k else None)"

definition list_slotmap :: "('v option list, nat, 'v) slotmap" where
  "list_slotmap =
     \<lparr>sm_with_capacity = (\<lambda>_. []), sm_len = (\<lambda>xs. length (filter (\<lambda>x. x \<noteq> None) xs)),
      sm_get = ls_get, sm_insert = ls_insert, sm_remove = (\<lambda>xs k. (ls_get xs k, xs[k := None])),
      sm_set = (\<lambda>xs k v. xs[k := Some v]), sm_values = List.map_filter id,
      sm_as_ffi = of_nat, sm_from_ffi = unat\<rparr>"

lemma ls_get_simps [simp]:
  "ls_get [] k = None" "ls_get (x # xs) 0 = x" "ls_get (x # xs) (Suc k) = ls_get xs k"
  by (simp_all add: ls_get_def)

lemma ls_get_update: "ls_get (xs[k := y]) j = (if j = k \<and> k < length xs then y else ls_get xs j)"
  by (simp add: ls_get_def nth_list_update)

lemma ls_values: "set (List.map_filter id xs) = {v. \<exists>k. ls_get xs k = Some v}"
proof (induction xs)
  case (Cons x xs)
  have "(\<exists>k. ls_get (x # xs) k = Some v) \<longleftrightarrow> x = Some v \<or> (\<exists>k. ls_get xs k = Some v)" for v
    by (metis ls_get_simps(2,3) not0_implies_Suc)
  with Cons show ?case by (cases x) (auto simp: map_filter_simps)
qed (simp add: map_filter_simps)

lemma ls_insert_spec:
  "ls_insert xs v = (k, ys) \<Longrightarrow> ls_get xs k = None \<and> k \<le> length (filter (\<lambda>x. x \<noteq> None) xs) \<and>
    (\<forall>j. ls_get ys j = (if j = k then Some v else ls_get xs j))"
proof (induction xs v arbitrary: k ys rule: ls_insert.induct)
  case (1 v)
  then show ?case by (auto simp: ls_get_def)
next
  case (2 xs v)
  then have "k = 0" "ys = Some v # xs" by auto
  then show ?case by (metis ls_get_simps(2,3) not0_implies_Suc zero_le)
next
  case (3 w xs v)
  then obtain k' ys' where k: "ls_insert xs v = (k', ys')" "k = Suc k'" "ys = Some w # ys'"
    by (auto split: prod.splits)
  have "ls_get ys j = (if j = k then Some v else ls_get (Some w # xs) j)" for j
    using 3(1) [OF k(1)] k by (cases j) auto
  with 3(1) [OF k(1)] k show ?case by simp
qed

lemma ls_live: "finite {k. ls_get xs k \<noteq> None} \<and>
    length (filter (\<lambda>x. x \<noteq> None) xs) = card {k. ls_get xs k \<noteq> None}"
proof -
  have "{k. ls_get xs k \<noteq> None} = {k. k < length xs \<and> xs ! k \<noteq> None}" by (auto simp: ls_get_def)
  then show ?thesis by (simp add: length_filter_conv_card)
qed

lemma list_slotmap_law: "slot_map list_slotmap (\<lambda>_. True)"
proof
  fix m m' :: "'v option list" and v k
  assume "sm_len list_slotmap m < 2 ^ 32 - 2" "sm_insert list_slotmap m v = (k, m')"
  then show "True \<and> sm_get list_slotmap m k = None \<and>
      sm_from_ffi list_slotmap (sm_as_ffi list_slotmap k) = k \<and>
      (\<forall>j. sm_get list_slotmap m' j = (if j = k then Some v else sm_get list_slotmap m j))"
    using ls_insert_spec [of m v k m'] by (auto simp: list_slotmap_def unat_of_nat)
qed (use ls_live in \<open>auto simp: list_slotmap_def ls_values ls_get_update\<close>, auto simp: ls_get_def split: if_splits)

interpretation list_slab: id_slab list_slotmap "\<lambda>_. True"
  by (simp add: id_slab_def list_slotmap_law)

subsection \<open>Properties\<close>

text \<open>
  C15: \<^verbatim>\<open>KeyToId\<close> is a map from keys to values. \<^verbatim>\<open>get_or_add\<close> never panics and keeps the table
  consistent: a known key keeps its id and nothing changes, an unknown key gets an entry with the new
  value unless the slab is full, in which case nothing changes. \<^verbatim>\<open>remove\<close> never hits its
  \<^verbatim>\<open>expect\<close>, returns the id and value of the key, and removes only that key.
\<close>

theorem key_to_id_refines_map:
  assumes "id_slab sm valid" "kti_ok sm valid t"
  shows "(\<exists>r t'. get_or_add sm t key f = Inr (r, t') \<and> kti_ok sm valid t' \<and>
      (if kti_map sm t key \<noteq> None then r = lookup t key \<and> t' = t
       else if kti_full sm t then r = None \<and> t' = t
       else r \<noteq> None \<and> lookup t' key = r \<and> kti_map sm t' = (kti_map sm t)(key \<mapsto> f ()))) \<and>
    (\<exists>r t'. kti_remove sm t key = Inr (r, t') \<and> kti_ok sm valid t' \<and>
      map_option snd r = kti_map sm t key \<and> map_option fst r = lookup t key \<and>
      kti_map sm t' = (kti_map sm t)(key := None))"
  using id_slab.get_or_add_spec [OF assms] id_slab.kti_remove_spec [OF assms] by blast

definition example_table :: "(string Entry option list, nat) KeyToId" where
  "example_table = KeyToId_default list_slotmap"

theorem key_to_id_refines_map_witness:
  "(\<exists>r t'. get_or_add list_slotmap example_table (7::nat) (\<lambda>_. ''a'') = Inr (r, t') \<and>
      kti_ok list_slotmap (\<lambda>_. True) t' \<and>
      (if kti_map list_slotmap example_table (7::nat) \<noteq> None
       then r = lookup example_table 7 \<and> t' = example_table
       else if kti_full list_slotmap example_table
       then r = None \<and> t' = example_table
       else r \<noteq> None \<and> lookup t' 7 = r \<and>
         kti_map list_slotmap t' = (kti_map list_slotmap example_table)(7 \<mapsto> ''a'')))"
proof -
  have "kti_ok list_slotmap (\<lambda>_. True) example_table"
    unfolding example_table_def by (rule list_slab.default_ok)
  from key_to_id_refines_map [OF list_slab.id_slab_axioms this, of 7 "\<lambda>_. ''a''"] show ?thesis
    by (rule conjunct1)
qed

text \<open>
  An \<^verbatim>\<open>IdSlab\<close> never holds more than its capacity. Insertion fails exactly when it is full, handing the value back,
  and otherwise returns an id that was unused, now gives the value, and disturbs no other entry; a removed id
  gives nothing. A vacant entry that is dropped without being filled leaves the slab as it was.
\<close>

theorem id_slab_behaviour:
  assumes "id_slab sm valid" "slab_ok sm valid s"
  shows "(\<exists>r s'. slab_insert sm s v = (r, s') \<and> slab_ok sm valid s' \<and>
      (if slab_len sm s = capacity s then r = Inl v \<and> s' = s
       else \<exists>i. r = Inr i \<and> slab_get sm s i = None \<and> slab_get sm s' i = Some v \<and>
         (\<forall>j w. slab_get sm s j = Some w \<longrightarrow> slab_get sm s' j = Some w))) \<and>
    (\<exists>s'. slab_remove sm s i = (slab_get sm s i, s') \<and> slab_ok sm valid s' \<and> slab_get sm s' i = None) \<and>
    (\<forall>k s1. slab_vacant_entry sm s = Some (k, s1) \<longrightarrow>
       slab_get sm (vacant_drop sm k s1) i = slab_get sm s i \<and>
       slab_available sm (vacant_drop sm k s1) = slab_available sm s)"
proof -
  obtain r s' where i: "slab_insert sm s v = (r, s')" by fastforce
  obtain x s2 where r: "slab_remove sm s i = (x, s2)" by fastforce
  have "slab_len sm s \<le> capacity s" using assms(2) by (simp add: slab_ok_def slab_len_def)
  then show ?thesis
    using i r id_slab.insert_ok [OF assms i] id_slab.remove_ok [OF assms r]
      id_slab.vacant_drop_restores [OF assms]
    by (cases "slab_len sm s = capacity s") auto
qed

definition example_slab :: "string Entry option list IdSlab" where
  "example_slab = slab_with_capacity list_slotmap 2"

theorem id_slab_behaviour_witness:
  "\<exists>r s'. slab_insert list_slotmap example_slab ''a'' = (r, s') \<and>
    slab_ok list_slotmap (\<lambda>_. True) s' \<and>
    (if slab_len list_slotmap example_slab = capacity example_slab
     then r = Inl ''a'' \<and> s' = example_slab
     else \<exists>i. r = Inr i \<and> slab_get list_slotmap example_slab i = None \<and>
       slab_get list_slotmap s' i = Some ''a'' \<and>
       (\<forall>j w. slab_get list_slotmap example_slab j = Some w \<longrightarrow>
          slab_get list_slotmap s' j = Some w))"
proof -
  have "slab_ok list_slotmap (\<lambda>_. True) example_slab"
    unfolding example_slab_def by (rule list_slab.with_capacity_ok) simp
  from id_slab_behaviour [OF list_slab.id_slab_axioms this, of "''a''"] show ?thesis by (rule conjunct1)
qed

end
