(* ===== verification/Utils.thy ===== *)
theory Utils
  imports Wire
begin

section \<open>Utilities of the agent\<close>

text \<open>
  The remaining modules of \<^verbatim>\<open>packages/agent_core/src/utils\<close>: instance counters
  (\<^verbatim>\<open>instance_count.rs\<close>), sets of elements that must not overlap (\<^verbatim>\<open>non_overlapping.rs\<close>), the 32-bit
  mixing function that picks loopback addresses (\<^verbatim>\<open>shuffle.rs\<close>), the limiter of error reports
  (\<^verbatim>\<open>error_helper.rs\<close>), the readers of IP addresses (\<^verbatim>\<open>ip_bytes.rs\<close>), the parsing half of
  \<^verbatim>\<open>name_lookup.rs\<close> and the clock conversion of \<^verbatim>\<open>utils/mod.rs\<close>.
\<close>

unbundle bit_operations_syntax

subsection \<open>\<^verbatim>\<open>InstanceCount\<close>\<close>

type_synonym 'k InstanceCount = "'k \<rightharpoonup> u64"

definition has_instance :: "'k InstanceCount \<Rightarrow> 'k \<Rightarrow> bool" where
  "has_instance c key \<longleftrightarrow> c key \<noteq> None"

definition ic_is_empty :: "'k InstanceCount \<Rightarrow> bool" where
  "ic_is_empty c \<longleftrightarrow> c = Map.empty"

definition ic_inc :: "'k InstanceCount \<Rightarrow> 'k \<Rightarrow> u64 \<times> 'k InstanceCount" where
  "ic_inc c key = (case c key of
       Some count \<Rightarrow> (let value = count + 1 in (value, c(key \<mapsto> value)))
     | None \<Rightarrow> (1, c(key \<mapsto> 1)))"

definition ic_dec :: "'k InstanceCount \<Rightarrow> 'k \<Rightarrow> io_error + (u64 option \<times> 'k InstanceCount)" where
  "ic_dec c key = (case c key of
       None \<Rightarrow> Inr (None, c)
     | Some count \<Rightarrow>
         if count = 0 then Inl (Panic ''assertion `left != right` failed'')
         else let value = count - 1; c' = c(key \<mapsto> value)
           in Inr (Some value, if value = 0 then c'(key := None) else c'))"

text \<open>The number of instances each key stands for; no counter is kept at zero.\<close>

definition ic_ok :: "'k InstanceCount \<Rightarrow> bool" where
  "ic_ok c \<longleftrightarrow> (\<forall>key. c key \<noteq> Some 0)"

definition ic_count :: "'k InstanceCount \<Rightarrow> 'k \<Rightarrow> nat" where
  "ic_count c key = (case c key of None \<Rightarrow> 0 | Some n \<Rightarrow> unat n)"

lemma ic_count_0: "ic_ok c \<Longrightarrow> ic_count c key = 0 \<longleftrightarrow> c key = None"
  by (auto simp: ic_ok_def ic_count_def unat_eq_0 split: option.splits)

lemma unat_Suc_u64: "unat x < 2 ^ 64 - 1 \<Longrightarrow> unat (x + 1 :: u64) = unat x + 1"
  using unat_add_lem_lt [of x 1] by simp

lemma ic_inc_spec:
  assumes "ic_ok c" "ic_count c key < 2 ^ 64 - 1" "ic_inc c key = (n, c')"
  shows "ic_ok c'" "unat n = ic_count c key + 1" "ic_count c' = (ic_count c)(key := ic_count c key + 1)"
proof -
  have u: "unat n = ic_count c key + 1" and c': "c' = c(key \<mapsto> n)"
    using assms(2,3) unat_Suc_u64 by (auto simp: ic_inc_def ic_count_def Let_def split: option.splits)
  then have "n \<noteq> 0" by auto
  then show "ic_ok c'" using assms(1) c' by (simp add: ic_ok_def)
  show "unat n = ic_count c key + 1" by (rule u)
  show "ic_count c' = (ic_count c)(key := ic_count c key + 1)"
    using u by (auto simp: ic_count_def c' fun_eq_iff)
qed

lemma ic_dec_spec:
  assumes "ic_ok c"
  shows "\<exists>r c'. ic_dec c key = Inr (r, c') \<and> ic_ok c' \<and> ic_count c' = (ic_count c)(key := ic_count c key - 1) \<and>
    (r = None \<longleftrightarrow> \<not> has_instance c key) \<and> (\<forall>n. r = Some n \<longrightarrow> unat n = ic_count c key - 1)"
proof (cases "c key")
  case None
  then show ?thesis using assms by (auto simp: ic_dec_def ic_count_def has_instance_def)
next
  case (Some n)
  with assms have n: "n \<noteq> 0" by (auto simp: ic_ok_def)
  then have u: "unat (n - 1) = unat n - 1" by (simp add: unat_minus_one)
  define c' where "c' = (if n - 1 = 0 then c(key := None) else c(key \<mapsto> n - 1))"
  have "ic_dec c key = Inr (Some (n - 1), c')"
    using n by (simp add: ic_dec_def Some Let_def c'_def)
  moreover have "ic_ok c'" using assms by (auto simp: ic_ok_def c'_def)
  moreover have "ic_count c' = (ic_count c)(key := ic_count c key - 1)"
    using u by (auto simp: ic_count_def c'_def Some fun_eq_iff)
  ultimately show ?thesis using u Some by (simp add: has_instance_def ic_count_def)
qed

subsection \<open>\<^verbatim>\<open>NonOverlapping\<close>\<close>

text \<open>The trait \<^verbatim>\<open>NonOverlappingCheck\<close> is the pair of arguments \<open>is_same\<close> and \<open>is_overlapping\<close>.\<close>

definition no_with :: "'t \<Rightarrow> 't list" where
  "no_with elem = [elem]"

fun any_overlap :: "('t \<Rightarrow> 't \<Rightarrow> bool) \<Rightarrow> 't \<Rightarrow> 't list \<Rightarrow> bool" where
  "any_overlap is_overlapping x [] = False"
| "any_overlap is_overlapping x (y # ys) = (is_overlapping x y \<or> any_overlap is_overlapping x ys)"

definition no_add :: "('t \<Rightarrow> 't \<Rightarrow> bool) \<Rightarrow> 't \<Rightarrow> 't list \<Rightarrow> ('t + unit) \<times> 't list" where
  "no_add is_overlapping x xs =
     (if any_overlap is_overlapping x xs then (Inl x, xs) else (Inr (), xs @ [x]))"

fun position :: "('t \<Rightarrow> bool) \<Rightarrow> 't list \<Rightarrow> nat option" where
  "position p [] = None"
| "position p (x # xs) = (if p x then Some 0 else map_option Suc (position p xs))"

text \<open>\<^verbatim>\<open>Vec::swap_remove\<close>: the last element takes the place of the removed one.\<close>

definition swap_remove :: "nat \<Rightarrow> 't list \<Rightarrow> 't list" where
  "swap_remove i xs = butlast (xs[i := last xs])"

definition no_remove :: "('t \<Rightarrow> 't \<Rightarrow> bool) \<Rightarrow> 't \<Rightarrow> 't list \<Rightarrow> bool \<times> 't list" where
  "no_remove is_same item xs = (case position (\<lambda>a. is_same a item) xs of
       None \<Rightarrow> (False, xs) | Some pos \<Rightarrow> (True, swap_remove pos xs))"

definition no_contains :: "('t \<Rightarrow> 't \<Rightarrow> bool) \<Rightarrow> 't \<Rightarrow> 't list \<Rightarrow> bool" where
  "no_contains is_same item xs \<longleftrightarrow> position (\<lambda>a. is_same a item) xs \<noteq> None"

definition disjoint_elems :: "('t \<Rightarrow> 't \<Rightarrow> bool) \<Rightarrow> 't list \<Rightarrow> bool" where
  "disjoint_elems ov xs \<longleftrightarrow> (\<forall>i < length xs. \<forall>j < i. \<not> ov (xs ! i) (xs ! j))"

lemma any_overlap_iff: "any_overlap ov x xs \<longleftrightarrow> (\<exists>y \<in> set xs. ov x y)"
  by (induction xs) auto

lemma position_Some: "position p xs = Some i \<Longrightarrow> i < length xs \<and> p (xs ! i) \<and> (\<forall>j < i. \<not> p (xs ! j))"
proof (induction xs arbitrary: i)
  case (Cons x xs)
  show ?case
  proof (cases "p x")
    case False
    with Cons.prems obtain i' where "position p xs = Some i'" "i = Suc i'" by auto
    with Cons.IH [of i'] False show ?thesis by (auto simp: nth_Cons split: nat.splits)
  qed (use Cons.prems in auto)
qed simp

lemma position_None: "position p xs = None \<longleftrightarrow> (\<forall>x \<in> set xs. \<not> p x)"
  by (induction xs) auto

lemma no_add_disjoint: "disjoint_elems ov xs \<Longrightarrow> disjoint_elems ov (snd (no_add ov x xs))"
  by (auto simp: no_add_def disjoint_elems_def any_overlap_iff nth_append less_Suc_eq)

lemma swap_remove_nth:
  assumes "i < length xs" "j < length xs - 1"
  shows "swap_remove i xs ! j = (if j = i then last xs else xs ! j)"
  using assms by (simp add: swap_remove_def nth_butlast nth_list_update)

lemma no_remove_disjoint:
  assumes "disjoint_elems ov xs" "\<And>a b. ov a b = ov b a"
  shows "disjoint_elems ov (snd (no_remove sm item xs))"
proof (cases "position (\<lambda>a. sm a item) xs")
  case None
  then show ?thesis using assms by (simp add: no_remove_def)
next
  case (Some p)
  then have p: "p < length xs" using position_Some by fast
  have d: "\<not> ov (xs ! a) (xs ! b)" if "a < length xs" "b < length xs" "a \<noteq> b" for a b
    using assms that unfolding disjoint_elems_def by (metis linorder_neqE_nat)
  have l: "last xs = xs ! (length xs - 1)" using p by (intro last_conv_nth) auto
  show ?thesis unfolding disjoint_elems_def
  proof (intro allI impI)
    fix i j
    assume i: "i < length (snd (no_remove sm item xs))" and j: "j < i"
    then have "i < length xs - 1" "j < length xs - 1"
      by (simp_all add: no_remove_def Some swap_remove_def)
    with j p d [of i j] d [of "length xs - 1" j] d [of i "length xs - 1"] show
      "\<not> ov (snd (no_remove sm item xs) ! i) (snd (no_remove sm item xs) ! j)"
      by (auto simp: no_remove_def Some swap_remove_nth l)
  qed
qed

subsection \<open>\<^verbatim>\<open>shuffle\<close>\<close>

definition shuffle :: "u32 \<Rightarrow> u32" where
  "shuffle v0 =
     (let v1 = (drop_bit 16 v0 XOR v0) * 0x45d9f3;
          v2 = (drop_bit 16 v1 XOR v1) * 0x45d9f3
      in drop_bit 16 v2 XOR v2)"

fun shuffle_from :: "u32 \<Rightarrow> bytes \<Rightarrow> u32" where
  "shuffle_from v (a # b # c # d # bs) = shuffle_from (v XOR shuffle (of_be [a, b, c, d])) bs"
| "shuffle_from v bs = fold (\<lambda>b v. v XOR shuffle (ucast b)) bs v"

definition shuffle_slice :: "bytes \<Rightarrow> u32" where
  "shuffle_slice bs = shuffle_from 0 bs"

lemma shuffle_from_xor: "shuffle_from (v XOR w) bs = v XOR shuffle_from w bs"
proof (induction w bs arbitrary: v rule: shuffle_from.induct)
  case (1 w a b c d bs)
  then show ?case by (simp add: xor.assoc)
qed (simp_all add: xor.assoc)

text \<open>Each step of the mixing function is invertible, so it never sends two addresses to the same word.\<close>

lemma xorshift_inj:
  fixes x y :: u32
  assumes "drop_bit 16 x XOR x = drop_bit 16 y XOR y"
  shows "x = y"
proof (rule bit_word_eqI)
  fix n
  assume n: "n < LENGTH(32)"
  have b: "bit (drop_bit 16 z XOR z) m \<longleftrightarrow> (bit z (16 + m) \<noteq> bit z m)" for z :: u32 and m
    by (auto simp: bit_xor_iff bit_drop_bit_eq)
  have eq: "(bit x (16 + m) \<noteq> bit x m) = (bit y (16 + m) \<noteq> bit y m)" for m
    using assms b by metis
  have "\<not> bit x (16 + m)" "\<not> bit y (16 + m)" if "16 \<le> m" for m
    using that by (auto dest: bit_imp_le_length)
  then have high: "bit x m = bit y m" if "16 \<le> m" for m
    using eq [of m] that by auto
  then show "bit x n = bit y n" using eq [of n] by (cases "16 \<le> n") auto
qed

lemma mult_inj:
  fixes x y :: u32
  assumes "x * 0x45d9f3 = y * 0x45d9f3"
  shows "x = y"
proof -
  have one: "(0x45d9f3 :: u32) * 0xdd72673b = 1" by simp
  have "x * (0x45d9f3 * 0xdd72673b) = y * (0x45d9f3 * 0xdd72673b)"
    by (simp only: mult.assoc [symmetric] assms)
  then show ?thesis by (simp only: one mult_1_right)
qed

lemma shuffle_inj: "shuffle x = shuffle y \<Longrightarrow> x = y"
  unfolding shuffle_def Let_def
  by (drule xorshift_inj, drule mult_inj, drule xorshift_inj, drule mult_inj, erule xorshift_inj)

subsection \<open>\<^verbatim>\<open>MaxErrorInterval\<close> and the clock\<close>

text \<open>
  \<^verbatim>\<open>Instant\<close> and \<^verbatim>\<open>Duration\<close> are integers (nanoseconds); \<^verbatim>\<open>now - self.last_report\<close> is zero when the
  clock is behind, as documented for \<^verbatim>\<open>Instant\<close>.
\<close>

record MaxErrorInterval =
  last_report :: int
  min_wait :: int
  redundant_calls :: nat

definition instant_since :: "int \<Rightarrow> int \<Rightarrow> int" where
  "instant_since now earlier = max 0 (now - earlier)"

definition MaxErrorInterval_new :: "int \<Rightarrow> int \<Rightarrow> MaxErrorInterval" where
  "MaxErrorInterval_new now interval =
     \<lparr>last_report = now - interval * 2, min_wait = interval, redundant_calls = 0\<rparr>"

definition mei_check :: "int \<Rightarrow> MaxErrorInterval \<Rightarrow> bool \<times> MaxErrorInterval" where
  "mei_check now m = (if min_wait m \<le> instant_since now (last_report m)
     then (True, m\<lparr>last_report := now\<rparr>) else (False, m))"

definition mei_calls :: "MaxErrorInterval \<Rightarrow> nat \<times> MaxErrorInterval" where
  "mei_calls m = (redundant_calls m, m\<lparr>redundant_calls := 0\<rparr>)"

text \<open>The reports of a sequence of checks.\<close>

fun mei_reports :: "int list \<Rightarrow> MaxErrorInterval \<Rightarrow> int list" where
  "mei_reports [] m = []"
| "mei_reports (t # ts) m = (case mei_check t m of (b, m') \<Rightarrow> (if b then [t] else []) @ mei_reports ts m')"

lemma mei_reports_apart:
  assumes "0 < min_wait m"
  shows "successively (\<lambda>a b. min_wait m \<le> b - a) (mei_reports ts m) \<and>
    (\<forall>t \<in> set (take 1 (mei_reports ts m)). min_wait m \<le> t - last_report m)"
  using assms
proof (induction ts arbitrary: m)
  case (Cons t ts)
  show ?case
  proof (cases "min_wait m \<le> instant_since t (last_report m)")
    case True
    then have "min_wait m \<le> t - last_report m" using Cons.prems by (auto simp: instant_since_def)
    with True Cons.IH [of "m\<lparr>last_report := t\<rparr>"] Cons.prems show ?thesis
      by (cases "mei_reports ts (m\<lparr>last_report := t\<rparr>)") (auto simp: mei_check_def)
  next
    case False
    then show ?thesis using Cons by (simp add: mei_check_def)
  qed
qed simp

text \<open>\<^verbatim>\<open>now_sec\<close> from \<^verbatim>\<open>now_milli\<close>: the cast to 32 bits truncates.\<close>

definition now_sec :: "u64 \<Rightarrow> u32" where
  "now_sec now_milli = ucast (now_milli div 1000)"

subsection \<open>\<^verbatim>\<open>ReadIpBytesExt\<close>\<close>

definition read_ip4 :: "Ipv4Addr reader" where
  "read_ip4 = rbind (read_exact 4) (\<lambda>bytes. rret (of_be bytes))"

definition read_ip6 :: "Ipv6Addr reader" where
  "read_ip6 = rbind (read_exact 16) (\<lambda>bytes. rret (of_be bytes))"

subsection \<open>Properties\<close>

text \<open>
  The mixing function is injective on 32-bit words: two different peer addresses never get the same mixed word, so
  collisions between loopback addresses come from the later truncation only.
\<close>

theorem shuffle_injective: "inj shuffle"
  by (rule injI) (rule shuffle_inj)

text \<open>
  \<^verbatim>\<open>InstanceCount\<close> counts: below the limit of the counter \<^verbatim>\<open>inc\<close> adds one instance of the key and returns the new
  number, \<^verbatim>\<open>dec\<close> takes one away without ever failing its assertion, returning the number left, or nothing when there
  was none; a key is present exactly when its count is positive. Other keys are not affected.
\<close>

theorem instance_count_refines:
  assumes "ic_ok c" "ic_count c key < 2 ^ 64 - 1"
  shows "(\<exists>n c'. ic_inc c key = (n, c') \<and> ic_ok c' \<and> unat n = ic_count c key + 1 \<and>
      ic_count c' = (ic_count c)(key := ic_count c key + 1)) \<and>
    (\<exists>r c'. ic_dec c key = Inr (r, c') \<and> ic_ok c' \<and>
      ic_count c' = (ic_count c)(key := ic_count c key - 1) \<and>
      map_option unat r = (if ic_count c key = 0 then None else Some (ic_count c key - 1))) \<and>
    (has_instance c key \<longleftrightarrow> 0 < ic_count c key)"
proof -
  obtain n c' where i: "ic_inc c key = (n, c')" by fastforce
  obtain r c2 where d: "ic_dec c key = Inr (r, c2)" "ic_ok c2"
    "ic_count c2 = (ic_count c)(key := ic_count c key - 1)"
    and r: "r = None \<longleftrightarrow> \<not> has_instance c key" "\<forall>n. r = Some n \<longrightarrow> unat n = ic_count c key - 1"
    using ic_dec_spec [OF assms(1)] by blast
  have h: "has_instance c key \<longleftrightarrow> 0 < ic_count c key"
    using ic_count_0 [OF assms(1), of key] by (auto simp: has_instance_def)
  have "map_option unat r = (if ic_count c key = 0 then None else Some (ic_count c key - 1))"
    using r h by (cases r) auto
  with i ic_inc_spec [OF assms i] d h show ?thesis by blast
qed

theorem instance_count_refines_witness:
  "\<exists>n c'. ic_inc [7 \<mapsto> 2] (7::nat) = (n, c') \<and> ic_ok c' \<and> unat n = ic_count [7 \<mapsto> 2] (7::nat) + 1 \<and>
    ic_count c' = (ic_count [7 \<mapsto> 2])(7 := ic_count [7 \<mapsto> 2] (7::nat) + 1)"
proof -
  have "ic_ok [7::nat \<mapsto> 2]" "ic_count [7 \<mapsto> 2] (7::nat) < 2 ^ 64 - 1"
    by (simp_all add: ic_ok_def ic_count_def)
  from instance_count_refines [OF this] show ?thesis by (rule conjunct1)
qed

text \<open>
  A \<^verbatim>\<open>NonOverlapping\<close> collection stays free of overlaps. \<^verbatim>\<open>add\<close> refuses exactly the elements that overlap one already
  there, and then changes nothing; \<^verbatim>\<open>remove\<close> succeeds exactly when the collection contains the item and shrinks it by one.
\<close>

theorem non_overlapping_invariant:
  assumes "disjoint_elems ov xs" "\<And>a b. ov a b = ov b a"
  shows "disjoint_elems ov (snd (no_add ov x xs)) \<and>
    (no_add ov x xs = (Inl x, xs) \<longleftrightarrow> (\<exists>y \<in> set xs. ov x y)) \<and>
    disjoint_elems ov (snd (no_remove sm x xs)) \<and>
    (fst (no_remove sm x xs) \<longleftrightarrow> no_contains sm x xs) \<and>
    (no_contains sm x xs \<longleftrightarrow> (\<exists>y \<in> set xs. sm y x)) \<and>
    length (snd (no_remove sm x xs)) = length xs - (if no_contains sm x xs then 1 else 0)"
proof -
  have c: "no_contains sm x xs \<longleftrightarrow> (\<exists>y \<in> set xs. sm y x)"
    using position_None [of "\<lambda>a. sm a x" xs] by (simp add: no_contains_def)
  have "no_add ov x xs = (Inl x, xs) \<longleftrightarrow> (\<exists>y \<in> set xs. ov x y)"
    by (simp add: no_add_def any_overlap_iff)
  moreover have "(fst (no_remove sm x xs) \<longleftrightarrow> no_contains sm x xs) \<and>
    length (snd (no_remove sm x xs)) = length xs - (if no_contains sm x xs then 1 else 0)"
    by (simp add: no_remove_def no_contains_def swap_remove_def split: option.splits)
  ultimately show ?thesis
    using no_add_disjoint [OF assms(1), of x] no_remove_disjoint [OF assms, of sm x] c by simp
qed

theorem non_overlapping_invariant_witness:
  "disjoint_elems (=) (snd (no_add (=) (3::nat) [1, 2])) \<and>
    (no_add (=) (3::nat) [1, 2] = (Inl 3, [1, 2]) \<longleftrightarrow> (\<exists>y \<in> set [1, 2]. (3::nat) = y))"
proof -
  have "disjoint_elems (=) [1::nat, 2]" by (auto simp: disjoint_elems_def less_Suc_eq nth_Cons split: nat.splits)
  from non_overlapping_invariant [OF this, of 3 "(=)"] show ?thesis by (simp add: eq_commute)
qed

text \<open>
  The limiter of error reports lets two reports through only if they are at least the interval apart, whatever the times of
  the checks, and never one before the interval has passed since the last report.
\<close>

theorem error_reports_apart:
  assumes "0 < min_wait m"
  shows "successively (\<lambda>a b. min_wait m \<le> b - a) (mei_reports ts m) \<and>
    (\<forall>t \<in> set (take 1 (mei_reports ts m)). min_wait m \<le> t - last_report m)"
  by (rule mei_reports_apart [OF assms])

theorem error_reports_apart_witness:
  "successively (\<lambda>a b. min_wait (MaxErrorInterval_new 100 10) \<le> b - a)
     (mei_reports [100, 105, 112] (MaxErrorInterval_new 100 10)) \<and>
   mei_reports [100, 105, 112] (MaxErrorInterval_new 100 10) = [100, 112]"
proof -
  have "0 < min_wait (MaxErrorInterval_new 100 10)" by (simp add: MaxErrorInterval_new_def)
  from error_reports_apart [OF this, of "[100, 105, 112]"] show ?thesis
    by (simp add: MaxErrorInterval_new_def mei_check_def instant_since_def)
qed

end
