(* ===== verification/Lan_Address.thy ===== *)
theory Lan_Address
  imports Utils
begin

section \<open>Local addresses for tunnelled clients\<close>

text \<open>
  \<^verbatim>\<open>packages/agent_core/src/network/lan_address.rs\<close>: every peer is given a loopback address derived
  from its own, so that the local server can tell clients apart. Socket operations are those of
  \<^verbatim>\<open>tokio::net\<close>, arguments of the definitions that take and return the state of the network (\<open>'w\<close>).
\<close>

unbundle bit_operations_syntax

definition as_local_masked :: "u32 \<Rightarrow> u32" where
  "as_local_masked ip0 =
     (let ip1 = shuffle ip0 AND 0x00FFFFFF; ip2 = (if ip1 = 0 then 1 else ip1) in ip2 OR 0x7F000000)"

fun shuffle_ip_to_u32 :: "byteorder \<Rightarrow> IpAddr \<Rightarrow> u32" where
  "shuffle_ip_to_u32 bo (IpV4 ip) = ip"
| "shuffle_ip_to_u32 bo (IpV6 ip) =
     (let bytes = be128 ip in
      shuffle (bo_get_u32 bo (take 4 bytes)) XOR
      shuffle (bo_get_u32 bo (take 4 (drop 4 bytes))) XOR
      shuffle (bo_get_u32 bo (take 4 (drop 8 bytes))) XOR
      shuffle (bo_get_u32 bo (take 4 (drop 12 bytes))))"

definition map_to_local_ip4 :: "byteorder \<Rightarrow> IpAddr \<Rightarrow> Ipv4Addr" where
  "map_to_local_ip4 bo ip = as_local_masked (shuffle_ip_to_u32 bo ip)"

subsection \<open>\<^verbatim>\<open>tcp_socket\<close>\<close>

record ('w, 'e, 'k, 's) tcp_net =
  tcp_new_v4 :: "'w \<Rightarrow> ('e + 'k) \<times> 'w"
  tcp_bind :: "'k \<Rightarrow> SocketAddr \<Rightarrow> 'w \<Rightarrow> ('e + unit) \<times> 'w"
  tcp_connect :: "'k \<Rightarrow> SocketAddr \<Rightarrow> 'w \<Rightarrow> ('e + 's) \<times> 'w"
  tcp_stream_connect :: "SocketAddr \<Rightarrow> 'w \<Rightarrow> ('e + 's) \<times> 'w"

definition tcp_socket ::
  "byteorder \<Rightarrow> ('w, 'e, 'k, 's) tcp_net \<Rightarrow> bool \<Rightarrow> SocketAddr \<Rightarrow> SocketAddr \<Rightarrow> 'w \<Rightarrow> ('e + 's) \<times> 'w" where
  "tcp_socket bo net special_lan_ip peer host w0 =
     (if ip_is_loopback (sock_ip host) \<and> special_lan_ip then
        (case tcp_new_v4 net w0 of
           (Inl e, w1) \<Rightarrow> (Inl e, w1)
         | (Inr socket, w1) \<Rightarrow>
             (case tcp_bind net socket (SockV4 (sock_v4 (map_to_local_ip4 bo (sock_ip peer)) 0)) w1 of
                (Inl _, w2) \<Rightarrow> tcp_stream_connect net host w2
              | (Inr _, w2) \<Rightarrow>
                  (case tcp_connect net socket host w2 of
                     (Inl _, w3) \<Rightarrow> tcp_stream_connect net host w3
                   | (Inr s, w3) \<Rightarrow> (Inr s, w3))))
      else tcp_stream_connect net host w0)"

subsection \<open>\<^verbatim>\<open>udp_socket\<close>\<close>

definition udp_rand_id :: "byteorder \<Rightarrow> SocketAddr \<Rightarrow> u64 \<Rightarrow> u32" where
  "udp_rand_id bo peer tid =
     shuffle (ucast (sock_port peer)) XOR shuffle (ucast (drop_bit 32 tid)) XOR shuffle (ucast tid) XOR
     shuffle_ip_to_u32 bo (sock_ip peer)"

definition udp_local_port :: "byteorder \<Rightarrow> SocketAddr \<Rightarrow> u64 \<Rightarrow> u16" where
  "udp_local_port bo peer tid = ucast (2048 + udp_rand_id bo peer tid mod (65535 - 2048))"

fun unspecified_like :: "SocketAddr \<Rightarrow> u16 \<Rightarrow> SocketAddr" where
  "unspecified_like (SockV4 _) port = SockV4 (sock_v4 0 port)"
| "unspecified_like (SockV6 _) port = SockV6 (sock_v6 0 port)"

definition udp_socket ::
  "byteorder \<Rightarrow> (SocketAddr \<Rightarrow> 'w \<Rightarrow> ('e + 's) \<times> 'w) \<Rightarrow> bool \<Rightarrow> SocketAddr \<Rightarrow> SocketAddr \<Rightarrow> u64 \<Rightarrow>
   'w \<Rightarrow> ('e + 's) \<times> 'w" where
  "udp_socket bo bind special_lan_ip peer target tid w0 =
     (let local_port = udp_local_port bo peer tid in
      if special_lan_ip then
        let local_ip = as_local_masked (shuffle_ip_to_u32 bo (sock_ip peer)) in
        (case bind (SockV4 (sock_v4 local_ip local_port)) w0 of
           (Inr v, w1) \<Rightarrow> (Inr v, w1)
         | (Inl _, w1) \<Rightarrow>
             (case bind (SockV4 (sock_v4 local_ip 0)) w1 of
                (Inr v, w2) \<Rightarrow> (Inr v, w2)
              | (Inl _, w2) \<Rightarrow> bind (SockV4 (sock_v4 0 0)) w2))
      else
        (case bind (unspecified_like target local_port) w0 of
           (Inr v, w1) \<Rightarrow> (Inr v, w1)
         | (Inl _, w1) \<Rightarrow> bind (unspecified_like target 0) w1))"

subsection \<open>Laws\<close>

lemma local_mask_high:
  fixes x :: u32
  shows "drop_bit 24 ((x AND 0x00FFFFFF) OR 0x7F000000) = 127"
proof -
  have "drop_bit 24 ((x AND 0x00FFFFFF) OR 0x7F000000) =
      (drop_bit 24 x AND drop_bit 24 0x00FFFFFF) OR drop_bit 24 (0x7F000000 :: u32)"
    by (simp only: drop_bit_and drop_bit_or)
  also have "\<dots> = 127" by simp
  finally show ?thesis .
qed

lemma as_local_masked_loopback: "v4_is_loopback (as_local_masked ip)"
proof (cases "shuffle ip AND 0x00FFFFFF = 0")
  case True
  then show ?thesis by (simp add: as_local_masked_def v4_is_loopback_def)
next
  case False
  then show ?thesis using local_mask_high [of "shuffle ip"]
    by (simp add: as_local_masked_def v4_is_loopback_def Let_def)
qed

lemma as_local_masked_host: "as_local_masked ip AND 0x00FFFFFF \<noteq> 0"
proof -
  have "((x AND 0x00FFFFFF) OR 0x7F000000) AND 0x00FFFFFF = x AND 0x00FFFFFF" for x :: u32
    by (simp add: and.assoc bit.conj_disj_distrib2)
  then show ?thesis by (simp add: as_local_masked_def Let_def)
qed

lemma udp_local_port_range: "2048 \<le> unat (udp_local_port bo peer tid) \<and> unat (udp_local_port bo peer tid) < 65535"
proof -
  let ?r = "udp_rand_id bo peer tid mod (65535 - 2048) :: u32"
  have r: "unat ?r < 63487" using unat_mod [of "udp_rand_id bo peer tid" 63487] by simp
  then have s: "unat (2048 + ?r) = 2048 + unat ?r"
    using unat_add_lem_lt [of 2048 ?r] by simp
  then have "unat (udp_local_port bo peer tid) = 2048 + unat ?r"
    using r by (simp add: udp_local_port_def unsigned_ucast_eq take_bit_nat_eq_self)
  with r show ?thesis by simp
qed

text \<open>
  The address a peer is mapped to is always a loopback address (127.0.0.0/8) and never the network
  address 127.0.0.0; the preferred UDP port is always in the range 2048 to 65534, so it is neither a
  system port nor the wildcard port 0.
\<close>

theorem local_address_range:
  "v4_is_loopback (map_to_local_ip4 bo ip) \<and> map_to_local_ip4 bo ip AND 0x00FFFFFF \<noteq> 0 \<and>
   2048 \<le> unat (udp_local_port bo peer tid) \<and> unat (udp_local_port bo peer tid) < 65535"
  using as_local_masked_loopback as_local_masked_host udp_local_port_range
  by (simp add: map_to_local_ip4_def)

text \<open>The reference for the order of attempts: the first address that can be bound wins.\<close>

fun first_bound :: "('a \<Rightarrow> 'w \<Rightarrow> ('e + 's) \<times> 'w) \<Rightarrow> 'a \<Rightarrow> 'a list \<Rightarrow> 'w \<Rightarrow> ('e + 's) \<times> 'w" where
  "first_bound bind a [] w = bind a w"
| "first_bound bind a (b # bs) w = (case bind a w of
     (Inr v, w') \<Rightarrow> (Inr v, w') | (Inl _, w') \<Rightarrow> first_bound bind b bs w')"

text \<open>
  \<^verbatim>\<open>udp_socket\<close> binds the first address that can be bound, for every behaviour of the network: with
  special addresses on, the peer's own loopback address with the preferred port, the same address with any port, and only
  then the wildcard address; with them off, the wildcard address of the target's family with the preferred port and then
  with any port.
\<close>

theorem udp_socket_first_bound:
  "udp_socket bo bind special peer target tid w =
     (if special then
        first_bound bind
          (SockV4 (sock_v4 (map_to_local_ip4 bo (sock_ip peer)) (udp_local_port bo peer tid)))
          [SockV4 (sock_v4 (map_to_local_ip4 bo (sock_ip peer)) 0), SockV4 (sock_v4 0 0)] w
      else first_bound bind (unspecified_like target (udp_local_port bo peer tid)) [unspecified_like target 0] w)"
  by (simp add: udp_socket_def Let_def map_to_local_ip4_def split: prod.splits sum.splits)

end
