(* ===== verification/Proxy_Protocol.thy ===== *)
theory Proxy_Protocol
  imports Udp_Proto Utils
begin

section \<open>The PROXY protocol\<close>

text \<open>
  \<^verbatim>\<open>packages/agent_core/src/network/proxy_protocol.rs\<close>: the header that tells a local server the
  address of the client behind the tunnel, as text (version 1) or binary (version 2) for TCP, and binary
  in front of UDP packets, with the parser of the latter. \<^verbatim>\<open>Display\<close> of addresses is that of \<^verbatim>\<open>std::net\<close>.
\<close>

datatype ProxyProtocolHeader =
    AfInet Ipv4Addr Ipv4Addr u16 u16
  | AfInet6 Ipv6Addr Ipv6Addr u16 u16

text \<open>Fields in the order of the source: client ip, proxy ip, client port, proxy port.\<close>

fun from_udp_flow :: "UdpFlow \<Rightarrow> ProxyProtocolHeader" where
  "from_udp_flow (FlowV4 src dst frag ext) = AfInet (v4_ip src) (v4_ip dst) (v4_port src) (v4_port dst)"
| "from_udp_flow (FlowV6 src dst ext) = AfInet6 (fst src) (fst dst) (snd src) (snd dst)"

subsection \<open>Text form\<close>

definition digit_char :: "nat \<Rightarrow> char" where
  "digit_char d = ''0123456789abcdef'' ! d"

fun show_base :: "nat \<Rightarrow> nat \<Rightarrow> string" where
  "show_base b n = (if n < b \<or> b < 2 then [digit_char (n mod 16)] else show_base b (n div b) @ [digit_char (n mod b)])"

declare show_base.simps [simp del]

definition show_ip4 :: "Ipv4Addr \<Rightarrow> string" where
  "show_ip4 ip = (case map (\<lambda>b. show_base 10 (unat b)) (be32 ip) of
     [a, b, c, d] \<Rightarrow> a @ ''.'' @ b @ ''.'' @ c @ ''.'' @ d | _ \<Rightarrow> '''')"

definition ip6_segments :: "Ipv6Addr \<Rightarrow> nat list" where
  "ip6_segments ip = map (\<lambda>i. unat (of_be (take 2 (drop (2 * i) (be128 ip))) :: u16)) [0..<8]"

text \<open>The first longest run of zero segments: start and length.\<close>

fun longest_zeros :: "nat \<Rightarrow> nat list \<Rightarrow> nat \<times> nat \<Rightarrow> nat \<times> nat \<Rightarrow> nat \<times> nat" where
  "longest_zeros i [] current longest = longest"
| "longest_zeros i (s # ss) (cs, cl) longest =
     (if s = 0 then
        let current = (if cl = 0 then i else cs, Suc cl)
        in longest_zeros (Suc i) ss current (if snd longest < snd current then current else longest)
      else longest_zeros (Suc i) ss (0, 0) longest)"

fun show_segments :: "nat list \<Rightarrow> string" where
  "show_segments [] = ''''"
| "show_segments [s] = show_base 16 s"
| "show_segments (s # ss) = show_base 16 s @ '':'' @ show_segments ss"

definition show_ip6 :: "Ipv6Addr \<Rightarrow> string" where
  "show_ip6 ip =
     (let segs = ip6_segments ip in
      if take 5 segs = [0, 0, 0, 0, 0] \<and> segs ! 5 = 0xffff then ''::ffff:'' @ show_ip4 (ucast ip)
      else case longest_zeros 0 segs (0, 0) (0, 0) of (start, len) \<Rightarrow>
        if 1 < len then show_segments (take start segs) @ ''::'' @ show_segments (drop (start + len) segs)
        else show_segments segs)"

fun show_header :: "ProxyProtocolHeader \<Rightarrow> string" where
  "show_header (AfInet cip pip cp pp) = ''PROXY TCP4 '' @ show_ip4 cip @ '' '' @ show_ip4 pip @ '' '' @
     show_base 10 (unat cp) @ '' '' @ show_base 10 (unat pp) @ [CHR 0x0D, CHR 0x0A]"
| "show_header (AfInet6 cip pip cp pp) = ''PROXY TCP6 '' @ show_ip6 cip @ '' '' @ show_ip6 pip @ '' '' @
     show_base 10 (unat cp) @ '' '' @ show_base 10 (unat pp) @ [CHR 0x0D, CHR 0x0A]"

definition as_bytes :: "string \<Rightarrow> bytes" where
  "as_bytes = map (\<lambda>c. of_char c)"

definition write_v1_tcp :: "ProxyProtocolHeader \<Rightarrow> unit put" where
  "write_v1_tcp h = write_all (as_bytes (show_header h))"

subsection \<open>Binary form\<close>

definition PROXY_PROTOCOL_V2_HEADER :: bytes where
  "PROXY_PROTOCOL_V2_HEADER =
     [0x0D, 0x0A, 0x0D, 0x0A, 0x00, 0x0D, 0x0A, 0x51, 0x55, 0x49, 0x54, 0x0A, 0x21]"

definition UDP_PROXY_PROTOCOL_LEN_V6 :: nat where "UDP_PROXY_PROTOCOL_LEN_V6 = 16 + 36"
definition UDP_PROXY_PROTOCOL_LEN_V4 :: nat where "UDP_PROXY_PROTOCOL_LEN_V4 = 16 + 12"
definition UDP_PROXY_PROTOCOL_MAX_LEN :: nat where "UDP_PROXY_PROTOCOL_MAX_LEN = UDP_PROXY_PROTOCOL_LEN_V6"

text \<open>\<^verbatim>\<open>out.write_all(\<dots>)?\<close> in sequence.\<close>

definition pthen :: "unit put \<Rightarrow> unit put \<Rightarrow> unit put" where
  "pthen a b s = and_then (a s) (\<lambda>(_, s'). b s')"

definition pdone :: "unit put" where
  "pdone s = Inr ((), s)"

fun write_v2_tcp :: "ProxyProtocolHeader \<Rightarrow> unit put" where
  "write_v2_tcp (AfInet cip pip cp pp) =
     pthen (write_all PROXY_PROTOCOL_V2_HEADER)
    (pthen (write_all [0x11])
    (pthen (write_all (be16 12))
    (pthen (write_all (be32 cip))
    (pthen (write_all (be32 pip))
    (pthen (write_all (be16 cp))
    (pthen (write_all (be16 pp)) pdone))))))"
| "write_v2_tcp (AfInet6 cip6 pip6 cp pp) =
     pthen (write_all PROXY_PROTOCOL_V2_HEADER)
    (pthen (write_all [0x21])
    (pthen (write_all (be16 36))
    (pthen (write_all (be128 cip6))
    (pthen (write_all (be128 pip6))
    (pthen (write_all (be16 cp))
    (pthen (write_all (be16 pp)) pdone))))))"

fun write_v2_udp :: "ProxyProtocolHeader \<Rightarrow> unit put" where
  "write_v2_udp (AfInet cip pip cp pp) =
     pthen (write_all PROXY_PROTOCOL_V2_HEADER)
    (pthen (write_all [0x12])
    (pthen (write_all (be16 12))
    (pthen (write_all (be32 cip))
    (pthen (write_all (be32 pip))
    (pthen (write_all (be16 cp))
    (pthen (write_all (be16 pp)) pdone))))))"
| "write_v2_udp (AfInet6 cip6 pip6 cp pp) =
     pthen (write_all PROXY_PROTOCOL_V2_HEADER)
    (pthen (write_all [0x22])
    (pthen (write_all (be16 36))
    (pthen (write_all (be128 cip6))
    (pthen (write_all (be128 pip6))
    (pthen (write_all (be16 cp))
    (pthen (write_all (be16 pp)) pdone))))))"

text \<open>\<^verbatim>\<open>parse_v2_udp\<close>: \<open>None\<close> where the source returns \<^verbatim>\<open>None\<close>, otherwise the header and what is left.\<close>

definition ok_or_none :: "io_error + 'a \<Rightarrow> ('a \<Rightarrow> io_error + 'b option) \<Rightarrow> io_error + 'b option" where
  "ok_or_none m f = (case m of Inl _ \<Rightarrow> Inr None | Inr x \<Rightarrow> f x)"

definition parse_v2_udp :: "byteorder \<Rightarrow> bytes \<Rightarrow> io_error + (ProxyProtocolHeader \<times> bytes) option" where
  "parse_v2_udp bo buffer =
     ok_or_none (read_exact (length PROXY_PROTOCOL_V2_HEADER) buffer) (\<lambda>(header, buffer1).
     if header \<noteq> PROXY_PROTOCOL_V2_HEADER then Inr None
     else ok_or_none (bo_read_u8 bo buffer1) (\<lambda>(proto_type, buffer2).
       if proto_type = 0x12 then
         ok_or_none (read_exact 14 buffer2) (\<lambda>(slab, rest).
           and_then (get_unwrap (bo_read_u16 bo) (\<lambda>len.
             if len \<noteq> 12 then rret None
             else get_unwrap read_ip4 (\<lambda>cip. get_unwrap read_ip4 (\<lambda>pip.
                  get_unwrap (bo_read_u16 bo) (\<lambda>cp. get_unwrap (bo_read_u16 bo) (\<lambda>pp.
                  rret (Some (AfInet cip pip cp pp, rest))))))) slab) (\<lambda>(r, _). Inr r))
       else if proto_type = 0x22 then
         ok_or_none (read_exact 38 buffer2) (\<lambda>(slab, rest).
           and_then (get_unwrap (bo_read_u16 bo) (\<lambda>len.
             if len \<noteq> 36 then rret None
             else get_unwrap read_ip6 (\<lambda>cip. get_unwrap read_ip6 (\<lambda>pip.
                  get_unwrap (bo_read_u16 bo) (\<lambda>cp. get_unwrap (bo_read_u16 bo) (\<lambda>pp.
                  rret (Some (AfInet6 cip pip cp pp, rest))))))) slab) (\<lambda>(r, _). Inr r))
       else Inr None))"

subsection \<open>Laws of the binary form\<close>

fun v2_udp_bytes :: "ProxyProtocolHeader \<Rightarrow> bytes" where
  "v2_udp_bytes (AfInet cip pip cp pp) = PROXY_PROTOCOL_V2_HEADER @ [0x12] @ be16 12 @ be32 cip @ be32 pip @ be16 cp @ be16 pp"
| "v2_udp_bytes (AfInet6 cip6 pip6 cp pp) = PROXY_PROTOCOL_V2_HEADER @ [0x22] @ be16 36 @ be128 cip6 @ be128 pip6 @ be16 cp @ be16 pp"

lemma puts_pthen: "puts a u xs \<Longrightarrow> puts b () ys \<Longrightarrow> puts (pthen a b) () (xs @ ys)"
  by (simp add: puts_def pthen_def fits_append append_sink_append)

lemma puts_pdone: "puts pdone () []"
  by (simp add: puts_def pdone_def)

lemmas puts_seq = puts_pthen [OF puts_write_all]

lemma puts_seven: "puts (pthen (write_all a) (pthen (write_all b) (pthen (write_all c) (pthen (write_all d)
    (pthen (write_all e) (pthen (write_all f) (pthen (write_all g) pdone))))))) () (a @ b @ c @ d @ e @ f @ g)"
  using puts_seq [OF puts_seq [OF puts_seq [OF puts_seq [OF puts_seq [OF puts_seq [OF puts_seq [OF puts_pdone]]]]]]]
  by simp

lemma write_v2_udp_puts: "puts (write_v2_udp h) () (v2_udp_bytes h)"
  by (cases h) (simp_all only: write_v2_udp.simps v2_udp_bytes.simps puts_seven)

lemma get_unwrap_last: "get_unwrap (be_read 2) k (be16 x) = k x []"
  using get_unwrap_decodes(2) [of k x "[]"] by simp

lemma length_v2_udp: "length (v2_udp_bytes h) =
    (case h of AfInet _ _ _ _ \<Rightarrow> UDP_PROXY_PROTOCOL_LEN_V4 | AfInet6 _ _ _ _ \<Rightarrow> UDP_PROXY_PROTOCOL_LEN_V6)"
  by (cases h) (simp_all add: PROXY_PROTOCOL_V2_HEADER_def UDP_PROXY_PROTOCOL_LEN_V4_def
      UDP_PROXY_PROTOCOL_LEN_V6_def)

lemma read_ip_be: "read_ip4 = be_read 4" "read_ip6 = be_read 16"
  by (simp_all add: read_ip4_def read_ip6_def be_read_def)

lemma read_exact_append: "length xs = n \<Longrightarrow> read_exact n (xs @ ys) = Inr (xs, ys)"
  by (simp add: read_exact_def)

context big_endian_io
begin

lemma parse_v2_header:
  "length slab = 14 \<Longrightarrow> parse_v2_udp bo (PROXY_PROTOCOL_V2_HEADER @ [0x12] @ slab @ rest) =
      and_then (get_unwrap (be_read 2) (\<lambda>len.
             if len \<noteq> (12 :: u16) then rret None
             else get_unwrap (be_read 4) (\<lambda>cip. get_unwrap (be_read 4) (\<lambda>pip.
                  get_unwrap (be_read 2) (\<lambda>cp. get_unwrap (be_read 2) (\<lambda>pp.
                  rret (Some (AfInet cip pip cp pp, rest))))))) slab) (\<lambda>(r, _). Inr r)"
  "length slab = 38 \<Longrightarrow> parse_v2_udp bo (PROXY_PROTOCOL_V2_HEADER @ [0x22] @ slab @ rest) =
      and_then (get_unwrap (be_read 2) (\<lambda>len.
             if len \<noteq> (36 :: u16) then rret None
             else get_unwrap (be_read 16) (\<lambda>cip. get_unwrap (be_read 16) (\<lambda>pip.
                  get_unwrap (be_read 2) (\<lambda>cp. get_unwrap (be_read 2) (\<lambda>pp.
                  rret (Some (AfInet6 cip pip cp pp, rest))))))) slab) (\<lambda>(r, _). Inr r)"
proof -
  have u8: "bo_read_u8 bo (t # x) = Inr (t, x)" for t x
    using be_read_be(1) [of t x] by (simp add: read_u8 be8_def del: be_read_be)
  note simps = parse_v2_udp_def read_exact_append ok_or_none_def u8 read_u16 read_ip_be
  show "length slab = 14 \<Longrightarrow> parse_v2_udp bo (PROXY_PROTOCOL_V2_HEADER @ [0x12] @ slab @ rest) =
      and_then (get_unwrap (be_read 2) (\<lambda>len.
             if len \<noteq> (12 :: u16) then rret None
             else get_unwrap (be_read 4) (\<lambda>cip. get_unwrap (be_read 4) (\<lambda>pip.
                  get_unwrap (be_read 2) (\<lambda>cp. get_unwrap (be_read 2) (\<lambda>pp.
                  rret (Some (AfInet cip pip cp pp, rest))))))) slab) (\<lambda>(r, _). Inr r)"
    by (simp add: simps cong: if_cong)
  show "length slab = 38 \<Longrightarrow> parse_v2_udp bo (PROXY_PROTOCOL_V2_HEADER @ [0x22] @ slab @ rest) =
      and_then (get_unwrap (be_read 2) (\<lambda>len.
             if len \<noteq> (36 :: u16) then rret None
             else get_unwrap (be_read 16) (\<lambda>cip. get_unwrap (be_read 16) (\<lambda>pip.
                  get_unwrap (be_read 2) (\<lambda>cp. get_unwrap (be_read 2) (\<lambda>pp.
                  rret (Some (AfInet6 cip pip cp pp, rest))))))) slab) (\<lambda>(r, _). Inr r)"
    by (simp add: simps cong: if_cong)
qed

lemma parse_written: "parse_v2_udp bo (v2_udp_bytes h @ rest) = Inr (Some (h, rest))"
proof (cases h)
  case (AfInet a b c d)
  show ?thesis unfolding AfInet v2_udp_bytes.simps
    using parse_v2_header(1) [of "be16 12 @ be32 a @ be32 b @ be16 c @ be16 d" rest]
    by (simp add: get_unwrap_decodes get_unwrap_last rret_def)
next
  case (AfInet6 a b c d)
  show ?thesis unfolding AfInet6 v2_udp_bytes.simps
    using parse_v2_header(2) [of "be16 36 @ be128 a @ be128 b @ be16 c @ be16 d" rest]
    by (simp add: get_unwrap_decodes get_unwrap_last rret_def)
qed

lemma parse_never_panics: "\<exists>r. parse_v2_udp bo bs = Inr r"
  by (auto simp: parse_v2_udp_def ok_or_none_def read_exact_def bo_simps read_ip_be get_unwrap_be rret_def
      split: sum.splits)

end

subsection \<open>Length of the text form\<close>

lemma show_base_length:
  assumes "2 \<le> b" "n < b ^ k" "0 < k"
  shows "length (show_base b n) \<le> k"
  using assms(2,3)
proof (induction k arbitrary: n)
  case (Suc k)
  show ?case
  proof (cases "n < b")
    case True
    then show ?thesis by (simp add: show_base.simps)
  next
    case False
    then have "k \<noteq> 0" using Suc.prems by (cases k) auto
    moreover have "n div b < b ^ k" using Suc.prems assms(1) by (simp add: less_mult_imp_div_less mult.commute)
    ultimately have "length (show_base b (n div b)) \<le> k" using Suc.IH by simp
    then show ?thesis using False assms(1) by (subst show_base.simps) simp
  qed
qed simp

lemma show_byte_length: "length (show_base 10 (unat (x :: u8))) \<le> 3"
proof -
  have "unat x < 256" using unsigned_less [of x] by simp
  then show ?thesis by (intro show_base_length) simp_all
qed

lemma show_port_length: "length (show_base 10 (unat (x :: u16))) \<le> 5"
proof -
  have "unat x < 65536" using unsigned_less [of x] by simp
  then show ?thesis by (intro show_base_length) simp_all
qed

lemma show_ip4_length: "length (show_ip4 ip) \<le> 15"
proof -
  have "length (be32 ip) = Suc (Suc (Suc (Suc 0)))" by simp
  then obtain a b c d where e: "be32 ip = [a, b, c, d]" unfolding length_Suc_conv by blast
  then show ?thesis
    using show_byte_length [of a] show_byte_length [of b] show_byte_length [of c] show_byte_length [of d]
    by (simp add: show_ip4_def)
qed

lemma show_segments_length:
  "\<forall>s \<in> set ss. s < 65536 \<Longrightarrow> length (show_segments ss) \<le> 5 * length ss - 1"
proof (induction ss rule: show_segments.induct)
  case (2 s)
  then show ?case using show_base_length [of 16 s 4] by simp
next
  case (3 s t ss)
  then show ?case using show_base_length [of 16 s 4] by simp
qed simp

lemma longest_zeros_bound:
  "(0 < cl \<longrightarrow> cs + cl = i) \<Longrightarrow> fst l + snd l \<le> i \<Longrightarrow>
   fst (longest_zeros i ss (cs, cl) l) + snd (longest_zeros i ss (cs, cl) l) \<le> i + length ss"
proof (induction ss arbitrary: i cs cl l)
  case (Cons s ss)
  show ?case
  proof (cases "s = 0")
    case True
    let ?c = "(if cl = 0 then i else cs, Suc cl)"
    have "fst (longest_zeros (Suc i) ss ?c (if snd l < snd ?c then ?c else l)) +
      snd (longest_zeros (Suc i) ss ?c (if snd l < snd ?c then ?c else l)) \<le> Suc i + length ss"
      by (rule Cons.IH) (use Cons.prems in auto)
    with True show ?thesis by (simp add: Let_def)
  next
    case False
    with Cons.IH [of 0 0 "Suc i" l] Cons.prems show ?thesis by simp
  qed
qed simp

lemma show_ip6_length: "length (show_ip6 ip) \<le> 39"
proof -
  let ?segs = "ip6_segments ip"
  have small: "\<forall>s \<in> set ?segs. s < 65536"
  proof
    fix s assume "s \<in> set ?segs"
    then obtain x :: u16 where "s = unat x" by (auto simp: ip6_segments_def)
    then show "s < 65536" using unsigned_less [of x] by simp
  qed
  have len: "length ?segs = 8" by (simp add: ip6_segments_def)
  obtain st n where z: "longest_zeros 0 ?segs (0, 0) (0, 0) = (st, n)" by fastforce
  have b: "st + n \<le> 8" using longest_zeros_bound [of 0 0 0 "(0, 0)" ?segs] z len by simp
  have "\<forall>s \<in> set (take st ?segs). s < 65536" "\<forall>s \<in> set (drop (st + n) ?segs). s < 65536"
    using small by (auto dest: in_set_takeD in_set_dropD)
  then have t: "length (show_segments (take st ?segs)) \<le> 5 * st"
    and d: "length (show_segments (drop (st + n) ?segs)) \<le> 5 * (8 - (st + n))"
    using show_segments_length [of "take st ?segs"] show_segments_length [of "drop (st + n) ?segs"] len b
    by simp_all
  have m: "length (show_segments (take st ?segs)) + length (show_segments (drop (st + n) ?segs)) \<le> 30"
    if "1 < n" using t d b that by arith
  show ?thesis
    using show_segments_length [OF small] show_ip4_length [of "ucast ip"] m len
    by (cases "1 < n") (simp_all add: show_ip6_def z Let_def)
qed

lemma show_header_length: "length (show_header h) \<le> 104"
proof (cases h)
  case (AfInet a b c d)
  show ?thesis unfolding AfInet
    using show_ip4_length [of a] show_ip4_length [of b] show_port_length [of c] show_port_length [of d] by simp
next
  case (AfInet6 a b c d)
  show ?thesis unfolding AfInet6
    using show_ip6_length [of a] show_ip6_length [of b] show_port_length [of c] show_port_length [of d] by simp
qed

subsection \<open>Properties\<close>

text \<open>
  The UDP header written by \<^verbatim>\<open>write_v2_udp\<close> has exactly the announced length, which never exceeds the room the packet
  code reserves, fails only when the buffer is too short, and \<^verbatim>\<open>parse_v2_udp\<close> of a packet that starts with it returns the
  same header and leaves the payload. The parser never panics, whatever the packet.
\<close>

theorem proxy_v2_roundtrip:
  assumes "big_endian_io bo"
  shows "\<exists>bs. puts (write_v2_udp h) () bs \<and> length bs \<le> UDP_PROXY_PROTOCOL_MAX_LEN \<and>
    length bs = (case h of AfInet _ _ _ _ \<Rightarrow> UDP_PROXY_PROTOCOL_LEN_V4 | AfInet6 _ _ _ _ \<Rightarrow> UDP_PROXY_PROTOCOL_LEN_V6) \<and>
    (\<forall>payload. parse_v2_udp bo (bs @ payload) = Inr (Some (h, payload))) \<and>
    (\<forall>packet. \<exists>r. parse_v2_udp bo packet = Inr r)"
  using write_v2_udp_puts [of h] length_v2_udp [of h] big_endian_io.parse_written [OF assms, of h]
    big_endian_io.parse_never_panics [OF assms]
  by (intro exI [of _ "v2_udp_bytes h"])
    (auto simp: UDP_PROXY_PROTOCOL_MAX_LEN_def UDP_PROXY_PROTOCOL_LEN_V4_def UDP_PROXY_PROTOCOL_LEN_V6_def
      split: ProxyProtocolHeader.splits)

theorem proxy_v2_roundtrip_witness:
  "\<exists>bs. puts (write_v2_udp (AfInet 1 2 3 4)) () bs \<and> length bs \<le> UDP_PROXY_PROTOCOL_MAX_LEN \<and>
    length bs = (case AfInet 1 2 3 4 of AfInet _ _ _ _ \<Rightarrow> UDP_PROXY_PROTOCOL_LEN_V4
      | AfInet6 _ _ _ _ \<Rightarrow> UDP_PROXY_PROTOCOL_LEN_V6) \<and>
    (\<forall>payload. parse_v2_udp be_byteorder (bs @ payload) = Inr (Some (AfInet 1 2 3 4, payload))) \<and>
    (\<forall>packet. \<exists>r. parse_v2_udp be_byteorder packet = Inr r)"
  by (rule proxy_v2_roundtrip [OF be_io.big_endian_io_axioms])

text \<open>
  The text header is at most 104 bytes long, within the 107 bytes a version 1 receiver has to accept, for every pair of
  addresses in either family.
\<close>

theorem proxy_v1_length: "write_v1_tcp h (vec_sink pre) = Inr ((), vec_sink (pre @ as_bytes (show_header h))) \<and>
    length (as_bytes (show_header h)) \<le> 104"
  using show_header_length [of h] by (simp add: write_v1_tcp_def write_all_def as_bytes_def)

end
