(* ===== verification/Origin_Lookup.thy ===== *)
theory Origin_Lookup
  imports Proto_Core
begin

section \<open>Where tunnelled traffic goes\<close>

text \<open>
  \<^verbatim>\<open>packages/agent_core/src/network/origin_lookup.rs\<close>: the table from tunnel ids to the local services
  configured for them, built from the run data of the API, and the resolution of a resource and a port
  offset to a local address. The enumerations of the API are those of \<^verbatim>\<open>packages/api_client/src/api.rs\<close>;
  reading one from a JSON string compares with its \<^verbatim>\<open>serde(rename)\<close> names. \<^verbatim>\<open>lookup_host\<close> (name
  resolution) and \<^verbatim>\<open>IpAddr::from_str\<close> are arguments. Configuration values are ASCII.
\<close>

datatype TunnelType = MinecraftJava | MinecraftBedrock | Valheim | Terraria | Starbound | Rust | Num7days
  | Unturned | Https | Hytale | ProjectZomboid | VintageStory

datatype PortType = PortTcp | PortUdp | PortBoth

datatype ProxyProtocol = ProxyProtocolV1 | ProxyProtocolV2

fun TunnelType_name :: "TunnelType \<Rightarrow> string" where
  "TunnelType_name MinecraftJava = ''minecraft-java''"
| "TunnelType_name MinecraftBedrock = ''minecraft-bedrock''"
| "TunnelType_name Valheim = ''valheim''"
| "TunnelType_name Terraria = ''terraria''"
| "TunnelType_name Starbound = ''starbound''"
| "TunnelType_name Rust = ''rust''"
| "TunnelType_name Num7days = ''7days''"
| "TunnelType_name Unturned = ''unturned''"
| "TunnelType_name Https = ''https''"
| "TunnelType_name Hytale = ''hytale''"
| "TunnelType_name ProjectZomboid = ''project-zomboid''"
| "TunnelType_name VintageStory = ''vintage-story''"

definition TunnelType_from_value :: "string \<Rightarrow> TunnelType option" where
  "TunnelType_from_value v = find (\<lambda>t. TunnelType_name t = v)
     [MinecraftJava, MinecraftBedrock, Valheim, Terraria, Starbound, Rust, Num7days, Unturned, Https,
      Hytale, ProjectZomboid, VintageStory]"

fun ProxyProtocol_name :: "ProxyProtocol \<Rightarrow> string" where
  "ProxyProtocol_name ProxyProtocolV1 = ''proxy-protocol-v1''"
| "ProxyProtocol_name ProxyProtocolV2 = ''proxy-protocol-v2''"

definition ProxyProtocol_from_value :: "string \<Rightarrow> ProxyProtocol option" where
  "ProxyProtocol_from_value v = find (\<lambda>t. ProxyProtocol_name t = v) [ProxyProtocolV1, ProxyProtocolV2]"

record AgentTunnelAttr =
  attr_name :: string
  attr_value :: string

record AgentTunnelV1 =
  tun_id :: string
  tun_internal_id :: u64
  tun_name :: string
  tun_display_address :: string
  tun_port_type :: PortType
  tun_port_count :: u16
  tun_tunnel_type :: "string option"
  tun_tunnel_type_display :: string
  tun_fields :: "AgentTunnelAttr list"
  tun_disabled_reason :: "string option"

subsection \<open>Text helpers of \<^verbatim>\<open>std\<close>\<close>

definition is_digit :: "char \<Rightarrow> bool" where
  "is_digit c \<longleftrightarrow> 48 \<le> (of_char c :: nat) \<and> (of_char c :: nat) \<le> 57"

definition digits_value :: "string \<Rightarrow> nat" where
  "digits_value = foldl (\<lambda>a c. 10 * a + ((of_char c :: nat) - 48)) 0"

text \<open>\<^verbatim>\<open>u16::from_str\<close>: an optional plus sign, then at least one digit, and no overflow.\<close>

definition u16_from_str :: "string \<Rightarrow> u16 option" where
  "u16_from_str s =
     (let ds = (case s of c # cs \<Rightarrow> if c = CHR ''+'' then cs else s | [] \<Rightarrow> []) in
      if ds = [] \<or> \<not> list_all is_digit ds \<or> 65535 < digits_value ds then None
      else Some (of_nat (digits_value ds)))"

text \<open>\<^verbatim>\<open>rsplit(':').next()\<close>: what follows the last colon.\<close>

definition after_last_colon :: "string \<Rightarrow> string" where
  "after_last_colon s = rev (takeWhile (\<lambda>c. c \<noteq> CHR '':'') (rev s))"

subsection \<open>Resources\<close>

datatype OriginIp = IpAddress IpAddr | Hostname string

datatype OriginTarget = TargetHttps OriginIp u16 u16 | TargetPort OriginIp u16

record OriginResource =
  res_tunnel_id :: u64
  res_proto :: PortProto
  res_target :: OriginTarget
  res_port_count :: u16
  res_proxy_protocol :: "ProxyProtocol option"

definition find_field :: "AgentTunnelV1 \<Rightarrow> string \<Rightarrow> string option" where
  "find_field tunn nm = map_option attr_value (find (\<lambda>f. attr_name f = nm) (tun_fields tunn))"

definition parse_origin_ip :: "(string \<Rightarrow> IpAddr option) \<Rightarrow> AgentTunnelV1 \<Rightarrow> OriginIp" where
  "parse_origin_ip ip_from_str tunn =
     (case find_field tunn ''local_ip'' of
        None \<Rightarrow> IpAddress (IpV4 0x7F000001)
      | Some v \<Rightarrow> let value = trim v in
          if value = '''' then IpAddress (IpV4 0x7F000001)
          else (case ip_from_str value of Some ip \<Rightarrow> IpAddress ip | None \<Rightarrow> Hostname value))"

definition field_port :: "AgentTunnelV1 \<Rightarrow> string \<Rightarrow> u16 option" where
  "field_port tunn nm = Option.bind (find_field tunn nm) u16_from_str"

definition from_agent_tunnel ::
  "(string \<Rightarrow> IpAddr option) \<Rightarrow> AgentTunnelV1 \<Rightarrow> OriginResource option" where
  "from_agent_tunnel ip_from_str tunn =
     (let tunnel_type = Option.bind (tun_tunnel_type tunn) TunnelType_from_value;
          proxy_protocol = Option.bind (find_field tunn ''proxy_protocol'') ProxyProtocol_from_value;
          target = (if tunnel_type = Some Https then
             Some (TargetHttps (parse_origin_ip ip_from_str tunn)
               (case field_port tunn ''http_port'' of Some p \<Rightarrow> p | None \<Rightarrow> 80)
               (case field_port tunn ''https_port'' of Some p \<Rightarrow> p | None \<Rightarrow> 443))
           else (case (case field_port tunn ''local_port'' of
                         Some p \<Rightarrow> Some p
                       | None \<Rightarrow> u16_from_str (after_last_colon (tun_display_address tunn))) of
                   None \<Rightarrow> None
                 | Some local_port \<Rightarrow> Some (TargetPort (parse_origin_ip ip_from_str tunn) local_port)))
      in map_option (\<lambda>t.
           \<lparr>res_tunnel_id = tun_internal_id tunn,
            res_proto = (case tun_port_type tunn of PortTcp \<Rightarrow> Tcp | PortUdp \<Rightarrow> Udp | PortBoth \<Rightarrow> Both),
            res_target = t, res_port_count = tun_port_count tunn,
            res_proxy_protocol = proxy_protocol\<rparr>) target)"

subsection \<open>Resolution\<close>

text \<open>\<open>lookup_host\<close> returns the addresses of a name and a port, or an error.\<close>

fun OriginIp_resolve ::
  "(string \<Rightarrow> u16 \<Rightarrow> 'e + SocketAddr list) \<Rightarrow> OriginIp \<Rightarrow> u16 \<Rightarrow> SocketAddr option" where
  "OriginIp_resolve lookup_host (IpAddress ip) port = Some (sock_addr_new ip port)"
| "OriginIp_resolve lookup_host (Hostname hostname) port = (case lookup_host hostname port of
     Inl _ \<Rightarrow> None | Inr addrs \<Rightarrow> (case addrs of [] \<Rightarrow> None | a # _ \<Rightarrow> Some a))"

definition resolve_local ::
  "(string \<Rightarrow> u16 \<Rightarrow> 'e + SocketAddr list) \<Rightarrow> OriginResource \<Rightarrow> u16 \<Rightarrow> SocketAddr option" where
  "resolve_local lookup_host res port_offset = (case res_target res of
       TargetHttps ip http_port https_port \<Rightarrow>
         if port_offset = 0 then OriginIp_resolve lookup_host ip http_port
         else if port_offset = 1 then OriginIp_resolve lookup_host ip https_port
         else None
     | TargetPort ip port \<Rightarrow>
         if res_port_count res = 0 then OriginIp_resolve lookup_host ip port
         else if res_port_count res \<le> port_offset then None
         else Option.bind (checked_add port port_offset) (OriginIp_resolve lookup_host ip))"

subsection \<open>The table\<close>

record Key =
  key_tunnel_id :: u64
  key_is_tcp :: bool

type_synonym OriginLookup = "Key \<rightharpoonup> OriginResource"

definition insert_resource :: "OriginResource \<Rightarrow> OriginLookup \<Rightarrow> OriginLookup" where
  "insert_resource res m = (case res_proto res of
       Tcp \<Rightarrow> m(\<lparr>key_tunnel_id = res_tunnel_id res, key_is_tcp = True\<rparr> \<mapsto> res)
     | Udp \<Rightarrow> m(\<lparr>key_tunnel_id = res_tunnel_id res, key_is_tcp = False\<rparr> \<mapsto> res)
     | Both \<Rightarrow> (m(\<lparr>key_tunnel_id = res_tunnel_id res, key_is_tcp = True\<rparr> \<mapsto> res))
         (\<lparr>key_tunnel_id = res_tunnel_id res, key_is_tcp = False\<rparr> \<mapsto> res))"

text \<open>\<^verbatim>\<open>update\<close> builds a new table and replaces the old one, which is the last argument.\<close>

definition origin_update :: "OriginResource list \<Rightarrow> OriginLookup \<Rightarrow> OriginLookup" where
  "origin_update resources old = fold insert_resource resources Map.empty"

definition update_from_run_data ::
  "(string \<Rightarrow> IpAddr option) \<Rightarrow> AgentTunnelV1 list \<Rightarrow> OriginLookup \<Rightarrow> OriginLookup" where
  "update_from_run_data ip_from_str tunnels old =
     origin_update (List.map_filter (from_agent_tunnel ip_from_str) tunnels) old"

definition origin_lookup :: "OriginLookup \<Rightarrow> u64 \<Rightarrow> bool \<Rightarrow> OriginResource option" where
  "origin_lookup m tid is_tcp = m \<lparr>key_tunnel_id = tid, key_is_tcp = is_tcp\<rparr>"

subsection \<open>Laws\<close>

definition serves :: "OriginResource \<Rightarrow> u64 \<Rightarrow> bool \<Rightarrow> bool" where
  "serves res tid is_tcp \<longleftrightarrow> res_tunnel_id res = tid \<and> res_proto res \<in> {Both, if is_tcp then Tcp else Udp}"

lemma origin_lookup_insert:
  "origin_lookup (insert_resource res m) tid is_tcp = (if serves res tid is_tcp then Some res else origin_lookup m tid is_tcp)"
  by (cases "res_proto res") (auto simp: origin_lookup_def insert_resource_def serves_def)

lemma origin_lookup_fold:
  "origin_lookup (fold insert_resource rs m) tid is_tcp =
   (case filter (\<lambda>r. serves r tid is_tcp) rs of [] \<Rightarrow> origin_lookup m tid is_tcp | _ \<Rightarrow>
      Some (last (filter (\<lambda>r. serves r tid is_tcp) rs)))"
  by (induction rs arbitrary: m) (auto simp: origin_lookup_insert split: list.splits)

definition port_ok :: "OriginResource \<Rightarrow> u16 \<Rightarrow> u16 \<Rightarrow> bool" where
  "port_ok res port_offset p = (case res_target res of
       TargetHttps ip a b \<Rightarrow> port_offset = 0 \<and> p = a \<or> port_offset = 1 \<and> p = b
     | TargetPort ip port \<Rightarrow>
         res_port_count res = 0 \<and> p = port \<or>
         port_offset < res_port_count res \<and> unat p = unat port + unat port_offset)"

fun target_ip :: "OriginTarget \<Rightarrow> OriginIp" where
  "target_ip (TargetHttps ip _ _) = ip"
| "target_ip (TargetPort ip _) = ip"

lemma resolve_local_iff:
  "resolve_local lookup_host res off = Some a \<longleftrightarrow>
   (\<exists>p. port_ok res off p \<and> OriginIp_resolve lookup_host (target_ip (res_target res)) p = Some a)"
proof (cases "res_target res")
  case (TargetHttps ip a b)
  then show ?thesis by (auto simp: resolve_local_def port_ok_def)
next
  case (TargetPort ip port)
  have word: "unat p = unat port + unat off \<longleftrightarrow> checked_add port off = Some p" for p
  proof
    assume p: "unat p = unat port + unat off"
    have "unat p < 65536" using unsigned_less [of p] by simp
    with p have "unat port + unat off < 2 ^ LENGTH(16)" by simp
    then show "checked_add port off = Some p"
      using p by (simp add: checked_add_def unat_add_lem_lt word_unat_eq_iff)
  qed (auto simp: checked_add_Some unat_add_lem_lt)
  show ?thesis
  proof (cases "res_port_count res = 0")
    case True
    with TargetPort show ?thesis by (simp add: resolve_local_def port_ok_def)
  next
    case False
    with TargetPort word show ?thesis
      by (auto simp: resolve_local_def port_ok_def not_le bind_eq_Some_conv)
  qed
qed

subsection \<open>Properties\<close>

text \<open>
  After an update the table answers from the new resources alone: a lookup gives the last resource of the list with that
  tunnel id that serves the protocol (its own protocol or both), and nothing when there is none; no entry of the old table
  survives.
\<close>

theorem origin_table_lookup:
  "origin_lookup (origin_update rs old) tid is_tcp =
   (case filter (\<lambda>r. serves r tid is_tcp) rs of [] \<Rightarrow> None | _ \<Rightarrow> Some (last (filter (\<lambda>r. serves r tid is_tcp) rs)))"
proof -
  have "origin_lookup Map.empty tid is_tcp = None" by (simp add: origin_lookup_def)
  then show ?thesis
    using origin_lookup_fold [of rs Map.empty tid is_tcp] unfolding origin_update_def
    by (cases "filter (\<lambda>r. serves r tid is_tcp) rs") simp_all
qed

text \<open>
  \<^verbatim>\<open>resolve_local\<close> returns an address exactly when the offset is one the resource covers: 0 or 1 for an HTTPS tunnel,
  any offset below the port count for a port tunnel whose port plus offset is still a 16-bit port (there is no wrap-around to
  a low port), and any offset at all, ignored, when the port count is zero. The address is then that of the configured host at that port.
\<close>

theorem resolve_local_exact:
  "resolve_local lookup_host res off = Some a \<longleftrightarrow>
   (\<exists>p. (case res_target res of
          TargetHttps ip hp hsp \<Rightarrow> off = 0 \<and> p = hp \<or> off = 1 \<and> p = hsp
        | TargetPort ip port \<Rightarrow> res_port_count res = 0 \<and> p = port \<or>
            off < res_port_count res \<and> unat p = unat port + unat off) \<and>
      OriginIp_resolve lookup_host (target_ip (res_target res)) p = Some a)"
  using resolve_local_iff [of lookup_host res off a] by (simp add: port_ok_def)

end
