(* ===== verification/Stats.thy ===== *)
theory Stats
  imports Playit_Prelude
begin

section \<open>Traffic statistics\<close>

text \<open>
  \<^verbatim>\<open>packages/agent_core/src/stats.rs\<close> and the counters of \<^verbatim>\<open>packages/agent_core/src/network/errors.rs\<close>. The fields
  are atomics, so each operation is one indivisible update of the record; \<^verbatim>\<open>fetch_add\<close> and
  \<^verbatim>\<open>fetch_sub\<close> wrap around.
\<close>

record AgentStats =
  bytes_in :: u64
  bytes_out :: u64
  active_tcp :: u32
  active_udp :: u32

definition AgentStats_new :: AgentStats where
  "AgentStats_new = \<lparr>bytes_in = 0, bytes_out = 0, active_tcp = 0, active_udp = 0\<rparr>"

definition add_bytes_in :: "u64 \<Rightarrow> AgentStats \<Rightarrow> AgentStats" where
  "add_bytes_in n s = s\<lparr>bytes_in := bytes_in s + n\<rparr>"

definition add_bytes_out :: "u64 \<Rightarrow> AgentStats \<Rightarrow> AgentStats" where
  "add_bytes_out n s = s\<lparr>bytes_out := bytes_out s + n\<rparr>"

definition inc_tcp :: "AgentStats \<Rightarrow> AgentStats" where
  "inc_tcp s = s\<lparr>active_tcp := active_tcp s + 1\<rparr>"

definition dec_tcp :: "AgentStats \<Rightarrow> AgentStats" where
  "dec_tcp s = s\<lparr>active_tcp := active_tcp s - 1\<rparr>"

definition set_tcp :: "u32 \<Rightarrow> AgentStats \<Rightarrow> AgentStats" where
  "set_tcp n s = s\<lparr>active_tcp := n\<rparr>"

definition inc_udp :: "AgentStats \<Rightarrow> AgentStats" where
  "inc_udp s = s\<lparr>active_udp := active_udp s + 1\<rparr>"

definition dec_udp :: "AgentStats \<Rightarrow> AgentStats" where
  "dec_udp s = s\<lparr>active_udp := active_udp s - 1\<rparr>"

definition set_udp :: "u32 \<Rightarrow> AgentStats \<Rightarrow> AgentStats" where
  "set_udp n s = s\<lparr>active_udp := n\<rparr>"

text \<open>
  \<^verbatim>\<open>snapshot\<close> reads the four fields one after the other, and other threads may write between two reads: the
  arguments are the states at the four moments.
\<close>

definition stats_snapshot :: "AgentStats \<Rightarrow> AgentStats \<Rightarrow> AgentStats \<Rightarrow> AgentStats \<Rightarrow> AgentStats" where
  "stats_snapshot s1 s2 s3 s4 =
     \<lparr>bytes_in = bytes_in s1, bytes_out = bytes_out s2, active_tcp = active_tcp s3, active_udp = active_udp s4\<rparr>"

type_synonym IntCounter = u64

definition counter_inc :: "IntCounter \<Rightarrow> IntCounter" where
  "counter_inc c = c + 1"

lemmas stats_defs = add_bytes_in_def add_bytes_out_def set_udp_def set_tcp_def

end
