(* ===== verification/Packets.thy ===== *)
theory Packets
  imports Playit_Prelude "HOL-Library.Multiset"
begin

section \<open>The packet pool\<close>

text \<open>
  \<^verbatim>\<open>packages/agent_core/src/network/udp/packets.rs\<close>: one buffer cut into blocks of 2048 bytes, handed out
  and returned through a queue of free blocks. A pointer is the offset of its block in the buffer.
  The queues are \<^verbatim>\<open>crossbeam::queue::ArrayQueue\<close>, given by the argument \<open>aq\<close> and the
  contract \<open>array_queue\<close> (bounded, first in first out); the pool hands blocks to several tasks, and
  the laws say that no two of them ever hold the same block.
\<close>

definition PACKET_LEN :: nat where "PACKET_LEN = 2048"

record ('q, 'a) array_queue_lib =
  aq_new :: "nat \<Rightarrow> 'q"
  aq_push :: "'q \<Rightarrow> 'a \<Rightarrow> ('a + unit) \<times> 'q"
  aq_pop :: "'q \<Rightarrow> 'a option \<times> 'q"

locale array_queue =
  fixes aq :: "('q, 'a) array_queue_lib" and cap :: "'q \<Rightarrow> nat" and cont :: "'q \<Rightarrow> 'a list"
  assumes new_law: "0 < n \<Longrightarrow> cap (aq_new aq n) = n \<and> cont (aq_new aq n) = []"
    and push_law: "length (cont q) < cap q \<Longrightarrow> fst (aq_push aq q x) = Inr ()"
    and push_cont: "length (cont q) < cap q \<Longrightarrow>
      cont (snd (aq_push aq q x)) = cont q @ [x] \<and> cap (snd (aq_push aq q x)) = cap q"
    and push_full: "cap q \<le> length (cont q) \<Longrightarrow> aq_push aq q x = (Inl x, q)"
    and pop_empty: "cont q = [] \<Longrightarrow> aq_pop aq q = (None, q)"
    and pop_law: "cont q = x # xs \<Longrightarrow> fst (aq_pop aq q) = Some x"
    and pop_cont: "cap (snd (aq_pop aq q)) = cap q \<and> cont (snd (aq_pop aq q)) = tl (cont q)"

subsection \<open>The pool\<close>

record ('q, 'wq) Packets =
  packet_count :: nat
  free_packets :: 'q
  waiting :: 'wq

record Packet =
  pkt_ptr :: nat
  pkt_len :: nat

function next_pow2 :: "nat \<Rightarrow> nat \<Rightarrow> nat" where
  "next_pow2 p n = (if n \<le> p \<or> p = 0 then p else next_pow2 (2 * p) n)"
  by pat_completeness auto
termination
  by (relation "measure (\<lambda>(p, n). n - p)") auto

declare next_pow2.simps [simp del]

definition next_power_of_two :: "nat \<Rightarrow> nat" where
  "next_power_of_two n = next_pow2 1 n"

fun fill_free :: "('q, nat) array_queue_lib \<Rightarrow> nat list \<Rightarrow> 'q \<Rightarrow> io_error + 'q" where
  "fill_free aq [] q = Inr q"
| "fill_free aq (i # is) q = (case aq_push aq q (i * PACKET_LEN) of
     (Inl _, _) \<Rightarrow> Inl (Panic ''free packet queue too small'')
   | (Inr _, q') \<Rightarrow> fill_free aq is q')"

definition Packets_new ::
  "('q, nat) array_queue_lib \<Rightarrow> ('wq, 'w) array_queue_lib \<Rightarrow> nat \<Rightarrow> io_error + ('q, 'wq) Packets" where
  "Packets_new aq wq packet_count0 =
     (let n = next_power_of_two packet_count0 in
      and_then (fill_free aq [0..<n] (aq_new aq n)) (\<lambda>q.
        Inr \<lparr>packet_count = n, free_packets = q, waiting = aq_new wq 1024\<rparr>))"

definition allocate ::
  "('q, nat) array_queue_lib \<Rightarrow> ('q, 'wq) Packets \<Rightarrow> Packet option \<times> ('q, 'wq) Packets" where
  "allocate aq p = (case aq_pop aq (free_packets p) of
     (None, _) \<Rightarrow> (None, p)
   | (Some ptr, q) \<Rightarrow> (Some \<lparr>pkt_ptr = ptr, pkt_len = PACKET_LEN\<rparr>, p\<lparr>free_packets := q\<rparr>))"

text \<open>
  One poll of \<^verbatim>\<open>allocate_wait\<close>: a packet, or \<open>None\<close> for \<^verbatim>\<open>Pending\<close> with the wakers to wake now (the
  caller's own when the waiting queue is full).
\<close>

definition allocate_poll ::
  "('q, nat) array_queue_lib \<Rightarrow> ('wq, 'w) array_queue_lib \<Rightarrow> 'w \<Rightarrow> ('q, 'wq) Packets \<Rightarrow>
   Packet option \<times> 'w list \<times> ('q, 'wq) Packets" where
  "allocate_poll aq wq waker p = (case aq_pop aq (free_packets p) of
     (Some ptr, q) \<Rightarrow> (Some \<lparr>pkt_ptr = ptr, pkt_len = PACKET_LEN\<rparr>, [], p\<lparr>free_packets := q\<rparr>)
   | (None, _) \<Rightarrow> (case aq_push wq (waiting p) waker of
       (Inl w, _) \<Rightarrow> (None, [w], p)
     | (Inr _, ws) \<Rightarrow> (None, [], p\<lparr>waiting := ws\<rparr>)))"

text \<open>\<^verbatim>\<open>Drop for Packet\<close>, with the waker it wakes.\<close>

definition packet_drop ::
  "('q, nat) array_queue_lib \<Rightarrow> ('wq, 'w) array_queue_lib \<Rightarrow> Packet \<Rightarrow> ('q, 'wq) Packets \<Rightarrow>
   io_error + ('w list \<times> ('q, 'wq) Packets)" where
  "packet_drop aq wq pkt p = (case aq_push aq (free_packets p) (pkt_ptr pkt) of
     (Inl _, _) \<Rightarrow> Inl (Panic ''free packet queue full'')
   | (Inr _, q) \<Rightarrow> (case aq_pop wq (waiting p) of
       (None, _) \<Rightarrow> Inr ([], p\<lparr>free_packets := q\<rparr>)
     | (Some w, ws) \<Rightarrow> Inr ([w], p\<lparr>free_packets := q, waiting := ws\<rparr>)))"

definition set_len :: "nat \<Rightarrow> Packet \<Rightarrow> io_error + Packet" where
  "set_len len pkt = (if PACKET_LEN < len then Inl (Error InvalidInput ''packet len too large'')
     else Inr (pkt\<lparr>pkt_len := len\<rparr>))"

text \<open>The bytes a packet shows: \<open>as_ref\<close> up to its length, \<open>full_slice\<close> the whole block.\<close>

definition as_ref :: "bytes \<Rightarrow> Packet \<Rightarrow> bytes" where
  "as_ref buffer pkt = take (pkt_len pkt) (drop (pkt_ptr pkt) buffer)"

definition full_slice :: "bytes \<Rightarrow> Packet \<Rightarrow> bytes" where
  "full_slice buffer pkt = take PACKET_LEN (drop (pkt_ptr pkt) buffer)"

subsection \<open>The pool as a transition system\<close>

text \<open>
  A state is the pool together with the packets that are out; each step is one atomic operation of one
  task, so a run is an interleaving of the operations of all of them. \<open>None\<close> is a panic.
\<close>

type_synonym ('q, 'wq) pool = "(('q, 'wq) Packets \<times> Packet list) option"

inductive pool_step ::
  "('q, nat) array_queue_lib \<Rightarrow> ('wq, 'w) array_queue_lib \<Rightarrow> ('q, 'wq) pool \<Rightarrow> ('q, 'wq) pool \<Rightarrow> bool"
  for aq wq where
  alloc: "allocate aq p = (r, p') \<Longrightarrow>
    pool_step aq wq (Some (p, out)) (Some (p', out @ (case r of None \<Rightarrow> [] | Some x \<Rightarrow> [x])))"
| poll: "allocate_poll aq wq w p = (r, woken, p') \<Longrightarrow>
    pool_step aq wq (Some (p, out)) (Some (p', out @ (case r of None \<Rightarrow> [] | Some x \<Rightarrow> [x])))"
| drop_ok: "packet_drop aq wq x p = Inr (woken, p') \<Longrightarrow>
    pool_step aq wq (Some (p, a @ x # b)) (Some (p', a @ b))"
| drop_panic: "packet_drop aq wq x p = Inl e \<Longrightarrow> pool_step aq wq (Some (p, a @ x # b)) None"
| resize: "set_len n x = Inr x' \<Longrightarrow> pool_step aq wq (Some (p, a @ x # b)) (Some (p, a @ x' # b))"

inductive_cases pool_stepE: "pool_step aq wq (Some (p, out)) s"

definition pool_reachable ::
  "('q, nat) array_queue_lib \<Rightarrow> ('wq, 'w) array_queue_lib \<Rightarrow> nat \<Rightarrow> ('q, 'wq) pool \<Rightarrow> bool" where
  "pool_reachable aq wq n s \<longleftrightarrow> (\<exists>p. Packets_new aq wq n = Inr p \<and> (pool_step aq wq)\<^sup>*\<^sup>* (Some (p, [])) s)"

subsection \<open>Laws\<close>

lemma next_pow2_bounds: "0 < p \<Longrightarrow> n \<le> next_pow2 p n \<and> 0 < next_pow2 p n"
  by (induction p n rule: next_pow2.induct) (subst (1 2) next_pow2.simps, auto)

lemma next_pow2_power: "\<exists>k. next_pow2 (2 ^ j) n = 2 ^ k"
proof (induction "2 ^ j :: nat" n arbitrary: j rule: next_pow2.induct)
  case (1 n j)
  then show ?case
    by (subst next_pow2.simps) (use 1 [of "Suc j"] in auto)
qed

text \<open>
  Free blocks and blocks that are out are together exactly the blocks of the buffer, each of them once;
  lengths stay within a block.
\<close>

definition pool_ok :: "('q \<Rightarrow> nat) \<Rightarrow> ('q \<Rightarrow> nat list) \<Rightarrow> ('q, 'wq) Packets \<times> Packet list \<Rightarrow> bool" where
  "pool_ok cap cont s \<longleftrightarrow> (case s of (p, out) \<Rightarrow>
     cap (free_packets p) = packet_count p \<and>
     mset (cont (free_packets p) @ map pkt_ptr out) = mset (map (\<lambda>i. i * PACKET_LEN) [0..<packet_count p]) \<and>
     (\<forall>x \<in> set out. pkt_len x \<le> PACKET_LEN))"

context array_queue
begin

lemma push_cases:
  assumes "aq_push aq q x = (r, q')"
  shows "length (cont q) < cap q \<and> r = Inr () \<and> cont q' = cont q @ [x] \<and> cap q' = cap q \<or>
    \<not> length (cont q) < cap q \<and> r = Inl x \<and> q' = q"
  using push_law [of q x] push_cont [of q x] push_full [of q x] assms
  by (cases "length (cont q) < cap q") simp_all

lemma pop_cases:
  assumes "aq_pop aq q = (r, q')"
  shows "r = None \<and> cont q = [] \<and> q' = q \<or> (\<exists>x xs. r = Some x \<and> cont q = x # xs \<and> cont q' = xs \<and> cap q' = cap q)"
  using pop_empty [of q] pop_law [of q] pop_cont [of q] assms by (cases "cont q") simp_all

end

lemma fill_free_ok:
  assumes "array_queue aq cap cont" "length (cont q) + length is \<le> cap q"
  shows "\<exists>q'. fill_free aq is q = Inr q' \<and> cont q' = cont q @ map (\<lambda>i. i * PACKET_LEN) is \<and> cap q' = cap q"
  using assms(2)
proof (induction "is" arbitrary: q)
  case (Cons i "is")
  obtain r q1 where p: "aq_push aq q (i * PACKET_LEN) = (r, q1)" by fastforce
  from array_queue.push_cases [OF assms(1) p] Cons.prems
  have r: "r = Inr ()" "cont q1 = cont q @ [i * PACKET_LEN]" "cap q1 = cap q" by auto
  then obtain q' where "fill_free aq is q1 = Inr q'" "cont q' = cont q1 @ map (\<lambda>i. i * PACKET_LEN) is" "cap q' = cap q1"
    using Cons.IH [of q1] Cons.prems by auto
  with p r show ?case by auto
qed simp

text \<open>The pool with the queues it uses: free blocks and wakers.\<close>

locale packet_pool = free: array_queue aq cap cont + wake: array_queue wq wcap wcont
  for aq :: "('q, nat) array_queue_lib" and cap cont
    and wq :: "('wq, 'w) array_queue_lib" and wcap wcont
begin

lemma new_ok: "\<exists>p. Packets_new aq wq n = Inr p \<and> packet_count p = next_power_of_two n \<and> pool_ok cap cont (p, [])"
proof -
  let ?n = "next_power_of_two n"
  have pos: "0 < ?n" using next_pow2_bounds [of 1 n] by (simp add: next_power_of_two_def)
  have c: "cap (aq_new aq ?n) = ?n" "cont (aq_new aq ?n) = []" using free.new_law [OF pos] by simp_all
  obtain q' where "fill_free aq [0..<?n] (aq_new aq ?n) = Inr q'"
    "cont q' = map (\<lambda>i. i * PACKET_LEN) [0..<?n]" "cap q' = ?n"
    using fill_free_ok [OF free.array_queue_axioms, of "aq_new aq ?n" "[0..<?n]"] c by auto
  then show ?thesis by (simp add: Packets_new_def pool_ok_def Let_def)
qed

lemma free_room:
  assumes "pool_ok cap cont (p, a @ x # b)"
  shows "length (cont (free_packets p)) < cap (free_packets p)"
proof -
  have "mset (cont (free_packets p) @ map pkt_ptr (a @ x # b)) =
      mset (map (\<lambda>i. i * PACKET_LEN) [0..<packet_count p])"
    and cap: "cap (free_packets p) = packet_count p"
    using assms by (simp_all add: pool_ok_def)
  then have "length (cont (free_packets p) @ map pkt_ptr (a @ x # b)) =
      length (map (\<lambda>i. i * PACKET_LEN) [0..<packet_count p])"
    by (intro mset_eq_length)
  then show ?thesis using cap by simp
qed

lemma pop_ok:
  assumes ok: "pool_ok cap cont (p, out)" and pop: "aq_pop aq (free_packets p) = (Some ptr, q)"
  shows "pool_ok cap cont (p\<lparr>free_packets := q\<rparr>, out @ [\<lparr>pkt_ptr = ptr, pkt_len = PACKET_LEN\<rparr>])"
  using ok free.pop_cases [OF pop] by (auto simp: pool_ok_def)

lemma alloc_ok:
  assumes "pool_ok cap cont (p, out)" "allocate aq p = (r, p')"
  shows "pool_ok cap cont (p', out @ (case r of None \<Rightarrow> [] | Some x \<Rightarrow> [x]))"
  using assms pop_ok [OF assms(1)]
  by (cases "aq_pop aq (free_packets p)") (auto simp: allocate_def split: option.splits)

lemma poll_ok:
  assumes "pool_ok cap cont (p, out)" "allocate_poll aq wq w p = (r, woken, p')"
  shows "pool_ok cap cont (p', out @ (case r of None \<Rightarrow> [] | Some x \<Rightarrow> [x]))"
proof (cases "fst (aq_pop aq (free_packets p))")
  case None
  then have "r = None \<and> free_packets p' = free_packets p \<and> packet_count p' = packet_count p"
    using assms(2) by (auto simp: allocate_poll_def split: prod.splits sum.splits option.splits)
  with assms(1) show ?thesis by (auto simp: pool_ok_def)
next
  case (Some ptr)
  then obtain q where q: "aq_pop aq (free_packets p) = (Some ptr, q)" by (metis prod.collapse)
  then have "r = Some \<lparr>pkt_ptr = ptr, pkt_len = PACKET_LEN\<rparr>" "p' = p\<lparr>free_packets := q\<rparr>"
    using assms(2) by (auto simp: allocate_poll_def)
  with pop_ok [OF assms(1) q] show ?thesis by simp
qed

lemma drop_keeps:
  assumes ok: "pool_ok cap cont (p, a @ x # b)"
  shows "\<exists>woken p'. packet_drop aq wq x p = Inr (woken, p') \<and> pool_ok cap cont (p', a @ b)"
proof -
  obtain r q where push: "aq_push aq (free_packets p) (pkt_ptr x) = (r, q)" by fastforce
  have q: "r = Inr ()" "cont q = cont (free_packets p) @ [pkt_ptr x]" "cap q = cap (free_packets p)"
    using free.push_cases [OF push] free_room [OF ok] by auto
  have "pool_ok cap cont (p\<lparr>free_packets := q\<rparr>, a @ b)" "pool_ok cap cont (p\<lparr>free_packets := q, waiting := ws\<rparr>, a @ b)" for ws
    using ok q by (auto simp: pool_ok_def)
  then show ?thesis
    using q(1) by (cases "aq_pop wq (waiting p)") (auto simp: packet_drop_def push split: option.splits)
qed

lemma step_ok:
  assumes "pool_step aq wq s0 s" "s0 = Some s1" "pool_ok cap cont s1"
  shows "\<exists>s'. s = Some s' \<and> pool_ok cap cont s'"
  using assms
proof (induction rule: pool_step.induct)
  case (drop_ok x p woken p' a b)
  then show ?case using drop_keeps [of p a x b] by auto
next
  case (drop_panic x p e a b)
  then show ?case using drop_keeps [of p a x b] by auto
next
  case (resize n x x' p a b)
  then show ?case by (auto simp: pool_ok_def set_len_def split: if_splits)
qed (use alloc_ok poll_ok in auto)

lemma reachable_ok:
  assumes "pool_reachable aq wq n s"
  shows "\<exists>s'. s = Some s' \<and> pool_ok cap cont s'"
proof -
  obtain p where "Packets_new aq wq n = Inr p" and r: "(pool_step aq wq)\<^sup>*\<^sup>* (Some (p, [])) s"
    using assms by (auto simp: pool_reachable_def)
  with new_ok [of n] have "pool_ok cap cont (p, [])" by auto
  with r show ?thesis
    by (induction rule: rtranclp_induct) (auto dest: step_ok)
qed

end

lemma pool_ok_blocks:
  assumes "pool_ok cap cont (p, out)"
  shows "distinct (map pkt_ptr out)"
    and "x \<in> set out \<Longrightarrow> \<exists>i < packet_count p. pkt_ptr x = i * PACKET_LEN"
    and "length out + length (cont (free_packets p)) = packet_count p"
proof -
  let ?blocks = "map (\<lambda>i. i * PACKET_LEN) [0..<packet_count p]"
  have m: "mset (cont (free_packets p) @ map pkt_ptr out) = mset ?blocks"
    using assms by (simp add: pool_ok_def)
  have "distinct ?blocks" by (simp add: distinct_map inj_on_def PACKET_LEN_def)
  with m have "distinct (cont (free_packets p) @ map pkt_ptr out)" by (metis mset_eq_imp_distinct_iff)
  then show "distinct (map pkt_ptr out)" by simp
  have "set (cont (free_packets p) @ map pkt_ptr out) = set ?blocks" using m by (rule mset_eq_setD)
  then have "set (map pkt_ptr out) \<subseteq> set ?blocks" by auto
  then show "x \<in> set out \<Longrightarrow> \<exists>i < packet_count p. pkt_ptr x = i * PACKET_LEN" by fastforce
  have "length (cont (free_packets p) @ map pkt_ptr out) = length ?blocks" using m by (rule mset_eq_length)
  then show "length out + length (cont (free_packets p)) = packet_count p" by simp
qed

lemma blocks_apart:
  assumes "i * PACKET_LEN \<noteq> j * PACKET_LEN"
  shows "i * PACKET_LEN + PACKET_LEN \<le> j * PACKET_LEN \<or> j * PACKET_LEN + PACKET_LEN \<le> i * PACKET_LEN"
  using assms by (auto simp: PACKET_LEN_def)

subsection \<open>A concrete queue\<close>

definition list_queue :: "(nat \<times> 'a list, 'a) array_queue_lib" where
  "list_queue =
     \<lparr>aq_new = (\<lambda>n. (n, [])),
      aq_push = (\<lambda>(n, xs) x. if length xs < n then (Inr (), (n, xs @ [x])) else (Inl x, (n, xs))),
      aq_pop = (\<lambda>(n, xs). case xs of [] \<Rightarrow> (None, (n, xs)) | x # ys \<Rightarrow> (Some x, (n, ys)))\<rparr>"

lemma list_queue_law: "array_queue list_queue fst snd"
  by unfold_locales (auto simp: list_queue_def split: list.splits)

interpretation list_pool: packet_pool list_queue fst snd list_queue fst snd
  by (simp add: packet_pool_def list_queue_law)

subsection \<open>Properties\<close>

text \<open>
  C12: In every interleaving of allocations, polls, drops and length changes the packet pool never panics, no two packets that
  are out share a byte of the buffer, every packet lies inside the buffer, and no block is lost: packets that are out and
  free blocks add up to the packet count.
\<close>

theorem packet_pool_safe:
  assumes "packet_pool aq cap cont wq wcap wcont" "pool_reachable aq wq n s"
  shows "\<exists>p out. s = Some (p, out) \<and>
    (\<forall>i < length out. \<forall>j < length out. i \<noteq> j \<longrightarrow>
       pkt_ptr (out ! i) + PACKET_LEN \<le> pkt_ptr (out ! j) \<or> pkt_ptr (out ! j) + PACKET_LEN \<le> pkt_ptr (out ! i)) \<and>
    (\<forall>x \<in> set out. pkt_ptr x + PACKET_LEN \<le> packet_count p * PACKET_LEN \<and> pkt_len x \<le> PACKET_LEN) \<and>
    length out + length (cont (free_packets p)) = packet_count p"
proof -
  obtain p out where s: "s = Some (p, out)" and ok: "pool_ok cap cont (p, out)"
    using packet_pool.reachable_ok [OF assms] by auto
  note b = pool_ok_blocks [OF ok]
  have "pkt_ptr (out ! i) + PACKET_LEN \<le> pkt_ptr (out ! j) \<or> pkt_ptr (out ! j) + PACKET_LEN \<le> pkt_ptr (out ! i)"
    if "i < length out" "j < length out" "i \<noteq> j" for i j
  proof -
    have "pkt_ptr (out ! i) \<noteq> pkt_ptr (out ! j)" using b(1) that by (simp add: distinct_conv_nth)
    then show ?thesis using b(2) [of "out ! i"] b(2) [of "out ! j"] that blocks_apart by (metis nth_mem)
  qed
  moreover have "pkt_ptr x + PACKET_LEN \<le> packet_count p * PACKET_LEN \<and> pkt_len x \<le> PACKET_LEN"
    if x: "x \<in> set out" for x
    using b(2) [OF x] ok x by (auto simp: pool_ok_def PACKET_LEN_def)
  ultimately show ?thesis using s b(3) by blast
qed

theorem packet_pool_safe_witness:
  "\<exists>p out. Some (\<lparr>packet_count = 2, free_packets = (2, [2048]), waiting = (1024, [])\<rparr>,
      [\<lparr>pkt_ptr = 0, pkt_len = 2048\<rparr>]) = Some (p, out) \<and>
    (\<forall>x \<in> set out. pkt_ptr x + PACKET_LEN \<le> packet_count p * PACKET_LEN \<and> pkt_len x \<le> PACKET_LEN)"
proof -
  let ?p = "\<lparr>packet_count = 2, free_packets = (2 :: nat, [0, 2048]), waiting = (1024 :: nat, [] :: unit list)\<rparr>"
  let ?q = "?p\<lparr>free_packets := (2, [2048])\<rparr>"
  have p: "Packets_new list_queue list_queue 2 = Inr ?p"
    by (simp add: Packets_new_def next_power_of_two_def next_pow2.simps list_queue_def upt_rec PACKET_LEN_def)
  have "allocate list_queue ?p = (Some \<lparr>pkt_ptr = 0, pkt_len = 2048\<rparr>, ?q)"
    by (simp add: allocate_def list_queue_def PACKET_LEN_def)
  from pool_step.alloc [OF this, of "list_queue :: (nat \<times> unit list, unit) array_queue_lib" "[]"]
  have "pool_step list_queue (list_queue :: (nat \<times> unit list, unit) array_queue_lib) (Some (?p, []))
      (Some (?q, [\<lparr>pkt_ptr = 0, pkt_len = 2048\<rparr>]))" by simp
  then have "pool_reachable list_queue (list_queue :: (nat \<times> unit list, unit) array_queue_lib) 2
      (Some (?q, [\<lparr>pkt_ptr = 0, pkt_len = 2048\<rparr>]))"
    using p by (auto simp: pool_reachable_def)
  from packet_pool_safe [OF list_pool.packet_pool_axioms this] show ?thesis by auto
qed

end
