(* ===== verification/Udp_Channel.thy ===== *)
theory Udp_Channel
  imports Control_Messages Udp_Proto Packets Stats
begin

section \<open>The UDP channel to the tunnel server\<close>

text \<open>
  \<^verbatim>\<open>packages/agent_core/src/network/udp/udp_channel.rs\<close> and \<^verbatim>\<open>udp_errors.rs\<close>: two tasks share a socket and the
  record \<open>Shared\<close>. The sending task keeps the session, repeats the establish token until the server
  answers and appends flow footers; the receiving task accepts datagrams of the session's server only,
  strips the footer and passes flow and payload on. Each \<^verbatim>\<open>select!\<close> branch and each
  iteration is one step function; its arguments are what the runtime delivers (the clock, the event,
  the result of a socket operation). \<^verbatim>\<open>Instant\<close>s are milliseconds from a fixed origin.
\<close>

record UdpErrors =
  no_session_send_fail :: IntCounter
  tail_append_fail :: IntCounter
  send_io_error :: IntCounter
  recv_io_error :: IntCounter
  recv_with_no_session :: IntCounter
  recv_source_no_match :: IntCounter
  recv_too_small :: IntCounter
  recv_invalid_footer_id :: IntCounter
  establish_send_io_error :: IntCounter
  establish_no_session :: IntCounter
  new_client_ratelimit :: IntCounter
  origin_client_missing :: IntCounter
  origin_reject_bad_id :: IntCounter
  origin_tunnel_not_found :: IntCounter
  origin_source_not_ip4 :: IntCounter
  origin_reject_addr_differ :: IntCounter
  origin_reject_port_too_low :: IntCounter
  origin_reject_port_too_high :: IntCounter
  origin_send_io_error :: IntCounter
  origin_v1_proxy_protocol :: IntCounter

record Shared =
  establish_rx_epoch :: u64
  establish_tx_epoch :: u64
  session_tunnel_addr :: "SocketAddr option"

definition Shared_default :: Shared where
  "Shared_default = \<lparr>establish_rx_epoch = 0, establish_tx_epoch = 0, session_tunnel_addr = None\<rparr>"

text \<open>A packet seen through its owner: the 2048 bytes of its block and its length.\<close>

record packet_buf =
  block :: bytes
  plen :: nat

definition buf_ok :: "packet_buf \<Rightarrow> bool" where
  "buf_ok p \<longleftrightarrow> length (block p) = PACKET_LEN \<and> plen p \<le> PACKET_LEN"

definition payload :: "packet_buf \<Rightarrow> bytes" where
  "payload p = take (plen p) (block p)"

definition buf_set_len :: "nat \<Rightarrow> packet_buf \<Rightarrow> io_error + packet_buf" where
  "buf_set_len n p = (if PACKET_LEN < n then Inl (Error InvalidInput ''packet len too large'') else Inr (p\<lparr>plen := n\<rparr>))"

definition expect :: "string \<Rightarrow> io_error + 'a \<Rightarrow> io_error + 'a" where
  "expect msg r = (case r of Inl _ \<Rightarrow> Inl (Panic msg) | Inr x \<Rightarrow> Inr x)"

subsection \<open>Observers\<close>

definition time_since :: "u64 \<Rightarrow> u64 \<Rightarrow> u64 option" where
  "time_since ts now = (if ts = 0 then None else Some (max now ts - ts))"

definition time_since_established :: "Shared \<Rightarrow> u64 \<Rightarrow> u64 option" where
  "time_since_established sh now = time_since (establish_rx_epoch sh) now"

definition time_since_establish_send :: "Shared \<Rightarrow> u64 \<Rightarrow> u64 option" where
  "time_since_establish_send sh now = time_since (establish_tx_epoch sh) now"

subsection \<open>The sending task\<close>

record 'w send_state =
  ss_session :: "UdpChannelDetails option"
  ss_shared :: Shared
  ss_errors :: UdpErrors
  ss_last_establish_send :: nat
  ss_world :: 'w

text \<open>\<open>send_to\<close> is the socket: whether the datagram went out, and the network afterwards.\<close>

type_synonym 'w send_to = "bytes \<Rightarrow> SocketAddr \<Rightarrow> 'w \<Rightarrow> bool \<times> 'w"

definition MIN_INTERVAL :: nat where "MIN_INTERVAL = 3000"
definition MAX_ESTABLISH_WAIT :: u64 where "MAX_ESTABLISH_WAIT = 15000"
definition SEND_INTERVAL :: nat where "SEND_INTERVAL = 10000"

definition next_send :: "nat \<Rightarrow> u64 \<Rightarrow> 'w send_state \<Rightarrow> nat" where
  "next_send now_instant now_milli st =
     (if ss_session st = None then now_instant + 5000
      else let last_rx = establish_rx_epoch (ss_shared st); since_establish = max now_milli last_rx - last_rx in
        if MAX_ESTABLISH_WAIT \<le> since_establish then ss_last_establish_send st + MIN_INTERVAL
        else ss_last_establish_send st + SEND_INTERVAL)"

definition send_establish :: "'w send_to \<Rightarrow> u64 \<Rightarrow> 'w send_state \<Rightarrow> 'w send_state" where
  "send_establish send now st = (case ss_session st of
       None \<Rightarrow> st\<lparr>ss_errors := (ss_errors st)\<lparr>establish_no_session := counter_inc (establish_no_session (ss_errors st))\<rparr>\<rparr>
     | Some session \<Rightarrow>
         let st1 = st\<lparr>ss_shared := (ss_shared st)\<lparr>establish_tx_epoch := now\<rparr>\<rparr> in
         (case send (ucd_token session) (ucd_tunnel_addr session) (ss_world st1) of
            (True, w) \<Rightarrow> st1\<lparr>ss_world := w\<rparr>
          | (False, w) \<Rightarrow> st1\<lparr>ss_world := w, ss_errors := (ss_errors st1)
              \<lparr>establish_send_io_error := counter_inc (establish_send_io_error (ss_errors st1))\<rparr>\<rparr>))"

definition handle_session :: "'w send_to \<Rightarrow> u64 \<Rightarrow> UdpChannelDetails \<Rightarrow> 'w send_state \<Rightarrow> 'w send_state" where
  "handle_session send now details st =
     (let should_send = (case ss_session st of
            None \<Rightarrow> True
          | Some old \<Rightarrow> if old \<noteq> details then True
              else 5000 < saturating_sub now (establish_rx_epoch (ss_shared st)));
          st1 = st\<lparr>ss_shared := (ss_shared st)\<lparr>session_tunnel_addr := Some (ucd_tunnel_addr details)\<rparr>,
                   ss_session := Some details\<rparr>
      in if should_send then send_establish send now st1 else st1)"

definition channel_send ::
  "byteorder \<Rightarrow> 'w send_to \<Rightarrow> UdpFlow \<Rightarrow> packet_buf \<Rightarrow> 'w send_state \<Rightarrow> io_error + 'w send_state" where
  "channel_send bo send flow packet st = (case ss_session st of
       None \<Rightarrow> Inr (st\<lparr>ss_errors := (ss_errors st)\<lparr>no_session_send_fail := counter_inc (no_session_send_fail (ss_errors st))\<rparr>\<rparr>)
     | Some session \<Rightarrow>
         let og_len = plen packet in
         and_then (UdpFlow_write_to bo flow (drop og_len (block packet))) (\<lambda>(ok, remaining).
           let packet1 = packet\<lparr>block := take og_len (block packet) @ remaining\<rparr> in
           if \<not> ok then
             Inr (st\<lparr>ss_errors := (ss_errors st)\<lparr>tail_append_fail := counter_inc (tail_append_fail (ss_errors st))\<rparr>\<rparr>)
           else
             and_then (expect ''should be able to update packet len'' (buf_set_len (og_len + footer_len flow) packet1))
               (\<lambda>packet2. case send (payload packet2) (ucd_tunnel_addr session) (ss_world st) of
                  (True, w) \<Rightarrow> Inr (st\<lparr>ss_world := w\<rparr>)
                | (False, w) \<Rightarrow> Inr (st\<lparr>ss_world := w, ss_errors := (ss_errors st)
                    \<lparr>send_io_error := counter_inc (send_io_error (ss_errors st))\<rparr>\<rparr>))))"

text \<open>The branches of the loop; \<open>None\<close> in the result means that the task ends.\<close>

datatype send_event =
    SendTick
  | SessionRecv "UdpChannelDetails option"
  | SendRecv "(UdpFlow \<times> packet_buf) option"

fun send_task_step ::
  "byteorder \<Rightarrow> 'w send_to \<Rightarrow> nat \<Rightarrow> u64 \<Rightarrow> send_event \<Rightarrow> 'w send_state \<Rightarrow> io_error + 'w send_state option" where
  "send_task_step bo send now_instant now SendTick st =
     Inr (Some (send_establish send now (st\<lparr>ss_last_establish_send := now_instant\<rparr>)))"
| "send_task_step bo send now_instant now (SessionRecv None) st = Inr None"
| "send_task_step bo send now_instant now (SessionRecv (Some details)) st =
     Inr (Some (handle_session send now details st))"
| "send_task_step bo send now_instant now (SendRecv None) st = Inr None"
| "send_task_step bo send now_instant now (SendRecv (Some (flow, packet))) st =
     and_then (channel_send bo send flow packet st) (\<lambda>st'. Inr (Some st'))"

subsection \<open>The receiving task\<close>

record recv_state =
  rs_shared :: Shared
  rs_errors :: UdpErrors
  rs_packet :: packet_buf

text \<open>
  One iteration. The socket delivers an error, or a datagram (cut to the size of the block) and its
  sender. The result is what is sent to \<^verbatim>\<open>recv_tx\<close>, if anything.
\<close>

definition recv_into :: "bytes \<Rightarrow> packet_buf \<Rightarrow> nat \<times> packet_buf" where
  "recv_into datagram p =
     (let data = take (length (block p)) datagram
      in (length data, p\<lparr>block := data @ drop (length data) (block p)\<rparr>))"

definition recv_step ::
  "byteorder \<Rightarrow> u64 \<Rightarrow> 'e + bytes \<times> SocketAddr \<Rightarrow> recv_state \<Rightarrow>
   io_error + ((UdpFlow \<times> packet_buf) option \<times> recv_state)" where
  "recv_step bo now res st = (case res of
       Inl _ \<Rightarrow> Inr (None, st\<lparr>rs_errors := (rs_errors st)\<lparr>recv_io_error := counter_inc (recv_io_error (rs_errors st))\<rparr>\<rparr>)
     | Inr (datagram, source) \<Rightarrow>
         (case recv_into datagram (rs_packet st) of (n, packet0) \<Rightarrow>
         let st0 = st\<lparr>rs_packet := packet0\<rparr> in
         (case session_tunnel_addr (rs_shared st0) of
            None \<Rightarrow> Inr (None, st0\<lparr>rs_errors := (rs_errors st0)\<lparr>recv_with_no_session := counter_inc (recv_with_no_session (rs_errors st0))\<rparr>\<rparr>)
          | Some session_addr \<Rightarrow>
              if session_addr \<noteq> source then
                Inr (None, st0\<lparr>rs_errors := (rs_errors st0)\<lparr>recv_source_no_match := counter_inc (recv_source_no_match (rs_errors st0))\<rparr>\<rparr>)
              else
                and_then (expect ''failed to update packet len'' (buf_set_len n packet0)) (\<lambda>packet1.
                and_then (from_tail bo (payload packet1)) (\<lambda>parsed_flow.
                let st1 = st0\<lparr>rs_packet := packet1\<rparr> in
                (case parsed_flow of
                   Inl (Some footer) \<Rightarrow>
                     if footer = UDP_CHANNEL_ESTABLISH_ID
                     then Inr (None, st1\<lparr>rs_shared := (rs_shared st1)\<lparr>establish_rx_epoch := now\<rparr>\<rparr>)
                     else Inr (None, st1\<lparr>rs_errors := (rs_errors st1)\<lparr>recv_invalid_footer_id := counter_inc (recv_invalid_footer_id (rs_errors st1))\<rparr>\<rparr>)
                 | Inl None \<Rightarrow> Inr (None, st1\<lparr>rs_errors := (rs_errors st1)\<lparr>recv_too_small := counter_inc (recv_too_small (rs_errors st1))\<rparr>\<rparr>)
                 | Inr flow \<Rightarrow>
                     and_then (expect ''failed to remove udp footer'' (buf_set_len (n - footer_len flow) packet1))
                       (\<lambda>packet2. Inr (Some (flow, packet2), st1))))))))"

subsection \<open>Laws\<close>

lemma expect_Inr [simp]: "expect m (Inr x) = Inr x"
  by (simp add: expect_def)

lemma recv_into_ok:
  assumes "buf_ok p" "recv_into d p = (n, p')"
  shows "n \<le> PACKET_LEN" "length (block p') = PACKET_LEN" "take n (block p') = take PACKET_LEN d"
  using assms by (auto simp: recv_into_def buf_ok_def Let_def min_def)

context big_endian_io
begin

lemma channel_send_datagram:
  assumes s: "ss_session st = Some session" and ok: "buf_ok p" and fits: "plen p + footer_len f \<le> PACKET_LEN"
  shows "\<exists>st'. channel_send bo send f p st = Inr st' \<and>
    ss_world st' = snd (send (payload p @ footer_bytes f) (ucd_tunnel_addr session) (ss_world st))"
proof -
  let ?rem = "drop (plen p) (block p)"
  have room: "\<not> length ?rem < footer_len f" using ok fits by (simp add: buf_ok_def)
  have w: "UdpFlow_write_to bo f ?rem = Inr (True, footer_bytes f @ drop (footer_len f) ?rem)"
    using write_to_eq [of f ?rem] room by simp
  have len: "length (take (plen p) (block p)) = plen p" using ok by (simp add: buf_ok_def)
  have "payload (p\<lparr>block := take (plen p) (block p) @ footer_bytes f @ drop (footer_len f) ?rem, plen := plen p + footer_len f\<rparr>)
      = payload p @ footer_bytes f"
    using len by (simp add: payload_def length_footer_bytes)
  then show ?thesis
    using fits
    by (auto simp: channel_send_def s w Let_def buf_set_len_def split: prod.splits bool.splits)
qed

lemma channel_send_no_room:
  assumes "ss_session st = Some session" "buf_ok p" "PACKET_LEN < plen p + footer_len f"
  shows "channel_send bo send f p st =
    Inr (st\<lparr>ss_errors := (ss_errors st)\<lparr>tail_append_fail := counter_inc (tail_append_fail (ss_errors st))\<rparr>\<rparr>)"
proof -
  have "length (drop (plen p) (block p)) < footer_len f" using assms(2,3) by (auto simp: buf_ok_def)
  then show ?thesis using write_to_eq [of f "drop (plen p) (block p)"] by (simp add: channel_send_def assms(1))
qed

lemma channel_send_total:
  assumes "buf_ok p"
  shows "\<exists>st'. channel_send bo send f p st = Inr st'"
proof (cases "ss_session st")
  case None
  then show ?thesis by (simp add: channel_send_def)
next
  case (Some session)
  show ?thesis
  proof (cases "plen p + footer_len f \<le> PACKET_LEN")
    case True
    then show ?thesis using channel_send_datagram [OF Some assms] by blast
  next
    case False
    then show ?thesis using channel_send_no_room [OF Some assms] by simp
  qed
qed

lemma recv_step_total:
  assumes "buf_ok (rs_packet st)"
  shows "\<exists>r st'. recv_step bo now res st = Inr (r, st') \<and> buf_ok (rs_packet st') \<and>
    (\<forall>f p. r = Some (f, p) \<longrightarrow> buf_ok p \<and> wf_flow f \<and>
       (\<exists>d. res = Inr (d, the (session_tunnel_addr (rs_shared st))) \<and> session_tunnel_addr (rs_shared st) \<noteq> None))"
proof (cases res)
  case (Inl e)
  then show ?thesis using assms by (simp add: recv_step_def)
next
  case (Inr ds)
  obtain d src where ds: "ds = (d, src)" by fastforce
  obtain n p0 where rp: "recv_into d (rs_packet st) = (n, p0)" by fastforce
  note r = recv_into_ok [OF assms rp]
  have pl: "plen p0 \<le> PACKET_LEN" using rp assms by (auto simp: recv_into_def buf_ok_def Let_def)
  let ?p1 = "p0\<lparr>plen := n\<rparr>"
  have "good_parse (payload ?p1) (from_tail bo (payload ?p1))" by (rule from_tail_good)
  moreover have "length (payload ?p1) = n" using r(1,2) by (simp add: payload_def)
  ultimately show ?thesis
    using r pl
    by (auto simp: recv_step_def Inr ds rp Let_def buf_ok_def good_parse_def buf_set_len_def
        split: option.splits)
qed

lemma footer_len_view: "footer_len (flow_view f) = footer_len f"
  by (cases f rule: flow_view.cases) simp_all

lemma recv_step_deliver:
  assumes ok: "buf_ok (rs_packet st)" and src: "session_tunnel_addr (rs_shared st) = Some src"
    and len: "length (data @ footer_bytes f) \<le> PACKET_LEN" and wf: "wf_flow f"
  shows "\<exists>p st'. recv_step bo now (Inr (data @ footer_bytes f, src)) st = Inr (Some (flow_view f, p), st') \<and> payload p = data"
proof -
  let ?d = "data @ footer_bytes f"
  obtain n p0 where rp: "recv_into ?d (rs_packet st) = (n, p0)" by fastforce
  have n: "n = length ?d" and t: "take n (block p0) = ?d"
    using rp ok len by (auto simp: recv_into_def buf_ok_def Let_def)
  have pay: "payload (p0\<lparr>plen := n\<rparr>) = ?d" by (simp add: payload_def t)
  have cut: "take (length data) (block p0) = data"
    using arg_cong [OF t, of "take (length data)"] n by simp
  have ft: "from_tail bo (payload (p0\<lparr>plen := n\<rparr>)) = Inr (Inr (flow_view f))"
    by (simp only: pay from_tail_footer [OF wf])
  have nl: "\<not> PACKET_LEN < n" "n - footer_len (flow_view f) = length data"
    using len by (simp_all add: n length_footer_bytes footer_len_view)
  let ?p2 = "p0\<lparr>plen := n, plen := length data\<rparr>"
  have "recv_step bo now (Inr (?d, src)) st = Inr (Some (flow_view f, ?p2), st\<lparr>rs_packet := p0\<lparr>plen := n\<rparr>\<rparr>)"
    using nl len by (simp add: recv_step_def rp src buf_set_len_def ft Let_def)
  moreover have "payload ?p2 = data" by (simp add: payload_def cut)
  ultimately show ?thesis by blast
qed

end

subsection \<open>Properties\<close>

text \<open>
  C5: What one end of the UDP channel sends, the other end delivers. Sending a packet that leaves room for its footer puts
  exactly one datagram on the wire, to the session's server, and a receiving task whose session is that server turns
  this datagram into the same payload and the same flow, whatever its buffer held before; only the fragment data of an IPv4 flow that has
  no extension is lost, for which the old footer layout has no place. A packet that leaves no room for its footer is dropped: nothing is
  sent and the drop is counted.
\<close>

theorem udp_channel_transports:
  assumes "big_endian_io bo" "ss_session st = Some session" "buf_ok p" "wf_flow f"
    and "buf_ok (rs_packet rst)" "session_tunnel_addr (rs_shared rst) = Some src"
  shows "(plen p + footer_len f \<le> PACKET_LEN \<longrightarrow> (\<exists>st' datagram q rst'. channel_send bo send f p st = Inr st' \<and>
      ss_world st' = snd (send datagram (ucd_tunnel_addr session) (ss_world st)) \<and>
      recv_step bo now (Inr (datagram, src)) rst = Inr (Some (flow_view f, q), rst') \<and> payload q = payload p)) \<and>
    (PACKET_LEN < plen p + footer_len f \<longrightarrow> channel_send bo send f p st =
      Inr (st\<lparr>ss_errors := (ss_errors st)\<lparr>tail_append_fail := counter_inc (tail_append_fail (ss_errors st))\<rparr>\<rparr>))"
proof (intro conjI impI)
  assume fits: "plen p + footer_len f \<le> PACKET_LEN"
  then have "length (payload p @ footer_bytes f) \<le> PACKET_LEN"
    using assms(3) by (simp add: payload_def buf_ok_def length_footer_bytes)
  from big_endian_io.recv_step_deliver [OF assms(1,5,6) this assms(4), of now]
    big_endian_io.channel_send_datagram [OF assms(1-3) fits, of send]
  show "\<exists>st' datagram q rst'. channel_send bo send f p st = Inr st' \<and>
      ss_world st' = snd (send datagram (ucd_tunnel_addr session) (ss_world st)) \<and>
      recv_step bo now (Inr (datagram, src)) rst = Inr (Some (flow_view f, q), rst') \<and> payload q = payload p" by blast
qed (rule big_endian_io.channel_send_no_room [OF assms(1-3)])

definition example_buf :: packet_buf where
  "example_buf = \<lparr>block = replicate 2048 7, plen = 10\<rparr>"

definition zero_udp_errors :: UdpErrors where
  "zero_udp_errors =
     \<lparr>no_session_send_fail = 0, tail_append_fail = 0, send_io_error = 0, recv_io_error = 0,
      recv_with_no_session = 0, recv_source_no_match = 0, recv_too_small = 0, recv_invalid_footer_id = 0,
      establish_send_io_error = 0, establish_no_session = 0, new_client_ratelimit = 0,
      origin_client_missing = 0, origin_reject_bad_id = 0, origin_tunnel_not_found = 0,
      origin_source_not_ip4 = 0, origin_reject_addr_differ = 0, origin_reject_port_too_low = 0,
      origin_reject_port_too_high = 0, origin_send_io_error = 0, origin_v1_proxy_protocol = 0\<rparr>"

definition example_session :: UdpChannelDetails where
  "example_session = \<lparr>ucd_tunnel_addr = sock_addr_new (IpV4 0x05060708) 5525, ucd_token = [1, 2, 3]\<rparr>"

definition example_send_state :: "(bytes \<times> SocketAddr) list send_state" where
  "example_send_state =
     \<lparr>ss_session = Some example_session, ss_shared = Shared_default, ss_errors = zero_udp_errors,
      ss_last_establish_send = 0, ss_world = []\<rparr>"

definition log_send :: "(bytes \<times> SocketAddr) list send_to" where
  "log_send d a w = (True, w @ [(d, a)])"

definition example_recv_state :: recv_state where
  "example_recv_state =
     \<lparr>rs_shared = Shared_default\<lparr>session_tunnel_addr := Some (ucd_tunnel_addr example_session)\<rparr>,
      rs_errors = zero_udp_errors, rs_packet = example_buf\<rparr>"

theorem udp_channel_transports_witness:
  "\<exists>st' datagram q rst'. channel_send be_byteorder log_send example_flow example_buf example_send_state = Inr st' \<and>
    ss_world st' = snd (log_send datagram (ucd_tunnel_addr example_session) (ss_world example_send_state)) \<and>
    recv_step be_byteorder 99 (Inr (datagram, ucd_tunnel_addr example_session)) example_recv_state =
      Inr (Some (example_flow, q), rst') \<and> payload q = payload example_buf"
proof -
  have h: "ss_session example_send_state = Some example_session" "buf_ok example_buf" "wf_flow example_flow"
    "buf_ok (rs_packet example_recv_state)"
    "session_tunnel_addr (rs_shared example_recv_state) = Some (ucd_tunnel_addr example_session)"
    and "plen example_buf + footer_len example_flow \<le> PACKET_LEN" "flow_view example_flow = example_flow"
    by (simp_all add: example_send_state_def example_recv_state_def example_buf_def buf_ok_def example_flow_def
      PACKET_LEN_def footer_lens Shared_default_def)
  with udp_channel_transports [OF be_io.big_endian_io_axioms h, of log_send 99] show ?thesis by simp
qed

text \<open>
  The receiving task never panics, whatever arrives, and hands on a flow only for a datagram that came from the
  session's server; the flow is well formed and the packet stays inside its block. The sending task never
  panics either, for any flow and packet.
\<close>

theorem udp_channel_no_panic:
  assumes "big_endian_io bo" "buf_ok (rs_packet st)" "buf_ok p"
  shows "(\<exists>r st'. recv_step bo now res st = Inr (r, st') \<and> buf_ok (rs_packet st') \<and>
      (\<forall>f q. r = Some (f, q) \<longrightarrow> buf_ok q \<and> wf_flow f \<and>
         (\<exists>d. res = Inr (d, the (session_tunnel_addr (rs_shared st))) \<and> session_tunnel_addr (rs_shared st) \<noteq> None))) \<and>
    (\<exists>sst'. channel_send bo send flow p sst = Inr sst')"
  using big_endian_io.recv_step_total [OF assms(1,2)] big_endian_io.channel_send_total [OF assms(1,3)] by blast

theorem udp_channel_no_panic_witness:
  "\<exists>sst'. channel_send be_byteorder log_send example_flow (example_buf\<lparr>plen := 2040\<rparr>) example_send_state = Inr sst'"
proof -
  have "buf_ok (rs_packet example_recv_state)" "buf_ok (example_buf\<lparr>plen := 2040\<rparr>)"
    by (simp_all add: example_recv_state_def example_buf_def buf_ok_def PACKET_LEN_def)
  from udp_channel_no_panic [OF be_io.big_endian_io_axioms this, of 0 "Inl ()" log_send example_flow example_send_state]
  show ?thesis by (rule conjunct2)
qed

text \<open>
  The establish token is resent at the right times. A new or changed session, or an unchanged one whose server has been silent for
  more than five seconds, makes \<^verbatim>\<open>handle_session\<close> send the token of the new session to its address at once and
  record the time; otherwise nothing is sent. In every case the task ends up with the new session and
  the receiving task with its address.
\<close>

theorem handle_session_establishes:
  "let st' = handle_session send now details st;
       due = (if ss_session st = Some details then 5000 < unat now - unat (establish_rx_epoch (ss_shared st)) else True) in
   ss_session st' = Some details \<and>
   session_tunnel_addr (ss_shared st') = Some (ucd_tunnel_addr details) \<and>
   establish_rx_epoch (ss_shared st') = establish_rx_epoch (ss_shared st) \<and>
   ss_world st' = (if due then snd (send (ucd_token details) (ucd_tunnel_addr details) (ss_world st)) else ss_world st) \<and>
   establish_tx_epoch (ss_shared st') = (if due then now else establish_tx_epoch (ss_shared st))"
proof -
  have "5000 < saturating_sub now x \<longleftrightarrow> 5000 < unat now - unat x" for x :: u64
    by (simp add: word_less_nat_alt)
  then show ?thesis
    by (auto simp: handle_session_def send_establish_def Let_def split: option.splits prod.splits bool.splits)
qed

end
