(* ===== verification/Udp_Clients.thy ===== *)
theory Udp_Clients
  imports Udp_Channel Proxy_Protocol Origin_Lookup Lan_Address Id_Slab
begin

section \<open>Virtual UDP clients\<close>

text \<open>
  \<^verbatim>\<open>packages/agent_core/src/network/udp/udp_clients.rs\<close> with the handle of \<^verbatim>\<open>udp_receiver.rs\<close>: for every peer
  and tunnel the agent keeps a local socket, a task that receives from it, and the flow to send answers
  with. A client is found by its key through \<open>virtual_client_lookup\<close> and by the id of its receiver
  through its slot. The slab is the \<^verbatim>\<open>slab\<close> crate (argument \<open>sl\<close>, contract \<open>slab_law\<close>); sockets, receiver
  tasks, the \<^verbatim>\<open>governor\<close> rate limiter and name resolution are the environment \<open>udp_env\<close> over a network
  state \<open>'w\<close>. Slots and lengths of slabs are natural numbers; port arithmetic is on 16-bit words.
\<close>

unbundle bit_operations_syntax

subsection \<open>The slab\<close>

record ('m, 'v) slab_lib =
  sl_get :: "'m \<Rightarrow> nat \<Rightarrow> 'v option"
  sl_set :: "'m \<Rightarrow> nat \<Rightarrow> 'v \<Rightarrow> 'm"
  sl_vacant_key :: "'m \<Rightarrow> nat"
  sl_insert :: "'m \<Rightarrow> 'v \<Rightarrow> 'm"
  sl_remove :: "'m \<Rightarrow> nat \<Rightarrow> 'm"
  sl_len :: "'m \<Rightarrow> nat"
  sl_iter :: "'m \<Rightarrow> (nat \<times> 'v) list"

text \<open>
  \<open>sl_insert\<close> fills the entry of \<open>sl_vacant_key\<close>; \<open>sl_set\<close> is an assignment through \<^verbatim>\<open>get_mut\<close> or
  \<^verbatim>\<open>iter_mut\<close>; \<^verbatim>\<open>Slab::remove\<close> panics on a vacant key, which the callers below write out.
\<close>

locale slab_law =
  fixes sl :: "('m, 'v) slab_lib"
  assumes set_law: "sl_get sl m k \<noteq> None \<Longrightarrow> sl_get sl (sl_set sl m k v) = (sl_get sl m)(k \<mapsto> v)"
    and vacant_law: "sl_get sl m (sl_vacant_key sl m) = None"
    and insert_law: "sl_get sl (sl_insert sl m v) = (sl_get sl m)(sl_vacant_key sl m \<mapsto> v)"
    and remove_law: "sl_get sl (sl_remove sl m k) = (sl_get sl m)(k := None)"
    and len_law: "finite (dom (sl_get sl m)) \<and> sl_len sl m = card (dom (sl_get sl m))"
    and iter_law: "distinct (map fst (sl_iter sl m)) \<and> set (sl_iter sl m) = {(k, v). sl_get sl m k = Some v}"

subsection \<open>Data\<close>

record UdpClientKey =
  source_addr :: SocketAddr
  key_tunnel :: u64

record UdpReceiver =
  rcv_id :: u64
  rcv_closed :: bool

record 's Client =
  c_id :: u64
  c_key :: UdpClientKey
  c_socket :: 's
  c_target_addr :: SocketAddr
  c_port_offset :: u16
  c_flow :: UdpFlow
  c_receiver :: UdpReceiver
  c_from_tunnel_ts :: u64
  c_from_origin_ts :: u64

record 'm UdpClients =
  virtual_client_lookup :: "UdpClientKey \<rightharpoonup> nat"
  virtual_clients :: 'm
  next_client_generation :: u32
  uc_stats :: AgentStats
  uc_errors :: UdpErrors

record UdpReceivedPacket =
  rx_id :: u64
  rx_packet :: packet_buf
  rx_from :: SocketAddr

text \<open>
  \<open>ue_ended i w\<close>: the end signal of receiver task \<open>i\<close> is there (\<^verbatim>\<open>try_recv\<close> is \<^verbatim>\<open>Ok\<close> or \<^verbatim>\<open>Closed\<close>);
  \<open>ue_shutdown\<close>: cancel it and wait, \<open>False\<close> after 15 seconds; \<open>ue_drop\<close>: cancel only.
\<close>

record ('w, 's, 'e) udp_env =
  ue_bind :: "SocketAddr \<Rightarrow> 'w \<Rightarrow> ('e + 's) \<times> 'w"
  ue_send_to :: "'s \<Rightarrow> bytes \<Rightarrow> SocketAddr \<Rightarrow> 'w \<Rightarrow> bool \<times> 'w"
  ue_spawn :: "u64 \<Rightarrow> 's \<Rightarrow> 'w \<Rightarrow> 'w"
  ue_ended :: "u64 \<Rightarrow> 'w \<Rightarrow> bool"
  ue_shutdown :: "u64 \<Rightarrow> 'w \<Rightarrow> bool \<times> 'w"
  ue_drop :: "u64 \<Rightarrow> 'w \<Rightarrow> 'w"
  ue_limiter_check :: "'w \<Rightarrow> bool \<times> 'w"
  ue_lookup_host :: "'w \<Rightarrow> string \<Rightarrow> u16 \<Rightarrow> 'e + SocketAddr list"

record UdpSettings =
  us_new_client_ratelimit :: u32
  us_new_client_ratelimit_burst :: u32

definition UdpSettings_default :: UdpSettings where
  "UdpSettings_default = \<lparr>us_new_client_ratelimit = 16, us_new_client_ratelimit_burst = 32\<rparr>"

text \<open>The rate and burst of the quota: zero is clamped to one.\<close>

definition build_quota :: "UdpSettings \<Rightarrow> u32 \<times> u32" where
  "build_quota s =
     (if us_new_client_ratelimit s = 0 then 1 else us_new_client_ratelimit s,
      if us_new_client_ratelimit_burst s = 0 then 1 else us_new_client_ratelimit_burst s)"

definition pack_client_id :: "u32 \<Rightarrow> u32 \<Rightarrow> u64" where
  "pack_client_id slot generation = push_bit 32 (ucast generation) OR ucast slot"

definition unpack_slot :: "u64 \<Rightarrow> nat" where
  "unpack_slot i = unat (ucast i :: u32)"

definition UdpClients_new :: "'m \<Rightarrow> AgentStats \<Rightarrow> UdpErrors \<Rightarrow> 'm UdpClients" where
  "UdpClients_new empty_slab stats errs =
     \<lparr>virtual_client_lookup = Map.empty, virtual_clients = empty_slab, next_client_generation = 1,
      uc_stats = stats, uc_errors = errs\<rparr>"

definition is_closed :: "('w, 's, 'e) udp_env \<Rightarrow> 'w \<Rightarrow> UdpReceiver \<Rightarrow> bool \<times> UdpReceiver" where
  "is_closed env w r =
     (let closed = (if \<not> rcv_closed r then ue_ended env (rcv_id r) w else rcv_closed r)
      in (closed, r\<lparr>rcv_closed := closed\<rparr>))"

definition err_inc :: "((IntCounter \<Rightarrow> IntCounter) \<Rightarrow> UdpErrors \<Rightarrow> UdpErrors) \<Rightarrow> 'm UdpClients \<Rightarrow> 'm UdpClients" where
  "err_inc field st = st\<lparr>uc_errors := field counter_inc (uc_errors st)\<rparr>"

definition update_udp_count :: "('m, 'v) slab_lib \<Rightarrow> 'm UdpClients \<Rightarrow> 'm UdpClients" where
  "update_udp_count sl st = st\<lparr>uc_stats := set_udp (of_nat (sl_len sl (virtual_clients st))) (uc_stats st)\<rparr>"

subsection \<open>\<^verbatim>\<open>clear_old\<close>\<close>

definition client_expired :: "u64 \<Rightarrow> bool \<Rightarrow> 's Client \<Rightarrow> bool" where
  "client_expired now receiver_closed c =
     (let since_origin = saturating_sub now (c_from_origin_ts c);
          since_tunnel = saturating_sub now (c_from_tunnel_ts c)
      in receiver_closed \<or> 60000 < since_tunnel \<and> 60000 < since_origin \<or> 90000 < since_tunnel \<or> 90000 < since_origin)"

fun mark_old ::
  "('m, 's Client) slab_lib \<Rightarrow> ('w, 's, 'e) udp_env \<Rightarrow> u64 \<Rightarrow> 'w \<Rightarrow> (nat \<times> 's Client) list \<Rightarrow> 'm \<Rightarrow> nat list \<times> 'm" where
  "mark_old sl env now w [] m = ([], m)"
| "mark_old sl env now w ((slot, c) # rest) m =
     (case is_closed env w (c_receiver c) of (receiver_closed, r) \<Rightarrow>
      case mark_old sl env now w rest (sl_set sl m slot (c\<lparr>c_receiver := r\<rparr>)) of (to_remove, m') \<Rightarrow>
        (if client_expired now receiver_closed c then slot # to_remove else to_remove, m'))"

fun remove_slots ::
  "('m, 's Client) slab_lib \<Rightarrow> ('w, 's, 'e) udp_env \<Rightarrow> nat list \<Rightarrow> 'm UdpClients \<Rightarrow> 'w \<Rightarrow>
   io_error + ('m UdpClients \<times> 'w)" where
  "remove_slots sl env [] st w = Inr (st, w)"
| "remove_slots sl env (slot # slots) st w = (case sl_get sl (virtual_clients st) slot of
     None \<Rightarrow> Inl (Panic ''invalid key'')
   | Some client \<Rightarrow>
       (case virtual_client_lookup st (c_key client) of
          None \<Rightarrow> Inl (Panic ''unwrap'')
        | Some removed \<Rightarrow>
            if removed \<noteq> slot then Inl (Panic ''assertion `left == right` failed'')
            else (case ue_shutdown env (rcv_id (c_receiver client)) w of
                    (False, w') \<Rightarrow> Inl (Panic ''Timeout waiting for UdpReceiver to shutdown 15s+'')
                  | (True, w') \<Rightarrow> remove_slots sl env slots
                      (st\<lparr>virtual_clients := sl_remove sl (virtual_clients st) slot,
                         virtual_client_lookup := (virtual_client_lookup st)(c_key client := None)\<rparr>) w')))"

definition clear_old ::
  "('m, 's Client) slab_lib \<Rightarrow> ('w, 's, 'e) udp_env \<Rightarrow> u64 \<Rightarrow> 'm UdpClients \<Rightarrow> 'w \<Rightarrow>
   io_error + ('m UdpClients \<times> 'w)" where
  "clear_old sl env now st w =
     (case mark_old sl env now w (sl_iter sl (virtual_clients st)) (virtual_clients st) of (to_remove, m) \<Rightarrow>
      and_then (remove_slots sl env (rev (sort to_remove)) (st\<lparr>virtual_clients := m\<rparr>) w) (\<lambda>(st', w').
        Inr (update_udp_count sl st', w')))"

subsection \<open>\<^verbatim>\<open>dispatch_origin_packet\<close>\<close>

fun with_port_offset :: "u16 \<Rightarrow> UdpFlow \<Rightarrow> io_error + UdpFlow" where
  "with_port_offset off (FlowV4 src dst frag (Some ext)) =
     Inr (FlowV4 (sock_v4 (v4_ip src) (v4_port src + off)) dst frag (Some (ext\<lparr>port_offset := off\<rparr>)))"
| "with_port_offset off (FlowV6 src dst (Some ext)) =
     Inr (FlowV6 (fst src, snd src + off) dst (Some (ext\<lparr>port_offset := off\<rparr>)))"
| "with_port_offset off _ = Inl (Panic ''internal error: entered unreachable code'')"

definition dispatch_origin_packet ::
  "('m, 's Client) slab_lib \<Rightarrow> u64 \<Rightarrow> UdpReceivedPacket \<Rightarrow> 'm UdpClients \<Rightarrow>
   io_error + ((UdpFlow \<times> packet_buf) option \<times> 'm UdpClients)" where
  "dispatch_origin_packet sl now packet st =
     (let slot = unpack_slot (rx_id packet) in
      case sl_get sl (virtual_clients st) slot of
        None \<Rightarrow> Inr (None, err_inc origin_client_missing_update st)
      | Some client \<Rightarrow>
          if c_id client \<noteq> rx_id packet then Inr (None, err_inc origin_reject_bad_id_update st)
          else if rx_from packet \<noteq> c_target_addr client then Inr (None, err_inc origin_reject_addr_differ_update st)
          else
            let st1 = st\<lparr>virtual_clients := sl_set sl (virtual_clients st) slot (client\<lparr>c_from_origin_ts := now\<rparr>),
                         uc_stats := add_bytes_out (of_nat (plen (rx_packet packet))) (uc_stats st)\<rparr>
            in and_then (with_port_offset (c_port_offset client) (c_flow client)) (\<lambda>flow.
                 Inr (Some (flow, rx_packet packet), st1)))"

subsection \<open>\<^verbatim>\<open>handle_tunneled_packet\<close>\<close>

text \<open>The flow of the answers: turned round, and back at the first port of the tunnel.\<close>

fun reply_flow :: "u16 \<Rightarrow> UdpFlow \<Rightarrow> io_error + UdpFlow" where
  "reply_flow off (FlowV4 src dst frag (Some ext)) =
     (if off \<noteq> 0 then
        (if \<not> off \<le> v4_port src then Inl (Panic ''assertion failed: extension.port_offset <= src.port()'')
         else Inr (FlowV4 (sock_v4 (v4_ip src) (v4_port src - off)) dst frag (Some (ext\<lparr>port_offset := 0\<rparr>))))
      else Inr (FlowV4 src dst frag (Some (ext\<lparr>port_offset := 0\<rparr>))))"
| "reply_flow off (FlowV6 src dst (Some ext)) =
     (if off \<noteq> 0 then
        (if \<not> off \<le> snd src then Inl (Panic ''assertion failed: extension.port_offset <= src.1'')
         else Inr (FlowV6 (fst src, snd src - off) dst (Some (ext\<lparr>port_offset := 0\<rparr>))))
      else Inr (FlowV6 src dst (Some (ext\<lparr>port_offset := 0\<rparr>))))"
| "reply_flow off _ = Inl (Panic ''internal error: entered unreachable code'')"

definition send_logged ::
  "('w, 's, 'e) udp_env \<Rightarrow> 's \<Rightarrow> bytes \<Rightarrow> SocketAddr \<Rightarrow> 'm UdpClients \<times> 'w \<Rightarrow> 'm UdpClients \<times> 'w" where
  "send_logged env socket data target = (\<lambda>(st, w). case ue_send_to env socket data target w of
     (True, w') \<Rightarrow> (st, w') | (False, w') \<Rightarrow> (err_inc origin_send_io_error_update st, w'))"

definition forward_to_client ::
  "('m, 's Client) slab_lib \<Rightarrow> ('w, 's, 'e) udp_env \<Rightarrow> u64 \<Rightarrow> u64 \<Rightarrow> packet_buf \<Rightarrow> nat \<Rightarrow> 's Client \<Rightarrow>
   'm UdpClients \<Rightarrow> 'w \<Rightarrow> 'm UdpClients \<times> 'w" where
  "forward_to_client sl env now csi packet slot client st w =
     (let client' = client\<lparr>c_from_tunnel_ts := now, c_flow := update_client_server_id csi (c_flow client)\<rparr>;
          st1 = st\<lparr>virtual_clients := sl_set sl (virtual_clients st) slot client'\<rparr>
      in case send_logged env (c_socket client') (payload packet) (c_target_addr client') (st1, w) of
           (st2, w2) \<Rightarrow> (st2\<lparr>uc_stats := add_bytes_in (of_nat (plen packet)) (uc_stats st2)\<rparr>, w2))"

text \<open>A client whose receiver has ended is forgotten first.\<close>

definition forget_client ::
  "('m, 's Client) slab_lib \<Rightarrow> ('w, 's, 'e) udp_env \<Rightarrow> UdpClientKey \<Rightarrow> nat \<Rightarrow> 'm UdpClients \<Rightarrow> 'w \<Rightarrow> 'm UdpClients \<times> 'w" where
  "forget_client sl env key slot st w =
     (let st1 = st\<lparr>virtual_client_lookup := (virtual_client_lookup st)(key := None)\<rparr> in
      case sl_get sl (virtual_clients st1) slot of
        Some c \<Rightarrow> (update_udp_count sl (st1\<lparr>virtual_clients := sl_remove sl (virtual_clients st1) slot\<rparr>),
                   ue_drop env (rcv_id (c_receiver c)) w)
      | None \<Rightarrow> (update_udp_count sl st1, w))"

definition send_proxy_header ::
  "('w, 's, 'e) udp_env \<Rightarrow> ProxyProtocol option \<Rightarrow> UdpFlow \<Rightarrow> 's \<Rightarrow> SocketAddr \<Rightarrow> 'm UdpClients \<times> 'w \<Rightarrow>
   io_error + ('m UdpClients \<times> 'w)" where
  "send_proxy_header env proto flow socket target = (\<lambda>(st, w). case proto of
       None \<Rightarrow> Inr (st, w)
     | Some p \<Rightarrow>
         if p \<noteq> ProxyProtocolV2 then Inr (err_inc origin_v1_proxy_protocol_update st, w)
         else (case write_v2_udp (from_udp_flow flow) (vec_sink []) of
                 Inl _ \<Rightarrow> Inl (Panic ''Failed to write proxy proto header to Vec'')
               | Inr (_, s) \<Rightarrow> Inr (send_logged env socket (written s) target (st, w))))"

definition open_client ::
  "byteorder \<Rightarrow> ('m, 's Client) slab_lib \<Rightarrow> ('w, 's, 'e) udp_env \<Rightarrow> u64 \<Rightarrow> UdpFlow \<Rightarrow> UdpFlowExtension \<Rightarrow>
   OriginResource \<Rightarrow> UdpClientKey \<Rightarrow> packet_buf \<Rightarrow> 'm UdpClients \<Rightarrow> 'w \<Rightarrow> io_error + ('m UdpClients \<times> 'w)" where
  "open_client bo sl env now flow ext origin key packet st w =
     (case ue_limiter_check env w of
        (False, w1) \<Rightarrow> Inr (err_inc new_client_ratelimit_update st, w1)
      | (True, w1) \<Rightarrow>
      (case resolve_local (ue_lookup_host env w1) origin (port_offset ext) of
        None \<Rightarrow> Inr (st, w1)
      | Some target \<Rightarrow>
          let special_lan = (case target of SockV4 a \<Rightarrow> v4_is_loopback (v4_ip a) | SockV6 _ \<Rightarrow> False) \<and>
                res_proxy_protocol origin = None in
          (case udp_socket bo (ue_bind env) special_lan (source_addr key) target (key_tunnel key) w1 of
             (Inl _, w2) \<Rightarrow> Inr (st, w2)
           | (Inr socket, w2) \<Rightarrow>
               let slot = sl_vacant_key sl (virtual_clients st) in
               if \<not> slot < 2 ^ 32 then Inl (Panic ''udp client slot overflow'')
               else
                 let generation = next_client_generation st;
                     st1 = st\<lparr>next_client_generation := generation + 1\<rparr>;
                     i = pack_client_id (of_nat slot) generation;
                     w3 = ue_spawn env i socket w2 in
                 and_then (reply_flow (port_offset ext) (flip flow)) (\<lambda>client_flow.
                   let client = \<lparr>c_id = i, c_key = key, c_socket = socket, c_target_addr = target,
                         c_port_offset = port_offset ext, c_flow = client_flow,
                         c_receiver = \<lparr>rcv_id = i, rcv_closed = False\<rparr>, c_from_tunnel_ts = now,
                         c_from_origin_ts = now\<rparr> in
                   and_then (send_proxy_header env (res_proxy_protocol origin) flow socket target (st1, w3)) (\<lambda>sw.
                     (case send_logged env socket (payload packet) target sw of (st2, w4) \<Rightarrow>
                        Inr (update_udp_count sl
                          (st2\<lparr>virtual_client_lookup := (virtual_client_lookup st2)(key \<mapsto> slot),
                              virtual_clients := sl_insert sl (virtual_clients st2) client\<rparr>), w4)))))))"

definition handle_tunneled_packet ::
  "byteorder \<Rightarrow> ('m, 's Client) slab_lib \<Rightarrow> ('w, 's, 'e) udp_env \<Rightarrow> OriginLookup \<Rightarrow> u64 \<Rightarrow> UdpFlow \<Rightarrow> packet_buf \<Rightarrow>
   'm UdpClients \<Rightarrow> 'w \<Rightarrow> io_error + ('m UdpClients \<times> 'w)" where
  "handle_tunneled_packet bo sl env origins now flow packet st w = (case flow_extension flow of
       None \<Rightarrow> Inr (st, w)
     | Some ext \<Rightarrow> (case origin_lookup origins (tunnel_id ext) False of
         None \<Rightarrow> Inr (st, w)
       | Some origin \<Rightarrow>
           let key = \<lparr>source_addr = flow_src flow, key_tunnel = tunnel_id ext\<rparr> in
           (case virtual_client_lookup st key of
              None \<Rightarrow> open_client bo sl env now flow ext origin key packet st w
            | Some slot \<Rightarrow>
                (case sl_get sl (virtual_clients st) slot of
                   None \<Rightarrow> (case forget_client sl env key slot st w of (st1, w1) \<Rightarrow>
                     open_client bo sl env now flow ext origin key packet st1 w1)
                 | Some client \<Rightarrow>
                     (case is_closed env w (c_receiver client) of (receiver_closed, r) \<Rightarrow>
                        let client1 = client\<lparr>c_receiver := r\<rparr>;
                            st1 = st\<lparr>virtual_clients := sl_set sl (virtual_clients st) slot client1\<rparr> in
                        if \<not> receiver_closed then
                          Inr (forward_to_client sl env now (client_server_id ext) packet slot client1 st1 w)
                        else (case forget_client sl env key slot st1 w of (st2, w2) \<Rightarrow>
                          open_client bo sl env now flow ext origin key packet st2 w2))))))"

subsection \<open>The invariant\<close>

text \<open>
  The two ways to find a client agree: a key leads to a slot exactly when the slot holds a client with that
  key. Every client sits in the slot its id names, its receiver has the same id, and its stored flow
  leads back to its peer, at a port from which adding the port offset does not overflow.
\<close>

definition client_ok :: "nat \<Rightarrow> 's Client \<Rightarrow> bool" where
  "client_ok slot c \<longleftrightarrow> unpack_slot (c_id c) = slot \<and> rcv_id (c_receiver c) = c_id c \<and>
     (\<exists>ext. flow_extension (c_flow c) = Some ext \<and> tunnel_id ext = key_tunnel (c_key c) \<and> port_offset ext = 0) \<and>
     flow_dst (c_flow c) = source_addr (c_key c) \<and>
     unat (sock_port (flow_src (c_flow c))) + unat (c_port_offset c) < 2 ^ 16"

definition uc_ok :: "('m, 's Client) slab_lib \<Rightarrow> 'm UdpClients \<Rightarrow> bool" where
  "uc_ok sl st \<longleftrightarrow>
     (\<forall>key slot. virtual_client_lookup st key = Some slot \<longleftrightarrow>
        (\<exists>c. sl_get sl (virtual_clients st) slot = Some c \<and> c_key c = key)) \<and>
     (\<forall>slot c. sl_get sl (virtual_clients st) slot = Some c \<longrightarrow> client_ok slot c)"

lemma unpack_pack: "slot < 2 ^ 32 \<Longrightarrow> unpack_slot (pack_client_id (of_nat slot) g) = slot"
proof -
  assume s: "slot < 2 ^ 32"
  have "(ucast (push_bit 32 (ucast g) OR ucast (of_nat slot :: u32) :: u64) :: u32) = of_nat slot"
    by (rule bit_word_eqI) (simp add: bit_ucast_iff bit_or_iff bit_push_bit_iff)
  with s show ?thesis by (simp add: unpack_slot_def pack_client_id_def unat_of_nat)
qed

lemma is_closed_receiver [simp]: "rcv_id (snd (is_closed env w r)) = rcv_id r"
  by (simp add: is_closed_def Let_def)

lemma update_client_server_id_simps [simp]:
  "flow_dst (update_client_server_id i f) = flow_dst f" "flow_src (update_client_server_id i f) = flow_src f"
  "flow_extension (update_client_server_id i f) = map_option (client_server_id_update (\<lambda>_. i)) (flow_extension f)"
  by (cases f; cases "(\<lambda>f. case f of FlowV6 s d e \<Rightarrow> (s, d) | _ \<Rightarrow> undefined) f"; force)+

lemma uc_lookup:
  "uc_ok sl st \<Longrightarrow> virtual_client_lookup st key = Some slot \<longleftrightarrow>
    (\<exists>c. sl_get sl (virtual_clients st) slot = Some c \<and> c_key c = key)"
  by (simp add: uc_ok_def)

lemma uc_client: "uc_ok sl st \<Longrightarrow> sl_get sl (virtual_clients st) slot = Some c \<Longrightarrow> client_ok slot c"
  by (simp add: uc_ok_def)

lemma uc_key_unique:
  assumes "uc_ok sl st" "sl_get sl (virtual_clients st) i = Some c" "sl_get sl (virtual_clients st) j = Some d"
    "c_key c = c_key d"
  shows "i = j"
proof -
  have "virtual_client_lookup st (c_key c) = Some i" "virtual_client_lookup st (c_key c) = Some j"
    using assms uc_lookup [OF assms(1)] by auto
  then show ?thesis by simp
qed

lemma uc_ok_cong:
  "virtual_client_lookup st' = virtual_client_lookup st \<Longrightarrow> virtual_clients st' = virtual_clients st \<Longrightarrow>
   uc_ok sl st' = uc_ok sl st"
  by (simp add: uc_ok_def)

lemma uc_ok_stable [simp]:
  "uc_ok sl (err_inc g st) = uc_ok sl st" "uc_ok sl (update_udp_count sl' st) = uc_ok sl st"
  "uc_ok sl (st\<lparr>uc_stats := s\<rparr>) = uc_ok sl st" "uc_ok sl (st\<lparr>next_client_generation := gn\<rparr>) = uc_ok sl st"
  by (simp_all add: uc_ok_def err_inc_def update_udp_count_def)

lemma client_view [simp]:
  "virtual_clients (err_inc g st) = virtual_clients st" "virtual_clients (update_udp_count sl' st) = virtual_clients st"
  "virtual_client_lookup (err_inc g st) = virtual_client_lookup st"
  "virtual_client_lookup (update_udp_count sl' st) = virtual_client_lookup st"
  "next_client_generation (err_inc g st) = next_client_generation st"
  "next_client_generation (update_udp_count sl' st) = next_client_generation st"
  by (simp_all add: err_inc_def update_udp_count_def)

lemma send_logged_view:
  assumes "send_logged env s d t (st, w) = (st', w')"
  shows "virtual_clients st' = virtual_clients st" "virtual_client_lookup st' = virtual_client_lookup st"
    "next_client_generation st' = next_client_generation st" "w' = snd (ue_send_to env s d t w)"
  using assms by (auto simp: send_logged_def split: prod.splits bool.splits)

lemma send_proxy_header_view:
  assumes "send_proxy_header env proto f s t (st, w) = Inr (st', w')"
  shows "virtual_clients st' = virtual_clients st" "virtual_client_lookup st' = virtual_client_lookup st"
proof -
  have "virtual_clients st' = virtual_clients st \<and> virtual_client_lookup st' = virtual_client_lookup st"
  proof (cases "proto = Some ProxyProtocolV2")
    case False
    then show ?thesis using assms by (auto simp: send_proxy_header_def split: option.splits)
  next
    case True
    then obtain d where "send_logged env s d t (st, w) = (st', w')"
      using assms by (auto simp: send_proxy_header_def split: sum.splits)
    from send_logged_view(1,2) [OF this] show ?thesis by simp
  qed
  then show "virtual_clients st' = virtual_clients st" "virtual_client_lookup st' = virtual_client_lookup st" by simp_all
qed

lemma reply_flow_ok:
  assumes "reply_flow off (flip f) = Inr g" "flow_extension f = Some ext"
  shows "\<exists>e. flow_extension g = Some e \<and> tunnel_id e = tunnel_id ext \<and> port_offset e = 0"
    and "flow_dst g = flow_src f"
    and "unat (sock_port (flow_src g)) + unat off = unat (sock_port (flow_dst f))"
    and "sock_ip (flow_src g) = sock_ip (flow_dst f)"
proof -
  have sub: "unat (p - off) + unat off = unat p" if "off \<le> p" for p
    using that by (simp add: unat_sub word_le_nat_alt)
  obtain src dst frag where f: "f = FlowV4 src dst frag (Some ext) \<or> (\<exists>s d. f = FlowV6 s d (Some ext))"
    using assms(2) by (cases f) auto
  then have all: "(\<exists>e. flow_extension g = Some e \<and> tunnel_id e = tunnel_id ext \<and> port_offset e = 0) \<and>
    flow_dst g = flow_src f \<and> unat (sock_port (flow_src g)) + unat off = unat (sock_port (flow_dst f)) \<and>
    sock_ip (flow_src g) = sock_ip (flow_dst f)"
    using assms(1) sub by (auto split: if_splits)
  then show "\<exists>e. flow_extension g = Some e \<and> tunnel_id e = tunnel_id ext \<and> port_offset e = 0"
    and "flow_dst g = flow_src f"
    and "unat (sock_port (flow_src g)) + unat off = unat (sock_port (flow_dst f))"
    and "sock_ip (flow_src g) = sock_ip (flow_dst f)" by blast+
qed

text \<open>What one look at a client does: its closed flag is brought up to date, and it may have expired.\<close>

definition refreshed :: "('w, 's, 'e) udp_env \<Rightarrow> 'w \<Rightarrow> 's Client \<Rightarrow> 's Client" where
  "refreshed env w c = c\<lparr>c_receiver := snd (is_closed env w (c_receiver c))\<rparr>"

definition expired :: "('w, 's, 'e) udp_env \<Rightarrow> 'w \<Rightarrow> u64 \<Rightarrow> 's Client \<Rightarrow> bool" where
  "expired env w now c = client_expired now (fst (is_closed env w (c_receiver c))) c"

locale client_slab = slab_law sl
  for sl :: "('m, 's Client) slab_lib"
begin

lemma set_client_ok:
  assumes "uc_ok sl st" "sl_get sl (virtual_clients st) slot = Some c" "c_key c' = c_key c" "client_ok slot c'"
  shows "uc_ok sl (st\<lparr>virtual_clients := sl_set sl (virtual_clients st) slot c'\<rparr>)"
proof -
  have g: "sl_get sl (sl_set sl (virtual_clients st) slot c') = (sl_get sl (virtual_clients st))(slot \<mapsto> c')"
    using assms(2) by (simp add: set_law)
  show ?thesis using assms unfolding uc_ok_def by (auto simp: g split: if_splits)
qed

lemma remove_client_ok:
  assumes "uc_ok sl st" "sl_get sl (virtual_clients st) slot = Some c"
  shows "uc_ok sl (st\<lparr>virtual_clients := sl_remove sl (virtual_clients st) slot,
    virtual_client_lookup := (virtual_client_lookup st)(c_key c := None)\<rparr>)"
proof -
  have "((virtual_client_lookup st)(c_key c := None)) key = Some s \<longleftrightarrow>
      (\<exists>d. ((sl_get sl (virtual_clients st))(slot := None)) s = Some d \<and> c_key d = key)" for key s
  proof (cases "key = c_key c")
    case True
    then show ?thesis using uc_key_unique [OF assms, of s] by auto
  next
    case False
    then show ?thesis using uc_lookup [OF assms(1), of key s] assms(2) by auto
  qed
  then show ?thesis using assms(1) unfolding uc_ok_def by (simp add: remove_law)
qed

lemma insert_client_ok:
  assumes "uc_ok sl st" "virtual_client_lookup st (c_key c) = None" "client_ok (sl_vacant_key sl (virtual_clients st)) c"
  shows "uc_ok sl (st\<lparr>virtual_client_lookup := (virtual_client_lookup st)(c_key c \<mapsto> sl_vacant_key sl (virtual_clients st)),
    virtual_clients := sl_insert sl (virtual_clients st) c\<rparr>)"
proof -
  let ?v = "sl_vacant_key sl (virtual_clients st)"
  have none: "c_key d \<noteq> c_key c" if "sl_get sl (virtual_clients st) s = Some d" for s d
    using uc_lookup [OF assms(1), of "c_key c" s] assms(2) that by auto
  have "((virtual_client_lookup st)(c_key c \<mapsto> ?v)) key = Some s \<longleftrightarrow>
      (\<exists>d. ((sl_get sl (virtual_clients st))(?v \<mapsto> c)) s = Some d \<and> c_key d = key)" for key s
    using uc_lookup [OF assms(1), of key s] none vacant_law [of "virtual_clients st"] by auto
  then show ?thesis using assms(1,3) unfolding uc_ok_def by (simp add: insert_law)
qed

text \<open>\<open>clear_old\<close>: the first pass only updates closed flags and lists the expired slots.\<close>

lemma mark_old_spec:
  assumes "distinct (map fst xs)" "\<And>k c. (k, c) \<in> set xs \<Longrightarrow> sl_get sl m k = Some c"
  shows "fst (mark_old sl env now w xs m) = map fst (filter (\<lambda>(k, c). expired env w now c) xs)"
    and "sl_get sl (snd (mark_old sl env now w xs m)) =
      (\<lambda>k. if k \<in> fst ` set xs then map_option (refreshed env w) (sl_get sl m k) else sl_get sl m k)"
proof -
  have "fst (mark_old sl env now w xs m) = map fst (filter (\<lambda>(k, c). expired env w now c) xs) \<and>
    sl_get sl (snd (mark_old sl env now w xs m)) =
      (\<lambda>k. if k \<in> fst ` set xs then map_option (refreshed env w) (sl_get sl m k) else sl_get sl m k)"
    using assms
  proof (induction xs arbitrary: m)
    case (Cons kc xs)
    obtain k c where kc: "kc = (k, c)" by fastforce
    obtain b r where br: "is_closed env w (c_receiver c) = (b, r)" by fastforce
    let ?m = "sl_set sl m k (c\<lparr>c_receiver := r\<rparr>)"
    have mk: "sl_get sl m k = Some c" using Cons.prems(2) kc by simp
    then have g: "sl_get sl ?m = (sl_get sl m)(k \<mapsto> c\<lparr>c_receiver := r\<rparr>)" by (simp add: set_law)
    have k: "k \<notin> fst ` set xs" using Cons.prems(1) kc by simp
    have "\<And>j d. (j, d) \<in> set xs \<Longrightarrow> sl_get sl ?m j = Some d"
      using Cons.prems(2) k by (auto simp: g kc image_iff)
    with Cons.IH [of ?m] Cons.prems(1) kc
    have IH: "fst (mark_old sl env now w xs ?m) = map fst (filter (\<lambda>(k, c). expired env w now c) xs)"
      "sl_get sl (snd (mark_old sl env now w xs ?m)) =
        (\<lambda>k. if k \<in> fst ` set xs then map_option (refreshed env w) (sl_get sl ?m k) else sl_get sl ?m k)" by auto
    obtain t m' where tm: "mark_old sl env now w xs ?m = (t, m')" by fastforce
    have ref: "c\<lparr>c_receiver := r\<rparr> = refreshed env w c" by (simp add: refreshed_def br)
    have g': "sl_get sl ?m = (sl_get sl m)(k \<mapsto> refreshed env w c)" using g ref by simp
    have t: "t = map fst (filter (\<lambda>(k, c). expired env w now c) xs)" using IH(1) tm by simp
    have "sl_get sl m' = (\<lambda>j. if j \<in> fst ` set xs then map_option (refreshed env w) (sl_get sl ?m j) else sl_get sl ?m j)"
      using IH(2) tm by simp
    also have "\<dots> = (\<lambda>j. if j \<in> fst ` set (kc # xs) then map_option (refreshed env w) (sl_get sl m j) else sl_get sl m j)"
      using k mk unfolding g' by (auto simp: kc fun_eq_iff)
    finally show ?case by (simp add: kc br tm t expired_def)
  qed simp
  then show "fst (mark_old sl env now w xs m) = map fst (filter (\<lambda>(k, c). expired env w now c) xs)"
    and "sl_get sl (snd (mark_old sl env now w xs m)) =
      (\<lambda>k. if k \<in> fst ` set xs then map_option (refreshed env w) (sl_get sl m k) else sl_get sl m k)" by blast+
qed

lemma remove_slots_spec:
  assumes "uc_ok sl st" "distinct slots" "\<And>k. k \<in> set slots \<Longrightarrow> sl_get sl (virtual_clients st) k \<noteq> None"
    "\<And>i w. fst (ue_shutdown env i w)"
  shows "\<exists>st' w'. remove_slots sl env slots st w = Inr (st', w') \<and> uc_ok sl st' \<and>
    sl_get sl (virtual_clients st') = (\<lambda>k. if k \<in> set slots then None else sl_get sl (virtual_clients st) k)"
  using assms(1-3)
proof (induction slots arbitrary: st w)
  case (Cons slot slots)
  then obtain c where c: "sl_get sl (virtual_clients st) slot = Some c" by fastforce
  then have l: "virtual_client_lookup st (c_key c) = Some slot" using uc_lookup [OF Cons.prems(1)] by blast
  obtain w1 where sh: "ue_shutdown env (rcv_id (c_receiver c)) w = (True, w1)"
    using assms(4) by (metis (full_types) prod.collapse)
  let ?st = "st\<lparr>virtual_clients := sl_remove sl (virtual_clients st) slot,
    virtual_client_lookup := (virtual_client_lookup st)(c_key c := None)\<rparr>"
  have "uc_ok sl ?st" by (rule remove_client_ok [OF Cons.prems(1) c])
  moreover have "\<And>k. k \<in> set slots \<Longrightarrow> sl_get sl (virtual_clients ?st) k \<noteq> None"
    using Cons.prems(2,3) by (auto simp: remove_law)
  ultimately obtain st' w' where "remove_slots sl env slots ?st w1 = Inr (st', w')" "uc_ok sl st'"
    "sl_get sl (virtual_clients st') = (\<lambda>k. if k \<in> set slots then None else sl_get sl (virtual_clients ?st) k)"
    using Cons.IH [of ?st w1] Cons.prems(2) by auto
  then show ?case by (auto simp: c l sh remove_law fun_eq_iff)
qed simp

lemma refreshed_key [simp]: "c_key (refreshed env w c) = c_key c"
  by (simp add: refreshed_def)

lemma refreshed_ok: "client_ok slot c \<Longrightarrow> client_ok slot (refreshed env w c)"
  by (simp add: client_ok_def refreshed_def)

lemma clear_old_spec:
  assumes ok: "uc_ok sl st" and sh: "\<And>i w. fst (ue_shutdown env i w)"
  shows "\<exists>st' w'. clear_old sl env now st w = Inr (st', w') \<and> uc_ok sl st' \<and>
    sl_get sl (virtual_clients st') = (\<lambda>k. case sl_get sl (virtual_clients st) k of
       None \<Rightarrow> None | Some c \<Rightarrow> if expired env w now c then None else Some (refreshed env w c)) \<and>
    active_udp (uc_stats st') = of_nat (sl_len sl (virtual_clients st'))"
proof -
  let ?xs = "sl_iter sl (virtual_clients st)"
  have d: "distinct (map fst ?xs)" and mem: "\<And>k c. (k, c) \<in> set ?xs \<longleftrightarrow> sl_get sl (virtual_clients st) k = Some c"
    using iter_law [of "virtual_clients st"] by auto
  obtain tr m where mo: "mark_old sl env now w ?xs (virtual_clients st) = (tr, m)" by fastforce
  note ms = mark_old_spec [OF d, of "virtual_clients st" env now w, unfolded mo mem, simplified]
  have tr: "tr = map fst (filter (\<lambda>(k, c). expired env w now c) ?xs)"
    and get: "sl_get sl m = (\<lambda>k. map_option (refreshed env w) (sl_get sl (virtual_clients st) k))"
    using ms mem by (auto simp: fun_eq_iff image_iff split_def) (metis fst_conv mem not_None_eq option.simps(8))
  have ok1: "uc_ok sl (st\<lparr>virtual_clients := m\<rparr>)"
    using ok unfolding uc_ok_def by (auto simp: get intro: refreshed_ok)
  have dtr: "distinct tr" using d unfolding tr by (simp add: distinct_map_filter)
  have set_tr: "k \<in> set tr \<longleftrightarrow> (\<exists>c. sl_get sl (virtual_clients st) k = Some c \<and> expired env w now c)" for k
    unfolding tr by (force simp: mem)
  have dist: "distinct (rev (sort tr))" using dtr by simp
  have present: "\<And>k. k \<in> set (rev (sort tr)) \<Longrightarrow> sl_get sl (virtual_clients (st\<lparr>virtual_clients := m\<rparr>)) k \<noteq> None"
    using set_tr by (auto simp: get)
  obtain st' w' where r: "remove_slots sl env (rev (sort tr)) (st\<lparr>virtual_clients := m\<rparr>) w = Inr (st', w')"
    "uc_ok sl st'" "sl_get sl (virtual_clients st') = (\<lambda>k. if k \<in> set tr then None else sl_get sl m k)"
    using remove_slots_spec [OF ok1 dist present sh, where w = w] by (auto cong: if_cong)
  have "sl_get sl (virtual_clients st') = (\<lambda>k. case sl_get sl (virtual_clients st) k of
       None \<Rightarrow> None | Some c \<Rightarrow> if expired env w now c then None else Some (refreshed env w c))"
    using r(3) set_tr by (auto simp: get fun_eq_iff split: option.splits)
  with r show ?thesis
    by (simp add: clear_old_def mo update_udp_count_def set_udp_def uc_ok_def)
qed

text \<open>\<open>dispatch_origin_packet\<close>: an answer goes back to the peer of its client.\<close>

lemma with_port_offset_ok:
  assumes "flow_extension f = Some ext" "unat (sock_port (flow_src f)) + unat off < 2 ^ 16"
  shows "\<exists>g. with_port_offset off f = Inr g \<and> flow_dst g = flow_dst f \<and>
    flow_extension g = Some (ext\<lparr>port_offset := off\<rparr>) \<and> sock_ip (flow_src g) = sock_ip (flow_src f) \<and>
    unat (sock_port (flow_src g)) = unat (sock_port (flow_src f)) + unat off"
proof (cases f)
  case (FlowV4 src dst frag e)
  then show ?thesis using assms unat_add_lem_lt [of "v4_port src" off] by simp
next
  case (FlowV6 src dst e)
  then show ?thesis
    using assms unat_add_lem_lt [of "snd src" off] by (cases src; cases dst) simp
qed

lemma dispatch_spec:
  assumes ok: "uc_ok sl st"
  shows "\<exists>r st'. dispatch_origin_packet sl now packet st = Inr (r, st') \<and> uc_ok sl st' \<and>
    virtual_client_lookup st' = virtual_client_lookup st \<and>
    (case r of
       None \<Rightarrow> virtual_clients st' = virtual_clients st \<and> uc_stats st' = uc_stats st
     | Some (f, p) \<Rightarrow> p = rx_packet packet \<and> (\<exists>c slot ext. sl_get sl (virtual_clients st) slot = Some c \<and>
         c_id c = rx_id packet \<and> c_target_addr c = rx_from packet \<and>
         flow_dst f = source_addr (c_key c) \<and>
         flow_extension f = Some ext \<and> tunnel_id ext = key_tunnel (c_key c) \<and> port_offset ext = c_port_offset c \<and>
         sock_ip (flow_src f) = sock_ip (flow_src (c_flow c)) \<and>
         unat (sock_port (flow_src f)) = unat (sock_port (flow_src (c_flow c))) + unat (c_port_offset c)))"
proof (cases "sl_get sl (virtual_clients st) (unpack_slot (rx_id packet))")
  case None
  then show ?thesis using ok by (auto simp: dispatch_origin_packet_def Let_def err_inc_def uc_ok_def)
next
  case (Some c)
  let ?slot = "unpack_slot (rx_id packet)"
  show ?thesis
  proof (cases "c_id c = rx_id packet \<and> rx_from packet = c_target_addr c")
    case False
    then show ?thesis
      using ok Some by (auto simp: dispatch_origin_packet_def Let_def err_inc_def uc_ok_def)
  next
    case True
    have co: "client_ok ?slot c" by (rule uc_client [OF ok Some])
    then obtain ext where e: "flow_extension (c_flow c) = Some ext" "tunnel_id ext = key_tunnel (c_key c)"
      and dst: "flow_dst (c_flow c) = source_addr (c_key c)"
      and room: "unat (sock_port (flow_src (c_flow c))) + unat (c_port_offset c) < 2 ^ 16"
      by (auto simp: client_ok_def)
    obtain g where g: "with_port_offset (c_port_offset c) (c_flow c) = Inr g" "flow_dst g = flow_dst (c_flow c)"
      "flow_extension g = Some (ext\<lparr>port_offset := c_port_offset c\<rparr>)" "sock_ip (flow_src g) = sock_ip (flow_src (c_flow c))"
      "unat (sock_port (flow_src g)) = unat (sock_port (flow_src (c_flow c))) + unat (c_port_offset c)"
      using with_port_offset_ok [OF e(1) room] by blast
    have "uc_ok sl (st\<lparr>virtual_clients := sl_set sl (virtual_clients st) ?slot (c\<lparr>c_from_origin_ts := now\<rparr>)\<rparr>)"
      by (rule set_client_ok [OF ok Some]) (use co in \<open>simp_all add: client_ok_def\<close>)
    moreover have "dispatch_origin_packet sl now packet st = Inr (Some (g, rx_packet packet),
        st\<lparr>virtual_clients := sl_set sl (virtual_clients st) ?slot (c\<lparr>c_from_origin_ts := now\<rparr>),
           uc_stats := add_bytes_out (of_nat (plen (rx_packet packet))) (uc_stats st)\<rparr>)"
      using True Some g(1) by (simp add: dispatch_origin_packet_def Let_def)
    ultimately show ?thesis
      using True Some g e dst by (auto simp: uc_ok_def)
  qed
qed

text \<open>\<open>handle_tunneled_packet\<close>.\<close>

text \<open>What opening a client does when it returns: nothing to the tables, or one new client in the vacant slot.\<close>

lemma open_client_cases:
  assumes ext: "flow_extension flow = Some ext"
    and key: "key = \<lparr>source_addr = flow_src flow, key_tunnel = tunnel_id ext\<rparr>"
    and o: "open_client bo sl env now flow ext origin key packet st w = Inr (st', w')"
  obtains (same) "virtual_clients st' = virtual_clients st" "virtual_client_lookup st' = virtual_client_lookup st"
    | (added) c where "client_ok (sl_vacant_key sl (virtual_clients st)) c" "c_key c = key"
      "virtual_client_lookup st' = (virtual_client_lookup st)(key \<mapsto> sl_vacant_key sl (virtual_clients st))"
      "virtual_clients st' = sl_insert sl (virtual_clients st) c"
      "reply_flow (port_offset ext) (flip flow) = Inr (c_flow c)" "c_port_offset c = port_offset ext"
      "resolve_local (ue_lookup_host env (snd (ue_limiter_check env w))) origin (port_offset ext) = Some (c_target_addr c)"
proof -
  obtain b w1 where lim: "ue_limiter_check env w = (b, w1)" by fastforce
  show thesis
  proof (cases "b \<and> resolve_local (ue_lookup_host env w1) origin (port_offset ext) \<noteq> None")
    case False
    with o lim show thesis by (intro same) (auto simp: open_client_def split: option.splits bool.splits)
  next
    case True
    then obtain target where t: "b" "resolve_local (ue_lookup_host env w1) origin (port_offset ext) = Some target" by auto
    let ?sp = "(case target of SockV4 a \<Rightarrow> v4_is_loopback (v4_ip a) | SockV6 _ \<Rightarrow> False) \<and> res_proxy_protocol origin = None"
    obtain sr w2 where so: "udp_socket bo (ue_bind env) ?sp (source_addr key) target (key_tunnel key) w1 = (sr, w2)"
      by fastforce
    show thesis
    proof (cases sr)
      case (Inl e)
      with o lim t so show thesis by (intro same) (auto simp: open_client_def Let_def)
    next
      case (Inr socket)
      let ?slot = "sl_vacant_key sl (virtual_clients st)"
      let ?i = "pack_client_id (of_nat ?slot) (next_client_generation st)"
      have slot: "?slot < 2 ^ 32"
        using o lim t so Inr by (auto simp: open_client_def Let_def split: if_splits)
      obtain cf where cf: "reply_flow (port_offset ext) (flip flow) = Inr cf"
        using o lim t so Inr slot by (auto simp: open_client_def Let_def and_then_Inr_conv)
      let ?c = "\<lparr>c_id = ?i, c_key = key, c_socket = socket, c_target_addr = target,
                       c_port_offset = port_offset ext, c_flow = cf,
                       c_receiver = \<lparr>rcv_id = ?i, rcv_closed = False\<rparr>, c_from_tunnel_ts = now,
                       c_from_origin_ts = now\<rparr>"
      obtain sw where sw: "send_proxy_header env (res_proxy_protocol origin) flow socket target
          (st\<lparr>next_client_generation := next_client_generation st + 1\<rparr>, ue_spawn env ?i socket w2) = Inr sw"
        using o lim t so Inr slot cf by (auto simp: open_client_def Let_def and_then_Inr_conv)
      obtain st1 w3 where sw1: "sw = (st1, w3)" by fastforce
      have v1: "virtual_clients st1 = virtual_clients st" "virtual_client_lookup st1 = virtual_client_lookup st"
        using send_proxy_header_view [OF sw [unfolded sw1]] by simp_all
      obtain st2 w4 where s2: "send_logged env socket (payload packet) target (st1, w3) = (st2, w4)" by fastforce
      have st': "st' = update_udp_count sl (st2\<lparr>virtual_client_lookup := (virtual_client_lookup st2)(key \<mapsto> ?slot),
          virtual_clients := sl_insert sl (virtual_clients st2) ?c\<rparr>)"
        using o lim t so Inr slot cf sw sw1 s2 by (simp add: open_client_def Let_def)
      have "client_ok ?slot ?c"
        using reply_flow_ok [OF cf ext] unpack_pack [OF slot] unsigned_less [of "sock_port (flow_dst flow)"]
        by (auto simp: client_ok_def key)
      then show thesis
        using added [of ?c] st' v1 send_logged_view [OF s2] cf t lim by simp
    qed
  qed
qed

lemma open_client_ok:
  assumes ok: "uc_ok sl st" and ext: "flow_extension flow = Some ext"
    and key: "key = \<lparr>source_addr = flow_src flow, key_tunnel = tunnel_id ext\<rparr>"
    and new: "virtual_client_lookup st key = None"
    and o: "open_client bo sl env now flow ext origin key packet st w = Inr (st', w')"
  shows "uc_ok sl st'"
  using ext key o
proof (cases rule: open_client_cases)
  case same
  then show ?thesis using ok uc_ok_cong [OF same(2,1)] by blast
next
  case (added c)
  have "uc_ok sl (st\<lparr>virtual_client_lookup := (virtual_client_lookup st)(c_key c \<mapsto> sl_vacant_key sl (virtual_clients st)),
    virtual_clients := sl_insert sl (virtual_clients st) c\<rparr>)"
    by (rule insert_client_ok [OF ok]) (use new added in auto)
  then show ?thesis using added by (simp add: uc_ok_def)
qed

lemma forget_ok:
  assumes ok: "uc_ok sl st" and l: "virtual_client_lookup st key = Some slot"
    and f: "forget_client sl env key slot st w = (st', w')"
  shows "uc_ok sl st'" "virtual_client_lookup st' key = None"
proof -
  obtain c where c: "sl_get sl (virtual_clients st) slot = Some c" "c_key c = key"
    using uc_lookup [OF ok] l by blast
  have "uc_ok sl (st\<lparr>virtual_clients := sl_remove sl (virtual_clients st) slot,
    virtual_client_lookup := (virtual_client_lookup st)(c_key c := None)\<rparr>)"
    by (rule remove_client_ok [OF ok c(1)])
  then show "uc_ok sl st'" "virtual_client_lookup st' key = None"
    using f c by (auto simp: forget_client_def Let_def uc_ok_def)
qed

lemma forward_ok:
  assumes ok: "uc_ok sl st" and c: "sl_get sl (virtual_clients st) slot = Some c"
  shows "uc_ok sl (fst (forward_to_client sl env now csi packet slot c st w))"
proof -
  let ?c = "c\<lparr>c_from_tunnel_ts := now, c_flow := update_client_server_id csi (c_flow c)\<rparr>"
  let ?st = "st\<lparr>virtual_clients := sl_set sl (virtual_clients st) slot ?c\<rparr>"
  have "client_ok slot ?c" using uc_client [OF ok c] by (auto simp: client_ok_def)
  then have st: "uc_ok sl ?st" by (intro set_client_ok [OF ok c]) simp_all
  obtain st2 w2 where s: "send_logged env (c_socket ?c) (payload packet) (c_target_addr ?c) (?st, w) = (st2, w2)" by fastforce
  from st have "uc_ok sl st2" using uc_ok_cong [OF send_logged_view(2,1) [OF s]] by blast
  then show ?thesis using s by (simp add: forward_to_client_def Let_def)
qed

lemma handle_ok:
  assumes ok: "uc_ok sl st"
    and h: "handle_tunneled_packet bo sl env origins now flow packet st w = Inr (st', w')"
  shows "uc_ok sl st'"
proof (cases "flow_extension flow")
  case None
  then show ?thesis using h ok by (simp add: handle_tunneled_packet_def)
next
  case (Some ext)
  show ?thesis
  proof (cases "origin_lookup origins (tunnel_id ext) False")
    case None
    then show ?thesis using h ok Some by (simp add: handle_tunneled_packet_def)
  next
    case (Some origin)
    note ext = \<open>flow_extension flow = Some ext\<close>
    define key where "key = \<lparr>source_addr = flow_src flow, key_tunnel = tunnel_id ext\<rparr>"
    show ?thesis
    proof (cases "virtual_client_lookup st key")
      case None
      then show ?thesis using h ext Some open_client_ok [OF ok ext key_def None]
        by (simp add: handle_tunneled_packet_def key_def Let_def)
    next
      case (Some slot)
      then obtain c where c: "sl_get sl (virtual_clients st) slot = Some c" "c_key c = key"
        using uc_lookup [OF ok] by blast
      let ?c = "refreshed env w c"
      let ?st = "st\<lparr>virtual_clients := sl_set sl (virtual_clients st) slot ?c\<rparr>"
      have st1: "uc_ok sl ?st"
        by (rule set_client_ok [OF ok c(1)]) (use refreshed_ok [OF uc_client [OF ok c(1)]] in simp_all)
      have g: "sl_get sl (virtual_clients ?st) slot = Some ?c" using c by (simp add: set_law)
      obtain st2 w2 where f: "forget_client sl env key slot ?st w = (st2, w2)" by fastforce
      have l: "virtual_client_lookup ?st key = Some slot" using Some by simp
      consider "forward_to_client sl env now (client_server_id ext) packet slot ?c ?st w = (st', w')"
        | "open_client bo sl env now flow ext origin key packet st2 w2 = Inr (st', w')"
        using h ext \<open>origin_lookup origins (tunnel_id ext) False = Some origin\<close> Some c f
        by (auto simp: handle_tunneled_packet_def Let_def refreshed_def key_def [symmetric] split: prod.splits if_splits)
      then show ?thesis
      proof cases
        case 1
        then show ?thesis using forward_ok [OF st1 g, of env now "client_server_id ext" packet w] by (metis fst_conv)
      next
        case 2
        show ?thesis by (rule open_client_ok [OF forget_ok(1) [OF st1 l f] ext key_def forget_ok(2) [OF st1 l f] 2])
      qed
    qed
  qed
qed

text \<open>The only ways to panic: a port offset above the destination port, and more than \<open>2 ^ 32\<close> slots.\<close>

lemma reply_flow_Inl:
  assumes "reply_flow off (flip f) = Inl e" "flow_extension f = Some ext"
  shows "sock_port (flow_dst f) < off"
  using assms by (cases f) (auto split: if_splits)

lemma send_proxy_header_total: "\<exists>sw. send_proxy_header env proto f s t (st, w) = Inr sw"
proof -
  have "\<exists>r. write_v2_udp (from_udp_flow f) (vec_sink []) = Inr r"
    using write_v2_udp_puts [of "from_udp_flow f"] by (simp add: puts_def)
  then show ?thesis by (auto simp: send_proxy_header_def split: option.splits)
qed

lemma open_client_panic:
  assumes "open_client bo sl env now flow ext origin key packet st w = Inl e" "flow_extension flow = Some ext"
  shows "sock_port (flow_dst flow) < port_offset ext \<or> e = Panic ''udp client slot overflow''"
proof (rule ccontr)
  assume no: "\<not> ?thesis"
  obtain b w1 where lim: "ue_limiter_check env w = (b, w1)" by fastforce
  obtain target where t: "b" "resolve_local (ue_lookup_host env w1) origin (port_offset ext) = Some target"
    using assms(1) lim by (auto simp: open_client_def split: bool.splits option.splits)
  let ?sp = "(case target of SockV4 a \<Rightarrow> v4_is_loopback (v4_ip a) | SockV6 _ \<Rightarrow> False) \<and> res_proxy_protocol origin = None"
  obtain sr w2 where so: "udp_socket bo (ue_bind env) ?sp (source_addr key) target (key_tunnel key) w1 = (sr, w2)"
    by fastforce
  obtain socket where s: "sr = Inr socket" using assms(1) lim t so by (cases sr) (auto simp: open_client_def Let_def)
  obtain cf where cf: "reply_flow (port_offset ext) (flip flow) = Inr cf"
    using reply_flow_Inl [OF _ assms(2)] no by (cases "reply_flow (port_offset ext) (flip flow)") auto
  obtain sw where "send_proxy_header env (res_proxy_protocol origin) flow socket target
      (st\<lparr>next_client_generation := next_client_generation st + 1\<rparr>,
       ue_spawn env (pack_client_id (of_nat (sl_vacant_key sl (virtual_clients st))) (next_client_generation st)) socket w2) = Inr sw"
    using exE [OF send_proxy_header_total] by metis
  then show False using assms(1) no lim t so s cf
    by (auto simp: open_client_def Let_def split: if_splits prod.splits)
qed

lemma handle_panic:
  assumes ok: "uc_ok sl st"
    and h: "handle_tunneled_packet bo sl env origins now flow packet st w = Inl e"
  shows "(\<exists>ext. flow_extension flow = Some ext \<and> sock_port (flow_dst flow) < port_offset ext) \<or>
    e = Panic ''udp client slot overflow''"
proof -
  obtain ext where ext: "flow_extension flow = Some ext"
    using h by (auto simp: handle_tunneled_packet_def split: option.splits)
  obtain origin where o: "origin_lookup origins (tunnel_id ext) False = Some origin"
    using h ext by (auto simp: handle_tunneled_packet_def split: option.splits)
  obtain key st1 w1 where "open_client bo sl env now flow ext origin key packet st1 w1 = Inl e"
    using h ext o
    by (auto simp: handle_tunneled_packet_def Let_def split: option.splits prod.splits if_splits)
  from open_client_panic [OF this ext] ext show ?thesis by blast
qed

end

subsection \<open>Runs\<close>

text \<open>
  The handlers are called one at a time from the agent's loop, in any order; the network may change between two
  calls.
\<close>

inductive uc_reach ::
  "byteorder \<Rightarrow> ('m, 's Client) slab_lib \<Rightarrow> ('w, 's, 'e) udp_env \<Rightarrow> 'm UdpClients \<Rightarrow> bool"
  for bo sl env where
  start: "sl_get sl m = (\<lambda>_. None) \<Longrightarrow> uc_reach bo sl env (UdpClients_new m stats errs)"
| tunneled: "uc_reach bo sl env st \<Longrightarrow> handle_tunneled_packet bo sl env origins now flow packet st w = Inr (st', w') \<Longrightarrow>
    uc_reach bo sl env st'"
| answered: "uc_reach bo sl env st \<Longrightarrow> dispatch_origin_packet sl now rp st = Inr (r, st') \<Longrightarrow> uc_reach bo sl env st'"
| cleared: "uc_reach bo sl env st \<Longrightarrow> (\<And>i w. fst (ue_shutdown env i w)) \<Longrightarrow> clear_old sl env now st w = Inr (st', w') \<Longrightarrow>
    uc_reach bo sl env st'"

context client_slab
begin

lemma reach_ok: "uc_reach bo sl env st \<Longrightarrow> uc_ok sl st"
proof (induction rule: uc_reach.induct)
  case (start m stats errs)
  then show ?case by (simp add: uc_ok_def UdpClients_new_def)
next
  case (tunneled st origins now flow packet w st' w')
  show ?case by (rule handle_ok [OF tunneled.IH tunneled.hyps(2)])
next
  case (answered st now rp r st')
  then show ?case using dispatch_spec [of st now rp] by auto
next
  case (cleared st now w st' w')
  have "\<exists>st' w'. clear_old sl env now st w = Inr (st', w') \<and> uc_ok sl st'"
    using clear_old_spec [OF cleared.IH cleared.hyps(2), of now w] by blast
  then show ?case using cleared.hyps(3) by auto
qed

end

text \<open>The answer flow is the tunnel flow turned round: subtracting and adding the offset cancel.\<close>

lemma answer_flow:
  assumes "flow_extension f = Some ext" "port_offset ext \<le> sock_port (flow_dst f)"
  shows "\<exists>g. reply_flow (port_offset ext) (flip f) = Inr g \<and> with_port_offset (port_offset ext) g = Inr (flip f)"
proof (cases f)
  case (FlowV4 src dst frag e)
  then show ?thesis using assms by (auto simp: sock_v4_def)
next
  case (FlowV6 src dst e)
  then show ?thesis using assms by (cases src; cases dst) auto
qed

context client_slab
begin

text \<open>The first packet of a peer opens a client whose answers carry the peer's flow turned round.\<close>

lemma new_client_answers:
  assumes ok: "uc_ok sl st" and ext: "flow_extension flow = Some ext"
    and key: "key = \<lparr>source_addr = flow_src flow, key_tunnel = tunnel_id ext\<rparr>"
    and new: "virtual_client_lookup st key = None"
    and h: "handle_tunneled_packet bo sl env origins now flow packet st w = Inr (st', w')"
    and slot: "virtual_client_lookup st' key = Some slot"
  shows "\<exists>c. sl_get sl (virtual_clients st') slot = Some c \<and>
    (\<exists>origin. origin_lookup origins (tunnel_id ext) False = Some origin \<and>
       resolve_local (ue_lookup_host env (snd (ue_limiter_check env w))) origin (port_offset ext) = Some (c_target_addr c)) \<and>
    (\<forall>now' p. rx_id p = c_id c \<and> rx_from p = c_target_addr c \<longrightarrow>
       (\<exists>st''. dispatch_origin_packet sl now' p st' = Inr (Some (flip flow, rx_packet p), st'')))"
proof -
  obtain origin where o: "origin_lookup origins (tunnel_id ext) False = Some origin"
    using h ext new slot by (auto simp: handle_tunneled_packet_def split: option.splits)
  have oc: "open_client bo sl env now flow ext origin key packet st w = Inr (st', w')"
    using h ext o new by (simp add: handle_tunneled_packet_def Let_def key)
  from ext key oc show ?thesis
  proof (cases rule: open_client_cases)
    case same
    then show ?thesis using new slot by simp
  next
    case (added c)
    have s: "slot = sl_vacant_key sl (virtual_clients st)" using added(3) slot by simp
    then have c: "sl_get sl (virtual_clients st') slot = Some c" using added(4) by (simp add: insert_law)
    have le: "port_offset ext \<le> sock_port (flow_dst flow)"
      using reply_flow_ok(3) [OF added(5) ext] by (simp add: word_le_nat_alt)
    have w: "with_port_offset (port_offset ext) (c_flow c) = Inr (flip flow)"
      using answer_flow [OF ext le] added(5) by auto
    have i: "unpack_slot (c_id c) = slot" using added(1) s by (simp add: client_ok_def)
    have "dispatch_origin_packet sl now' p st' = Inr (Some (flip flow, rx_packet p),
        st'\<lparr>virtual_clients := sl_set sl (virtual_clients st') slot (c\<lparr>c_from_origin_ts := now'\<rparr>),
            uc_stats := add_bytes_out (of_nat (plen (rx_packet p))) (uc_stats st')\<rparr>)"
      if "rx_id p = c_id c" "rx_from p = c_target_addr c" for p now'
      using that c i w added(6) by (simp add: dispatch_origin_packet_def Let_def)
    then show ?thesis using c o added(7) by auto
  qed
qed

end

subsection \<open>A concrete slab and network\<close>

definition list_slab_lib :: "('v option list, 'v) slab_lib" where
  "list_slab_lib =
     \<lparr>sl_get = ls_get, sl_set = (\<lambda>xs k v. xs[k := Some v]),
      sl_vacant_key = (\<lambda>xs. length (takeWhile (\<lambda>x. x \<noteq> None) xs)), sl_insert = (\<lambda>xs v. snd (ls_insert xs v)),
      sl_remove = (\<lambda>xs k. xs[k := None]), sl_len = (\<lambda>xs. length (filter (\<lambda>x. x \<noteq> None) xs)),
      sl_iter = (\<lambda>xs. map (\<lambda>k. (k, the (xs ! k))) (filter (\<lambda>k. xs ! k \<noteq> None) [0..<length xs]))\<rparr>"

lemma fst_ls_insert: "fst (ls_insert xs v) = length (takeWhile (\<lambda>x. x \<noteq> None) xs)"
  by (induction xs v rule: ls_insert.induct) (auto split: prod.splits)

lemma ls_insert_get: "ls_get (snd (ls_insert xs v)) = (ls_get xs)(length (takeWhile (\<lambda>x. x \<noteq> None) xs) \<mapsto> v)"
proof -
  have "ls_insert xs v = (length (takeWhile (\<lambda>x. x \<noteq> None) xs), snd (ls_insert xs v))"
    by (simp add: prod_eq_iff fst_ls_insert)
  from ls_insert_spec [OF this] show ?thesis by (auto simp: fun_eq_iff)
qed

lemma ls_vacant: "ls_get xs (length (takeWhile (\<lambda>x. x \<noteq> None) xs)) = None"
proof -
  fix v
  have "ls_insert xs v = (length (takeWhile (\<lambda>x. x \<noteq> None) xs), snd (ls_insert xs v))"
    by (simp add: prod_eq_iff fst_ls_insert)
  from ls_insert_spec [OF this] show ?thesis by simp
qed

lemma list_slab_lib_law: "slab_law list_slab_lib"
proof
  fix m :: "'v option list" and k v
  show "sl_get list_slab_lib m k \<noteq> None \<Longrightarrow>
      sl_get list_slab_lib (sl_set list_slab_lib m k v) = (sl_get list_slab_lib m)(k \<mapsto> v)"
    by (auto simp: list_slab_lib_def ls_get_update fun_eq_iff) (simp_all add: ls_get_def split: if_splits)
  show "sl_get list_slab_lib m (sl_vacant_key list_slab_lib m) = None"
    by (simp add: list_slab_lib_def ls_vacant del: not_None_eq)
  show "sl_get list_slab_lib (sl_insert list_slab_lib m v) = (sl_get list_slab_lib m)(sl_vacant_key list_slab_lib m \<mapsto> v)"
    by (simp add: list_slab_lib_def ls_insert_get)
  show "sl_get list_slab_lib (sl_remove list_slab_lib m k) = (sl_get list_slab_lib m)(k := None)"
    by (auto simp: list_slab_lib_def ls_get_update fun_eq_iff) (simp add: ls_get_def)
  show "finite (dom (sl_get list_slab_lib m)) \<and> sl_len list_slab_lib m = card (dom (sl_get list_slab_lib m))"
    using ls_live [of m] by (simp add: list_slab_lib_def dom_def)
  show "distinct (map fst (sl_iter list_slab_lib m)) \<and>
      set (sl_iter list_slab_lib m) = {(k, v). sl_get list_slab_lib m k = Some v}"
    by (auto simp: list_slab_lib_def comp_def ls_get_def image_iff split: if_splits)
qed

interpretation list_clients: client_slab list_slab_lib
  by (simp add: client_slab_def list_slab_lib_law)

text \<open>A network that logs what is sent and never fails, and one tunnel to a local port.\<close>

definition log_env :: "((bytes \<times> SocketAddr) list, SocketAddr, unit) udp_env" where
  "log_env =
     \<lparr>ue_bind = (\<lambda>a w. (Inr a, w)), ue_send_to = (\<lambda>s d t w. (True, w @ [(d, t)])), ue_spawn = (\<lambda>i s w. w),
      ue_ended = (\<lambda>i w. False), ue_shutdown = (\<lambda>i w. (True, w)), ue_drop = (\<lambda>i w. w),
      ue_limiter_check = (\<lambda>w. (True, w)), ue_lookup_host = (\<lambda>w h p. Inl ())\<rparr>"

definition example_origin :: "u16 \<Rightarrow> OriginResource" where
  "example_origin n =
     \<lparr>res_tunnel_id = 12, res_proto = Udp, res_target = TargetPort (IpAddress (IpV4 0x7F000001)) 9000,
      res_port_count = n, res_proxy_protocol = None\<rparr>"

definition example_origins :: "u16 \<Rightarrow> OriginLookup" where
  "example_origins n = origin_update [example_origin n] Map.empty"

definition empty_clients :: "SocketAddr Client option list UdpClients" where
  "empty_clients = UdpClients_new [] AgentStats_new zero_udp_errors"

lemmas example_clients_defs = log_env_def example_origin_def example_origins_def empty_clients_def UdpClients_new_def
  list_slab_lib_def example_flow_def

lemma empty_clients_ok: "uc_ok list_slab_lib empty_clients"
  by (simp add: uc_ok_def example_clients_defs ls_get_def)

lemma example_lookup: "origin_lookup (example_origins n) 12 False = Some (example_origin n)"
  by (simp add: origin_lookup_def example_origins_def origin_update_def insert_resource_def example_origin_def)

definition low_port_flow :: UdpFlow where
  "low_port_flow = FlowV4 (sock_v4 0x01020304 9000) (sock_v4 0x05060708 10) None
     (Some \<lparr>client_server_id = 77, tunnel_id = 12, port_offset = 11\<rparr>)"

lemma log_env_socket:
  "\<exists>a. udp_socket bo (ue_bind log_env) special_lan peer target tid w = (Inr a, w)"
  by (simp add: udp_socket_def log_env_def Let_def)

lemma low_port_panics:
  "handle_tunneled_packet be_byteorder list_slab_lib log_env (example_origins 0) 5 low_port_flow example_buf empty_clients [] =
     Inl (Panic ''assertion failed: extension.port_offset <= src.port()'')"
proof -
  let ?ext = "\<lparr>client_server_id = 77, tunnel_id = 12, port_offset = 11\<rparr>"
  let ?key = "\<lparr>source_addr = SockV4 (sock_v4 0x01020304 9000), key_tunnel = 12\<rparr>"
  have r: "resolve_local (ue_lookup_host log_env []) (example_origin 0) 11 = Some (SockV4 (sock_v4 0x7F000001 9000))"
    by (simp add: resolve_local_def example_origin_def)
  have l: "ue_limiter_check log_env w = (True, w)" for w by (simp add: log_env_def)
  have v: "sl_vacant_key list_slab_lib (virtual_clients empty_clients) = 0" by (simp add: example_clients_defs)
  obtain a where a: "udp_socket be_byteorder (ue_bind log_env) (v4_is_loopback (0x7F000001) \<and> res_proxy_protocol (example_origin 0) = None)
      (source_addr ?key) (SockV4 (sock_v4 0x7F000001 9000)) (key_tunnel ?key) [] = (Inr a, [])"
    using log_env_socket by blast
  have "open_client be_byteorder list_slab_lib log_env 5 low_port_flow ?ext (example_origin 0) ?key example_buf empty_clients [] =
      Inl (Panic ''assertion failed: extension.port_offset <= src.port()'')"
    unfolding open_client_def using a by (simp add: l r v Let_def low_port_flow_def)
  then show ?thesis
    by (simp add: handle_tunneled_packet_def low_port_flow_def example_lookup empty_clients_def UdpClients_new_def)
qed

abbreviation example_ext :: UdpFlowExtension where
  "example_ext \<equiv> \<lparr>client_server_id = 77, tunnel_id = 12, port_offset = 3\<rparr>"

abbreviation example_key :: UdpClientKey where
  "example_key \<equiv> \<lparr>source_addr = SockV4 (sock_v4 0x01020304 9000), key_tunnel = 12\<rparr>"

lemma example_opens:
  "\<exists>st' w'. handle_tunneled_packet be_byteorder list_slab_lib log_env (example_origins 5) 5 example_flow packet
      empty_clients [] = Inr (st', w') \<and> virtual_client_lookup st' example_key = Some 0"
proof -
  have r: "resolve_local (ue_lookup_host log_env []) (example_origin 5) 3 = Some (SockV4 (sock_v4 0x7F000001 9003))"
    by (simp add: resolve_local_def example_origin_def checked_add_def)
  have l: "ue_limiter_check log_env w = (True, w)" for w by (simp add: log_env_def)
  have v: "sl_vacant_key list_slab_lib (virtual_clients empty_clients) = 0" by (simp add: example_clients_defs)
  have n: "res_proxy_protocol (example_origin 5) = None" by (simp add: example_origin_def)
  have sends: "ue_send_to log_env s d t w = (True, w @ [(d, t)])" "ue_spawn log_env i s w = w" for s d t w i
    by (simp_all add: log_env_def)
  obtain a where a: "udp_socket be_byteorder (ue_bind log_env) (v4_is_loopback 0x7F000001 \<and> res_proxy_protocol (example_origin 5) = None)
      (source_addr example_key) (SockV4 (sock_v4 0x7F000001 9003)) (key_tunnel example_key) [] = (Inr a, [])"
    using log_env_socket by blast
  have "\<exists>st' w'. open_client be_byteorder list_slab_lib log_env 5 example_flow example_ext (example_origin 5) example_key
      packet empty_clients [] = Inr (st', w') \<and> virtual_client_lookup st' example_key = Some 0"
    unfolding open_client_def using a
    by (simp add: l r v n sends Let_def example_flow_def send_proxy_header_def send_logged_def)
  then show ?thesis
    by (simp add: handle_tunneled_packet_def example_flow_def example_lookup empty_clients_def UdpClients_new_def)
qed

subsection \<open>Properties\<close>

text \<open>
  C2: In every state the agent's loop can reach, whatever packets arrive from the tunnel and from local services, in whatever order and
  at whatever times, and however often old clients are cleared, the client table is consistent: a key leads to a slot exactly when the slot holds the
  client with that key, a client sits in the slot its id names, and its stored flow leads back to its peer.
\<close>

theorem udp_clients_invariant:
  assumes "slab_law sl" "uc_reach bo sl env st"
  shows "uc_ok sl st"
  using client_slab.reach_ok [unfolded client_slab_def, OF assms] .

theorem udp_clients_invariant_witness:
  "\<exists>st' w'. handle_tunneled_packet be_byteorder list_slab_lib log_env (example_origins 5) 5 example_flow example_buf
      empty_clients [] = Inr (st', w') \<and> virtual_client_lookup st' example_key = Some 0 \<and> uc_ok list_slab_lib st'"
proof -
  obtain st' w' where h: "handle_tunneled_packet be_byteorder list_slab_lib log_env (example_origins 5) 5 example_flow example_buf
      empty_clients [] = Inr (st', w')" "virtual_client_lookup st' example_key = Some 0"
    using example_opens by blast
  have "uc_reach be_byteorder list_slab_lib log_env empty_clients"
    unfolding empty_clients_def by (rule uc_reach.start) (simp add: list_slab_lib_def ls_get_def fun_eq_iff)
  then have "uc_reach be_byteorder list_slab_lib log_env st'" by (rule uc_reach.tunneled) (rule h(1))
  from udp_clients_invariant [OF list_slab_lib_law this] h show ?thesis by blast
qed

text \<open>
  C1: The first packet of a peer, once it has opened a client, is answered to that peer: the client's target is the local
  address the tunnel's port offset resolves to, and any packet that its receiver hands on from that target goes out on exactly the tunnel flow
  turned round, with the same source port, port offset and ids.
\<close>

theorem udp_answer_returns:
  assumes "slab_law sl" "uc_ok sl st" "flow_extension flow = Some ext"
    and "virtual_client_lookup st \<lparr>source_addr = flow_src flow, key_tunnel = tunnel_id ext\<rparr> = None"
    and "handle_tunneled_packet bo sl env origins now flow packet st w = Inr (st', w')"
    and "virtual_client_lookup st' \<lparr>source_addr = flow_src flow, key_tunnel = tunnel_id ext\<rparr> = Some slot"
  shows "\<exists>c. sl_get sl (virtual_clients st') slot = Some c \<and>
    (\<exists>origin. origin_lookup origins (tunnel_id ext) False = Some origin \<and>
       resolve_local (ue_lookup_host env (snd (ue_limiter_check env w))) origin (port_offset ext) = Some (c_target_addr c)) \<and>
    (\<forall>now' p. rx_id p = c_id c \<and> rx_from p = c_target_addr c \<longrightarrow>
       (\<exists>st''. dispatch_origin_packet sl now' p st' = Inr (Some (flip flow, rx_packet p), st'')))"
  using client_slab.new_client_answers [unfolded client_slab_def, OF assms(1-3) refl assms(4-6)] .

theorem udp_answer_returns_witness:
  "\<exists>st' c. sl_get list_slab_lib (virtual_clients (st' :: SocketAddr Client option list UdpClients)) 0 = Some c \<and>
    (\<exists>st''. dispatch_origin_packet list_slab_lib 9 \<lparr>rx_id = c_id c, rx_packet = example_buf, rx_from = c_target_addr c\<rparr> st' =
       Inr (Some (flip example_flow, example_buf), st''))"
proof -
  obtain st' w' where h: "handle_tunneled_packet be_byteorder list_slab_lib log_env (example_origins 5) 5 example_flow example_buf
      empty_clients [] = Inr (st', w')" "virtual_client_lookup st' example_key = Some 0"
    using example_opens by blast
  have e: "flow_extension example_flow = Some example_ext" "flow_src example_flow = SockV4 (sock_v4 0x01020304 9000)"
    by (simp_all add: example_flow_def)
  have new: "virtual_client_lookup empty_clients example_key = None"
    by (simp add: empty_clients_def UdpClients_new_def)
  from udp_answer_returns [OF list_slab_lib_law empty_clients_ok e(1), unfolded e(2), simplified, OF new h]
  obtain c where c: "sl_get list_slab_lib (virtual_clients st') 0 = Some c"
    "\<And>now' p. rx_id p = c_id c \<and> rx_from p = c_target_addr c \<Longrightarrow>
       (\<exists>st''. dispatch_origin_packet list_slab_lib now' p st' = Inr (Some (flip example_flow, rx_packet p), st''))"
    by blast
  show ?thesis using c(1) c(2) [of "\<lparr>rx_id = c_id c, rx_packet = example_buf, rx_from = c_target_addr c\<rparr>" 9] by auto
qed

text \<open>
  C13: An answer is never misdirected: \<^verbatim>\<open>dispatch_origin_packet\<close> does not panic, and the packets it hands on come from the target of the client
  that owns the receiver and go to that client's peer, tunnel and port. Every other packet is dropped without touching any client.
\<close>

theorem udp_dispatch_to_owner:
  assumes "slab_law sl" "uc_ok sl st"
  shows "\<exists>r st'. dispatch_origin_packet sl now packet st = Inr (r, st') \<and> uc_ok sl st' \<and>
    virtual_client_lookup st' = virtual_client_lookup st \<and>
    (case r of
       None \<Rightarrow> virtual_clients st' = virtual_clients st \<and> uc_stats st' = uc_stats st
     | Some (f, p) \<Rightarrow> p = rx_packet packet \<and> (\<exists>c slot ext. sl_get sl (virtual_clients st) slot = Some c \<and>
         c_id c = rx_id packet \<and> c_target_addr c = rx_from packet \<and>
         flow_dst f = source_addr (c_key c) \<and>
         flow_extension f = Some ext \<and> tunnel_id ext = key_tunnel (c_key c) \<and> port_offset ext = c_port_offset c \<and>
         sock_ip (flow_src f) = sock_ip (flow_src (c_flow c)) \<and>
         unat (sock_port (flow_src f)) = unat (sock_port (flow_src (c_flow c))) + unat (c_port_offset c)))"
  using client_slab.dispatch_spec [unfolded client_slab_def, OF assms] .

theorem udp_dispatch_to_owner_witness:
  "\<exists>st'. dispatch_origin_packet list_slab_lib 3 \<lparr>rx_id = 1, rx_packet = example_buf, rx_from = SockV4 (sock_v4 1 1)\<rparr> empty_clients =
     Inr (None, st') \<and> uc_ok list_slab_lib st'"
proof -
  let ?p = "\<lparr>rx_id = 1, rx_packet = example_buf, rx_from = SockV4 (sock_v4 1 1)\<rparr>"
  obtain r st' where "dispatch_origin_packet list_slab_lib 3 ?p empty_clients = Inr (r, st')" "uc_ok list_slab_lib st'"
    using udp_dispatch_to_owner [OF list_slab_lib_law empty_clients_ok, of 3 ?p] by blast
  moreover from this have "r = None"
    by (simp add: dispatch_origin_packet_def example_clients_defs ls_get_def Let_def)
  ultimately show ?thesis by blast
qed

lemma client_expired_iff:
  "client_expired now closed c \<longleftrightarrow> closed \<or>
     (let t = unat now - unat (c_from_tunnel_ts c); r = unat now - unat (c_from_origin_ts c)
      in 60000 < t \<and> 60000 < r \<or> 90000 < t \<or> 90000 < r)"
  by (simp add: client_expired_def Let_def word_less_nat_alt unat_saturating_sub)

text \<open>
  \<^verbatim>\<open>clear_old\<close> removes exactly the clients whose receiver has ended or that have been idle too long (one direction for more than 90
  seconds, or both for more than 60), keeps every other client
  (with its closed flag refreshed) in its slot, never hits its \<^verbatim>\<open>unwrap\<close> or assertion, and reports the number that is left.
  It assumes that receiver tasks stop within the 15 seconds they are given.
\<close>

theorem clear_old_exact:
  fixes now :: u64
  assumes "slab_law sl" "uc_ok sl st" "\<And>i w. fst (ue_shutdown env i w)"
  defines "idle \<equiv> (\<lambda>c. let t = unat now - unat (c_from_tunnel_ts c); r = unat now - unat (c_from_origin_ts c)
     in 60000 < t \<and> 60000 < r \<or> 90000 < t \<or> 90000 < r)"
  shows "\<exists>st' w'. clear_old sl env now st w = Inr (st', w') \<and> uc_ok sl st' \<and>
    (\<forall>k. sl_get sl (virtual_clients st') k = (case sl_get sl (virtual_clients st) k of
       None \<Rightarrow> None
     | Some c \<Rightarrow> if fst (is_closed env w (c_receiver c)) \<or> idle c then None
                 else Some (c\<lparr>c_receiver := snd (is_closed env w (c_receiver c))\<rparr>))) \<and>
    active_udp (uc_stats st') = of_nat (card (dom (sl_get sl (virtual_clients st'))))"
proof -
  obtain st' w' where "clear_old sl env now st w = Inr (st', w')" "uc_ok sl st'"
    "sl_get sl (virtual_clients st') = (\<lambda>k. case sl_get sl (virtual_clients st) k of
       None \<Rightarrow> None | Some c \<Rightarrow> if expired env w now c then None else Some (refreshed env w c))"
    "active_udp (uc_stats st') = of_nat (sl_len sl (virtual_clients st'))"
    using client_slab.clear_old_spec [unfolded client_slab_def, OF assms(1,2), of env now w] assms(3) by blast
  moreover from this(3) have "\<forall>k. sl_get sl (virtual_clients st') k = (case sl_get sl (virtual_clients st) k of
       None \<Rightarrow> None
     | Some c \<Rightarrow> if fst (is_closed env w (c_receiver c)) \<or> idle c then None
                 else Some (c\<lparr>c_receiver := snd (is_closed env w (c_receiver c))\<rparr>))"
    by (simp add: expired_def refreshed_def client_expired_iff idle_def Let_def split: option.split)
  ultimately show ?thesis using slab_law.len_law [OF assms(1), of "virtual_clients st'"] by auto
qed

theorem clear_old_exact_witness:
  "\<exists>st' w'. clear_old list_slab_lib log_env 100000 empty_clients [] = Inr (st', w') \<and> uc_ok list_slab_lib st' \<and>
     active_udp (uc_stats st') = of_nat (card (dom (sl_get list_slab_lib (virtual_clients st'))))"
proof -
  have "fst (ue_shutdown log_env i w)" for i w by (simp add: log_env_def)
  from clear_old_exact [OF list_slab_lib_law empty_clients_ok this, of 100000 "[]"] show ?thesis by blast
qed

text \<open>
  C14: The one input that makes \<^verbatim>\<open>handle_tunneled_packet\<close> panic, short of \<open>2 ^ 32\<close> live clients, is a packet whose port offset is greater than its destination port.
  Such a packet does reach the assertion when the tunnel's port count is zero, since the offset is not checked then.
\<close>

theorem udp_handle_panics_only_on_offset:
  assumes "slab_law sl" "uc_ok sl st"
    and "handle_tunneled_packet bo sl env origins now flow packet st w = Inl e"
  shows "(\<exists>ext. flow_extension flow = Some ext \<and> sock_port (flow_dst flow) < port_offset ext) \<or>
    e = Panic ''udp client slot overflow''"
  using client_slab.handle_panic [unfolded client_slab_def, OF assms] .

theorem udp_handle_panics_only_on_offset_witness:
  "handle_tunneled_packet be_byteorder list_slab_lib log_env (example_origins 0) 5 low_port_flow example_buf empty_clients [] =
     Inl (Panic ''assertion failed: extension.port_offset <= src.port()'') \<and>
   (\<exists>ext. flow_extension low_port_flow = Some ext \<and> sock_port (flow_dst low_port_flow) < port_offset ext)"
  using udp_handle_panics_only_on_offset [OF list_slab_lib_law empty_clients_ok low_port_panics] low_port_panics by simp

end
