(* ===== verification/Tcp_Pipe.thy ===== *)
theory Tcp_Pipe
  imports Stats
begin

section \<open>The TCP pipe\<close>

text \<open>
  \<^verbatim>\<open>packages/agent_core/src/network/tcp/tcp_pipe.rs\<close> and \<^verbatim>\<open>tcp_client.rs\<close>: a task that copies one direction of a TCP connection, with
  the activity time and byte count it shares with its handle, and the pair of pipes of a client. The
  two sockets are the bytes still to come from one and the bytes put into the other; what the runtime does in one round of
  the loop (cancellation, a read, the write of what was read) is an event.
\<close>

subsection \<open>Data\<close>

definition TCP_PIPE_BUFFER_SIZE :: nat where
  "TCP_PIPE_BUFFER_SIZE = 16 * 1024"

datatype PipeDirection = TunnelToOrigin | OriginToTunnel

record PipeShared =
  last_activity_ts :: u64
  written_count :: u64

text \<open>\<open>pw_done\<close>: the task has left its loop.\<close>

record PipeWorker =
  pw_shared :: PipeShared
  pw_from :: bytes
  pw_to :: bytes
  pw_stats :: "AgentStats option"
  pw_direction :: PipeDirection
  pw_done :: bool

definition pipe_new :: "u64 \<Rightarrow> bytes \<Rightarrow> AgentStats option \<Rightarrow> PipeDirection \<Rightarrow> PipeWorker" where
  "pipe_new now from stats direction =
     \<lparr>pw_shared = \<lparr>last_activity_ts = now, written_count = 0\<rparr>, pw_from = from, pw_to = [],
      pw_stats = stats, pw_direction = direction, pw_done = False\<rparr>"

subsection \<open>The handle\<close>

definition bytes_written :: "PipeShared \<Rightarrow> u64" where
  "bytes_written s = written_count s"

definition last_activity :: "PipeShared \<Rightarrow> u64" where
  "last_activity s = (if last_activity_ts s = - 1 then 0 else last_activity_ts s)"

definition pipe_is_closed :: "PipeShared \<Rightarrow> bool" where
  "pipe_is_closed s \<longleftrightarrow> last_activity_ts s = - 1"

subsection \<open>The task\<close>

text \<open>
  \<open>ReadOk n wres now\<close>: the read gives the next \<open>n\<close> bytes, fewer when the buffer or the rest of the stream is smaller; the write of
  all of them succeeds (\<open>None\<close>) at time \<open>now\<close> or fails after some of them went out.
\<close>

datatype pipe_event =
    Cancelled
  | ReadFailed
  | ReadOk nat "nat option" u64

definition leave_loop :: "PipeWorker \<Rightarrow> PipeWorker" where
  "leave_loop p = p\<lparr>pw_shared := (pw_shared p)\<lparr>last_activity_ts := - 1\<rparr>, pw_done := True\<rparr>"

definition count_bytes :: "PipeDirection \<Rightarrow> nat \<Rightarrow> AgentStats \<Rightarrow> AgentStats" where
  "count_bytes direction n = (case direction of
     TunnelToOrigin \<Rightarrow> add_bytes_in (of_nat n) | OriginToTunnel \<Rightarrow> add_bytes_out (of_nat n))"

fun pipe_round :: "pipe_event \<Rightarrow> PipeWorker \<Rightarrow> PipeWorker" where
  "pipe_round Cancelled p = leave_loop p"
| "pipe_round ReadFailed p = leave_loop p"
| "pipe_round (ReadOk n wres now) p =
     (let data = take (min n TCP_PIPE_BUFFER_SIZE) (pw_from p);
          p1 = p\<lparr>pw_from := drop (min n TCP_PIPE_BUFFER_SIZE) (pw_from p)\<rparr>;
          byte_count = length data in
      if byte_count = 0 then leave_loop p1
      else (case wres of
              Some k \<Rightarrow> leave_loop (p1\<lparr>pw_to := pw_to p1 @ take k data\<rparr>)
            | None \<Rightarrow> p1\<lparr>pw_to := pw_to p1 @ data,
                pw_shared := \<lparr>last_activity_ts = now, written_count = written_count (pw_shared p1) + of_nat byte_count\<rparr>,
                pw_stats := map_option (count_bytes (pw_direction p1) byte_count) (pw_stats p1)\<rparr>))"

fun pipe_run :: "pipe_event list \<Rightarrow> PipeWorker \<Rightarrow> PipeWorker" where
  "pipe_run [] p = p"
| "pipe_run (e # es) p = (if pw_done p then p else pipe_run es (pipe_round e p))"

subsection \<open>The two pipes of a client\<close>

record TcpClientStat =
  stat_tunn_to_origin :: u64
  stat_origin_to_tunn :: u64

record TcpClient =
  tunn_to_origin :: PipeShared
  origin_to_tunn :: PipeShared

definition create_with_stats :: "u64 \<Rightarrow> TcpClient" where
  "create_with_stats now =
     \<lparr>tunn_to_origin = pw_shared (pipe_new now [] None TunnelToOrigin),
      origin_to_tunn = pw_shared (pipe_new now [] None OriginToTunnel)\<rparr>"

definition client_last_use :: "TcpClient \<Rightarrow> TcpClientStat" where
  "client_last_use c =
     \<lparr>stat_tunn_to_origin = last_activity (tunn_to_origin c), stat_origin_to_tunn = last_activity (origin_to_tunn c)\<rparr>"

definition client_bytes_written :: "TcpClient \<Rightarrow> TcpClientStat" where
  "client_bytes_written c =
     \<lparr>stat_tunn_to_origin = bytes_written (tunn_to_origin c), stat_origin_to_tunn = bytes_written (origin_to_tunn c)\<rparr>"

subsection \<open>The invariant of the loop\<close>

text \<open>
  What went out is a prefix of what came in; while the task runs nothing is held back, and its counters
  have counted exactly the bytes that went out.
\<close>

definition pipe_inv :: "bytes \<Rightarrow> AgentStats option \<Rightarrow> PipeWorker \<Rightarrow> bool" where
  "pipe_inv input stats p \<longleftrightarrow>
     (\<exists>n \<le> length (pw_to p). \<exists>rest. pw_to p @ rest @ pw_from p = input \<and>
        written_count (pw_shared p) = of_nat n \<and>
        pw_stats p = map_option (count_bytes (pw_direction p) n) stats \<and>
        (if pw_done p then pipe_is_closed (pw_shared p) else rest = [] \<and> n = length (pw_to p)))"

lemma count_bytes_add: "count_bytes d m (count_bytes d n s) = count_bytes d (n + m) s"
  by (cases d) (simp_all add: count_bytes_def add_bytes_in_def add_bytes_out_def ac_simps)

lemma count_bytes_zero [simp]: "count_bytes d 0 s = s"
  by (cases d) (simp_all add: count_bytes_def add_bytes_in_def add_bytes_out_def)

lemma leave_loop_inv:
  assumes "\<not> pw_done p" "pipe_inv input stats p" "pw_from p = data @ left" "pre @ post = data"
    "pw_shared q = pw_shared p" "pw_stats q = pw_stats p" "pw_direction q = pw_direction p"
    "pw_to q = pw_to p @ pre" "pw_from q = left"
  shows "pipe_inv input stats (leave_loop q)"
  using assms unfolding pipe_inv_def leave_loop_def pipe_is_closed_def
  by (auto intro!: exI [of _ "length (pw_to p)"] exI [of _ post])

lemma pipe_round_inv:
  assumes "pipe_inv input stats p" "\<not> pw_done p"
  shows "pipe_inv input stats (pipe_round e p)"
proof (cases e)
  case (ReadOk n wres now)
  let ?m = "min n TCP_PIPE_BUFFER_SIZE"
  let ?data = "take ?m (pw_from p)"
  have split: "pw_from p = ?data @ drop ?m (pw_from p)" by simp
  show ?thesis
  proof (cases "length ?data = 0")
    case True
    have "pipe_inv input stats (leave_loop (p\<lparr>pw_from := drop ?m (pw_from p)\<rparr>))"
      by (rule leave_loop_inv [OF assms(2,1) split, of ?data "[]"]) (use True in \<open>simp_all add: min_def split: if_splits\<close>)
    then show ?thesis unfolding ReadOk pipe_round.simps Let_def if_P [OF True] .
  next
    case False
    show ?thesis
    proof (cases wres)
      case (Some k)
      have "pipe_inv input stats (leave_loop (p\<lparr>pw_from := drop ?m (pw_from p), pw_to := pw_to p @ take k ?data\<rparr>))"
        by (rule leave_loop_inv [OF assms(2,1) split append_take_drop_id]) simp_all
      with Some show ?thesis unfolding ReadOk pipe_round.simps Let_def if_not_P [OF False] by simp
    next
      case None
      from assms have "pw_to p @ pw_from p = input" "written_count (pw_shared p) = of_nat (length (pw_to p))"
        "pw_stats p = map_option (count_bytes (pw_direction p) (length (pw_to p))) stats"
        by (auto simp: pipe_inv_def)
      with None assms(2) show ?thesis unfolding ReadOk pipe_round.simps Let_def if_not_P [OF False]
        by (simp add: pipe_inv_def option.map_comp comp_def count_bytes_add)
    qed
  qed
qed (use assms leave_loop_inv [OF assms(2,1), of "[]" "pw_from p" "[]" "[]" p] in auto)

lemma pipe_run_inv: "pipe_inv input stats p \<Longrightarrow> pipe_inv input stats (pipe_run es p)"
  by (induction es p rule: pipe_run.induct) (auto intro: pipe_round_inv)

lemma pipe_round_direction [simp]: "pw_direction (pipe_round e p) = pw_direction p"
  by (cases e) (auto simp: leave_loop_def Let_def split: option.splits)

lemma pipe_run_direction [simp]: "pw_direction (pipe_run es p) = pw_direction p"
  by (induction es p rule: pipe_run.induct) auto

text \<open>If the reads give at least a byte each and nothing fails, everything is copied and the task ends.\<close>

lemma pipe_drains:
  assumes "\<not> pw_done p" "length (pw_from p) < k"
  shows "pw_to (pipe_run (replicate k (ReadOk (Suc n) None now)) p) = pw_to p @ pw_from p \<and>
    pw_done (pipe_run (replicate k (ReadOk (Suc n) None now)) p)"
  using assms
proof (induction k arbitrary: p)
  case (Suc k)
  let ?m = "min (Suc n) TCP_PIPE_BUFFER_SIZE"
  let ?q = "pipe_round (ReadOk (Suc n) None now) p"
  have m: "0 < ?m" by (simp add: TCP_PIPE_BUFFER_SIZE_def)
  show ?case
  proof (cases "pw_from p = []")
    case True
    then have q: "pw_done ?q" "pw_to ?q = pw_to p" by (simp_all add: leave_loop_def)
    then have "pipe_run es ?q = ?q" for es by (cases es) simp_all
    with q True Suc.prems show ?thesis by simp
  next
    case False
    with m have ne: "length (take ?m (pw_from p)) \<noteq> 0" by simp
    have "\<not> pw_done ?q" "pw_to ?q @ pw_from ?q = pw_to p @ pw_from p" "pw_from ?q = drop ?m (pw_from p)"
      using ne Suc.prems(1) unfolding pipe_round.simps Let_def if_not_P [OF ne] by simp_all
    moreover have "length (drop ?m (pw_from p)) < k" using m False Suc.prems(2) by (cases "pw_from p") auto
    ultimately show ?thesis using Suc.IH [of ?q] Suc.prems(1) by (simp del: pipe_round.simps)
  qed
qed simp

subsection \<open>Properties\<close>


end
