(* ===== verification/Tcp_Clients.thy ===== *)
theory Tcp_Clients
  imports Tcp_Pipe Lan_Address Proxy_Protocol Origin_Lookup Control_Feed "HOL-Library.Multiset"
begin

section \<open>TCP clients\<close>

text \<open>
  \<^verbatim>\<open>packages/agent_core/src/network/tcp/tcp_clients.rs\<close>: the worker that owns the table of TCP clients and the task it starts for every
  new client, which claims the client at the tunnel server, connects to the local service, sends the proxy header and
  reports back with an event. Sockets, timeouts, cancellation, the rate limiter and name resolution are
  the environment \<open>tcp_env\<close> over a network state \<open>'w\<close>. The event channel is an unbounded list: its bound only delays senders.
\<close>

subsection \<open>Data\<close>

record TcpSettings =
  ts_new_client_ratelimit :: u32
  ts_new_client_ratelimit_burst :: u32
  ts_tcp_no_delay :: bool

definition TcpSettings_default :: TcpSettings where
  "TcpSettings_default =
     \<lparr>ts_new_client_ratelimit = 100, ts_new_client_ratelimit_burst = 300, ts_tcp_no_delay = True\<rparr>"

definition tcp_build_quota :: "TcpSettings \<Rightarrow> u32 \<times> u32" where
  "tcp_build_quota s =
     (if ts_new_client_ratelimit s = 0 then 1 else ts_new_client_ratelimit s,
      if ts_new_client_ratelimit_burst s = 0 then 1 else ts_new_client_ratelimit_burst s)"

record TcpErrors =
  new_client_origin_not_found :: IntCounter
  invalid_proto_match :: IntCounter
  new_client_rate_limited :: IntCounter
  new_client_invalid_port_offset :: IntCounter
  new_client_claim_connect_timeout :: IntCounter
  new_client_claim_connect_error :: IntCounter
  new_client_set_tunnel_no_delay_error :: IntCounter
  new_client_send_claim_timeout :: IntCounter
  new_client_send_claim_error :: IntCounter
  new_client_claim_expect_timeout :: IntCounter
  new_client_claim_expect_error :: IntCounter
  new_client_origin_connect_error :: IntCounter
  new_client_origin_connect_timeout :: IntCounter
  new_client_set_origin_no_delay_error :: IntCounter
  new_client_write_proxy_proto_timeout :: IntCounter
  new_client_write_proxy_proto_error :: IntCounter

record TcpTableClient =
  tc_id :: u64
  tc_added_at :: u64
  tc_tunnel_id :: u64
  tc_port_offset :: u16
  tc_source_addr :: SocketAddr
  tc_tunnel_addr :: SocketAddr
  tc_origin_addr :: SocketAddr
  tc_tcp :: TcpClient

record TcpClientDetails =
  td_id :: u64
  td_added_at :: u64
  td_tunnel_id :: u64
  td_port_offset :: u16
  td_source_addr :: SocketAddr
  td_tunnel_addr :: SocketAddr
  td_origin_addr :: SocketAddr
  td_last_use :: TcpClientStat
  td_bytes_written :: TcpClientStat

definition tcp_client_details :: "TcpTableClient \<Rightarrow> TcpClientDetails" where
  "tcp_client_details c =
     \<lparr>td_id = tc_id c, td_added_at = tc_added_at c, td_tunnel_id = tc_tunnel_id c,
      td_port_offset = tc_port_offset c, td_source_addr = tc_source_addr c, td_tunnel_addr = tc_tunnel_addr c,
      td_origin_addr = tc_origin_addr c, td_last_use = client_last_use (tc_tcp c),
      td_bytes_written = client_bytes_written (tc_tcp c)\<rparr>"

datatype tcp_event =
    ClearOld
  | EvNewClient NewClient
  | ConnectedClient TcpTableClient
  | GetDetails

record TcpWorker =
  tw_lookup :: OriginLookup
  tw_settings :: TcpSettings
  tw_stats :: AgentStats
  tw_clients :: "TcpTableClient list"
  tw_next_client_id :: u64

definition TcpWorker_new :: "OriginLookup \<Rightarrow> TcpSettings \<Rightarrow> AgentStats \<Rightarrow> TcpWorker" where
  "TcpWorker_new lookup settings stats =
     \<lparr>tw_lookup = lookup, tw_settings = settings, tw_stats = stats, tw_clients = [], tw_next_client_id = 1\<rparr>"

subsection \<open>The environment\<close>

text \<open>
  The outcome of an operation raced against a timeout and the cancellation of the task. \<open>te_within\<close> runs a connection attempt for
  at most the given seconds; \<open>te_delivered\<close> is false when the task is cancelled while it waits for room in the event channel;
  \<open>te_drop_client\<close> drops a client and so cancels its pipes; \<open>te_write_all\<close> and \<open>te_read_exact\<close> are \<^verbatim>\<open>write_all\<close> and \<^verbatim>\<open>read_exact\<close> under such a race.
\<close>

datatype 'a timed = Cancel | Timeout | IoErr | Completed 'a

record ('w, 'e, 'k, 's) tcp_env =
  te_net :: "('w, 'e, 'k, 's) tcp_net"
  te_within :: "nat \<Rightarrow> ('w \<Rightarrow> ('e + 's) \<times> 'w) \<Rightarrow> 'w \<Rightarrow> 's timed \<times> 'w"
  te_write_all :: "nat \<Rightarrow> 's \<Rightarrow> bytes \<Rightarrow> 'w \<Rightarrow> unit timed \<times> 'w"
  te_read_exact :: "nat \<Rightarrow> 's \<Rightarrow> nat \<Rightarrow> 'w \<Rightarrow> bytes timed \<times> 'w"
  te_set_nodelay :: "'s \<Rightarrow> bool \<Rightarrow> 'w \<Rightarrow> bool \<times> 'w"
  te_start_pipes :: "'s \<Rightarrow> 's \<Rightarrow> 'w \<Rightarrow> 'w"
  te_drop_client :: "u64 \<Rightarrow> 'w \<Rightarrow> 'w"
  te_limiter_ok :: "'w \<Rightarrow> bool \<times> 'w"
  te_resolve_host :: "'w \<Rightarrow> string \<Rightarrow> u16 \<Rightarrow> 'e + SocketAddr list"
  te_delivered :: "'w \<Rightarrow> bool"
  te_now :: "'w \<Rightarrow> u64"

subsection \<open>The task of a new client\<close>

record connect_job =
  job_client_id :: u64
  job_details :: NewClient
  job_found :: OriginResource
  job_header :: ProxyProtocolHeader
  job_no_delay :: bool

datatype job_result = JobCancelled | JobFailed | JobConnected TcpTableClient

definition stage ::
  "'a timed \<times> 'w \<Rightarrow> (TcpErrors \<Rightarrow> TcpErrors) \<Rightarrow> (TcpErrors \<Rightarrow> TcpErrors) \<Rightarrow> TcpErrors \<Rightarrow>
   ('a \<Rightarrow> TcpErrors \<Rightarrow> 'w \<Rightarrow> job_result \<times> TcpErrors \<times> 'w) \<Rightarrow> job_result \<times> TcpErrors \<times> 'w" where
  "stage rw on_timeout on_error errs k = (case rw of
     (Cancel, w) \<Rightarrow> (JobCancelled, errs, w)
   | (Timeout, w) \<Rightarrow> (JobFailed, on_timeout errs, w)
   | (IoErr, w) \<Rightarrow> (JobFailed, on_error errs, w)
   | (Completed x, w) \<Rightarrow> k x errs w)"

definition set_no_delay ::
  "('w, 'e, 'k, 's) tcp_env \<Rightarrow> 's \<Rightarrow> bool \<Rightarrow> (TcpErrors \<Rightarrow> TcpErrors) \<Rightarrow> TcpErrors \<Rightarrow> 'w \<Rightarrow>
   (TcpErrors \<Rightarrow> 'w \<Rightarrow> job_result \<times> TcpErrors \<times> 'w) \<Rightarrow> job_result \<times> TcpErrors \<times> 'w" where
  "set_no_delay env s b on_error errs w k = (case te_set_nodelay env s b w of
     (True, w') \<Rightarrow> k errs w' | (False, w') \<Rightarrow> k (on_error errs) w')"

definition header_bytes :: "unit put \<Rightarrow> bytes" where
  "header_bytes f = (case f (vec_sink []) of Inr (_, s) \<Rightarrow> written s | Inl _ \<Rightarrow> [])"

definition write_proxy_header ::
  "('w, 'e, 'k, 's) tcp_env \<Rightarrow> ProxyProtocol option \<Rightarrow> ProxyProtocolHeader \<Rightarrow> 's \<Rightarrow> 'w \<Rightarrow> unit timed \<times> 'w" where
  "write_proxy_header env proto header origin_stream w = (case proto of
     Some ProxyProtocolV1 \<Rightarrow> te_write_all env 2 origin_stream (header_bytes (write_v1_tcp header)) w
   | Some ProxyProtocolV2 \<Rightarrow> te_write_all env 2 origin_stream (header_bytes (write_v2_tcp header)) w
   | None \<Rightarrow> (Completed (), w))"

definition connect_task ::
  "byteorder \<Rightarrow> ('w, 'e, 'k, 's) tcp_env \<Rightarrow> connect_job \<Rightarrow> TcpErrors \<Rightarrow> 'w \<Rightarrow> job_result \<times> TcpErrors \<times> 'w" where
  "connect_task bo env job errs w0 =
     (let details = job_details job; found = job_found job; claim = nc_claim_instructions details in
      case resolve_local (te_resolve_host env w0) found (nc_port_offset details) of
        None \<Rightarrow> (JobFailed, new_client_invalid_port_offset_update counter_inc errs, w0)
      | Some origin_addr \<Rightarrow>
        stage (te_within env 8 (tcp_stream_connect (te_net env) (claim_address claim)) w0)
          (new_client_claim_connect_timeout_update counter_inc)
          (new_client_claim_connect_error_update counter_inc) errs (\<lambda>tunn_stream errs w.
        set_no_delay env tunn_stream (job_no_delay job)
          (new_client_set_tunnel_no_delay_error_update counter_inc) errs w (\<lambda>errs w.
        stage (te_write_all env 8 tunn_stream (claim_token claim) w)
          (new_client_send_claim_timeout_update counter_inc)
          (new_client_send_claim_error_update counter_inc) errs (\<lambda>_ errs w.
        stage (te_read_exact env 4 tunn_stream 8 w)
          (new_client_claim_expect_timeout_update counter_inc)
          (new_client_claim_expect_error_update counter_inc) errs (\<lambda>_ errs w.
        stage (te_within env 2 (tcp_socket bo (te_net env) True (nc_peer_addr details) origin_addr) w)
          (new_client_origin_connect_timeout_update counter_inc)
          (new_client_origin_connect_error_update counter_inc) errs (\<lambda>origin_stream errs w.
        set_no_delay env origin_stream True
          (new_client_set_origin_no_delay_error_update counter_inc) errs w (\<lambda>errs w.
        stage (write_proxy_header env (res_proxy_protocol found) (job_header job) origin_stream w)
          (new_client_write_proxy_proto_timeout_update counter_inc)
          (new_client_write_proxy_proto_error_update counter_inc) errs (\<lambda>_ errs w.
        let w' = te_start_pipes env tunn_stream origin_stream w in
        if \<not> te_delivered env w' then (JobCancelled, errs, te_drop_client env (job_client_id job) w')
        else
          (JobConnected
             \<lparr>tc_id = job_client_id job, tc_added_at = te_now env w', tc_tunnel_id = nc_tunnel_id details,
              tc_port_offset = nc_port_offset details, tc_source_addr = nc_peer_addr details,
              tc_tunnel_addr = nc_connect_addr details, tc_origin_addr = origin_addr,
              tc_tcp = create_with_stats (te_now env w')\<rparr>, errs, w')))))))))"

subsection \<open>The worker\<close>

fun proxy_header_of :: "SocketAddr \<Rightarrow> SocketAddr \<Rightarrow> ProxyProtocolHeader option" where
  "proxy_header_of (SockV4 peer) (SockV4 tunn) = Some (AfInet (v4_ip peer) (v4_ip tunn) (v4_port peer) (v4_port tunn))"
| "proxy_header_of (SockV6 peer) (SockV6 tunn) = Some (AfInet6 (v6_ip peer) (v6_ip tunn) (v6_port peer) (v6_port tunn))"
| "proxy_header_of _ _ = None"

definition worker_new_client ::
  "NewClient \<Rightarrow> TcpWorker \<Rightarrow> TcpErrors \<Rightarrow> connect_job option \<times> TcpWorker \<times> TcpErrors" where
  "worker_new_client details wk errs =
     (let client_id = tw_next_client_id wk;
          wk1 = wk\<lparr>tw_next_client_id := client_id + 1\<rparr> in
      case origin_lookup (tw_lookup wk1) (nc_tunnel_id details) True of
        None \<Rightarrow> (None, wk1, new_client_origin_not_found_update counter_inc errs)
      | Some found \<Rightarrow>
          (case proxy_header_of (nc_peer_addr details) (nc_connect_addr details) of
             None \<Rightarrow> (None, wk1, invalid_proto_match_update counter_inc errs)
           | Some header \<Rightarrow>
               (Some \<lparr>job_client_id = client_id, job_details = details, job_found = found, job_header = header,
                      job_no_delay = ts_tcp_no_delay (tw_settings wk1)\<rparr>, wk1, errs)))"

definition update_tcp_count :: "TcpWorker \<Rightarrow> TcpWorker" where
  "update_tcp_count wk = wk\<lparr>tw_stats := set_tcp (of_nat (length (tw_clients wk))) (tw_stats wk)\<rparr>"

definition worker_connected :: "TcpTableClient \<Rightarrow> TcpWorker \<Rightarrow> TcpWorker" where
  "worker_connected c wk = update_tcp_count (wk\<lparr>tw_clients := tw_clients wk @ [c]\<rparr>)"

definition tcp_client_keep :: "u64 \<Rightarrow> TcpTableClient \<Rightarrow> bool" where
  "tcp_client_keep now c =
     (let last_use = client_last_use (tc_tcp c);
          since_tunn = max now (stat_tunn_to_origin last_use) - stat_tunn_to_origin last_use;
          since_orig = max now (stat_origin_to_tunn last_use) - stat_origin_to_tunn last_use
      in if 90000 < since_tunn \<and> 30000 < since_orig then False
         else if 90000 < since_orig \<and> 30000 < since_tunn then False
         else if 60000 < since_tunn \<and> 60000 < since_orig then False
         else True)"

definition worker_clear_old ::
  "('w, 'e, 'k, 's) tcp_env \<Rightarrow> u64 \<Rightarrow> TcpWorker \<Rightarrow> 'w \<Rightarrow> TcpWorker \<times> 'w" where
  "worker_clear_old env now wk w =
     (update_tcp_count (wk\<lparr>tw_clients := filter (tcp_client_keep now) (tw_clients wk)\<rparr>),
      fold (te_drop_client env) (map tc_id (filter (\<lambda>c. \<not> tcp_client_keep now c) (tw_clients wk))) w)"

definition worker_get_details :: "TcpWorker \<Rightarrow> TcpClientDetails list" where
  "worker_get_details wk = map tcp_client_details (tw_clients wk)"

text \<open>The worker, its event channel, the running tasks and the network.\<close>

record 'w tcp_system =
  sy_worker :: TcpWorker
  sy_errors :: TcpErrors
  sy_queue :: "tcp_event list"
  sy_jobs :: "connect_job list"
  sy_world :: 'w

definition handle_new_client ::
  "('w, 'e, 'k, 's) tcp_env \<Rightarrow> NewClient \<Rightarrow> 'w tcp_system \<Rightarrow> 'w tcp_system" where
  "handle_new_client env new_client sy = (case te_limiter_ok env (sy_world sy) of
     (False, w) \<Rightarrow> sy\<lparr>sy_errors := new_client_rate_limited_update counter_inc (sy_errors sy), sy_world := w\<rparr>
   | (True, w) \<Rightarrow> sy\<lparr>sy_queue := sy_queue sy @ [EvNewClient new_client], sy_world := w\<rparr>)"

fun worker_event :: "('w, 'e, 'k, 's) tcp_env \<Rightarrow> tcp_event \<Rightarrow> 'w tcp_system \<Rightarrow> 'w tcp_system" where
  "worker_event env (EvNewClient details) sy =
     (case worker_new_client details (sy_worker sy) (sy_errors sy) of (job, wk, errs) \<Rightarrow>
        sy\<lparr>sy_worker := wk, sy_errors := errs,
           sy_jobs := (case job of None \<Rightarrow> sy_jobs sy | Some j \<Rightarrow> sy_jobs sy @ [j])\<rparr>)"
| "worker_event env GetDetails sy = sy"
| "worker_event env (ConnectedClient c) sy = sy\<lparr>sy_worker := worker_connected c (sy_worker sy)\<rparr>"
| "worker_event env ClearOld sy =
     (case worker_clear_old env (te_now env (sy_world sy)) (sy_worker sy) (sy_world sy) of (wk, w) \<Rightarrow>
        sy\<lparr>sy_worker := wk, sy_world := w\<rparr>)"

definition finish_job ::
  "byteorder \<Rightarrow> ('w, 'e, 'k, 's) tcp_env \<Rightarrow> connect_job \<Rightarrow> 'w tcp_system \<Rightarrow> job_result \<times> 'w tcp_system" where
  "finish_job bo env job sy = (case connect_task bo env job (sy_errors sy) (sy_world sy) of (r, errs, w) \<Rightarrow>
     (r, sy\<lparr>sy_jobs := remove1 job (sy_jobs sy), sy_errors := errs, sy_world := w,
            sy_queue := (case r of JobConnected c \<Rightarrow> sy_queue sy @ [ConnectedClient c] | _ \<Rightarrow> sy_queue sy)\<rparr>))"

subsection \<open>Accounting\<close>

text \<open>The number of clients that were refused or failed: every counter but those of \<^verbatim>\<open>set_nodelay\<close>, which do not end the task.\<close>

definition refused :: "TcpErrors \<Rightarrow> u64" where
  "refused e = new_client_origin_not_found e + invalid_proto_match e + new_client_rate_limited e +
     new_client_invalid_port_offset e + new_client_claim_connect_timeout e + new_client_claim_connect_error e +
     new_client_send_claim_timeout e + new_client_send_claim_error e + new_client_claim_expect_timeout e +
     new_client_claim_expect_error e + new_client_origin_connect_error e + new_client_origin_connect_timeout e +
     new_client_write_proxy_proto_timeout e + new_client_write_proxy_proto_error e"

lemma refused_inc [simp]:
  "refused (new_client_origin_not_found_update counter_inc e) = refused e + 1"
  "refused (invalid_proto_match_update counter_inc e) = refused e + 1"
  "refused (new_client_rate_limited_update counter_inc e) = refused e + 1"
  "refused (new_client_invalid_port_offset_update counter_inc e) = refused e + 1"
  "refused (new_client_claim_connect_timeout_update counter_inc e) = refused e + 1"
  "refused (new_client_claim_connect_error_update counter_inc e) = refused e + 1"
  "refused (new_client_send_claim_timeout_update counter_inc e) = refused e + 1"
  "refused (new_client_send_claim_error_update counter_inc e) = refused e + 1"
  "refused (new_client_claim_expect_timeout_update counter_inc e) = refused e + 1"
  "refused (new_client_claim_expect_error_update counter_inc e) = refused e + 1"
  "refused (new_client_origin_connect_error_update counter_inc e) = refused e + 1"
  "refused (new_client_origin_connect_timeout_update counter_inc e) = refused e + 1"
  "refused (new_client_write_proxy_proto_timeout_update counter_inc e) = refused e + 1"
  "refused (new_client_write_proxy_proto_error_update counter_inc e) = refused e + 1"
  by (simp_all add: refused_def counter_inc_def)

lemma refused_no_delay [simp]:
  "refused (new_client_set_tunnel_no_delay_error_update f e) = refused e"
  "refused (new_client_set_origin_no_delay_error_update f e) = refused e"
  by (simp_all add: refused_def)

definition accounts :: "(TcpTableClient \<Rightarrow> bool) \<Rightarrow> u64 \<Rightarrow> job_result \<times> TcpErrors \<times> 'w \<Rightarrow> bool" where
  "accounts P n = (\<lambda>(r, errs, w). refused errs = (if r = JobFailed then n + 1 else n) \<and>
     (case r of JobConnected c \<Rightarrow> P c | _ \<Rightarrow> True))"

lemma accounts_stage:
  assumes "refused errs = n" "\<And>e. refused (on_timeout e) = refused e + 1" "\<And>e. refused (on_error e) = refused e + 1"
    "\<And>x e w. refused e = n \<Longrightarrow> accounts P n (k x e w)"
  shows "accounts P n (stage rw on_timeout on_error errs k)"
proof -
  obtain r w where rw: "rw = (r, w)" by fastforce
  show ?thesis
  proof (cases r)
    case (Completed x)
    then show ?thesis using assms(4) [OF assms(1)] by (simp add: stage_def rw)
  qed (use assms in \<open>simp_all add: stage_def accounts_def rw\<close>)
qed

lemma accounts_no_delay:
  assumes "refused errs = n" "\<And>e. refused (on_error e) = refused e" "\<And>e w. refused e = n \<Longrightarrow> accounts P n (k e w)"
  shows "accounts P n (set_no_delay env s b on_error errs w k)"
  using assms by (auto simp: set_no_delay_def split: prod.splits bool.splits)

text \<open>The client a task reports is the one it was started for, connected to where its tunnel points.\<close>

definition client_of_job :: "(string \<Rightarrow> u16 \<Rightarrow> 'e + SocketAddr list) \<Rightarrow> connect_job \<Rightarrow> TcpTableClient \<Rightarrow> bool" where
  "client_of_job lookup_host job c \<longleftrightarrow>
     tc_id c = job_client_id job \<and> tc_tunnel_id c = nc_tunnel_id (job_details job) \<and>
     tc_source_addr c = nc_peer_addr (job_details job) \<and> tc_tunnel_addr c = nc_connect_addr (job_details job) \<and>
     resolve_local lookup_host (job_found job) (nc_port_offset (job_details job)) = Some (tc_origin_addr c)"

lemma connect_task_accounts:
  "accounts (client_of_job (te_resolve_host env w) job) (refused errs) (connect_task bo env job errs w)"
proof (cases "resolve_local (te_resolve_host env w) (job_found job) (nc_port_offset (job_details job))")
  case None
  then show ?thesis by (simp add: connect_task_def Let_def accounts_def)
next
  case (Some origin_addr)
  show ?thesis
    unfolding connect_task_def Let_def Some option.case
    by (rule accounts_stage accounts_no_delay refl refused_inc refused_no_delay | assumption)+
      (use Some in \<open>auto simp: accounts_def client_of_job_def\<close>)
qed

subsection \<open>Runs\<close>

text \<open>
  All runs of the system: messages arrive, the worker takes events and clears old clients, tasks finish in any order, traffic and the network
  change what they like. \<open>tcp_reach bo env n c d sy\<close>: \<open>n\<close> clients were announced so far, \<open>c\<close> of their tasks were cancelled and \<open>d\<close> of the
  clients that got into the table were cleared.
\<close>

inductive tcp_reach ::
  "byteorder \<Rightarrow> ('w, 'e, 'k, 's) tcp_env \<Rightarrow> nat \<Rightarrow> nat \<Rightarrow> nat \<Rightarrow> 'w tcp_system \<Rightarrow> bool" for bo env where
  start: "refused errs = 0 \<Longrightarrow> active_tcp stats = 0 \<Longrightarrow> tcp_reach bo env 0 0 0
    \<lparr>sy_worker = TcpWorker_new lookup settings stats, sy_errors = errs, sy_queue = [], sy_jobs = [], sy_world = w\<rparr>"
| announced: "tcp_reach bo env n c d sy \<Longrightarrow> tcp_reach bo env (Suc n) c d (handle_new_client env nc sy)"
| asked: "tcp_reach bo env n c d sy \<Longrightarrow> tcp_reach bo env n c d (sy\<lparr>sy_queue := sy_queue sy @ [GetDetails]\<rparr>)"
| event: "tcp_reach bo env n c d sy \<Longrightarrow> sy_queue sy = e # q \<Longrightarrow>
    tcp_reach bo env n c d (worker_event env e (sy\<lparr>sy_queue := q\<rparr>))"
| tick: "tcp_reach bo env n c d sy \<Longrightarrow>
    tcp_reach bo env n c (d + length (filter (\<lambda>x. \<not> tcp_client_keep (te_now env (sy_world sy)) x) (tw_clients (sy_worker sy))))
      (worker_event env ClearOld sy)"
| finished: "tcp_reach bo env n c d sy \<Longrightarrow> job \<in> set (sy_jobs sy) \<Longrightarrow> finish_job bo env job sy = (r, sy') \<Longrightarrow>
    tcp_reach bo env n (if r = JobCancelled then Suc c else c) d sy'"
| traffic: "tcp_reach bo env n c d sy \<Longrightarrow> tcp_reach bo env n c d
    (sy\<lparr>sy_worker := (sy_worker sy)\<lparr>tw_clients := map (\<lambda>x. x\<lparr>tc_tcp := f x\<rparr>) (tw_clients (sy_worker sy))\<rparr>\<rparr>)"
| network: "tcp_reach bo env n c d sy \<Longrightarrow> tcp_reach bo env n c d
    (sy\<lparr>sy_world := w, sy_worker := (sy_worker sy)\<lparr>tw_lookup := lookup\<rparr>\<rparr>)"

fun announced_events :: "tcp_event list \<Rightarrow> nat" where
  "announced_events [] = 0"
| "announced_events (EvNewClient _ # es) = Suc (announced_events es)"
| "announced_events (_ # es) = announced_events es"

fun connected_events :: "tcp_event list \<Rightarrow> u64 list" where
  "connected_events [] = []"
| "connected_events (ConnectedClient c # es) = tc_id c # connected_events es"
| "connected_events (_ # es) = connected_events es"

lemma events_append [simp]:
  "announced_events (xs @ ys) = announced_events xs + announced_events ys"
  "connected_events (xs @ ys) = connected_events xs @ connected_events ys"
  by (induction xs rule: announced_events.induct) auto

lemma remaining_events:
  "announced_events (e # es) = (case e of EvNewClient _ \<Rightarrow> 1 | _ \<Rightarrow> 0) + announced_events es"
  "connected_events (e # es) = (case e of ConnectedClient c \<Rightarrow> [tc_id c] | _ \<Rightarrow> []) @ connected_events es"
  by (cases e; simp)+

text \<open>The ids in use: by running tasks, by reported clients and in the table.\<close>

definition live_ids :: "'w tcp_system \<Rightarrow> u64 list" where
  "live_ids sy = map job_client_id (sy_jobs sy) @ connected_events (sy_queue sy) @ map tc_id (tw_clients (sy_worker sy))"

definition tcp_inv :: "nat \<Rightarrow> nat \<Rightarrow> nat \<Rightarrow> 'w tcp_system \<Rightarrow> bool" where
  "tcp_inv n c d sy \<longleftrightarrow>
     of_nat n = refused (sy_errors sy) + of_nat (announced_events (sy_queue sy) + length (live_ids sy) + c + d) \<and>
     ClearOld \<notin> set (sy_queue sy) \<and>
     active_tcp (tw_stats (sy_worker sy)) = of_nat (length (tw_clients (sy_worker sy))) \<and>
     (n < 2 ^ 64 - 1 \<longrightarrow> distinct (live_ids sy) \<and> (\<forall>i \<in> set (live_ids sy). i < tw_next_client_id (sy_worker sy)) \<and>
        unat (tw_next_client_id (sy_worker sy)) + announced_events (sy_queue sy) \<le> n + 1)"

lemma distinct_submset:
  assumes "mset xs \<subseteq># mset ys" "distinct ys"
  shows "distinct xs"
  unfolding distinct_count_atmost_1
proof
  fix a
  have "count (mset xs) a \<le> count (mset ys) a" using assms(1) by (simp add: subseteq_mset_def)
  also have "\<dots> \<le> 1" using assms(2) by (simp add: distinct_count_atmost_1)
  finally have "count (mset xs) a \<le> 1" .
  moreover have "1 \<le> count (mset xs) a" if "a \<in> set xs" using that by (simp add: Suc_le_eq)
  moreover have "count (mset xs) a = 0" if "a \<notin> set xs" using that by (simp add: not_in_iff)
  ultimately show "count (mset xs) a = (if a \<in> set xs then 1 else 0)" by (metis le_antisym)
qed

lemma tcp_inv_ids:
  assumes "tcp_inv n c d sy" "n < 2 ^ 64 - 1"
  shows "distinct (live_ids sy)" "\<And>i. i \<in> set (live_ids sy) \<Longrightarrow> i < tw_next_client_id (sy_worker sy)"
    "unat (tw_next_client_id (sy_worker sy)) + announced_events (sy_queue sy) \<le> n + 1"
  using assms by (simp_all add: tcp_inv_def)

text \<open>A step that hands out no id keeps the ids apart.\<close>

lemma tcp_inv_shrink:
  assumes inv: "tcp_inv n c d sy" and sub: "mset (live_ids sy') \<subseteq># mset (live_ids sy)"
    and nxt: "tw_next_client_id (sy_worker sy') = tw_next_client_id (sy_worker sy)"
    and queue: "announced_events (sy_queue sy') = announced_events (sy_queue sy)" "ClearOld \<notin> set (sy_queue sy')"
    and stats: "active_tcp (tw_stats (sy_worker sy')) = of_nat (length (tw_clients (sy_worker sy')))"
    and count: "refused (sy_errors sy') + of_nat (length (live_ids sy') + c' + d') =
      refused (sy_errors sy) + of_nat (length (live_ids sy) + c + d)"
  shows "tcp_inv n c' d' sy'"
proof -
  have "set (live_ids sy') \<subseteq> set (live_ids sy)" using set_mset_mono [OF sub] by simp
  moreover have "of_nat n = refused (sy_errors sy') + of_nat (announced_events (sy_queue sy') + length (live_ids sy') + c' + d')"
    using inv count by (simp add: tcp_inv_def queue algebra_simps)
  ultimately show ?thesis
    using inv distinct_submset [OF sub] by (auto simp: tcp_inv_def nxt queue stats)
qed

lemma tcp_inv_announced: "tcp_inv n c d sy \<Longrightarrow> tcp_inv (Suc n) c d (handle_new_client env nc sy)"
  by (auto simp: tcp_inv_def handle_new_client_def live_ids_def split: prod.splits bool.splits)

lemma tcp_inv_new_client:
  assumes inv: "tcp_inv n c d sy" and q: "sy_queue sy = EvNewClient details # q"
  shows "tcp_inv n c d (worker_event env (EvNewClient details) (sy\<lparr>sy_queue := q\<rparr>))"
proof -
  let ?id = "tw_next_client_id (sy_worker sy)"
  obtain job wk errs where w: "worker_new_client details (sy_worker sy) (sy_errors sy) = (job, wk, errs)"
    by (cases "worker_new_client details (sy_worker sy) (sy_errors sy)") auto
  then have wk: "wk = (sy_worker sy)\<lparr>tw_next_client_id := ?id + 1\<rparr>"
    and job: "(case job of None \<Rightarrow> refused errs = refused (sy_errors sy) + 1
      | Some j \<Rightarrow> errs = sy_errors sy \<and> job_client_id j = ?id)"
    by (auto simp: worker_new_client_def Let_def split: option.splits)
  have "unat ?id + 1 \<le> n + 1" if "n < 2 ^ 64 - 1" using tcp_inv_ids(3) [OF inv that] q by simp
  then have grow: "?id < ?id + 1" "unat (?id + 1) = unat ?id + 1" if "n < 2 ^ 64 - 1"
    using that unat_add_lem_lt [of ?id 1] by (auto simp: word_less_nat_alt)
  have ids: "i < ?id + 1" if "i \<in> set (live_ids sy)" "n < 2 ^ 64 - 1" for i
    using tcp_inv_ids(2) [OF inv that(2,1)] grow(1) [OF that(2)] by (rule less_trans)
  show ?thesis
  proof (cases job)
    case None
    then show ?thesis
      using inv w job ids grow(2) by (auto simp: tcp_inv_def wk q live_ids_def)
  next
    case (Some j)
    have "?id \<notin> set (live_ids sy)" if "n < 2 ^ 64 - 1" using tcp_inv_ids(2) [OF inv that] by blast
    with Some show ?thesis
      using inv w job ids grow by (auto simp: tcp_inv_def wk q live_ids_def)
  qed
qed

lemma tcp_inv_clear_old:
  assumes inv: "tcp_inv n c d sy"
  shows "tcp_inv n c (d + length (filter (\<lambda>x. \<not> tcp_client_keep (te_now env (sy_world sy)) x) (tw_clients (sy_worker sy))))
    (worker_event env ClearOld sy)"
proof -
  let ?keep = "tcp_client_keep (te_now env (sy_world sy))" and ?cs = "tw_clients (sy_worker sy)"
  let ?sy = "worker_event env ClearOld sy" and ?gone = "length (filter (\<lambda>x. \<not> ?keep x) ?cs)"
  have "length (filter ?keep ?cs) + ?gone = length ?cs" by (rule sum_length_filter_compl)
  then have len: "length (live_ids ?sy) + c + (d + ?gone) = length (live_ids sy) + c + d"
    by (simp add: live_ids_def worker_clear_old_def update_tcp_count_def)
  show ?thesis
  proof (rule tcp_inv_shrink [OF inv])
    show "refused (sy_errors ?sy) + of_nat (length (live_ids ?sy) + c + (d + ?gone)) =
      refused (sy_errors sy) + of_nat (length (live_ids sy) + c + d)"
      unfolding len by (simp add: worker_clear_old_def)
    show "mset (live_ids ?sy) \<subseteq># mset (live_ids sy)"
      by (simp add: live_ids_def worker_clear_old_def update_tcp_count_def image_mset_subseteq_mono)
  qed (use inv in \<open>simp_all add: tcp_inv_def worker_clear_old_def update_tcp_count_def set_tcp_def\<close>)
qed

lemma tcp_inv_connected:
  assumes inv: "tcp_inv n c d sy" and q: "sy_queue sy = ConnectedClient x # q"
  shows "tcp_inv n c d (worker_event env (ConnectedClient x) (sy\<lparr>sy_queue := q\<rparr>))"
  by (rule tcp_inv_shrink [OF inv])
    (use inv q in \<open>simp_all add: tcp_inv_def live_ids_def worker_connected_def update_tcp_count_def set_tcp_def\<close>)

lemma tcp_inv_event:
  assumes inv: "tcp_inv n c d sy" and q: "sy_queue sy = e # q"
  shows "tcp_inv n c d (worker_event env e (sy\<lparr>sy_queue := q\<rparr>))"
proof (cases e)
  case ClearOld
  then show ?thesis using inv q by (simp add: tcp_inv_def)
next
  case (EvNewClient details)
  then show ?thesis using tcp_inv_new_client [OF inv] q by simp
next
  case (ConnectedClient x)
  then show ?thesis using tcp_inv_connected [OF inv] q by simp
next
  case GetDetails
  show ?thesis unfolding GetDetails
    by (rule tcp_inv_shrink [OF inv]) (use inv q GetDetails in \<open>simp_all add: tcp_inv_def live_ids_def\<close>)
qed

lemma tcp_inv_finished:
  assumes inv: "tcp_inv n c d sy" and job: "job \<in> set (sy_jobs sy)" and f: "finish_job bo env job sy = (r, sy')"
  shows "tcp_inv n (if r = JobCancelled then Suc c else c) d sy'"
proof -
  obtain errs w where t: "connect_task bo env job (sy_errors sy) (sy_world sy) = (r, errs, w)"
    using f by (cases "connect_task bo env job (sy_errors sy) (sy_world sy)") (auto simp: finish_job_def)
  have acc: "refused errs = (if r = JobFailed then refused (sy_errors sy) + 1 else refused (sy_errors sy))"
    "\<And>x. r = JobConnected x \<Longrightarrow> tc_id x = job_client_id job"
    using connect_task_accounts [of env "sy_world sy" job "sy_errors sy" bo]
    by (auto simp: t accounts_def client_of_job_def)
  have sy': "sy' = sy\<lparr>sy_jobs := remove1 job (sy_jobs sy), sy_errors := errs, sy_world := w,
      sy_queue := (case r of JobConnected x \<Rightarrow> sy_queue sy @ [ConnectedClient x] | _ \<Rightarrow> sy_queue sy)\<rparr>"
    using f by (simp add: finish_job_def t)
  have jobs: "mset (map job_client_id (sy_jobs sy)) = add_mset (job_client_id job) (mset (map job_client_id (remove1 job (sy_jobs sy))))"
    using job by (simp flip: image_mset_add_mset)
  have len: "length (sy_jobs sy) = Suc (length (remove1 job (sy_jobs sy)))"
    using job length_pos_if_in_set [OF job] by (simp add: length_remove1)
  show ?thesis
  proof (rule tcp_inv_shrink [OF inv])
    show "mset (live_ids sy') \<subseteq># mset (live_ids sy)"
      using jobs acc(2) by (cases r) (simp_all add: live_ids_def sy')
    show "refused (sy_errors sy') + of_nat (length (live_ids sy') + (if r = JobCancelled then Suc c else c) + d) =
      refused (sy_errors sy) + of_nat (length (live_ids sy) + c + d)"
      using len acc(1) by (cases r) (simp_all add: live_ids_def sy')
  qed (use inv in \<open>auto simp: tcp_inv_def sy' split: job_result.splits\<close>)
qed

lemma tcp_reach_inv: "tcp_reach bo env n c d sy \<Longrightarrow> tcp_inv n c d sy"
proof (induction rule: tcp_reach.induct)
  case (start errs stats lookup settings w)
  then show ?case by (simp add: tcp_inv_def live_ids_def TcpWorker_new_def)
next
  case (announced n c d sy nc)
  show ?case by (rule tcp_inv_announced [OF announced.IH])
next
  case (asked n c d sy)
  show ?case by (rule tcp_inv_shrink [OF asked.IH]) (use asked.IH in \<open>simp_all add: tcp_inv_def live_ids_def\<close>)
next
  case (event n c d sy e q)
  show ?case by (rule tcp_inv_event [OF event.IH event.hyps(2)])
next
  case (tick n c d sy)
  show ?case by (rule tcp_inv_clear_old [OF tick.IH])
next
  case (finished n c d sy job r sy')
  show ?case by (rule tcp_inv_finished [OF finished.IH finished.hyps(2,3)])
next
  case (traffic n c d sy f)
  show ?case by (rule tcp_inv_shrink [OF traffic.IH]) (use traffic.IH in \<open>simp_all add: tcp_inv_def live_ids_def comp_def\<close>)
next
  case (network n c d sy w lookup)
  show ?case by (rule tcp_inv_shrink [OF network.IH]) (use network.IH in \<open>simp_all add: tcp_inv_def live_ids_def\<close>)
qed

subsection \<open>An example network\<close>

text \<open>Every connection works and every write is logged with the address it goes to.\<close>

definition log_tcp_env :: "((bytes \<times> SocketAddr) list, unit, SocketAddr, SocketAddr) tcp_env" where
  "log_tcp_env =
     \<lparr>te_net = \<lparr>tcp_new_v4 = (\<lambda>w. (Inr (SockV4 (sock_v4 0 0)), w)), tcp_bind = (\<lambda>k a w. (Inr (), w)),
        tcp_connect = (\<lambda>k a w. (Inr a, w)), tcp_stream_connect = (\<lambda>a w. (Inr a, w))\<rparr>,
      te_within = (\<lambda>t f w. case f w of (Inl _, w') \<Rightarrow> (IoErr, w') | (Inr s, w') \<Rightarrow> (Completed s, w')),
      te_write_all = (\<lambda>t s d w. (Completed (), w @ [(d, s)])),
      te_read_exact = (\<lambda>t s n w. (Completed (replicate n 0), w)), te_set_nodelay = (\<lambda>s b w. (True, w)),
      te_start_pipes = (\<lambda>a b w. w), te_drop_client = (\<lambda>i w. w), te_limiter_ok = (\<lambda>w. (True, w)),
      te_resolve_host = (\<lambda>w h p. Inl ()), te_delivered = (\<lambda>w. True), te_now = (\<lambda>w. 100000)\<rparr>"

definition example_new_client :: NewClient where
  "example_new_client =
     \<lparr>nc_connect_addr = SockV4 (sock_v4 0x05060708 25565), nc_peer_addr = SockV4 (sock_v4 0x01020304 9000),
      nc_data_center_id = 3, nc_tunnel_id = 12, nc_port_offset = 0,
      nc_claim_instructions = \<lparr>claim_address = SockV4 (sock_v4 0x05060708 7000), claim_token = [1, 2, 3]\<rparr>\<rparr>"

definition example_tcp_origin :: OriginResource where
  "example_tcp_origin =
     \<lparr>res_tunnel_id = 12, res_proto = Tcp, res_target = TargetPort (IpAddress (IpV4 0x0A000001)) 8080,
      res_port_count = 1, res_proxy_protocol = None\<rparr>"

definition idle_system :: "(bytes \<times> SocketAddr) list tcp_system" where
  "idle_system =
     \<lparr>sy_worker = TcpWorker_new (origin_update [example_tcp_origin] Map.empty) TcpSettings_default AgentStats_new,
      sy_errors = \<lparr>new_client_origin_not_found = 0, invalid_proto_match = 0, new_client_rate_limited = 0,
        new_client_invalid_port_offset = 0, new_client_claim_connect_timeout = 0, new_client_claim_connect_error = 0,
        new_client_set_tunnel_no_delay_error = 0, new_client_send_claim_timeout = 0, new_client_send_claim_error = 0,
        new_client_claim_expect_timeout = 0, new_client_claim_expect_error = 0, new_client_origin_connect_error = 0,
        new_client_origin_connect_timeout = 0, new_client_set_origin_no_delay_error = 0,
        new_client_write_proxy_proto_timeout = 0, new_client_write_proxy_proto_error = 0\<rparr>,
      sy_queue = [], sy_jobs = [], sy_world = []\<rparr>"

definition busy_system :: "(bytes \<times> SocketAddr) list tcp_system" where
  "busy_system = worker_event log_tcp_env (EvNewClient example_new_client)
     ((handle_new_client log_tcp_env example_new_client idle_system)\<lparr>sy_queue := []\<rparr>)"

lemma idle_reach: "tcp_reach be_byteorder log_tcp_env 0 0 0 idle_system"
  unfolding idle_system_def by (rule tcp_reach.start) (simp_all add: refused_def AgentStats_new_def)

lemma busy_reach: "tcp_reach be_byteorder log_tcp_env 1 0 0 busy_system"
proof -
  have "tcp_reach be_byteorder log_tcp_env (Suc 0) 0 0 (handle_new_client log_tcp_env example_new_client idle_system)"
    by (rule tcp_reach.announced [OF idle_reach])
  then show ?thesis unfolding busy_system_def One_nat_def
    by (rule tcp_reach.event) (simp add: handle_new_client_def log_tcp_env_def idle_system_def)
qed

lemma busy_jobs: "map job_client_id (sy_jobs busy_system) = [1]"
  by (simp add: busy_system_def worker_new_client_def handle_new_client_def log_tcp_env_def idle_system_def
    TcpWorker_new_def origin_lookup_def origin_update_def insert_resource_def example_tcp_origin_def example_new_client_def Let_def)

subsection \<open>Properties\<close>

text \<open>
  C18: No TCP client gets lost: in every state the system can reach, whatever the order of messages, tasks, cancellations and clearings, the announced
  clients are exactly those refused or failed (each counted once by one error counter), those still waiting, being connected, reported or in the
  table, those whose task was cancelled and those cleared for inactivity. The agent's count of active TCP clients is the size of the table.
\<close>

theorem tcp_clients_accounted:
  assumes "tcp_reach bo env n c d sy"
  shows "of_nat n = refused (sy_errors sy) + of_nat (announced_events (sy_queue sy) + length (sy_jobs sy) +
      length (connected_events (sy_queue sy)) + length (tw_clients (sy_worker sy)) + c + d) \<and>
    active_tcp (tw_stats (sy_worker sy)) = of_nat (length (tw_clients (sy_worker sy)))"
  using tcp_reach_inv [OF assms] by (simp_all add: tcp_inv_def live_ids_def)

theorem tcp_clients_accounted_witness:
  "(1 :: u64) = refused (sy_errors busy_system) + of_nat (announced_events (sy_queue busy_system) + length (sy_jobs busy_system) +
      length (connected_events (sy_queue busy_system)) + length (tw_clients (sy_worker busy_system)) + 0 + 0) \<and>
   length (sy_jobs busy_system) = 1"
proof -
  have "length (sy_jobs busy_system) = 1" using arg_cong [OF busy_jobs, of length] by simp
  then show ?thesis using tcp_clients_accounted [OF busy_reach] by simp
qed

text \<open>
  TCP clients have different ids: as long as fewer than \<open>2 ^ 64 - 1\<close> clients were announced, no two of the running tasks, the reported clients and
  the clients of the table share an id.
\<close>

theorem tcp_client_ids_unique:
  assumes "tcp_reach bo env n c d sy" "n < 2 ^ 64 - 1"
  shows "distinct (map job_client_id (sy_jobs sy) @ connected_events (sy_queue sy) @ map tc_id (tw_clients (sy_worker sy)))"
  using tcp_inv_ids(1) [OF tcp_reach_inv [OF assms(1)] assms(2)] unfolding live_ids_def .

theorem tcp_client_ids_unique_witness:
  "distinct (map job_client_id (sy_jobs busy_system) @ connected_events (sy_queue busy_system) @
     map tc_id (tw_clients (sy_worker busy_system)))"
  by (rule tcp_client_ids_unique [OF busy_reach]) simp

text \<open>
  The task of a new client ends in one of three ways. It reports a client, which then has the id, tunnel, peer and public address it was started
  with and is connected to the local address its port offset resolves to, and no error counter for ended tasks moves; it is cancelled, and
  none moves; or it fails, and exactly one of them goes up by one.
\<close>

theorem tcp_connect_task_outcome:
  "case connect_task bo env job errs w of (r, errs', w') \<Rightarrow> (case r of
       JobConnected c \<Rightarrow> refused errs' = refused errs \<and> tc_id c = job_client_id job \<and>
         tc_tunnel_id c = nc_tunnel_id (job_details job) \<and> tc_source_addr c = nc_peer_addr (job_details job) \<and>
         tc_tunnel_addr c = nc_connect_addr (job_details job) \<and>
         resolve_local (te_resolve_host env w) (job_found job) (nc_port_offset (job_details job)) = Some (tc_origin_addr c)
     | JobCancelled \<Rightarrow> refused errs' = refused errs
     | JobFailed \<Rightarrow> refused errs' = refused errs + 1)"
  using connect_task_accounts [of env w job errs bo]
  by (auto simp: accounts_def client_of_job_def split: job_result.splits prod.splits)

text \<open>
  \<^verbatim>\<open>ClearOld\<close> keeps exactly the clients that are not idle, in their order, and reports the number that is left. A client is idle
  when one direction has been silent for more than 90 seconds and the other for more than 30, or both for more than 60; a direction whose pipe has
  ended counts as silent since time 0, and a time in the future as just now.
\<close>

theorem tcp_clear_old_exact:
  "let wk' = fst (worker_clear_old env now wk w);
       silent = (\<lambda>p. unat now - (if pipe_is_closed p then 0 else unat (last_activity_ts p)));
       idle = (\<lambda>c. let t = silent (tunn_to_origin (tc_tcp c)); r = silent (origin_to_tunn (tc_tcp c))
                   in 90000 < max t r \<and> 30000 < min t r \<or> 60000 < min t r) in
   tw_clients wk' = filter (\<lambda>c. \<not> idle c) (tw_clients wk) \<and>
   active_tcp (tw_stats wk') = of_nat (length (tw_clients wk'))"
proof -
  define silent where "silent = (\<lambda>p. unat now - (if pipe_is_closed p then 0 else unat (last_activity_ts p)))"
  have "unat (max now t - t) = unat now - unat t" for t :: u64
    by (cases "now \<le> t") (auto simp: max_def unat_sub word_le_nat_alt)
  then have since: "unat (max now (last_activity p) - last_activity p) = silent p" for p
    by (simp add: silent_def last_activity_def pipe_is_closed_def)
  have "tcp_client_keep now c \<longleftrightarrow>
      \<not> (let t = silent (tunn_to_origin (tc_tcp c)); r = silent (origin_to_tunn (tc_tcp c))
         in 90000 < max t r \<and> 30000 < min t r \<or> 60000 < min t r)" for c
    by (auto simp: tcp_client_keep_def client_last_use_def word_less_nat_alt since Let_def)
  then show ?thesis unfolding silent_def [symmetric]
    by (simp add: worker_clear_old_def update_tcp_count_def set_tcp_def Let_def fun_eq_iff cong: filter_cong)
qed

end
