(* ===== verification/Connected_Control.thy ===== *)
theory Connected_Control
  imports Control_Feed Utils
begin

section \<open>A connection to a control server\<close>

text \<open>
  \<^verbatim>\<open>packages/agent_core/src/agent_control/\<close>: \<^verbatim>\<open>errors.rs\<close>, \<^verbatim>\<open>connected_control.rs\<close> and \<^verbatim>\<open>address_selector.rs\<close>. The
  socket, the clock, the API that signs registrations and the \<^verbatim>\<open>hex\<close> crate are the environment \<open>control_env\<close> over a
  network state \<open>'w\<close>. The callers wrap these operations in \<^verbatim>\<open>try_timeout\<close>, which can end them at any point where they wait: every
  operation of the environment may answer \<open>Elapsed\<close>, and the caller then gets the state as it is at that point.
\<close>

subsection \<open>Errors and the environment\<close>

text \<open>The error part of an API response, of which the agent passes on what it does not handle.\<close>

datatype AuthError =
    AuthRequired | InvalidHeader | AuthInvalidSignature | InvalidTimestamp | InvalidApiKey | InvalidAgentKey | SessionExpired
  | InvalidAuthType | ScopeNotAllowed | NoLongerValid | GuestAccountNotAllowed | EmailMustBeVerified | AccountDoesNotExist
  | AdminOnly | InvalidToken | TotpRequred | NotAllowedWithReadOnly | DefaultAgentBlocked | AgentNotSelfManaged
  | SelfManagedAgentCanOnlyAffectSelf | AccountNotAuthorized

datatype ApiResponseError =
    ApiValidation string
  | ApiPathNotFound string
  | ApiAuth AuthError
  | ApiInternal string

datatype SetupError =
    SetupIoError io_error
  | FailedToConnect
  | ApiFail string
  | SetupApiError ApiResponseError
  | SetupRequestError
  | AttemptingToAuthWithOldFlow
  | FailedToDecodeSignedAgentRegisterHex
  | NoResponseFromAuthenticate
  | RegisterInvalidSignature
  | RegisterUnauthorized
  | SetupTimeout

datatype ControlError =
    ControlIoError io_error
  | InvalidRemote SocketAddr SocketAddr
  | FailedToReadControlFeed io_error
  | ControlTimeout

datatype 'a awaited = Elapsed | Got 'a

text \<open>
  \<open>ce_recv_within\<close> waits for a datagram for the given milliseconds; \<open>Got None\<close> when they pass without one.
\<close>

record ('w, 'io) control_env =
  ce_send_to :: "'io \<Rightarrow> bytes \<Rightarrow> SocketAddr \<Rightarrow> 'w \<Rightarrow> (io_error + nat) awaited \<times> 'w"
  ce_recv_within :: "nat \<Rightarrow> 'io \<Rightarrow> nat \<Rightarrow> 'w \<Rightarrow> (io_error + bytes \<times> SocketAddr) option awaited \<times> 'w"
  ce_sleep :: "nat \<Rightarrow> 'w \<Rightarrow> unit awaited \<times> 'w"
  ce_now :: "'w \<Rightarrow> u64"
  ce_authenticate :: "Pong \<Rightarrow> 'w \<Rightarrow> (SetupError + string) awaited \<times> 'w"
  ce_get_control_addresses :: "'w \<Rightarrow> (SetupError + SocketAddr list) awaited \<times> 'w"
  ce_create_io :: "'w \<Rightarrow> (SetupError + 'io) awaited \<times> 'w"
  ce_hex_decode :: "string \<Rightarrow> bytes option"

fun try_timeout :: "'e \<Rightarrow> ('e + 'a) awaited \<Rightarrow> 'e + 'a" where
  "try_timeout timeout Elapsed = Inl timeout"
| "try_timeout timeout (Got r) = r"

subsection \<open>Sending and receiving\<close>

record 'io ConnectedControl =
  control_addr :: SocketAddr
  packet_io :: 'io
  pong_latest :: Pong
  buffer :: bytes

definition ConnectedControl_new :: "SocketAddr \<Rightarrow> 'io \<Rightarrow> Pong \<Rightarrow> 'io ConnectedControl" where
  "ConnectedControl_new addr udp pong = \<lparr>control_addr = addr, packet_io = udp, pong_latest = pong, buffer = []\<rparr>"

definition vec_resize :: "nat \<Rightarrow> 'a \<Rightarrow> 'a list \<Rightarrow> 'a list" where
  "vec_resize n x xs = take n xs @ replicate (n - length xs) x"

definition conn_send ::
  "('w, 'io) control_env \<Rightarrow> writer \<Rightarrow> 'io ConnectedControl \<Rightarrow> 'w \<Rightarrow>
   (io_error + unit) awaited \<times> 'io ConnectedControl \<times> 'w" where
  "conn_send env msg conn w = (case msg (vec_sink []) of
     Inl e \<Rightarrow> (Got (Inl e), conn\<lparr>buffer := []\<rparr>, w)
   | Inr (_, s) \<Rightarrow>
       let conn1 = conn\<lparr>buffer := written s\<rparr> in
       (case ce_send_to env (packet_io conn1) (buffer conn1) (control_addr conn1) w of
          (Elapsed, w') \<Rightarrow> (Elapsed, conn1, w')
        | (Got (Inl e), w') \<Rightarrow> (Got (Inl e), conn1, w')
        | (Got (Inr _), w') \<Rightarrow> (Got (Inr ()), conn1, w')))"

fun feed_pong :: "ControlFeed \<Rightarrow> Pong option" where
  "feed_pong (FeedResponse m) = (case content m of ResPong pong \<Rightarrow> Some pong | _ \<Rightarrow> None)"
| "feed_pong _ = None"

definition conn_recv ::
  "byteorder \<Rightarrow> proto_encoding \<Rightarrow> ('w, 'io) control_env \<Rightarrow> nat \<Rightarrow> 'io ConnectedControl \<Rightarrow> 'w \<Rightarrow>
   (ControlError + ControlFeed) option awaited \<times> 'io ConnectedControl \<times> 'w" where
  "conn_recv bo me env ms conn w =
     (let conn1 = conn\<lparr>buffer := vec_resize 1024 0 (buffer conn)\<rparr> in
      case ce_recv_within env ms (packet_io conn1) 1024 w of
        (Elapsed, w') \<Rightarrow> (Elapsed, conn1, w')
      | (Got None, w') \<Rightarrow> (Got None, conn1, w')
      | (Got (Some (Inl e)), w') \<Rightarrow> (Got (Some (Inl (ControlIoError e))), conn1, w')
      | (Got (Some (Inr (data, remote))), w') \<Rightarrow>
          let received = take 1024 data;
              conn2 = conn1\<lparr>buffer := received @ drop (length received) (buffer conn1)\<rparr> in
          if remote \<noteq> control_addr conn2 then (Got (Some (Inl (InvalidRemote (control_addr conn2) remote))), conn2, w')
          else (case read_ControlFeed bo me received of
                  Inl e \<Rightarrow> (Got (Some (Inl (FailedToReadControlFeed e))), conn2, w')
                | Inr (feed, _) \<Rightarrow>
                    (Got (Some (Inr feed)),
                     (case feed_pong feed of Some pong \<Rightarrow> conn2\<lparr>pong_latest := pong\<rparr> | None \<Rightarrow> conn2), w')))"

subsection \<open>Authentication\<close>

text \<open>The inner loop is left for the next request (\<open>AuthRetry\<close>), with a result, or because the caller's timeout fired.\<close>

datatype auth_step = AuthRetry | AuthDone "SetupError + AgentRegistered" | AuthElapsed

definition write_rpc_request :: "byteorder \<Rightarrow> proto_encoding \<Rightarrow> u64 \<Rightarrow> ControlRequest \<Rightarrow> writer" where
  "write_rpc_request bo me rid req =
     write_ControlRpcMessage me (write_ControlRequest bo me) \<lparr>request_id = rid, content = req\<rparr>"

fun auth_wait ::
  "byteorder \<Rightarrow> proto_encoding \<Rightarrow> ('w, 'io) control_env \<Rightarrow> Pong \<Rightarrow> u64 \<Rightarrow> nat \<Rightarrow> 'io ConnectedControl \<Rightarrow> 'w \<Rightarrow>
   auth_step \<times> 'io ConnectedControl \<times> 'w" where
  "auth_wait bo me env auth_pong rid 0 conn w = (AuthRetry, conn, w)"
| "auth_wait bo me env auth_pong rid (Suc n) conn w = (case conn_recv bo me env 500 conn w of
     (Elapsed, c, w1) \<Rightarrow> (AuthElapsed, c, w1)
   | (Got None, c, w1) \<Rightarrow> auth_wait bo me env auth_pong rid n c w1
   | (Got (Some (Inl _)), c, w1) \<Rightarrow> (AuthRetry, c, w1)
   | (Got (Some (Inr (FeedResponse response))), c, w1) \<Rightarrow>
       if request_id response \<noteq> rid then auth_wait bo me env auth_pong rid n c w1
       else (case content response of
               ResAgentRegistered registered \<Rightarrow> (AuthDone (Inr registered), c, w1)
             | InvalidSignature \<Rightarrow> (AuthDone (Inl RegisterInvalidSignature), c, w1)
             | Unauthorized \<Rightarrow>
                 (case conn_send env (write_rpc_request bo me rid (ReqPing
                    \<lparr>ping_now = ce_now env w1, ping_current_ping = None, ping_session_id = None\<rparr>)) c w1 of
                    (Elapsed, c2, w2) \<Rightarrow> (AuthElapsed, c2, w2)
                  | (Got _, c2, w2) \<Rightarrow> (AuthDone (Inl RegisterUnauthorized), c2, w2))
             | ResPong pong \<Rightarrow>
                 if pong_client_addr pong \<noteq> pong_client_addr auth_pong \<or> pong_tunnel_addr pong \<noteq> pong_tunnel_addr auth_pong
                 then (AuthDone (Inl AttemptingToAuthWithOldFlow), c, w1)
                 else auth_wait bo me env auth_pong rid n c w1
             | RequestQueued \<Rightarrow>
                 (case ce_sleep env 1000 w1 of
                    (Elapsed, w2) \<Rightarrow> (AuthElapsed, c, w2) | (Got _, w2) \<Rightarrow> (AuthRetry, c, w2))
             | _ \<Rightarrow> auth_wait bo me env auth_pong rid n c w1)
   | (Got (Some (Inr _)), c, w1) \<Rightarrow> auth_wait bo me env auth_pong rid n c w1)"

fun auth_rounds ::
  "byteorder \<Rightarrow> proto_encoding \<Rightarrow> ('w, 'io) control_env \<Rightarrow> Pong \<Rightarrow> bytes \<Rightarrow> u64 \<Rightarrow> nat \<Rightarrow> 'io ConnectedControl \<Rightarrow> 'w \<Rightarrow>
   (SetupError + AgentRegistered) awaited \<times> 'io ConnectedControl \<times> 'w" where
  "auth_rounds bo me env auth_pong key rid 0 conn w = (Got (Inl FailedToConnect), conn, w)"
| "auth_rounds bo me env auth_pong key rid (Suc n) conn w =
     (case conn_send env (write_ControlRpcMessage me write_RawSlice \<lparr>request_id = rid, content = key\<rparr>) conn w of
        (Elapsed, c, w1) \<Rightarrow> (Elapsed, c, w1)
      | (Got (Inl e), c, w1) \<Rightarrow> (Got (Inl (SetupIoError e)), c, w1)
      | (Got (Inr _), c, w1) \<Rightarrow>
          (case auth_wait bo me env auth_pong rid 5 c w1 of
             (AuthRetry, c2, w2) \<Rightarrow> auth_rounds bo me env auth_pong key rid n c2 w2
           | (AuthDone r, c2, w2) \<Rightarrow> (Got r, c2, w2)
           | (AuthElapsed, c2, w2) \<Rightarrow> (Elapsed, c2, w2)))"

definition conn_authenticate ::
  "byteorder \<Rightarrow> proto_encoding \<Rightarrow> ('w, 'io) control_env \<Rightarrow> 'io ConnectedControl \<Rightarrow> 'w \<Rightarrow>
   (SetupError + AgentRegistered) awaited \<times> 'io ConnectedControl \<times> 'w" where
  "conn_authenticate bo me env conn w =
     (let auth_pong = pong_latest conn in
      case ce_authenticate env auth_pong w of
        (Elapsed, w1) \<Rightarrow> (Elapsed, conn, w1)
      | (Got (Inl e), w1) \<Rightarrow> (Got (Inl e), conn, w1)
      | (Got (Inr key), w1) \<Rightarrow>
          (case ce_hex_decode env key of
             None \<Rightarrow> (Got (Inl FailedToDecodeSignedAgentRegisterHex), conn, w1)
           | Some reg_bytes \<Rightarrow> auth_rounds bo me env auth_pong reg_bytes (ce_now env w1) 5 conn w1))"

subsection \<open>The address selector\<close>

text \<open>Waiting for the answer to a ping, at most \<open>n\<close> times: \<open>None\<close> when it does not come.\<close>

fun select_wait ::
  "byteorder \<Rightarrow> proto_encoding \<Rightarrow> ('w, 'io) control_env \<Rightarrow> 'io \<Rightarrow> SocketAddr \<Rightarrow> nat \<Rightarrow> 'w \<Rightarrow> Pong option awaited \<times> 'w" where
  "select_wait bo me env io addr 0 w = (Got None, w)"
| "select_wait bo me env io addr (Suc n) w = (case ce_recv_within env 500 io 2048 w of
     (Elapsed, w1) \<Rightarrow> (Elapsed, w1)
   | (Got (Some (Inr (data, peer))), w1) \<Rightarrow>
       if peer \<noteq> addr then select_wait bo me env io addr n w1
       else (case read_ControlFeed bo me (take 2048 data) of
               Inr (FeedResponse msg, _) \<Rightarrow>
                 if request_id msg \<noteq> 1 then select_wait bo me env io addr n w1
                 else (case content msg of
                         ResPong pong \<Rightarrow> (Got (Some pong), w1)
                       | _ \<Rightarrow> select_wait bo me env io addr n w1)
             | _ \<Rightarrow> select_wait bo me env io addr n w1)
   | (Got _, w1) \<Rightarrow> select_wait bo me env io addr n w1)"

fun select_attempts ::
  "byteorder \<Rightarrow> proto_encoding \<Rightarrow> ('w, 'io) control_env \<Rightarrow> 'io \<Rightarrow> SocketAddr \<Rightarrow> nat \<Rightarrow> 'w \<Rightarrow>
   (SetupError + Pong option) awaited \<times> 'w" where
  "select_attempts bo me env io addr 0 w = (Got (Inr None), w)"
| "select_attempts bo me env io addr (Suc n) w =
     (case write_rpc_request bo me 1 (ReqPing
        \<lparr>ping_now = ce_now env w, ping_current_ping = None, ping_session_id = None\<rparr>) (vec_sink []) of
        Inl e \<Rightarrow> (Got (Inl (SetupIoError e)), w)
      | Inr (_, s) \<Rightarrow>
          (case ce_send_to env io (written s) addr w of
             (Elapsed, w1) \<Rightarrow> (Elapsed, w1)
           | (Got (Inl _), w1) \<Rightarrow> (Got (Inr None), w1)
           | (Got (Inr _), w1) \<Rightarrow>
               (case select_wait bo me env io addr (if is_ipv6 addr then 3 else 5) w1 of
                  (Elapsed, w2) \<Rightarrow> (Elapsed, w2)
                | (Got (Some pong), w2) \<Rightarrow> (Got (Inr (Some pong)), w2)
                | (Got None, w2) \<Rightarrow> select_attempts bo me env io addr n w2)))"

fun connect_to_first ::
  "byteorder \<Rightarrow> proto_encoding \<Rightarrow> ('w, 'io) control_env \<Rightarrow> 'io \<Rightarrow> SocketAddr list \<Rightarrow> 'w \<Rightarrow>
   (SetupError + 'io ConnectedControl) awaited \<times> 'w" where
  "connect_to_first bo me env io [] w = (Got (Inl FailedToConnect), w)"
| "connect_to_first bo me env io (addr # options) w =
     (case select_attempts bo me env io addr (if is_ipv6 addr then 1 else 3) w of
        (Elapsed, w1) \<Rightarrow> (Elapsed, w1)
      | (Got (Inl e), w1) \<Rightarrow> (Got (Inl e), w1)
      | (Got (Inr (Some pong)), w1) \<Rightarrow> (Got (Inr (ConnectedControl_new addr io pong)), w1)
      | (Got (Inr None), w1) \<Rightarrow> connect_to_first bo me env io options w1)"

subsection \<open>Laws\<close>

text \<open>
  A connection keeps its server and socket. \<open>heard\<close>: the socket did deliver this message, in a datagram from that server.
\<close>

definition same_peer :: "'io ConnectedControl \<Rightarrow> 'io ConnectedControl \<Rightarrow> bool" where
  "same_peer c d \<longleftrightarrow> control_addr c = control_addr d \<and> packet_io c = packet_io d"

definition heard ::
  "byteorder \<Rightarrow> proto_encoding \<Rightarrow> ('w, 'io) control_env \<Rightarrow> 'io \<Rightarrow> nat \<Rightarrow> SocketAddr \<Rightarrow> ControlFeed \<Rightarrow> bool" where
  "heard bo me env io len addr feed \<longleftrightarrow>
     (\<exists>ms w w' data rest. ce_recv_within env ms io len w = (Got (Some (Inr (data, addr))), w') \<and>
        read_ControlFeed bo me (take len data) = Inr (feed, rest))"

lemma same_peer_refl [simp]: "same_peer c c"
  by (simp add: same_peer_def)

lemma same_peer_trans: "same_peer c d \<Longrightarrow> same_peer d e \<Longrightarrow> same_peer c e"
  by (simp add: same_peer_def)

lemma same_peer_heard:
  "same_peer c d \<Longrightarrow> heard bo me env (packet_io d) len (control_addr d) feed =
     heard bo me env (packet_io c) len (control_addr c) feed"
  by (simp add: same_peer_def)

lemma conn_send_peer: "conn_send env msg conn w = (r, c, w') \<Longrightarrow> same_peer conn c \<and> pong_latest c = pong_latest conn"
  by (auto simp: conn_send_def same_peer_def Let_def split: sum.splits prod.splits awaited.splits)

lemma conn_recv_cases:
  assumes "conn_recv bo me env ms conn w = (r, c, w')"
  shows "same_peer conn c \<and>
    (case r of
       Got (Some (Inr feed)) \<Rightarrow> heard bo me env (packet_io conn) 1024 (control_addr conn) feed \<and>
         pong_latest c = (case feed_pong feed of Some pong \<Rightarrow> pong | None \<Rightarrow> pong_latest conn)
     | _ \<Rightarrow> pong_latest c = pong_latest conn)"
proof -
  obtain x w1 where x: "ce_recv_within env ms (packet_io conn) 1024 w = (x, w1)" by fastforce
  show ?thesis
  proof (cases "\<exists>data. x = Got (Some (Inr (data, control_addr conn)))")
    case True
    then obtain data where "x = Got (Some (Inr (data, control_addr conn)))" by blast
    then show ?thesis using assms x
      by (auto simp: conn_recv_def Let_def same_peer_def heard_def split: sum.splits option.splits) blast+
  next
    case False
    then show ?thesis using assms x
      by (auto simp: conn_recv_def Let_def same_peer_def split: awaited.splits option.splits sum.splits if_splits)
  qed
qed

text \<open>A registration that authentication returns was sent by the server in answer to this request.\<close>

definition auth_sound ::
  "byteorder \<Rightarrow> proto_encoding \<Rightarrow> ('w, 'io) control_env \<Rightarrow> u64 \<Rightarrow> 'io ConnectedControl \<Rightarrow>
   (SetupError + AgentRegistered) awaited \<Rightarrow> 'io ConnectedControl \<Rightarrow> bool" where
  "auth_sound bo me env rid conn r c \<longleftrightarrow> same_peer conn c \<and>
     (\<forall>registered. r = Got (Inr registered) \<longrightarrow>
        heard bo me env (packet_io conn) 1024 (control_addr conn)
          (FeedResponse \<lparr>request_id = rid, content = ResAgentRegistered registered\<rparr>))"

fun step_result :: "auth_step \<Rightarrow> (SetupError + AgentRegistered) awaited" where
  "step_result (AuthDone r) = Got r"
| "step_result _ = Elapsed"

lemma auth_sound_trans: "same_peer conn c \<Longrightarrow> auth_sound bo me env rid c r d \<Longrightarrow> auth_sound bo me env rid conn r d"
  by (auto simp: auth_sound_def same_peer_def)

lemma auth_sound_err: "same_peer conn c \<Longrightarrow> (\<And>x. r \<noteq> Got (Inr x)) \<Longrightarrow> auth_sound bo me env rid conn r c"
  by (simp add: auth_sound_def)

lemma auth_wait_sound:
  "auth_wait bo me env auth_pong rid n conn w = (r, c, w') \<Longrightarrow> auth_sound bo me env rid conn (step_result r) c"
proof (induction n arbitrary: conn w)
  case (Suc n)
  obtain x c1 w1 where x: "conn_recv bo me env 500 conn w = (x, c1, w1)" by (cases "conn_recv bo me env 500 conn w") auto
  note recv = conn_recv_cases [OF x]
  have peer: "same_peer conn c1" using recv by blast
  have again: "auth_sound bo me env rid conn (step_result r) c"
    if "auth_wait bo me env auth_pong rid n c1 w1 = (r, c, w')"
    using auth_sound_trans [OF peer Suc.IH [OF that]] .
  have stop: "auth_sound bo me env rid conn (step_result r) c" if "c = c1" "\<And>y. step_result r \<noteq> Got (Inr y)"
    using that peer by (intro auth_sound_err) auto
  show ?case
  proof (cases "\<exists>m. x = Got (Some (Inr (FeedResponse m))) \<and> request_id m = rid")
    case False
    then show ?thesis using Suc.prems x again stop
      by (auto split: awaited.splits option.splits sum.splits ControlFeed.splits if_splits)
  next
    case True
    then obtain m where m: "x = Got (Some (Inr (FeedResponse m)))" "request_id m = rid" by blast
    show ?thesis
    proof (cases "content m")
      case (ResAgentRegistered registered)
      with m have mm: "m = \<lparr>request_id = rid, content = ResAgentRegistered registered\<rparr>" by (cases m) simp
      show ?thesis using Suc.prems x m(1) recv unfolding mm by (auto simp: auth_sound_def)
    next
      case Unauthorized
      then show ?thesis using Suc.prems x m peer
        by (auto split: prod.splits awaited.splits intro!: auth_sound_err intro: same_peer_trans dest!: conn_send_peer)
    next
      case RequestQueued
      then show ?thesis using Suc.prems x m stop by (auto split: prod.splits awaited.splits)
    qed (use Suc.prems x m again stop in \<open>auto split: if_splits\<close>)
  qed
qed (auto simp: auth_sound_def)

lemma auth_rounds_sound:
  "auth_rounds bo me env auth_pong key rid n conn w = (r, c, w') \<Longrightarrow> auth_sound bo me env rid conn r c"
proof (induction n arbitrary: conn w)
  case (Suc n)
  obtain x c1 w1 where x: "conn_send env (write_ControlRpcMessage me write_RawSlice \<lparr>request_id = rid, content = key\<rparr>) conn w = (x, c1, w1)"
    by (cases "conn_send env (write_ControlRpcMessage me write_RawSlice \<lparr>request_id = rid, content = key\<rparr>) conn w") auto
  obtain y c2 w2 where y: "auth_wait bo me env auth_pong rid 5 c1 w1 = (y, c2, w2)"
    by (cases "auth_wait bo me env auth_pong rid 5 c1 w1") auto
  have peer: "same_peer conn c1" using conn_send_peer [OF x] by blast
  have wait: "auth_sound bo me env rid conn (step_result y) c2"
    by (rule auth_sound_trans [OF peer auth_wait_sound [OF y]])
  have again: "auth_sound bo me env rid conn r c"
    if "auth_rounds bo me env auth_pong key rid n c2 w2 = (r, c, w')"
    using auth_sound_trans [OF _ Suc.IH [OF that]] wait by (simp add: auth_sound_def)
  show ?case
    using Suc.prems x y wait again peer
    by (cases y) (auto intro: auth_sound_err split: awaited.splits sum.splits)
qed (auto simp: auth_sound_def)

lemma conn_authenticate_sound:
  assumes "conn_authenticate bo me env conn w = (r, c, w')"
  shows "auth_sound bo me env (ce_now env (snd (ce_authenticate env (pong_latest conn) w))) conn r c"
proof -
  obtain x w1 where x: "ce_authenticate env (pong_latest conn) w = (x, w1)" by fastforce
  show ?thesis
  proof (cases "\<exists>key reg_bytes. x = Got (Inr key) \<and> ce_hex_decode env key = Some reg_bytes")
    case True
    then obtain key reg_bytes where k: "x = Got (Inr key)" "ce_hex_decode env key = Some reg_bytes" by blast
    with assms x have "auth_rounds bo me env (pong_latest conn) reg_bytes (ce_now env w1) 5 conn w1 = (r, c, w')"
      by (simp add: conn_authenticate_def)
    from auth_rounds_sound [OF this] show ?thesis by (simp add: x)
  next
    case False
    then show ?thesis using assms x
      by (auto simp: conn_authenticate_def auth_sound_def split: awaited.splits sum.splits option.splits)
  qed
qed

text \<open>The answer that is there is taken: a registration reply to the first request ends authentication with success.\<close>

lemma auth_rounds_answered:
  assumes "write_ControlRpcMessage me write_RawSlice \<lparr>request_id = rid, content = key\<rparr> (vec_sink []) = Inr (k, s)"
    and "ce_send_to env (packet_io conn) (written s) (control_addr conn) w = (Got (Inr j), w1)"
    and "ce_recv_within env 500 (packet_io conn) 1024 w1 = (Got (Some (Inr (data, control_addr conn))), w2)"
    and "read_ControlFeed bo me (take 1024 data) = Inr (FeedResponse \<lparr>request_id = rid, content = ResAgentRegistered registered\<rparr>, rest)"
  shows "\<exists>c. auth_rounds bo me env auth_pong key rid (Suc n) conn w = (Got (Inr registered), c, w2)"
proof -
  let ?c = "conn\<lparr>buffer := written s\<rparr>"
  have "conn_send env (write_ControlRpcMessage me write_RawSlice \<lparr>request_id = rid, content = key\<rparr>) conn w = (Got (Inr ()), ?c, w1)"
    using assms(1,2) by (simp add: conn_send_def)
  moreover obtain c where "conn_recv bo me env 500 ?c w1 =
      (Got (Some (Inr (FeedResponse \<lparr>request_id = rid, content = ResAgentRegistered registered\<rparr>))), c, w2)"
    using assms(3,4) by (simp add: conn_recv_def Let_def)
  ultimately show ?thesis by (simp add: numeral_eq_Suc)
qed

text \<open>The selector only returns a connection to one of its addresses, which answered the ping.\<close>

definition pong_heard ::
  "byteorder \<Rightarrow> proto_encoding \<Rightarrow> ('w, 'io) control_env \<Rightarrow> 'io \<Rightarrow> SocketAddr \<Rightarrow> Pong \<Rightarrow> bool" where
  "pong_heard bo me env io addr pong \<longleftrightarrow>
     heard bo me env io 2048 addr (FeedResponse \<lparr>request_id = 1, content = ResPong pong\<rparr>)"

lemma select_wait_sound:
  "select_wait bo me env io addr n w = (Got (Some pong), w') \<Longrightarrow> pong_heard bo me env io addr pong"
proof (induction n arbitrary: w)
  case (Suc n)
  obtain x w1 where x: "ce_recv_within env 500 io 2048 w = (x, w1)" by fastforce
  show ?case
  proof (cases "select_wait bo me env io addr n w1 = (Got (Some pong), w')")
    case True
    then show ?thesis by (rule Suc.IH)
  next
    case False
    with Suc.prems x obtain data msg rest where d: "x = Got (Some (Inr (data, addr)))"
      "read_ControlFeed bo me (take 2048 data) = Inr (FeedResponse msg, rest)" "request_id msg = 1" "content msg = ResPong pong"
      by (auto split: awaited.splits option.splits sum.splits prod.splits ControlFeed.splits if_splits ControlResponse.splits)
    then have "msg = \<lparr>request_id = 1, content = ResPong pong\<rparr>" by (cases msg) simp
    with d x show ?thesis unfolding pong_heard_def heard_def by blast
  qed
qed simp

lemma select_attempts_sound:
  "select_attempts bo me env io addr n w = (Got (Inr (Some pong)), w') \<Longrightarrow> pong_heard bo me env io addr pong"
proof (induction n arbitrary: w)
  case (Suc n)
  then show ?case
    by (auto split: sum.splits prod.splits awaited.splits option.splits simp del: write_ControlRequest.simps
      dest: select_wait_sound)
qed simp

lemma connect_to_first_sound:
  "connect_to_first bo me env io options w = (Got (Inr conn), w') \<Longrightarrow>
   control_addr conn \<in> set options \<and> packet_io conn = io \<and> pong_heard bo me env io (control_addr conn) (pong_latest conn)"
proof (induction options arbitrary: w)
  case (Cons addr options)
  obtain x w1 where x: "select_attempts bo me env io addr (if is_ipv6 addr then 1 else 3) w = (x, w1)" by fastforce
  show ?case
  proof (cases "\<exists>pong. x = Got (Inr (Some pong))")
    case True
    then obtain pong where "x = Got (Inr (Some pong))" by blast
    with Cons.prems x select_attempts_sound [of bo me env io addr _ w pong w1] show ?thesis
      by (auto simp: ConnectedControl_new_def)
  next
    case False
    with Cons.prems x have "connect_to_first bo me env io options w1 = (Got (Inr conn), w')"
      by (auto split: awaited.splits sum.splits option.splits)
    from Cons.IH [OF this] show ?thesis by auto
  qed
qed simp

context proto_wire
begin

lemma raw_rpc_vec:
  "\<exists>k bs. write_ControlRpcMessage me write_RawSlice \<lparr>request_id = rid, content = key\<rparr> (vec_sink []) = Inr (k, vec_sink bs)"
proof -
  have "emits (enc (me_u64 me) rid) (be64 rid)" unfolding me_int_simps by (rule emits_put_bytes)
  from emits_vec [OF this, of "[]"] obtain k where k: "enc (me_u64 me) rid (vec_sink []) = Inr (k, vec_sink (be64 rid))" by auto
  have "write_RawSlice key (vec_sink xs) = Inr (length key, vec_sink (xs @ key))" for xs
    by (simp add: write_RawSlice_def write_some_def vec_sink_def append_sink_def fits_def)
  with k show ?thesis by (simp add: write_ControlRpcMessage_def wseq_def wok_def)
qed

lemma authenticate_answered:
  assumes sign: "ce_authenticate env (pong_latest conn) w = (Got (Inr key), w1)" "ce_hex_decode env key = Some reg_bytes"
    and send: "\<And>d. ce_send_to env (packet_io conn) d (control_addr conn) w1 = (Got (Inr (length d)), sent d)"
    and reply: "write_ControlFeed bo me (FeedResponse \<lparr>request_id = ce_now env w1, content = ResAgentRegistered registered\<rparr>) (vec_sink []) =
      Inr (k, vec_sink data)" "length data \<le> 1024"
    and recv: "\<And>d. ce_recv_within env 500 (packet_io conn) 1024 (sent d) = (Got (Some (Inr (data, control_addr conn))), answered d)"
  shows "\<exists>c d. conn_authenticate bo me env conn w = (Got (Inr registered), c, answered d)"
proof -
  let ?feed = "FeedResponse \<lparr>request_id = ce_now env w1, content = ResAgentRegistered registered\<rparr>"
  obtain n bs where bs: "write_ControlFeed bo me ?feed (vec_sink []) = Inr (n, vec_sink ([] @ bs))"
    "\<forall>rest. read_ControlFeed bo me (bs @ rest) = Inr (feed_view ?feed, rest)"
    using roundtrips_vec [OF feed_roundtrips, of ?feed "[]"] by auto
  then have "data = bs" using reply(1) by (simp add: vec_sink_def)
  then have rd: "read_ControlFeed bo me (take 1024 data) = Inr (?feed, [])" using spec [OF bs(2), of "[]"] reply(2) by simp
  obtain j xs where wr: "write_ControlRpcMessage me write_RawSlice \<lparr>request_id = ce_now env w1, content = reg_bytes\<rparr> (vec_sink []) =
      Inr (j, vec_sink xs)" using raw_rpc_vec by blast
  from auth_rounds_answered [OF wr send recv rd, of "pong_latest conn" 4] show ?thesis
    using sign by (auto simp: conn_authenticate_def)
qed

end

subsection \<open>An example server\<close>

definition server_addr :: SocketAddr where
  "server_addr = SockV4 (sock_v4 0x01020304 5525)"

text \<open>A network that accepts everything and delivers the given datagrams one after the other.\<close>

definition script_env :: "((bytes \<times> SocketAddr) list, unit) control_env" where
  "script_env =
     \<lparr>ce_send_to = (\<lambda>io d a w. (Got (Inr (length d)), w)),
      ce_recv_within = (\<lambda>ms io n w. case w of [] \<Rightarrow> (Got None, []) | d # ds \<Rightarrow> (Got (Some (Inr d)), ds)),
      ce_sleep = (\<lambda>ms w. (Got (), w)), ce_now = (\<lambda>w. 7),
      ce_authenticate = (\<lambda>p w. (Got (Inr ''00''), w)), ce_get_control_addresses = (\<lambda>w. (Got (Inr [server_addr]), w)),
      ce_create_io = (\<lambda>w. (Got (Inr ()), w)), ce_hex_decode = (\<lambda>s. Some [0])\<rparr>"

lemma script_env_simps [simp]:
  "ce_send_to script_env io d a w = (Got (Inr (length d)), w)"
  "ce_recv_within script_env ms io n [] = (Got None, [])"
  "ce_recv_within script_env ms io n (x # xs) = (Got (Some (Inr x)), xs)"
  "ce_sleep script_env ms w = (Got (), w)" "ce_now script_env w = 7"
  "ce_authenticate script_env p w = (Got (Inr ''00''), w)" "ce_get_control_addresses script_env w = (Got (Inr [server_addr]), w)"
  "ce_create_io script_env w = (Got (Inr ()), w)" "ce_hex_decode script_env k = Some [0]"
  by (simp_all add: script_env_def)

definition example_registered :: AgentRegistered where
  "example_registered =
     \<lparr>registered_id = \<lparr>session_id = 1, account_id = 2, agent_id = 3\<rparr>, registered_expires_at = 90000\<rparr>"

definition example_pong :: Pong where
  "example_pong =
     \<lparr>pong_request_now = 1, pong_server_now = 1, pong_server_id = 1, pong_data_center_id = 1,
      pong_client_addr = SockV4 (sock_v4 0x7F000001 40000), pong_tunnel_addr = server_addr, pong_session_expire_at = None\<rparr>"

definition example_conn :: "unit ConnectedControl" where
  "example_conn = ConnectedControl_new server_addr () example_pong"

definition feed_bytes :: "ControlResponse \<Rightarrow> u64 \<Rightarrow> bytes" where
  "feed_bytes res rid = (case write_ControlFeed be_byteorder be_message_encoding
     (FeedResponse \<lparr>request_id = rid, content = res\<rparr>) (vec_sink []) of Inr (_, s) \<Rightarrow> written s | Inl _ \<Rightarrow> [])"

lemma feed_bytes_written:
  assumes "wf_response res"
  shows "\<exists>k. write_ControlFeed be_byteorder be_message_encoding (FeedResponse \<lparr>request_id = rid, content = res\<rparr>) (vec_sink []) =
    Inr (k, vec_sink (feed_bytes res rid))"
proof -
  let ?f = "FeedResponse \<lparr>request_id = rid, content = res\<rparr>"
  obtain n bs where "write_ControlFeed be_byteorder be_message_encoding ?f (vec_sink []) = Inr (n, vec_sink ([] @ bs))"
    using roundtrips_vec [OF be_proto.feed_roundtrips, of ?f "[]"] assms by auto
  then show ?thesis by (simp add: feed_bytes_def vec_sink_def)
qed

lemmas feed_bytes_lengths = feed_bytes_def example_registered_def example_pong_def server_addr_def be_message_encoding_def
  be_sock_codec_def be_option_codec_def write_ControlRpcMessage_def write_Pong_def write_AgentRegistered_def write_AgentSessionId_def
  wseq_def wok_def put_bytes_def write_all_def vec_sink_def fits_def append_sink_def and_then_def

lemma feed_bytes_read:
  assumes "wf_response res" "length (feed_bytes res rid) \<le> n"
  shows "read_ControlFeed be_byteorder be_message_encoding (take n (feed_bytes res rid)) =
    Inr (FeedResponse \<lparr>request_id = rid, content = res\<rparr>, [])"
proof -
  let ?f = "FeedResponse \<lparr>request_id = rid, content = res\<rparr>"
  obtain k bs where bs: "write_ControlFeed be_byteorder be_message_encoding ?f (vec_sink []) = Inr (k, vec_sink ([] @ bs))"
    "\<forall>rest. read_ControlFeed be_byteorder be_message_encoding (bs @ rest) = Inr (feed_view ?f, rest)"
    using roundtrips_vec [OF be_proto.feed_roundtrips, of ?f "[]"] assms(1) by auto
  then have "feed_bytes res rid = bs" by (simp add: feed_bytes_def vec_sink_def)
  with bs(2) assms(2) show ?thesis using spec [OF bs(2), of "[]"] by simp
qed

lemma registered_length: "length (feed_bytes (ResAgentRegistered example_registered) 7) \<le> 1024"
  by (simp add: feed_bytes_lengths)

subsection \<open>Properties\<close>

text \<open>
  C19: The agent only believes its control server. Authentication returns a registration only if the socket delivered, from the address of the control
  server, a datagram that decodes to exactly this registration as the answer to the request id of this attempt; it keeps talking to
  the same server over the same socket in every case.
\<close>

theorem authenticate_sound:
  assumes "conn_authenticate bo me env conn w = (r, c, w')"
  shows "control_addr c = control_addr conn \<and> packet_io c = packet_io conn \<and>
    (\<forall>registered. r = Got (Inr registered) \<longrightarrow>
      (\<exists>ms w1 w2 data rest. ce_recv_within env ms (packet_io conn) 1024 w1 = (Got (Some (Inr (data, control_addr conn))), w2) \<and>
        read_ControlFeed bo me (take 1024 data) =
          Inr (FeedResponse \<lparr>request_id = ce_now env (snd (ce_authenticate env (pong_latest conn) w)),
            content = ResAgentRegistered registered\<rparr>, rest)))"
  using conn_authenticate_sound [OF assms] unfolding auth_sound_def same_peer_def heard_def by auto

text \<open>
  Authentication succeeds when the server answers: if the API signs the registration, the key decodes, the request goes out and the first datagram
  that arrives is the encoding of a registration in answer to it, then exactly this registration is returned.
\<close>

theorem authenticate_live:
  assumes "proto_wire bo me"
    and "ce_authenticate env (pong_latest conn) w = (Got (Inr key), w1)" "ce_hex_decode env key = Some reg_bytes"
    and "\<And>d. ce_send_to env (packet_io conn) d (control_addr conn) w1 = (Got (Inr (length d)), sent d)"
    and "write_ControlFeed bo me (FeedResponse \<lparr>request_id = ce_now env w1, content = ResAgentRegistered registered\<rparr>) (vec_sink []) =
      Inr (k, vec_sink data)" "length data \<le> 1024"
    and "\<And>d. ce_recv_within env 500 (packet_io conn) 1024 (sent d) = (Got (Some (Inr (data, control_addr conn))), answered d)"
  shows "\<exists>c d. conn_authenticate bo me env conn w = (Got (Inr registered), c, answered d)"
  by (rule proto_wire.authenticate_answered [OF assms])

theorem authenticate_live_witness:
  "\<exists>c. conn_authenticate be_byteorder be_message_encoding script_env example_conn
     [(feed_bytes (ResAgentRegistered example_registered) 7, server_addr)] = (Got (Inr example_registered), c, [])"
proof -
  let ?data = "feed_bytes (ResAgentRegistered example_registered) 7"
  obtain k where k: "write_ControlFeed be_byteorder be_message_encoding
      (FeedResponse \<lparr>request_id = ce_now script_env [(?data, server_addr)], content = ResAgentRegistered example_registered\<rparr>) (vec_sink []) =
      Inr (k, vec_sink ?data)"
    using feed_bytes_written [of "ResAgentRegistered example_registered" 7] by auto
  have "\<exists>c d. conn_authenticate be_byteorder be_message_encoding script_env example_conn [(?data, server_addr)] =
      (Got (Inr example_registered), c, (\<lambda>d. []) (d :: bytes))"
    by (rule authenticate_live [OF be_proto _ _ _ k registered_length, where w = "[(?data, server_addr)]" and key = "''00''"
        and reg_bytes = "[0]" and sent = "\<lambda>d. [(?data, server_addr)]"])
      (simp_all add: example_conn_def ConnectedControl_new_def)
  then show ?thesis by simp
qed

lemma example_authenticates:
  "\<exists>c. conn_authenticate be_byteorder be_message_encoding script_env example_conn
     ((feed_bytes (ResAgentRegistered example_registered) 7, server_addr) # ds) = (Got (Inr example_registered), c, ds)"
proof -
  let ?data = "feed_bytes (ResAgentRegistered example_registered) 7"
  have "read_ControlFeed be_byteorder be_message_encoding (take 1024 ?data) =
      Inr (FeedResponse \<lparr>request_id = 7, content = ResAgentRegistered example_registered\<rparr>, [])"
    by (rule feed_bytes_read [OF _ registered_length]) simp
  moreover obtain j xs where "write_ControlRpcMessage (be_message_encoding :: proto_encoding) write_RawSlice
      \<lparr>request_id = 7, content = [0]\<rparr> (vec_sink []) = Inr (j, vec_sink xs)" using be_proto.raw_rpc_vec by blast
  ultimately have "\<exists>c. auth_rounds be_byteorder be_message_encoding script_env example_pong [0] 7 (Suc 4) example_conn
      ((?data, server_addr) # ds) = (Got (Inr example_registered), c, ds)"
    by (intro auth_rounds_answered [where ?w1.0 = "(?data, server_addr) # ds"])
      (simp_all add: example_conn_def ConnectedControl_new_def)
  then show ?thesis
    by (simp add: conn_authenticate_def example_conn_def ConnectedControl_new_def del: auth_rounds.simps)
qed

theorem authenticate_sound_witness:
  "\<exists>c. conn_authenticate be_byteorder be_message_encoding script_env example_conn
     [(feed_bytes (ResAgentRegistered example_registered) 7, server_addr)] = (Got (Inr example_registered), c, []) \<and>
   control_addr c = server_addr"
proof -
  obtain c where c: "conn_authenticate be_byteorder be_message_encoding script_env example_conn
     [(feed_bytes (ResAgentRegistered example_registered) 7, server_addr)] = (Got (Inr example_registered), c, [])"
    using example_authenticates by blast
  from authenticate_sound [OF c] c show ?thesis by (auto simp: example_conn_def ConnectedControl_new_def)
qed

text \<open>
  The address selector returns only a connection to one of the offered addresses, over the socket it was given, and only after a datagram from that very
  address decoded to the answer to its ping; the connection starts from that pong.
\<close>

theorem connect_to_first_genuine:
  assumes "connect_to_first bo me env io options w = (Got (Inr conn), w')"
  shows "control_addr conn \<in> set options \<and> packet_io conn = io \<and>
    (\<exists>ms w1 w2 data rest. ce_recv_within env ms io 2048 w1 = (Got (Some (Inr (data, control_addr conn))), w2) \<and>
       read_ControlFeed bo me (take 2048 data) = Inr (FeedResponse \<lparr>request_id = 1, content = ResPong (pong_latest conn)\<rparr>, rest))"
  using connect_to_first_sound [OF assms] unfolding pong_heard_def heard_def by blast

lemma example_connects:
  "connect_to_first be_byteorder be_message_encoding script_env () [server_addr]
     (([1], SockV4 (sock_v4 9 9)) # (feed_bytes (ResPong example_pong) 1, server_addr) # ds) = (Got (Inr example_conn), ds)"
proof -
  have len: "length (feed_bytes (ResPong example_pong) 1) \<le> 2048" by (simp add: feed_bytes_lengths)
  have rd: "read_ControlFeed be_byteorder be_message_encoding (take 2048 (feed_bytes (ResPong example_pong) 1)) =
      Inr (FeedResponse \<lparr>request_id = 1, content = ResPong example_pong\<rparr>, [])"
    by (rule feed_bytes_read [OF _ len]) (simp add: example_pong_def server_addr_def)
  let ?ping = "write_rpc_request be_byteorder be_message_encoding 1 (ReqPing \<lparr>ping_now = 7, ping_current_ping = None, ping_session_id = None\<rparr>)"
  have "\<exists>j s. ?ping (vec_sink []) = Inr (j, s)"
    by (simp add: write_rpc_request_def write_Ping_def write_ControlRequestId_def feed_bytes_lengths)
  then obtain j s where ping: "?ping (vec_sink []) = Inr (j, s)" by blast
  have "select_wait be_byteorder be_message_encoding script_env () server_addr (Suc (Suc n))
      (([1], SockV4 (sock_v4 9 9)) # (feed_bytes (ResPong example_pong) 1, server_addr) # ds) = (Got (Some example_pong), ds)" for n
    using rd by (simp add: server_addr_def sock_v4_def)
  from this [of 3] have wait: "select_wait be_byteorder be_message_encoding script_env () server_addr 5
      (([1], SockV4 (sock_v4 9 9)) # (feed_bytes (ResPong example_pong) 1, server_addr) # ds) = (Got (Some example_pong), ds)"
    by (simp del: select_wait.simps)
  have v4: "\<not> is_ipv6 server_addr" by (simp add: server_addr_def)
  have "select_attempts be_byteorder be_message_encoding script_env () server_addr (Suc n)
      (([1], SockV4 (sock_v4 9 9)) # (feed_bytes (ResPong example_pong) 1, server_addr) # ds) = (Got (Inr (Some example_pong)), ds)" for n
    using ping wait v4 by simp
  from this [of 2] have "select_attempts be_byteorder be_message_encoding script_env () server_addr 3
      (([1], SockV4 (sock_v4 9 9)) # (feed_bytes (ResPong example_pong) 1, server_addr) # ds) = (Got (Inr (Some example_pong)), ds)"
    by (simp del: select_attempts.simps)
  with v4 show ?thesis by (simp add: example_conn_def)
qed

theorem connect_to_first_genuine_witness:
  "\<exists>conn. connect_to_first be_byteorder be_message_encoding script_env () [server_addr]
     [([1], SockV4 (sock_v4 9 9)), (feed_bytes (ResPong example_pong) 1, server_addr)] = (Got (Inr conn), []) \<and>
   control_addr conn \<in> set [server_addr]"
proof -
  obtain conn where "connect_to_first be_byteorder be_message_encoding script_env () [server_addr]
     [([1], SockV4 (sock_v4 9 9)), (feed_bytes (ResPong example_pong) 1, server_addr)] = (Got (Inr conn), [])"
    using example_connects by blast
  with connect_to_first_genuine [OF this] show ?thesis by blast
qed

end
