(* ===== verification/Established_Control.thy ===== *)
theory Established_Control
  imports Connected_Control
begin

section \<open>An authenticated control session\<close>

text \<open>
  \<^verbatim>\<open>packages/agent_core/src/agent_control/established_control.rs\<close> and the part of \<^verbatim>\<open>connected_control.rs\<close> that makes and renews a session.
  Times are milliseconds in 64-bit words; \<open>+\<close> and \<open>-\<close> wrap around as in a release build. The
  authentication resource is part of the environment of \<^verbatim>\<open>connected_control.rs\<close>.
\<close>

subsection \<open>MTU data\<close>

record MtuData =
  largest_received_packet :: "CheckMtuReceivedAck option"
  largest_payload_by_datacenter :: "u32 \<rightharpoonup> u32"
  latest_test_fail :: "MtuTestFail option"

definition MtuData_default :: MtuData where
  "MtuData_default =
     \<lparr>largest_received_packet = None, largest_payload_by_datacenter = Map.empty, latest_test_fail = None\<rparr>"

definition record_check_mtu_received_ack :: "CheckMtuReceivedAck \<Rightarrow> MtuData \<Rightarrow> MtuData" where
  "record_check_mtu_received_ack ack d =
     (let should_replace = (case largest_received_packet d of
            Some current \<Rightarrow> ack_message_length current \<le> ack_message_length ack
          | None \<Rightarrow> True)
      in if should_replace then d\<lparr>largest_received_packet := Some ack\<rparr> else d)"

definition record_mtu_test_packet :: "MtuTestPacket \<Rightarrow> MtuData \<Rightarrow> MtuData" where
  "record_mtu_test_packet packet d =
     d\<lparr>largest_payload_by_datacenter := (largest_payload_by_datacenter d)(mtp_data_center_id packet \<mapsto>
        (case largest_payload_by_datacenter d (mtp_data_center_id packet) of
           Some current \<Rightarrow> max current (mtp_udp_payload_length packet)
         | None \<Rightarrow> mtp_udp_payload_length packet))\<rparr>"

definition record_mtu_test_fail :: "MtuTestFail \<Rightarrow> MtuData \<Rightarrow> MtuData" where
  "record_mtu_test_fail fail d = d\<lparr>latest_test_fail := Some fail\<rparr>"

definition latest_test_fail_code :: "MtuData \<Rightarrow> MtuTestFailCode option" where
  "latest_test_fail_code d = map_option mtf_error_code (latest_test_fail d)"

subsection \<open>The session\<close>

record 'io EstablishedControl =
  ec_conn :: "'io ConnectedControl"
  pong_at_auth :: Pong
  session_setup_deadline :: "u64 option"
  ec_registered :: AgentRegistered
  current_ping :: "u32 option"
  clock_offset :: u64
  force_expired :: bool
  pending_mtu_data :: MtuData
  known_mtu_data :: MtuData

datatype ExpiredReason = Forced | SessionNotSetup | FlowChanged

definition SESSION_SETUP_GRACE_MS :: u64 where
  "SESSION_SETUP_GRACE_MS = 5000"

definition into_established :: "u64 \<Rightarrow> 'io ConnectedControl \<Rightarrow> AgentRegistered \<Rightarrow> 'io EstablishedControl" where
  "into_established now conn registered =
     (let pong = pong_latest conn in
      \<lparr>ec_conn = conn, pong_at_auth = pong,
       session_setup_deadline = (if pong_session_expire_at pong = None then Some (saturating_add now 5000) else None),
       ec_registered = registered, current_ping = None, clock_offset = 0, force_expired = False,
       pending_mtu_data = MtuData_default, known_mtu_data = MtuData_default\<rparr>)"

fun or_else :: "'a option \<Rightarrow> 'a option \<Rightarrow> 'a option" where
  "or_else (Some x) _ = Some x"
| "or_else None y = y"

definition reset_established ::
  "'io ConnectedControl \<Rightarrow> 'io EstablishedControl \<Rightarrow> AgentRegistered \<Rightarrow> 'io EstablishedControl" where
  "reset_established conn ec registered =
     (let session_expire_at = or_else (pong_session_expire_at (pong_at_auth ec)) (pong_session_expire_at (pong_latest conn)) in
      ec\<lparr>ec_registered := registered,
         pong_at_auth := (pong_latest conn)\<lparr>pong_session_expire_at := session_expire_at\<rparr>,
         ec_conn := conn, current_ping := None, force_expired := False,
         pending_mtu_data := MtuData_default, known_mtu_data := MtuData_default\<rparr>)"

definition auth_into_established ::
  "byteorder \<Rightarrow> proto_encoding \<Rightarrow> ('w, 'io) control_env \<Rightarrow> 'io ConnectedControl \<Rightarrow> 'w \<Rightarrow>
   (SetupError + 'io EstablishedControl) awaited \<times> 'w" where
  "auth_into_established bo me env conn w = (case conn_authenticate bo me env conn w of
     (Elapsed, c, w1) \<Rightarrow> (Elapsed, w1)
   | (Got (Inl e), c, w1) \<Rightarrow> (Got (Inl e), w1)
   | (Got (Inr registered), c, w1) \<Rightarrow> (Got (Inr (into_established (ce_now env w1) c registered)), w1))"

definition flow_changed :: "'io EstablishedControl \<Rightarrow> bool" where
  "flow_changed ec \<longleftrightarrow>
     pong_client_addr (pong_latest (ec_conn ec)) \<noteq> pong_client_addr (pong_at_auth ec) \<or>
     pong_tunnel_addr (pong_latest (ec_conn ec)) \<noteq> pong_tunnel_addr (pong_at_auth ec)"

definition is_expired :: "u64 \<Rightarrow> 'io EstablishedControl \<Rightarrow> ExpiredReason option" where
  "is_expired now ec =
     (if force_expired ec then Some Forced
      else if pong_session_expire_at (pong_at_auth ec) = None \<and>
              (case session_setup_deadline ec of None \<Rightarrow> True | Some deadline \<Rightarrow> deadline \<le> now)
      then Some SessionNotSetup
      else if flow_changed ec then Some FlowChanged
      else None)"

definition get_expire_at :: "'io EstablishedControl \<Rightarrow> u64" where
  "get_expire_at ec = registered_expires_at (ec_registered ec)"

definition set_expired :: "'io EstablishedControl \<Rightarrow> 'io EstablishedControl" where
  "set_expired ec = ec\<lparr>force_expired := True\<rparr>"

definition commit_pending_mtu_data :: "'io EstablishedControl \<Rightarrow> 'io EstablishedControl" where
  "commit_pending_mtu_data ec = ec\<lparr>known_mtu_data := pending_mtu_data ec\<rparr>"

definition clear_pending_mtu_data :: "'io EstablishedControl \<Rightarrow> 'io EstablishedControl" where
  "clear_pending_mtu_data ec = ec\<lparr>pending_mtu_data := MtuData_default\<rparr>"

definition clear_known_mtu_data :: "'io EstablishedControl \<Rightarrow> 'io EstablishedControl" where
  "clear_known_mtu_data ec = ec\<lparr>known_mtu_data := MtuData_default\<rparr>"

subsection \<open>Requests\<close>

definition est_send ::
  "byteorder \<Rightarrow> proto_encoding \<Rightarrow> ('w, 'io) control_env \<Rightarrow> u64 \<Rightarrow> ControlRequest \<Rightarrow> 'io EstablishedControl \<Rightarrow> 'w \<Rightarrow>
   (ControlError + unit) awaited \<times> 'io EstablishedControl \<times> 'w" where
  "est_send bo me env rid req ec w = (case conn_send env (write_rpc_request bo me rid req) (ec_conn ec) w of
     (Elapsed, c, w1) \<Rightarrow> (Elapsed, ec\<lparr>ec_conn := c\<rparr>, w1)
   | (Got (Inl e), c, w1) \<Rightarrow> (Got (Inl (ControlIoError e)), ec\<lparr>ec_conn := c\<rparr>, w1)
   | (Got (Inr _), c, w1) \<Rightarrow> (Got (Inr ()), ec\<lparr>ec_conn := c\<rparr>, w1))"

definition send_keep_alive ::
  "byteorder \<Rightarrow> proto_encoding \<Rightarrow> ('w, 'io) control_env \<Rightarrow> u64 \<Rightarrow> 'io EstablishedControl \<Rightarrow> 'w \<Rightarrow>
   (ControlError + unit) awaited \<times> 'io EstablishedControl \<times> 'w" where
  "send_keep_alive bo me env rid ec = est_send bo me env rid (ReqAgentKeepAlive (registered_id (ec_registered ec))) ec"

definition send_setup_udp_channel ::
  "byteorder \<Rightarrow> proto_encoding \<Rightarrow> ('w, 'io) control_env \<Rightarrow> u64 \<Rightarrow> 'io EstablishedControl \<Rightarrow> 'w \<Rightarrow>
   (ControlError + unit) awaited \<times> 'io EstablishedControl \<times> 'w" where
  "send_setup_udp_channel bo me env rid ec =
     est_send bo me env rid (ReqSetupUdpChannel (registered_id (ec_registered ec))) ec"

definition send_ping ::
  "byteorder \<Rightarrow> proto_encoding \<Rightarrow> ('w, 'io) control_env \<Rightarrow> u64 \<Rightarrow> u64 \<Rightarrow> 'io EstablishedControl \<Rightarrow> 'w \<Rightarrow>
   (ControlError + unit) awaited \<times> 'io EstablishedControl \<times> 'w" where
  "send_ping bo me env rid now ec = est_send bo me env rid (ReqPing
     \<lparr>ping_now = now, ping_current_ping = current_ping ec, ping_session_id = Some (registered_id (ec_registered ec))\<rparr>) ec"

definition send_check_mtu_received ::
  "byteorder \<Rightarrow> proto_encoding \<Rightarrow> ('w, 'io) control_env \<Rightarrow> u64 \<Rightarrow> u64 \<Rightarrow> u32 \<Rightarrow> 'io EstablishedControl \<Rightarrow> 'w \<Rightarrow>
   (ControlError + unit) awaited \<times> 'io EstablishedControl \<times> 'w" where
  "send_check_mtu_received bo me env rid i len = est_send bo me env rid (ReqCheckMtuReceived \<lparr>cmr_id = i, cmr_message_size = len\<rparr>)"

definition send_mtu_test ::
  "byteorder \<Rightarrow> proto_encoding \<Rightarrow> ('w, 'io) control_env \<Rightarrow> u64 \<Rightarrow> u64 \<Rightarrow> u32 \<Rightarrow> u32 \<Rightarrow> 'io EstablishedControl \<Rightarrow> 'w \<Rightarrow>
   (ControlError + unit) awaited \<times> 'io EstablishedControl \<times> 'w" where
  "send_mtu_test bo me env rid i dc len = est_send bo me env rid (ReqSendMtuTest
     \<lparr>smt_id = i, smt_data_center_id = dc, smt_udp_payload_length = len\<rparr>)"

subsection \<open>Renewing the session\<close>

definition est_authenticate ::
  "byteorder \<Rightarrow> proto_encoding \<Rightarrow> ('w, 'io) control_env \<Rightarrow> 'io EstablishedControl \<Rightarrow> 'w \<Rightarrow>
   (SetupError + unit) awaited \<times> 'io EstablishedControl \<times> 'w" where
  "est_authenticate bo me env ec w = (case conn_authenticate bo me env (ec_conn ec) w of
     (Elapsed, c, w1) \<Rightarrow> (Elapsed, ec\<lparr>ec_conn := c\<rparr>, w1)
   | (Got (Inl e), c, w1) \<Rightarrow> (Got (Inl e), ec\<lparr>ec_conn := c\<rparr>, w1)
   | (Got (Inr registered), c, w1) \<Rightarrow>
       let session_expire_at = or_else (pong_session_expire_at (pong_at_auth ec)) (pong_session_expire_at (pong_latest c)) in
       (Got (Inr ()),
        ec\<lparr>ec_conn := c, force_expired := False, ec_registered := registered,
           pong_at_auth := (pong_latest c)\<lparr>pong_session_expire_at := session_expire_at\<rparr>,
           session_setup_deadline :=
             (if session_expire_at = None then Some (saturating_add (ce_now env w1) SESSION_SETUP_GRACE_MS) else None)\<rparr>, w1))"

subsection \<open>Receiving\<close>

definition pong_received :: "u64 \<Rightarrow> Pong \<Rightarrow> 'io EstablishedControl \<Rightarrow> 'io EstablishedControl" where
  "pong_received now pong ec =
     (let rtt = (ucast (max now (pong_request_now pong) - pong_request_now pong) :: u32);
          server_ts = pong_server_now pong - ucast (rtt div 2);
          local_ts = pong_request_now pong;
          ec1 = ec\<lparr>clock_offset := local_ts - server_ts, current_ping := Some rtt\<rparr>
      in case pong_session_expire_at pong of
           None \<Rightarrow> ec1
         | Some expires_at \<Rightarrow>
             ec1\<lparr>pong_at_auth := (pong_at_auth ec1)\<lparr>pong_session_expire_at := Some expires_at\<rparr>,
                 session_setup_deadline := None,
                 ec_registered := (ec_registered ec1)\<lparr>registered_expires_at :=
                   pong_request_now pong + max (expires_at - pong_server_now pong) (ucast rtt) - ucast rtt\<rparr>\<rparr>)"

definition apply_feed :: "u64 \<Rightarrow> ControlFeed \<Rightarrow> 'io EstablishedControl \<Rightarrow> 'io EstablishedControl" where
  "apply_feed now feed ec = (case feed of
     FeedResponse res \<Rightarrow> (case content res of
         ResAgentRegistered registered \<Rightarrow> ec\<lparr>ec_registered := registered\<rparr>
       | ResPong pong \<Rightarrow> pong_received now pong ec
       | ResCheckMtuReceivedAck ack \<Rightarrow> ec\<lparr>pending_mtu_data := record_check_mtu_received_ack ack (pending_mtu_data ec)\<rparr>
       | ResMtuTestPacket packet \<Rightarrow> ec\<lparr>pending_mtu_data := record_mtu_test_packet packet (pending_mtu_data ec)\<rparr>
       | ResMtuTestFail fail \<Rightarrow> ec\<lparr>pending_mtu_data := record_mtu_test_fail fail (pending_mtu_data ec)\<rparr>
       | _ \<Rightarrow> ec)
   | _ \<Rightarrow> ec)"

definition recv_feed_msg ::
  "byteorder \<Rightarrow> proto_encoding \<Rightarrow> ('w, 'io) control_env \<Rightarrow> nat \<Rightarrow> 'io EstablishedControl \<Rightarrow> 'w \<Rightarrow>
   (ControlError + ControlFeed) option awaited \<times> 'io EstablishedControl \<times> 'w" where
  "recv_feed_msg bo me env ms ec w = (case conn_recv bo me env ms (ec_conn ec) w of
     (Got (Some (Inr feed)), c, w1) \<Rightarrow> (Got (Some (Inr feed)), apply_feed (ce_now env w1) feed (ec\<lparr>ec_conn := c\<rparr>), w1)
   | (r, c, w1) \<Rightarrow> (r, ec\<lparr>ec_conn := c\<rparr>, w1))"

subsection \<open>Laws\<close>

text \<open>A session just made or renewed: not forced, no change of flow, and a grace period if it has no expiry yet.\<close>

definition fresh_session :: "u64 \<Rightarrow> 'io EstablishedControl \<Rightarrow> bool" where
  "fresh_session now ec \<longleftrightarrow> \<not> force_expired ec \<and> \<not> flow_changed ec \<and>
     (pong_session_expire_at (pong_at_auth ec) \<noteq> None \<or> session_setup_deadline ec = Some (saturating_add now 5000))"

lemma fresh_not_expired:
  "fresh_session now ec \<Longrightarrow> is_expired t ec =
     (if pong_session_expire_at (pong_at_auth ec) = None \<and> saturating_add now 5000 \<le> t then Some SessionNotSetup else None)"
  by (auto simp: fresh_session_def is_expired_def)

lemma est_authenticate_fresh:
  "est_authenticate bo me env ec w = (Got (Inr ()), ec', w') \<Longrightarrow> fresh_session (ce_now env w') ec'"
  by (auto simp: est_authenticate_def fresh_session_def flow_changed_def SESSION_SETUP_GRACE_MS_def Let_def
    split: prod.splits awaited.splits sum.splits if_splits)

lemma auth_into_established_fresh:
  "auth_into_established bo me env conn w = (Got (Inr ec), w') \<Longrightarrow> fresh_session (ce_now env w') ec"
  by (auto simp: auth_into_established_def into_established_def fresh_session_def flow_changed_def Let_def
    split: prod.splits awaited.splits sum.splits if_splits)

lemma est_authenticate_failed:
  assumes "est_authenticate bo me env ec w = (r, ec', w')" "r \<noteq> Got (Inr ())"
  shows "force_expired ec' = force_expired ec" "pong_at_auth ec' = pong_at_auth ec" "ec_registered ec' = ec_registered ec"
    "session_setup_deadline ec' = session_setup_deadline ec"
  using assms by (auto simp: est_authenticate_def Let_def split: prod.splits awaited.splits sum.splits)

lemma reset_established_fresh:
  "fresh_session now (reset_established conn ec registered) \<longleftrightarrow>
   or_else (pong_session_expire_at (pong_at_auth ec)) (pong_session_expire_at (pong_latest conn)) \<noteq> None \<or>
   session_setup_deadline ec = Some (saturating_add now 5000)"
  by (auto simp: reset_established_def fresh_session_def flow_changed_def Let_def)

text \<open>The grace period of a session is not renewed when its connection is replaced.\<close>

lemma reset_keeps_deadline:
  assumes "pong_session_expire_at (pong_at_auth ec) = None" "pong_session_expire_at (pong_latest conn) = None"
    "session_setup_deadline ec = Some deadline" "deadline \<le> now"
  shows "is_expired now (reset_established conn ec registered) = Some SessionNotSetup"
  using assms by (simp add: is_expired_def reset_established_def Let_def)

text \<open>The expiry that is derived from a pong.\<close>

lemma ucast_u32_u64: "unat (ucast (x :: u32) :: u64) = unat x"
proof -
  have "unat x < 2 ^ LENGTH(32)" by (rule unsigned_less)
  then have "unat x < 2 ^ 64" by simp
  then show ?thesis by (simp add: unsigned_ucast_eq take_bit_nat_eq_self)
qed

lemma rtt_exact:
  assumes "unat now - unat (r :: u64) < 2 ^ 32"
  shows "unat (ucast (max now r - r) :: u32) = unat now - unat r"
proof -
  have "unat (max now r - r) = unat now - unat r"
    by (cases "now \<le> r") (auto simp: max_def unat_sub word_le_nat_alt)
  with assms show ?thesis by (simp add: unsigned_ucast_eq take_bit_nat_eq_self)
qed

lemma pong_expiry:
  assumes "pong_session_expire_at pong = Some e" "unat now - unat (pong_request_now pong) < 2 ^ 32"
    and "pong_server_now pong \<le> e"
    and "unat (pong_request_now pong) + max (unat e - unat (pong_server_now pong)) (unat now - unat (pong_request_now pong)) < 2 ^ 64"
  shows "unat (get_expire_at (pong_received now pong ec)) =
    unat (pong_request_now pong) + ((unat e - unat (pong_server_now pong)) - (unat now - unat (pong_request_now pong)))"
proof -
  let ?rtt = "ucast (max now (pong_request_now pong) - pong_request_now pong) :: u32"
  let ?left = "max (e - pong_server_now pong) (ucast ?rtt)"
  have rtt: "unat (ucast ?rtt :: u64) = unat now - unat (pong_request_now pong)"
    unfolding ucast_u32_u64 by (rule rtt_exact [OF assms(2)])
  have diff: "unat (e - pong_server_now pong) = unat e - unat (pong_server_now pong)"
    using assms(3) by (simp add: unat_sub word_le_nat_alt)
  have left: "unat ?left = max (unat e - unat (pong_server_now pong)) (unat now - unat (pong_request_now pong))"
    using rtt diff by (simp add: max_def word_le_nat_alt)
  have sum: "unat (pong_request_now pong + ?left) = unat (pong_request_now pong) + unat ?left"
    using assms(4) unfolding left by (subst unat_add_lem_lt) (simp_all add: left)
  have "unat (pong_request_now pong + ?left - ucast ?rtt) = unat (pong_request_now pong + ?left) - unat (ucast ?rtt :: u64)"
    by (rule unat_sub) (simp add: word_le_nat_alt sum left rtt)
  moreover have "a + max b c - c = a + (b - c)" for a b c :: nat by (simp add: max_def)
  ultimately show ?thesis
    unfolding sum left rtt using assms(1) by (simp only: get_expire_at_def pong_received_def Let_def) simp
qed

text \<open>The recorded payload lengths are the maxima over the packets of a data centre.\<close>

lemma mtu_packets:
  "largest_payload_by_datacenter (fold record_mtu_test_packet ps d) dc =
   (let ls = map mtp_udp_payload_length (filter (\<lambda>p. mtp_data_center_id p = dc) ps)
    in case largest_payload_by_datacenter d dc of
         None \<Rightarrow> (case ls of [] \<Rightarrow> None | l # ls \<Rightarrow> Some (fold max ls l))
       | Some l \<Rightarrow> Some (fold max ls l))"
proof (induction ps arbitrary: d)
  case (Cons p ps)
  show ?case unfolding fold_simps Cons.IH
    by (auto simp: record_mtu_test_packet_def Let_def max.commute split: option.splits)
qed (simp split: option.splits)

subsection \<open>Properties\<close>

text \<open>
  Authentication restores the session. When it succeeds, the session is not expired at that time: it can only expire again by being forced, by a pong that
  shows a change of addresses, or, when the server has given it no expiry, after a grace period of five seconds. When it fails, the registration, the expiry and the forced
  flag are what they were.
\<close>

theorem authentication_restores_session:
  assumes "est_authenticate bo me env ec w = (r, ec', w')"
  shows "if r = Got (Inr ())
    then \<not> force_expired ec' \<and> \<not> flow_changed ec' \<and>
      is_expired t ec' = (if pong_session_expire_at (pong_at_auth ec') = None \<and> saturating_add (ce_now env w') 5000 \<le> t
        then Some SessionNotSetup else None)
    else ec_registered ec' = ec_registered ec \<and> pong_at_auth ec' = pong_at_auth ec \<and> force_expired ec' = force_expired ec"
proof (cases "r = Got (Inr ())")
  case True
  have "fresh_session (ce_now env w') ec'" by (rule est_authenticate_fresh [OF assms [unfolded True]])
  with True show ?thesis using fresh_not_expired [of "ce_now env w'" ec' t] by (simp add: fresh_session_def)
next
  case False
  then show ?thesis using est_authenticate_failed [OF assms False] by simp
qed

definition example_established :: "unit EstablishedControl" where
  "example_established = into_established 0 example_conn example_registered"

theorem authentication_restores_session_witness:
  "\<exists>ec'. est_authenticate be_byteorder be_message_encoding script_env (set_expired example_established)
     [(feed_bytes (ResAgentRegistered example_registered) 7, server_addr)] = (Got (Inr ()), ec', []) \<and> is_expired 5000 ec' = None"
proof -
  let ?w = "[(feed_bytes (ResAgentRegistered example_registered) 7, server_addr)]"
  obtain c where "conn_authenticate be_byteorder be_message_encoding script_env example_conn ?w = (Got (Inr example_registered), c, [])"
    using example_authenticates by blast
  then obtain ec' where e: "est_authenticate be_byteorder be_message_encoding script_env (set_expired example_established) ?w = (Got (Inr ()), ec', [])"
    by (simp add: est_authenticate_def set_expired_def example_established_def into_established_def Let_def)
  have "is_expired 5000 ec' = None"
    using authentication_restores_session [OF e, of 5000] by (simp add: saturating_add_def)
  with e show ?thesis by blast
qed

text \<open>
  C20: The expiry the agent computes from a pong is the server's, moved to the local clock, and errs on the early side: it is the local time of the request plus the
  server's remaining time, less the round trip, and never before the request. It holds for a round trip below \<open>2 ^ 32\<close>
  milliseconds, a session that has not yet expired on the server's clock, and times for which the unsigned sums do not wrap: the local time of the request plus the larger of the
  remaining time and the round trip is below \<open>2 ^ 64\<close>.
\<close>

theorem pong_expiry_conservative:
  assumes "pong_session_expire_at pong = Some e" "unat now - unat (pong_request_now pong) < 2 ^ 32"
    and "pong_server_now pong \<le> e"
    and "unat (pong_request_now pong) + max (unat e - unat (pong_server_now pong)) (unat now - unat (pong_request_now pong)) < 2 ^ 64"
  shows "unat (get_expire_at (pong_received now pong ec)) =
    unat (pong_request_now pong) + ((unat e - unat (pong_server_now pong)) - (unat now - unat (pong_request_now pong))) \<and>
    is_expired t (pong_received now pong ec) \<noteq> Some SessionNotSetup"
  using pong_expiry [OF assms] assms(1) by (simp add: is_expired_def pong_received_def Let_def)

theorem pong_expiry_conservative_witness:
  "unat (get_expire_at (pong_received 1040 (example_pong\<lparr>pong_request_now := 1000, pong_server_now := 500000,
     pong_session_expire_at := Some 560000\<rparr>) example_established)) = 60960"
  using pong_expiry_conservative [of "example_pong\<lparr>pong_request_now := 1000, pong_server_now := 500000,
     pong_session_expire_at := Some 560000\<rparr>" 560000 1040 example_established] by simp

text \<open>
  The MTU data of a session holds, for every data centre, the largest payload among all the test packets received from it, and
  nothing for a data centre none came from.
\<close>

theorem mtu_payload_is_maximum:
  "largest_payload_by_datacenter (fold record_mtu_test_packet ps MtuData_default) dc =
   (case map mtp_udp_payload_length (filter (\<lambda>p. mtp_data_center_id p = dc) ps) of
      [] \<Rightarrow> None | l # ls \<Rightarrow> Some (Max (set (l # ls))))"
proof -
  have "fold max ls l = Max (set (l # ls))" for l :: u32 and ls
    by (simp only: Max.set_eq_fold)
  then show ?thesis
    unfolding mtu_packets by (simp add: MtuData_default_def Let_def split: list.splits)
qed

end
