(* ===== verification/Maintained_Control.thy ===== *)
theory Maintained_Control
  imports Established_Control
begin

section \<open>The maintained control session\<close>

text \<open>
  \<^verbatim>\<open>packages/agent_core/src/agent_control/maintained_control.rs\<close>: the session with the timers that keep it alive, its renewal, the
  replacement of its connection and the messages it hands to the agent. The watch channel of the connection state is its
  current value: the runtime subscribes to it before it runs the agent, so a send replaces that value. The steps of \<^verbatim>\<open>update\<close> are one
  definition each.
\<close>

subsection \<open>Data\<close>

definition HARD_RECONNECT_FAILURE_THRESHOLD :: u32 where
  "HARD_RECONNECT_FAILURE_THRESHOLD = 3"

datatype ControlConnectionState = Connected | Reconnecting

datatype TunnelControlEvent = EventNewClient NewClient | EventUdpChannelDetails UdpChannelDetails

record 'io MaintainedControl =
  mc_control :: "'io EstablishedControl"
  last_keep_alive :: u64
  last_ping :: u64
  last_pong :: u64
  last_udp_auth :: u64
  last_control_targets :: "SocketAddr list"
  control_state :: ControlConnectionState
  soft_reconnect_failures :: u32
  hard_reconnect_requested :: bool

subsection \<open>Failures\<close>

definition note_control_failure :: "'io MaintainedControl \<Rightarrow> 'io MaintainedControl" where
  "note_control_failure mc =
     (let mc1 = mc\<lparr>soft_reconnect_failures := saturating_add (soft_reconnect_failures mc) 1\<rparr>
      in if HARD_RECONNECT_FAILURE_THRESHOLD \<le> soft_reconnect_failures mc1
         then mc1\<lparr>hard_reconnect_requested := True\<rparr> else mc1)"

definition take_hard_reconnect_request :: "'io MaintainedControl \<Rightarrow> bool \<times> 'io MaintainedControl" where
  "take_hard_reconnect_request mc = (hard_reconnect_requested mc, mc\<lparr>hard_reconnect_requested := False\<rparr>)"

definition set_control_state :: "ControlConnectionState \<Rightarrow> 'io MaintainedControl \<Rightarrow> 'io MaintainedControl" where
  "set_control_state state mc = (if control_state mc \<noteq> state then mc\<lparr>control_state := state\<rparr> else mc)"

text \<open>A request that could not be sent counts as a failure and forces the session to be renewed.\<close>

definition sent_or_expired ::
  "(ControlError + unit) awaited \<times> 'io EstablishedControl \<times> 'w \<Rightarrow> 'io MaintainedControl \<Rightarrow> 'io MaintainedControl \<times> 'w" where
  "sent_or_expired r mc = (case r of (res, ec, w) \<Rightarrow>
     let mc1 = mc\<lparr>mc_control := ec\<rparr> in
     (case try_timeout ControlTimeout res of
        Inr _ \<Rightarrow> (mc1, w)
      | Inl _ \<Rightarrow> let mc2 = note_control_failure mc1 in (mc2\<lparr>mc_control := set_expired (mc_control mc2)\<rparr>, w)))"

subsection \<open>Setting up and replacing the connection\<close>

definition setup_control ::
  "byteorder \<Rightarrow> proto_encoding \<Rightarrow> ('w, 'io) control_env \<Rightarrow> 'io \<Rightarrow> 'w \<Rightarrow> (SetupError + 'io MaintainedControl) \<times> 'w" where
  "setup_control bo me env io w0 = (case ce_get_control_addresses env w0 of (addrs, w1) \<Rightarrow>
     (case try_timeout SetupTimeout addrs of
        Inl e \<Rightarrow> (Inl e, w1)
      | Inr addresses \<Rightarrow> (case connect_to_first bo me env io addresses w1 of (conn, w2) \<Rightarrow>
          (case try_timeout SetupTimeout conn of
             Inl e \<Rightarrow> (Inl e, w2)
           | Inr connected \<Rightarrow> (case auth_into_established bo me env connected w2 of (est, w3) \<Rightarrow>
               (case try_timeout SetupTimeout est of
                  Inl e \<Rightarrow> (Inl e, w3)
                | Inr ec \<Rightarrow>
                    (Inr \<lparr>mc_control = ec, last_keep_alive = 0, last_ping = 0, last_pong = ce_now env w3,
                       last_udp_auth = 0, last_control_targets = addresses, control_state = Connected,
                       soft_reconnect_failures = 0, hard_reconnect_requested = False\<rparr>, w3)))))))"

definition connection_renewed :: "u64 \<Rightarrow> 'io MaintainedControl \<Rightarrow> 'io MaintainedControl" where
  "connection_renewed now mc = set_control_state Connected
     (mc\<lparr>last_pong := now, last_ping := 0, last_keep_alive := 0, last_udp_auth := 0,
         soft_reconnect_failures := 0, hard_reconnect_requested := False\<rparr>)"

definition replace_connection ::
  "byteorder \<Rightarrow> proto_encoding \<Rightarrow> ('w, 'io) control_env \<Rightarrow> 'io ConnectedControl \<Rightarrow> bool \<Rightarrow> 'io MaintainedControl \<Rightarrow> 'w \<Rightarrow>
   (SetupError + bool) \<times> 'io MaintainedControl \<times> 'w" where
  "replace_connection bo me env connected force mc w =
     (let latest = pong_latest (ec_conn (mc_control mc)) in
      if \<not> force \<and> sock_ip (pong_client_addr latest) = sock_ip (pong_client_addr (pong_latest connected)) \<and>
         pong_tunnel_addr latest = pong_tunnel_addr (pong_latest connected)
      then (Inr False, mc, w)
      else
        let mc1 = set_control_state Reconnecting mc in
        (case conn_authenticate bo me env connected w of (res, c, w1) \<Rightarrow>
           (case try_timeout SetupTimeout res of
              Inl e \<Rightarrow> (Inl e, mc1, w1)
            | Inr registered \<Rightarrow>
                (Inr True, connection_renewed (ce_now env w1)
                   (mc1\<lparr>mc_control := reset_established c (mc_control mc1) registered\<rparr>), w1))))"

definition reload_control_addr ::
  "byteorder \<Rightarrow> proto_encoding \<Rightarrow> ('w, 'io) control_env \<Rightarrow> bool \<Rightarrow> 'io MaintainedControl \<Rightarrow> 'w \<Rightarrow>
   (SetupError + bool) \<times> 'io MaintainedControl \<times> 'w" where
  "reload_control_addr bo me env force mc0 w0 =
     (let mc1 = (if force then set_control_state Reconnecting mc0 else mc0) in
      case ce_get_control_addresses env w0 of (addrs, w1) \<Rightarrow>
      (case try_timeout SetupTimeout addrs of
         Inl e \<Rightarrow> (Inl e, mc1, w1)
       | Inr addresses \<Rightarrow>
           if \<not> force \<and> last_control_targets mc1 = addresses then (Inr False, mc1, w1)
           else
             let mc2 = set_control_state Reconnecting mc1 in
             (case ce_create_io env w1 of (new_io, w2) \<Rightarrow>
             (case try_timeout SetupTimeout new_io of
                Inl e \<Rightarrow> (Inl e, mc2, w2)
              | Inr io \<Rightarrow> (case connect_to_first bo me env io addresses w2 of (conn, w3) \<Rightarrow>
                  (case try_timeout SetupTimeout conn of
                     Inl e \<Rightarrow> (Inl e, mc2, w3)
                   | Inr connected \<Rightarrow>
                       (case replace_connection bo me env connected force mc2 w3 of
                          (Inl e, mc3, w4) \<Rightarrow> (Inl e, mc3, w4)
                        | (Inr updated, mc3, w4) \<Rightarrow>
                            (Inr updated, connection_renewed (ce_now env w4) (mc3\<lparr>last_control_targets := addresses\<rparr>), w4))))))))"

definition send_udp_session_auth ::
  "byteorder \<Rightarrow> proto_encoding \<Rightarrow> ('w, 'io) control_env \<Rightarrow> u64 \<Rightarrow> u64 \<Rightarrow> 'io MaintainedControl \<Rightarrow> 'w \<Rightarrow>
   bool \<times> 'io MaintainedControl \<times> 'w" where
  "send_udp_session_auth bo me env now wait_ms mc w =
     (if now < last_udp_auth mc + wait_ms then (False, mc, w)
      else
        let mc1 = mc\<lparr>last_udp_auth := now\<rparr> in
        (case sent_or_expired (send_setup_udp_channel bo me env 1 (mc_control mc1) w) mc1 of
           (mc2, w2) \<Rightarrow> (True, mc2, w2)))"

subsection \<open>\<^verbatim>\<open>update\<close>\<close>

text \<open>Renewing an expired session: \<open>None\<close> when that fails, after which \<^verbatim>\<open>update\<close> sleeps for two seconds and returns.\<close>

definition update_session ::
  "byteorder \<Rightarrow> proto_encoding \<Rightarrow> ('w, 'io) control_env \<Rightarrow> 'io MaintainedControl \<Rightarrow> 'w \<Rightarrow> bool \<times> 'io MaintainedControl \<times> 'w" where
  "update_session bo me env mc w = (case is_expired (ce_now env w) (mc_control mc) of
     None \<Rightarrow> (True, mc, w)
   | Some reason \<Rightarrow>
       let mc1 = set_control_state Reconnecting mc in
       (case est_authenticate bo me env (mc_control mc1) w of (res, ec, w1) \<Rightarrow>
          let mc2 = mc1\<lparr>mc_control := ec\<rparr> in
          (case try_timeout SetupTimeout res of
             Inl _ \<Rightarrow> (False, note_control_failure mc2, snd (ce_sleep env 2000 w1))
           | Inr _ \<Rightarrow>
               (True, set_control_state Connected
                  (mc2\<lparr>soft_reconnect_failures := 0, hard_reconnect_requested := False, last_pong := ce_now env w1\<rparr>), w1))))"

definition update_ping ::
  "byteorder \<Rightarrow> proto_encoding \<Rightarrow> ('w, 'io) control_env \<Rightarrow> u64 \<Rightarrow> 'io MaintainedControl \<Rightarrow> 'w \<Rightarrow> 'io MaintainedControl \<times> 'w" where
  "update_ping bo me env now mc w =
     (if 1000 < now - last_ping mc
      then let mc1 = mc\<lparr>last_ping := now\<rparr> in sent_or_expired (send_ping bo me env 200 now (mc_control mc1) w) mc1
      else (mc, w))"

definition update_keep_alive ::
  "byteorder \<Rightarrow> proto_encoding \<Rightarrow> ('w, 'io) control_env \<Rightarrow> u64 \<Rightarrow> 'io MaintainedControl \<Rightarrow> 'w \<Rightarrow> 'io MaintainedControl \<times> 'w" where
  "update_keep_alive bo me env now mc w =
     (let time_till_expire = max (get_expire_at (mc_control mc)) now - now;
          interval = (if time_till_expire < 30000 then 10000 else 60000) in
      if interval < now - last_keep_alive mc
      then let mc1 = mc\<lparr>last_keep_alive := now\<rparr> in sent_or_expired (send_keep_alive bo me env 100 (mc_control mc1) w) mc1
      else (mc, w))"

text \<open>
  The messages of one update: at most \<open>n\<close> more, and no more after ten waits of a tenth of a second without one.
\<close>

fun update_recv ::
  "byteorder \<Rightarrow> proto_encoding \<Rightarrow> ('w, 'io) control_env \<Rightarrow> nat \<Rightarrow> nat \<Rightarrow> 'io MaintainedControl \<Rightarrow> 'w \<Rightarrow>
   TunnelControlEvent option \<times> 'io MaintainedControl \<times> 'w" where
  "update_recv bo me env 0 timeouts mc w = (None, mc, w)"
| "update_recv bo me env (Suc n) timeouts mc w = (case recv_feed_msg bo me env 100 (mc_control mc) w of (res, ec, w1) \<Rightarrow>
     let mc1 = mc\<lparr>mc_control := ec\<rparr> in
     (case res of
        Got (Some (Inr feed)) \<Rightarrow>
          (case feed of
             FeedNewClient c \<Rightarrow> (Some (EventNewClient c), mc1, w1)
           | FeedNewClientOld c \<Rightarrow> (Some (EventNewClient (NewClient_from c)), mc1, w1)
           | FeedResponse msg \<Rightarrow>
               (case content msg of
                  ResUdpChannelDetails details \<Rightarrow> (Some (EventUdpChannelDetails details), mc1, w1)
                | Unauthorized \<Rightarrow>
                    let mc2 = set_control_state Reconnecting mc1 in
                    update_recv bo me env n timeouts (mc2\<lparr>mc_control := set_expired (mc_control mc2)\<rparr>) w1
                | ResPong _ \<Rightarrow> update_recv bo me env n timeouts (mc1\<lparr>last_pong := ce_now env w1\<rparr>) w1
                | _ \<Rightarrow> update_recv bo me env n timeouts mc1 w1))
      | Got (Some (Inl _)) \<Rightarrow> update_recv bo me env n timeouts mc1 w1
      | _ \<Rightarrow> if 10 \<le> timeouts + 1 then (None, mc1, w1) else update_recv bo me env n (timeouts + 1) mc1 w1))"

definition update_watchdog :: "u64 \<Rightarrow> 'io MaintainedControl \<Rightarrow> 'io MaintainedControl" where
  "update_watchdog now mc =
     (if last_pong mc \<noteq> 0 \<and> 6000 < now - last_pong mc
      then let mc1 = note_control_failure (set_control_state Reconnecting (mc\<lparr>last_pong := 0\<rparr>))
           in mc1\<lparr>mc_control := set_expired (mc_control mc1)\<rparr>
      else mc)"

definition control_update ::
  "byteorder \<Rightarrow> proto_encoding \<Rightarrow> ('w, 'io) control_env \<Rightarrow> 'io MaintainedControl \<Rightarrow> 'w \<Rightarrow>
   TunnelControlEvent option \<times> 'io MaintainedControl \<times> 'w" where
  "control_update bo me env mc0 w0 = (case update_session bo me env mc0 w0 of
     (False, mc1, w1) \<Rightarrow> (None, mc1, w1)
   | (True, mc1, w1) \<Rightarrow>
       let now = ce_now env w1 in
       (case update_ping bo me env now mc1 w1 of (mc2, w2) \<Rightarrow>
       (case update_keep_alive bo me env now mc2 w2 of (mc3, w3) \<Rightarrow>
       (case update_recv bo me env 30 0 mc3 w3 of
          (Some event, mc4, w4) \<Rightarrow> (Some event, mc4, w4)
        | (None, mc4, w4) \<Rightarrow> (None, update_watchdog (ce_now env w4) mc4, w4)))))"

subsection \<open>The invariant\<close>

text \<open>
  A hard reconnect is only requested after three failures in a row, and a server that was given up on leaves the session marked as
  expired, so that the next update renews it. (The clock never shows the epoch itself, which \<^verbatim>\<open>last_pong\<close> uses as a mark.)
\<close>

definition mc_ok :: "'io MaintainedControl \<Rightarrow> bool" where
  "mc_ok mc \<longleftrightarrow> (hard_reconnect_requested mc \<longrightarrow> 3 \<le> soft_reconnect_failures mc) \<and>
     (last_pong mc = 0 \<longrightarrow> force_expired (mc_control mc))"

text \<open>What an update reports of a message.\<close>

definition feed_event :: "ControlFeed \<Rightarrow> TunnelControlEvent option" where
  "feed_event feed = (case feed of
     FeedNewClient c \<Rightarrow> Some (EventNewClient c)
   | FeedNewClientOld c \<Rightarrow> Some (EventNewClient (NewClient_from c))
   | FeedResponse msg \<Rightarrow> (case content msg of
         ResUdpChannelDetails details \<Rightarrow> Some (EventUdpChannelDetails details)
       | _ \<Rightarrow> None))"

lemma set_control_state_sel [simp]:
  "mc_control (set_control_state s mc) = mc_control mc" "last_pong (set_control_state s mc) = last_pong mc"
  "soft_reconnect_failures (set_control_state s mc) = soft_reconnect_failures mc"
  "hard_reconnect_requested (set_control_state s mc) = hard_reconnect_requested mc"
  "last_control_targets (set_control_state s mc) = last_control_targets mc"
  "control_state (set_control_state s mc) = s"
  "last_ping (set_control_state s mc) = last_ping mc"
  by (auto simp: set_control_state_def)

lemma note_control_failure_sel [simp]:
  "mc_control (note_control_failure mc) = mc_control mc" "last_pong (note_control_failure mc) = last_pong mc"
  "control_state (note_control_failure mc) = control_state mc"
  "soft_reconnect_failures (note_control_failure mc) = saturating_add (soft_reconnect_failures mc) 1"
  "hard_reconnect_requested (note_control_failure mc) \<longleftrightarrow>
     hard_reconnect_requested mc \<or> 3 \<le> saturating_add (soft_reconnect_failures mc) (1 :: u32)"
  by (simp_all add: note_control_failure_def Let_def HARD_RECONNECT_FAILURE_THRESHOLD_def)

lemma failures_grow: "unat (saturating_add (n :: u32) 1) = min (unat n + 1) (2 ^ 32 - 1)"
  by (simp add: saturating_add_le)

lemma mc_ok_failure: "mc_ok mc \<Longrightarrow> mc_ok (note_control_failure mc)"
  by (auto simp: mc_ok_def word_le_nat_alt failures_grow)

lemma mc_ok_set_state [simp]: "mc_ok (set_control_state s mc) = mc_ok mc"
  by (simp add: mc_ok_def)

lemma mc_ok_expired: "mc_ok mc \<Longrightarrow> mc_ok (mc\<lparr>mc_control := set_expired ec\<rparr>)"
  by (simp add: mc_ok_def set_expired_def)

lemma mc_ok_control: "mc_ok mc \<Longrightarrow> force_expired ec = force_expired (mc_control mc) \<Longrightarrow> mc_ok (mc\<lparr>mc_control := ec\<rparr>)"
  by (simp add: mc_ok_def)

lemma mc_ok_times [simp]:
  "mc_ok (mc\<lparr>last_ping := t\<rparr>) = mc_ok mc" "mc_ok (mc\<lparr>last_keep_alive := t\<rparr>) = mc_ok mc"
  "mc_ok (mc\<lparr>last_udp_auth := t\<rparr>) = mc_ok mc" "mc_ok (mc\<lparr>last_control_targets := as\<rparr>) = mc_ok mc"
  by (simp_all add: mc_ok_def)

lemma mc_ok_renewed: "now \<noteq> 0 \<Longrightarrow> mc_ok (connection_renewed now mc)"
  by (simp add: connection_renewed_def mc_ok_def)

lemma est_send_force [simp]: "est_send bo me env rid req ec w = (r, ec', w') \<Longrightarrow> force_expired ec' = force_expired ec"
  by (auto simp: est_send_def split: prod.splits awaited.splits sum.splits)

lemma apply_feed_force [simp]: "force_expired (apply_feed now feed ec) = force_expired ec"
  by (simp add: apply_feed_def pong_received_def Let_def split: ControlFeed.split ControlResponse.split option.split)

lemma recv_feed_force: "recv_feed_msg bo me env ms ec w = (r, ec', w') \<Longrightarrow> force_expired ec' = force_expired ec"
  by (auto simp: recv_feed_msg_def split: prod.splits awaited.splits option.splits sum.splits)

lemma sent_or_expired_ok:
  assumes "mc_ok mc" "sent_or_expired (est_send bo me env rid req (mc_control mc) w) mc = (mc', w')"
  shows "mc_ok mc'"
proof -
  obtain r ec w1 where r: "est_send bo me env rid req (mc_control mc) w = (r, ec, w1)"
    by (metis prod_cases3)
  have "mc_ok (mc\<lparr>mc_control := ec\<rparr>)"
    using assms(1) est_send_force [OF r] by (rule mc_ok_control)
  then show ?thesis
    using assms(2) mc_ok_failure by (auto simp: sent_or_expired_def r Let_def intro: mc_ok_expired split: sum.splits)
qed

lemma update_ping_ok:
  assumes "mc_ok mc" "update_ping bo me env now mc w = (mc', w')" shows "mc_ok mc'"
proof (cases "1000 < now - last_ping mc")
  case True
  then show ?thesis
    using assms sent_or_expired_ok [of "mc\<lparr>last_ping := now\<rparr>"] by (auto simp: update_ping_def send_ping_def)
qed (use assms in \<open>auto simp: update_ping_def\<close>)

lemma update_keep_alive_ok:
  assumes "mc_ok mc" "update_keep_alive bo me env now mc w = (mc', w')" shows "mc_ok mc'"
  using assms sent_or_expired_ok [of "mc\<lparr>last_keep_alive := now\<rparr>"]
  by (auto simp: update_keep_alive_def send_keep_alive_def Let_def split: if_splits)

lemma send_udp_session_auth_ok:
  assumes "mc_ok mc" "send_udp_session_auth bo me env now wait_ms mc w = (b, mc', w')" shows "mc_ok mc'"
  using assms sent_or_expired_ok [of "mc\<lparr>last_udp_auth := now\<rparr>"]
  by (auto simp: send_udp_session_auth_def send_setup_udp_channel_def Let_def split: if_splits prod.splits)

lemma update_session_ok:
  assumes "\<And>w. ce_now env w \<noteq> 0" "mc_ok mc" "update_session bo me env mc w = (b, mc', w')" shows "mc_ok mc'"
proof (cases "is_expired (ce_now env w) (mc_control mc)")
  case None
  then show ?thesis using assms by (simp add: update_session_def)
next
  case (Some reason)
  obtain r ec w1 where r: "est_authenticate bo me env (mc_control mc) w = (r, ec, w1)"
    by (metis prod_cases3)
  show ?thesis
  proof (cases "try_timeout SetupTimeout r")
    case (Inl e)
    have "r \<noteq> Got (Inr ())"
      using Inl by auto
    then have "mc_ok ((set_control_state Reconnecting mc)\<lparr>mc_control := ec\<rparr>)"
      using assms(2) est_authenticate_failed(1) [OF r] by (auto intro!: mc_ok_control)
    then show ?thesis
      using assms(3) Inl Some mc_ok_failure by (auto simp: update_session_def r Let_def)
  next
    case (Inr u)
    then show ?thesis
      using assms Some by (auto simp: update_session_def r Let_def) (simp add: mc_ok_def)
  qed
qed

lemma replace_connection_ok:
  "\<lbrakk>\<And>w. ce_now env w \<noteq> 0; mc_ok mc; replace_connection bo me env conn force mc w = (r, mc', w')\<rbrakk> \<Longrightarrow> mc_ok mc'"
  by (auto simp: replace_connection_def Let_def mc_ok_renewed split: if_splits prod.splits sum.splits)

lemma reload_control_addr_ok:
  assumes "\<And>w. ce_now env w \<noteq> 0" "mc_ok mc" "reload_control_addr bo me env force mc w = (r, mc', w')"
  shows "mc_ok mc'"
  using assms(2,3)
  by (auto simp: reload_control_addr_def Let_def mc_ok_renewed [OF assms(1)] split: if_splits prod.splits sum.splits
    dest!: replace_connection_ok [OF assms(1), rotated])

text \<open>One message of an update: it ends the update, or the loop goes on with the session as the message left it.\<close>

lemma update_recv_step:
  assumes recv: "recv_feed_msg bo me env 100 (mc_control mc) w = (res, ec, w1)"
    and silent: "P (None, mc\<lparr>mc_control := ec\<rparr>, w1)"
    and event: "\<And>feed. res = Got (Some (Inr feed)) \<Longrightarrow> P (feed_event feed, mc\<lparr>mc_control := ec\<rparr>, w1)"
    and go_on: "\<And>t'. P (update_recv bo me env n t' (mc\<lparr>mc_control := ec\<rparr>) w1)"
      "\<And>t'. P (update_recv bo me env n t' (mc\<lparr>mc_control := ec, last_pong := ce_now env w1\<rparr>) w1)"
      "\<And>t'. P (update_recv bo me env n t' ((set_control_state Reconnecting (mc\<lparr>mc_control := ec\<rparr>))\<lparr>mc_control := set_expired ec\<rparr>) w1)"
  shows "P (update_recv bo me env (Suc n) t mc w)"
proof (cases "\<exists>feed. res = Got (Some (Inr feed))")
  case True
  then obtain feed where [simp]: "res = Got (Some (Inr feed))"
    by blast
  show ?thesis
  proof (cases feed)
    case (FeedResponse msg)
    then show ?thesis
      using event go_on by (cases "content msg") (simp_all add: recv Let_def feed_event_def)
  qed (use event in \<open>simp_all add: recv Let_def feed_event_def\<close>)
next
  case False
  then show ?thesis
    using silent go_on by (auto simp: recv Let_def split: awaited.split option.split sum.split)
qed

lemma update_recv_ok:
  assumes "\<And>w. ce_now env w \<noteq> 0"
  shows "mc_ok mc \<Longrightarrow> mc_ok (fst (snd (update_recv bo me env n t mc w)))"
proof (induction n arbitrary: t mc w)
  case (Suc n)
  obtain res ec w1 where recv: "recv_feed_msg bo me env 100 (mc_control mc) w = (res, ec, w1)"
    by (metis prod_cases3)
  have "mc_ok (mc\<lparr>mc_control := ec\<rparr>)" "mc_ok (mc\<lparr>mc_control := ec, last_pong := ce_now env w1\<rparr>)"
    "mc_ok ((set_control_state Reconnecting (mc\<lparr>mc_control := ec\<rparr>))\<lparr>mc_control := set_expired ec\<rparr>)"
    using Suc.prems recv_feed_force [OF recv] assms by (simp_all add: mc_ok_def set_expired_def)
  then show ?case
    by (intro update_recv_step [OF recv, where P = "\<lambda>r. mc_ok (fst (snd r))"]) (simp_all add: Suc.IH)
qed simp

lemma update_watchdog_ok: "mc_ok mc \<Longrightarrow> mc_ok (update_watchdog now mc)"
  unfolding update_watchdog_def Let_def
  by (auto simp: mc_ok_def set_expired_def word_le_nat_alt failures_grow)

lemma control_update_split:
  obtains mc1 w1 where
    "update_session bo me env mc w = (False, mc1, w1)" "control_update bo me env mc w = (None, mc1, w1)"
  | mc1 w1 mc2 w2 mc3 w3 ev mc4 w4 where
    "update_session bo me env mc w = (True, mc1, w1)"
    "update_ping bo me env (ce_now env w1) mc1 w1 = (mc2, w2)"
    "update_keep_alive bo me env (ce_now env w1) mc2 w2 = (mc3, w3)"
    "update_recv bo me env 30 0 mc3 w3 = (ev, mc4, w4)"
    "control_update bo me env mc w = (ev, if ev = None then update_watchdog (ce_now env w4) mc4 else mc4, w4)"
proof -
  obtain b mc1 w1 where 1: "update_session bo me env mc w = (b, mc1, w1)" by (metis prod_cases3)
  obtain mc2 w2 where 2: "update_ping bo me env (ce_now env w1) mc1 w1 = (mc2, w2)" by fastforce
  obtain mc3 w3 where 3: "update_keep_alive bo me env (ce_now env w1) mc2 w2 = (mc3, w3)" by fastforce
  obtain ev mc4 w4 where 4: "update_recv bo me env 30 0 mc3 w3 = (ev, mc4, w4)" by (metis prod_cases3)
  show ?thesis
  proof (cases b)
    case False
    then show ?thesis using 1 that(1) by (simp add: control_update_def)
  next
    case True
    have "control_update bo me env mc w = (ev, if ev = None then update_watchdog (ce_now env w4) mc4 else mc4, w4)"
      using True 1 2 3 4 by (cases ev) (simp_all add: control_update_def Let_def)
    then show ?thesis using True 1 2 3 4 by (intro that(2)) simp_all
  qed
qed

lemma control_update_ok:
  assumes clock: "\<And>w. ce_now env w \<noteq> 0" and ok: "mc_ok mc" and run: "control_update bo me env mc w = (r, mc', w')"
  shows "mc_ok mc'"
proof (cases rule: control_update_split [of bo me env mc w])
  case 1
  then show ?thesis using run update_session_ok [OF clock ok] by auto
next
  case (2 mc1 w1 mc2 w2 mc3 w3 ev mc4 w4)
  have "mc_ok mc4"
    using update_recv_ok [OF clock update_keep_alive_ok [OF update_ping_ok [OF update_session_ok [OF clock ok 2(1)] 2(2)] 2(3)], of bo me 30 0 w3]
      2(4) by simp
  then show ?thesis
    using run 2(5) update_watchdog_ok by (auto split: if_splits)
qed

text \<open>The states of the session that the operations of its owner lead to, in any order and with any pauses.\<close>

inductive mc_reach :: "byteorder \<Rightarrow> proto_encoding \<Rightarrow> ('w, 'io) control_env \<Rightarrow> 'io MaintainedControl \<Rightarrow> bool"
  for bo me env where
  reach_setup: "setup_control bo me env io w = (Inr mc, w') \<Longrightarrow> mc_reach bo me env mc"
| reach_update: "\<lbrakk>mc_reach bo me env mc; control_update bo me env mc w = (ev, mc', w')\<rbrakk> \<Longrightarrow> mc_reach bo me env mc'"
| reach_udp_auth: "\<lbrakk>mc_reach bo me env mc; send_udp_session_auth bo me env now wait_ms mc w = (b, mc', w')\<rbrakk> \<Longrightarrow>
    mc_reach bo me env mc'"
| reach_reload: "\<lbrakk>mc_reach bo me env mc; reload_control_addr bo me env force mc w = (r, mc', w')\<rbrakk> \<Longrightarrow> mc_reach bo me env mc'"
| reach_take: "\<lbrakk>mc_reach bo me env mc; take_hard_reconnect_request mc = (b, mc')\<rbrakk> \<Longrightarrow> mc_reach bo me env mc'"

lemma setup_control_sel:
  assumes "setup_control bo me env io w = (Inr mc, w')"
  shows "last_pong mc = ce_now env w'" "\<not> hard_reconnect_requested mc" "soft_reconnect_failures mc = 0"
    "control_state mc = Connected" "fresh_session (ce_now env w') (mc_control mc)"
  using assms
  by (auto simp: setup_control_def split: prod.splits sum.splits)
    (metis auth_into_established_fresh try_timeout.elims sum.distinct(1))

lemma mc_reach_ok:
  assumes "\<And>w. ce_now env w \<noteq> 0" "mc_reach bo me env mc" shows "mc_ok mc"
  using assms(2)
proof induction
  case (reach_setup io w mc w')
  then show ?case by (simp add: mc_ok_def setup_control_sel assms(1))
next
  case (reach_take mc b mc')
  then show ?case by (auto simp: mc_ok_def take_hard_reconnect_request_def)
next
  case (reach_update mc w ev mc' w')
  show ?case by (rule control_update_ok [OF assms(1) reach_update(3,2)])
next
  case (reach_udp_auth mc now wait_ms w b mc' w')
  show ?case by (rule send_udp_session_auth_ok [OF reach_udp_auth(3,2)])
next
  case (reach_reload mc force w r mc' w')
  show ?case by (rule reload_control_addr_ok [OF assms(1) reach_reload(3,2)])
qed

subsection \<open>Properties\<close>

lemma failed_session_counts:
  assumes "\<not> fst (update_session bo me env mc w)" "mc' = fst (snd (control_update bo me env mc w))"
  shows "unat (soft_reconnect_failures mc') = min (unat (soft_reconnect_failures mc) + 1) (2 ^ 32 - 1) \<and>
    (hard_reconnect_requested mc' \<longleftrightarrow> hard_reconnect_requested mc \<or> 3 \<le> soft_reconnect_failures mc') \<and>
    control_state mc' = Reconnecting \<and> fst (control_update bo me env mc w) = None"
  using assms
  by (auto simp: control_update_def update_session_def Let_def failures_grow split: prod.splits option.splits sum.splits)

lemma failed_sessions_count:
  assumes "\<And>i. i < k \<Longrightarrow> \<not> fst (update_session bo me env (mcs i) (ws i)) \<and> mcs (Suc i) = fst (snd (control_update bo me env (mcs i) (ws i)))"
  shows "min k (2 ^ 32 - 1) \<le> unat (soft_reconnect_failures (mcs k))"
  using assms
proof (induction k)
  case (Suc k)
  then show ?case
    using failed_session_counts [of bo me env "mcs k" "ws k" "mcs (Suc k)"] by simp
qed simp

text \<open>A network that accepts everything and never answers; its state is the clock, which the waits move on.\<close>

definition silent_env :: "(u64, unit) control_env" where
  "silent_env =
     \<lparr>ce_send_to = (\<lambda>io d a w. (Got (Inr (length d)), w)),
      ce_recv_within = (\<lambda>ms io n w. (Got None, w + of_nat ms)),
      ce_sleep = (\<lambda>ms w. (Got (), w + of_nat ms)), ce_now = (\<lambda>w. max 1 w),
      ce_authenticate = (\<lambda>p w. (Got (Inl SetupTimeout), w)), ce_get_control_addresses = (\<lambda>w. (Got (Inr [server_addr]), w)),
      ce_create_io = (\<lambda>w. (Got (Inl SetupTimeout), w)), ce_hex_decode = (\<lambda>s. Some [0])\<rparr>"

lemma silent_env_simps [simp]:
  "ce_send_to silent_env io d a t = (Got (Inr (length d)), t)"
  "ce_recv_within silent_env ms io n t = (Got None, t + of_nat ms)"
  "ce_sleep silent_env ms t = (Got (), t + of_nat ms)" "ce_now silent_env t = max 1 t"
  "ce_authenticate silent_env p t = (Got (Inl SetupTimeout), t)"
  "ce_get_control_addresses silent_env t = (Got (Inr [server_addr]), t)"
  "ce_create_io silent_env t = (Got (Inl SetupTimeout), t)"
  by (simp_all add: silent_env_def)

definition example_maintained :: "unit MaintainedControl" where
  "example_maintained =
     \<lparr>mc_control = example_established, last_keep_alive = 0, last_ping = 0, last_pong = 10, last_udp_auth = 0,
      last_control_targets = [], control_state = Connected, soft_reconnect_failures = 0, hard_reconnect_requested = False\<rparr>"

text \<open>
  When the session has to be renewed and three or more updates in a row fail to do that, the state shown is
  Reconnecting and a hard reconnect (a new socket) is requested.
\<close>

theorem repeated_failures_reconnect:
  assumes "\<And>i. i < k \<Longrightarrow> \<not> fst (update_session bo me env (mcs i) (ws i)) \<and> mcs (Suc i) = fst (snd (control_update bo me env (mcs i) (ws i)))"
    and "3 \<le> k"
  shows "hard_reconnect_requested (mcs k) \<and> control_state (mcs k) = Reconnecting"
proof -
  obtain j where k: "k = Suc j"
    using assms(2) by (cases k) simp_all
  have "min k (2 ^ 32 - 1) \<le> unat (soft_reconnect_failures (mcs k))"
    by (rule failed_sessions_count) (rule assms(1))
  then have "3 \<le> unat (soft_reconnect_failures (mcs k))"
    using assms(2) by (simp add: min_def split: if_splits)
  then show ?thesis
    using failed_session_counts [of bo me env "mcs j" "ws j" "mcs k"] assms(1) [of j] k by (auto simp: word_le_nat_alt)
qed

lemma silent_session_fails:
  assumes "force_expired (mc_control mc)"
  shows "update_session bo me silent_env mc t = (False, fst (snd (update_session bo me silent_env mc t)), t + 2000)"
    "force_expired (mc_control (fst (snd (control_update bo me silent_env mc t))))"
  using assms
  by (simp_all add: control_update_def update_session_def is_expired_def est_authenticate_def conn_authenticate_def Let_def)

theorem repeated_failures_reconnect_witness:
  "hard_reconnect_requested (((\<lambda>mc. fst (snd (control_update be_byteorder be_message_encoding silent_env mc 0))) ^^ 3)
     (example_maintained\<lparr>mc_control := set_expired example_established\<rparr>))"
proof -
  let ?f = "\<lambda>mc. fst (snd (control_update be_byteorder be_message_encoding silent_env mc 0))"
  let ?mc = "example_maintained\<lparr>mc_control := set_expired example_established\<rparr>"
  have "force_expired (mc_control ((?f ^^ i) ?mc))" for i
    by (induction i) (simp_all add: set_expired_def silent_session_fails(2))
  then have "\<not> fst (update_session be_byteorder be_message_encoding silent_env ((?f ^^ i) ?mc) 0)" for i
    by (subst silent_session_fails(1)) simp_all
  then show ?thesis
    using repeated_failures_reconnect [of 3 be_byteorder be_message_encoding silent_env "\<lambda>i. (?f ^^ i) ?mc" "\<lambda>_. 0"] by simp
qed

lemma watchdog_notices:
  "force_expired (mc_control (update_watchdog now mc)) \<or>
   last_pong (update_watchdog now mc) = 0 \<or> now - last_pong (update_watchdog now mc) \<le> 6000"
  by (simp add: update_watchdog_def Let_def set_expired_def) (meson not_le)

text \<open>
  C21: A server that stops answering is noticed. When an update had a valid session to go on with (none had expired, or it was renewed) and
  ends without an event, the last pong is at most six
  seconds old or the session counts as expired, so that the next update renews it. When an update finds the session expired and fails to renew it,
  the failure is counted and the state shown is Reconnecting. In every state the session can get into, a hard
  reconnect is requested only after at least three failures. (The clock does not show the epoch itself.)
\<close>

theorem silent_server_noticed:
  assumes clock: "\<And>w. ce_now env w \<noteq> 0" and reach: "mc_reach bo me env mc"
  shows "(hard_reconnect_requested mc \<longrightarrow> 3 \<le> soft_reconnect_failures mc) \<and>
    (\<forall>mc' w' now. control_update bo me env mc w = (None, mc', w') \<longrightarrow>
      (if fst (update_session bo me env mc w)
       then ce_now env w' - last_pong mc' \<le> 6000 \<or> is_expired now (mc_control mc') = Some Forced
       else unat (soft_reconnect_failures mc') = min (unat (soft_reconnect_failures mc) + 1) (2 ^ 32 - 1) \<and> control_state mc' = Reconnecting))"
proof -
  note ok = mc_reach_ok [OF clock reach]
  have "ce_now env w' - last_pong mc' \<le> 6000 \<or> force_expired (mc_control mc')"
    if run: "control_update bo me env mc w = (None, mc', w')" and kept: "fst (update_session bo me env mc w)" for mc' w'
  proof (cases rule: control_update_split [of bo me env mc w])
    case (2 mc1 w1 mc2 w2 mc3 w3 ev mc4 w4)
    then show ?thesis
      using run watchdog_notices [of "ce_now env w4" mc4] control_update_ok [OF clock ok run] by (auto simp: mc_ok_def)
  qed (use kept in simp)
  moreover have "unat (soft_reconnect_failures mc') = min (unat (soft_reconnect_failures mc) + 1) (2 ^ 32 - 1) \<and> control_state mc' = Reconnecting"
    if "control_update bo me env mc w = (None, mc', w')" "\<not> fst (update_session bo me env mc w)" for mc' w'
    using failed_session_counts [OF that(2), of mc'] that(1) by simp
  ultimately show ?thesis
    using ok by (fastforce simp: mc_ok_def is_expired_def)
qed

text \<open>What the steps before the receive loop do to the connection.\<close>

lemma est_send_peer: "est_send bo me env rid req ec w = (r, ec', w') \<Longrightarrow> same_peer (ec_conn ec) (ec_conn ec')"
  by (auto simp: est_send_def dest: conn_send_peer split: prod.splits awaited.splits sum.splits)

lemma sent_or_expired_peer:
  assumes "sent_or_expired (est_send bo me env rid req (mc_control mc) w) mc = (mc', w')"
  shows "same_peer (ec_conn (mc_control mc)) (ec_conn (mc_control mc'))"
  using assms
  by (cases "est_send bo me env rid req (mc_control mc) w")
    (auto simp: sent_or_expired_def Let_def set_expired_def dest: est_send_peer split: sum.splits)

lemma est_authenticate_peer:
  assumes "est_authenticate bo me env ec w = (r, ec', w')"
  shows "same_peer (ec_conn ec) (ec_conn ec')"
proof -
  obtain x c w1 where x: "conn_authenticate bo me env (ec_conn ec) w = (x, c, w1)" by (metis prod_cases3)
  have "same_peer (ec_conn ec) c"
    using conn_authenticate_sound [OF x] by (auto simp: auth_sound_def)
  then show ?thesis
    using assms by (auto simp: est_authenticate_def x Let_def split: awaited.splits sum.splits)
qed

lemma update_session_peer:
  assumes "update_session bo me env mc w = (b, mc', w')"
  shows "same_peer (ec_conn (mc_control mc)) (ec_conn (mc_control mc'))"
proof -
  obtain r ec w1 where r: "est_authenticate bo me env (mc_control mc) w = (r, ec, w1)" by (metis prod_cases3)
  show ?thesis
    using assms est_authenticate_peer [OF r]
    by (auto simp: update_session_def r Let_def split: option.splits sum.splits)
qed

lemma update_requests_peer:
  "update_ping bo me env now mc w = (mc', w') \<Longrightarrow> same_peer (ec_conn (mc_control mc)) (ec_conn (mc_control mc'))"
  "update_keep_alive bo me env now mc w = (mc', w') \<Longrightarrow> same_peer (ec_conn (mc_control mc)) (ec_conn (mc_control mc'))"
  using sent_or_expired_peer [of bo me env _ _ "mc\<lparr>last_ping := now\<rparr>"] sent_or_expired_peer [of bo me env _ _ "mc\<lparr>last_keep_alive := now\<rparr>"]
  by (auto simp: update_ping_def update_keep_alive_def send_ping_def send_keep_alive_def Let_def split: if_splits)

text \<open>An event of the receive loop was told by the server, in a datagram that the session's socket delivered.\<close>

definition event_heard ::
  "byteorder \<Rightarrow> proto_encoding \<Rightarrow> ('w, 'io) control_env \<Rightarrow> 'io ConnectedControl \<Rightarrow> TunnelControlEvent option \<times> 'io MaintainedControl \<times> 'w \<Rightarrow> bool" where
  "event_heard bo me env conn r \<longleftrightarrow> same_peer conn (ec_conn (mc_control (fst (snd r)))) \<and>
     (fst r = None \<or> (\<exists>feed. heard bo me env (packet_io conn) 1024 (control_addr conn) feed \<and> feed_event feed = fst r))"

lemma event_heard_trans: "same_peer c d \<Longrightarrow> event_heard bo me env d r \<Longrightarrow> event_heard bo me env c r"
  by (auto simp: event_heard_def same_peer_def)

lemma apply_feed_conn [simp]: "ec_conn (apply_feed now feed ec) = ec_conn ec"
  by (simp add: apply_feed_def pong_received_def Let_def split: ControlFeed.split ControlResponse.split option.split)

lemma recv_feed_heard:
  assumes "recv_feed_msg bo me env ms ec w = (r, ec', w')"
  shows "same_peer (ec_conn ec) (ec_conn ec') \<and>
    (\<forall>feed. r = Got (Some (Inr feed)) \<longrightarrow> heard bo me env (packet_io (ec_conn ec)) 1024 (control_addr (ec_conn ec)) feed)"
proof -
  obtain x c w1 where x: "conn_recv bo me env ms (ec_conn ec) w = (x, c, w1)" by (metis prod_cases3)
  show ?thesis
    using conn_recv_cases [OF x] assms by (auto simp: recv_feed_msg_def x split: awaited.splits option.splits sum.splits)
qed

lemma update_recv_heard: "event_heard bo me env (ec_conn (mc_control mc)) (update_recv bo me env n t mc w)"
proof (induction n arbitrary: t mc w)
  case (Suc n)
  obtain res ec w1 where recv: "recv_feed_msg bo me env 100 (mc_control mc) w = (res, ec, w1)"
    by (metis prod_cases3)
  note heard = recv_feed_heard [OF recv]
  have "event_heard bo me env (ec_conn (mc_control mc)) (update_recv bo me env n t' mc2 w1)"
    if "ec_conn (mc_control mc2) = ec_conn ec" for t' mc2
    by (rule event_heard_trans [of _ "ec_conn ec"]) (use heard Suc.IH [of mc2 t' w1] that in simp_all)
  then have "event_heard bo me env (ec_conn (mc_control mc)) (update_recv bo me env n t' (mc\<lparr>mc_control := ec\<rparr>) w1)"
    "event_heard bo me env (ec_conn (mc_control mc)) (update_recv bo me env n t' (mc\<lparr>mc_control := ec, last_pong := ce_now env w1\<rparr>) w1)"
    "event_heard bo me env (ec_conn (mc_control mc))
      (update_recv bo me env n t' ((set_control_state Reconnecting (mc\<lparr>mc_control := ec\<rparr>))\<lparr>mc_control := set_expired ec\<rparr>) w1)" for t'
    by (simp_all add: set_expired_def)
  moreover have "event_heard bo me env (ec_conn (mc_control mc)) (feed_event feed, mc\<lparr>mc_control := ec\<rparr>, w1)"
    if "res = Got (Some (Inr feed))" for feed
    using heard that by (auto simp: event_heard_def)
  moreover have "event_heard bo me env (ec_conn (mc_control mc)) (None, mc\<lparr>mc_control := ec\<rparr>, w1)"
    using heard by (simp add: event_heard_def)
  ultimately show ?case
    by (intro update_recv_step [OF recv, where P = "event_heard bo me env (ec_conn (mc_control mc))"])
qed (simp add: event_heard_def)

lemma control_update_heard: "event_heard bo me env (ec_conn (mc_control mc)) (control_update bo me env mc w)"
proof (cases rule: control_update_split [of bo me env mc w])
  case (1 mc1 w1)
  then show ?thesis using update_session_peer [OF 1(1)] by (simp add: event_heard_def)
next
  case (2 mc1 w1 mc2 w2 mc3 w3 ev mc4 w4)
  have "same_peer (ec_conn (mc_control mc)) (ec_conn (mc_control mc3))"
    using update_session_peer [OF 2(1)] update_requests_peer(1) [OF 2(2)] update_requests_peer(2) [OF 2(3)]
    by (metis same_peer_trans)
  moreover have "event_heard bo me env (ec_conn (mc_control mc3)) (ev, mc4, w4)"
    using update_recv_heard [of bo me env mc3 30 0 w3] 2(4) by simp
  ultimately have "event_heard bo me env (ec_conn (mc_control mc)) (ev, mc4, w4)"
    by (rule event_heard_trans)
  moreover have "ec_conn (mc_control (update_watchdog t mc4)) = ec_conn (mc_control mc4)" for t
    by (simp add: update_watchdog_def Let_def set_expired_def)
  ultimately show ?thesis
    using 2(5) by (auto simp: event_heard_def)
qed

text \<open>
  Every event an update hands to the agent (a new client, the details of the UDP channel) was in a datagram that the
  session's socket received from the address of its control server, and an update never changes that server or socket.
\<close>

theorem control_event_heard:
  assumes "control_update bo me env mc w = (r, mc', w')"
  defines "conn \<equiv> ec_conn (mc_control mc)"
  shows "control_addr (ec_conn (mc_control mc')) = control_addr conn \<and> packet_io (ec_conn (mc_control mc')) = packet_io conn \<and>
    (\<forall>ev. r = Some ev \<longrightarrow>
      (\<exists>ms w1 w2 data feed rest. ce_recv_within env ms (packet_io conn) 1024 w1 = (Got (Some (Inr (data, control_addr conn))), w2) \<and>
        read_ControlFeed bo me (take 1024 data) = Inr (feed, rest) \<and> feed_event feed = Some ev))"
  using control_update_heard [of bo me env mc w] assms(1) unfolding event_heard_def heard_def same_peer_def conn_def
  by (auto simp: assms(1)) blast

text \<open>A session set up by a scripted server that pings, registers the agent and then sends the datagrams \<open>ds\<close>.\<close>

lemma example_setup:
  "\<exists>c. setup_control be_byteorder be_message_encoding script_env () (([1], SockV4 (sock_v4 9 9)) # (feed_bytes (ResPong example_pong) 1, server_addr) #
       (feed_bytes (ResAgentRegistered example_registered) 7, server_addr) # ds) =
     (Inr \<lparr>mc_control = into_established 7 c example_registered, last_keep_alive = 0, last_ping = 0, last_pong = 7, last_udp_auth = 0,
        last_control_targets = [server_addr], control_state = Connected, soft_reconnect_failures = 0, hard_reconnect_requested = False\<rparr>, ds) \<and>
     same_peer example_conn c \<and> \<not> flow_changed (into_established 7 c example_registered)"
proof -
  obtain c where c: "conn_authenticate be_byteorder be_message_encoding script_env example_conn
      ((feed_bytes (ResAgentRegistered example_registered) 7, server_addr) # ds) = (Got (Inr example_registered), c, ds)"
    using example_authenticates by blast
  have "same_peer example_conn c"
    using conn_authenticate_sound [OF c] by (simp add: auth_sound_def)
  then show ?thesis
    by (intro exI [of _ c]) (simp add: setup_control_def example_connects auth_into_established_def c flow_changed_def into_established_def Let_def
      del: connect_to_first.simps)
qed

lemma unscripted_silent: "\<exists>mc'. update_recv bo me script_env n t mc [] = (None, mc', [])"
proof (induction n arbitrary: t mc)
  case (Suc n)
  obtain ec where "recv_feed_msg bo me script_env 100 (mc_control mc) [] = (Got None, ec, [])"
    by (simp add: recv_feed_msg_def conn_recv_def Let_def)
  then show ?case using Suc.IH by (simp add: Let_def)
qed simp

definition example_script :: "(bytes \<times> SocketAddr) list" where
  "example_script = [([1], SockV4 (sock_v4 9 9)), (feed_bytes (ResPong example_pong) 1, server_addr),
     (feed_bytes (ResAgentRegistered example_registered) 7, server_addr)]"

definition example_details :: UdpChannelDetails where
  "example_details = \<lparr>ucd_tunnel_addr = server_addr, ucd_token = [1, 2, 3]\<rparr>"

lemma example_session:
  obtains mc where "setup_control be_byteorder be_message_encoding script_env () (example_script @ ds) = (Inr mc, ds)"
    "\<And>w. update_session bo me script_env mc w = (True, mc, w)" "\<And>w. update_ping bo me script_env 7 mc w = (mc, w)"
    "\<And>w. update_keep_alive bo me script_env 7 mc w = (mc, w)" "control_addr (ec_conn (mc_control mc)) = server_addr"
proof -
  obtain c where c: "setup_control be_byteorder be_message_encoding script_env () (([1], SockV4 (sock_v4 9 9)) # (feed_bytes (ResPong example_pong) 1, server_addr) #
       (feed_bytes (ResAgentRegistered example_registered) 7, server_addr) # ds) =
     (Inr \<lparr>mc_control = into_established 7 c example_registered, last_keep_alive = 0, last_ping = 0, last_pong = 7, last_udp_auth = 0,
        last_control_targets = [server_addr], control_state = Connected, soft_reconnect_failures = 0, hard_reconnect_requested = False\<rparr>, ds)"
     "same_peer example_conn c" "\<not> flow_changed (into_established 7 c example_registered)"
    using example_setup by blast
  let ?mc = "\<lparr>mc_control = into_established 7 c example_registered, last_keep_alive = 0, last_ping = 0, last_pong = 7, last_udp_auth = 0,
    last_control_targets = [server_addr], control_state = Connected, soft_reconnect_failures = 0, hard_reconnect_requested = False\<rparr>"
  have "is_expired 7 (into_established 7 c example_registered) = None"
    using c(3) by (simp add: is_expired_def) (simp add: into_established_def Let_def saturating_add_def)
  then have "update_session bo me script_env ?mc w = (True, ?mc, w)" "update_ping bo me script_env 7 ?mc w = (?mc, w)"
    "update_keep_alive bo me script_env 7 ?mc w = (?mc, w)" for w
    by (simp_all add: update_session_def update_ping_def update_keep_alive_def Let_def)
  moreover have "control_addr (ec_conn (mc_control ?mc)) = server_addr"
    using c(2) by (simp add: example_conn_def ConnectedControl_new_def same_peer_def into_established_def Let_def)
  moreover have "setup_control be_byteorder be_message_encoding script_env () (example_script @ ds) = (Inr ?mc, ds)"
    using c(1) by (simp add: example_script_def)
  ultimately show ?thesis
    by (intro that [of ?mc])
qed

theorem silent_server_noticed_witness:
  "\<exists>mc mc' w'. mc_reach be_byteorder be_message_encoding script_env mc \<and>
     control_update be_byteorder be_message_encoding script_env mc [] = (None, mc', w') \<and>
     (ce_now script_env w' - last_pong mc' \<le> 6000 \<or> is_expired 7 (mc_control mc') = Some Forced)"
proof -
  obtain mc where mc: "setup_control be_byteorder be_message_encoding script_env () (example_script @ []) = (Inr mc, [])"
    "\<And>w. update_session be_byteorder be_message_encoding script_env mc w = (True, mc, w)"
    "\<And>w. update_ping be_byteorder be_message_encoding script_env 7 mc w = (mc, w)"
    "\<And>w. update_keep_alive be_byteorder be_message_encoding script_env 7 mc w = (mc, w)"
    using example_session [of "[]" be_byteorder be_message_encoding] by metis
  obtain mc' where "update_recv be_byteorder be_message_encoding script_env 30 0 mc [] = (None, mc', [])"
    using unscripted_silent by blast
  then have run: "control_update be_byteorder be_message_encoding script_env mc [] = (None, update_watchdog 7 mc', [])"
    using mc(2-4) by (simp add: control_update_def Let_def)
  have reach: "mc_reach be_byteorder be_message_encoding script_env mc"
    by (rule reach_setup [OF mc(1)])
  show ?thesis
    using silent_server_noticed [OF _ reach, of "[]"] reach run mc(2) by auto
qed

theorem control_event_heard_witness:
  "\<exists>mc mc'. control_update be_byteorder be_message_encoding script_env mc [(feed_bytes (ResUdpChannelDetails example_details) 7, server_addr)] =
     (Some (EventUdpChannelDetails example_details), mc', []) \<and> control_addr (ec_conn (mc_control mc')) = server_addr"
proof -
  let ?data = "feed_bytes (ResUdpChannelDetails example_details) 7"
  obtain mc where mc: "\<And>w. update_session be_byteorder be_message_encoding script_env mc w = (True, mc, w)"
    "\<And>w. update_ping be_byteorder be_message_encoding script_env 7 mc w = (mc, w)"
    "\<And>w. update_keep_alive be_byteorder be_message_encoding script_env 7 mc w = (mc, w)"
    "control_addr (ec_conn (mc_control mc)) = server_addr"
    using example_session [of "[]" be_byteorder be_message_encoding] by metis
  have len: "length ?data \<le> 1024"
    by (simp add: feed_bytes_lengths example_details_def write_UdpChannelDetails_def be_vec_codec_def)
  have rd: "read_ControlFeed be_byteorder be_message_encoding (take 1024 ?data) =
      Inr (FeedResponse \<lparr>request_id = 7, content = ResUdpChannelDetails example_details\<rparr>, [])"
    by (rule feed_bytes_read [OF _ len]) (simp add: example_details_def server_addr_def)
  have "\<exists>mc'. update_recv be_byteorder be_message_encoding script_env (Suc n) 0 mc [(?data, server_addr)] =
      (Some (EventUdpChannelDetails example_details), mc', [])" for n
    using rd mc(4) by (simp add: recv_feed_msg_def conn_recv_def Let_def)
  from this [of 29] obtain mc' where "update_recv be_byteorder be_message_encoding script_env 30 0 mc [(?data, server_addr)] =
      (Some (EventUdpChannelDetails example_details), mc', [])"
    by (auto simp del: update_recv.simps)
  then have run: "control_update be_byteorder be_message_encoding script_env mc [(?data, server_addr)] =
      (Some (EventUdpChannelDetails example_details), mc', [])"
    using mc by (simp add: control_update_def Let_def)
  show ?thesis
    using control_event_heard [OF run] run mc(4) by auto
qed

text \<open>
  A periodic reload whose new socket cannot be opened leaves the state shown as Reconnecting although the old session goes on unchanged;
  nothing sets it back until the session is renewed or the next reload succeeds.
\<close>

lemma failed_reload_stays_reconnecting:
  assumes "ce_get_control_addresses env w = (Got (Inr addresses), w1)" "last_control_targets mc \<noteq> addresses"
    and "ce_create_io env w1 = (Got (Inl e), w2)"
  shows "reload_control_addr bo me env False mc w = (Inl e, set_control_state Reconnecting mc, w2)"
  using assms by (simp add: reload_control_addr_def Let_def)

end
