(* ===== verification/Udp_Receiver.thy ===== *)
theory Udp_Receiver
  imports Udp_Clients
begin

section \<open>The receiver task of a UDP client\<close>

text \<open>
  \<^verbatim>\<open>packages/agent_core/src/network/udp/udp_receiver.rs\<close>: the task that \<^verbatim>\<open>UdpReceiverSetup::create\<close> starts for every client. It waits three
  times in a round: for a free packet, for a datagram and for room in the output channel, and cancellation ends it at each of them. A
  round is given by the outcomes of its waits; the task sends on its end signal when it leaves the loop.
\<close>

text \<open>
  \<open>got_packet\<close>: the free packet (\<open>None\<close>: cancelled); \<open>got_datagram\<close>: what the socket returned (\<open>None\<close>: cancelled); \<open>got_time\<close>:
  the clock when a receive error is handled; \<open>got_room\<close>: the output took the packet (\<open>None\<close>: cancelled, \<open>Some False\<close>: it is closed).
\<close>

record 'e task_round =
  got_packet :: "packet_buf option"
  got_datagram :: "('e + bytes \<times> SocketAddr) option"
  got_time :: nat
  got_room :: "bool option"

text \<open>What a round does: it leaves the loop, goes on after an error, or offers a packet; with the next time an error may be logged.\<close>

datatype round_end = Leave | AfterError bool nat | Offer UdpReceivedPacket

definition receive_round :: "u64 \<Rightarrow> nat \<Rightarrow> 'e task_round \<Rightarrow> io_error + round_end" where
  "receive_round i next_error_log_allowed r = (case got_packet r of
     None \<Rightarrow> Inr Leave
   | Some packet \<Rightarrow> (case got_datagram r of
       None \<Rightarrow> Inr Leave
     | Some (Inl error) \<Rightarrow>
         if next_error_log_allowed \<le> got_time r then Inr (AfterError True (got_time r + 1000))
         else Inr (AfterError False next_error_log_allowed)
     | Some (Inr (datagram, source)) \<Rightarrow> (case recv_into datagram packet of (n, packet1) \<Rightarrow>
         and_then (expect ''called Result::unwrap on an Err value'' (buf_set_len n packet1)) (\<lambda>packet2.
           Inr (Offer \<lparr>rx_id = i, rx_packet = packet2, rx_from = source\<rparr>)))))"

text \<open>The task: the packets its output took, the number of errors logged, and whether it has ended (sent its end signal).\<close>

fun receiver_task :: "u64 \<Rightarrow> nat \<Rightarrow> 'e task_round list \<Rightarrow> io_error + (UdpReceivedPacket list \<times> nat \<times> bool)" where
  "receiver_task i allowed [] = Inr ([], 0, False)"
| "receiver_task i allowed (r # rs) = and_then (receive_round i allowed r) (\<lambda>e. case e of
     Leave \<Rightarrow> Inr ([], 0, True)
   | AfterError logged allowed1 \<Rightarrow> and_then (receiver_task i allowed1 rs) (\<lambda>(sent, logs, ended).
       Inr (sent, (if logged then 1 else 0) + logs, ended))
   | Offer packet \<Rightarrow>
       if got_room r = Some True
       then and_then (receiver_task i allowed rs) (\<lambda>(sent, logs, ended). Inr (packet # sent, logs, ended))
       else Inr ([], 0, True))"

subsection \<open>Laws\<close>

definition round_ok :: "'e task_round \<Rightarrow> bool" where
  "round_ok r \<longleftrightarrow> (case got_packet r of None \<Rightarrow> True | Some p \<Rightarrow> buf_ok p)"

text \<open>A round in which the loop ends, and the datagram of a round that hands one on.\<close>

definition round_leaves :: "'e task_round \<Rightarrow> bool" where
  "round_leaves r \<longleftrightarrow> got_packet r = None \<or> got_datagram r = None \<or> (\<exists>d. got_datagram r = Some (Inr d)) \<and> got_room r \<noteq> Some True"

definition round_datagram :: "'e task_round \<Rightarrow> (bytes \<times> SocketAddr) option" where
  "round_datagram r = (case got_datagram r of Some (Inr d) \<Rightarrow> Some d | _ \<Rightarrow> None)"

lemma receive_round_cases:
  assumes "round_ok r"
  obtains (leave) "receive_round i a r = Inr Leave" "round_leaves r"
  | (error) b a' where "receive_round i a r = Inr (AfterError b a')" "\<not> round_leaves r" "round_datagram r = None"
      "b \<longleftrightarrow> a \<le> got_time r" "a' = (if b then got_time r + 1000 else a)"
  | (offer) p d src where "receive_round i a r = Inr (Offer \<lparr>rx_id = i, rx_packet = p, rx_from = src\<rparr>)" "buf_ok p"
      "payload p = take PACKET_LEN d" "round_datagram r = Some (d, src)" "round_leaves r \<longleftrightarrow> got_room r \<noteq> Some True"
proof (cases "got_packet r")
  case None
  then show ?thesis using leave by (simp add: receive_round_def round_leaves_def)
next
  case (Some p)
  then have p: "buf_ok p" using assms by (simp add: round_ok_def)
  consider "got_datagram r = None" | e where "got_datagram r = Some (Inl e)" | d src where "got_datagram r = Some (Inr (d, src))"
    by (metis option.exhaust sum.exhaust surj_pair)
  then show ?thesis
  proof cases
    case 1
    with Some show ?thesis using leave by (simp add: receive_round_def round_leaves_def)
  next
    case 2
    with Some show ?thesis using error by (auto simp: receive_round_def round_leaves_def round_datagram_def split: if_splits)
  next
    case (3 d src)
    obtain n p1 where p1: "recv_into d p = (n, p1)" by fastforce
    note into = recv_into_ok [OF p p1]
    have "buf_ok (p1\<lparr>plen := n\<rparr>)" "payload (p1\<lparr>plen := n\<rparr>) = take PACKET_LEN d"
      using into by (simp_all add: buf_ok_def payload_def)
    then show ?thesis
      using offer [of "p1\<lparr>plen := n\<rparr>" src d] Some 3 into(1)
      by (simp add: receive_round_def p1 buf_set_len_def expect_def round_leaves_def round_datagram_def)
  qed
qed

lemma receiver_task_spec:
  "\<forall>r \<in> set rs. round_ok r \<Longrightarrow>
   \<exists>sent logs. receiver_task i a rs = Inr (sent, logs, \<exists>r \<in> set rs. round_leaves r) \<and>
     map (\<lambda>p. (payload (rx_packet p), rx_from p)) sent =
       map (map_prod (take PACKET_LEN) id) (List.map_filter round_datagram (takeWhile (\<lambda>r. \<not> round_leaves r) rs)) \<and>
     (\<forall>p \<in> set sent. rx_id p = i \<and> buf_ok (rx_packet p))"
proof (induction rs arbitrary: a)
  case (Cons r rs)
  then have IH: "\<exists>sent logs. receiver_task i a rs = Inr (sent, logs, \<exists>r \<in> set rs. round_leaves r) \<and>
     map (\<lambda>p. (payload (rx_packet p), rx_from p)) sent =
       map (map_prod (take PACKET_LEN) id) (List.map_filter round_datagram (takeWhile (\<lambda>r. \<not> round_leaves r) rs)) \<and>
     (\<forall>p \<in> set sent. rx_id p = i \<and> buf_ok (rx_packet p))" for a
    using Cons.IH [of a] Cons.prems unfolding list.set ball_simps by blast
  have "round_ok r" using Cons.prems by simp
  then show ?case
  proof (cases rule: receive_round_cases [of r i a])
    case leave
    then show ?thesis by (simp add: List.map_filter_simps)
  next
    case (error b a')
    then show ?thesis using IH [of a'] by (auto simp: List.map_filter_simps)
  next
    case (offer p d src)
    then show ?thesis
      using IH [of a] by (cases "got_room r = Some True") (auto simp: List.map_filter_simps)
  qed
qed (simp add: List.map_filter_simps)

text \<open>
  The receiver task never panics, hands on exactly the datagrams that its socket delivers before the task ends, in their order and cut to the size of a packet, each with the
  address it came from and the id of its client, and ends exactly when it is cancelled or its output closes; receive errors do not end it.
\<close>

theorem receiver_task_faithful:
  assumes "\<forall>r \<in> set rs. round_ok r"
  shows "\<exists>sent logs. receiver_task i a rs = Inr (sent, logs, \<exists>r \<in> set rs. round_leaves r) \<and>
    map (\<lambda>p. (rx_id p, payload (rx_packet p), rx_from p)) sent =
      map (\<lambda>(d, src). (i, take PACKET_LEN d, src)) (List.map_filter round_datagram (takeWhile (\<lambda>r. \<not> round_leaves r) rs))"
proof -
  obtain sent logs where run: "receiver_task i a rs = Inr (sent, logs, \<exists>r \<in> set rs. round_leaves r)"
    and sent: "map (\<lambda>p. (payload (rx_packet p), rx_from p)) sent =
       map (map_prod (take PACKET_LEN) id) (List.map_filter round_datagram (takeWhile (\<lambda>r. \<not> round_leaves r) rs))"
    and ids: "\<forall>p \<in> set sent. rx_id p = i"
    using receiver_task_spec [OF assms] by blast
  have "map (\<lambda>p. (rx_id p, payload (rx_packet p), rx_from p)) sent = map (Pair i) (map (\<lambda>p. (payload (rx_packet p), rx_from p)) sent)"
    using ids by simp
  then have "map (\<lambda>p. (rx_id p, payload (rx_packet p), rx_from p)) sent =
      map (\<lambda>(d, src). (i, take PACKET_LEN d, src)) (List.map_filter round_datagram (takeWhile (\<lambda>r. \<not> round_leaves r) rs))"
    unfolding sent by (auto simp: case_prod_unfold)
  with run show ?thesis by blast
qed

theorem receiver_task_faithful_witness:
  "\<exists>p logs. receiver_task 5 0
     [\<lparr>got_packet = Some example_buf, got_datagram = Some (Inl ()), got_time = 3, got_room = None\<rparr>,
      \<lparr>got_packet = Some example_buf, got_datagram = Some (Inr ([7, 8], SockV4 (sock_v4 1 2))), got_time = 4, got_room = Some True\<rparr>,
      \<lparr>got_packet = None, got_datagram = None, got_time = 0, got_room = None\<rparr>] = Inr ([p], logs, True) \<and> payload (rx_packet p) = [7, 8]"
proof -
  let ?rs = "[\<lparr>got_packet = Some example_buf, got_datagram = Some (Inl ()), got_time = 3, got_room = None\<rparr>,
      \<lparr>got_packet = Some example_buf, got_datagram = Some (Inr ([7, 8], SockV4 (sock_v4 1 2))), got_time = 4, got_room = Some True\<rparr>,
      \<lparr>got_packet = None, got_datagram = None, got_time = 0, got_room = None\<rparr>]"
  have "\<forall>r \<in> set ?rs. round_ok r"
    by (simp add: round_ok_def buf_ok_def example_buf_def PACKET_LEN_def)
  then show ?thesis
    using receiver_task_faithful [of ?rs 5 0] by (auto simp: round_leaves_def round_datagram_def List.map_filter_simps PACKET_LEN_def)
qed

end
