(* ===== verification/Agent_Loop.thy ===== *)
theory Agent_Loop
  imports Maintained_Control Tcp_Clients Udp_Receiver
begin

section \<open>The agent's loops\<close>

text \<open>
  \<^verbatim>\<open>packages/agent_core/src/playit_agent.rs\<close>: \<^verbatim>\<open>PlayitAgent::run\<close> starts a tunnel task, which keeps the control session and hands its events
  on, and a UDP task, which moves packets between the tunnel channel and the local clients. They share the flag
  \<^verbatim>\<open>udp_session_should_renew\<close> and a queue of eight UDP sessions. One iteration of either loop is one definition; the channel's queues are
  lists. Cancellation ends a task at any of its waits and drops what it holds, so an iteration is what happens when it is not cancelled.
\<close>

record ('io, 'm, 't) agent =
  ag_control :: "'io MaintainedControl"
  ag_last_control_addr_check :: u64
  udp_session_should_renew :: bool
  udp_sessions :: "UdpChannelDetails list"
  ag_tcp_clients :: "'t tcp_system"
  ag_udp_clients :: "'m UdpClients"
  ag_next_clear :: nat
  ag_channel_shared :: Shared
  ag_channel_sessions :: "UdpChannelDetails list"
  ag_channel_sends :: "(UdpFlow \<times> packet_buf) list"

text \<open>
  Making an agent: the control socket, the session, the socket of the UDP channel. The two packet pools, the rate limiters and the
  error counters (global in the code) come from the libraries behind \<open>empty_slab\<close>, the TCP system and \<open>udp_errs\<close>.
\<close>

definition PlayitAgent_new ::
  "byteorder \<Rightarrow> proto_encoding \<Rightarrow> ('w, 'io) control_env \<Rightarrow> 'm \<Rightarrow> UdpErrors \<Rightarrow> TcpErrors \<Rightarrow> OriginLookup \<Rightarrow> TcpSettings \<Rightarrow> nat \<Rightarrow> 't \<Rightarrow> 'w \<Rightarrow>
   (SetupError + ('io, 'm, 't) agent) \<times> 'w" where
  "PlayitAgent_new bo me env empty_slab udp_errs tcp_errs origins tcp_settings instant tw w =
     (case ce_create_io env w of (io, w1) \<Rightarrow>
     (case try_timeout SetupTimeout io of
        Inl e \<Rightarrow> (Inl e, w1)
      | Inr socket \<Rightarrow> (case setup_control bo me env socket w1 of
          (Inl e, w2) \<Rightarrow> (Inl e, w2)
        | (Inr control, w2) \<Rightarrow> (case ce_create_io env w2 of (channel_io, w3) \<Rightarrow>
            (case try_timeout SetupTimeout channel_io of
               Inl e \<Rightarrow> (Inl e, w3)
             | Inr channel_socket \<Rightarrow>
                 (Inr \<lparr>ag_control = control, ag_last_control_addr_check = ce_now env w3, udp_session_should_renew = False,
                    udp_sessions = [],
                    ag_tcp_clients = \<lparr>sy_worker = TcpWorker_new origins tcp_settings AgentStats_new, sy_errors = tcp_errs,
                      sy_queue = [], sy_jobs = [], sy_world = tw\<rparr>,
                    ag_udp_clients = UdpClients_new empty_slab AgentStats_new udp_errs, ag_next_clear = instant + 16000,
                    ag_channel_shared = Shared_default, ag_channel_sessions = [], ag_channel_sends = []\<rparr>, w3))))))"

subsection \<open>The tunnel task\<close>

text \<open>Asking for a new UDP session when the UDP task wants one, at most every five seconds.\<close>

definition tunnel_udp_auth ::
  "byteorder \<Rightarrow> proto_encoding \<Rightarrow> ('w, 'io) control_env \<Rightarrow> ('io, 'm, 't) agent \<Rightarrow> 'w \<Rightarrow> 'io MaintainedControl \<times> 'w" where
  "tunnel_udp_auth bo me env ag w =
     (if udp_session_should_renew ag
      then (case send_udp_session_auth bo me env (ce_now env w) 5000 (ag_control ag) w of (_, mc, w1) \<Rightarrow> (mc, w1))
      else (ag_control ag, w))"

text \<open>The reload of the control address: \<open>None\<close> when none is due, else whether it is forced, and its result.\<close>

definition tunnel_reload ::
  "byteorder \<Rightarrow> proto_encoding \<Rightarrow> ('w, 'io) control_env \<Rightarrow> u64 \<Rightarrow> 'io MaintainedControl \<Rightarrow> 'w \<Rightarrow>
   (bool \<times> (SetupError + bool)) option \<times> 'io MaintainedControl \<times> 'w" where
  "tunnel_reload bo me env last_check mc w =
     (let now = ce_now env w; (force_reload, mc1) = take_hard_reconnect_request mc;
          periodic_reload = 30000 < saturating_sub now last_check
      in if force_reload \<or> periodic_reload
         then (case reload_control_addr bo me env force_reload mc1 w of (res, mc2, w1) \<Rightarrow> (Some (force_reload, res), mc2, w1))
         else (None, mc1, w))"

definition tunnel_event ::
  "('t, 'e, 'k, 's) tcp_env \<Rightarrow> TunnelControlEvent option \<Rightarrow> ('io, 'm, 't) agent \<Rightarrow> ('io, 'm, 't) agent" where
  "tunnel_event tenv ev ag = (case ev of
     Some (EventNewClient new_client) \<Rightarrow> ag\<lparr>ag_tcp_clients := handle_new_client tenv new_client (ag_tcp_clients ag)\<rparr>
   | Some (EventUdpChannelDetails udp_details) \<Rightarrow>
       if length (udp_sessions ag) < 8 then ag\<lparr>udp_sessions := udp_sessions ag @ [udp_details]\<rparr> else ag
   | None \<Rightarrow> ag)"

definition tunnel_round ::
  "byteorder \<Rightarrow> proto_encoding \<Rightarrow> ('w, 'io) control_env \<Rightarrow> ('t, 'e, 'k, 's) tcp_env \<Rightarrow> ('io, 'm, 't) agent \<Rightarrow> 'w \<Rightarrow>
   ('io, 'm, 't) agent \<times> 'w" where
  "tunnel_round bo me env tenv ag w =
     (case tunnel_udp_auth bo me env ag w of (mc1, w1) \<Rightarrow>
     (case tunnel_reload bo me env (ag_last_control_addr_check ag) mc1 w1 of (reload, mc2, w2) \<Rightarrow>
      let last_check = (if reload = None then ag_last_control_addr_check ag else ce_now env w1);
          renew = (case reload of Some (True, Inr _) \<Rightarrow> True | _ \<Rightarrow> udp_session_should_renew ag)
      in (case control_update bo me env mc2 w2 of (update, mc3, w3) \<Rightarrow>
        (tunnel_event tenv update (ag\<lparr>ag_control := mc3, ag_last_control_addr_check := last_check,
           udp_session_should_renew := renew\<rparr>), w3))))"

subsection \<open>The UDP task\<close>

text \<open>What the \<^verbatim>\<open>select!\<close> of the UDP task picks; \<open>SessionClosed\<close>: the tunnel task is gone.\<close>

datatype udp_pick =
    OriginPacket UdpReceivedPacket
  | TunneledPacket UdpFlow packet_buf
  | NextSession
  | SessionClosed
  | ClearTick nat
  | IdleTick

definition udp_needs_renew :: "Shared \<Rightarrow> u64 \<Rightarrow> bool" where
  "udp_needs_renew shared now = (case time_since_established shared now of Some since \<Rightarrow> 6000 \<le> since | None \<Rightarrow> True)"

text \<open>
  One iteration at time \<open>now\<close> that ends at \<open>later\<close>: \<open>None\<close> when the task ends. A packet from a local target that belongs to no client
  goes straight back to the top of the loop and leaves the flag as it was.
\<close>

definition udp_round ::
  "byteorder \<Rightarrow> ('m, 's Client) slab_lib \<Rightarrow> ('w, 's, 'e) udp_env \<Rightarrow> OriginLookup \<Rightarrow> u64 \<Rightarrow> u64 \<Rightarrow> udp_pick \<Rightarrow> ('io, 'm, 't) agent \<Rightarrow>
   'w \<Rightarrow> io_error + (('io, 'm, 't) agent \<times> 'w) option" where
  "udp_round bo sl env origins now later pick ag w =
     (let flagged = (\<lambda>ag. ag\<lparr>udp_session_should_renew := udp_needs_renew (ag_channel_shared ag) later\<rparr>) in
      case pick of
        OriginPacket recv \<Rightarrow>
          and_then (dispatch_origin_packet sl now recv (ag_udp_clients ag)) (\<lambda>(res, st).
            let ag1 = ag\<lparr>ag_udp_clients := st\<rparr> in
            (case res of
               None \<Rightarrow> Inr (Some (ag1, w))
             | Some (flow, packet) \<Rightarrow>
                 Inr (Some (flagged (ag1\<lparr>ag_channel_sends := ag_channel_sends ag1 @ [(flow, packet)]\<rparr>), w))))
      | TunneledPacket flow packet \<Rightarrow>
          and_then (handle_tunneled_packet bo sl env origins now flow packet (ag_udp_clients ag) w) (\<lambda>(st, w1).
            Inr (Some (flagged (ag\<lparr>ag_udp_clients := st\<rparr>), w1)))
      | NextSession \<Rightarrow>
          (case udp_sessions ag of
             [] \<Rightarrow> Inr (Some (flagged ag, w))
           | session # rest \<Rightarrow>
               Inr (Some (flagged (ag\<lparr>udp_sessions := rest, ag_channel_sessions := ag_channel_sessions ag @ [session]\<rparr>), w)))
      | SessionClosed \<Rightarrow> Inr None
      | ClearTick instant \<Rightarrow>
          and_then (clear_old sl env now (ag_udp_clients ag) w) (\<lambda>(st, w1).
            Inr (Some (flagged (ag\<lparr>ag_udp_clients := st, ag_next_clear := instant + 16000\<rparr>), w1)))
      | IdleTick \<Rightarrow> Inr (Some (flagged ag, w)))"

subsection \<open>The end of the agent\<close>

text \<open>
  \<^verbatim>\<open>run\<close> goes on until one of the tasks has ended or the token is cancelled. It then cancels the token and waits for the tasks that it has not seen end, each for five
  seconds, after which it aborts the task and waits for that. \<open>in_time\<close>: whether a task ends within that time.
\<close>

datatype agent_wake = TunnelTaskEnded | UdpTaskEnded | AgentTokenCancelled

definition stop_task :: "bool \<Rightarrow> bool \<Rightarrow> join_handle \<Rightarrow> (bool \<times> join_handle) option" where
  "stop_task seen in_time h =
     (if seen then Some (False, h)
      else (case await_handle h of
          None \<Rightarrow> None
        | Some h1 \<Rightarrow> if in_time then Some (False, h1) else map_option (\<lambda>h1. (True, h1)) (await_handle h)))"

record agent_end =
  ae_cancelled :: bool
  ae_tunnel :: "bool \<times> join_handle"
  ae_udp :: "bool \<times> join_handle"

definition agent_run_ends :: "agent_wake \<Rightarrow> bool \<Rightarrow> bool \<Rightarrow> agent_end option" where
  "agent_run_ends wake tunnel_in_time udp_in_time =
     (let tunnel_done = (wake = TunnelTaskEnded); udp_done = (wake = UdpTaskEnded);
          handle = (\<lambda>seen. if seen then HandleTaken else HandlePending) in
      case stop_task tunnel_done tunnel_in_time (handle tunnel_done) of
        None \<Rightarrow> None
      | Some tunnel \<Rightarrow> map_option (\<lambda>udp. \<lparr>ae_cancelled = True, ae_tunnel = tunnel, ae_udp = udp\<rparr>) (stop_task udp_done udp_in_time (handle udp_done)))"

subsection \<open>Laws of the tunnel task\<close>

text \<open>The agent ends without a panic, with both tasks ended and waited for; only a task that did not end in time is aborted.\<close>

lemma agent_run_joins:
  "\<exists>e. agent_run_ends wake tunnel_in_time udp_in_time = Some e \<and> ae_cancelled e \<and> snd (ae_tunnel e) = HandleTaken \<and> snd (ae_udp e) = HandleTaken \<and>
     (fst (ae_tunnel e) \<longrightarrow> \<not> tunnel_in_time) \<and> (fst (ae_udp e) \<longrightarrow> \<not> udp_in_time)"
  by (cases wake; cases tunnel_in_time; cases udp_in_time; simp add: agent_run_ends_def stop_task_def await_handle_def)

text \<open>Failures only add up until the session is renewed or the connection replaced.\<close>

definition failing :: "'io MaintainedControl \<Rightarrow> 'io MaintainedControl \<Rightarrow> bool" where
  "failing mc mc' \<longleftrightarrow> soft_reconnect_failures mc \<le> soft_reconnect_failures mc' \<and>
     (hard_reconnect_requested mc \<longrightarrow> hard_reconnect_requested mc')"

lemma failing_refl: "failing mc mc" and failing_trans: "failing a b \<Longrightarrow> failing b c \<Longrightarrow> failing a c"
  by (auto simp: failing_def)

lemma failing_note: "failing mc (note_control_failure mc)"
proof -
  have "unat (soft_reconnect_failures mc) < 2 ^ LENGTH(32)" by (rule unsigned_less)
  then show ?thesis by (simp add: failing_def word_le_nat_alt failures_grow)
qed

lemma failing_upd [simp]:
  "failing mc (mc'\<lparr>mc_control := ec\<rparr>) = failing mc mc'" "failing (mc\<lparr>mc_control := ec\<rparr>) mc' = failing mc mc'"
  "failing mc (mc'\<lparr>last_udp_auth := t\<rparr>) = failing mc mc'" "failing (mc\<lparr>last_udp_auth := t\<rparr>) mc' = failing mc mc'"
  "failing mc (set_control_state s mc') = failing mc mc'" "failing (set_control_state s mc) mc' = failing mc mc'"
  by (simp_all add: failing_def)

lemma failing_sent: "sent_or_expired r mc = (mc', w') \<Longrightarrow> failing mc mc'"
  using failing_note [of mc] failing_refl [of mc]
  by (auto simp: sent_or_expired_def Let_def failing_def split: prod.splits sum.splits)

lemma failing_udp_auth: "tunnel_udp_auth bo me env ag w = (mc', w') \<Longrightarrow> failing (ag_control ag) mc'"
  by (auto simp: tunnel_udp_auth_def send_udp_session_auth_def Let_def failing_refl
    dest!: failing_sent split: if_splits prod.splits)

lemma failing_replace: "replace_connection bo me env conn force mc w = (Inl e, mc', w') \<Longrightarrow> failing mc mc'"
  by (auto simp: replace_connection_def Let_def failing_refl split: if_splits prod.splits sum.splits)

lemma failing_reload: "reload_control_addr bo me env force mc w = (Inl e, mc', w') \<Longrightarrow> failing mc mc'"
  by (auto simp: reload_control_addr_def Let_def failing_refl dest!: failing_replace
    split: if_splits prod.splits sum.splits)

text \<open>A round of the tunnel task: the reload it does, and whether its update has a session to go on with.\<close>

definition round_reload ::
  "byteorder \<Rightarrow> proto_encoding \<Rightarrow> ('w, 'io) control_env \<Rightarrow> ('io, 'm, 't) agent \<Rightarrow> 'w \<Rightarrow>
   (bool \<times> (SetupError + bool)) option \<times> 'io MaintainedControl \<times> 'w" where
  "round_reload bo me env ag w = (case tunnel_udp_auth bo me env ag w of (mc1, w1) \<Rightarrow>
     tunnel_reload bo me env (ag_last_control_addr_check ag) mc1 w1)"

definition round_fails :: "byteorder \<Rightarrow> proto_encoding \<Rightarrow> ('w, 'io) control_env \<Rightarrow> ('io, 'm, 't) agent \<Rightarrow> 'w \<Rightarrow> bool" where
  "round_fails bo me env ag w = (case round_reload bo me env ag w of (reload, mc, w1) \<Rightarrow>
     (\<forall>force u. reload \<noteq> Some (force, Inr u)) \<and> \<not> fst (update_session bo me env mc w1))"

lemma tunnel_round_control:
  "ag_control (fst (tunnel_round bo me env tenv ag w)) =
   (case round_reload bo me env ag w of (reload, mc, w1) \<Rightarrow> fst (snd (control_update bo me env mc w1)))"
  by (simp add: tunnel_round_def round_reload_def tunnel_event_def Let_def
    split: prod.split option.split TunnelControlEvent.split)

lemma tunnel_reload_failed:
  assumes "tunnel_reload bo me env t mc w = (reload, mc', w')" "\<And>force u. reload \<noteq> Some (force, Inr u)"
  shows "soft_reconnect_failures mc \<le> soft_reconnect_failures mc'"
proof -
  let ?mc1 = "mc\<lparr>hard_reconnect_requested := False\<rparr>"
  obtain res mc2 w2 where r: "reload_control_addr bo me env (hard_reconnect_requested mc) ?mc1 w = (res, mc2, w2)" by (metis prod_cases3)
  show ?thesis
  proof (cases res)
    case (Inl e)
    then show ?thesis
      using assms(1) r failing_reload [of bo me env "hard_reconnect_requested mc" ?mc1 w e mc2 w2]
      by (auto simp: tunnel_reload_def take_hard_reconnect_request_def failing_def Let_def split: if_splits)
  next
    case (Inr u)
    then show ?thesis
      using assms r by (auto simp: tunnel_reload_def take_hard_reconnect_request_def Let_def split: if_splits)
  qed
qed

lemma failed_round_counts:
  assumes "round_fails bo me env ag w"
  shows "let n = unat (soft_reconnect_failures (ag_control ag));
             mc = ag_control (fst (tunnel_round bo me env tenv ag w)); n' = unat (soft_reconnect_failures mc)
         in min (n + 1) (2 ^ 32 - 1) \<le> n' \<and> (3 \<le> n' \<longrightarrow> hard_reconnect_requested mc)"
proof -
  obtain mc1 w1 where mc1: "tunnel_udp_auth bo me env ag w = (mc1, w1)" by fastforce
  obtain reload mc2 w2 where r: "round_reload bo me env ag w = (reload, mc2, w2)" by (metis prod_cases3)
  have "soft_reconnect_failures mc1 \<le> soft_reconnect_failures mc2"
    by (rule tunnel_reload_failed) (use r assms in \<open>auto simp: round_reload_def mc1 round_fails_def\<close>)
  then have "soft_reconnect_failures (ag_control ag) \<le> soft_reconnect_failures mc2"
    using failing_udp_auth [OF mc1] by (auto simp: failing_def)
  moreover have "\<not> fst (update_session bo me env mc2 w2)"
    using assms r by (simp add: round_fails_def)
  from failed_session_counts [OF this refl]
  have "unat (soft_reconnect_failures (fst (snd (control_update bo me env mc2 w2)))) =
      min (unat (soft_reconnect_failures mc2) + 1) (2 ^ 32 - 1)"
    "3 \<le> unat (soft_reconnect_failures (fst (snd (control_update bo me env mc2 w2)))) \<longrightarrow>
      hard_reconnect_requested (fst (snd (control_update bo me env mc2 w2)))"
    by (auto simp: word_le_nat_alt)
  ultimately show ?thesis
    using r unfolding tunnel_round_control by (auto simp: Let_def word_le_nat_alt)
qed

lemma failed_rounds_count:
  assumes "\<And>i. i < k \<Longrightarrow> round_fails bo me env (ags i) (ws i) \<and> ags (Suc i) = fst (tunnel_round bo me env tenv (ags i) (ws i))"
  shows "min k (2 ^ 32 - 1) \<le> unat (soft_reconnect_failures (ag_control (ags k)))"
  using assms
proof (induction k)
  case (Suc k)
  then show ?case
    using failed_round_counts [of bo me env "ags k" "ws k" tenv] by (auto simp: Let_def)
qed simp

text \<open>
  A forced reload from the world \<open>w\<close>: the addresses are looked up, a new socket is opened whatever the addresses are, and the agent connects and registers through
  it. If all of this succeeds the session runs on the new socket, with the new addresses and no failures; if a step fails the reload fails there.
\<close>

definition reconnects ::
  "byteorder \<Rightarrow> proto_encoding \<Rightarrow> ('w, 'io) control_env \<Rightarrow> 'w \<Rightarrow> (SetupError + bool) \<times> 'io MaintainedControl \<times> 'w \<Rightarrow> bool" where
  "reconnects bo me env w r = (case r of (res, mc, w') \<Rightarrow>
     (case ce_get_control_addresses env w of
        (Got (Inr addresses), w1) \<Rightarrow> (case ce_create_io env w1 of
          (Got (Inr io), w2) \<Rightarrow> (case connect_to_first bo me env io addresses w2 of
            (Got (Inr connected), w3) \<Rightarrow> (case conn_authenticate bo me env connected w3 of
              (Got (Inr registered), c, w4) \<Rightarrow> res = Inr True \<and> w' = w4 \<and> packet_io (ec_conn (mc_control mc)) = io \<and>
                 last_control_targets mc = addresses \<and> control_state mc = Connected \<and> soft_reconnect_failures mc = 0
            | (_, _, w4) \<Rightarrow> isl res \<and> w' = w4)
          | (_, w3) \<Rightarrow> isl res \<and> w' = w3)
        | (_, w2) \<Rightarrow> isl res \<and> w' = w2)
      | (_, w1) \<Rightarrow> isl res \<and> w' = w1))"

lemma replace_forced:
  assumes "packet_io connected = io"
  shows "case conn_authenticate bo me env connected w of
      (Got (Inr registered), c, w1) \<Rightarrow> \<exists>mc'. replace_connection bo me env connected True mc w = (Inr True, mc', w1) \<and> packet_io (ec_conn (mc_control mc')) = io
    | (_, _, w1) \<Rightarrow> \<exists>e mc'. replace_connection bo me env connected True mc w = (Inl e, mc', w1)"
proof -
  obtain x c w1 where x: "conn_authenticate bo me env connected w = (x, c, w1)" by (metis prod_cases3)
  have "packet_io c = io"
    using conn_authenticate_sound [OF x] assms by (auto simp: auth_sound_def same_peer_def)
  then show ?thesis
    by (auto simp: x replace_connection_def Let_def connection_renewed_def reset_established_def split: awaited.split sum.split)
qed

lemma reload_reconnects: "reconnects bo me env w (reload_control_addr bo me env True mc w)"
proof -
  let ?mc = "set_control_state Reconnecting (set_control_state Reconnecting mc)"
  obtain addrs w1 where a: "ce_get_control_addresses env w = (addrs, w1)" by fastforce
  obtain new_io w2 where n: "ce_create_io env w1 = (new_io, w2)" by fastforce
  show ?thesis
  proof (cases "(\<exists>addresses. addrs = Got (Inr addresses)) \<and> (\<exists>io. new_io = Got (Inr io))")
    case False
    then show ?thesis
      using a n by (auto simp: reconnects_def reload_control_addr_def Let_def split: awaited.split sum.split)
  next
    case True
    then obtain addresses io where g: "addrs = Got (Inr addresses)" "new_io = Got (Inr io)" by blast
    obtain conn w3 where c: "connect_to_first bo me env io addresses w2 = (conn, w3)" by fastforce
    show ?thesis
    proof (cases "\<exists>connected. conn = Got (Inr connected)")
      case False
      then show ?thesis
        using a n g c by (auto simp: reconnects_def reload_control_addr_def Let_def split: awaited.split sum.split)
    next
      case True
      then obtain connected where k: "conn = Got (Inr connected)" by blast
      have "packet_io connected = io" using connect_to_first_sound [OF c [unfolded k]] by simp
      from replace_forced [OF this, where bo = bo and me = me and env = env and w = w3 and mc = ?mc] show ?thesis
        using a n g c k
        by (auto simp: reconnects_def reload_control_addr_def Let_def connection_renewed_def split: prod.splits awaited.splits sum.splits)
    qed
  qed
qed

lemma round_forced:
  assumes "hard_reconnect_requested (ag_control ag)"
  shows "\<exists>mc1 w1 res mc2 w2. tunnel_udp_auth bo me env ag w = (mc1, w1) \<and> round_reload bo me env ag w = (Some (True, res), mc2, w2) \<and>
    reconnects bo me env w1 (res, mc2, w2)"
proof -
  obtain mc w1 where mc: "tunnel_udp_auth bo me env ag w = (mc, w1)" by fastforce
  then have "hard_reconnect_requested mc"
    using failing_udp_auth [OF mc] assms by (simp add: failing_def)
  then show ?thesis
    using reload_reconnects [of bo me env w1 "mc\<lparr>hard_reconnect_requested := False\<rparr>"]
    by (auto simp: round_reload_def mc tunnel_reload_def take_hard_reconnect_request_def Let_def split: prod.splits)
qed

subsection \<open>Properties\<close>

text \<open>
  C4: The agent does not stay cut off. After three or more rounds of the tunnel task in which the session could not be renewed and no reload
  succeeded, the next round forces a reconnect, whatever the periodic timer says and even if the control addresses are the ones it has: it looks up
  the addresses, opens a new socket, connects and registers through it. If these steps succeed the session runs on the new socket, its failures are forgotten
  and the agent asks for a new UDP session; if one of them fails the reload ends there with an error.
\<close>

theorem agent_forces_reconnect:
  assumes fails: "\<And>i. i < k \<Longrightarrow> round_fails bo me env (ags i) (ws i) \<and> ags (Suc i) = fst (tunnel_round bo me env tenv (ags i) (ws i))"
    and k: "3 \<le> k"
  shows "\<exists>mc1 w1 res mc2 w2. tunnel_udp_auth bo me env (ags k) w = (mc1, w1) \<and>
    round_reload bo me env (ags k) w = (Some (True, res), mc2, w2) \<and> reconnects bo me env w1 (res, mc2, w2) \<and>
    (\<not> isl res \<longrightarrow> udp_session_should_renew (fst (tunnel_round bo me env tenv (ags k) w)))"
proof -
  obtain j where j: "k = Suc j"
    using k by (cases k) simp_all
  have "min k (2 ^ 32 - 1) \<le> unat (soft_reconnect_failures (ag_control (ags k)))"
    by (rule failed_rounds_count) (rule fails)
  then have "3 \<le> unat (soft_reconnect_failures (ag_control (ags k)))"
    using k by (simp add: min_def split: if_splits)
  then have "hard_reconnect_requested (ag_control (ags k))"
    using failed_round_counts [of bo me env "ags j" "ws j" tenv] fails [of j] j by (auto simp: Let_def)
  then obtain mc1 w1 res mc2 w2 where res: "tunnel_udp_auth bo me env (ags k) w = (mc1, w1)"
      "round_reload bo me env (ags k) w = (Some (True, res), mc2, w2)" "reconnects bo me env w1 (res, mc2, w2)"
    using round_forced by metis
  moreover have "udp_session_should_renew (fst (tunnel_round bo me env tenv (ags k) w))" if "\<not> isl res"
    using res(2) that
    by (auto simp: tunnel_round_def round_reload_def tunnel_event_def Let_def isl_def split: prod.splits option.split TunnelControlEvent.split sum.split)
  ultimately show ?thesis by blast
qed

text \<open>The same on the network that never answers and gives out no new socket.\<close>

lemma silent_reload:
  "\<exists>e. reload_control_addr bo me silent_env force mc t = (e, if last_control_targets mc = [server_addr] \<and> \<not> force then mc
     else set_control_state Reconnecting (if force then set_control_state Reconnecting mc else mc), t) \<and>
     (last_control_targets mc \<noteq> [server_addr] \<or> force \<longrightarrow> e = Inl SetupTimeout)"
  by (auto simp: reload_control_addr_def Let_def)

definition example_agent :: "(unit, SocketAddr Client option list, (bytes \<times> SocketAddr) list) agent" where
  "example_agent =
     \<lparr>ag_control = example_maintained\<lparr>mc_control := set_expired example_established\<rparr>, ag_last_control_addr_check = 0,
      udp_session_should_renew = False, udp_sessions = [], ag_tcp_clients = idle_system, ag_udp_clients = empty_clients,
      ag_next_clear = 16000, ag_channel_shared = Shared_default, ag_channel_sessions = [], ag_channel_sends = []\<rparr>"

lemma silent_round:
  fixes bo me tenv ag
  assumes "force_expired (mc_control (ag_control ag))" "\<not> udp_session_should_renew ag" "last_control_targets (ag_control ag) = []"
  defines "ag' \<equiv> fst (tunnel_round bo me silent_env tenv ag 0)"
  shows "round_fails bo me silent_env ag 0" "force_expired (mc_control (ag_control ag'))"
    "\<not> udp_session_should_renew ag'" "last_control_targets (ag_control ag') = []"
proof -
  let ?h = "hard_reconnect_requested (ag_control ag)"
  let ?mc = "(ag_control ag)\<lparr>hard_reconnect_requested := False\<rparr>"
  have "\<exists>reload mc. round_reload bo me silent_env ag 0 = (reload, mc, 0) \<and> reload \<in> {None, Some (?h, Inl SetupTimeout)} \<and>
      mc_control mc = mc_control (ag_control ag) \<and> last_control_targets mc = []"
  proof (cases "?h \<or> 30000 < saturating_sub 1 (ag_last_control_addr_check ag)")
    case True
    then show ?thesis
      using assms(2,3) silent_reload [of bo me ?h ?mc 0]
      by (auto simp: round_reload_def tunnel_udp_auth_def tunnel_reload_def take_hard_reconnect_request_def Let_def)
  next
    case False
    then show ?thesis
      using assms(2,3) by (auto simp: round_reload_def tunnel_udp_auth_def tunnel_reload_def take_hard_reconnect_request_def Let_def)
  qed
  then obtain reload mc where r: "round_reload bo me silent_env ag 0 = (reload, mc, 0)" "reload \<in> {None, Some (?h, Inl SetupTimeout)}"
    "mc_control mc = mc_control (ag_control ag)" "last_control_targets mc = []"
    by blast
  have fails: "update_session bo me silent_env mc 0 = (False, fst (snd (update_session bo me silent_env mc 0)), 0 + 2000)"
    by (rule silent_session_fails(1)) (simp add: r(3) assms(1))
  then show "round_fails bo me silent_env ag 0"
    using r(1,2) by (auto simp: round_fails_def dest: arg_cong [of _ _ fst] split: if_splits)
  show "force_expired (mc_control (ag_control ag'))"
    using r(1,3) assms(1) silent_session_fails(2) [of mc bo me 0] by (simp add: ag'_def tunnel_round_control)
  show "last_control_targets (ag_control ag') = []"
    using r(1,4) assms(1) r(3)
    by (simp add: ag'_def tunnel_round_control control_update_def update_session_def is_expired_def est_authenticate_def
      conn_authenticate_def note_control_failure_def Let_def)
  show "\<not> udp_session_should_renew ag'"
    using r(1,2) assms(2)
    by (auto simp: ag'_def tunnel_round_def round_reload_def tunnel_event_def Let_def
      split: prod.splits option.splits TunnelControlEvent.split if_splits bool.splits)
qed

theorem agent_forces_reconnect_witness:
  "\<exists>mc1 w1 res mc2 w2. round_reload be_byteorder be_message_encoding silent_env
     (((\<lambda>ag. fst (tunnel_round be_byteorder be_message_encoding silent_env log_tcp_env ag 0)) ^^ 3) example_agent) 0 = (Some (True, res), mc2, w2) \<and>
     reconnects be_byteorder be_message_encoding silent_env w1 (res, mc2, w2) \<and> isl res"
proof -
  let ?f = "\<lambda>ag. fst (tunnel_round be_byteorder be_message_encoding silent_env log_tcp_env ag 0)"
  have inv: "force_expired (mc_control (ag_control ((?f ^^ i) example_agent))) \<and> \<not> udp_session_should_renew ((?f ^^ i) example_agent) \<and>
      last_control_targets (ag_control ((?f ^^ i) example_agent)) = []" for i
    by (induction i) (simp_all add: silent_round, simp add: example_agent_def example_maintained_def set_expired_def)
  then have "round_fails be_byteorder be_message_encoding silent_env ((?f ^^ i) example_agent) 0" for i
    by (intro silent_round(1)) simp_all
  then have "\<exists>mc1 w1 res mc2 w2. tunnel_udp_auth be_byteorder be_message_encoding silent_env ((?f ^^ 3) example_agent) 0 = (mc1, w1) \<and>
      round_reload be_byteorder be_message_encoding silent_env ((?f ^^ 3) example_agent) 0 = (Some (True, res), mc2, w2) \<and>
      reconnects be_byteorder be_message_encoding silent_env w1 (res, mc2, w2) \<and>
      (\<not> isl res \<longrightarrow> udp_session_should_renew (?f ((?f ^^ 3) example_agent)))"
    by (intro agent_forces_reconnect [where ws = "\<lambda>_. 0"]) simp_all
  then show ?thesis by (fastforce simp: reconnects_def)
qed

subsection \<open>A UDP packet and its answer\<close>

lemma flow_view_ext: "flow_extension f = Some ext \<Longrightarrow> flow_view f = f"
  by (cases f rule: flow_view.cases) simp_all

lemma flip_flow: "wf_flow (flip f) = wf_flow f" "flow_extension (flip f) = flow_extension f" "footer_len (flip f) = footer_len f"
  by (cases f rule: footer_len.cases; simp add: footer_lens)+

lemma answer_on_wire:
  assumes "big_endian_io bo" "wf_flow flow" "flow_extension flow = Some ext" "buf_ok p" "plen p + footer_len flow \<le> PACKET_LEN"
    and "ss_session st = Some session"
  shows "\<exists>st' answer. channel_send bo send (flip flow) p st = Inr st' \<and>
    ss_world st' = snd (send answer (ucd_tunnel_addr session) (ss_world st)) \<and>
    from_tail bo answer = Inr (Inr (flip flow)) \<and> take (length answer - footer_len flow) answer = payload p"
proof -
  have "\<exists>st'. channel_send bo send (flip flow) p st = Inr st' \<and>
      ss_world st' = snd (send (payload p @ footer_bytes (flip flow)) (ucd_tunnel_addr session) (ss_world st))"
    by (rule big_endian_io.channel_send_datagram [OF assms(1,6,4)]) (simp add: flip_flow assms(5))
  moreover have "from_tail bo (payload p @ footer_bytes (flip flow)) = Inr (Inr (flip flow))"
    using big_endian_io.from_tail_footer [OF assms(1)] flow_view_ext [of "flip flow"] assms(2,3) by (simp add: flip_flow)
  moreover have "length (footer_bytes (flip flow)) = footer_len flow"
    by (simp add: length_footer_bytes flip_flow)
  ultimately show ?thesis by (auto intro!: exI [of _ "payload p @ footer_bytes (flip flow)"])
qed

text \<open>
  C3: A UDP packet is answered through the whole agent. When the channel delivers a datagram of the tunnel server, and the UDP task's round
  for it opens a client, then any packet this client's receiver hands on from the client's target makes the
  UDP task queue exactly one datagram for the channel, the flow of the first packet turned round with the answer. If the answer leaves room
  for the footer in its 2048-byte packet, the channel's sending task sends it to the server of its session with the payload of the answer and
  a footer that names this flow; a larger answer is dropped there: nothing is sent and the drop is counted.
\<close>

theorem agent_udp_answer:
  assumes bo: "big_endian_io bo" and sl: "slab_law sl" "uc_ok sl (ag_udp_clients ag)" and ext: "flow_extension flow = Some ext"
    and recv: "buf_ok (rs_packet rst)" "recv_step bo t (Inr (datagram, src) :: unit + bytes \<times> SocketAddr) rst = Inr (Some (flow, q), rst')"
    and tunneled: "udp_round bo sl env origins now later (TunneledPacket flow q) ag w = Inr (Some (ag', w'))"
    and new: "virtual_client_lookup (ag_udp_clients ag) \<lparr>source_addr = flow_src flow, key_tunnel = tunnel_id ext\<rparr> = None"
      "virtual_client_lookup (ag_udp_clients ag') \<lparr>source_addr = flow_src flow, key_tunnel = tunnel_id ext\<rparr> = Some slot"
    and session: "ss_session sst = Some session"
  shows "\<exists>c. sl_get sl (virtual_clients (ag_udp_clients ag')) slot = Some c \<and>
    (\<forall>r. rx_id r = c_id c \<and> rx_from r = c_target_addr c \<and> buf_ok (rx_packet r) \<longrightarrow>
      (\<exists>ag''. udp_round bo sl env origins now1 later1 (OriginPacket r) ag' w' = Inr (Some (ag'', w')) \<and>
         ag_channel_sends ag'' = ag_channel_sends ag' @ [(flip flow, rx_packet r)]) \<and>
      (plen (rx_packet r) + footer_len flow \<le> PACKET_LEN \<longrightarrow>
        (\<exists>sst' answer. channel_send bo send (flip flow) (rx_packet r) sst = Inr sst' \<and>
           ss_world sst' = snd (send answer (ucd_tunnel_addr session) (ss_world sst)) \<and>
           from_tail bo answer = Inr (Inr (flip flow)) \<and> take (length answer - footer_len flow) answer = payload (rx_packet r))) \<and>
      (PACKET_LEN < plen (rx_packet r) + footer_len flow \<longrightarrow> channel_send bo send (flip flow) (rx_packet r) sst =
        Inr (sst\<lparr>ss_errors := (ss_errors sst)\<lparr>tail_append_fail := counter_inc (tail_append_fail (ss_errors sst))\<rparr>\<rparr>)))"
proof -
  have wf: "wf_flow flow"
  proof -
    obtain r st where r: "recv_step bo t (Inr (datagram, src) :: unit + bytes \<times> SocketAddr) rst = Inr (r, st)" "\<forall>f p. r = Some (f, p) \<longrightarrow> buf_ok p \<and> wf_flow f"
      using big_endian_io.recv_step_total [OF bo recv(1)] by meson
    then show ?thesis using recv(2) by auto
  qed
  obtain st' where h: "handle_tunneled_packet bo sl env origins now flow q (ag_udp_clients ag) w = Inr (st', w')"
    and st': "ag_udp_clients ag' = st'"
    using tunneled
    by (cases "handle_tunneled_packet bo sl env origins now flow q (ag_udp_clients ag) w")
      (auto simp: udp_round_def Let_def and_then_def split: prod.splits)
  obtain c where c: "sl_get sl (virtual_clients st') slot = Some c"
    and answers: "\<And>now' p. rx_id p = c_id c \<and> rx_from p = c_target_addr c \<Longrightarrow>
       (\<exists>st''. dispatch_origin_packet sl now' p st' = Inr (Some (flip flow, rx_packet p), st''))"
    using client_slab.new_client_answers [unfolded client_slab_def, OF sl ext refl new(1) h new(2) [unfolded st']] by blast
  have "\<exists>ag''. udp_round bo sl env origins now1 later1 (OriginPacket r) ag' w' = Inr (Some (ag'', w')) \<and>
         ag_channel_sends ag'' = ag_channel_sends ag' @ [(flip flow, rx_packet r)]"
    if "rx_id r = c_id c \<and> rx_from r = c_target_addr c" for r
    using answers [OF that, of now1] by (auto simp: udp_round_def st' Let_def and_then_def)
  then show ?thesis
    using c answer_on_wire [OF bo wf ext _ _ session, of _ send]
      big_endian_io.channel_send_no_room [OF bo session, of _ "flip flow" send] by (auto simp: st' flip_flow)
qed

theorem agent_udp_answer_witness:
  "\<exists>ag' w' c ag''. sl_get list_slab_lib (virtual_clients (ag_udp_clients (ag' :: (unit, SocketAddr Client option list, (bytes \<times> SocketAddr) list) agent))) 0 = Some c \<and>
     udp_round be_byteorder list_slab_lib log_env (example_origins 5) 9 9
       (OriginPacket \<lparr>rx_id = c_id c, rx_packet = example_buf, rx_from = c_target_addr c\<rparr>) ag' w' = Inr (Some (ag'', w')) \<and>
     ag_channel_sends ag'' = ag_channel_sends ag' @ [(flip example_flow, example_buf)]"
proof -
  let ?src = "ucd_tunnel_addr example_session"
  let ?d = "[1, 2, 3] @ footer_bytes example_flow"
  have wf: "wf_flow example_flow" "flow_view example_flow = example_flow" "length ?d \<le> PACKET_LEN"
    by (simp_all add: example_flow_def length_footer_bytes footer_lens PACKET_LEN_def)
  have rst: "buf_ok (rs_packet example_recv_state)" "session_tunnel_addr (rs_shared example_recv_state) = Some ?src"
    by (simp_all add: example_recv_state_def example_buf_def buf_ok_def PACKET_LEN_def Shared_default_def)
  obtain q rst' where recv: "recv_step be_byteorder 9 (Inr (?d, ?src) :: unit + bytes \<times> SocketAddr) example_recv_state = Inr (Some (example_flow, q), rst')"
    using big_endian_io.recv_step_deliver [OF be_io.big_endian_io_axioms rst wf(3,1), unfolded wf(2)] by blast
  obtain st' w' where h: "handle_tunneled_packet be_byteorder list_slab_lib log_env (example_origins 5) 5 example_flow q
      empty_clients [] = Inr (st', w')" "virtual_client_lookup st' example_key = Some 0"
    using example_opens by blast
  define ag' where "ag' = example_agent\<lparr>ag_udp_clients := st', udp_session_should_renew := True\<rparr>"
  have tunneled: "udp_round be_byteorder list_slab_lib log_env (example_origins 5) 5 9 (TunneledPacket example_flow q) example_agent [] = Inr (Some (ag', w'))"
    by (simp add: udp_round_def example_agent_def h(1) Let_def udp_needs_renew_def time_since_established_def time_since_def
      Shared_default_def ag'_def)
  have e: "flow_extension example_flow = Some example_ext" "flow_src example_flow = SockV4 (sock_v4 0x01020304 9000)"
    "ss_session example_send_state = Some example_session" "uc_ok list_slab_lib (ag_udp_clients example_agent)"
    using empty_clients_ok by (simp_all add: example_flow_def example_send_state_def example_agent_def)
  have new: "virtual_client_lookup (ag_udp_clients example_agent) \<lparr>source_addr = flow_src example_flow, key_tunnel = tunnel_id example_ext\<rparr> = None"
    "virtual_client_lookup (ag_udp_clients ag') \<lparr>source_addr = flow_src example_flow, key_tunnel = tunnel_id example_ext\<rparr> = Some 0"
    using h(2) by (simp_all add: e(2) example_agent_def empty_clients_def UdpClients_new_def ag'_def)
  have room: "buf_ok example_buf" "plen example_buf + footer_len example_flow \<le> PACKET_LEN"
    by (simp_all add: example_buf_def buf_ok_def PACKET_LEN_def example_flow_def footer_lens)
  obtain c where c: "sl_get list_slab_lib (virtual_clients (ag_udp_clients ag')) 0 = Some c"
    and answers: "\<And>r. rx_id r = c_id c \<and> rx_from r = c_target_addr c \<and> buf_ok (rx_packet r) \<Longrightarrow>
      \<exists>ag''. udp_round be_byteorder list_slab_lib log_env (example_origins 5) 9 9 (OriginPacket r) ag' w' = Inr (Some (ag'', w')) \<and>
        ag_channel_sends ag'' = ag_channel_sends ag' @ [(flip example_flow, rx_packet r)]"
    using agent_udp_answer [OF be_io.big_endian_io_axioms list_slab_lib_law e(4,1) rst(1) recv tunneled new e(3), of 9 9 log_send] by blast
  have "\<exists>ag''. udp_round be_byteorder list_slab_lib log_env (example_origins 5) 9 9
      (OriginPacket \<lparr>rx_id = c_id c, rx_packet = example_buf, rx_from = c_target_addr c\<rparr>) ag' w' = Inr (Some (ag'', w')) \<and>
      ag_channel_sends ag'' = ag_channel_sends ag' @ [(flip example_flow, example_buf)]"
    using answers [of "\<lparr>rx_id = c_id c, rx_packet = example_buf, rx_from = c_target_addr c\<rparr>"] room by simp
  with c show ?thesis by blast
qed

end
