(* ===== verification/Service_Model.thy ===== *)
theory Service_Model
  imports Stats Connected_Control
begin

section \<open>Service state and errors\<close>

text \<open>
  The data that the runtime keeps and shows: \<^verbatim>\<open>packages/playit-ipc/src/model.rs\<close>, the errors of \<^verbatim>\<open>packages/playit-runtime/src/error.rs\<close> and
  the state cache and status context of \<^verbatim>\<open>packages/playit-runtime/src/state.rs\<close>. \<^verbatim>\<open>serde_json::Value\<close> is the tree of its variants; a number,
  which is only carried along, is its text.
\<close>

datatype json_value =
    JNull | JBool bool | JNumber string | JString string | JArray "json_value list" | JObject "(string \<times> json_value) list"

subsection \<open>\<^verbatim>\<open>model.rs\<close>\<close>

datatype ServiceAccountStatus = AccountUnknown | AccountGuest | AccountEmailNotVerified | AccountVerified

record ProtocolInfo =
  ipc_version :: u32
  capabilities :: "string list"

datatype ServicePhase =
    PhaseWaitingForSecret | PhaseHasInvalidSecret | PhaseDisabledOverLimit | PhaseStarting | PhaseReconnecting | PhaseRunning
  | PhaseStopping | PhaseError

datatype ServiceErrorCode =
    CodeInternal | CodeUnsupportedProtocol | CodeInvalidRequest | CodeInvalidRequestType | CodeAgentDisabledOverLimit
  | CodeInvalidSecret | CodeSecretPinned | CodeProvisioningUnavailable | CodeSecretWriteFailed | CodeApiUnavailable
  | CodeInvalidTunnelRequest | CodeTunnelNotFound | CodeApiRejected | CodePermissionDenied

record ServiceError =
  se_code :: ServiceErrorCode
  se_message :: string
  se_retryable :: bool
  se_details :: "json_value option"

datatype TunnelProtocol = ProtoTcp | ProtoUdp | ProtoBoth

record TunnelState =
  ts_id :: string
  ts_name :: "string option"
  ts_display_address :: string
  ts_destination :: string
  ts_protocol :: TunnelProtocol
  ts_port_count :: u16
  ts_local_address :: "string option"
  ts_local_port :: "u16 option"
  ts_is_disabled :: bool
  ts_disabled_reason :: "string option"

record PendingTunnelState =
  pts_id :: string
  pts_status_msg :: string

record NoticeState =
  ns_priority :: string
  ns_message :: string
  ns_resolve_link :: "string option"

record AgentState =
  as_version :: string
  as_tunnels :: "TunnelState list"
  as_pending_tunnels :: "PendingTunnelState list"
  as_notices :: "NoticeState list"
  as_account_status :: ServiceAccountStatus
  as_agent_id :: string
  as_login_link :: "string option"
  as_start_time :: u64

datatype AgentLifecycle =
    WaitingForSecret
  | HasInvalidSecret ServiceError
  | DisabledOverLimit ServiceError
  | LifecycleStarting
  | LifecycleRunning AgentState
  | LifecycleStopping
  | LifecycleError ServiceError

record ConnectionStats =
  cs_bytes_in :: u64
  cs_bytes_out :: u64
  cs_active_tcp :: u32
  cs_active_udp :: u32

record ServiceStatus =
  st_phase :: ServicePhase
  st_pid :: u32
  st_uptime_secs :: u64
  st_version :: string
  st_socket_path :: string
  st_secret_path :: "string option"
  st_has_secret :: bool
  st_protocol :: ProtocolInfo
  st_last_error :: "ServiceError option"

datatype LogLevel = LevelTrace | LevelDebug | LevelInfo | LevelWarn | LevelError

record LogEntry =
  le_level :: LogLevel
  le_target :: string
  le_message :: string
  le_timestamp :: u64

record SubscriptionSnapshot =
  ss_status :: ServiceStatus
  ss_lifecycle :: AgentLifecycle
  ss_stats :: ConnectionStats

datatype ServiceUpdate =
    UpdateStatus ServiceStatus
  | UpdateLifecycle AgentLifecycle
  | UpdateStats ConnectionStats
  | UpdateLog LogEntry

record CommandResponse =
  cr_accepted :: bool
  cr_message :: "string option"

record AccountResponse =
  ar_status :: ServiceAccountStatus
  ar_agent_id :: "string option"
  ar_login_link :: "string option"
  ar_claim_url :: "string option"

record TunnelListResponse =
  tl_tunnels :: "TunnelState list"
  tl_pending_tunnels :: "PendingTunnelState list"

definition IPC_VERSION :: u32 where "IPC_VERSION = 3"

definition protocol_info :: ProtocolInfo where
  "protocol_info = \<lparr>ipc_version = IPC_VERSION, capabilities = [''structured_responses'', ''stream_events'', ''lifecycle_state'',
     ''rich_status'', ''secret_provisioning'', ''tunnel_management'', ''account_tunnel_management'', ''semantic_tunnel_types'',
     ''account_state'', ''control_reconnect_state'', ''claim_provisioning'', ''direct_account_auth'']\<rparr>"

subsection \<open>\<^verbatim>\<open>error.rs\<close>\<close>

record error_info =
  ei_code :: ServiceErrorCode
  ei_message :: string
  ei_retryable :: bool
  ei_details :: "json_value option"

datatype RuntimeError =
    RtSecret error_info
  | RtSetup error_info
  | RtApi error_info
  | RtInvalidState error_info
  | RtIo string
  | RtStopped

definition error_info_of :: "ServiceErrorCode \<Rightarrow> string \<Rightarrow> bool \<Rightarrow> error_info" where
  "error_info_of code message retryable = \<lparr>ei_code = code, ei_message = message, ei_retryable = retryable, ei_details = None\<rparr>"

definition RuntimeError_secret :: "ServiceErrorCode \<Rightarrow> string \<Rightarrow> bool \<Rightarrow> RuntimeError" where
  "RuntimeError_secret code message retryable = RtSecret (error_info_of code message retryable)"

definition RuntimeError_setup_with_code :: "ServiceErrorCode \<Rightarrow> string \<Rightarrow> bool \<Rightarrow> RuntimeError" where
  "RuntimeError_setup_with_code code message retryable = RtSetup (error_info_of code message retryable)"

definition RuntimeError_setup :: "string \<Rightarrow> bool \<Rightarrow> RuntimeError" where
  "RuntimeError_setup message retryable = RuntimeError_setup_with_code CodeInternal message retryable"

definition RuntimeError_api :: "ServiceErrorCode \<Rightarrow> string \<Rightarrow> bool \<Rightarrow> RuntimeError" where
  "RuntimeError_api code message retryable = RtApi (error_info_of code message retryable)"

definition RuntimeError_invalid :: "ServiceErrorCode \<Rightarrow> string \<Rightarrow> bool \<Rightarrow> RuntimeError" where
  "RuntimeError_invalid code message retryable = RtInvalidState (error_info_of code message retryable)"

definition service_error_of :: "error_info \<Rightarrow> ServiceError" where
  "service_error_of i = \<lparr>se_code = ei_code i, se_message = ei_message i, se_retryable = ei_retryable i, se_details = ei_details i\<rparr>"

fun as_service_error :: "RuntimeError \<Rightarrow> ServiceError" where
  "as_service_error (RtSecret i) = service_error_of i"
| "as_service_error (RtSetup i) = service_error_of i"
| "as_service_error (RtApi i) = service_error_of i"
| "as_service_error (RtInvalidState i) = service_error_of i"
| "as_service_error (RtIo message) = \<lparr>se_code = CodeInternal, se_message = message, se_retryable = True, se_details = None\<rparr>"
| "as_service_error RtStopped =
     \<lparr>se_code = CodeApiUnavailable, se_message = ''The Playit runtime has stopped.'', se_retryable = True, se_details = None\<rparr>"

fun runtime_error_message :: "RuntimeError \<Rightarrow> string" where
  "runtime_error_message (RtSecret i) = ''secret error: '' @ ei_message i"
| "runtime_error_message (RtSetup i) = ''runtime setup error: '' @ ei_message i"
| "runtime_error_message (RtApi i) = ''Playit API error: '' @ ei_message i"
| "runtime_error_message (RtInvalidState i) = ''invalid runtime state: '' @ ei_message i"
| "runtime_error_message (RtIo message) = ''runtime I/O error: '' @ message"
| "runtime_error_message RtStopped = ''the Playit runtime has stopped''"

subsection \<open>\<^verbatim>\<open>state.rs\<close>: the state cache\<close>

record StateCache =
  sc_lifecycle :: AgentLifecycle
  sc_status :: ServiceStatus
  sc_stats :: ConnectionStats

definition StateCache_default :: StateCache where
  "StateCache_default =
     \<lparr>sc_lifecycle = LifecycleStarting,
      sc_status = \<lparr>st_phase = PhaseStarting, st_pid = 0, st_uptime_secs = 0, st_version = [], st_socket_path = [], st_secret_path = None,
        st_has_secret = False, st_protocol = \<lparr>ipc_version = 0, capabilities = []\<rparr>, st_last_error = None\<rparr>,
      sc_stats = \<lparr>cs_bytes_in = 0, cs_bytes_out = 0, cs_active_tcp = 0, cs_active_udp = 0\<rparr>\<rparr>"

definition subscription_snapshot :: "StateCache \<Rightarrow> SubscriptionSnapshot" where
  "subscription_snapshot c = \<lparr>ss_status = sc_status c, ss_lifecycle = sc_lifecycle c, ss_stats = sc_stats c\<rparr>"

record StatusContext =
  ctx_secret_path :: "string option"
  ctx_version :: string
  ctx_start_time :: u64

text \<open>\<open>pid\<close> is \<^verbatim>\<open>std::process::id()\<close>.\<close>

definition context_status ::
  "u32 \<Rightarrow> u64 \<Rightarrow> StatusContext \<Rightarrow> ServicePhase \<Rightarrow> bool \<Rightarrow> ServiceError option \<Rightarrow> ServiceStatus" where
  "context_status pid now ctx phase has_secret last_error =
     \<lparr>st_phase = phase, st_pid = pid, st_uptime_secs = saturating_sub now (ctx_start_time ctx) div 1000, st_version = ctx_version ctx,
      st_socket_path = [], st_secret_path = ctx_secret_path ctx, st_has_secret = has_secret, st_protocol = protocol_info,
      st_last_error = last_error\<rparr>"

text \<open>One tick of \<^verbatim>\<open>broadcast_stats\<close>: the counters are copied into the cache and sent to the subscribers.\<close>

definition stats_tick :: "AgentStats \<Rightarrow> StateCache \<Rightarrow> ServiceUpdate \<times> StateCache" where
  "stats_tick stats cache =
     (let s = \<lparr>cs_bytes_in = bytes_in stats, cs_bytes_out = bytes_out stats, cs_active_tcp = active_tcp stats,
               cs_active_udp = active_udp stats\<rparr>
      in (UpdateStats s, cache\<lparr>sc_stats := s\<rparr>))"

end
