(* ===== verification/Account_State.thy ===== *)
theory Account_State
  imports Service_Model Origin_Lookup Proxy_Protocol
begin

section \<open>Polling the account state\<close>

text \<open>
  \<^verbatim>\<open>broadcast_agent_state\<close> of \<^verbatim>\<open>packages/playit-runtime/src/state.rs\<close>: every three seconds the agent's run data is read from the API, the
  origin lookup is replaced, and the state shown to the user is built from the same data. The types of the run data are those of
  \<^verbatim>\<open>packages/api_client/src/api.rs\<close>; a UUID is its text.
\<close>

subsection \<open>Run data\<close>

record AgentPendingTunnelV1 =
  pend_id :: string
  pend_name :: string
  pend_tunnel_type :: "string option"
  pend_tunnel_type_display :: string
  pend_port_type :: PortType
  pend_port_count :: u16
  pend_status_msg :: string

datatype AgentNoticePriority = Critical | High | Low

record AgentNotice =
  notice_priority :: AgentNoticePriority
  notice_message :: string
  notice_resolve_link :: "string option"

datatype AccountStatus = Guest | EmailNotVerified | Verified

record AgentPermissions =
  perm_is_self_managed :: bool
  perm_has_premium :: bool
  perm_account_status :: AccountStatus

record AgentRunDataV1 =
  run_agent_id :: string
  run_tunnels :: "AgentTunnelV1 list"
  run_pending :: "AgentPendingTunnelV1 list"
  run_notices :: "AgentNotice list"
  run_permissions :: AgentPermissions

text \<open>The derived order of the priorities, and their \<^verbatim>\<open>Debug\<close> names.\<close>

fun priority_rank :: "AgentNoticePriority \<Rightarrow> nat" where
  "priority_rank Critical = 0" | "priority_rank High = 1" | "priority_rank Low = 2"

instantiation AgentNoticePriority :: linorder
begin
definition less_eq_AgentNoticePriority :: "AgentNoticePriority \<Rightarrow> AgentNoticePriority \<Rightarrow> bool" where
  "less_eq_AgentNoticePriority p q \<longleftrightarrow> priority_rank p \<le> priority_rank q"
definition less_AgentNoticePriority :: "AgentNoticePriority \<Rightarrow> AgentNoticePriority \<Rightarrow> bool" where
  "less_AgentNoticePriority p q \<longleftrightarrow> priority_rank p < priority_rank q"
instance
proof
  fix p q :: AgentNoticePriority
  show "p \<le> q \<Longrightarrow> q \<le> p \<Longrightarrow> p = q"
    by (cases p; cases q) (simp_all add: less_eq_AgentNoticePriority_def)
qed (auto simp: less_eq_AgentNoticePriority_def less_AgentNoticePriority_def)
end

fun priority_debug :: "AgentNoticePriority \<Rightarrow> string" where
  "priority_debug Critical = ''Critical''" | "priority_debug High = ''High''" | "priority_debug Low = ''Low''"

subsection \<open>What is shown\<close>

fun show_origin_ip :: "OriginIp \<Rightarrow> string" where
  "show_origin_ip (IpAddress (IpV4 ip)) = show_ip4 ip"
| "show_origin_ip (IpAddress (IpV6 ip)) = show_ip6 ip"
| "show_origin_ip (Hostname host) = host"

fun show_destination :: "OriginTarget \<Rightarrow> string" where
  "show_destination (TargetHttps ip http_port https_port) =
     show_origin_ip ip @ '' (http: '' @ show_base 10 (unat http_port) @ '', https: '' @ show_base 10 (unat https_port) @ '')''"
| "show_destination (TargetPort ip port) = show_origin_ip ip @ '':'' @ show_base 10 (unat port)"

fun tunnel_protocol :: "PortType \<Rightarrow> TunnelProtocol" where
  "tunnel_protocol PortTcp = ProtoTcp" | "tunnel_protocol PortUdp = ProtoUdp" | "tunnel_protocol PortBoth = ProtoBoth"

definition tunnel_state :: "(string \<Rightarrow> IpAddr option) \<Rightarrow> AgentTunnelV1 \<Rightarrow> TunnelState option" where
  "tunnel_state ip_from_str tunnel = (case from_agent_tunnel ip_from_str tunnel of
     None \<Rightarrow> None
   | Some origin \<Rightarrow> Some
       \<lparr>ts_id = tun_id tunnel,
        ts_name = (if trim (tun_name tunnel) = [] then None else Some (tun_name tunnel)),
        ts_display_address = tun_display_address tunnel,
        ts_destination = show_destination (res_target origin),
        ts_protocol = tunnel_protocol (tun_port_type tunnel),
        ts_port_count = tun_port_count tunnel,
        ts_local_address = Some (case res_target origin of TargetHttps ip _ _ \<Rightarrow> show_origin_ip ip | TargetPort ip _ \<Rightarrow> show_origin_ip ip),
        ts_local_port = (case res_target origin of TargetHttps _ _ _ \<Rightarrow> None | TargetPort _ port \<Rightarrow> Some port),
        ts_is_disabled = (tun_disabled_reason tunnel \<noteq> None),
        ts_disabled_reason = tun_disabled_reason tunnel\<rparr>)"

fun service_account_status :: "AccountStatus \<Rightarrow> ServiceAccountStatus" where
  "service_account_status Guest = AccountGuest"
| "service_account_status EmailNotVerified = AccountEmailNotVerified"
| "service_account_status Verified = AccountVerified"

definition agent_state_of ::
  "(string \<Rightarrow> IpAddr option) \<Rightarrow> string \<Rightarrow> u64 \<Rightarrow> string option \<Rightarrow> AgentRunDataV1 \<Rightarrow> AgentState" where
  "agent_state_of ip_from_str version start_time login_link api_data =
     \<lparr>as_version = version,
      as_tunnels = List.map_filter (tunnel_state ip_from_str) (run_tunnels api_data),
      as_pending_tunnels = map (\<lambda>p. \<lparr>pts_id = pend_id p, pts_status_msg = pend_status_msg p\<rparr>) (run_pending api_data),
      as_notices = map (\<lambda>n. \<lparr>ns_priority = priority_debug (notice_priority n), ns_message = notice_message n,
        ns_resolve_link = notice_resolve_link n\<rparr>) (sort_key notice_priority (run_notices api_data)),
      as_account_status = service_account_status (perm_account_status (run_permissions api_data)),
      as_agent_id = run_agent_id api_data,
      as_login_link = login_link,
      as_start_time = start_time\<rparr>"

text \<open>
  The login link of a guest account is made at most every fifteen seconds; \<open>login_guest\<close> is the result of the API call for a new one.
\<close>

definition guest_login_link :: "string \<Rightarrow> string" where
  "guest_login_link session_key = ''https://playit.gg/login/guest-account/'' @ session_key"

definition get_cached_guest_login_link ::
  "u64 \<Rightarrow> 'e + string \<Rightarrow> (string \<times> u64) option \<Rightarrow> string option \<times> (string \<times> u64) option" where
  "get_cached_guest_login_link now login_guest cache =
     (let fresh = (case cache of Some (link, ts) \<Rightarrow> if saturating_sub now ts < 15000 then Some link else None | None \<Rightarrow> None) in
      case fresh of
        Some link \<Rightarrow> (Some link, cache)
      | None \<Rightarrow> (case login_guest of
          Inr session_key \<Rightarrow> (Some (guest_login_link session_key), Some (guest_login_link session_key, now))
        | Inl _ \<Rightarrow> (None, cache)))"

record RunningSummary =
  sum_tunnel_count :: nat
  sum_pending_tunnel_count :: nat
  sum_disabled_tunnel_count :: nat
  sum_account_status :: string

fun service_account_status_label :: "ServiceAccountStatus \<Rightarrow> string" where
  "service_account_status_label AccountUnknown = ''unknown''"
| "service_account_status_label AccountGuest = ''guest''"
| "service_account_status_label AccountEmailNotVerified = ''email_not_verified''"
| "service_account_status_label AccountVerified = ''verified''"

definition RunningSummary_from_state :: "AgentState \<Rightarrow> RunningSummary" where
  "RunningSummary_from_state state =
     \<lparr>sum_tunnel_count = length (as_tunnels state), sum_pending_tunnel_count = length (as_pending_tunnels state),
      sum_disabled_tunnel_count = length (filter ts_is_disabled (as_tunnels state)),
      sum_account_status = service_account_status_label (as_account_status state)\<rparr>"

subsection \<open>One poll\<close>

record poll_state =
  ps_lookup :: OriginLookup
  ps_guest_login_cache :: "(string \<times> u64) option"
  ps_cache :: StateCache
  ps_last_running_summary :: "RunningSummary option"
  ps_api_available :: bool
  ps_sent :: "ServiceUpdate list"

definition poll_round ::
  "(string \<Rightarrow> IpAddr option) \<Rightarrow> string \<Rightarrow> u64 \<Rightarrow> u64 \<Rightarrow> 'e + AgentRunDataV1 \<Rightarrow> 'e + string \<Rightarrow> poll_state \<Rightarrow> poll_state" where
  "poll_round ip_from_str version start_time now rundata login_guest ps = (case rundata of
     Inl _ \<Rightarrow> ps\<lparr>ps_api_available := False\<rparr>
   | Inr api_data \<Rightarrow>
       let (login_link, guest_cache) =
             (if perm_account_status (run_permissions api_data) = Guest
              then get_cached_guest_login_link now login_guest (ps_guest_login_cache ps)
              else (None, ps_guest_login_cache ps));
           state = agent_state_of ip_from_str version start_time login_link api_data;
           lifecycle = LifecycleRunning state
       in ps\<lparr>ps_api_available := True, ps_lookup := update_from_run_data ip_from_str (run_tunnels api_data) (ps_lookup ps),
             ps_guest_login_cache := guest_cache, ps_last_running_summary := Some (RunningSummary_from_state state),
             ps_cache := (ps_cache ps)\<lparr>sc_lifecycle := lifecycle\<rparr>, ps_sent := ps_sent ps @ [UpdateLifecycle lifecycle]\<rparr>)"

subsection \<open>Laws\<close>

lemma from_agent_tunnel_serves:
  assumes "from_agent_tunnel ip t = Some r"
  shows "res_tunnel_id r = tun_internal_id t \<and> (\<exists>is_tcp. serves r (tun_internal_id t) is_tcp)"
proof -
  obtain x where x: "r = \<lparr>res_tunnel_id = tun_internal_id t,
      res_proto = (case tun_port_type t of PortTcp \<Rightarrow> Tcp | PortUdp \<Rightarrow> Udp | PortBoth \<Rightarrow> Both),
      res_target = x, res_port_count = tun_port_count t,
      res_proxy_protocol = Option.bind (find_field t ''proxy_protocol'') ProxyProtocol_from_value\<rparr>"
    using assms unfolding from_agent_tunnel_def Let_def by (auto simp del: bind_split)
  have "serves r (tun_internal_id t) (tun_port_type t \<noteq> PortUdp)"
    by (cases "tun_port_type t") (simp_all add: x serves_def)
  then show ?thesis by (auto simp: x)
qed

lemma origin_update_served:
  "(\<exists>r. origin_lookup (fold insert_resource rs m) tid is_tcp = Some r) \<longleftrightarrow>
   (\<exists>r \<in> set rs. serves r tid is_tcp) \<or> (\<exists>r. origin_lookup m tid is_tcp = Some r)"
  by (induction rs arbitrary: m) (auto simp: origin_lookup_insert)

lemma served_iff:
  assumes "distinct (map tun_internal_id ts)" "t \<in> set ts"
  shows "(\<exists>is_tcp r. origin_lookup (update_from_run_data ip ts m) (tun_internal_id t) is_tcp = Some r) \<longleftrightarrow>
    from_agent_tunnel ip t \<noteq> None"
proof -
  let ?rs = "List.map_filter (from_agent_tunnel ip) ts"
  have rs: "r \<in> set ?rs \<longleftrightarrow> (\<exists>u \<in> set ts. from_agent_tunnel ip u = Some r)" for r
    by (auto simp: List.map_filter_def) force
  have "u = t" if "u \<in> set ts" "from_agent_tunnel ip u = Some r" "serves r (tun_internal_id t) is_tcp" for u r is_tcp
    using assms that from_agent_tunnel_serves [of ip u r] by (auto simp: serves_def distinct_map dest: inj_onD)
  then have "(\<exists>is_tcp. \<exists>r \<in> set ?rs. serves r (tun_internal_id t) is_tcp) \<longleftrightarrow> from_agent_tunnel ip t \<noteq> None"
    using assms(2) from_agent_tunnel_serves [of ip t] by (fastforce simp: rs)
  then show ?thesis
    by (auto simp: update_from_run_data_def origin_update_def origin_update_served) (auto simp: origin_lookup_def)
qed

lemma map_insort_key: "map f (insort_key f x xs) = insort (f x) (map f xs)"
  by (induction xs) simp_all

lemma map_sort_key: "map f (sort_key f xs) = sort (map f xs)"
  by (induction xs) (simp_all add: map_insort_key)

lemma poll_failed: "poll_round ip version start_time now (Inl e) login_guest ps = ps\<lparr>ps_api_available := False\<rparr>"
  by (simp add: poll_round_def)

lemma tunnel_shown_iff:
  assumes "distinct (map tun_id ts)" "t \<in> set ts"
  shows "(\<exists>s \<in> set (List.map_filter (tunnel_state ip) ts). ts_id s = tun_id t) \<longleftrightarrow> from_agent_tunnel ip t \<noteq> None"
proof -
  have "(\<exists>s \<in> set (List.map_filter (tunnel_state ip) ts). ts_id s = tun_id t) \<longleftrightarrow>
      (\<exists>u \<in> set ts. \<exists>s. tunnel_state ip u = Some s \<and> ts_id s = tun_id t)"
    by (auto simp: List.map_filter_def) force
  also have "\<dots> \<longleftrightarrow> (\<exists>u \<in> set ts. tun_id u = tun_id t \<and> from_agent_tunnel ip u \<noteq> None)"
    by (auto simp: tunnel_state_def split: option.splits)
  also have "\<dots> \<longleftrightarrow> from_agent_tunnel ip t \<noteq> None"
    using assms by (auto simp: distinct_map dest: inj_onD)
  finally show ?thesis .
qed

definition example_run_data :: AgentRunDataV1 where
  "example_run_data =
     \<lparr>run_agent_id = ''a'',
      run_tunnels = [\<lparr>tun_id = ''t1'', tun_internal_id = 1, tun_name = '' '', tun_display_address = ''x.playit.gg:25565'',
        tun_port_type = PortTcp, tun_port_count = 1, tun_tunnel_type = None, tun_tunnel_type_display = [], tun_fields = [],
        tun_disabled_reason = None\<rparr>],
      run_pending = [], run_notices = [\<lparr>notice_priority = Low, notice_message = ''l'', notice_resolve_link = None\<rparr>,
        \<lparr>notice_priority = Critical, notice_message = ''c'', notice_resolve_link = None\<rparr>],
      run_permissions = \<lparr>perm_is_self_managed = True, perm_has_premium = False, perm_account_status = Verified\<rparr>\<rparr>"

definition example_poll :: poll_state where
  "example_poll = \<lparr>ps_lookup = Map.empty, ps_guest_login_cache = None, ps_cache = StateCache_default, ps_last_running_summary = None,
     ps_api_available = False, ps_sent = []\<rparr>"

subsection \<open>Properties\<close>

text \<open>
  The state shown and the packets routed agree. After a successful poll the runtime shows as running, and a tunnel of the
  account is in the list shown exactly when the origin lookup routes the traffic of this tunnel; the notices are shown with the most
  urgent first. A failed poll changes neither.
\<close>

theorem poll_shows_what_is_routed:
  assumes "distinct (map tun_internal_id (run_tunnels data))" "distinct (map tun_id (run_tunnels data))" "t \<in> set (run_tunnels data)"
  shows "\<exists>state ps'. poll_round ip version start_time now (Inr data) login_guest ps = ps' \<and>
    sc_lifecycle (ps_cache ps') = LifecycleRunning state \<and>
    ((\<exists>s \<in> set (as_tunnels state). ts_id s = tun_id t) \<longleftrightarrow>
     (\<exists>is_tcp r. origin_lookup (ps_lookup ps') (tun_internal_id t) is_tcp = Some r)) \<and>
    map ns_priority (as_notices state) = map priority_debug (sort (map notice_priority (run_notices data))) \<and>
    ps_lookup (poll_round ip version start_time now (Inl e) login_guest ps') = ps_lookup ps' \<and>
    ps_cache (poll_round ip version start_time now (Inl e) login_guest ps') = ps_cache ps'"
proof -
  let ?ps = "poll_round ip version start_time now (Inr data) login_guest ps"
  obtain login cache where "(if perm_account_status (run_permissions data) = Guest
      then get_cached_guest_login_link now login_guest (ps_guest_login_cache ps) else (None, ps_guest_login_cache ps)) = (login, cache)"
    by fastforce
  then have state: "sc_lifecycle (ps_cache ?ps) = LifecycleRunning (agent_state_of ip version start_time login data)"
    and look: "ps_lookup ?ps = update_from_run_data ip (run_tunnels data) (ps_lookup ps)"
    by (simp_all add: poll_round_def Let_def)
  have "map ns_priority (as_notices (agent_state_of ip version start_time login data)) =
      map priority_debug (map notice_priority (sort_key notice_priority (run_notices data)))"
    by (simp add: agent_state_of_def)
  also have "map notice_priority (sort_key notice_priority (run_notices data)) = sort (map notice_priority (run_notices data))"
    by (rule map_sort_key)
  finally have notices: "map ns_priority (as_notices (agent_state_of ip version start_time login data)) =
      map priority_debug (sort (map notice_priority (run_notices data)))" .
  have shown: "as_tunnels (agent_state_of ip version start_time login data) = List.map_filter (tunnel_state ip) (run_tunnels data)"
    by (simp add: agent_state_of_def)
  show ?thesis
    by (intro exI conjI, rule refl, rule state)
      (simp_all only: look shown poll_failed notices served_iff [OF assms(1,3)] tunnel_shown_iff [OF assms(2,3)], simp_all add: look)
qed

theorem poll_shows_what_is_routed_witness:
  "\<exists>state ps'. poll_round (\<lambda>_. None) ''1.0.0'' 0 5 (Inr example_run_data) (Inl ()) example_poll = ps' \<and>
     sc_lifecycle (ps_cache ps') = LifecycleRunning state \<and> map ns_priority (as_notices state) = [''Critical'', ''Low'']"
proof -
  have "sort (map notice_priority (run_notices example_run_data)) = [Critical, Low]"
    by (simp add: example_run_data_def less_eq_AgentNoticePriority_def)
  then show ?thesis
    using poll_shows_what_is_routed [of example_run_data "hd (run_tunnels example_run_data)" "\<lambda>_. None" "''1.0.0''" 0 5 "Inl ()" example_poll "()"]
    by (auto simp: example_run_data_def)
qed

end
