(* ===== verification/Secret_Store.thy ===== *)
theory Secret_Store
  imports Service_Model
begin

section \<open>The secret file\<close>

text \<open>
  \<^verbatim>\<open>packages/playit-runtime/src/secret.rs\<close> as built on Unix: validating, loading, storing and resetting the agent's secret, and waiting for one
  to be provisioned. The operations of \<^verbatim>\<open>std::fs\<close> act on a tree of files and directories and may fail at any
  call, as a fault plan says. A string is its UTF-8 bytes; \<^verbatim>\<open>trim\<close> takes off ASCII white space (the Unicode spaces are not
  among the characters of a secret). The \<^verbatim>\<open>hex\<close> and \<^verbatim>\<open>toml\<close> crates are parameters.
\<close>

subsection \<open>Paths and the file system\<close>

record path =
  absolute :: bool
  comps :: "string list"

definition path_parent :: "path \<Rightarrow> path option" where
  "path_parent p = (if comps p = [] then None else Some (p\<lparr>comps := butlast (comps p)\<rparr>))"

definition path_is_empty :: "path \<Rightarrow> bool" where
  "path_is_empty p \<longleftrightarrow> \<not> absolute p \<and> comps p = []"

definition path_display :: "path \<Rightarrow> string" where
  "path_display p = (if absolute p then ''/'' else []) @ concat (map (\<lambda>c. c @ ''/'') (butlast (comps p))) @
     (if comps p = [] then [] else last (comps p))"

text \<open>\<^verbatim>\<open>Path::extension\<close>: what follows the last dot of the file name, unless the name starts with its only dot.\<close>

definition path_extension :: "path \<Rightarrow> string option" where
  "path_extension p = (if comps p = [] then None else
     let name = last (comps p); rest = dropWhile (\<lambda>c. c \<noteq> CHR ''.'') (rev name) in
     if length rest \<le> 1 then None else Some (rev (takeWhile (\<lambda>c. c \<noteq> CHR ''.'') (rev name))))"

record fs_file =
  content_of :: string
  mode_of :: nat

datatype fs_error = FsNotFound string | FsAlreadyExists string | FsOther string

fun fs_text :: "fs_error \<Rightarrow> string" where
  "fs_text (FsNotFound s) = s" | "fs_text (FsAlreadyExists s) = s" | "fs_text (FsOther s) = s"

text \<open>\<open>fs_faults\<close>: for each coming operation, the error it ends with, if any, and how much of a write is done before.\<close>

record fs =
  fs_files :: "path \<rightharpoonup> fs_file"
  fs_dirs :: "path set"
  fs_dir_mode :: "path \<Rightarrow> nat"
  fs_faults :: "(fs_error \<times> nat) option list"

definition next_fault :: "fs \<Rightarrow> (fs_error \<times> nat) option \<times> fs" where
  "next_fault w = (case fs_faults w of [] \<Rightarrow> (None, w) | f # fs \<Rightarrow> (f, w\<lparr>fs_faults := fs\<rparr>))"

definition fs_read_to_string :: "path \<Rightarrow> fs \<Rightarrow> (fs_error + string) \<times> fs" where
  "fs_read_to_string p w = (case next_fault w of
     (Some (e, _), w1) \<Rightarrow> (Inl e, w1)
   | (None, w1) \<Rightarrow> (case fs_files w1 p of None \<Rightarrow> (Inl (FsNotFound ''No such file or directory''), w1) | Some f \<Rightarrow> (Inr (content_of f), w1)))"

definition fs_is_dir :: "path \<Rightarrow> fs \<Rightarrow> (fs_error + bool) \<times> fs" where
  "fs_is_dir p w = (case next_fault w of
     (Some (e, _), w1) \<Rightarrow> (Inl e, w1)
   | (None, w1) \<Rightarrow>
       if p \<in> fs_dirs w1 \<and> \<not> path_is_empty p then (Inr True, w1)
       else if fs_files w1 p \<noteq> None then (Inr False, w1)
       else (Inl (FsNotFound ''No such file or directory''), w1))"

text \<open>\<open>ancestors\<close>: a directory and everything above it, which \<^verbatim>\<open>create_dir_all\<close> makes where it is missing.\<close>

definition ancestors :: "path \<Rightarrow> path set" where
  "ancestors p = (\<lambda>n. p\<lparr>comps := take n (comps p)\<rparr>) ` {..length (comps p)}"

definition fs_create_dir_all :: "path \<Rightarrow> fs \<Rightarrow> (fs_error + unit) \<times> fs" where
  "fs_create_dir_all p w = (case next_fault w of
     (Some (e, _), w1) \<Rightarrow> (Inl e, w1)
   | (None, w1) \<Rightarrow> (Inr (), w1\<lparr>fs_dirs := fs_dirs w1 \<union> ancestors p\<rparr>))"

definition fs_chmod_dir :: "path \<Rightarrow> nat \<Rightarrow> fs \<Rightarrow> (fs_error + unit) \<times> fs" where
  "fs_chmod_dir p m w = (case next_fault w of
     (Some (e, _), w1) \<Rightarrow> (Inl e, w1)
   | (None, w1) \<Rightarrow>
       if p \<in> fs_dirs w1 \<and> \<not> path_is_empty p then (Inr (), w1\<lparr>fs_dir_mode := (fs_dir_mode w1)(p := m)\<rparr>)
       else (Inl (FsNotFound ''No such file or directory''), w1))"

definition fs_create_new :: "path \<Rightarrow> nat \<Rightarrow> fs \<Rightarrow> (fs_error + unit) \<times> fs" where
  "fs_create_new p m w = (case next_fault w of
     (Some (e, _), w1) \<Rightarrow> (Inl e, w1)
   | (None, w1) \<Rightarrow>
       if fs_files w1 p \<noteq> None then (Inl (FsAlreadyExists ''File exists''), w1)
       else (Inr (), w1\<lparr>fs_files := (fs_files w1)(p \<mapsto> \<lparr>content_of = [], mode_of = m\<rparr>)\<rparr>))"

definition fs_write_all :: "path \<Rightarrow> string \<Rightarrow> fs \<Rightarrow> (fs_error + unit) \<times> fs" where
  "fs_write_all p data w = (case fs_files w p of
     None \<Rightarrow> (Inl (FsOther ''Bad file descriptor''), w)
   | Some f \<Rightarrow> (case next_fault w of
       (Some (e, n), w1) \<Rightarrow> (Inl e, w1\<lparr>fs_files := (fs_files w1)(p \<mapsto> f\<lparr>content_of := content_of f @ take n data\<rparr>)\<rparr>)
     | (None, w1) \<Rightarrow> (Inr (), w1\<lparr>fs_files := (fs_files w1)(p \<mapsto> f\<lparr>content_of := content_of f @ data\<rparr>)\<rparr>)))"

definition fs_sync_all :: "fs \<Rightarrow> (fs_error + unit) \<times> fs" where
  "fs_sync_all w = (case next_fault w of (Some (e, _), w1) \<Rightarrow> (Inl e, w1) | (None, w1) \<Rightarrow> (Inr (), w1))"

definition fs_rename :: "path \<Rightarrow> path \<Rightarrow> fs \<Rightarrow> (fs_error + unit) \<times> fs" where
  "fs_rename p q w = (case next_fault w of
     (Some (e, _), w1) \<Rightarrow> (Inl e, w1)
   | (None, w1) \<Rightarrow> (case fs_files w1 p of
       None \<Rightarrow> (Inl (FsNotFound ''No such file or directory''), w1)
     | Some f \<Rightarrow> (Inr (), w1\<lparr>fs_files := ((fs_files w1)(p := None))(q \<mapsto> f)\<rparr>)))"

definition fs_chmod :: "path \<Rightarrow> nat \<Rightarrow> fs \<Rightarrow> (fs_error + unit) \<times> fs" where
  "fs_chmod p m w = (case next_fault w of
     (Some (e, _), w1) \<Rightarrow> (Inl e, w1)
   | (None, w1) \<Rightarrow> (case fs_files w1 p of
       None \<Rightarrow> (Inl (FsNotFound ''No such file or directory''), w1)
     | Some f \<Rightarrow> (Inr (), w1\<lparr>fs_files := (fs_files w1)(p \<mapsto> f\<lparr>mode_of := m\<rparr>)\<rparr>)))"

definition fs_remove_file :: "path \<Rightarrow> fs \<Rightarrow> (fs_error + unit) \<times> fs" where
  "fs_remove_file p w = (case next_fault w of
     (Some (e, _), w1) \<Rightarrow> (Inl e, w1)
   | (None, w1) \<Rightarrow>
       if fs_files w1 p = None then (Inl (FsNotFound ''No such file or directory''), w1)
       else (Inr (), w1\<lparr>fs_files := (fs_files w1)(p := None)\<rparr>))"

subsection \<open>Secrets\<close>

text \<open>
  The crates: \<open>hex_decode\<close> is \<^verbatim>\<open>hex::decode\<close>; \<open>toml_write\<close> and \<open>toml_read\<close> serialise and parse a \<^verbatim>\<open>SecretConfig\<close>, a table with the one key
  \<^verbatim>\<open>secret_key\<close>; \<open>random_suffix\<close> is the random part of the temporary name.
\<close>

record secret_env =
  hex_decode :: "string \<Rightarrow> bytes option"
  toml_write :: "string \<Rightarrow> string + string"
  toml_read :: "string \<Rightarrow> string option"
  random_suffix :: "fs \<Rightarrow> string"

definition validate_secret :: "secret_env \<Rightarrow> string \<Rightarrow> string + string" where
  "validate_secret env secret =
     (if secret = [] then Inl ''The secret is empty. It should be the key generated by playit setup.''
      else case hex_decode env secret of
        Some _ \<Rightarrow> Inr secret
      | None \<Rightarrow> Inl ''The secret is not valid. It should be the key generated by playit setup.'')"

definition parse_secret_file :: "secret_env \<Rightarrow> string \<Rightarrow> unit + string" where
  "parse_secret_file env text = (case validate_secret env (trim text) of
     Inr secret \<Rightarrow> Inr secret
   | Inl _ \<Rightarrow> (case toml_read env text of
       None \<Rightarrow> Inl ()
     | Some secret_key \<Rightarrow> (case validate_secret env (trim secret_key) of Inl _ \<Rightarrow> Inl () | Inr secret \<Rightarrow> Inr secret)))"

datatype LoadedSecret = SecretReady string | SecretMissing | SecretInvalid string

definition load_secret_from_path :: "secret_env \<Rightarrow> path \<Rightarrow> fs \<Rightarrow> LoadedSecret \<times> fs" where
  "load_secret_from_path env p w = (case fs_read_to_string p w of
     (Inl (FsNotFound _), w1) \<Rightarrow> (SecretMissing, w1)
   | (Inl e, w1) \<Rightarrow> (SecretInvalid (''Failed to read secret file '' @ path_display p @ '': '' @ fs_text e), w1)
   | (Inr text, w1) \<Rightarrow>
       (case parse_secret_file env text of
          Inr secret \<Rightarrow> (SecretReady secret, w1)
        | Inl _ \<Rightarrow> (SecretInvalid (''Invalid secret file at '' @ path_display p @ ''. Remove or replace it with a valid secret.''), w1)))"

datatype SecretSource = InlineSecret string | FileSecret path

definition secret_path_of :: "SecretSource \<Rightarrow> path option" where
  "secret_path_of src = (case src of InlineSecret _ \<Rightarrow> None | FileSecret p \<Rightarrow> Some p)"

definition allows_provisioning :: "SecretSource \<Rightarrow> bool" where
  "allows_provisioning src = (case src of FileSecret _ \<Rightarrow> True | InlineSecret _ \<Rightarrow> False)"

definition load_secret :: "secret_env \<Rightarrow> SecretSource \<Rightarrow> fs \<Rightarrow> LoadedSecret \<times> fs" where
  "load_secret env src w = (case src of
     InlineSecret secret \<Rightarrow> (case validate_secret env (trim secret) of
         Inr s \<Rightarrow> (SecretReady s, w)
       | Inl e \<Rightarrow> (SecretInvalid (''Invalid secret passed via inline configuration: '' @ e), w))
   | FileSecret p \<Rightarrow> load_secret_from_path env p w)"

definition provisioning_error :: "SecretSource \<Rightarrow> RuntimeError" where
  "provisioning_error src = (case src of
     InlineSecret _ \<Rightarrow> RuntimeError_secret CodeSecretPinned
       ''Secret provisioning is unavailable because the runtime was started with an inline secret.'' False
   | FileSecret _ \<Rightarrow> RuntimeError_secret CodeProvisioningUnavailable ''Secret provisioning is unavailable.'' True)"

definition reset_error :: "SecretSource \<Rightarrow> RuntimeError" where
  "reset_error src = (case src of
     InlineSecret _ \<Rightarrow> RuntimeError_secret CodeSecretPinned
       ''Secret reset is unavailable because the runtime was started with an inline secret.'' False
   | FileSecret p \<Rightarrow> RuntimeError_secret CodeSecretWriteFailed (''Failed to access secret file '' @ path_display p) True)"

subsection \<open>Storing\<close>

definition write_failed :: "string \<Rightarrow> fs_error \<Rightarrow> RuntimeError" where
  "write_failed what e = RuntimeError_secret CodeSecretWriteFailed (what @ '': '' @ fs_text e) True"

text \<open>The directories above the file that do not exist, nearest first: the loop of \<^verbatim>\<open>ensure_secret_parent\<close>.\<close>

fun missing_dirs :: "bool \<Rightarrow> string list \<Rightarrow> fs \<Rightarrow> (RuntimeError + path list) \<times> fs" where
  "missing_dirs ab rcomps w =
     (let current = \<lparr>absolute = ab, comps = rev rcomps\<rparr> in
      case fs_is_dir current w of
        (Inr True, w1) \<Rightarrow> (Inr [], w1)
      | (Inr False, w1) \<Rightarrow>
          (Inl (RuntimeError_secret CodeSecretWriteFailed
             (''Secret path parent '' @ path_display current @ '' is not a directory'') True), w1)
      | (Inl (FsNotFound _), w1) \<Rightarrow>
          (case rcomps of
             [] \<Rightarrow> (Inr [current], w1)
           | _ # up \<Rightarrow> (case missing_dirs ab up w1 of
               (Inl e, w2) \<Rightarrow> (Inl e, w2)
             | (Inr dirs, w2) \<Rightarrow> (Inr (current # dirs), w2)))
      | (Inl e, w1) \<Rightarrow> (Inl (write_failed (''Failed to inspect secret directory '' @ path_display current) e), w1))"

fun secure_dirs :: "path list \<Rightarrow> fs \<Rightarrow> (RuntimeError + unit) \<times> fs" where
  "secure_dirs [] w = (Inr (), w)"
| "secure_dirs (d # ds) w = (case fs_chmod_dir d 448 w of
     (Inl e, w1) \<Rightarrow> (Inl (write_failed (''Failed to secure secret directory '' @ path_display d) e), w1)
   | (Inr _, w1) \<Rightarrow> secure_dirs ds w1)"

definition ensure_secret_parent :: "path \<Rightarrow> fs \<Rightarrow> (RuntimeError + unit) \<times> fs" where
  "ensure_secret_parent p w = (case path_parent p of
     None \<Rightarrow> (Inr (), w)
   | Some parent \<Rightarrow>
       if path_is_empty parent then (Inr (), w)
       else (case missing_dirs (absolute parent) (rev (comps parent)) w of
         (Inl e, w1) \<Rightarrow> (Inl e, w1)
       | (Inr new_directories, w1) \<Rightarrow>
           (case fs_create_dir_all parent w1 of
              (Inl e, w2) \<Rightarrow> (Inl (write_failed (''Failed to create secret directory '' @ path_display parent) e), w2)
            | (Inr _, w2) \<Rightarrow> secure_dirs new_directories w2)))"

text \<open>
  The temporary file sits beside the target; its name ends in the process id, the variant and eight random bytes.
  It is created with mode 0600 and removed again when a step fails.
\<close>

definition tmp_path_of :: "secret_env \<Rightarrow> path \<Rightarrow> fs \<Rightarrow> path" where
  "tmp_path_of env p w =
     (let parent = (case path_parent p of
            Some d \<Rightarrow> if path_is_empty d then \<lparr>absolute = False, comps = [''.'']\<rparr> else d
          | None \<Rightarrow> \<lparr>absolute = False, comps = [''.'']\<rparr>);
          file_name = (if comps p = [] then ''playit.toml'' else last (comps p))
      in parent\<lparr>comps := comps parent @ [''.'' @ file_name @ ''.tmp-'' @ random_suffix env w]\<rparr>)"

definition write_tmp_and_rename :: "path \<Rightarrow> path \<Rightarrow> string \<Rightarrow> fs \<Rightarrow> (RuntimeError + unit) \<times> fs" where
  "write_tmp_and_rename tmp p text w = (case fs_create_new tmp 384 w of
     (Inl e, w1) \<Rightarrow> (Inl (write_failed (''Failed to create temporary secret file '' @ path_display tmp) e), w1)
   | (Inr _, w1) \<Rightarrow> (case fs_write_all tmp text w1 of
     (Inl e, w2) \<Rightarrow> (Inl (write_failed (''Failed to write temporary secret file '' @ path_display tmp) e), w2)
   | (Inr _, w2) \<Rightarrow> (case fs_sync_all w2 of
     (Inl e, w3) \<Rightarrow> (Inl (write_failed (''Failed to sync temporary secret file '' @ path_display tmp) e), w3)
   | (Inr _, w3) \<Rightarrow> (case fs_rename tmp p w3 of
     (Inl e, w4) \<Rightarrow> (Inl (write_failed (''Failed to replace secret file '' @ path_display p @ '' with '' @ path_display tmp) e), w4)
   | (Inr _, w4) \<Rightarrow> (case fs_chmod p 384 w4 of
     (Inl e, w5) \<Rightarrow> (Inl (write_failed (''Failed to set secret file permissions on '' @ path_display p) e), w5)
   | (Inr _, w5) \<Rightarrow> (Inr (), w5))))))"

definition secure_write_secret_file :: "secret_env \<Rightarrow> path \<Rightarrow> string \<Rightarrow> fs \<Rightarrow> (RuntimeError + unit) \<times> fs" where
  "secure_write_secret_file env p text w =
     (let tmp = tmp_path_of env p w in
      case write_tmp_and_rename tmp p text w of
        (Inr _, w1) \<Rightarrow> (Inr (), w1)
      | (Inl e, w1) \<Rightarrow> (Inl e, snd (fs_remove_file tmp w1)))"

definition persist_secret_file :: "secret_env \<Rightarrow> path \<Rightarrow> string \<Rightarrow> fs \<Rightarrow> (RuntimeError + string) \<times> fs" where
  "persist_secret_file env p given w = (case validate_secret env (trim given) of
     Inl e \<Rightarrow> (Inl (RuntimeError_secret CodeInvalidSecret e False), w)
   | Inr secret \<Rightarrow> (case ensure_secret_parent p w of
       (Inl e, w1) \<Rightarrow> (Inl e, w1)
     | (Inr _, w1) \<Rightarrow>
         (case (if path_extension p = Some ''toml'' then toml_write env secret else Inr secret) of
            Inl e \<Rightarrow> (Inl (RuntimeError_secret CodeSecretWriteFailed
              (''Failed to serialize secret file '' @ path_display p @ '': '' @ e) True), w1)
          | Inr text \<Rightarrow> (case secure_write_secret_file env p text w1 of
              (Inl e, w2) \<Rightarrow> (Inl e, w2)
            | (Inr _, w2) \<Rightarrow> (Inr secret, w2)))))"

definition reset_secret_file :: "path \<Rightarrow> fs \<Rightarrow> (RuntimeError + string) \<times> fs" where
  "reset_secret_file p w = (case fs_remove_file p w of
     (Inr _, w1) \<Rightarrow> (Inr (''Deleted secret file at '' @ path_display p @ ''. Start the runtime again to reprovision a new secret.''), w1)
   | (Inl (FsNotFound _), w1) \<Rightarrow> (Inr (''Secret file was already absent at '' @ path_display p @ ''.''), w1)
   | (Inl e, w1) \<Rightarrow> (Inl (write_failed (''Failed to delete secret file '' @ path_display p) e), w1))"

text \<open>
  Waiting for a secret: the requests that arrive, then the cancellation of the runtime or the end of the channel. The result has
  the answers given to the requests, in order.
\<close>

datatype provision_event = ProvisionRequest string | ProvisionClosed | ProvisionCancelled

fun wait_for_provisioned_secret ::
  "secret_env \<Rightarrow> path \<Rightarrow> provision_event list \<Rightarrow> fs \<Rightarrow> ((RuntimeError + string option) option \<times> (string + unit) list) \<times> fs" where
  "wait_for_provisioned_secret env p [] w = ((None, []), w)"
| "wait_for_provisioned_secret env p (ProvisionClosed # _) w =
     ((Some (Inl (RuntimeError_secret CodeProvisioningUnavailable ''Secret provisioning channel closed.'' True)), []), w)"
| "wait_for_provisioned_secret env p (ProvisionCancelled # _) w = ((Some (Inr None), []), w)"
| "wait_for_provisioned_secret env p (ProvisionRequest secret # evs) w = (case persist_secret_file env p secret w of
     (Inr s, w1) \<Rightarrow> ((Some (Inr (Some s)), [Inr ()]), w1)
   | (Inl e, w1) \<Rightarrow> (case wait_for_provisioned_secret env p evs w1 of
       ((r, acks), w2) \<Rightarrow> ((r, Inl (runtime_error_message e) # acks), w2)))"

subsection \<open>Laws\<close>

lemmas fs_defs = fs_create_new_def fs_write_all_def fs_sync_all_def fs_rename_def fs_chmod_def fs_remove_file_def
  fs_is_dir_def fs_create_dir_all_def fs_chmod_dir_def fs_read_to_string_def

lemma next_fault_files [simp]: "fs_files (snd (next_fault w)) = fs_files w" "fs_dirs (snd (next_fault w)) = fs_dirs w"
  by (simp_all add: next_fault_def split: list.split)

lemma next_fault_eq: "next_fault w = (f, w1) \<Longrightarrow> fs_files w1 = fs_files w \<and> fs_dirs w1 = fs_dirs w"
  by (auto simp: next_fault_def split: list.splits)

text \<open>Preparing the directory does not touch a file.\<close>

lemma dir_ops_files:
  "fs_is_dir d w = (r, w') \<Longrightarrow> fs_files w' = fs_files w"
  "fs_create_dir_all d w = (r', w') \<Longrightarrow> fs_files w' = fs_files w"
  "fs_chmod_dir d m w = (r', w') \<Longrightarrow> fs_files w' = fs_files w"
  by (auto simp: fs_defs dest!: next_fault_eq split: prod.splits option.splits if_splits)

lemma missing_dirs_files: "missing_dirs ab cs w = (r, w') \<Longrightarrow> fs_files w' = fs_files w"
proof (induction cs arbitrary: w r w')
  case Nil
  then show ?case
    by (auto simp: Let_def dest!: dir_ops_files(1) split: prod.splits sum.splits fs_error.splits bool.splits)
next
  case (Cons c cs)
  obtain x w1 where x: "fs_is_dir \<lparr>absolute = ab, comps = rev (c # cs)\<rparr> w = (x, w1)" by fastforce
  obtain y w2 where y: "missing_dirs ab cs w1 = (y, w2)" by fastforce
  show ?case
    using Cons.prems dir_ops_files(1) [OF x] Cons.IH [OF y]
    by (simp only: missing_dirs.simps [of ab "c # cs"] Let_def x)
      (auto simp: y simp del: missing_dirs.simps split: sum.splits fs_error.splits bool.splits)
qed

lemma secure_dirs_files: "secure_dirs ds w = (r, w') \<Longrightarrow> fs_files w' = fs_files w"
  by (induction ds arbitrary: w) (auto dest: dir_ops_files(3) split: prod.splits sum.splits)

lemma ensure_secret_parent_files:
  assumes "ensure_secret_parent p w = (r, w')" shows "fs_files w' = fs_files w"
  using assms
  by (auto simp: ensure_secret_parent_def dest!: missing_dirs_files dir_ops_files(2) secure_dirs_files
    split: option.splits if_splits prod.splits sum.splits simp del: missing_dirs.simps)

text \<open>
  Replacing the file: at every moment its path holds the old file or the complete new one. \<open>stored\<close> says so of the file system after
  the steps, with the temporary file as the only other one touched.
\<close>

definition stored :: "path \<Rightarrow> path \<Rightarrow> string \<Rightarrow> fs \<Rightarrow> bool \<Rightarrow> fs \<Rightarrow> bool" where
  "stored p tmp text w done w' \<longleftrightarrow>
     (fs_files w' p = Some \<lparr>content_of = text, mode_of = 384\<rparr> \<or> \<not> done \<and> fs_files w' p = fs_files w p) \<and>
     (\<forall>q. q \<noteq> p \<and> q \<noteq> tmp \<longrightarrow> fs_files w' q = fs_files w q)"

lemma fs_op_results:
  "fs_create_new q m w = (r, w') \<Longrightarrow> fs_files w' = (case r of Inl _ \<Rightarrow> fs_files w | Inr _ \<Rightarrow> (fs_files w)(q \<mapsto> \<lparr>content_of = [], mode_of = m\<rparr>))"
  "fs_sync_all w = (r, w') \<Longrightarrow> fs_files w' = fs_files w"
  "fs_rename q p w = (r, w') \<Longrightarrow> fs_files w' = (case r of Inl _ \<Rightarrow> fs_files w | Inr _ \<Rightarrow> ((fs_files w)(q := None))(p := fs_files w q))"
  "fs_chmod p m w = (r, w') \<Longrightarrow> fs_files w' = (case r of Inl _ \<Rightarrow> fs_files w | Inr _ \<Rightarrow>
     (fs_files w)(p := map_option (mode_of_update (\<lambda>_. m)) (fs_files w p)))"
  "fs_remove_file p w = (r, w') \<Longrightarrow> fs_files w' = (case r of Inl _ \<Rightarrow> fs_files w | Inr _ \<Rightarrow> (fs_files w)(p := None))"
  by (auto simp: fs_defs dest!: next_fault_eq split: prod.splits option.splits if_splits)

lemma fs_write_result:
  assumes "fs_write_all q data w = (r, w')" "fs_files w q = Some f"
  shows "\<exists>n. fs_files w' = (fs_files w)(q \<mapsto> f\<lparr>content_of := content_of f @ take n data\<rparr>)"
    "r = Inr u \<Longrightarrow> fs_files w' = (fs_files w)(q \<mapsto> f\<lparr>content_of := content_of f @ data\<rparr>)"
  using assms by (auto simp: fs_defs dest!: next_fault_eq split: prod.splits option.splits) (metis take_all_iff order_refl)

lemma write_tmp_stored:
  assumes "write_tmp_and_rename tmp p text w = (r, w')" "tmp \<noteq> p"
  shows "stored p tmp text w (r = Inr ()) w'"
proof -
  obtain r1 w1 where 1: "fs_create_new tmp 384 w = (r1, w1)" by fastforce
  obtain r2 w2 where 2: "fs_write_all tmp text w1 = (r2, w2)" by fastforce
  obtain r3 w3 where 3: "fs_sync_all w2 = (r3, w3)" by fastforce
  obtain r4 w4 where 4: "fs_rename tmp p w3 = (r4, w4)" by fastforce
  obtain r5 w5 where 5: "fs_chmod p 384 w4 = (r5, w5)" by fastforce
  note f1 = fs_op_results(1) [OF 1] and f3 = fs_op_results(2) [OF 3] and f4 = fs_op_results(3) [OF 4] and f5 = fs_op_results(4) [OF 5]
  show ?thesis
  proof (cases r1)
    case (Inl e)
    then show ?thesis using assms(1) f1 by (auto simp: write_tmp_and_rename_def 1 stored_def)
  next
    case (Inr u)
    then have t: "fs_files w1 tmp = Some \<lparr>content_of = [], mode_of = 384\<rparr>" using f1 by simp
    note f2 = fs_write_result [OF 2 t]
    show ?thesis
    proof (cases r2)
      case (Inl e)
      then show ?thesis
        using assms f1 f2(1) Inr \<open>r1 = Inr u\<close> by (auto simp: write_tmp_and_rename_def 1 2 stored_def)
    next
      case r2: (Inr u2)
      then show ?thesis
        using assms f1 f2(2) [OF r2] f3 f4 f5 Inr
        by (auto simp: write_tmp_and_rename_def 1 2 3 4 5 stored_def split: sum.splits)
    qed
  qed
qed

lemma tmp_path_neq: "tmp_path_of env p w \<noteq> p"
proof
  let ?name = "if comps p = [] then ''playit.toml'' else last (comps p)"
  obtain xs where xs: "comps (tmp_path_of env p w) = xs @ [''.'' @ ?name @ ''.tmp-'' @ random_suffix env w]"
    by (simp add: tmp_path_of_def Let_def)
  assume "tmp_path_of env p w = p"
  with xs have eq: "comps p = xs @ [''.'' @ ?name @ ''.tmp-'' @ random_suffix env w]" by simp
  then have ne: "comps p \<noteq> []" by (metis append_is_Nil_conv not_Cons_self2)
  have "last (comps p) = ''.'' @ ?name @ ''.tmp-'' @ random_suffix env w"
    using arg_cong [OF eq, of last] by (simp only: last_snoc)
  then have "length (last (comps p)) = length (''.'' @ ?name @ ''.tmp-'' @ random_suffix env w)" by (rule arg_cong)
  then show False by (simp add: ne)
qed

lemma secure_write_stored:
  assumes "secure_write_secret_file env p text w = (r, w')"
  shows "stored p (tmp_path_of env p w) text w (r = Inr ()) w'"
proof -
  let ?tmp = "tmp_path_of env p w"
  obtain r1 w1 where 1: "write_tmp_and_rename ?tmp p text w = (r1, w1)" by fastforce
  obtain r2 w2 where 2: "fs_remove_file ?tmp w1 = (r2, w2)" by fastforce
  show ?thesis
    using assms write_tmp_stored [OF 1 tmp_path_neq] fs_op_results(5) [OF 2] tmp_path_neq [of env p w]
    by (auto simp: secure_write_secret_file_def Let_def 1 2 stored_def split: sum.splits)
qed

text \<open>The contents that \<^verbatim>\<open>persist_secret_file\<close> gives the file.\<close>

definition secret_text :: "secret_env \<Rightarrow> path \<Rightarrow> string \<Rightarrow> string + string" where
  "secret_text env p secret = (if path_extension p = Some ''toml'' then toml_write env secret else Inr secret)"

lemma validate_secret_Inr: "validate_secret env x = Inr s \<longleftrightarrow> s = x \<and> x \<noteq> [] \<and> hex_decode env x \<noteq> None"
  by (auto simp: validate_secret_def split: option.splits)

lemma persist_stored:
  assumes "persist_secret_file env p given w = (r, w')"
  shows "(\<exists>e. r = Inl e \<and> fs_files w' = fs_files w) \<or>
    (\<exists>text tmp. validate_secret env (trim given) = Inr (trim given) \<and> secret_text env p (trim given) = Inr text \<and>
       stored p tmp text w (\<exists>s. r = Inr s) w' \<and> (\<forall>s. r = Inr s \<longrightarrow> s = trim given))"
proof (cases "validate_secret env (trim given)")
  case (Inl e)
  then show ?thesis using assms by (auto simp: persist_secret_file_def)
next
  case (Inr secret)
  then have sec: "secret = trim given" by (simp add: validate_secret_Inr)
  obtain r1 w1 where 1: "ensure_secret_parent p w = (r1, w1)" by fastforce
  note files = ensure_secret_parent_files [OF 1]
  show ?thesis
  proof (cases r1)
    case (Inl e)
    then show ?thesis using assms Inr 1 files by (auto simp: persist_secret_file_def)
  next
    case r1: (Inr u)
    show ?thesis
    proof (cases "secret_text env p secret")
      case (Inl e)
      then show ?thesis using assms Inr 1 r1 files by (auto simp: persist_secret_file_def secret_text_def)
    next
      case body: (Inr body)
      obtain r2 w2 where 2: "secure_write_secret_file env p body w1 = (r2, w2)" by fastforce
      have "stored p (tmp_path_of env p w1) body w (r2 = Inr ()) w2"
        using secure_write_stored [OF 2] files by (simp add: stored_def)
      moreover have "w' = w2" "r = (case r2 of Inl e \<Rightarrow> Inl e | Inr _ \<Rightarrow> Inr secret)"
        using assms Inr 1 r1 body 2 by (auto simp: persist_secret_file_def secret_text_def split: sum.splits)
      ultimately show ?thesis
        using Inr body sec by (cases r2) auto
    qed
  qed
qed

text \<open>
  What the crates promise: \<^verbatim>\<open>hex::decode\<close> accepts hexadecimal digits only; a serialised table starts with its key and is parsed back.
\<close>

locale secret_codec =
  fixes env :: secret_env
  assumes hex_digits: "hex_decode env s = Some bs \<Longrightarrow> c \<in> set s \<Longrightarrow> c \<in> set ''0123456789abcdefABCDEF''"
    and toml_roundtrip: "toml_write env s = Inr t \<Longrightarrow> hex_decode env s \<noteq> None \<Longrightarrow> toml_read env t = Some s"
    and toml_key: "toml_write env s = Inr t \<Longrightarrow> \<exists>rest. t = ''secret_key'' @ rest"
begin

lemma toml_not_hex:
  assumes "toml_write env s = Inr t"
  shows "\<exists>e. validate_secret env (trim t) = Inl e"
proof -
  obtain rest where t: "t = CHR ''s'' # rest" using toml_key [OF assms] by auto
  have sp: "\<not> is_ws (CHR ''s'')" by (simp add: is_ws_def)
  then have "trim t = rev (dropWhile is_ws (rev rest) @ [CHR ''s''])"
    by (simp add: trim_def t dropWhile_append3)
  then have "CHR ''s'' \<in> set (trim t)" by simp
  then have "hex_decode env (trim t) = None"
    using hex_digits [of "trim t" _ "CHR ''s''"] by (cases "hex_decode env (trim t)") auto
  then show ?thesis by (simp add: validate_secret_def)
qed

lemma parse_stored:
  assumes "validate_secret env (trim given) = Inr (trim given)" "secret_text env p (trim given) = Inr text"
  shows "parse_secret_file env text = Inr (trim given)"
proof (cases "path_extension p = Some ''toml''")
  case True
  then have "toml_write env (trim given) = Inr text" using assms(2) by (simp add: secret_text_def)
  then show ?thesis
    using toml_not_hex [of "trim given" "text"] toml_roundtrip [of "trim given" "text"] assms(1)
    by (auto simp: parse_secret_file_def validate_secret_Inr) (simp add: validate_secret_def)
next
  case False
  then have "text = trim given" using assms(2) by (simp add: secret_text_def)
  then show ?thesis using assms(1) by (simp only: parse_secret_file_def trim_idem sum.case)
qed

lemma persist_load:
  assumes "persist_secret_file env p given w = (Inr s, w')"
  shows "s = trim given \<and> (\<exists>f. fs_files w' p = Some f \<and> mode_of f = 384) \<and>
    (fs_faults w' = [] \<longrightarrow> load_secret_from_path env p w' = (SecretReady s, w'))"
proof -
  from persist_stored [OF assms] obtain body where t: "validate_secret env (trim given) = Inr (trim given)"
    "secret_text env p (trim given) = Inr body" "fs_files w' p = Some \<lparr>content_of = body, mode_of = 384\<rparr>" "s = trim given"
    by (auto simp: stored_def)
  then show ?thesis
    using parse_stored [OF t(1,2)] by (simp add: load_secret_from_path_def fs_read_to_string_def next_fault_def)
qed

end

subsection \<open>Examples\<close>

definition hex_value :: "char \<Rightarrow> nat option" where
  "hex_value c = map_of (zip ''0123456789abcdefABCDEF'' ([0..<16] @ [10..<16])) c"

fun hex_pairs :: "string \<Rightarrow> bytes option" where
  "hex_pairs [] = Some []"
| "hex_pairs [c] = None"
| "hex_pairs (c # d # s) = (case (hex_value c, hex_value d, hex_pairs s) of
     (Some x, Some y, Some bs) \<Rightarrow> Some (of_nat (16 * x + y) # bs) | _ \<Rightarrow> None)"

definition plain_secret_env :: secret_env where
  "plain_secret_env =
     \<lparr>hex_decode = hex_pairs, toml_write = (\<lambda>s. Inr (''secret_key = '' @ s)),
      toml_read = (\<lambda>t. if take 13 t = ''secret_key = '' then Some (drop 13 t) else None), random_suffix = (\<lambda>w. ''1'')\<rparr>"

lemma hex_value_digit: "hex_value c = Some n \<Longrightarrow> c \<in> set ''0123456789abcdefABCDEF''"
  unfolding hex_value_def by (drule map_of_SomeD) (drule set_zip_leftD, assumption)

lemma hex_pairs_digits: "hex_pairs s = Some bs \<Longrightarrow> c \<in> set s \<Longrightarrow> c \<in> set ''0123456789abcdefABCDEF''"
proof (induction s arbitrary: bs rule: hex_pairs.induct)
  case (3 x y s)
  then obtain n m cs where "hex_value x = Some n" "hex_value y = Some m" "hex_pairs s = Some cs"
    by (auto split: option.splits)
  moreover have "c = x \<or> c = y \<or> c \<in> set s" using "3.prems"(2) by simp
  ultimately show ?case using hex_value_digit "3.IH" by blast
qed simp_all

interpretation plain_secret: secret_codec plain_secret_env
  by unfold_locales (use hex_pairs_digits in \<open>auto simp: plain_secret_env_def\<close>)

definition example_fs :: fs where
  "example_fs = \<lparr>fs_files = Map.empty, fs_dirs = {\<lparr>absolute = True, comps = []\<rparr>}, fs_dir_mode = (\<lambda>_. 493), fs_faults = []\<rparr>"

definition example_secret_path :: path where
  "example_secret_path = \<lparr>absolute = True, comps = [''etc'', ''playit.toml'']\<rparr>"

lemmas example_fs_simps = example_fs_def example_secret_path_def persist_secret_file_def ensure_secret_parent_def path_parent_def
  path_is_empty_def fs_defs next_fault_def secure_write_secret_file_def write_tmp_and_rename_def tmp_path_of_def
  path_extension_def

lemma example_secret: "trim '' de '' = ''de''" "trim ''de'' = ''de''" "validate_secret plain_secret_env ''de'' = Inr ''de''"
  by code_simp+

lemma example_toml: "toml_write plain_secret_env x = Inr (''secret_key = '' @ x)" "random_suffix plain_secret_env w = ''1''"
  by (simp_all add: plain_secret_env_def)

lemma ancestors_self [simp]: "p \<in> ancestors p"
  by (auto simp: ancestors_def intro: image_eqI [of _ _ "length (comps p)"])

lemma example_persist:
  "\<exists>w'. persist_secret_file plain_secret_env example_secret_path '' de '' example_fs = (Inr ''de'', w') \<and> fs_faults w' = []"
  by (simp add: example_fs_simps example_secret example_toml Let_def)

subsection \<open>Properties\<close>

text \<open>
  C23: What is stored can be loaded: after a secret has been stored, in either of the two file formats, loading the file gives back exactly this secret (without
  surrounding white space), and the file can be read and written by its owner only.
\<close>

theorem secret_file_roundtrip:
  assumes "secret_codec env" "persist_secret_file env p given w = (Inr s, w')" "fs_faults w' = []"
  shows "s = trim given \<and> load_secret_from_path env p w' = (SecretReady s, w') \<and> (\<exists>f. fs_files w' p = Some f \<and> mode_of f = 384)"
  using secret_codec.persist_load [OF assms(1,2)] assms(3) by blast

theorem secret_file_roundtrip_witness:
  "\<exists>w'. persist_secret_file plain_secret_env example_secret_path '' de '' example_fs = (Inr ''de'', w') \<and>
     load_secret_from_path plain_secret_env example_secret_path w' = (SecretReady ''de'', w')"
  using example_persist secret_file_roundtrip [OF plain_secret.secret_codec_axioms] by blast



text \<open>
  A relative path with a missing directory cannot be stored to at the first attempt: the search for missing directories ends at the
  empty path, which counts as missing, and its permissions cannot be set.
\<close>

lemma relative_parent_fails:
  "fst (persist_secret_file plain_secret_env \<lparr>absolute = False, comps = [''conf'', ''playit.toml'']\<rparr> ''de'' example_fs) =
     Inl (write_failed ''Failed to secure secret directory '' (FsNotFound ''No such file or directory''))"
  by (simp add: example_fs_simps example_secret example_toml Let_def path_display_def)

end
