(* ===== verification/Rust_Text.thy ===== *)
theory Rust_Text
  imports Origin_Lookup Proxy_Protocol
begin

section \<open>Numbers as text\<close>

text \<open>
  \<^verbatim>\<open>FromStr\<close> of the unsigned integers of the standard library, as the runtime, the API client and the command line use it, and its
  relation to \<^verbatim>\<open>Display\<close>. A string is its UTF-8 bytes; \<open>utf8_chars\<close> groups them to characters.
\<close>

definition parse_uint :: "nat \<Rightarrow> string \<Rightarrow> nat option" where
  "parse_uint max_value s =
     (let ds = (case s of c # cs \<Rightarrow> if c = CHR ''+'' then cs else s | [] \<Rightarrow> []) in
      if ds = [] \<or> \<not> list_all is_digit ds \<or> max_value < digits_value ds then None else Some (digits_value ds))"

definition is_continuation :: "char \<Rightarrow> bool" where
  "is_continuation c \<longleftrightarrow> 128 \<le> (of_char c :: nat) \<and> (of_char c :: nat) < 192"

function utf8_chars :: "string \<Rightarrow> string list" where
  "utf8_chars [] = []"
| "utf8_chars (c # cs) = (c # takeWhile is_continuation cs) # utf8_chars (dropWhile is_continuation cs)"
  by pat_completeness auto
termination
  by (relation "measure length") (simp_all add: length_dropWhile_le less_Suc_eq_le)

lemma concat_utf8_chars [simp]: "concat (utf8_chars s) = s"
  by (induction s rule: utf8_chars.induct) simp_all

lemma u16_from_str_parse: "u16_from_str s = map_option of_nat (parse_uint 65535 s)"
  by (simp add: u16_from_str_def parse_uint_def Let_def)

lemma digit_char_digit:
  assumes "d < 10"
  shows "is_digit (digit_char d)" "(of_char (digit_char d) :: nat) = 48 + d" "digit_char d \<noteq> CHR ''+''"
    "\<not> is_ws (digit_char d)" "digit_char d \<noteq> CHR ''.''" "digit_char d \<noteq> CHR ''-''"
proof -
  have "d \<in> {0, 1, 2, 3, 4, 5, 6, 7, 8, 9}" using assms by auto
  then show "is_digit (digit_char d)" "(of_char (digit_char d) :: nat) = 48 + d" "digit_char d \<noteq> CHR ''+''"
    "\<not> is_ws (digit_char d)" "digit_char d \<noteq> CHR ''.''" "digit_char d \<noteq> CHR ''-''"
    by (auto simp: digit_char_def is_digit_def is_ws_def nth_Cons')
qed

lemma digits_value_snoc: "digits_value (s @ [c]) = 10 * digits_value s + ((of_char c :: nat) - 48)"
  by (simp add: digits_value_def)

lemma show_base_step: "show_base 10 n = (if n < 10 then [digit_char n] else show_base 10 (n div 10) @ [digit_char (n mod 10)])"
  by (subst show_base.simps) simp

lemma show_base_chars:
  assumes "2 \<le> b" "b \<le> 16"
  shows "c \<in> set (show_base b n) \<Longrightarrow> \<exists>d < b. c = digit_char d"
proof (induction n rule: less_induct)
  case (less n)
  show ?case
  proof (cases "n < b")
    case True
    then show ?thesis using less.prems assms by (subst (asm) show_base.simps) auto
  next
    case False
    then have "c \<in> set (show_base b (n div b)) \<or> c = digit_char (n mod b)"
      using less.prems assms by (subst (asm) show_base.simps) auto
    moreover have "n div b < n" using False assms by simp
    moreover have "n mod b < b" using assms by simp
    ultimately show ?thesis using less.IH by blast
  qed
qed

lemmas show_base_digits = show_base_chars [of 10, simplified]

lemma digit_char_no_ws:
  assumes "d < 16"
  shows "\<not> is_ws (digit_char d)"
proof -
  have "list_all (\<lambda>d. \<not> is_ws (digit_char d)) [0..<16]" by code_simp
  then show ?thesis using assms by (simp add: list_all_iff)
qed

lemma show_base_value: "digits_value (show_base 10 n) = n"
proof (induction n rule: less_induct)
  case (less n)
  show ?case
  proof (cases "n < 10")
    case True
    then show ?thesis by (subst show_base_step) (simp add: digits_value_def digit_char_digit)
  next
    case False
    then show ?thesis
      using less.IH [of "n div 10"] by (subst show_base_step) (simp add: digits_value_snoc digit_char_digit)
  qed
qed

lemma show_base_not_Nil [simp]: "show_base 10 n \<noteq> []"
  by (subst show_base_step) simp

lemma parse_show_uint [simp]:
  assumes "n \<le> max_value"
  shows "parse_uint max_value (show_base 10 n) = Some n"
proof -
  obtain c cs where s: "show_base 10 n = c # cs" by (meson neq_Nil_conv show_base_not_Nil)
  have "c \<noteq> CHR ''+''" using show_base_digits [of c n] s digit_char_digit(3) by auto
  moreover have "list_all is_digit (c # cs)"
    using show_base_digits [of _ n] s digit_char_digit(1) by (auto simp: list_all_iff)
  moreover have "digits_value (c # cs) = n" using show_base_value [of n] s by simp
  ultimately show ?thesis using assms by (simp add: parse_uint_def s)
qed

lemma u16_show [simp]: "u16_from_str (show_base 10 (unat (p :: u16))) = Some p"
proof -
  have "unat p < 2 ^ LENGTH(16)" by (rule unsigned_less)
  then have "unat p \<le> 65535" by simp
  then show ?thesis by (simp add: u16_from_str_parse)
qed

lemma trim_no_ws: "list_all (\<lambda>c. \<not> is_ws c) s \<Longrightarrow> trim s = s"
proof -
  have "dropWhile is_ws t = t" if "list_all (\<lambda>c. \<not> is_ws c) t" for t using that by (cases t) auto
  then show "list_all (\<lambda>c. \<not> is_ws c) s \<Longrightarrow> trim s = s" by (simp add: trim_def)
qed

text \<open>The text of an address has no white space.\<close>

lemma show_base_no_ws: "2 \<le> b \<Longrightarrow> b \<le> 16 \<Longrightarrow> list_all (\<lambda>c. \<not> is_ws c) (show_base b n)"
  using show_base_chars [of b _ n] digit_char_no_ws by (fastforce simp: list_all_iff)

lemma show_segments_no_ws: "list_all (\<lambda>c. \<not> is_ws c) (show_segments ss)"
  by (induction ss rule: show_segments.induct) (simp_all add: show_base_no_ws, simp_all add: is_ws_def)

lemma show_ip4_no_ws: "list_all (\<lambda>c. \<not> is_ws c) (show_ip4 ip) \<and> show_ip4 ip \<noteq> []"
proof -
  have "length (be32 ip) = Suc (Suc (Suc (Suc 0)))" by simp
  then obtain a b c d where "be32 ip = [a, b, c, d]" unfolding length_Suc_conv by blast
  moreover have "\<not> is_ws (CHR ''.'')" by (simp add: is_ws_def)
  ultimately show ?thesis by (simp add: show_ip4_def show_base_no_ws)
qed

lemma show_ip6_no_ws: "list_all (\<lambda>c. \<not> is_ws c) (show_ip6 ip) \<and> show_ip6 ip \<noteq> []"
proof -
  have "list_all (\<lambda>c. \<not> is_ws c) ''::ffff:''" "list_all (\<lambda>c. \<not> is_ws c) ''::''" by (simp_all add: is_ws_def)
  moreover have "show_segments (ip6_segments ip) \<noteq> []"
    by (simp add: ip6_segments_def upt_rec)
  ultimately show ?thesis
    by (auto simp: show_ip6_def Let_def show_ip4_no_ws show_segments_no_ws split: prod.splits)
qed

end
