(* ===== verification/Http_Client.thy ===== *)
theory Http_Client
  imports Connected_Control Rust_Text
begin

section \<open>The HTTP client of the web API\<close>

text \<open>
  \<^verbatim>\<open>packages/api_client/src/http_client.rs\<close> with the credentials of \<^verbatim>\<open>lib.rs\<close> and the result types of the generated \<^verbatim>\<open>api.rs\<close>: one API call
  with its retries. The \<^verbatim>\<open>reqwest\<close>, \<^verbatim>\<open>serde_json\<close> and \<^verbatim>\<open>httpdate\<close> crates and the clock are parameters
  (\<open>http_env\<close>); the state records the requests that were sent and the delays that were slept.
\<close>

subsection \<open>Results\<close>

datatype ('s, 'f) ApiResult = Success 's | Fail 'f | ApiResultError ApiResponseError

datatype ('f, 'c) ApiError = ApiErrorFail 'f | ApiErrorApi ApiResponseError | ApiErrorClient 'c

datatype 'c ApiErrorNoFail = UnexpectedFail | NoFailApi ApiResponseError | NoFailClient 'c

datatype RetryPolicy = RetryNever | RetryTransient

fun api_unwrap :: "'c + ('s, 'f) ApiResult \<Rightarrow> ('f, 'c) ApiError + 's" where
  "api_unwrap (Inr (Success v)) = Inr v"
| "api_unwrap (Inr (Fail fail)) = Inl (ApiErrorFail fail)"
| "api_unwrap (Inr (ApiResultError error)) = Inl (ApiErrorApi error)"
| "api_unwrap (Inl error) = Inl (ApiErrorClient error)"

fun api_unwrap_no_fail :: "'c + ('s, unit) ApiResult \<Rightarrow> 'c ApiErrorNoFail + 's" where
  "api_unwrap_no_fail (Inr (Success v)) = Inr v"
| "api_unwrap_no_fail (Inr (Fail _)) = Inl UnexpectedFail"
| "api_unwrap_no_fail (Inr (ApiResultError error)) = Inl (NoFailApi error)"
| "api_unwrap_no_fail (Inl error) = Inl (NoFailClient error)"

subsection \<open>Credentials\<close>

datatype AuthState = Anonymous | AgentKey string | Bearer string

definition AuthState_agent_key :: "string \<Rightarrow> AuthState" where
  "AuthState_agent_key secret = AgentKey (trim secret)"

fun header_value :: "AuthState \<Rightarrow> string option" where
  "header_value Anonymous = None"
| "header_value (AgentKey secret) = Some (''Agent-Key '' @ secret)"
| "header_value (Bearer token) = Some (''Bearer '' @ token)"

fun auth_state_kind :: "AuthState \<Rightarrow> string" where
  "auth_state_kind Anonymous = ''anonymous''"
| "auth_state_kind (AgentKey _) = ''agent''"
| "auth_state_kind (Bearer _) = ''account''"

datatype AuthPolicy = PolicyAnonymous | PolicyAgent | PolicyAccount | PolicyAgentOrAccount

fun policy_allows :: "AuthPolicy \<Rightarrow> AuthState \<Rightarrow> bool" where
  "policy_allows PolicyAnonymous Anonymous = True"
| "policy_allows PolicyAgent (AgentKey _) = True"
| "policy_allows PolicyAccount (Bearer _) = True"
| "policy_allows PolicyAgentOrAccount (AgentKey _) = True"
| "policy_allows PolicyAgentOrAccount (Bearer _) = True"
| "policy_allows _ _ = False"

record HttpClient =
  hc_api_base :: string
  hc_auth_header :: "string option"

definition HttpClient_new_with_auth :: "string \<Rightarrow> AuthState \<Rightarrow> HttpClient" where
  "HttpClient_new_with_auth api_base auth = \<lparr>hc_api_base = api_base, hc_auth_header = header_value auth\<rparr>"

definition remove_auth :: "HttpClient \<Rightarrow> HttpClient" where
  "remove_auth c = c\<lparr>hc_auth_header := None\<rparr>"

definition set_auth :: "AuthState \<Rightarrow> HttpClient \<Rightarrow> HttpClient" where
  "set_auth auth c = c\<lparr>hc_auth_header := header_value auth\<rparr>"

definition starts_with :: "string \<Rightarrow> string \<Rightarrow> bool" where
  "starts_with p s \<longleftrightarrow> take (length p) s = p"

definition auth_kind :: "HttpClient \<Rightarrow> string" where
  "auth_kind c = (case hc_auth_header c of
     None \<Rightarrow> ''anonymous''
   | Some value \<Rightarrow>
       if starts_with ''Agent-Key '' value then ''agent'' else if starts_with ''Bearer '' value then ''account'' else ''unknown'')"

text \<open>\<^verbatim>\<open>PlayitApi::create\<close> and \<^verbatim>\<open>from_bearer\<close> through the builder.\<close>

definition PlayitApi_create :: "string \<Rightarrow> string option \<Rightarrow> HttpClient" where
  "PlayitApi_create api_base secret = HttpClient_new_with_auth api_base
     (case secret of Some s \<Rightarrow> AuthState_agent_key s | None \<Rightarrow> Anonymous)"

definition PlayitApi_from_bearer :: "string \<Rightarrow> string \<Rightarrow> HttpClient" where
  "PlayitApi_from_bearer api_base token = HttpClient_new_with_auth api_base (Bearer token)"

fun PortType_matches :: "PortType \<Rightarrow> PortType \<Rightarrow> bool" where
  "PortType_matches PortBoth port = True"
| "PortType_matches other port = (other = port)"

record PortRange =
  pr_from :: u16
  pr_to :: u16

definition PortRange_contains :: "PortRange \<Rightarrow> u16 \<Rightarrow> bool" where
  "PortRange_contains r port \<longleftrightarrow> pr_from r \<le> port \<and> port < pr_to r"

subsection \<open>Errors and delays\<close>

record reqwest_error =
  re_is_connect :: bool
  re_is_timeout :: bool
  re_is_request :: bool
  re_is_body :: bool

datatype HttpClientError =
    SerializeError string
  | HttpParseError string nat
  | HttpRequestError reqwest_error
  | TooManyRequests

definition is_server_error :: "nat \<Rightarrow> bool" where
  "is_server_error status \<longleftrightarrow> 500 \<le> status \<and> status < 600"

definition is_retryable_request_error :: "reqwest_error \<Rightarrow> bool" where
  "is_retryable_request_error e \<longleftrightarrow> re_is_connect e \<or> re_is_timeout e \<or> re_is_request e \<or> re_is_body e"

fun is_transient :: "HttpClientError \<Rightarrow> bool" where
  "is_transient (HttpRequestError e) = is_retryable_request_error e"
| "is_transient (HttpParseError _ status) = (status = 429 \<or> is_server_error status)"
| "is_transient TooManyRequests = True"
| "is_transient (SerializeError _) = False"

text \<open>
  A delay is in milliseconds. \<open>header_text\<close> is \<^verbatim>\<open>HeaderValue::to_str\<close> applied to the header; \<open>http_date\<close> is \<^verbatim>\<open>httpdate::parse_http_date\<close>.
\<close>

definition MAX_REQUEST_ATTEMPTS :: nat where "MAX_REQUEST_ATTEMPTS = 3"
definition RETRY_DELAY :: nat where "RETRY_DELAY = 250"
definition MAX_RETRY_DELAY :: nat where "MAX_RETRY_DELAY = 5000"

definition parse_retry_after :: "(string \<Rightarrow> nat option) \<Rightarrow> nat \<Rightarrow> string option \<Rightarrow> nat option" where
  "parse_retry_after http_date now header_text = (case header_text of
     None \<Rightarrow> None
   | Some text \<Rightarrow> let value = trim text in
       (case parse_uint (2 ^ 64 - 1) value of
          Some seconds \<Rightarrow> Some (1000 * seconds)
        | None \<Rightarrow> map_option (\<lambda>retry_at. retry_at - now) (http_date value)))"

definition http_retry_delay :: "(string \<Rightarrow> nat option) \<Rightarrow> nat \<Rightarrow> nat \<Rightarrow> string option option \<Rightarrow> nat" where
  "http_retry_delay http_date now attempt retry_after =
     min (case Option.bind retry_after (parse_retry_after http_date now) of
            Some d \<Rightarrow> d
          | None \<Rightarrow> RETRY_DELAY * (attempt + 1))
       MAX_RETRY_DELAY"

subsection \<open>One call\<close>

record http_request =
  rq_url :: string
  rq_authorization :: "string option"
  rq_body :: string

record http_response =
  rs_status :: nat
  rs_retry_after :: "string option option"
  rs_text :: "reqwest_error + string"

record 'w http_state =
  hs_world :: 'w
  hs_sent :: "http_request list"
  hs_slept :: "nat list"

record ('w, 's, 'f) http_env =
  he_build :: "http_request \<Rightarrow> reqwest_error option"
  he_execute :: "http_request \<Rightarrow> 'w \<Rightarrow> (reqwest_error + http_response) \<times> 'w"
  he_now :: "'w \<Rightarrow> nat"
  he_sleep :: "nat \<Rightarrow> 'w \<Rightarrow> 'w"
  he_http_date :: "string \<Rightarrow> nat option"
  he_deserialize :: "string \<Rightarrow> string + ('s, 'f) ApiResult \<times> string"
  he_end :: "string \<Rightarrow> string option"

definition http_sleep :: "('w, 's, 'f) http_env \<Rightarrow> nat \<Rightarrow> 'w http_state \<Rightarrow> 'w http_state" where
  "http_sleep env d hs = hs\<lparr>hs_world := he_sleep env d (hs_world hs), hs_slept := hs_slept hs @ [d]\<rparr>"

definition parse_response ::
  "('w, 's, 'f) http_env \<Rightarrow> nat \<Rightarrow> string \<Rightarrow> HttpClientError + ('s, 'f) ApiResult" where
  "parse_response env status text = (case he_deserialize env text of
     Inl e \<Rightarrow> Inl (HttpParseError e status)
   | Inr (result, rest) \<Rightarrow> (case he_end env rest of Some e \<Rightarrow> Inl (HttpParseError e status) | None \<Rightarrow> Inr result))"

text \<open>
  The loop body: \<open>None\<close> is \<^verbatim>\<open>continue\<close>. \<open>last_attempt\<close> is the negation of \<^verbatim>\<open>attempt + 1 < max_attempts\<close>.
\<close>

definition http_attempt ::
  "('w, 's, 'f) http_env \<Rightarrow> http_request \<Rightarrow> RetryPolicy \<Rightarrow> nat \<Rightarrow> nat \<Rightarrow> 'w http_state \<Rightarrow>
   (HttpClientError + ('s, 'f) ApiResult) option \<times> 'w http_state" where
  "http_attempt env request policy max_attempts attempt hs =
     (let again = (policy = RetryTransient \<and> attempt + 1 < max_attempts);
          delay = (\<lambda>retry_after hs. http_sleep env (http_retry_delay (he_http_date env) (he_now env (hs_world hs)) attempt retry_after) hs)
      in case he_build env request of
        Some e \<Rightarrow> (Some (Inl (HttpRequestError e)), hs)
      | None \<Rightarrow> (case he_execute env request (hs_world hs) of (result, w1) \<Rightarrow>
          let hs1 = hs\<lparr>hs_world := w1, hs_sent := hs_sent hs @ [request]\<rparr> in
          case result of
            Inl e \<Rightarrow> if again \<and> is_retryable_request_error e then (None, delay None hs1) else (Some (Inl (HttpRequestError e)), hs1)
          | Inr response \<Rightarrow> (case rs_text response of
              Inl e \<Rightarrow> if again \<and> is_retryable_request_error e then (None, delay (rs_retry_after response) hs1)
                  else (Some (Inl (HttpRequestError e)), hs1)
            | Inr text \<Rightarrow>
                if again \<and> (rs_status response = 429 \<or> is_server_error (rs_status response))
                then (None, delay (rs_retry_after response) hs1)
                else if rs_status response = 429 then (Some (Inl TooManyRequests), hs1)
                else (Some (parse_response env (rs_status response) text), hs1))))"

text \<open>
  The loop, with the attempts still to make; a result \<open>None\<close> is the \<^verbatim>\<open>unreachable!\<close> behind it. The credential is read again for
  each attempt in the code; no other task changes it during a call, so it is part of the client here.
\<close>

fun http_attempts ::
  "('w, 's, 'f) http_env \<Rightarrow> http_request \<Rightarrow> RetryPolicy \<Rightarrow> nat \<Rightarrow> nat \<Rightarrow> 'w http_state \<Rightarrow>
   (HttpClientError + ('s, 'f) ApiResult) option \<times> 'w http_state" where
  "http_attempts env request policy max_attempts 0 hs = (None, hs)"
| "http_attempts env request policy max_attempts (Suc n) hs =
     (case http_attempt env request policy max_attempts (max_attempts - Suc n) hs of
        (Some r, hs1) \<Rightarrow> (Some r, hs1)
      | (None, hs1) \<Rightarrow> http_attempts env request policy max_attempts n hs1)"

definition call_with_policy ::
  "('w, 's, 'f) http_env \<Rightarrow> HttpClient \<Rightarrow> string \<Rightarrow> string + string \<Rightarrow> RetryPolicy \<Rightarrow> 'w http_state \<Rightarrow>
   (HttpClientError + ('s, 'f) ApiResult) option \<times> 'w http_state" where
  "call_with_policy env client url_path body policy hs = (case body of
     Inl e \<Rightarrow> (Some (Inl (SerializeError e)), hs)
   | Inr json \<Rightarrow>
       let max_attempts = (case policy of RetryNever \<Rightarrow> 1 | RetryTransient \<Rightarrow> MAX_REQUEST_ATTEMPTS);
           request = \<lparr>rq_url = hc_api_base client @ url_path, rq_authorization = hc_auth_header client, rq_body = json\<rparr>
       in http_attempts env request policy max_attempts max_attempts hs)"

definition http_call ::
  "('w, 's, 'f) http_env \<Rightarrow> HttpClient \<Rightarrow> string \<Rightarrow> string + string \<Rightarrow> 'w http_state \<Rightarrow>
   (HttpClientError + ('s, 'f) ApiResult) option \<times> 'w http_state" where
  "http_call env client url_path body hs = call_with_policy env client url_path body RetryNever hs"

subsection \<open>Laws\<close>

lemma auth_kind_new: "auth_kind (HttpClient_new_with_auth base auth) = auth_state_kind auth"
  by (cases auth) (simp_all add: auth_kind_def HttpClient_new_with_auth_def starts_with_def)

lemma http_retry_delay_bound: "http_retry_delay http_date now attempt retry_after \<le> 5000"
  by (simp add: http_retry_delay_def MAX_RETRY_DELAY_def)

lemma http_sleep_sel [simp]:
  "hs_sent (http_sleep env d hs) = hs_sent hs" "hs_slept (http_sleep env d hs) = hs_slept hs @ [d]"
  by (simp_all add: http_sleep_def)

lemma http_attempt_cases:
  assumes "http_attempt env request policy max_attempts attempt hs = (r, hs')"
  obtains (retried) "r = None" "policy = RetryTransient" "attempt + 1 < max_attempts"
      "hs_sent hs' = hs_sent hs @ [request]" "\<exists>d \<le> 5000. hs_slept hs' = hs_slept hs @ [d]"
  | (answered) "r \<noteq> None" "hs_sent hs' = hs_sent hs @ [request]" "hs_slept hs' = hs_slept hs"
  | (not_built) e where "r = Some (Inl (HttpRequestError e))" "he_build env request = Some e" "hs' = hs"
  using assms
  by (auto simp: http_attempt_def Let_def http_retry_delay_bound split: option.splits prod.splits sum.splits if_splits)

text \<open>What a run of attempts does: it sends the request again and again, and sleeps between, within its bounds.\<close>

lemma http_attempts_spec:
  assumes "http_attempts env request policy max_attempts n hs = (r, hs')" "0 < n" "n \<le> max_attempts"
  shows "r \<noteq> None \<and> (\<exists>k slept. hs_sent hs' = hs_sent hs @ replicate k request \<and> hs_slept hs' = hs_slept hs @ slept \<and>
    k \<le> length slept + 1 \<and> length slept < n \<and> (policy = RetryNever \<longrightarrow> slept = []) \<and> set slept \<subseteq> {..5000})"
  using assms
proof (induction n arbitrary: hs)
  case (Suc n)
  obtain r1 hs1 where 1: "http_attempt env request policy max_attempts (max_attempts - Suc n) hs = (r1, hs1)" by fastforce
  from 1 show ?case
  proof (cases rule: http_attempt_cases)
    case retried
    then obtain d where d: "d \<le> 5000" "hs_slept hs1 = hs_slept hs @ [d]" by blast
    have "0 < n" "n \<le> max_attempts" using Suc.prems(3) retried(3) by auto
    moreover have "http_attempts env request policy max_attempts n hs1 = (r, hs')" using Suc.prems(1) retried(1) by (simp add: 1)
    ultimately obtain k slept where IH: "r \<noteq> None" "hs_sent hs' = hs_sent hs1 @ replicate k request" "hs_slept hs' = hs_slept hs1 @ slept"
      "k \<le> length slept + 1" "length slept < n" "set slept \<subseteq> {..5000}"
      using Suc.IH by blast
    then show ?thesis
      using retried d by (intro conjI exI [of _ "Suc k"] exI [of _ "d # slept"]) auto
  next
    case answered
    then show ?thesis using Suc.prems(1) by (intro conjI exI [of _ 1] exI [of _ "[]"]) (auto simp: 1)
  next
    case (not_built e)
    then show ?thesis using Suc.prems(1) by (intro conjI exI [of _ 0] exI [of _ "[]"]) (auto simp: 1)
  qed
qed simp

text \<open>A whole call.\<close>

lemma call_with_policy_ends:
  "\<exists>r hs' k slept. call_with_policy env client url_path body policy hs = (Some r, hs') \<and>
     hs_sent hs' = hs_sent hs @ replicate k \<lparr>rq_url = hc_api_base client @ url_path, rq_authorization = hc_auth_header client,
       rq_body = (case body of Inr json \<Rightarrow> json | Inl _ \<Rightarrow> [])\<rparr> \<and>
     hs_slept hs' = hs_slept hs @ slept \<and> k \<le> length slept + 1 \<and>
     length slept \<le> (case policy of RetryNever \<Rightarrow> 0 | RetryTransient \<Rightarrow> 2) \<and> set slept \<subseteq> {..5000} \<and> sum_list slept \<le> 10000"
proof (cases body)
  case (Inl e)
  then show ?thesis by (intro exI [of _ "Inl (SerializeError e)"] exI [of _ hs] exI [of _ 0] exI [of _ "[]"]) (simp add: call_with_policy_def)
next
  case (Inr json)
  define m :: nat where "m = (case policy of RetryNever \<Rightarrow> 1 | RetryTransient \<Rightarrow> MAX_REQUEST_ATTEMPTS)"
  let ?rq = "\<lparr>rq_url = hc_api_base client @ url_path, rq_authorization = hc_auth_header client, rq_body = json\<rparr>"
  have m: "0 < m" "m \<le> 3" "policy = RetryTransient \<longrightarrow> m = 3" by (cases policy; simp add: m_def MAX_REQUEST_ATTEMPTS_def)+
  obtain r hs' where run: "http_attempts env ?rq policy m m hs = (r, hs')" by fastforce
  from http_attempts_spec [OF run m(1) order_refl] obtain k slept where spec: "r \<noteq> None"
    "hs_sent hs' = hs_sent hs @ replicate k ?rq" "hs_slept hs' = hs_slept hs @ slept" "k \<le> length slept + 1" "length slept < m"
    "policy = RetryNever \<longrightarrow> slept = []" "set slept \<subseteq> {..5000}" by blast
  have "sum_list slept \<le> length slept * 5000" using spec(7) by (induction slept) auto
  also have "\<dots> \<le> 2 * 5000" using spec(5) m(2) by (intro mult_right_mono) auto
  finally have "sum_list slept \<le> 10000" by simp
  moreover have "length slept \<le> (case policy of RetryNever \<Rightarrow> 0 | RetryTransient \<Rightarrow> 2)"
    using spec(5,6) m(2) by (cases policy) auto
  ultimately show ?thesis
    using spec by (auto simp: call_with_policy_def Inr run m_def [symmetric] Let_def)
qed

subsection \<open>Properties\<close>

text \<open>
  C29: An API call ends with a result and never reaches the \<^verbatim>\<open>unreachable!\<close> behind its loop. It sends the same request, with the
  credential of the client, at most three times when the call may be retried and at most once otherwise; between two attempts it waits
  five seconds at most, so ten in all, whatever the server asks for in \<^verbatim>\<open>Retry-After\<close>.
\<close>

theorem api_call_ends:
  "\<exists>r hs' k slept. call_with_policy env client url_path body policy hs = (Some r, hs') \<and>
     hs_sent hs' = hs_sent hs @ replicate k \<lparr>rq_url = hc_api_base client @ url_path, rq_authorization = hc_auth_header client,
       rq_body = (case body of Inr json \<Rightarrow> json | Inl _ \<Rightarrow> [])\<rparr> \<and>
     hs_slept hs' = hs_slept hs @ slept \<and> k \<le> length slept + 1 \<and>
     length slept \<le> (case policy of RetryNever \<Rightarrow> 0 | RetryTransient \<Rightarrow> 2) \<and> set slept \<subseteq> {..5000} \<and> sum_list slept \<le> 10000"
  by (rule call_with_policy_ends)

end
