(* ===== verification/Tunnel_Requests.thy ===== *)
theory Tunnel_Requests
  imports Http_Client Account_State
begin

section \<open>Tunnel management\<close>

text \<open>
  \<^verbatim>\<open>packages/playit-runtime/src/tunnels.rs\<close>: the requests that create, move and list tunnels, and what becomes of the errors of the API. Of the
  API types (\<^verbatim>\<open>api.rs\<close>) the fields that the code reads or sets are here. A UUID is its text; \<open>uuid_parse\<close> is \<^verbatim>\<open>Uuid::parse_str\<close>,
  \<open>ip_from_str\<close> is \<^verbatim>\<open>IpAddr::from_str\<close> and \<open>status_text\<close> is \<^verbatim>\<open>Display\<close> of an HTTP status.
\<close>

subsection \<open>Types of the API\<close>

record AgentTunnelConfig =
  config_fields :: "AgentTunnelAttr list"

record AgentOrigin =
  ao_agent_id :: "string option"
  ao_config :: "AgentTunnelConfig option"

record TunnelProtocolRawPorts =
  rp_port_type :: PortType
  rp_port_count :: u16
  rp_software_description :: string

datatype TunnelProtocolV1 = ProtocolTunnelType TunnelType | ProtocolRawPorts TunnelProtocolRawPorts

datatype AccountTunnelOriginCreate = OriginCreateAgent AgentOrigin

datatype PlayitNetwork =
    Global | NorthAmerica | Europe | Asia | India | SouthAmerica | Chile | SeattleWashington | LosAngelesCalifornia | DenverColorado
  | DallasTexas | ChicagoIllinois | NewYork | NaReserved1 | NaReserved2 | UnitedKingdom | Germany | Sweden | Poland | Romania | TestNetwork
  | Japan | Australia

record UseAllocRegion =
  ur_region :: PlayitNetwork
  ur_port :: "u16 option"

record UseAllocIp =
  ui_ip_hostname :: string
  ui_port :: "u16 option"

datatype CreateTunnelEndpoint =
    EndpointGateway string
  | EndpointDedicatedIp UseAllocIp
  | EndpointSharedIp UseAllocIp
  | EndpointRegion UseAllocRegion
  | EndpointPortAllocation string

record ReqTunnelsCreateV1 =
  rc_name :: string
  rc_protocol :: TunnelProtocolV1
  rc_origin :: AccountTunnelOriginCreate
  rc_endpoint :: CreateTunnelEndpoint
  rc_enabled :: bool
  rc_firewall_id :: "string option"

record ReqTunnelsConfigV1 =
  rf_tunnel_id :: string
  rf_new_agent_id :: "string option"
  rf_new_config :: "AgentTunnelConfig option"

datatype TunnelCreateErrorV1 =
    CreateAgentNotFound | InvalidAgentId | DedicatedIpNotFound | PortAllocNotFound | InvalidIpHostname | InvalidPortCount
  | RequiresVerifiedAccount | RegionNotSupported | CreateInvalidTunnelConfig | FirewallNotFound | TunnelNameIsNotAscii | TunnelNameTooLong
  | PortAllocDoesNotMatchPortDetails | RegionRequiresPlayitPremium | PortAllocCurrentlyAssigned | PublicPortRequiresPlayitPremium
  | AgentVersionTooOld | RequiresPlayitPremium | AllocRequestNotSupportedByPorts | InvalidHostnameId | HostnameHasTunnelTypeTarget
  | EndpointDoesNotSupportProtocol | InvalidGatewayId | GatewayAlreadyHasTunnelType | GatewayDoesNotSupportTunnelType
  | TunnelTypeBlockedOnRegion | InvalidSoftwareDescription | CreateOther

datatype DeleteError = DeleteTunnelNotFound

datatype 'v TunnelConfigError =
    ConfigTunnelNotFound | ConfigAgentNotFound | AgentVersionUnknown | CannotConfigTunnelWithoutAgent
  | SelfManagedAgentCannotReassignTunnel | InvalidConfig 'v | ConfigNotCompatibleWithAgent | NothingToUpdate

record TunnelToAgent =
  ta_agent_id :: string
  ta_config_data :: AgentTunnelConfig

datatype AccountTunnelOrigin = OriginNotSetTo "AgentTunnelConfig option" | OriginAgent TunnelToAgent

datatype AccountTunnelOfflineReason =
    OriginNotSet | AgentDisabled | AgentOverLimit | TunnelDisabled | PublicAllocationMissing | PublicAllocationPending

datatype ConnectAddress =
    ConnectAddr4 SocketAddrV4
  | ConnectAddr6 SocketAddrV6
  | ConnectIp4 Ipv4Addr u16
  | ConnectIp6 Ipv6Addr u16
  | ConnectAuto string
  | ConnectDomain string string

record AccountTunnelV1 =
  at_id :: string
  at_name :: "string option"
  at_user_enabled :: bool
  at_offline_reasons :: "AccountTunnelOfflineReason list option"
  at_tunnel_type :: "TunnelType option"
  at_port_type :: PortType
  at_origin :: AccountTunnelOrigin
  at_connect_addresses :: "ConnectAddress list"

record AccountTunnelState =
  ats_id :: string
  ats_name :: "string option"
  ats_display_address :: string
  ats_destination :: string
  ats_protocol :: TunnelProtocol
  ats_tunnel_type :: "string option"
  ats_local_address :: "string option"
  ats_local_port :: "u16 option"
  ats_agent_id :: "string option"
  ats_is_disabled :: bool
  ats_disabled_reason :: "string option"

subsection \<open>The account's tunnels\<close>

definition tunnel_destination :: "string option \<Rightarrow> u16 option \<Rightarrow> string" where
  "tunnel_destination local_address local_port = (case (local_address, local_port) of
     (Some address, Some port) \<Rightarrow> address @ '':'' @ show_base 10 (unat port)
   | (Some address, None) \<Rightarrow> address
   | (None, Some port) \<Rightarrow> '':'' @ show_base 10 (unat port)
   | (None, None) \<Rightarrow> [])"

definition show_sock4 :: "SocketAddrV4 \<Rightarrow> string" where
  "show_sock4 a = show_ip4 (v4_ip a) @ '':'' @ show_base 10 (unat (v4_port a))"

definition show_sock6 :: "SocketAddrV6 \<Rightarrow> string" where
  "show_sock6 a = ''['' @ show_ip6 (v6_ip a) @ (if v6_scope_id a = 0 then [] else ''%'' @ show_base 10 (unat (v6_scope_id a))) @
     '']:'' @ show_base 10 (unat (v6_port a))"

fun connect_address_text :: "ConnectAddress \<Rightarrow> string option" where
  "connect_address_text (ConnectAddr4 a) = Some (show_sock4 a)"
| "connect_address_text (ConnectAddr6 a) = Some (show_sock6 a)"
| "connect_address_text (ConnectIp4 ip port) = Some (show_ip4 ip @ '':'' @ show_base 10 (unat port))"
| "connect_address_text (ConnectIp6 ip port) = Some (''['' @ show_ip6 ip @ '']:'' @ show_base 10 (unat port))"
| "connect_address_text (ConnectAuto address) = Some address"
| "connect_address_text (ConnectDomain domain address) = Some (if address = [] then domain else address)"

fun account_tunnel_offline_reason :: "AccountTunnelOfflineReason \<Rightarrow> string" where
  "account_tunnel_offline_reason OriginNotSet = ''origin not set''"
| "account_tunnel_offline_reason AgentDisabled = ''agent disabled''"
| "account_tunnel_offline_reason AgentOverLimit = ''agent over limit''"
| "account_tunnel_offline_reason TunnelDisabled = ''tunnel disabled''"
| "account_tunnel_offline_reason PublicAllocationMissing = ''public allocation missing''"
| "account_tunnel_offline_reason PublicAllocationPending = ''public allocation pending''"

fun join_with :: "string \<Rightarrow> string list \<Rightarrow> string" where
  "join_with sep [] = []"
| "join_with sep [s] = s"
| "join_with sep (s # ss) = s @ sep @ join_with sep ss"

definition config_field :: "AgentTunnelConfig option \<Rightarrow> string \<Rightarrow> string option" where
  "config_field config name =
     Option.bind config (\<lambda>c. map_option attr_value (find (\<lambda>f. attr_name f = name) (config_fields c)))"

definition account_tunnel_view :: "AccountTunnelV1 \<Rightarrow> AccountTunnelState" where
  "account_tunnel_view tunnel =
     (let agent_id = (case at_origin tunnel of OriginAgent origin \<Rightarrow> Some (ta_agent_id origin) | OriginNotSetTo _ \<Rightarrow> None);
          config = (case at_origin tunnel of OriginAgent origin \<Rightarrow> Some (ta_config_data origin) | OriginNotSetTo c \<Rightarrow> c);
          local_address = config_field config ''local_ip'';
          local_port = Option.bind (config_field config ''local_port'') u16_from_str;
          is_disabled = (\<not> at_user_enabled tunnel \<or> (case at_offline_reasons tunnel of Some reasons \<Rightarrow> reasons \<noteq> [] | None \<Rightarrow> False));
          disabled_reason = (if \<not> at_user_enabled tunnel then Some ''disabled by user''
            else Option.bind (at_offline_reasons tunnel) (\<lambda>reasons. if reasons = [] then None
              else Some (join_with '', '' (map account_tunnel_offline_reason reasons))))
      in \<lparr>ats_id = at_id tunnel, ats_name = at_name tunnel,
          ats_display_address = (case List.map_filter connect_address_text (at_connect_addresses tunnel) of [] \<Rightarrow> [] | a # _ \<Rightarrow> a),
          ats_destination = tunnel_destination local_address local_port, ats_protocol = tunnel_protocol (at_port_type tunnel),
          ats_tunnel_type = map_option TunnelType_name (at_tunnel_type tunnel), ats_local_address = local_address,
          ats_local_port = local_port, ats_agent_id = agent_id, ats_is_disabled = is_disabled, ats_disabled_reason = disabled_reason\<rparr>)"

definition account_tunnel_list :: "AccountTunnelV1 list \<Rightarrow> AccountTunnelState list" where
  "account_tunnel_list tunnels = map account_tunnel_view tunnels"

subsection \<open>Errors\<close>

definition over_limit_guidance :: string where
  "over_limit_guidance = ''Delete unused agents: https://playit.gg/account/agents'' @ [CHR 0x0A] @
     ''Increase your agent limit: https://playit.gg/account/upgrade''"

fun lifecycle_name :: "AgentLifecycle \<Rightarrow> string" where
  "lifecycle_name WaitingForSecret = ''waiting_for_secret''"
| "lifecycle_name (HasInvalidSecret _) = ''has_invalid_secret''"
| "lifecycle_name (DisabledOverLimit _) = ''disabled_over_limit''"
| "lifecycle_name LifecycleStarting = ''starting''"
| "lifecycle_name (LifecycleRunning _) = ''running''"
| "lifecycle_name LifecycleStopping = ''stopping''"
| "lifecycle_name (LifecycleError _) = ''error''"

fun service_not_ready_error :: "string \<Rightarrow> AgentLifecycle \<Rightarrow> RuntimeError" where
  "service_not_ready_error operation WaitingForSecret = RuntimeError_invalid CodeProvisioningUnavailable
     (''Cannot '' @ operation @ '' while the service is waiting for an agent secret.'') True"
| "service_not_ready_error operation (HasInvalidSecret e) = RuntimeError_invalid CodeInvalidSecret
     (''Cannot '' @ operation @ '': '' @ se_message e) False"
| "service_not_ready_error operation (DisabledOverLimit e) = RuntimeError_invalid CodeAgentDisabledOverLimit
     (''Cannot '' @ operation @ '': '' @ se_message e) False"
| "service_not_ready_error operation LifecycleStarting = RuntimeError_invalid CodeApiUnavailable
     (''Cannot '' @ operation @ '' while the service is '' @ lifecycle_name LifecycleStarting @ ''.'') True"
| "service_not_ready_error operation LifecycleStopping = RuntimeError_invalid CodeApiUnavailable
     (''Cannot '' @ operation @ '' while the service is '' @ lifecycle_name LifecycleStopping @ ''.'') True"
| "service_not_ready_error operation (LifecycleError e) = RuntimeError_invalid (se_code e)
     (''Cannot '' @ operation @ '': '' @ se_message e) (se_retryable e)"
| "service_not_ready_error operation (LifecycleRunning _) = RuntimeError_invalid CodeInternal
     (''Cannot '' @ operation @ '' because the running state changed unexpectedly.'') False"

fun secret_provisioning_state_error :: "AgentLifecycle \<Rightarrow> RuntimeError" where
  "secret_provisioning_state_error WaitingForSecret = RuntimeError_invalid CodeProvisioningUnavailable
     ''The Playit service is not ready to save a secret yet. Try setup again in a few seconds.'' True"
| "secret_provisioning_state_error (HasInvalidSecret e) = RuntimeError_invalid CodeProvisioningUnavailable
     (''The Playit service is not waiting for a new secret because its current secret is invalid: '' @ se_message e) False"
| "secret_provisioning_state_error (DisabledOverLimit e) = RuntimeError_invalid CodeProvisioningUnavailable
     (''Setup is unavailable because this account is over the agent limit.'' @ [CHR 0x0A] @ over_limit_guidance @ [CHR 0x0A] @
      ''Reason: '' @ se_message e) False"
| "secret_provisioning_state_error LifecycleStarting = RuntimeError_invalid CodeProvisioningUnavailable
     ''The Playit service is still starting. Try setup again in a few seconds.'' True"
| "secret_provisioning_state_error (LifecycleRunning _) = RuntimeError_invalid CodeProvisioningUnavailable
     ''The Playit service already has a configured secret. Run playit reset before provisioning a new one.'' False"
| "secret_provisioning_state_error LifecycleStopping = RuntimeError_invalid CodeProvisioningUnavailable
     ''The Playit service is stopping and cannot accept setup right now.'' True"
| "secret_provisioning_state_error (LifecycleError e) = RuntimeError_invalid CodeProvisioningUnavailable
     (''The Playit service reported an error and cannot accept setup right now: '' @ se_message e) True"

text \<open>A message of the server is cut after 512 characters, with an ellipsis (U+2026) behind it.\<close>

definition bounded_message :: "string \<Rightarrow> string" where
  "bounded_message message =
     (let chars = utf8_chars (trim message); bounded = concat (take 512 chars) in
      if drop 512 chars \<noteq> [] then bounded @ [CHR 0xE2, CHR 0x80, CHR 0xA6]
      else if bounded = [] then ''no additional details'' else bounded)"

fun map_api_response_error :: "string \<Rightarrow> ServiceErrorCode \<Rightarrow> ApiResponseError \<Rightarrow> RuntimeError" where
  "map_api_response_error operation validation_code (ApiValidation message) = RuntimeError_invalid validation_code
     (''The playit API rejected '' @ operation @ '': '' @ bounded_message message @ ''.'') False"
| "map_api_response_error operation validation_code (ApiPathNotFound _) = RuntimeError_api CodeApiRejected
     (''The playit API does not support '' @ operation @ ''.'') False"
| "map_api_response_error operation validation_code (ApiAuth _) = RuntimeError_api CodePermissionDenied
     (''The playit API did not authorize '' @ operation @ ''.'') False"
| "map_api_response_error operation validation_code (ApiInternal trace_id) = RuntimeError_api CodeApiUnavailable
     (''The playit API reported a temporary internal error while performing '' @ operation @ '' (reference '' @
      bounded_message trace_id @ '').'') True"

definition map_http_client_error :: "(nat \<Rightarrow> string) \<Rightarrow> string \<Rightarrow> HttpClientError \<Rightarrow> RuntimeError" where
  "map_http_client_error status_text operation error =
     (let retryable = is_transient error;
          (code, message) = (case error of
              TooManyRequests \<Rightarrow> (CodeApiUnavailable, ''The playit API is rate limiting '' @ operation @ ''; try again later.'')
            | HttpRequestError _ \<Rightarrow>
                if retryable then (CodeApiUnavailable, ''Could not reach the playit API while performing '' @ operation @ ''.'')
                else (CodeInternal, ''The playit API request for '' @ operation @ '' could not be sent.'')
            | HttpParseError _ status \<Rightarrow>
                (if retryable then CodeApiUnavailable else CodeApiRejected,
                 ''The playit API returned an invalid response for '' @ operation @ '' ('' @ status_text status @ '').'')
            | SerializeError _ \<Rightarrow> (CodeInternal, ''Could not prepare the playit API request for '' @ operation @ ''.''))
      in RuntimeError_api code message retryable)"

fun tunnel_create_reason :: "TunnelCreateErrorV1 \<Rightarrow> ServiceErrorCode \<times> string" where
  "tunnel_create_reason CreateAgentNotFound = (CodeApiRejected, ''the agent was not found'')"
| "tunnel_create_reason InvalidAgentId = (CodeInvalidTunnelRequest, ''the agent ID is invalid'')"
| "tunnel_create_reason AgentVersionTooOld = (CodeApiRejected, ''the agent version is too old for this tunnel'')"
| "tunnel_create_reason DedicatedIpNotFound = (CodeApiRejected, ''the requested dedicated IP was not found'')"
| "tunnel_create_reason PortAllocNotFound = (CodeApiRejected, ''the requested port allocation was not found'')"
| "tunnel_create_reason InvalidIpHostname = (CodeInvalidTunnelRequest, ''the local IP or hostname is invalid'')"
| "tunnel_create_reason InvalidPortCount = (CodeInvalidTunnelRequest, ''the requested port count is invalid'')"
| "tunnel_create_reason RequiresVerifiedAccount = (CodePermissionDenied, ''a verified account is required'')"
| "tunnel_create_reason RegionNotSupported = (CodeApiRejected, ''the requested region is not supported'')"
| "tunnel_create_reason CreateInvalidTunnelConfig = (CodeInvalidTunnelRequest, ''the tunnel configuration is invalid'')"
| "tunnel_create_reason FirewallNotFound = (CodeApiRejected, ''the requested firewall was not found'')"
| "tunnel_create_reason TunnelNameIsNotAscii = (CodeInvalidTunnelRequest, ''the tunnel name must contain only ASCII characters'')"
| "tunnel_create_reason TunnelNameTooLong = (CodeInvalidTunnelRequest, ''the tunnel name is too long'')"
| "tunnel_create_reason PortAllocDoesNotMatchPortDetails =
     (CodeInvalidTunnelRequest, ''the port allocation does not match the requested tunnel'')"
| "tunnel_create_reason RegionRequiresPlayitPremium = (CodePermissionDenied, ''the requested region requires Playit Premium'')"
| "tunnel_create_reason PortAllocCurrentlyAssigned = (CodeApiRejected, ''the requested port allocation is already assigned'')"
| "tunnel_create_reason PublicPortRequiresPlayitPremium =
     (CodePermissionDenied, ''the requested public port requires Playit Premium'')"
| "tunnel_create_reason RequiresPlayitPremium = (CodePermissionDenied, ''a Playit Premium account is required'')"
| "tunnel_create_reason AllocRequestNotSupportedByPorts =
     (CodeInvalidTunnelRequest, ''the allocation request is not supported by the requested ports'')"
| "tunnel_create_reason InvalidHostnameId = (CodeInvalidTunnelRequest, ''the hostname ID is invalid'')"
| "tunnel_create_reason HostnameHasTunnelTypeTarget =
     (CodeInvalidTunnelRequest, ''the hostname is already configured for a tunnel type'')"
| "tunnel_create_reason EndpointDoesNotSupportProtocol =
     (CodeInvalidTunnelRequest, ''the endpoint does not support the requested protocol'')"
| "tunnel_create_reason InvalidGatewayId = (CodeInvalidTunnelRequest, ''the gateway ID is invalid'')"
| "tunnel_create_reason GatewayAlreadyHasTunnelType = (CodeApiRejected, ''the gateway already has a tunnel type'')"
| "tunnel_create_reason GatewayDoesNotSupportTunnelType =
     (CodeApiRejected, ''the gateway does not support the requested tunnel type'')"
| "tunnel_create_reason TunnelTypeBlockedOnRegion = (CodeApiRejected, ''the requested tunnel type is blocked in this region'')"
| "tunnel_create_reason InvalidSoftwareDescription = (CodeInvalidTunnelRequest, ''the software description is invalid'')"
| "tunnel_create_reason CreateOther = (CodeApiRejected, ''the API rejected the request'')"

definition map_tunnel_create_failure :: "TunnelCreateErrorV1 \<Rightarrow> RuntimeError" where
  "map_tunnel_create_failure failure = (case tunnel_create_reason failure of (code, reason) \<Rightarrow>
     RuntimeError_api code (''The playit API rejected tunnel creation: '' @ reason @ ''.'') False)"

fun map_tunnel_create_error :: "(nat \<Rightarrow> string) \<Rightarrow> (TunnelCreateErrorV1, HttpClientError) ApiError \<Rightarrow> RuntimeError" where
  "map_tunnel_create_error status_text (ApiErrorFail failure) = map_tunnel_create_failure failure"
| "map_tunnel_create_error status_text (ApiErrorApi e) = map_api_response_error ''tunnel creation'' CodeInvalidTunnelRequest e"
| "map_tunnel_create_error status_text (ApiErrorClient e) = map_http_client_error status_text ''tunnel creation'' e"

fun map_tunnel_delete_error :: "(nat \<Rightarrow> string) \<Rightarrow> (DeleteError, HttpClientError) ApiError \<Rightarrow> RuntimeError" where
  "map_tunnel_delete_error status_text (ApiErrorFail DeleteTunnelNotFound) =
     RuntimeError_api CodeTunnelNotFound ''The requested tunnel does not exist.'' False"
| "map_tunnel_delete_error status_text (ApiErrorApi e) = map_api_response_error ''tunnel deletion'' CodeInvalidTunnelRequest e"
| "map_tunnel_delete_error status_text (ApiErrorClient e) = map_http_client_error status_text ''tunnel deletion'' e"

fun map_account_tunnel_list_error :: "(nat \<Rightarrow> string) \<Rightarrow> HttpClientError ApiErrorNoFail \<Rightarrow> RuntimeError" where
  "map_account_tunnel_list_error status_text UnexpectedFail =
     RuntimeError_api CodeApiRejected ''The playit API rejected account tunnel listing.'' False"
| "map_account_tunnel_list_error status_text (NoFailApi e) = map_api_response_error ''account tunnel listing'' CodeApiRejected e"
| "map_account_tunnel_list_error status_text (NoFailClient e) = map_http_client_error status_text ''account tunnel listing'' e"

fun tunnel_config_reason :: "'v TunnelConfigError \<Rightarrow> ServiceErrorCode \<times> string" where
  "tunnel_config_reason ConfigTunnelNotFound = (CodeTunnelNotFound, ''The requested tunnel does not exist.'')"
| "tunnel_config_reason ConfigAgentNotFound = (CodeApiRejected, ''The target Playit agent does not exist.'')"
| "tunnel_config_reason AgentVersionUnknown = (CodeApiRejected, ''The target Playit agent version is unknown.'')"
| "tunnel_config_reason CannotConfigTunnelWithoutAgent =
     (CodeInvalidTunnelRequest, ''The tunnel has no agent origin and cannot be configured.'')"
| "tunnel_config_reason SelfManagedAgentCannotReassignTunnel =
     (CodePermissionDenied, ''Playit does not allow this tunnel to be reassigned to the self-managed agent.'')"
| "tunnel_config_reason (InvalidConfig _) = (CodeInvalidTunnelRequest, ''The tunnel configuration is invalid.'')"
| "tunnel_config_reason ConfigNotCompatibleWithAgent =
     (CodeInvalidTunnelRequest, ''The tunnel configuration is not compatible with the target agent.'')"
| "tunnel_config_reason NothingToUpdate = (CodeApiRejected, ''The Playit tunnel configuration did not change.'')"

fun map_tunnel_config_error :: "(nat \<Rightarrow> string) \<Rightarrow> ('v TunnelConfigError, HttpClientError) ApiError \<Rightarrow> RuntimeError" where
  "map_tunnel_config_error status_text (ApiErrorFail failure) =
     (case tunnel_config_reason failure of (code, message) \<Rightarrow> RuntimeError_api code message False)"
| "map_tunnel_config_error status_text (ApiErrorApi e) = map_api_response_error ''tunnel reassignment'' CodeApiRejected e"
| "map_tunnel_config_error status_text (ApiErrorClient e) = map_http_client_error status_text ''tunnel reassignment'' e"

fun map_generic_api_error :: "(nat \<Rightarrow> string) \<Rightarrow> string \<Rightarrow> ('f, HttpClientError) ApiError \<Rightarrow> RuntimeError" where
  "map_generic_api_error status_text operation (ApiErrorFail _) =
     RuntimeError_api CodeApiRejected (''The playit API rejected '' @ operation @ ''.'') False"
| "map_generic_api_error status_text operation (ApiErrorApi e) = map_api_response_error operation CodeApiRejected e"
| "map_generic_api_error status_text operation (ApiErrorClient e) = map_http_client_error status_text operation e"

subsection \<open>Requests\<close>

record text_env =
  te_ip_from_str :: "string \<Rightarrow> IpAddr option"
  te_uuid_parse :: "string \<Rightarrow> string option"

definition tunnel_list :: "AgentLifecycle \<Rightarrow> RuntimeError + TunnelListResponse" where
  "tunnel_list lifecycle = (case lifecycle of
     LifecycleRunning state \<Rightarrow> Inr \<lparr>tl_tunnels = as_tunnels state, tl_pending_tunnels = as_pending_tunnels state\<rparr>
   | _ \<Rightarrow> Inl (service_not_ready_error ''list tunnels'' lifecycle))"

definition normalize_tunnel_name :: "string option \<Rightarrow> string" where
  "normalize_tunnel_name name = (case name of
     None \<Rightarrow> ''playit-tunnel''
   | Some value \<Rightarrow> if trim value = [] then ''playit-tunnel'' else trim value)"

definition parse_tunnel_id :: "text_env \<Rightarrow> string \<Rightarrow> RuntimeError + string" where
  "parse_tunnel_id env tunnel_ref = (case te_uuid_parse env (trim tunnel_ref) of
     Some u \<Rightarrow> Inr u
   | None \<Rightarrow> Inl (RuntimeError_invalid CodeInvalidTunnelRequest ''tunnel_id must be a valid UUID'' False))"

text \<open>The checks that \<^verbatim>\<open>create_request_with_protocol\<close> and \<^verbatim>\<open>reassign_request\<close> start with: port, address, agent.\<close>

definition local_target ::
  "text_env \<Rightarrow> string \<Rightarrow> AgentLifecycle \<Rightarrow> u16 \<Rightarrow> string option \<Rightarrow> RuntimeError + IpAddr \<times> string" where
  "local_target env operation lifecycle local_port local_address_arg =
     (if local_port = 0 then
        Inl (RuntimeError_invalid CodeInvalidTunnelRequest ''local_port must be between 1 and 65535'' False)
      else
        let local_address = (case local_address_arg of Some a \<Rightarrow> a | None \<Rightarrow> ''127.0.0.1'') in
        case te_ip_from_str env (trim local_address) of
          None \<Rightarrow> Inl (RuntimeError_invalid CodeInvalidTunnelRequest
            (''local_address is not a valid IP address: '' @ local_address) False)
        | Some local_ip \<Rightarrow> (case lifecycle of
            LifecycleRunning state \<Rightarrow> (case te_uuid_parse env (as_agent_id state) of
                None \<Rightarrow> Inl (RuntimeError_api CodeApiUnavailable ''The running agent has not reported a valid agent ID yet'' True)
              | Some agent \<Rightarrow> Inr (local_ip, agent))
          | _ \<Rightarrow> Inl (service_not_ready_error operation lifecycle)))"

definition target_config :: "IpAddr \<Rightarrow> u16 \<Rightarrow> AgentTunnelConfig" where
  "target_config local_ip local_port =
     \<lparr>config_fields = [\<lparr>attr_name = ''local_ip'', attr_value = show_origin_ip (IpAddress local_ip)\<rparr>,
                       \<lparr>attr_name = ''local_port'', attr_value = show_base 10 (unat local_port)\<rparr>]\<rparr>"

definition create_request_with_protocol ::
  "text_env \<Rightarrow> AgentLifecycle \<Rightarrow> u16 \<Rightarrow> string option \<Rightarrow> string option \<Rightarrow> TunnelProtocolV1 \<Rightarrow> RuntimeError + ReqTunnelsCreateV1" where
  "create_request_with_protocol env lifecycle local_port local_address name protocol =
     (case local_target env ''create a tunnel'' lifecycle local_port local_address of
        Inl e \<Rightarrow> Inl e
      | Inr (local_ip, agent) \<Rightarrow> Inr
          \<lparr>rc_name = normalize_tunnel_name name, rc_protocol = protocol,
           rc_origin = OriginCreateAgent \<lparr>ao_agent_id = Some agent, ao_config = Some (target_config local_ip local_port)\<rparr>,
           rc_endpoint = EndpointRegion \<lparr>ur_region = Global, ur_port = None\<rparr>, rc_enabled = True, rc_firewall_id = None\<rparr>)"

definition create_request ::
  "text_env \<Rightarrow> AgentLifecycle \<Rightarrow> u16 \<Rightarrow> TunnelProtocol \<Rightarrow> string option \<Rightarrow> string option \<Rightarrow> RuntimeError + ReqTunnelsCreateV1" where
  "create_request env lifecycle local_port protocol local_address name =
     (let (port_type, software_description) = (case protocol of
            ProtoTcp \<Rightarrow> (PortTcp, ''custom TCP tunnel'')
          | ProtoUdp \<Rightarrow> (PortUdp, ''custom UDP tunnel'')
          | ProtoBoth \<Rightarrow> (PortBoth, ''custom TCP and UDP tunnel''))
      in create_request_with_protocol env lifecycle local_port local_address name
           (ProtocolRawPorts \<lparr>rp_port_type = port_type, rp_port_count = 1, rp_software_description = software_description\<rparr>))"

definition create_minecraft_request ::
  "text_env \<Rightarrow> AgentLifecycle \<Rightarrow> u16 \<Rightarrow> string option \<Rightarrow> string option \<Rightarrow> RuntimeError + ReqTunnelsCreateV1" where
  "create_minecraft_request env lifecycle local_port local_address name =
     create_request_with_protocol env lifecycle local_port local_address name (ProtocolTunnelType MinecraftJava)"

definition reassign_request ::
  "text_env \<Rightarrow> AgentLifecycle \<Rightarrow> string \<Rightarrow> u16 \<Rightarrow> string option \<Rightarrow> RuntimeError + ReqTunnelsConfigV1" where
  "reassign_request env lifecycle tunnel_ref local_port local_address =
     (case local_target env ''reassign a tunnel'' lifecycle local_port local_address of
        Inl e \<Rightarrow> Inl e
      | Inr (local_ip, agent) \<Rightarrow> (case parse_tunnel_id env tunnel_ref of
          Inl e \<Rightarrow> Inl e
        | Inr tid \<Rightarrow> Inr \<lparr>rf_tunnel_id = tid, rf_new_agent_id = Some agent, rf_new_config = Some (target_config local_ip local_port)\<rparr>))"

subsection \<open>Laws\<close>

text \<open>An error is worth a retry when the server or the network is at fault for the moment, not the request.\<close>

fun transient_response :: "ApiResponseError \<Rightarrow> bool" where
  "transient_response (ApiInternal _) = True"
| "transient_response _ = False"

fun transient_client :: "HttpClientError \<Rightarrow> bool" where
  "transient_client (SerializeError _) = False"
| "transient_client (HttpParseError _ status) = (status \<in> {429} \<union> {500..599})"
| "transient_client (HttpRequestError e) = (re_is_connect e \<or> re_is_timeout e \<or> re_is_request e \<or> re_is_body e)"
| "transient_client TooManyRequests = True"

lemma is_transient_eq [simp]: "is_transient e = transient_client e"
  by (cases e) (auto simp: is_retryable_request_error_def is_server_error_def)

fun transient_api_error :: "('f, HttpClientError) ApiError \<Rightarrow> bool" where
  "transient_api_error (ApiErrorFail _) = False"
| "transient_api_error (ApiErrorApi e) = transient_response e"
| "transient_api_error (ApiErrorClient e) = transient_client e"

fun transient_no_fail :: "HttpClientError ApiErrorNoFail \<Rightarrow> bool" where
  "transient_no_fail UnexpectedFail = False"
| "transient_no_fail (NoFailApi e) = transient_response e"
| "transient_no_fail (NoFailClient e) = transient_client e"

definition retryable :: "RuntimeError \<Rightarrow> bool" where
  "retryable e = se_retryable (as_service_error e)"

lemma retryable_new [simp]:
  "retryable (RuntimeError_api code message r) = r" "retryable (RuntimeError_invalid code message r) = r"
  by (simp_all add: retryable_def RuntimeError_api_def RuntimeError_invalid_def error_info_of_def service_error_of_def)

lemma retryable_response [simp]: "retryable (map_api_response_error operation code e) = transient_response e"
  by (cases e) simp_all

lemma retryable_client [simp]: "retryable (map_http_client_error status_text operation e) = is_transient e"
  by (simp add: map_http_client_error_def Let_def split: prod.split)

lemma retryable_create_failure [simp]: "\<not> retryable (map_tunnel_create_failure f)"
  by (simp add: map_tunnel_create_failure_def split: prod.split)

lemma trim_show_ip [simp]: "trim (show_origin_ip (IpAddress ip)) = show_origin_ip (IpAddress ip)"
  and show_ip_not_Nil [simp]: "show_origin_ip (IpAddress ip) \<noteq> []"
  by (cases ip; simp add: trim_no_ws show_ip4_no_ws show_ip6_no_ws)+

lemma local_target_Inr:
  "local_target env operation lifecycle port addr = Inr (ip, agent) \<longleftrightarrow>
   port \<noteq> 0 \<and> te_ip_from_str env (trim (case addr of Some a \<Rightarrow> a | None \<Rightarrow> ''127.0.0.1'')) = Some ip \<and>
   (\<exists>state. lifecycle = LifecycleRunning state \<and> te_uuid_parse env (as_agent_id state) = Some agent)"
  by (auto simp: local_target_def Let_def split: option.splits AgentLifecycle.splits)

text \<open>The fields that a request asks the server to keep for its tunnel.\<close>

definition requested_fields :: "ReqTunnelsCreateV1 + ReqTunnelsConfigV1 \<Rightarrow> AgentTunnelAttr list" where
  "requested_fields rq = (case rq of
     Inl create \<Rightarrow> (case rc_origin create of OriginCreateAgent origin \<Rightarrow> (case ao_config origin of Some c \<Rightarrow> config_fields c | None \<Rightarrow> []))
   | Inr config \<Rightarrow> (case rf_new_config config of Some c \<Rightarrow> config_fields c | None \<Rightarrow> []))"

definition requests_target ::
  "text_env \<Rightarrow> AgentLifecycle \<Rightarrow> u16 \<Rightarrow> string option \<Rightarrow> ReqTunnelsCreateV1 + ReqTunnelsConfigV1 \<Rightarrow> bool" where
  "requests_target env lifecycle port addr rq \<longleftrightarrow>
     (\<exists>protocol name. create_request env lifecycle port protocol addr name = Inr (projl rq) \<and> isl rq) \<or>
     (\<exists>name. create_minecraft_request env lifecycle port addr name = Inr (projl rq) \<and> isl rq) \<or>
     (\<exists>tunnel_ref. reassign_request env lifecycle tunnel_ref port addr = Inr (projr rq) \<and> \<not> isl rq)"

lemma create_with_protocol_Inr:
  assumes "create_request_with_protocol env lifecycle port addr name protocol = Inr rq"
  shows "\<exists>ip agent. local_target env ''create a tunnel'' lifecycle port addr = Inr (ip, agent) \<and>
    rc_origin rq = OriginCreateAgent \<lparr>ao_agent_id = Some agent, ao_config = Some (target_config ip port)\<rparr>"
  using assms by (auto simp: create_request_with_protocol_def split: sum.splits prod.splits)

lemma create_request_Inr:
  "create_request env lifecycle port protocol addr name = Inr rq \<Longrightarrow>
   \<exists>protocol_v1. create_request_with_protocol env lifecycle port addr name protocol_v1 = Inr rq"
  by (cases protocol) (auto simp: create_request_def)

lemma reassign_Inr:
  assumes "reassign_request env lifecycle tunnel_ref port addr = Inr rq"
  shows "\<exists>ip agent. local_target env ''reassign a tunnel'' lifecycle port addr = Inr (ip, agent) \<and>
    rf_new_config rq = Some (target_config ip port)"
  using assms by (auto simp: reassign_request_def split: sum.splits prod.splits)

lemma requests_target_fields:
  assumes "requests_target env lifecycle port addr rq"
  obtains ip where "port \<noteq> 0" "te_ip_from_str env (trim (case addr of Some a \<Rightarrow> a | None \<Rightarrow> ''127.0.0.1'')) = Some ip"
    "requested_fields rq = config_fields (target_config ip port)"
proof -
  from assms obtain operation ip agent where "local_target env operation lifecycle port addr = Inr (ip, agent)"
    "requested_fields rq = config_fields (target_config ip port)"
    by (cases rq)
      (auto simp: requests_target_def create_minecraft_request_def requested_fields_def
        dest!: create_request_Inr create_with_protocol_Inr reassign_Inr)
  then show thesis by (intro that) (auto simp: local_target_Inr)
qed

lemma find_name: "find (\<lambda>x. f x = v) xs = Some x \<Longrightarrow> f x = v"
  by (induction xs) (auto split: if_splits)

definition example_text :: text_env where
  "example_text = \<lparr>te_ip_from_str = (\<lambda>s. if s = ''127.0.0.1'' then Some (IpV4 0x7F000001) else None), te_uuid_parse = Some\<rparr>"

definition example_agent_state :: AgentState where
  "example_agent_state = \<lparr>as_version = [], as_tunnels = [], as_pending_tunnels = [], as_notices = [],
     as_account_status = AccountVerified, as_agent_id = ''id'', as_login_link = None, as_start_time = 0\<rparr>"

definition example_tunnel :: AgentTunnelV1 where
  "example_tunnel = \<lparr>tun_id = ''t1'', tun_internal_id = 1, tun_name = [], tun_display_address = ''x.playit.gg'', tun_port_type = PortTcp,
     tun_port_count = 1, tun_tunnel_type = Some ''minecraft-java'', tun_tunnel_type_display = [], tun_fields = [], tun_disabled_reason = None\<rparr>"

lemma example_trim: "trim ''127.0.0.1'' = ''127.0.0.1''" by code_simp

lemma example_show: "show_ip4 0x7F000001 = ''127.0.0.1''"
proof -
  have "nat_to_be (Suc (Suc (Suc (Suc 0)))) 2130706433 = [127, 0, 0, 1]" by simp
  moreover have "(4 :: nat) = Suc (Suc (Suc (Suc 0)))" by simp
  ultimately have "be32 0x7F000001 = [127, 0, 0, 1]" by (simp only: be32_def unat_numeral) simp
  then show ?thesis by (simp add: show_ip4_def show_base_step [of 127] show_base_step [of 12] show_base_step [of "Suc 0"] show_base_step [of 0] digit_char_def)
qed

subsection \<open>Properties\<close>

text \<open>
  C28: A tunnel that the user creates or moves through the runtime is routed to the local service named in the call. When the server
  hands back, in the run data, a tunnel with the fields of the request, the agent sends its first port to exactly the address and port
  that were asked for, provided that the text of the address reads back as the address. Only a moved tunnel of type HTTPS goes to port 80 of that address: its ports are other fields
  of the run data, which the request does not name.
\<close>

theorem created_tunnel_is_routed:
  assumes "requests_target env lifecycle port addr rq"
    and "te_ip_from_str env (trim (case addr of Some a \<Rightarrow> a | None \<Rightarrow> ''127.0.0.1'')) = Some ip"
    and "te_ip_from_str env (show_origin_ip (IpAddress ip)) = Some ip"
    and "tun_fields t = requested_fields rq"
  shows "port \<noteq> 0 \<and> (\<exists>r. from_agent_tunnel (te_ip_from_str env) t = Some r \<and>
    resolve_local lookup_host r 0 = Some (sock_addr_new ip (if tun_tunnel_type t = Some ''https'' then 80 else port)))"
proof -
  obtain ip' where ip': "port \<noteq> 0" "te_ip_from_str env (trim (case addr of Some a \<Rightarrow> a | None \<Rightarrow> ''127.0.0.1'')) = Some ip'"
    "requested_fields rq = config_fields (target_config ip' port)"
    by (rule requests_target_fields [OF assms(1)])
  then have fields: "tun_fields t = config_fields (target_config ip port)" using assms(2,4) by simp
  then have "parse_origin_ip (te_ip_from_str env) t = IpAddress ip"
    by (simp add: parse_origin_ip_def find_field_def target_config_def assms(3) Let_def)
  moreover have "field_port t ''local_port'' = Some port"
    using fields by (simp add: field_port_def find_field_def target_config_def)
  moreover have "field_port t ''http_port'' = None"
    using fields by (simp add: field_port_def find_field_def target_config_def)
  moreover have "Option.bind (tun_tunnel_type t) TunnelType_from_value = Some Https \<longleftrightarrow> tun_tunnel_type t = Some ''https''"
    by (cases "tun_tunnel_type t") (auto simp: TunnelType_from_value_def dest!: find_name)
  moreover have "unat port < 2 ^ LENGTH(16)" by (rule unsigned_less)
  ultimately show ?thesis
    using ip'(1) by (simp add: from_agent_tunnel_def Let_def resolve_local_def checked_add_def)
qed

theorem created_tunnel_is_routed_witness:
  "\<exists>rq r. create_minecraft_request example_text (LifecycleRunning example_agent_state) 25565 None None = Inr rq \<and>
     from_agent_tunnel (te_ip_from_str example_text) (example_tunnel\<lparr>tun_fields := requested_fields (Inl rq)\<rparr>) = Some r \<and>
     resolve_local (\<lambda>_ _. Inl ()) r 0 = Some (sock_addr_new (IpV4 0x7F000001) 25565)"
proof -
  obtain rq where rq: "create_minecraft_request example_text (LifecycleRunning example_agent_state) 25565 None None = Inr rq"
    by (auto simp: example_text_def example_agent_state_def create_minecraft_request_def create_request_with_protocol_def
      local_target_def example_trim)
  then have "requests_target example_text (LifecycleRunning example_agent_state) 25565 None (Inl rq)"
    by (auto simp: requests_target_def)
  from created_tunnel_is_routed [OF this, of "IpV4 0x7F000001" "example_tunnel\<lparr>tun_fields := requested_fields (Inl rq)\<rparr>" "\<lambda>_ _. Inl ()"] rq
  show ?thesis by (auto simp: example_text_def example_trim example_show example_tunnel_def)
qed

text \<open>
  C30: What the runtime tells its clients about a failed API call is marked as worth a retry exactly when the failure is transient: an
  internal error of the server, a rate limit, a response with status 429 or 500 to 599 that cannot be read, or a request that did not get through (no connection, a timeout, an error of the
  request or of its body). Any other response that cannot be read, a request that cannot be serialised, and a request that the
  server understood and refused are never marked so, for any of the five kinds of call.
\<close>

theorem retryable_iff_transient:
  "retryable (map_tunnel_create_error status_text e1) = transient_api_error e1 \<and>
   retryable (map_tunnel_delete_error status_text e2) = transient_api_error e2 \<and>
   retryable (map_tunnel_config_error status_text e3) = transient_api_error e3 \<and>
   retryable (map_generic_api_error status_text operation e4) = transient_api_error e4 \<and>
   retryable (map_account_tunnel_list_error status_text e5) = transient_no_fail e5"
proof (intro conjI)
  show "retryable (map_tunnel_delete_error status_text e2) = transient_api_error e2"
    by (cases "(status_text, e2)" rule: map_tunnel_delete_error.cases) simp_all
  show "retryable (map_tunnel_config_error status_text e3) = transient_api_error e3"
    by (cases e3) (simp_all split: prod.split)
  show "retryable (map_tunnel_create_error status_text e1) = transient_api_error e1" by (cases e1) simp_all
  show "retryable (map_generic_api_error status_text operation e4) = transient_api_error e4" by (cases e4) simp_all
  show "retryable (map_account_tunnel_list_error status_text e5) = transient_no_fail e5" by (cases e5) simp_all
qed

end
