(* ===== verification/Runtime_Options.thy ===== *)
theory Runtime_Options
  imports Secret_Store Rust_Text
begin

section \<open>Options of the runtime\<close>

text \<open>
  \<^verbatim>\<open>packages/playit-runtime/src/options.rs\<close>: the version that the agent reports and the options it is started with. The parser of a
  number gives the error text of \<^verbatim>\<open>ParseIntError\<close>. \<open>uuid_parse\<close> is \<^verbatim>\<open>Uuid::from_str\<close>; the platform of the build is a parameter.
\<close>

subsection \<open>Numbers with their errors\<close>

fun parse_digits :: "nat \<Rightarrow> nat \<Rightarrow> string \<Rightarrow> string + nat" where
  "parse_digits max_value acc [] = Inr acc"
| "parse_digits max_value acc (c # cs) =
     (if \<not> is_digit c then Inl ''invalid digit found in string''
      else let v = 10 * acc + ((of_char c :: nat) - 48) in
        if max_value < v then Inl ''number too large to fit in target type'' else parse_digits max_value v cs)"

definition parse_uint_or :: "nat \<Rightarrow> string \<Rightarrow> string + nat" where
  "parse_uint_or max_value s =
     (if s = [] then Inl ''cannot parse integer from empty string''
      else if s = ''+'' \<or> s = ''-'' then Inl ''invalid digit found in string''
      else parse_digits max_value 0 (if hd s = CHR ''+'' then tl s else s))"

lemma parse_digits_Inr:
  assumes "acc \<le> max_value"
  shows "parse_digits max_value acc s = Inr v \<longleftrightarrow>
    list_all is_digit s \<and> v = foldl (\<lambda>a c. 10 * a + ((of_char c :: nat) - 48)) acc s \<and> v \<le> max_value"
proof -
  have grows: "acc \<le> foldl (\<lambda>a c. 10 * a + ((of_char c :: nat) - 48)) acc s" for acc s
  proof (induction s arbitrary: acc)
    case (Cons c cs)
    show ?case using Cons.IH [of "10 * acc + ((of_char c :: nat) - 48)"] by simp
  qed simp
  show ?thesis
    using assms
  proof (induction s arbitrary: acc)
    case (Cons c cs)
    let ?v = "10 * acc + ((of_char c :: nat) - 48)"
    show ?case using Cons grows [of ?v cs] by (cases "?v \<le> max_value") (auto simp: Let_def)
  qed auto
qed

lemma parse_uint_or_Inr: "parse_uint_or max_value s = Inr v \<longleftrightarrow> parse_uint max_value s = Some v"
  by (cases s)
    (auto simp: parse_uint_or_def parse_uint_def Let_def parse_digits_Inr digits_value_def is_digit_def split: if_splits)

subsection \<open>Versions\<close>

record VersionDetails =
  ver_variant_id :: string
  ver_major :: u32
  ver_minor :: u32
  ver_patch :: u32

definition DEFAULT_VARIANT_ID :: string where
  "DEFAULT_VARIANT_ID = ''308943e8-faef-4835-a2ba-270351f72aa3''"

definition parse_version_part :: "string \<Rightarrow> string + u32" where
  "parse_version_part part = (case parse_uint_or (2 ^ 32 - 1) part of
     Inl e \<Rightarrow> Inl (''Invalid version component '' @ part @ '': '' @ e)
   | Inr n \<Rightarrow> Inr (of_nat n))"

text \<open>\<^verbatim>\<open>str::split\<close> by a character.\<close>

fun split_char :: "char \<Rightarrow> string \<Rightarrow> string list" where
  "split_char sep [] = [[]]"
| "split_char sep (c # cs) =
     (if c = sep then [] # split_char sep cs
      else case split_char sep cs of [] \<Rightarrow> [[c]] | p # ps \<Rightarrow> (c # p) # ps)"

fun take_part :: "string \<Rightarrow> string \<Rightarrow> string list \<Rightarrow> string + u32 \<times> string list" where
  "take_part what version [] = Inl (''missing '' @ what @ '' version in '' @ version)"
| "take_part what version (p # ps) = (case parse_version_part p of Inl e \<Rightarrow> Inl e | Inr n \<Rightarrow> Inr (n, ps))"

definition from_version_string :: "string \<Rightarrow> string \<Rightarrow> string + VersionDetails" where
  "from_version_string version variant_id =
     and_then (take_part ''major'' version (split_char (CHR ''.'') (hd (split_char (CHR ''-'') version)))) (\<lambda>(major, ps).
     and_then (take_part ''minor'' version ps) (\<lambda>(minor, ps).
     and_then (take_part ''patch'' version ps) (\<lambda>(patch, ps).
     Inr \<lparr>ver_variant_id = variant_id, ver_major = major, ver_minor = minor, ver_patch = patch\<rparr>)))"

definition version_string :: "VersionDetails \<Rightarrow> string" where
  "version_string v = show_base 10 (unat (ver_major v)) @ ''.'' @ show_base 10 (unat (ver_minor v)) @ ''.'' @
     show_base 10 (unat (ver_patch v))"

record VersionOverrideFile =
  ovr_variant_id :: "string option"
  ovr_major :: "u32 option"
  ovr_minor :: "u32 option"
  ovr_patch :: "u32 option"

definition apply_overrides :: "VersionOverrideFile \<Rightarrow> VersionDetails \<Rightarrow> VersionDetails" where
  "apply_overrides ovr v =
     \<lparr>ver_variant_id = (case ovr_variant_id ovr of Some x \<Rightarrow> x | None \<Rightarrow> ver_variant_id v),
      ver_major = (case ovr_major ovr of Some x \<Rightarrow> x | None \<Rightarrow> ver_major v),
      ver_minor = (case ovr_minor ovr of Some x \<Rightarrow> x | None \<Rightarrow> ver_minor v),
      ver_patch = (case ovr_patch ovr of Some x \<Rightarrow> x | None \<Rightarrow> ver_patch v)\<rparr>"

record AgentVersion =
  av_variant_id :: string
  av_version_major :: u32
  av_version_minor :: u32
  av_version_patch :: u32

definition agent_version_of :: "(string \<Rightarrow> string + string) \<Rightarrow> VersionDetails \<Rightarrow> string + AgentVersion" where
  "agent_version_of uuid_parse v = (case uuid_parse (ver_variant_id v) of
     Inl e \<Rightarrow> Inl (''invalid variant ID '' @ ver_variant_id v @ '': '' @ e)
   | Inr u \<Rightarrow> Inr \<lparr>av_variant_id = u, av_version_major = ver_major v, av_version_minor = ver_minor v, av_version_patch = ver_patch v\<rparr>)"

subsection \<open>Options\<close>

datatype Platform = Linux | Freebsd | Windows | Macos | Android | Ios | Docker | MinecraftPlugin | UnknownPlatform

record RuntimeOptions =
  opt_secret_path :: path
  opt_secret :: "string option"
  opt_version :: VersionDetails
  opt_platform_docker :: bool
  opt_api_base :: string

text \<open>\<open>package_version\<close> is the version of the Cargo package; a version that is no triplet panics.\<close>

definition RuntimeOptions_default :: "string \<Rightarrow> RuntimeOptions option" where
  "RuntimeOptions_default package_version = (case from_version_string package_version DEFAULT_VARIANT_ID of
     Inl _ \<Rightarrow> None
   | Inr v \<Rightarrow> Some \<lparr>opt_secret_path = \<lparr>absolute = False, comps = [''playit-secret.toml'']\<rparr>, opt_secret = None, opt_version = v,
       opt_platform_docker = False, opt_api_base = ''https://api.playit.gg''\<rparr>)"

definition platform_for_options :: "Platform \<Rightarrow> RuntimeOptions \<Rightarrow> Platform" where
  "platform_for_options current_platform options = (if opt_platform_docker options then Docker else current_platform)"

definition SecretSource_from_options :: "RuntimeOptions \<Rightarrow> SecretSource" where
  "SecretSource_from_options options = (case opt_secret options of
     Some secret \<Rightarrow> InlineSecret secret | None \<Rightarrow> FileSecret (opt_secret_path options))"

definition validate_options :: "RuntimeOptions \<Rightarrow> RuntimeError + unit" where
  "validate_options options =
     (if path_is_empty (opt_secret_path options) then
        Inl (RuntimeError_setup ''RuntimeOptions.secret_path must not be empty'' False)
      else if trim (opt_api_base options) = [] then Inl (RuntimeError_setup ''RuntimeOptions.api_base must not be empty'' False)
      else Inr ())"

subsection \<open>Laws\<close>

lemma split_char_not_Nil [simp]: "split_char sep s \<noteq> []"
  by (cases s) (auto split: list.splits)

lemma split_char_none: "sep \<notin> set s \<Longrightarrow> split_char sep s = [s]"
  by (induction s) auto

lemma split_char_sep: "sep \<notin> set s \<Longrightarrow> split_char sep (s @ sep # t) = s # split_char sep t"
  by (induction s) auto

lemma show_base_no_sep: "CHR ''.'' \<notin> set (show_base 10 n)" "CHR ''-'' \<notin> set (show_base 10 n)"
  using show_base_digits [of _ n] digit_char_digit(5,6) by metis+

lemma parse_version_show: "parse_version_part (show_base 10 (unat (x :: u32))) = Inr x"
proof -
  have "unat x < 2 ^ LENGTH(32)" by (rule unsigned_less)
  then have "parse_uint (2 ^ 32 - 1) (show_base 10 (unat x)) = Some (unat x)" by (intro parse_show_uint) simp
  then have "parse_uint_or (2 ^ 32 - 1) (show_base 10 (unat x)) = Inr (unat x)" by (simp only: parse_uint_or_Inr)
  then show ?thesis by (simp add: parse_version_part_def)
qed

text \<open>A version reads back from its text, also with a pre-release suffix.\<close>

lemma version_roundtrip:
  assumes "suffix = [] \<or> hd suffix = CHR ''-''"
  shows "from_version_string (version_string v @ suffix) (ver_variant_id v) = Inr v"
proof -
  have "CHR ''-'' \<notin> set (version_string v)" by (simp add: version_string_def show_base_no_sep)
  then have "hd (split_char (CHR ''-'') (version_string v @ suffix)) = version_string v"
    using assms by (cases suffix) (auto simp: split_char_none split_char_sep)
  then show ?thesis
    by (simp add: from_version_string_def version_string_def split_char_sep split_char_none show_base_no_sep parse_version_show and_then_def)
qed

end
