(* ===== verification/Claim_Flow.thy ===== *)
theory Claim_Flow
  imports Http_Client Runtime_Options
begin

section \<open>Claiming an agent in the browser\<close>

text \<open>
  \<^verbatim>\<open>packages/playit-runtime/src/claim.rs\<close>: the program shows a claim code, polls the API until the user has accepted it in the browser, exchanges the code for
  the agent's secret and offers the secret to the supervisor. Every wait of the flow may also end with the timeout of ten minutes around it
  (\<open>Elapsed\<close>); a result \<open>None\<close> of an API call is its own timeout of fifteen seconds or the cancellation of the runtime. The state records the calls that were
  made. The loop takes the number of rounds it may run, which the timeout bounds.
\<close>

definition claim_url :: "string \<Rightarrow> string" where
  "claim_url code = ''https://playit.gg/claim/'' @ code"

text \<open>\<open>random_bytes\<close> are five random bytes, \<open>hex_encode\<close> is \<^verbatim>\<open>hex::encode\<close>.\<close>

definition generate_claim_code :: "(bytes \<Rightarrow> string) \<Rightarrow> bytes \<Rightarrow> string" where
  "generate_claim_code hex_encode random_bytes = hex_encode random_bytes"

datatype ClaimAgentType = Assignable | SelfManaged

datatype ClaimSetupResponse = WaitingForUserVisit | WaitingForUser | UserAccepted | UserRejected

datatype ClaimSetupError = SetupInvalidCode | SetupCodeExpired | VersionTextTooLong

datatype ClaimExchangeError = CodeNotFound | ExchangeCodeExpired | ExchangeUserRejected | NotAccepted | NotSetup

record ReqClaimSetup =
  cs_code :: string
  cs_agent_type :: ClaimAgentType
  cs_version :: string

type_synonym setup_result = "((ClaimSetupError, HttpClientError) ApiError + ClaimSetupResponse) option"
type_synonym exchange_result = "((ClaimExchangeError, HttpClientError) ApiError + string) option"

datatype claim_call = CallSetup ReqClaimSetup setup_result | CallExchange string exchange_result | OfferSecret string

record 'w claim_env =
  ce_cancelled :: "'w \<Rightarrow> bool"
  ce_setup :: "ReqClaimSetup \<Rightarrow> 'w \<Rightarrow> setup_result awaited \<times> 'w"
  ce_exchange :: "string \<Rightarrow> 'w \<Rightarrow> exchange_result awaited \<times> 'w"
  ce_offer :: "string \<Rightarrow> 'w \<Rightarrow> bool awaited \<times> 'w"
  ce_offer_answer :: "'w \<Rightarrow> bool awaited \<times> 'w"
  ce_delay :: "nat \<Rightarrow> 'w \<Rightarrow> bool awaited \<times> 'w"

record 'w claim_state =
  cl_world :: 'w
  cl_calls :: "claim_call list"

datatype claim_step = ClaimAgain | ClaimBreak | ClaimElapsed

definition log_call :: "claim_call \<Rightarrow> 'w \<Rightarrow> 'w claim_state \<Rightarrow> 'w claim_state" where
  "log_call c w s = s\<lparr>cl_world := w, cl_calls := cl_calls s @ [c]\<rparr>"

text \<open>\<^verbatim>\<open>claim_poll_delay\<close>, and the round it ends.\<close>

definition claim_poll_delay :: "'w claim_env \<Rightarrow> nat \<Rightarrow> 'w claim_state \<Rightarrow> claim_step \<times> 'w claim_state" where
  "claim_poll_delay env delay s = (case ce_delay env delay (cl_world s) of (r, w) \<Rightarrow>
     (case r of Elapsed \<Rightarrow> ClaimElapsed | Got slept \<Rightarrow> if slept then ClaimAgain else ClaimBreak, s\<lparr>cl_world := w\<rparr>))"

definition claim_provide :: "'w claim_env \<Rightarrow> string \<Rightarrow> 'w claim_state \<Rightarrow> claim_step \<times> 'w claim_state" where
  "claim_provide env secret s = (case ce_offer env secret (cl_world s) of (sent, w) \<Rightarrow>
     let s1 = log_call (OfferSecret secret) w s in
     case sent of
       Elapsed \<Rightarrow> (ClaimElapsed, s1)
     | Got False \<Rightarrow> (ClaimBreak, s1)
     | Got True \<Rightarrow> (case ce_offer_answer env w of (provisioned, w2) \<Rightarrow>
         (case provisioned of Elapsed \<Rightarrow> ClaimElapsed | Got _ \<Rightarrow> ClaimBreak, s1\<lparr>cl_world := w2\<rparr>)))"

definition claim_exchange_step :: "'w claim_env \<Rightarrow> string \<Rightarrow> 'w claim_state \<Rightarrow> claim_step \<times> 'w claim_state" where
  "claim_exchange_step env code s = (case ce_exchange env code (cl_world s) of (r, w) \<Rightarrow>
     (case r of
        Elapsed \<Rightarrow> (ClaimElapsed, log_call (CallExchange code None) w s)
      | Got None \<Rightarrow> (ClaimBreak, log_call (CallExchange code None) w s)
      | Got (Some result) \<Rightarrow>
          let s1 = log_call (CallExchange code (Some result)) w s in
          (case result of
             Inr secret \<Rightarrow> claim_provide env secret s1
           | Inl (ApiErrorFail NotAccepted) \<Rightarrow> claim_poll_delay env 1000 s1
           | Inl (ApiErrorFail _) \<Rightarrow> (ClaimBreak, s1)
           | Inl (ApiErrorApi _) \<Rightarrow> (ClaimBreak, s1)
           | Inl (ApiErrorClient _) \<Rightarrow> (ClaimBreak, s1))))"

definition claim_request :: "VersionDetails \<Rightarrow> string \<Rightarrow> ReqClaimSetup" where
  "claim_request version code =
     \<lparr>cs_code = code, cs_agent_type = SelfManaged, cs_version = ''playit '' @ version_string version\<rparr>"

text \<open>One round of the loop of \<^verbatim>\<open>run_claim_flow_inner\<close>.\<close>

definition claim_round :: "'w claim_env \<Rightarrow> VersionDetails \<Rightarrow> string \<Rightarrow> 'w claim_state \<Rightarrow> claim_step \<times> 'w claim_state" where
  "claim_round env version code s =
     (if ce_cancelled env (cl_world s) then (ClaimBreak, s)
      else let request = claim_request version code in
        case ce_setup env request (cl_world s) of (r, w) \<Rightarrow>
          (case r of
             Elapsed \<Rightarrow> (ClaimElapsed, log_call (CallSetup request None) w s)
           | Got None \<Rightarrow> (ClaimBreak, log_call (CallSetup request None) w s)
           | Got (Some result) \<Rightarrow>
               let s1 = log_call (CallSetup request (Some result)) w s in
               (case result of
                  Inr WaitingForUserVisit \<Rightarrow> claim_poll_delay env 250 s1
                | Inr WaitingForUser \<Rightarrow> claim_poll_delay env 250 s1
                | Inr UserRejected \<Rightarrow> (ClaimBreak, s1)
                | Inr UserAccepted \<Rightarrow> claim_exchange_step env code s1
                | Inl (ApiErrorFail _) \<Rightarrow> (ClaimBreak, s1)
                | Inl (ApiErrorApi _) \<Rightarrow> (ClaimBreak, s1)
                | Inl (ApiErrorClient _) \<Rightarrow> (ClaimBreak, s1))))"

text \<open>The loop with at most \<open>n\<close> rounds; \<open>None\<close> when they do not suffice. The result says whether the flow timed out.\<close>

fun run_claim_flow_inner ::
  "'w claim_env \<Rightarrow> VersionDetails \<Rightarrow> string \<Rightarrow> nat \<Rightarrow> 'w claim_state \<Rightarrow> bool option \<times> 'w claim_state" where
  "run_claim_flow_inner env version code 0 s = (None, s)"
| "run_claim_flow_inner env version code (Suc n) s = (case claim_round env version code s of
     (ClaimAgain, s1) \<Rightarrow> run_claim_flow_inner env version code n s1
   | (ClaimBreak, s1) \<Rightarrow> (Some False, s1)
   | (ClaimElapsed, s1) \<Rightarrow> (Some True, s1))"

text \<open>At its end the flow takes back its claim code, unless another has replaced it. \<open>current\<close> is the shared claim code at that moment.\<close>

definition finish_claim :: "string \<Rightarrow> string option \<Rightarrow> string option" where
  "finish_claim code current = (if current = Some code then None else current)"

definition run_claim_flow_with_api ::
  "'w claim_env \<Rightarrow> VersionDetails \<Rightarrow> string \<Rightarrow> nat \<Rightarrow> ('w \<Rightarrow> string option) \<Rightarrow> 'w claim_state \<Rightarrow> string option option \<times> 'w claim_state" where
  "run_claim_flow_with_api env version code n current s = (case run_claim_flow_inner env version code n s of
     (None, s1) \<Rightarrow> (None, s1)
   | (Some timed_out, s1) \<Rightarrow> (Some (finish_claim code (current (cl_world s1))), s1))"

subsection \<open>Laws\<close>

text \<open>
  The rounds of a trace. A round that the loop repeats: the user has not answered yet, or the server has not noted the acceptance yet. The
  last round may end in many ways; only in one of them a secret is offered, and it is the one that the exchange returned.
\<close>

definition waiting_rounds :: "ReqClaimSetup \<Rightarrow> string \<Rightarrow> claim_call list set" where
  "waiting_rounds rq code =
     {[CallSetup rq (Some (Inr WaitingForUserVisit))], [CallSetup rq (Some (Inr WaitingForUser))],
      [CallSetup rq (Some (Inr UserAccepted)), CallExchange code (Some (Inl (ApiErrorFail NotAccepted)))]}"

definition last_rounds :: "ReqClaimSetup \<Rightarrow> string \<Rightarrow> claim_call list set" where
  "last_rounds rq code = {[]} \<union> range (\<lambda>r. [CallSetup rq r]) \<union>
     range (\<lambda>r. [CallSetup rq (Some (Inr UserAccepted)), CallExchange code r]) \<union>
     range (\<lambda>secret. [CallSetup rq (Some (Inr UserAccepted)), CallExchange code (Some (Inr secret)), OfferSecret secret])"

definition round_calls :: "ReqClaimSetup \<Rightarrow> string \<Rightarrow> claim_step \<Rightarrow> claim_call list set" where
  "round_calls rq code step = (if step = ClaimAgain then waiting_rounds rq code else last_rounds rq code)"

lemma waiting_last: "waiting_rounds rq code \<subseteq> last_rounds rq code"
  by (auto simp: waiting_rounds_def last_rounds_def)

lemma log_call_sel [simp]: "cl_calls (log_call c w s) = cl_calls s @ [c]" "cl_world (log_call c w s) = w"
  by (simp_all add: log_call_def)

lemma claim_poll_delay_calls: "claim_poll_delay env d s = (step, s') \<Longrightarrow> cl_calls s' = cl_calls s"
  by (auto simp: claim_poll_delay_def split: prod.splits)

lemma claim_provide_calls:
  "claim_provide env secret s = (step, s') \<Longrightarrow> cl_calls s' = cl_calls s @ [OfferSecret secret] \<and> step \<noteq> ClaimAgain"
  by (auto simp: claim_provide_def Let_def split: prod.splits awaited.splits bool.splits)

lemma claim_exchange_calls:
  assumes "claim_exchange_step env code s = (step, s')"
  shows "(\<exists>r. cl_calls s' = cl_calls s @ [CallExchange code r] \<and>
      (step = ClaimAgain \<longrightarrow> r = Some (Inl (ApiErrorFail NotAccepted)))) \<or>
    (\<exists>secret. cl_calls s' = cl_calls s @ [CallExchange code (Some (Inr secret)), OfferSecret secret] \<and> step \<noteq> ClaimAgain)"
  using assms
  by (auto simp: claim_exchange_step_def Let_def dest!: claim_poll_delay_calls claim_provide_calls
    split: prod.splits awaited.splits option.splits sum.splits ApiError.splits ClaimExchangeError.splits)

lemma claim_round_calls:
  assumes "claim_round env version code s = (step, s')"
  shows "\<exists>calls \<in> round_calls (claim_request version code) code step. cl_calls s' = cl_calls s @ calls"
  using assms
  by (auto simp: claim_round_def Let_def round_calls_def waiting_rounds_def last_rounds_def
      dest!: claim_poll_delay_calls claim_exchange_calls
      split: if_splits prod.splits awaited.splits option.splits sum.splits ApiError.splits ClaimSetupResponse.splits)

lemma run_claim_calls:
  assumes "run_claim_flow_inner env version code n s = (Some timed_out, s')"
  shows "\<exists>rounds last. cl_calls s' = cl_calls s @ concat rounds @ last \<and>
    set rounds \<subseteq> waiting_rounds (claim_request version code) code \<and> last \<in> last_rounds (claim_request version code) code \<and> length rounds < n"
  using assms
proof (induction n arbitrary: s)
  case (Suc n)
  obtain step s1 where r: "claim_round env version code s = (step, s1)" by fastforce
  from claim_round_calls [OF r] obtain calls where calls: "calls \<in> round_calls (claim_request version code) code step"
    "cl_calls s1 = cl_calls s @ calls" by blast
  show ?case
  proof (cases step)
    case ClaimAgain
    then have "run_claim_flow_inner env version code n s1 = (Some timed_out, s')" using Suc.prems by (simp add: r)
    then obtain rounds last where IH: "cl_calls s' = cl_calls s1 @ concat rounds @ last"
      "set rounds \<subseteq> waiting_rounds (claim_request version code) code" "last \<in> last_rounds (claim_request version code) code"
      "length rounds < n" using Suc.IH by blast
    then show ?thesis
      using calls ClaimAgain by (intro exI [of _ "calls # rounds"] exI [of _ last]) (auto simp: round_calls_def)
  next
    case ClaimBreak
    then show ?thesis
      using Suc.prems calls by (intro exI [of _ "[]"] exI [of _ calls]) (auto simp: r round_calls_def)
  next
    case ClaimElapsed
    then show ?thesis
      using Suc.prems calls by (intro exI [of _ "[]"] exI [of _ calls]) (auto simp: r round_calls_def)
  qed
qed simp

text \<open>
  What \<^verbatim>\<open>tokio::time\<close> promises the flow: time does not run backwards, a sleep that ends has taken its time, and no wait goes on after the
  deadline of the timeout.
\<close>

locale claim_waits =
  fixes env :: "'w claim_env" and now :: "'w \<Rightarrow> nat" and deadline :: nat
  assumes delay_takes: "ce_delay env d w = (Got True, w') \<Longrightarrow> now w + d \<le> now w' \<and> now w' \<le> deadline"
    and setup_takes: "now w \<le> now (snd (ce_setup env rq w))"
    and exchange_takes: "now w \<le> now (snd (ce_exchange env code w))"
begin

lemma poll_delay_takes:
  "claim_poll_delay env d s = (ClaimAgain, s') \<Longrightarrow> now (cl_world s) + d \<le> now (cl_world s') \<and> now (cl_world s') \<le> deadline"
  using delay_takes [of d "cl_world s"] by (auto simp: claim_poll_delay_def split: prod.splits awaited.splits if_splits)

lemma exchange_step_takes:
  assumes "claim_exchange_step env code s = (ClaimAgain, s')"
  shows "now (cl_world s) + 1000 \<le> now (cl_world s') \<and> now (cl_world s') \<le> deadline"
  using assms exchange_takes [of "cl_world s" code]
  by (auto simp: claim_exchange_step_def Let_def dest!: poll_delay_takes dest: claim_provide_calls
    split: prod.splits awaited.splits option.splits sum.splits ApiError.splits ClaimExchangeError.splits)

lemma round_takes:
  assumes "claim_round env version code s = (ClaimAgain, s')"
  shows "now (cl_world s) + 250 \<le> now (cl_world s') \<and> now (cl_world s') \<le> deadline"
  using assms setup_takes [of "cl_world s" "claim_request version code"]
  by (auto simp: claim_round_def Let_def dest!: poll_delay_takes exchange_step_takes
    split: if_splits prod.splits awaited.splits option.splits sum.splits ApiError.splits ClaimSetupResponse.splits)

lemma flow_returns:
  assumes "deadline < now (cl_world s) + 250 * n" "now (cl_world s) \<le> deadline"
  shows "\<exists>timed_out s'. run_claim_flow_inner env version code n s = (Some timed_out, s')"
  using assms
proof (induction n arbitrary: s)
  case (Suc n)
  obtain step s1 where r: "claim_round env version code s = (step, s1)" by fastforce
  show ?case
  proof (cases step)
    case ClaimAgain
    then show ?thesis using Suc.IH [of s1] Suc.prems round_takes [of version code s s1] by (simp add: r)
  qed (auto simp: r)
qed simp

end

text \<open>A server with prepared answers and a clock that only the sleeps move.\<close>

record claim_script =
  sw_clock :: nat
  sw_setups :: "setup_result list"
  sw_exchanges :: "exchange_result list"

definition script_claim :: "nat \<Rightarrow> claim_script claim_env" where
  "script_claim deadline =
     \<lparr>ce_cancelled = (\<lambda>_. False),
      ce_setup = (\<lambda>_ w. case sw_setups w of [] \<Rightarrow> (Got None, w) | r # rs \<Rightarrow> (Got r, w\<lparr>sw_setups := rs\<rparr>)),
      ce_exchange = (\<lambda>_ w. case sw_exchanges w of [] \<Rightarrow> (Got None, w) | r # rs \<Rightarrow> (Got r, w\<lparr>sw_exchanges := rs\<rparr>)),
      ce_offer = (\<lambda>_ w. (Got True, w)), ce_offer_answer = (\<lambda>w. (Got True, w)),
      ce_delay = (\<lambda>d w. if sw_clock w + d \<le> deadline then (Got True, w\<lparr>sw_clock := sw_clock w + d\<rparr>) else (Elapsed, w))\<rparr>"

interpretation scripted: claim_waits "script_claim deadline" sw_clock deadline
  by unfold_locales (auto simp: script_claim_def split: if_splits list.split)

subsection \<open>Properties\<close>

text \<open>
  C26: The claim flow ends. Polling every 250 milliseconds within its ten minutes it makes at most 2401 rounds, and when it has ended its claim code is no
  longer the active one. It never repeats an exchange whose result is ambiguous: every exchange but the last was answered
  with \<^verbatim>\<open>NotAccepted\<close>, and each directly follows the news that the user accepted. At most one secret is offered to the supervisor, as the
  last step, and it is the one that the exchange returned.
\<close>

theorem claim_flow_ends:
  assumes "claim_waits env now deadline" "deadline = now (cl_world s) + 600000"
  shows "\<exists>timed_out s' rounds last current'. run_claim_flow_inner env version code 2401 s = (Some timed_out, s') \<and>
    cl_calls s' = cl_calls s @ concat rounds @ last \<and> length rounds \<le> 2400 \<and>
    set rounds \<subseteq> waiting_rounds (claim_request version code) code \<and> last \<in> last_rounds (claim_request version code) code \<and>
    run_claim_flow_with_api env version code 2401 current s = (Some current', s') \<and> current' \<noteq> Some code"
proof -
  obtain timed_out s' where run: "run_claim_flow_inner env version code 2401 s = (Some timed_out, s')"
    using claim_waits.flow_returns [OF assms(1), of s 2401 version code] assms(2) by auto
  then obtain rounds last where calls: "cl_calls s' = cl_calls s @ concat rounds @ last"
    "set rounds \<subseteq> waiting_rounds (claim_request version code) code" "last \<in> last_rounds (claim_request version code) code"
    "length rounds < 2401" using run_claim_calls [OF run] by blast
  have "run_claim_flow_with_api env version code 2401 current s = (Some (finish_claim code (current (cl_world s'))), s')"
    by (simp add: run_claim_flow_with_api_def run del: run_claim_flow_inner.simps)
  moreover have "finish_claim code (current (cl_world s')) \<noteq> Some code" by (simp add: finish_claim_def)
  moreover have "length rounds \<le> 2400" using calls(4) by simp
  ultimately show ?thesis using run calls(1-3) by blast
qed

definition example_version :: VersionDetails where
  "example_version = \<lparr>ver_variant_id = DEFAULT_VARIANT_ID, ver_major = 1, ver_minor = 0, ver_patch = 5\<rparr>"

definition example_claim :: "claim_script claim_state" where
  "example_claim = \<lparr>cl_world = \<lparr>sw_clock = 0, sw_setups = [Some (Inr WaitingForUser), Some (Inr UserAccepted)],
     sw_exchanges = [Some (Inr ''cafe'')]\<rparr>, cl_calls = []\<rparr>"

theorem claim_flow_ends_witness:
  "\<exists>timed_out s' current'. run_claim_flow_inner (script_claim 600000) example_version ''abc'' 2401 example_claim = (Some timed_out, s') \<and>
     run_claim_flow_with_api (script_claim 600000) example_version ''abc'' 2401 (\<lambda>_. Some ''abc'') example_claim = (Some current', s') \<and>
     current' \<noteq> Some ''abc''"
  using claim_flow_ends [OF scripted.claim_waits_axioms, of 600000 example_claim example_version "''abc''" "\<lambda>_. Some ''abc''"]
  by (auto simp: example_claim_def)

end
