(* ===== verification/Runtime_Handle.thy ===== *)
theory Runtime_Handle
  imports Claim_Flow Tunnel_Requests
begin

section \<open>The handle of the runtime\<close>

text \<open>
  \<^verbatim>\<open>packages/playit-runtime/src/handle.rs\<close>: the state that the supervisor and the clients of the runtime share, and the operations of the clients. An API
  call is an argument of the operation that makes it, from the client to the result; so are the outcomes of waits. \<open>event_tx\<close> is the list of
  the updates that were sent, a cancellation token is whether it is cancelled, and a task handle is the claim code of the task
  and whether it has finished.
\<close>

subsection \<open>Shared state\<close>

record claim_task =
  ct_code :: string
  ct_finished :: bool

record RuntimeInner =
  ri_state_cache :: StateCache
  ri_event_tx :: "ServiceUpdate list"
  ri_cancel_token :: bool
  ri_status_context :: StatusContext
  ri_secret_source :: SecretSource
  ri_secret_provision_tx :: bool
  ri_api :: "HttpClient option"
  ri_guest_login_cache :: "(string \<times> u64) option"
  ri_claim_code :: "string option"
  ri_claim_tasks :: "claim_task list"
  ri_agent_cancel :: "bool option"
  ri_api_base :: string
  ri_version :: VersionDetails
  ri_agent_version :: AgentVersion
  ri_platform :: Platform

definition request_shutdown :: "RuntimeInner \<Rightarrow> RuntimeInner" where
  "request_shutdown i = i\<lparr>ri_cancel_token := True, ri_agent_cancel := map_option (\<lambda>_. True) (ri_agent_cancel i)\<rparr>"

definition set_agent_cancel :: "bool option \<Rightarrow> RuntimeInner \<Rightarrow> RuntimeInner" where
  "set_agent_cancel token i = i\<lparr>ri_agent_cancel := token\<rparr>"

definition set_api :: "HttpClient option \<Rightarrow> RuntimeInner \<Rightarrow> RuntimeInner" where
  "set_api api i = i\<lparr>ri_api := api\<rparr>"

definition publish_state :: "ServiceStatus \<Rightarrow> AgentLifecycle \<Rightarrow> RuntimeInner \<Rightarrow> RuntimeInner" where
  "publish_state status lifecycle i =
     i\<lparr>ri_state_cache := (ri_state_cache i)\<lparr>sc_status := status, sc_lifecycle := lifecycle\<rparr>,
       ri_event_tx := ri_event_tx i @ [UpdateStatus status, UpdateLifecycle lifecycle]\<rparr>"

definition publish_status :: "ServiceStatus \<Rightarrow> RuntimeInner \<Rightarrow> RuntimeInner" where
  "publish_status status i =
     i\<lparr>ri_state_cache := (ri_state_cache i)\<lparr>sc_status := status\<rparr>, ri_event_tx := ri_event_tx i @ [UpdateStatus status]\<rparr>"

text \<open>\<^verbatim>\<open>join_claim_tasks\<close> takes the handles and waits for the tasks behind them; \<open>None\<close> while one of them still runs.\<close>

definition join_claim_task_handles :: "claim_task list \<Rightarrow> unit option" where
  "join_claim_task_handles tasks = (if list_all ct_finished tasks then Some () else None)"

definition join_claim_tasks :: "RuntimeInner \<Rightarrow> RuntimeInner option" where
  "join_claim_tasks i = map_option (\<lambda>_. i\<lparr>ri_claim_tasks := []\<rparr>) (join_claim_task_handles (ri_claim_tasks i))"

definition track_claim_task :: "claim_task \<Rightarrow> RuntimeInner \<Rightarrow> RuntimeInner" where
  "track_claim_task t i = i\<lparr>ri_claim_tasks := filter (\<lambda>t. \<not> ct_finished t) (ri_claim_tasks i) @ [t]\<rparr>"

text \<open>\<open>variant_parse\<close> is \<^verbatim>\<open>Uuid::from_str\<close>, \<open>current_platform\<close> the platform of the build.\<close>

definition make_inner ::
  "(string \<Rightarrow> string + string) \<Rightarrow> Platform \<Rightarrow> RuntimeOptions \<Rightarrow> SecretSource \<Rightarrow> StateCache \<Rightarrow> ServiceUpdate list \<Rightarrow> bool \<Rightarrow>
   StatusContext \<Rightarrow> bool \<Rightarrow> RuntimeError + RuntimeInner" where
  "make_inner variant_parse current_platform options source state_cache event_tx cancel_token status_context secret_provision_tx =
     (case agent_version_of variant_parse (opt_version options) of
        Inl e \<Rightarrow> Inl (RuntimeError_setup e False)
      | Inr agent_version \<Rightarrow> Inr
          \<lparr>ri_state_cache = state_cache, ri_event_tx = event_tx, ri_cancel_token = cancel_token, ri_status_context = status_context,
           ri_secret_source = source, ri_secret_provision_tx = secret_provision_tx, ri_api = None, ri_guest_login_cache = None,
           ri_claim_code = None, ri_claim_tasks = [], ri_agent_cancel = None, ri_api_base = opt_api_base options,
           ri_version = opt_version options, ri_agent_version = agent_version,
           ri_platform = platform_for_options current_platform options\<rparr>)"

subsection \<open>Reading the state\<close>

definition handle_status :: "u64 \<Rightarrow> RuntimeInner \<Rightarrow> ServiceStatus" where
  "handle_status now i = (sc_status (ri_state_cache i))
     \<lparr>st_uptime_secs := saturating_sub now (ctx_start_time (ri_status_context i)) div 1000\<rparr>"

record SubscribeResponse =
  sr_protocol :: ProtocolInfo
  sr_snapshot :: SubscriptionSnapshot

definition handle_subscription_snapshot :: "u64 \<Rightarrow> RuntimeInner \<Rightarrow> SubscribeResponse" where
  "handle_subscription_snapshot now i =
     \<lparr>sr_protocol = protocol_info, sr_snapshot = (subscription_snapshot (ri_state_cache i))\<lparr>ss_status := handle_status now i\<rparr>\<rparr>"

definition handle_claim_url :: "RuntimeInner \<Rightarrow> string option" where
  "handle_claim_url i = map_option claim_url (ri_claim_code i)"

definition ensure_running :: "RuntimeInner \<Rightarrow> RuntimeError + unit" where
  "ensure_running i = (if ri_cancel_token i then Inl RtStopped else Inr ())"

definition handle_account :: "RuntimeInner \<Rightarrow> RuntimeError + AccountResponse" where
  "handle_account i = and_then (ensure_running i) (\<lambda>_. Inr (case sc_lifecycle (ri_state_cache i) of
     LifecycleRunning state \<Rightarrow>
       \<lparr>ar_status = as_account_status state, ar_agent_id = (if as_agent_id state = [] then None else Some (as_agent_id state)),
        ar_login_link = as_login_link state, ar_claim_url = handle_claim_url i\<rparr>
   | _ \<Rightarrow> \<lparr>ar_status = AccountUnknown, ar_agent_id = None, ar_login_link = None, ar_claim_url = handle_claim_url i\<rparr>))"

definition api_not_ready :: RuntimeError where
  "api_not_ready = RuntimeError_api CodeApiUnavailable ''The Playit API is not ready yet.'' True"

definition the_api :: "RuntimeInner \<Rightarrow> RuntimeError + HttpClient" where
  "the_api i = (case ri_api i of None \<Rightarrow> Inl api_not_ready | Some api \<Rightarrow> Inr api)"

text \<open>\<open>now2\<close> is the time when the new link is stored.\<close>

definition account_login_url ::
  "(nat \<Rightarrow> string) \<Rightarrow> u64 \<Rightarrow> u64 \<Rightarrow> (HttpClient \<Rightarrow> ('f, HttpClientError) ApiError + string) \<Rightarrow> RuntimeInner \<Rightarrow>
   (RuntimeError + string) \<times> RuntimeInner" where
  "account_login_url status_text now now2 login_guest i = (case ensure_running i of
     Inl e \<Rightarrow> (Inl e, i)
   | Inr _ \<Rightarrow>
       let fresh = (case ri_guest_login_cache i of
             Some (link, timestamp) \<Rightarrow> if saturating_sub now timestamp < 15000 then Some link else None | None \<Rightarrow> None) in
       (case fresh of
          Some link \<Rightarrow> (Inr link, i)
        | None \<Rightarrow> (case the_api i of
            Inl e \<Rightarrow> (Inl e, i)
          | Inr api \<Rightarrow> (case login_guest api of
              Inl e \<Rightarrow> (Inl (map_generic_api_error status_text ''guest login'' e), i)
            | Inr session_key \<Rightarrow>
                (Inr (guest_login_link session_key), i\<lparr>ri_guest_login_cache := Some (guest_login_link session_key, now2)\<rparr>)))))"

subsection \<open>Claiming\<close>

text \<open>\<open>code\<close> is the claim code generated in this call, when one is. The task that is spawned runs \<open>run_claim_flow_with_api\<close>.\<close>

definition start_claim :: "string \<Rightarrow> RuntimeInner \<Rightarrow> (RuntimeError + string) \<times> RuntimeInner" where
  "start_claim code i =
     (if ri_cancel_token i then (Inl RtStopped, i)
      else let lifecycle = sc_lifecycle (ri_state_cache i) in
        if lifecycle \<noteq> WaitingForSecret then (Inl (secret_provisioning_state_error lifecycle), i)
        else if \<not> ri_secret_provision_tx i then (Inl (provisioning_error (ri_secret_source i)), i)
        else (case ri_claim_code i of
          Some active \<Rightarrow> (Inr (claim_url active), i)
        | None \<Rightarrow> (Inr (claim_url code),
            track_claim_task \<lparr>ct_code = code, ct_finished = False\<rparr> (i\<lparr>ri_claim_code := Some code\<rparr>))))"

text \<open>The end of the \<open>k\<close>-th tracked task: the last step of its flow acts on the shared claim code.\<close>

definition claim_task_ends :: "nat \<Rightarrow> RuntimeInner \<Rightarrow> RuntimeInner" where
  "claim_task_ends k i =
     i\<lparr>ri_claim_code := finish_claim (ct_code (ri_claim_tasks i ! k)) (ri_claim_code i),
       ri_claim_tasks := (ri_claim_tasks i)[k := (ri_claim_tasks i ! k)\<lparr>ct_finished := True\<rparr>]\<rparr>"

subsection \<open>Tunnels\<close>

definition list_tunnels :: "RuntimeInner \<Rightarrow> RuntimeError + TunnelListResponse" where
  "list_tunnels i = and_then (ensure_running i) (\<lambda>_. tunnel_list (sc_lifecycle (ri_state_cache i)))"

definition list_account_tunnels ::
  "(nat \<Rightarrow> string) \<Rightarrow> (HttpClient \<Rightarrow> HttpClientError ApiErrorNoFail + AccountTunnelV1 list) \<Rightarrow> RuntimeInner \<Rightarrow>
   RuntimeError + AccountTunnelState list" where
  "list_account_tunnels status_text v1_tunnels_list i =
     and_then (ensure_running i) (\<lambda>_. and_then (the_api i) (\<lambda>api.
       (case v1_tunnels_list api of
          Inl e \<Rightarrow> Inl (map_account_tunnel_list_error status_text e)
        | Inr response \<Rightarrow> Inr (account_tunnel_list response))))"

record TunnelCreateResponse =
  tcr_tunnel_id :: string
  tcr_message :: "string option"

type_synonym create_call = "HttpClient \<Rightarrow> ReqTunnelsCreateV1 \<Rightarrow> (TunnelCreateErrorV1, HttpClientError) ApiError + string"

definition create_v1_tunnel ::
  "(nat \<Rightarrow> string) \<Rightarrow> create_call \<Rightarrow> ReqTunnelsCreateV1 \<Rightarrow> RuntimeInner \<Rightarrow> RuntimeError + TunnelCreateResponse" where
  "create_v1_tunnel status_text v1_tunnels_create request i = and_then (the_api i) (\<lambda>api.
     (case v1_tunnels_create api request of
        Inl e \<Rightarrow> Inl (map_tunnel_create_error status_text e)
      | Inr tid \<Rightarrow> Inr \<lparr>tcr_tunnel_id = tid, tcr_message = Some ''Tunnel creation accepted''\<rparr>))"

definition create_tunnel ::
  "text_env \<Rightarrow> (nat \<Rightarrow> string) \<Rightarrow> create_call \<Rightarrow> u16 \<Rightarrow> TunnelProtocol \<Rightarrow> string option \<Rightarrow> string option \<Rightarrow> RuntimeInner \<Rightarrow>
   RuntimeError + TunnelCreateResponse" where
  "create_tunnel env status_text call local_port protocol local_address name i =
     and_then (ensure_running i) (\<lambda>_.
     and_then (create_request env (sc_lifecycle (ri_state_cache i)) local_port protocol local_address name) (\<lambda>request.
     create_v1_tunnel status_text call request i))"

definition create_minecraft_java_tunnel ::
  "text_env \<Rightarrow> (nat \<Rightarrow> string) \<Rightarrow> create_call \<Rightarrow> u16 \<Rightarrow> string option \<Rightarrow> string option \<Rightarrow> RuntimeInner \<Rightarrow>
   RuntimeError + TunnelCreateResponse" where
  "create_minecraft_java_tunnel env status_text call local_port local_address name i =
     and_then (ensure_running i) (\<lambda>_.
     and_then (create_minecraft_request env (sc_lifecycle (ri_state_cache i)) local_port local_address name) (\<lambda>request.
     create_v1_tunnel status_text call request i))"

definition delete_tunnel ::
  "text_env \<Rightarrow> (nat \<Rightarrow> string) \<Rightarrow> (HttpClient \<Rightarrow> string \<Rightarrow> (DeleteError, HttpClientError) ApiError + unit) \<Rightarrow> string \<Rightarrow> RuntimeInner \<Rightarrow>
   RuntimeError + CommandResponse" where
  "delete_tunnel env status_text tunnels_delete tunnel_ref i =
     and_then (ensure_running i) (\<lambda>_.
     and_then (parse_tunnel_id env tunnel_ref) (\<lambda>tid.
     and_then (the_api i) (\<lambda>api.
     (case tunnels_delete api tid of
        Inl e \<Rightarrow> Inl (map_tunnel_delete_error status_text e)
      | Inr _ \<Rightarrow> Inr \<lparr>cr_accepted = True, cr_message = Some ''Tunnel deletion accepted''\<rparr>))))"

definition reassign_tunnel ::
  "text_env \<Rightarrow> (nat \<Rightarrow> string) \<Rightarrow> (HttpClient \<Rightarrow> ReqTunnelsConfigV1 \<Rightarrow> ('v TunnelConfigError, HttpClientError) ApiError + unit) \<Rightarrow>
   string \<Rightarrow> u16 \<Rightarrow> string option \<Rightarrow> RuntimeInner \<Rightarrow> RuntimeError + CommandResponse" where
  "reassign_tunnel env status_text v1_tunnels_config tunnel_ref local_port local_address i =
     and_then (ensure_running i) (\<lambda>_.
     and_then (reassign_request env (sc_lifecycle (ri_state_cache i)) tunnel_ref local_port local_address) (\<lambda>request.
     and_then (the_api i) (\<lambda>api.
     (case v1_tunnels_config api request of
        Inl e \<Rightarrow> Inl (map_tunnel_config_error status_text e)
      | Inr _ \<Rightarrow> Inr \<lparr>cr_accepted = True, cr_message = Some ''Tunnel reassignment accepted''\<rparr>))))"

subsection \<open>The secret\<close>

text \<open>
  \<open>sent\<close>: \<open>None\<close> when the runtime was cancelled, otherwise whether the channel took the request. \<open>response\<close>: \<open>None\<close> when cancelled, \<open>Some None\<close> when the
  supervisor dropped the request, otherwise its answer.
\<close>

definition set_secret :: "bool option \<Rightarrow> (string + unit) option option \<Rightarrow> RuntimeInner \<Rightarrow> RuntimeError + CommandResponse" where
  "set_secret sent response i =
     (if ri_cancel_token i then Inl RtStopped
      else let lifecycle = sc_lifecycle (ri_state_cache i) in
        if lifecycle \<noteq> WaitingForSecret then Inl (secret_provisioning_state_error lifecycle)
        else if \<not> ri_secret_provision_tx i then Inl (provisioning_error (ri_secret_source i))
        else if sent \<noteq> Some True then Inl RtStopped
        else (case response of
          Some (Some (Inr _)) \<Rightarrow> Inr \<lparr>cr_accepted = True, cr_message = Some ''secret provisioned''\<rparr>
        | Some (Some (Inl message)) \<Rightarrow> Inl (RuntimeError_secret CodeSecretWriteFailed message True)
        | _ \<Rightarrow> Inl RtStopped))"

definition reset_secret :: "RuntimeInner \<Rightarrow> fs \<Rightarrow> (RuntimeError + CommandResponse) \<times> RuntimeInner \<times> fs" where
  "reset_secret i w = (case ensure_running i of
     Inl e \<Rightarrow> (Inl e, i, w)
   | Inr _ \<Rightarrow> (case secret_path_of (ri_secret_source i) of
       None \<Rightarrow> (Inl (reset_error (ri_secret_source i)), i, w)
     | Some secret_path \<Rightarrow> (case reset_secret_file secret_path w of
         (Inl e, w1) \<Rightarrow> (Inl e, i, w1)
       | (Inr message, w1) \<Rightarrow> (Inr \<lparr>cr_accepted = True, cr_message = Some message\<rparr>, request_shutdown i, w1))))"

subsection \<open>Laws\<close>

text \<open>
  The claims of a running runtime: clients start claims, flows end, the supervisor and the agent's tasks change what is published, the runtime is
  stopped and its tasks are joined, in any order.
\<close>

inductive claims_reach :: "RuntimeInner \<Rightarrow> bool" where
  made: "make_inner variant_parse platform options source cache tx tok ctx prov = Inr i \<Longrightarrow> claims_reach i"
| started: "claims_reach i \<Longrightarrow> claims_reach (snd (start_claim code i))"
| ended: "claims_reach i \<Longrightarrow> k < length (ri_claim_tasks i) \<Longrightarrow> \<not> ct_finished (ri_claim_tasks i ! k) \<Longrightarrow> claims_reach (claim_task_ends k i)"
| published: "claims_reach i \<Longrightarrow> claims_reach (publish_state status lifecycle i)"
| status_published: "claims_reach i \<Longrightarrow> claims_reach (publish_status status i)"
| stopped: "claims_reach i \<Longrightarrow> claims_reach (request_shutdown i)"
| joined: "claims_reach i \<Longrightarrow> join_claim_tasks i = Some i' \<Longrightarrow> claims_reach i'"

definition running_claims :: "RuntimeInner \<Rightarrow> string list" where
  "running_claims i = map ct_code (filter (\<lambda>t. \<not> ct_finished t) (ri_claim_tasks i))"

definition claims_ok :: "RuntimeInner \<Rightarrow> bool" where
  "claims_ok i \<longleftrightarrow> running_claims i = (case ri_claim_code i of None \<Rightarrow> [] | Some code \<Rightarrow> [code])"

lemma running_claims_update:
  assumes "k < length ts" "\<not> ct_finished (ts ! k)"
  shows "filter (\<lambda>t. \<not> ct_finished t) ts = filter (\<lambda>t. \<not> ct_finished t) (take k ts) @ ts ! k # filter (\<lambda>t. \<not> ct_finished t) (drop (Suc k) ts)"
    "filter (\<lambda>t. \<not> ct_finished t) (ts[k := (ts ! k)\<lparr>ct_finished := True\<rparr>]) =
      filter (\<lambda>t. \<not> ct_finished t) (take k ts) @ filter (\<lambda>t. \<not> ct_finished t) (drop (Suc k) ts)"
proof -
  have "filter (\<lambda>t. \<not> ct_finished t) (take k ts @ ts ! k # drop (Suc k) ts) =
      filter (\<lambda>t. \<not> ct_finished t) (take k ts) @ ts ! k # filter (\<lambda>t. \<not> ct_finished t) (drop (Suc k) ts)"
    using assms(2) by simp
  then show "filter (\<lambda>t. \<not> ct_finished t) ts = filter (\<lambda>t. \<not> ct_finished t) (take k ts) @ ts ! k # filter (\<lambda>t. \<not> ct_finished t) (drop (Suc k) ts)"
    by (simp only: id_take_nth_drop [OF assms(1), symmetric])
  show "filter (\<lambda>t. \<not> ct_finished t) (ts[k := (ts ! k)\<lparr>ct_finished := True\<rparr>]) =
      filter (\<lambda>t. \<not> ct_finished t) (take k ts) @ filter (\<lambda>t. \<not> ct_finished t) (drop (Suc k) ts)"
    by (simp add: upd_conv_take_nth_drop [OF assms(1)])
qed

lemma start_claim_ok:
  assumes "claims_ok i"
  shows "claims_ok (snd (start_claim code i))"
  using assms
  by (auto simp: start_claim_def Let_def claims_ok_def running_claims_def track_claim_task_def split: option.splits)

lemma claim_task_ends_ok:
  assumes "claims_ok i" "k < length (ri_claim_tasks i)" "\<not> ct_finished (ri_claim_tasks i ! k)"
  shows "claims_ok (claim_task_ends k i)"
proof -
  note upd = running_claims_update [OF assms(2,3)]
  from assms(1) have "ri_claim_code i = Some (ct_code (ri_claim_tasks i ! k))"
    by (auto simp: claims_ok_def running_claims_def upd(1) Cons_eq_append_conv append_eq_Cons_conv split: option.splits)
  with assms(1) show ?thesis
    by (auto simp: claims_ok_def running_claims_def upd claim_task_ends_def finish_claim_def append_eq_Cons_conv)
qed

lemma claims_reach_ok: "claims_reach i \<Longrightarrow> claims_ok i"
proof (induction rule: claims_reach.induct)
  case (made variant_parse platform options source cache tx tok ctx prov i)
  then show ?case by (auto simp: make_inner_def claims_ok_def running_claims_def split: sum.splits)
next
  case (joined i i')
  then show ?case
    by (auto simp: join_claim_tasks_def join_claim_task_handles_def claims_ok_def running_claims_def list_all_iff
      split: if_splits option.splits)
next
  case (ended i k)
  then show ?case by (intro claim_task_ends_ok)
next
  case (started i code)
  then show ?case by (intro start_claim_ok)
qed (simp_all add: claims_ok_def running_claims_def publish_state_def publish_status_def request_shutdown_def)

lemma start_claim_Inr:
  assumes "start_claim code i = (Inr url, i1)"
  obtains active where "\<not> ri_cancel_token i1" "sc_lifecycle (ri_state_cache i1) = WaitingForSecret" "ri_secret_provision_tx i1"
    "ri_claim_code i1 = Some active" "url = claim_url active"
  using assms by (auto simp: start_claim_def Let_def track_claim_task_def split: if_splits option.splits)

lemma start_claim_again:
  assumes "start_claim code i = (Inr url, i1)"
  shows "start_claim code2 i1 = (Inr url, i1)"
  by (rule start_claim_Inr [OF assms]) (simp add: start_claim_def)

text \<open>Once the runtime is stopping every operation of a client is refused and changes nothing.\<close>

lemma stopped_refuses:
  assumes "ri_cancel_token i"
  shows "handle_account i = Inl RtStopped" "list_tunnels i = Inl RtStopped" "start_claim code i = (Inl RtStopped, i)"
    "account_login_url status_text now now2 login i = (Inl RtStopped, i)" "create_tunnel env status_text call port protocol addr name i = Inl RtStopped"
    "reset_secret i w = (Inl RtStopped, i, w)" "set_secret sent response i = Inl RtStopped"
  using assms
  by (simp_all add: handle_account_def list_tunnels_def start_claim_def account_login_url_def create_tunnel_def reset_secret_def
    set_secret_def ensure_running_def)

subsection \<open>Properties\<close>

text \<open>
  C27: Claims do not overlap. However clients, the supervisor and the claim flows interleave, at most one claim flow runs, and it runs exactly when there is an
  active claim code, which is its own. Starting a claim while one is active starts nothing and changes nothing: it gives the address of the active claim if the runtime still waits
  for a secret (it is not cancelled, its lifecycle is \<^verbatim>\<open>WaitingForSecret\<close> and it can be provisioned), and an error otherwise. Starting one while none is active starts
  the one flow of its code under the same condition, and otherwise gives an error and changes nothing.
\<close>

theorem one_claim_at_a_time:
  assumes "claims_reach i"
  shows "running_claims i = (case ri_claim_code i of None \<Rightarrow> [] | Some code \<Rightarrow> [code]) \<and>
    (case start_claim code i of (result, i1) \<Rightarrow>
      if \<not> ri_cancel_token i \<and> sc_lifecycle (ri_state_cache i) = WaitingForSecret \<and> ri_secret_provision_tx i
      then (case ri_claim_code i of
          Some active \<Rightarrow> result = Inr (claim_url active) \<and> i1 = i
        | None \<Rightarrow> result = Inr (claim_url code) \<and> running_claims i1 = [code] \<and> ri_claim_code i1 = Some code)
      else isl result \<and> i1 = i)"
proof -
  have ok: "claims_ok i" by (rule claims_reach_ok [OF assms])
  have "claims_ok (snd (start_claim code i))" using start_claim_ok [OF ok, of code] .
  then show ?thesis
    using ok by (auto simp: claims_ok_def start_claim_def Let_def track_claim_task_def split: option.splits)
qed

definition example_options :: RuntimeOptions where
  "example_options = \<lparr>opt_secret_path = \<lparr>absolute = False, comps = [''playit-secret.toml'']\<rparr>, opt_secret = None, opt_version = example_version,
     opt_platform_docker = False, opt_api_base = ''https://api.playit.gg''\<rparr>"

definition example_inner :: RuntimeInner where
  "example_inner = projr (make_inner Inr Linux example_options (SecretSource_from_options example_options) StateCache_default [] False
     \<lparr>ctx_secret_path = None, ctx_version = ''1.0.5'', ctx_start_time = 0\<rparr> True)"

definition example_waiting :: RuntimeInner where
  "example_waiting = publish_state (sc_status StateCache_default) WaitingForSecret example_inner"

lemma example_waiting_reach: "claims_reach example_waiting"
proof -
  have "claims_reach example_inner"
    by (rule claims_reach.made [of Inr Linux example_options "SecretSource_from_options example_options" StateCache_default "[]" False
        "\<lparr>ctx_secret_path = None, ctx_version = ''1.0.5'', ctx_start_time = 0\<rparr>" True])
      (simp add: example_inner_def make_inner_def agent_version_of_def)
  then show ?thesis unfolding example_waiting_def by (rule claims_reach.published)
qed

theorem one_claim_at_a_time_witness:
  "running_claims example_waiting = [] \<and>
   (\<exists>i1. start_claim ''abc'' example_waiting = (Inr (claim_url ''abc''), i1) \<and> running_claims i1 = [''abc''] \<and>
      start_claim ''def'' i1 = (Inr (claim_url ''abc''), i1))"
proof -
  note ex = example_waiting_def example_inner_def make_inner_def agent_version_of_def publish_state_def
  have none: "ri_claim_code example_waiting = None" by (simp add: ex)
  have ready: "\<not> ri_cancel_token example_waiting" "sc_lifecycle (ri_state_cache example_waiting) = WaitingForSecret" "ri_secret_provision_tx example_waiting"
    by (simp_all add: ex)
  obtain r i1 where i1: "start_claim ''abc'' example_waiting = (r, i1)" by fastforce
  have "start_claim ''def'' i1 = (Inr (claim_url ''abc''), i1)"
    using i1 none ready by (auto simp: start_claim_def track_claim_task_def)
  then show ?thesis
    using one_claim_at_a_time [OF example_waiting_reach, of "''abc''"] none ready i1 by auto
qed

end
