(* ===== verification/Supervisor.thy ===== *)
theory Supervisor
  imports Runtime_Handle Maintained_Control
begin

section \<open>The supervisor\<close>

text \<open>
  \<^verbatim>\<open>packages/playit-runtime/src/runtime.rs\<close>: the runtime finds a secret, builds the agent with it, runs it and starts over after failures. What happens
  outside is the input of a round (\<open>agent_round\<close>): whether the runtime was cancelled at each moment the code looks, the run data, how
  building the agent and running it ended, which secrets were offered, and what the tasks beside the agent published.
  The state records the secrets that agents were built with and the delays before the next attempt. A loop that is still
  going after the rounds it was given has the result \<open>None\<close>.
\<close>

subsection \<open>Errors of the setup\<close>

datatype ProtoRegisterError = UnknownPlayitVersion | DisabledByUser | AgentDisabledOverLimitError | AccountBanned

text \<open>\<open>sv_parse_register\<close> is \<^verbatim>\<open>serde_json::from_str\<close>; \<open>sv_setup_text\<close>, \<open>sv_api_text\<close> and \<open>sv_io_text\<close> are \<^verbatim>\<open>Display\<close> of the errors.\<close>

record sup_env =
  sv_secret :: secret_env
  sv_ip_from_str :: "string \<Rightarrow> IpAddr option"
  sv_pid :: u32
  sv_now :: "RuntimeInner \<Rightarrow> u64"
  sv_parse_register :: "string \<Rightarrow> ProtoRegisterError option"
  sv_setup_text :: "SetupError \<Rightarrow> string"
  sv_api_text :: "ApiResponseError \<Rightarrow> string"
  sv_io_text :: "io_error \<Rightarrow> string"

definition TRANSIENT_RETRY_DELAYS :: "nat list" where
  "TRANSIENT_RETRY_DELAYS = [1000, 2000, 4000, 8000, 15000, 30000]"

definition AGENT_LIMIT_RETRY_INTERVAL :: nat where
  "AGENT_LIMIT_RETRY_INTERVAL = 30000"

definition retry_delay :: "u32 \<Rightarrow> nat" where
  "retry_delay attempt = TRANSIENT_RETRY_DELAYS ! min (unat attempt) (length TRANSIENT_RETRY_DELAYS - 1)"

fun is_transient_setup_error :: "SetupError \<Rightarrow> bool" where
  "is_transient_setup_error FailedToConnect = True"
| "is_transient_setup_error SetupRequestError = True"
| "is_transient_setup_error SetupTimeout = True"
| "is_transient_setup_error (SetupIoError _) = True"
| "is_transient_setup_error AttemptingToAuthWithOldFlow = True"
| "is_transient_setup_error NoResponseFromAuthenticate = True"
| "is_transient_setup_error RegisterUnauthorized = True"
| "is_transient_setup_error (SetupApiError (ApiInternal _)) = True"
| "is_transient_setup_error (SetupApiError (ApiAuth SessionExpired)) = True"
| "is_transient_setup_error _ = False"

fun is_invalid_agent_secret_error :: "SetupError \<Rightarrow> bool" where
  "is_invalid_agent_secret_error (SetupApiError (ApiAuth InvalidAgentKey)) = True"
| "is_invalid_agent_secret_error (SetupApiError (ApiAuth NoLongerValid)) = True"
| "is_invalid_agent_secret_error _ = False"

fun parse_proto_register_error :: "sup_env \<Rightarrow> SetupError \<Rightarrow> ProtoRegisterError option" where
  "parse_proto_register_error env (ApiFail payload) = sv_parse_register env payload"
| "parse_proto_register_error env _ = None"

definition is_agent_disabled_over_limit_error :: "sup_env \<Rightarrow> SetupError \<Rightarrow> bool" where
  "is_agent_disabled_over_limit_error env e \<longleftrightarrow> parse_proto_register_error env e = Some AgentDisabledOverLimitError"

definition agent_disabled_over_limit_message :: string where
  "agent_disabled_over_limit_message = ''This account is over the agent limit. Delete an unused agent or upgrade the account, then the service will retry.''"

definition secret_no_longer_valid :: string where
  "secret_no_longer_valid = ''The configured playit secret is no longer valid. Run playit setup to provision a new secret.''"

definition setup_error_user_message :: "sup_env \<Rightarrow> SetupError \<Rightarrow> string" where
  "setup_error_user_message env error = (case error of
     FailedToConnect \<Rightarrow> ''Could not connect to Playit tunnel servers. The service will retry automatically; check your internet connection, firewall, VPN, or DNS settings.''
   | SetupRequestError \<Rightarrow> ''Could not reach the Playit API. The service will retry automatically; check your internet connection or try again later.''
   | SetupApiError api \<Rightarrow>
       if is_invalid_agent_secret_error error then secret_no_longer_valid
       else ''The playit API rejected the agent startup request: '' @ sv_api_text env api
   | ApiFail payload \<Rightarrow>
       if sv_parse_register env payload = Some AgentDisabledOverLimitError then agent_disabled_over_limit_message
       else ''The playit API rejected the agent registration request. Check your account and tunnel configuration, then try again.''
   | SetupTimeout \<Rightarrow> ''Timed out while connecting to Playit. The service will retry automatically; check your network or firewall.''
   | SetupIoError io \<Rightarrow> ''Could not open a required network socket: '' @ sv_io_text env io @ ''. The service will retry automatically.''
   | _ \<Rightarrow> ''Failed to start the playit agent: '' @ sv_setup_text env error)"

subsection \<open>Publishing\<close>

definition inner_status :: "sup_env \<Rightarrow> ServicePhase \<Rightarrow> bool \<Rightarrow> ServiceError option \<Rightarrow> RuntimeInner \<Rightarrow> ServiceStatus" where
  "inner_status env phase has_secret last_error i =
     context_status (sv_pid env) (sv_now env i) (ri_status_context i) phase has_secret last_error"

definition publish :: "sup_env \<Rightarrow> ServicePhase \<Rightarrow> bool \<Rightarrow> ServiceError option \<Rightarrow> AgentLifecycle \<Rightarrow> RuntimeInner \<Rightarrow> RuntimeInner" where
  "publish env phase has_secret last_error lifecycle i = publish_state (inner_status env phase has_secret last_error i) lifecycle i"

definition publish_starting :: "sup_env \<Rightarrow> bool \<Rightarrow> RuntimeInner \<Rightarrow> RuntimeInner" where
  "publish_starting env has_secret = publish env PhaseStarting has_secret None LifecycleStarting"

definition publish_reconnecting :: "sup_env \<Rightarrow> bool \<Rightarrow> ServiceError option \<Rightarrow> RuntimeInner \<Rightarrow> RuntimeInner" where
  "publish_reconnecting env has_secret last_error = publish env PhaseReconnecting has_secret last_error LifecycleStarting"

definition publish_stopping :: "sup_env \<Rightarrow> bool \<Rightarrow> RuntimeInner \<Rightarrow> RuntimeInner" where
  "publish_stopping env has_secret = publish env PhaseStopping has_secret None LifecycleStopping"

subsection \<open>Running the agent\<close>

text \<open>
  The tasks beside the agent: a poll of the account, a statistics tick, and a change of the connection state that \<^verbatim>\<open>broadcast_control_state\<close> sees.
\<close>

datatype background = PolledState AgentState | StatsTick ConnectionStats | ControlChanged ControlConnectionState

fun control_phase :: "ControlConnectionState \<Rightarrow> ServicePhase" where
  "control_phase Connected = PhaseRunning"
| "control_phase Reconnecting = PhaseReconnecting"

definition broadcast_control_state :: "sup_env \<Rightarrow> ControlConnectionState \<Rightarrow> RuntimeInner \<Rightarrow> RuntimeInner" where
  "broadcast_control_state env state i =
     publish_status (inner_status env (control_phase state) (st_has_secret (sc_status (ri_state_cache i))) None i) i"

fun apply_background :: "sup_env \<Rightarrow> background \<Rightarrow> RuntimeInner \<Rightarrow> RuntimeInner" where
  "apply_background env (PolledState state) i =
     i\<lparr>ri_state_cache := (ri_state_cache i)\<lparr>sc_lifecycle := LifecycleRunning state\<rparr>,
       ri_event_tx := ri_event_tx i @ [UpdateLifecycle (LifecycleRunning state)]\<rparr>"
| "apply_background env (StatsTick stats) i =
     i\<lparr>ri_state_cache := (ri_state_cache i)\<lparr>sc_stats := stats\<rparr>, ri_event_tx := ri_event_tx i @ [UpdateStats stats]\<rparr>"
| "apply_background env (ControlChanged state) i = broadcast_control_state env state i"

datatype AgentStop = StopRequested | StopUnexpected "string + unit"

text \<open>\<open>Inl e\<close> is a \<^verbatim>\<open>JoinError\<close> with its text.\<close>

definition classify_agent_completion :: "bool \<Rightarrow> string + unit \<Rightarrow> AgentStop" where
  "classify_agent_completion runtime_cancelled result = (if runtime_cancelled then StopRequested else StopUnexpected result)"

record agent_round =
  ag_cancelled :: bool
  ag_rundata :: "AgentTunnelV1 list option"
  ag_setup :: "SetupError + unit"
  ag_background :: "background list"
  ag_finished :: "(bool \<times> (string + unit)) option"
  ag_late :: "background list"
  ag_cancelled_after :: bool
  ag_slept :: bool
  ag_provision :: "provision_event list"

text \<open>
  \<open>ag_finished\<close>: how the agent's task ended and whether the runtime was cancelled then; \<open>None\<close> when the cancellation came first. \<open>ag_late\<close> is what the
  other tasks still publish before they notice that they are cancelled.
\<close>

definition agent_stop :: "agent_round \<Rightarrow> AgentStop" where
  "agent_stop r = (case ag_finished r of
     None \<Rightarrow> StopRequested | Some (runtime_cancelled, result) \<Rightarrow> classify_agent_completion runtime_cancelled result)"

definition run_agent :: "sup_env \<Rightarrow> agent_round \<Rightarrow> RuntimeInner \<Rightarrow> (RuntimeError + unit) \<times> RuntimeInner" where
  "run_agent env r i =
     (let i1 = fold (apply_background env) (ag_background r) (set_agent_cancel (Some False) i);
          i2 = set_agent_cancel (Some True) i1;
          i3 = (if agent_stop r = StopRequested then publish_stopping env True i2 else i2);
          i4 = set_agent_cancel None (fold (apply_background env) (ag_late r) i3)
      in (case agent_stop r of
            StopRequested \<Rightarrow> Inr ()
          | StopUnexpected (Inr _) \<Rightarrow> Inl (RuntimeError_setup ''playit agent task stopped unexpectedly'' True)
          | StopUnexpected (Inl e) \<Rightarrow> Inl (RuntimeError_setup (''playit agent task failed: '' @ e) True), i4))"

subsection \<open>The loop\<close>

record sup_state =
  su_inner :: RuntimeInner
  su_fs :: fs
  su_lookup :: OriginLookup
  su_secrets :: "string list"
  su_slept :: "nat list"

definition on_inner :: "(RuntimeInner \<Rightarrow> RuntimeInner) \<Rightarrow> sup_state \<Rightarrow> sup_state" where
  "on_inner f s = s\<lparr>su_inner := f (su_inner s)\<rparr>"

text \<open>\<open>has_receiver\<close>: whether the provisioning channel exists. A result \<open>None\<close>: still waiting.\<close>

definition wait_for_secret ::
  "sup_env \<Rightarrow> bool \<Rightarrow> ServiceError option \<Rightarrow> provision_event list \<Rightarrow> sup_state \<Rightarrow> (RuntimeError + string option) option \<times> sup_state" where
  "wait_for_secret env has_receiver last_error events s = (case secret_path_of (ri_secret_source (su_inner s)) of
     None \<Rightarrow> (Some (Inl (RuntimeError_secret CodeProvisioningUnavailable
       ''No file-backed secret source is available for provisioning.'' False)), s)
   | Some secret_path \<Rightarrow>
       if \<not> has_receiver then (Some (Inl (provisioning_error (ri_secret_source (su_inner s)))), s)
       else let s1 = on_inner (publish env PhaseWaitingForSecret False last_error WaitingForSecret) s in
         (case wait_for_provisioned_secret (sv_secret env) secret_path events (su_fs s1) of ((r, _), w) \<Rightarrow>
            let s2 = s1\<lparr>su_fs := w\<rparr> in
            (case r of
               None \<Rightarrow> (None, s2)
             | Some (Inl e) \<Rightarrow> (Some (Inl e), s2)
             | Some (Inr (Some secret)) \<Rightarrow> (Some (Inr (Some secret)), on_inner (publish_starting env True) s2)
             | Some (Inr None) \<Rightarrow> (Some (Inr None), on_inner (publish_stopping env False) s2))))"

text \<open>The end of one iteration: leave the loop with a result, or go on with a secret and a number of failed attempts.\<close>

datatype loop_step = LoopReturn "RuntimeError + unit" | LoopAgain string u32 | LoopWaiting

definition wait_for_retry :: "sup_env \<Rightarrow> bool \<Rightarrow> string \<Rightarrow> u32 \<Rightarrow> sup_state \<Rightarrow> loop_step \<times> sup_state" where
  "wait_for_retry env slept secret attempt s =
     (if slept then (LoopAgain secret (saturating_add attempt 1), s\<lparr>su_slept := su_slept s @ [retry_delay attempt]\<rparr>)
      else (LoopReturn (Inr ()), on_inner (publish_stopping env True) s))"

definition setup_failed :: "sup_env \<Rightarrow> bool \<Rightarrow> agent_round \<Rightarrow> string \<Rightarrow> u32 \<Rightarrow> SetupError \<Rightarrow> sup_state \<Rightarrow> loop_step \<times> sup_state" where
  "setup_failed env has_receiver r secret attempt error s =
     (let message = setup_error_user_message env error in
      if allows_provisioning (ri_secret_source (su_inner s)) \<and> is_invalid_agent_secret_error error then
        let service_error = as_service_error (RuntimeError_secret CodeInvalidSecret secret_no_longer_valid True) in
        (case wait_for_secret env has_receiver (Some service_error) (ag_provision r) (on_inner (set_api None) s) of
           (None, s1) \<Rightarrow> (LoopWaiting, s1)
         | (Some (Inl e), s1) \<Rightarrow> (LoopReturn (Inl e), s1)
         | (Some (Inr None), s1) \<Rightarrow> (LoopReturn (Inr ()), s1)
         | (Some (Inr (Some new)), s1) \<Rightarrow> (LoopAgain new attempt, s1))
      else if is_agent_disabled_over_limit_error env error then
        let service_error = as_service_error (RuntimeError_setup_with_code CodeAgentDisabledOverLimit agent_disabled_over_limit_message True);
            s1 = on_inner (publish env PhaseDisabledOverLimit True (Some service_error) (DisabledOverLimit service_error)) s in
        if ag_slept r then (LoopAgain secret attempt, s1\<lparr>su_slept := su_slept s1 @ [AGENT_LIMIT_RETRY_INTERVAL]\<rparr>)
        else (LoopReturn (Inr ()), on_inner (publish_stopping env True) s1)
      else if is_transient_setup_error error then
        wait_for_retry env (ag_slept r) secret attempt
          (on_inner (publish_reconnecting env True (Some (as_service_error (RuntimeError_setup message True)))) s)
      else let service_error = as_service_error (RuntimeError_setup message True) in
        (LoopReturn (Inl (RuntimeError_setup message True)),
         on_inner (publish env PhaseError True (Some service_error) (LifecycleError service_error)) s))"

definition agent_built :: "sup_env \<Rightarrow> agent_round \<Rightarrow> string \<Rightarrow> u32 \<Rightarrow> sup_state \<Rightarrow> loop_step \<times> sup_state" where
  "agent_built env r secret attempt s =
     (let s1 = on_inner (publish env PhaseRunning True None LifecycleStarting) s in
      case run_agent env r (su_inner s1) of (result, i) \<Rightarrow>
        let s2 = s1\<lparr>su_inner := i\<rparr> in
        (case result of
           Inr _ \<Rightarrow> (LoopReturn (Inr ()), s2)
         | Inl error \<Rightarrow>
             if \<not> ag_cancelled_after r then
               wait_for_retry env (ag_slept r) secret attempt
                 (on_inner (publish_reconnecting env True (Some (as_service_error (RuntimeError_setup (runtime_error_message error) True)))) s2)
             else (LoopReturn (Inr ()), on_inner (publish_stopping env True) s2)))"

definition agent_iteration :: "sup_env \<Rightarrow> bool \<Rightarrow> agent_round \<Rightarrow> string \<Rightarrow> u32 \<Rightarrow> sup_state \<Rightarrow> loop_step \<times> sup_state" where
  "agent_iteration env has_receiver r secret attempt s =
     (if ag_cancelled r then (LoopReturn (Inr ()), on_inner (publish_stopping env True) s)
      else
        let s1 = on_inner (set_api (Some (PlayitApi_create (ri_api_base (su_inner s)) (Some secret)))) s;
            s2 = (case ag_rundata r of
              Some tunnels \<Rightarrow> s1\<lparr>su_lookup := update_from_run_data (sv_ip_from_str env) tunnels (su_lookup s1)\<rparr> | None \<Rightarrow> s1);
            s3 = on_inner (publish_starting env True) (s2\<lparr>su_secrets := su_secrets s2 @ [secret]\<rparr>)
        in case ag_setup r of
          Inr _ \<Rightarrow> agent_built env r secret attempt s3
        | Inl error \<Rightarrow> setup_failed env has_receiver r secret attempt error s3)"

fun build_agent_with_reprovisioning ::
  "sup_env \<Rightarrow> bool \<Rightarrow> agent_round list \<Rightarrow> string \<Rightarrow> u32 \<Rightarrow> sup_state \<Rightarrow> (RuntimeError + unit) option \<times> sup_state" where
  "build_agent_with_reprovisioning env has_receiver [] secret attempt s = (None, s)"
| "build_agent_with_reprovisioning env has_receiver (r # rs) secret attempt s = (case agent_iteration env has_receiver r secret attempt s of
     (LoopReturn result, s1) \<Rightarrow> (Some result, s1)
   | (LoopAgain secret1 attempt1, s1) \<Rightarrow> build_agent_with_reprovisioning env has_receiver rs secret1 attempt1 s1
   | (LoopWaiting, s1) \<Rightarrow> (None, s1))"

text \<open>After a wait for a secret: return without one, or build the agent with it.\<close>

fun go_on_with ::
  "sup_env \<Rightarrow> bool \<Rightarrow> agent_round list \<Rightarrow> (RuntimeError + string option) option \<times> sup_state \<Rightarrow> (RuntimeError + unit) option \<times> sup_state" where
  "go_on_with env has_receiver rounds (None, s) = (None, s)"
| "go_on_with env has_receiver rounds (Some (Inl e), s) = (Some (Inl e), s)"
| "go_on_with env has_receiver rounds (Some (Inr None), s) = (Some (Inr ()), s)"
| "go_on_with env has_receiver rounds (Some (Inr (Some secret)), s) = build_agent_with_reprovisioning env has_receiver rounds secret 0 s"

text \<open>\<open>events\<close> are the secrets offered while no usable secret is stored.\<close>

definition run_supervisor ::
  "sup_env \<Rightarrow> bool \<Rightarrow> provision_event list \<Rightarrow> agent_round list \<Rightarrow> sup_state \<Rightarrow> (RuntimeError + unit) option \<times> sup_state" where
  "run_supervisor env has_receiver events rounds s =
     (let source = ri_secret_source (su_inner s);
          (loaded, w) = load_secret (sv_secret env) source (su_fs s);
          s1 = s\<lparr>su_fs := w\<rparr>
      in case loaded of
        SecretReady secret \<Rightarrow>
          build_agent_with_reprovisioning env has_receiver rounds secret 0 (on_inner (publish_starting env True) s1)
      | SecretMissing \<Rightarrow> go_on_with env has_receiver rounds (wait_for_secret env has_receiver None events s1)
      | SecretInvalid message \<Rightarrow>
          let error = RuntimeError_secret CodeInvalidSecret message (allows_provisioning source);
              service_error = as_service_error error;
              s2 = on_inner (publish env PhaseHasInvalidSecret False (Some service_error) (HasInvalidSecret service_error)) s1
          in if \<not> allows_provisioning source then (Some (Inl error), s2)
             else go_on_with env has_receiver rounds (wait_for_secret env has_receiver (Some service_error) events s2))"

text \<open>
  \<^verbatim>\<open>supervise\<close> up to the join of the claim tasks, and the start of the runtime.
\<close>

definition supervise ::
  "sup_env \<Rightarrow> bool \<Rightarrow> provision_event list \<Rightarrow> agent_round list \<Rightarrow> sup_state \<Rightarrow> (RuntimeError + unit) option \<times> sup_state" where
  "supervise env has_receiver events rounds s = (case run_supervisor env has_receiver events rounds s of
     (None, s1) \<Rightarrow> (None, s1)
   | (Some result, s1) \<Rightarrow> (Some result, on_inner request_shutdown s1))"

definition start_with_event_sender ::
  "sup_env \<Rightarrow> (string \<Rightarrow> string + string) \<Rightarrow> Platform \<Rightarrow> u64 \<Rightarrow> RuntimeOptions \<Rightarrow> ServiceUpdate list \<Rightarrow> RuntimeError + RuntimeInner \<times> bool" where
  "start_with_event_sender env variant_parse platform start_time options event_tx =
     and_then (validate_options options) (\<lambda>_.
     let source = SecretSource_from_options options in
     and_then (case opt_secret options of
         None \<Rightarrow> Inr ()
       | Some secret \<Rightarrow> (case validate_secret (sv_secret env) (trim secret) of
           Inl e \<Rightarrow> Inl (RuntimeError_secret CodeInvalidSecret e False) | Inr _ \<Rightarrow> Inr ())) (\<lambda>_.
     let has_receiver = allows_provisioning source;
         context = \<lparr>ctx_secret_path = map_option path_display (secret_path_of source), ctx_version = version_string (opt_version options),
           ctx_start_time = start_time\<rparr> in
     and_then (make_inner variant_parse platform options source StateCache_default event_tx False context has_receiver) (\<lambda>i.
     Inr (publish env PhaseStarting False None LifecycleStarting i, has_receiver))))"

subsection \<open>Laws\<close>

lemma retry_delay_range: "1000 \<le> retry_delay attempt \<and> retry_delay attempt \<le> 30000"
proof -
  have "retry_delay attempt \<in> set TRANSIENT_RETRY_DELAYS"
    unfolding retry_delay_def by (rule nth_mem) (simp add: TRANSIENT_RETRY_DELAYS_def)
  then show ?thesis by (auto simp: TRANSIENT_RETRY_DELAYS_def)
qed

lemma publish_sel [simp]:
  "ri_secret_source (publish env phase has_secret e l i) = ri_secret_source i"
  "sc_lifecycle (ri_state_cache (publish env phase has_secret e l i)) = l"
  by (simp_all add: publish_def publish_state_def)

lemmas publish_defs = publish_starting_def publish_stopping_def publish_reconnecting_def

lemma inner_ops_source [simp]:
  "ri_secret_source (set_api api i) = ri_secret_source i" "ri_secret_source (set_agent_cancel t i) = ri_secret_source i"
  "sc_lifecycle (ri_state_cache (set_agent_cancel t i)) = sc_lifecycle (ri_state_cache i)"
  "ri_secret_source (request_shutdown i) = ri_secret_source i"
  "sc_lifecycle (ri_state_cache (request_shutdown i)) = sc_lifecycle (ri_state_cache i)" "ri_cancel_token (request_shutdown i)"
  by (simp_all add: set_api_def set_agent_cancel_def request_shutdown_def)

lemma apply_background_source [simp]: "ri_secret_source (apply_background env b i) = ri_secret_source i"
  by (cases b) (simp_all add: broadcast_control_state_def publish_status_def)

lemma fold_background_source [simp]: "ri_secret_source (fold (apply_background env) bs i) = ri_secret_source i"
  by (induction bs arbitrary: i) simp_all

fun quiet :: "background \<Rightarrow> bool" where
  "quiet (PolledState _) = False"
| "quiet _ = True"

lemma quiet_background:
  "list_all quiet bs \<Longrightarrow> sc_lifecycle (ri_state_cache (fold (apply_background env) bs i)) = sc_lifecycle (ri_state_cache i)"
proof (induction bs arbitrary: i)
  case (Cons b bs)
  then show ?case by (cases b) (simp_all add: broadcast_control_state_def publish_status_def)
qed simp

lemma on_inner_sel [simp]:
  "su_inner (on_inner f s) = f (su_inner s)" "su_secrets (on_inner f s) = su_secrets s" "su_slept (on_inner f s) = su_slept s"
  "su_fs (on_inner f s) = su_fs s"
  by (simp_all add: on_inner_def)

lemma run_agent_source: "run_agent env r i = (x, i') \<Longrightarrow> ri_secret_source i' = ri_secret_source i"
  by (auto simp: run_agent_def Let_def publish_defs split: if_splits)

lemma run_agent_stopping:
  "run_agent env r i = (Inr u, i') \<Longrightarrow> list_all quiet (ag_late r) \<Longrightarrow> sc_lifecycle (ri_state_cache i') = LifecycleStopping"
  by (auto simp: run_agent_def Let_def publish_defs quiet_background split: AgentStop.splits sum.splits)

text \<open>A stored or provisioned secret is valid.\<close>

definition valid_secret :: "sup_env \<Rightarrow> string \<Rightarrow> bool" where
  "valid_secret env x \<longleftrightarrow> validate_secret (sv_secret env) x = Inr x"

lemma validate_valid: "validate_secret (sv_secret env) t = Inr x \<Longrightarrow> valid_secret env x"
  by (auto simp: valid_secret_def validate_secret_def split: if_splits option.splits)

lemma persist_valid: "persist_secret_file (sv_secret env) p given w = (Inr x, w') \<Longrightarrow> valid_secret env x"
  by (auto simp: persist_secret_file_def intro: validate_valid split: sum.splits prod.splits)

lemma load_valid: "load_secret (sv_secret env) src w = (SecretReady x, w') \<Longrightarrow> valid_secret env x"
  by (auto simp: load_secret_def load_secret_from_path_def parse_secret_file_def intro: validate_valid
    split: SecretSource.splits sum.splits prod.splits fs_error.splits option.splits)

lemma provisioned_cases:
  assumes "wait_for_provisioned_secret (sv_secret env) p events w = ((r, acks), w')"
  shows "(r = Some (Inr (Some x)) \<longrightarrow> valid_secret env x) \<and> (r = Some (Inl e) \<longrightarrow> ProvisionClosed \<in> set events) \<and>
    (r = Some (Inr None) \<longrightarrow> ProvisionCancelled \<in> set events)"
  using assms
proof (induction events arbitrary: w acks)
  case (Cons ev events)
  then show ?case by (cases ev) (fastforce dest: persist_valid split: prod.splits sum.splits)+
qed simp

text \<open>
  What an iteration keeps: the source of the secret, valid secrets, delays within their range. What it returns: a clean end means that the runtime was cancelled, and the state shown is
  stopping; an error has a reason that a retry would not remove. \<open>round_cancelled\<close>: the runtime was cancelled at one of the moments at which the round looks.
\<close>

definition round_cancelled :: "agent_round \<Rightarrow> bool" where
  "round_cancelled r \<longleftrightarrow> ag_cancelled r \<or> \<not> ag_slept r \<or> ag_cancelled_after r \<or> ProvisionCancelled \<in> set (ag_provision r) \<or>
     (ag_setup r = Inr () \<and> (case ag_finished r of None \<Rightarrow> True | Some (runtime_cancelled, _) \<Rightarrow> runtime_cancelled))"

definition recoverable :: "sup_env \<Rightarrow> SetupError \<Rightarrow> bool" where
  "recoverable env e \<longleftrightarrow> is_transient_setup_error e \<or> is_invalid_agent_secret_error e \<or> is_agent_disabled_over_limit_error env e"

definition sup_kept :: "sup_env \<Rightarrow> sup_state \<Rightarrow> sup_state \<Rightarrow> bool" where
  "sup_kept env s s' \<longleftrightarrow> ri_secret_source (su_inner s') = ri_secret_source (su_inner s) \<and>
     set (su_secrets s') \<subseteq> set (su_secrets s) \<union> Collect (valid_secret env) \<and> set (su_slept s') \<subseteq> set (su_slept s) \<union> {1000..30000}"

lemma sup_kept_refl: "sup_kept env s s"
  by (auto simp: sup_kept_def)

lemma sup_kept_trans: "sup_kept env s s1 \<Longrightarrow> sup_kept env s1 s2 \<Longrightarrow> sup_kept env s s2"
  by (auto simp: sup_kept_def)

definition shows_stopping :: "sup_state \<Rightarrow> bool" where
  "shows_stopping s \<longleftrightarrow> sc_lifecycle (ri_state_cache (su_inner s)) = LifecycleStopping"

lemma wait_for_secret_cases:
  assumes "wait_for_secret env has_receiver last_error events s = (r, s')"
  shows "sup_kept env s s'" "r = Some (Inr (Some x)) \<Longrightarrow> valid_secret env x" "r = Some (Inr None) \<Longrightarrow> shows_stopping s' \<and> ProvisionCancelled \<in> set events"
    "r = Some (Inl e) \<Longrightarrow> ProvisionClosed \<in> set events \<or> \<not> has_receiver \<or> \<not> allows_provisioning (ri_secret_source (su_inner s))"
  using assms provisioned_cases [where x = x and e = e]
  by (fastforce simp: wait_for_secret_def sup_kept_def publish_defs shows_stopping_def allows_provisioning_def secret_path_of_def Let_def
    split: SecretSource.splits if_splits prod.splits option.splits sum.splits)+

lemma wait_for_retry_cases:
  assumes "wait_for_retry env slept secret attempt s = (step, s')"
  shows "sup_kept env s s'" "step = LoopReturn x \<Longrightarrow> x = Inr () \<and> shows_stopping s' \<and> \<not> slept"
    "step = LoopAgain secret1 attempt1 \<Longrightarrow> secret1 = secret" "step \<noteq> LoopWaiting"
  using assms retry_delay_range [of attempt]
  by (auto simp: wait_for_retry_def sup_kept_def publish_defs shows_stopping_def split: if_splits)

definition hopeless :: "sup_env \<Rightarrow> bool \<Rightarrow> SecretSource \<Rightarrow> agent_round \<Rightarrow> bool" where
  "hopeless env has_receiver source r \<longleftrightarrow> ProvisionClosed \<in> set (ag_provision r) \<or> \<not> has_receiver \<or> \<not> allows_provisioning source \<or>
     (\<exists>e. ag_setup r = Inl e \<and> \<not> recoverable env e)"

definition step_ok :: "sup_env \<Rightarrow> bool \<Rightarrow> agent_round \<Rightarrow> sup_state \<Rightarrow> loop_step \<Rightarrow> sup_state \<Rightarrow> bool" where
  "step_ok env has_receiver r s step s' \<longleftrightarrow> sup_kept env s s' \<and> (case step of
     LoopAgain secret _ \<Rightarrow> valid_secret env secret
   | LoopReturn (Inr _) \<Rightarrow> round_cancelled r \<and> (list_all quiet (ag_late r) \<longrightarrow> shows_stopping s')
   | LoopReturn (Inl _) \<Rightarrow> hopeless env has_receiver (ri_secret_source (su_inner s)) r
   | LoopWaiting \<Rightarrow> True)"

lemma wait_for_retry_ok:
  assumes "wait_for_retry env (ag_slept r) secret attempt s1 = (step, s')" "valid_secret env secret" "sup_kept env s s1"
  shows "step_ok env has_receiver r s step s'"
  using wait_for_retry_cases [OF assms(1)] sup_kept_trans [OF assms(3)] assms(2)
  by (cases step) (auto simp: step_ok_def round_cancelled_def)

lemma sup_kept_publish [simp]: "sup_kept env s (on_inner (publish env phase has_secret e l) s)"
  by (auto simp: sup_kept_def)

lemma setup_failed_ok:
  assumes "setup_failed env has_receiver r secret attempt error s = (step, s')" "valid_secret env secret" "ag_setup r = Inl error"
  shows "step_ok env has_receiver r s step s'"
proof -
  let ?src = "ri_secret_source (su_inner s)"
  consider (invalid) "allows_provisioning ?src" "is_invalid_agent_secret_error error"
    | (limit) "\<not> (allows_provisioning ?src \<and> is_invalid_agent_secret_error error)" "is_agent_disabled_over_limit_error env error"
    | (transient) "\<not> (allows_provisioning ?src \<and> is_invalid_agent_secret_error error)" "\<not> is_agent_disabled_over_limit_error env error"
        "is_transient_setup_error error"
    | (permanent) "\<not> (allows_provisioning ?src \<and> is_invalid_agent_secret_error error)" "\<not> is_agent_disabled_over_limit_error env error"
        "\<not> is_transient_setup_error error" by blast
  then show ?thesis
  proof cases
    case invalid
    let ?s = "on_inner (set_api None) s"
    obtain res s1 where w: "wait_for_secret env has_receiver (Some (as_service_error (RuntimeError_secret CodeInvalidSecret secret_no_longer_valid True)))
        (ag_provision r) ?s = (res, s1)" by fastforce
    have "sup_kept env s s1" using wait_for_secret_cases(1) [OF w] by (simp add: sup_kept_def)
    then show ?thesis
      using assms(1) invalid wait_for_secret_cases(2-4) [OF w]
      by (auto simp: setup_failed_def w step_ok_def hopeless_def round_cancelled_def split: option.splits sum.splits)
  next
    case limit
    then show ?thesis
      using assms(1,2)
      by (auto simp: setup_failed_def Let_def step_ok_def sup_kept_def shows_stopping_def publish_defs AGENT_LIMIT_RETRY_INTERVAL_def round_cancelled_def split: if_splits)
  next
    case transient
    let ?s = "on_inner (publish_reconnecting env True (Some (as_service_error (RuntimeError_setup (setup_error_user_message env error) True)))) s"
    have "wait_for_retry env (ag_slept r) secret attempt ?s = (step, s')" 
      using assms(1) unfolding setup_failed_def Let_def if_not_P [OF transient(1)] if_not_P [OF transient(2)] if_P [OF transient(3)] .
    then show ?thesis by (rule wait_for_retry_ok [OF _ assms(2)]) (simp add: publish_defs)
  next
    case permanent
    then show ?thesis
      using assms(1,3) by (auto simp: setup_failed_def Let_def step_ok_def hopeless_def recoverable_def)
  qed
qed

lemma run_agent_stopped:
  "run_agent env r i = (Inr u, i') \<Longrightarrow> ag_setup r = Inr () \<Longrightarrow> round_cancelled r"
  by (auto simp: run_agent_def Let_def round_cancelled_def agent_stop_def classify_agent_completion_def
    split: AgentStop.splits sum.splits option.splits if_splits)

lemma agent_built_ok:
  assumes "agent_built env r secret attempt s = (step, s')" "valid_secret env secret" "ag_setup r = Inr ()"
  shows "step_ok env has_receiver r s step s'"
proof -
  let ?s1 = "on_inner (publish env PhaseRunning True None LifecycleStarting) s"
  obtain res i where run: "run_agent env r (su_inner ?s1) = (res, i)" by fastforce
  have kept: "sup_kept env s (?s1\<lparr>su_inner := i\<rparr>)" using run_agent_source [OF run] by (simp add: sup_kept_def)
  show ?thesis
  proof (cases res)
    case (Inr u)
    have "list_all quiet (ag_late r) \<Longrightarrow> sc_lifecycle (ri_state_cache i) = LifecycleStopping"
      using run_agent_stopping run Inr by blast
    moreover have "round_cancelled r" using run_agent_stopped [OF run [unfolded Inr] assms(3)] .
    ultimately show ?thesis
      using assms(1) kept Inr by (auto simp: agent_built_def Let_def run[simplified] step_ok_def shows_stopping_def)
  next
    case (Inl e)
    show ?thesis
    proof (cases "ag_cancelled_after r")
      case True
      then show ?thesis
        using assms(1) kept Inl
        by (auto simp: agent_built_def Let_def run[simplified] step_ok_def shows_stopping_def publish_defs sup_kept_def round_cancelled_def)
    next
      case False
      let ?s2 = "on_inner (publish_reconnecting env True (Some (as_service_error (RuntimeError_setup (runtime_error_message e) True))))
        (?s1\<lparr>su_inner := i\<rparr>)"
      have "wait_for_retry env (ag_slept r) secret attempt ?s2 = (step, s')"
        using assms(1) Inl False by (simp add: agent_built_def Let_def run[simplified])
      then show ?thesis
        by (rule wait_for_retry_ok [OF _ assms(2)]) (use sup_kept_trans [OF kept sup_kept_publish] in \<open>simp add: publish_defs\<close>)
    qed
  qed
qed

lemma agent_iteration_ok:
  assumes "agent_iteration env has_receiver r secret attempt s = (step, s')" "valid_secret env secret"
  shows "step_ok env has_receiver r s step s'"
proof (cases "ag_cancelled r")
  case True
  then show ?thesis using assms(1) by (auto simp: agent_iteration_def step_ok_def publish_defs shows_stopping_def round_cancelled_def)
next
  case False
  define s3 where "s3 = (let s1 = on_inner (set_api (Some (PlayitApi_create (ri_api_base (su_inner s)) (Some secret)))) s;
      s2 = (case ag_rundata r of
        Some tunnels \<Rightarrow> s1\<lparr>su_lookup := update_from_run_data (sv_ip_from_str env) tunnels (su_lookup s1)\<rparr> | None \<Rightarrow> s1)
    in on_inner (publish_starting env True) (s2\<lparr>su_secrets := su_secrets s2 @ [secret]\<rparr>))"
  have s3: "sup_kept env s s3" "ri_secret_source (su_inner s3) = ri_secret_source (su_inner s)"
    using assms(2) by (auto simp: s3_def Let_def sup_kept_def publish_defs split: option.splits)
  have "step_ok env has_receiver r s3 step s'"
    using assms(1) False agent_built_ok [OF _ assms(2)] setup_failed_ok [OF _ assms(2)]
    by (auto simp: agent_iteration_def s3_def Let_def split: sum.splits)
  then show ?thesis using s3 sup_kept_trans [OF s3(1)] by (auto simp: step_ok_def split: loop_step.splits sum.splits)
qed

text \<open>The same for the whole loop and for the supervisor.\<close>

definition run_ok :: "sup_env \<Rightarrow> bool \<Rightarrow> agent_round list \<Rightarrow> sup_state \<Rightarrow> (RuntimeError + unit) option \<Rightarrow> sup_state \<Rightarrow> bool" where
  "run_ok env has_receiver rounds s result s' \<longleftrightarrow> sup_kept env s s' \<and> (case result of
     None \<Rightarrow> True
   | Some (Inr _) \<Rightarrow> list_ex round_cancelled rounds \<and> (list_all (\<lambda>r. list_all quiet (ag_late r)) rounds \<longrightarrow> shows_stopping s')
   | Some (Inl _) \<Rightarrow> \<not> has_receiver \<or> (\<exists>r \<in> set rounds. hopeless env has_receiver (ri_secret_source (su_inner s)) r))"

lemma build_agent_ok:
  assumes "build_agent_with_reprovisioning env has_receiver rounds secret attempt s = (result, s')" "valid_secret env secret"
  shows "run_ok env has_receiver rounds s result s'"
  using assms
proof (induction rounds arbitrary: secret attempt s)
  case Nil
  then show ?case by (simp add: run_ok_def sup_kept_refl)
next
  case (Cons r rounds)
  obtain step s1 where it: "agent_iteration env has_receiver r secret attempt s = (step, s1)" by fastforce
  note ok = agent_iteration_ok [OF it Cons.prems(2)]
  show ?case
  proof (cases step)
    case (LoopAgain secret1 attempt1)
    have kept: "sup_kept env s s1" and valid: "valid_secret env secret1" using ok LoopAgain by (simp_all add: step_ok_def)
    have "build_agent_with_reprovisioning env has_receiver rounds secret1 attempt1 s1 = (result, s')"
      using Cons.prems(1) LoopAgain by (simp add: it)
    from Cons.IH [OF this valid] kept show ?thesis
      by (auto simp: run_ok_def sup_kept_def split: option.splits sum.splits)
  next
    case (LoopReturn x)
    then show ?thesis
      using ok Cons.prems(1) by (cases x) (auto simp: run_ok_def step_ok_def it)
  next
    case LoopWaiting
    then show ?thesis using ok Cons.prems(1) by (auto simp: run_ok_def step_ok_def it)
  qed
qed

definition sup_ok ::
  "sup_env \<Rightarrow> bool \<Rightarrow> provision_event list \<Rightarrow> agent_round list \<Rightarrow> sup_state \<Rightarrow> (RuntimeError + unit) option \<Rightarrow> sup_state \<Rightarrow> bool" where
  "sup_ok env has_receiver events rounds s result s' \<longleftrightarrow> sup_kept env s s' \<and> (case result of
     None \<Rightarrow> True
   | Some (Inr _) \<Rightarrow> (ProvisionCancelled \<in> set events \<or> list_ex round_cancelled rounds) \<and>
       (list_all (\<lambda>r. list_all quiet (ag_late r)) rounds \<longrightarrow> shows_stopping s')
   | Some (Inl _) \<Rightarrow> \<not> has_receiver \<or> \<not> allows_provisioning (ri_secret_source (su_inner s)) \<or> ProvisionClosed \<in> set events \<or>
       (\<exists>r \<in> set rounds. hopeless env has_receiver (ri_secret_source (su_inner s)) r))"

lemma build_agent_sup_ok:
  assumes "build_agent_with_reprovisioning env has_receiver rounds secret attempt s1 = (result, s')" "valid_secret env secret" "sup_kept env s s1"
  shows "sup_ok env has_receiver events rounds s result s'"
proof -
  have "ri_secret_source (su_inner s1) = ri_secret_source (su_inner s)" using assms(3) by (simp add: sup_kept_def)
  then show ?thesis
    using build_agent_ok [OF assms(1,2)] sup_kept_trans [OF assms(3)] by (auto simp: run_ok_def sup_ok_def split: option.splits sum.splits)
qed

lemma go_on_with_ok:
  assumes "go_on_with env has_receiver rounds (wait_for_secret env has_receiver err events s1) = (result, s')" "sup_kept env s s1"
  shows "sup_ok env has_receiver events rounds s result s'"
proof -
  obtain x s2 where x: "wait_for_secret env has_receiver err events s1 = (x, s2)" by fastforce
  note c = wait_for_secret_cases [OF x]
  have kept: "sup_kept env s s2" by (rule sup_kept_trans [OF assms(2) c(1)])
  have src: "ri_secret_source (su_inner s1) = ri_secret_source (su_inner s)" using assms(2) by (simp add: sup_kept_def)
  consider (waiting) "x = None" | (err) e1 where "x = Some (Inl e1)" | (stop) "x = Some (Inr None)"
    | (secret) secret where "x = Some (Inr (Some secret))" by (metis not_None_eq sum.exhaust_sel)
  then show ?thesis
  proof cases
    case secret
    then have "build_agent_with_reprovisioning env has_receiver rounds secret 0 s2 = (result, s')" using assms(1) by (simp add: x)
    then show ?thesis by (rule build_agent_sup_ok [OF _ c(2) [OF secret] kept])
  qed (use assms(1) kept c(3,4) src in \<open>auto simp: x sup_ok_def\<close>)
qed

lemma run_supervisor_ok:
  assumes "run_supervisor env has_receiver events rounds s = (result, s')"
  shows "sup_ok env has_receiver events rounds s result s'"
proof -
  let ?src = "ri_secret_source (su_inner s)"
  obtain loaded w where l: "load_secret (sv_secret env) ?src (su_fs s) = (loaded, w)" by fastforce
  let ?s1 = "s\<lparr>su_fs := w\<rparr>"
  show ?thesis
  proof (cases loaded)
    case (SecretReady secret)
    then have "build_agent_with_reprovisioning env has_receiver rounds secret 0 (on_inner (publish_starting env True) ?s1) = (result, s')"
      using assms by (simp add: run_supervisor_def l)
    then show ?thesis
      by (rule build_agent_sup_ok [OF _ load_valid [OF l [unfolded SecretReady]]]) (auto simp: sup_kept_def publish_defs)
  next
    case SecretMissing
    then have "go_on_with env has_receiver rounds (wait_for_secret env has_receiver None events ?s1) = (result, s')"
      using assms by (simp add: run_supervisor_def l)
    then show ?thesis by (rule go_on_with_ok) (simp add: sup_kept_def)
  next
    case (SecretInvalid message)
    let ?e = "as_service_error (RuntimeError_secret CodeInvalidSecret message (allows_provisioning ?src))"
    let ?s2 = "on_inner (publish env PhaseHasInvalidSecret False (Some ?e) (HasInvalidSecret ?e)) ?s1"
    have kept: "sup_kept env s ?s2" by (auto simp: sup_kept_def)
    show ?thesis
    proof (cases "allows_provisioning ?src")
      case True
      then have "go_on_with env has_receiver rounds (wait_for_secret env has_receiver (Some ?e) events ?s2) = (result, s')"
        using assms SecretInvalid by (simp add: run_supervisor_def l Let_def)
      then show ?thesis by (rule go_on_with_ok) (rule kept)
    next
      case False
      then show ?thesis using assms SecretInvalid kept by (auto simp: run_supervisor_def l Let_def sup_ok_def)
    qed
  qed
qed

text \<open>
  Rounds that fail for a reason that passes by itself: every one is an attempt and is followed by a delay. The delays grow with the failures so far, except that
  the agent limit always means half a minute and does not count as a failure.
\<close>

definition steady :: "sup_env \<Rightarrow> agent_round \<Rightarrow> bool" where
  "steady env r \<longleftrightarrow> \<not> round_cancelled r \<and> (case ag_setup r of Inl e \<Rightarrow> recoverable env e \<and> \<not> is_invalid_agent_secret_error e | Inr _ \<Rightarrow> True)"

definition over_limit :: "sup_env \<Rightarrow> agent_round \<Rightarrow> bool" where
  "over_limit env r \<longleftrightarrow> (\<exists>e. ag_setup r = Inl e \<and> is_agent_disabled_over_limit_error env e)"

fun retry_delays :: "sup_env \<Rightarrow> nat \<Rightarrow> agent_round list \<Rightarrow> nat list" where
  "retry_delays env n [] = []"
| "retry_delays env n (r # rs) =
     (if over_limit env r then 30000 # retry_delays env n rs
      else (if n < 5 then [1000, 2000, 4000, 8000, 15000] ! n else 30000) # retry_delays env (n + 1) rs)"

lemma retry_delays_cong: "min n 5 = min m 5 \<Longrightarrow> retry_delays env n rs = retry_delays env m rs"
proof (induction rs arbitrary: n m)
  case (Cons r rs)
  have "min (n + 1) 5 = min (m + 1) 5" "n < 5 \<longleftrightarrow> m < 5" "n < 5 \<Longrightarrow> n = m" using Cons.prems by (auto simp: min_def split: if_splits)
  then show ?case using Cons.IH [of n m] Cons.IH [of "n + 1" "m + 1"] Cons.prems by auto
qed simp

lemma retry_delay_eq: "retry_delay attempt = (if unat attempt < 5 then [1000, 2000, 4000, 8000, 15000] ! unat attempt else 30000)"
proof -
  have "TRANSIENT_RETRY_DELAYS ! min n 5 = (if n < 5 then [1000, 2000, 4000, 8000, 15000] ! n else 30000)" for n
  proof (cases "n < 5")
    case True
    then have "n \<in> {0, 1, 2, 3, 4}" by auto
    then show ?thesis by (auto simp: TRANSIENT_RETRY_DELAYS_def)
  qed (simp add: TRANSIENT_RETRY_DELAYS_def)
  moreover have "length TRANSIENT_RETRY_DELAYS - 1 = 5" by (simp add: TRANSIENT_RETRY_DELAYS_def)
  ultimately show ?thesis by (simp only: retry_delay_def)
qed

lemma steady_iteration:
  assumes "steady env r"
  shows "\<exists>s1. agent_iteration env has_receiver r secret attempt s = (LoopAgain secret (if over_limit env r then attempt else saturating_add attempt 1), s1) \<and>
    su_secrets s1 = su_secrets s @ [secret] \<and> su_slept s1 = su_slept s @ [if over_limit env r then 30000 else retry_delay attempt]"
proof (cases "ag_setup r")
  case (Inl e)
  then show ?thesis
    using assms
    by (auto simp: steady_def round_cancelled_def recoverable_def over_limit_def agent_iteration_def setup_failed_def wait_for_retry_def
      AGENT_LIMIT_RETRY_INTERVAL_def Let_def split: option.split)
next
  case (Inr u)
  have "ag_finished r \<noteq> None" "\<And>c x. ag_finished r = Some (c, x) \<Longrightarrow> \<not> c" "ag_slept r" "\<not> ag_cancelled r" "\<not> ag_cancelled_after r"
    using assms Inr by (auto simp: steady_def round_cancelled_def split: option.splits)
  then have "\<exists>res. agent_stop r = StopUnexpected res"
    by (auto simp: agent_stop_def classify_agent_completion_def)
  then have "\<exists>e i'. run_agent env r i = (Inl e, i')" for i
    by (auto simp: run_agent_def Let_def split: sum.split)
  then show ?thesis
    using Inr \<open>ag_slept r\<close> \<open>\<not> ag_cancelled r\<close> \<open>\<not> ag_cancelled_after r\<close>
    by (auto simp: agent_iteration_def agent_built_def wait_for_retry_def over_limit_def Let_def split: option.split prod.split sum.split)
      (metis Pair_inject sum.distinct(1))+
qed

lemma steady_rounds:
  assumes "list_all (steady env) rounds"
  shows "\<exists>s'. build_agent_with_reprovisioning env has_receiver rounds secret attempt s = (None, s') \<and>
    su_secrets s' = su_secrets s @ replicate (length rounds) secret \<and> su_slept s' = su_slept s @ retry_delays env (unat attempt) rounds"
  using assms
proof (induction rounds arbitrary: attempt s)
  case (Cons r rounds)
  let ?next = "if over_limit env r then attempt else saturating_add attempt 1"
  obtain s1 where s1: "agent_iteration env has_receiver r secret attempt s = (LoopAgain secret ?next, s1)"
    "su_secrets s1 = su_secrets s @ [secret]" "su_slept s1 = su_slept s @ [if over_limit env r then 30000 else retry_delay attempt]"
    using steady_iteration [of env r has_receiver secret attempt s] Cons.prems by auto
  have "retry_delays env (unat (saturating_add attempt 1)) rounds = retry_delays env (unat attempt + 1) rounds"
    by (rule retry_delays_cong) (simp add: failures_grow min_def)
  moreover obtain s' where "build_agent_with_reprovisioning env has_receiver rounds secret ?next s1 = (None, s')"
    "su_secrets s' = su_secrets s1 @ replicate (length rounds) secret" "su_slept s' = su_slept s1 @ retry_delays env (unat ?next) rounds"
    using Cons.IH [of ?next s1] Cons.prems by auto
  ultimately show ?case
    using s1 by (auto simp: retry_delay_eq)
qed simp

definition plain_round :: agent_round where
  "plain_round = \<lparr>ag_cancelled = False, ag_rundata = None, ag_setup = Inl FailedToConnect, ag_background = [], ag_finished = None, ag_late = [],
     ag_cancelled_after = False, ag_slept = True, ag_provision = []\<rparr>"

definition example_sup_env :: sup_env where
  "example_sup_env = \<lparr>sv_secret = plain_secret_env, sv_ip_from_str = (\<lambda>_. None), sv_pid = 1, sv_now = (\<lambda>_. 0), sv_parse_register = (\<lambda>_. None),
     sv_setup_text = (\<lambda>_. []), sv_api_text = (\<lambda>_. []), sv_io_text = (\<lambda>_. [])\<rparr>"

definition example_sup :: sup_state where
  "example_sup = \<lparr>su_inner = example_inner,
     su_fs = example_fs\<lparr>fs_files := (\<lambda>q. if q = opt_secret_path example_options then Some \<lparr>content_of = ''de'', mode_of = 384\<rparr> else None)\<rparr>,
     su_lookup = Map.empty, su_secrets = [], su_slept = []\<rparr>"

lemma example_inner_sel: "ri_secret_source example_inner = FileSecret (opt_secret_path example_options)"
  by (simp add: example_inner_def make_inner_def agent_version_of_def SecretSource_from_options_def example_options_def)

subsection \<open>Properties\<close>

text \<open>
  C24: The runtime does not give up for a reason that may pass. With a secret file, an open provisioning channel and failures of the setup that are transient, an
  invalid secret or the agent limit, the supervisor ends only when it is cancelled, at one of the moments at which it looks, and then without an error; every delay is between one
  and thirty seconds. With a stored secret and failures that are transient or the agent limit, or agents that end by themselves, every round is an attempt with that secret followed by a
  delay: 1, 2, 4, 8, 15 and then always 30 seconds, growing with the failures so far, and half a minute for the agent limit, which does not count.
\<close>

theorem supervisor_persists:
  assumes "ri_secret_source (su_inner s) = FileSecret p" "has_receiver" "ProvisionClosed \<notin> set events"
    and "list_all (\<lambda>r. ProvisionClosed \<notin> set (ag_provision r) \<and> (case ag_setup r of Inl e \<Rightarrow> recoverable env e | Inr _ \<Rightarrow> True)) rounds"
    and "supervise env has_receiver events rounds s = (result, s')"
  shows "(result = None \<or> result = Some (Inr ()) \<and> (ProvisionCancelled \<in> set events \<or> list_ex round_cancelled rounds)) \<and>
    set (su_slept s') \<subseteq> set (su_slept s) \<union> {1000..30000} \<and>
    (\<forall>secret w. load_secret (sv_secret env) (FileSecret p) (su_fs s) = (SecretReady secret, w) \<and> list_all (steady env) rounds \<longrightarrow>
       result = None \<and> su_secrets s' = su_secrets s @ replicate (length rounds) secret \<and> su_slept s' = su_slept s @ retry_delays env 0 rounds)"
proof -
  obtain x s1 where x: "run_supervisor env has_receiver events rounds s = (x, s1)" by fastforce
  have "\<not> (\<exists>r \<in> set rounds. hopeless env has_receiver (FileSecret p) r)"
    using assms(2,4) by (fastforce simp: hopeless_def list_all_iff allows_provisioning_def)
  moreover have res: "result = x" "su_slept s' = su_slept s1" "su_secrets s' = su_secrets s1"
    using assms(5) by (auto simp: supervise_def x split: option.splits)
  moreover have "sup_ok env has_receiver events rounds s x s1" by (rule run_supervisor_ok [OF x])
  ultimately have "(result = None \<or> result = Some (Inr ()) \<and> (ProvisionCancelled \<in> set events \<or> list_ex round_cancelled rounds)) \<and>
      set (su_slept s') \<subseteq> set (su_slept s) \<union> {1000..30000}"
    using assms(1,2,3) by (auto simp: sup_ok_def sup_kept_def allows_provisioning_def split: option.splits sum.splits)
  moreover have "result = None \<and> su_secrets s' = su_secrets s @ replicate (length rounds) secret \<and> su_slept s' = su_slept s @ retry_delays env 0 rounds"
    if "load_secret (sv_secret env) (FileSecret p) (su_fs s) = (SecretReady secret, w)" "list_all (steady env) rounds" for secret w
    using steady_rounds [OF that(2), of has_receiver secret 0 "on_inner (publish_starting env True) (s\<lparr>su_fs := w\<rparr>)"] that(1) x res
    by (auto simp: run_supervisor_def assms(1))
  ultimately show ?thesis by blast
qed

theorem supervisor_persists_witness:
  "\<exists>s'. supervise example_sup_env True [] [plain_round, plain_round] example_sup = (None, s') \<and>
     su_secrets s' = [''de'', ''de''] \<and> su_slept s' = [1000, 2000]"
proof -
  obtain result s' where r: "supervise example_sup_env True [] [plain_round, plain_round] example_sup = (result, s')" by fastforce
  have "load_secret (sv_secret example_sup_env) (FileSecret (opt_secret_path example_options)) (su_fs example_sup) = (SecretReady ''de'', su_fs example_sup)"
    by (simp add: example_sup_def load_secret_def load_secret_from_path_def fs_read_to_string_def
      next_fault_def example_fs_def parse_secret_file_def example_sup_env_def example_secret)
  moreover have "list_all (steady example_sup_env) [plain_round, plain_round]"
    by (simp add: steady_def round_cancelled_def plain_round_def recoverable_def)
  ultimately show ?thesis
    using supervisor_persists [OF _ _ _ _ r] r
    by (auto simp: example_sup_def example_inner_sel plain_round_def recoverable_def over_limit_def is_agent_disabled_over_limit_error_def)
qed

text \<open>
  C25: When the supervisor has ended, the runtime is cancelled, and every secret that an agent was built with had passed validation. After an end without an
  error the state shown is \<^verbatim>\<open>Stopping\<close>, provided that no poll of the account was still under way when the agent was cancelled: such a
  poll publishes \<^verbatim>\<open>Running\<close> after it.
\<close>

theorem supervisor_stops:
  assumes "supervise env has_receiver events rounds s = (Some result, s')"
  shows "ri_cancel_token (su_inner s') \<and> set (su_secrets s') \<subseteq> set (su_secrets s) \<union> Collect (valid_secret env) \<and>
    (result = Inr () \<and> list_all (\<lambda>r. list_all quiet (ag_late r)) rounds \<longrightarrow> sc_lifecycle (ri_state_cache (su_inner s')) = LifecycleStopping)"
proof -
  obtain x s1 where x: "run_supervisor env has_receiver events rounds s = (x, s1)" by fastforce
  show ?thesis
    using run_supervisor_ok [OF x] assms
    by (auto simp: supervise_def x sup_ok_def sup_kept_def shows_stopping_def split: option.splits)
qed

theorem supervisor_stops_witness:
  "\<exists>s'. supervise example_sup_env True [] [plain_round, plain_round\<lparr>ag_setup := Inr ()\<rparr>] example_sup = (Some (Inr ()), s') \<and>
     ri_cancel_token (su_inner s') \<and> sc_lifecycle (ri_state_cache (su_inner s')) = LifecycleStopping"
proof -
  have "\<exists>s'. supervise example_sup_env True [] [plain_round, plain_round\<lparr>ag_setup := Inr ()\<rparr>] example_sup = (Some (Inr ()), s')"
    by (simp add: supervise_def run_supervisor_def example_sup_def example_inner_sel load_secret_def load_secret_from_path_def fs_read_to_string_def
      next_fault_def example_fs_def parse_secret_file_def example_sup_env_def example_secret agent_iteration_def plain_round_def setup_failed_def
      is_agent_disabled_over_limit_error_def wait_for_retry_def Let_def publish_defs agent_built_def run_agent_def agent_stop_def)
  then obtain s' where r: "supervise example_sup_env True [] [plain_round, plain_round\<lparr>ag_setup := Inr ()\<rparr>] example_sup = (Some (Inr ()), s')" by blast
  then show ?thesis using supervisor_stops [OF r] by (auto simp: plain_round_def)
qed

end
