(* ===== verification/Ipc_Protocol.thy ===== *)
theory Ipc_Protocol
  imports Runtime_Handle
begin

section \<open>The protocol between the clients and the service\<close>

text \<open>
  \<^verbatim>\<open>packages/playit-ipc/src/ipc.rs\<close> and \<^verbatim>\<open>endpoint.rs\<close>: the envelopes, the reading and writing of frames and the client. A frame is one JSON text on a
  line of its own. \<^verbatim>\<open>serde_json\<close> is the parameter \<open>'j json_lib\<close>, where \<open>'j\<close> is the type of the texts; the stream under the line codec is the parameter
  \<open>('j, 'w) frame_stream\<close>, whose operations act on a world of type \<open>'w\<close>: it gives the next line, an error of the codec or nothing once the
  connection is closed, and sends a line. A response struct with a single field is its field.
\<close>

subsection \<open>Endpoints\<close>

datatype IpcEndpoint = Filesystem string | Namespaced string

fun endpoint_parse :: "string \<Rightarrow> IpcEndpoint" where
  "endpoint_parse (CHR ''@'' # name) = Namespaced name"
| "endpoint_parse value = Filesystem value"

fun as_display_path :: "IpcEndpoint \<Rightarrow> string" where
  "as_display_path (Filesystem p) = p"
| "as_display_path (Namespaced name) = CHR ''@'' # name"

fun is_filesystem :: "IpcEndpoint \<Rightarrow> bool" where
  "is_filesystem (Filesystem _) = True"
| "is_filesystem (Namespaced _) = False"

definition pipe_prefix :: string where
  "pipe_prefix = [CHR 0x5C, CHR 0x5C, CHR ''.'', CHR 0x5C] @ ''pipe'' @ [CHR 0x5C]"

fun is_windows_named_pipe :: "IpcEndpoint \<Rightarrow> bool" where
  "is_windows_named_pipe (Filesystem p) \<longleftrightarrow> take (length pipe_prefix) p = pipe_prefix"
| "is_windows_named_pipe (Namespaced _) \<longleftrightarrow> False"

fun filesystem_path :: "IpcEndpoint \<Rightarrow> string option" where
  "filesystem_path (Filesystem p) = Some p"
| "filesystem_path (Namespaced _) = None"

text \<open>As built for Linux.\<close>

definition default_socket_path :: string where
  "default_socket_path = ''/run/playit/playitd.sock''"

subsection \<open>Messages\<close>

datatype ServiceRequest =
    ReqSubscribe
  | ReqGetStatus
  | ReqGetState
  | ReqGetTunnels
  | ReqGetAccountTunnels
  | ReqCreateTunnel u16 TunnelProtocol "string option" "string option"
  | ReqCreateMinecraftJavaTunnel u16 "string option" "string option"
  | ReqDeleteTunnel string
  | ReqReassignTunnel string u16 "string option"
  | ReqGetAccount
  | ReqStartClaim
  | ReqStop
  | ReqSetSecret string
  | ReqResetSecret
  | ReqGetSecretPath
  | ReqGetAccountLoginUrl

record UnknownTaggedMessage =
  um_type_name :: string
  um_rest :: "(string \<times> json_value) list"

datatype ServiceRequestOrUnknown = KnownRequest ServiceRequest | UnknownRequest UnknownTaggedMessage

record RequestEnvelope =
  rq_ipc_version :: u32
  rq_request_id :: u64
  rq_request :: ServiceRequest

record IncomingRequestEnvelope =
  irq_ipc_version :: u32
  irq_request_id :: u64
  irq_request :: ServiceRequestOrUnknown

datatype ServiceResponse =
    RespSubscribe SubscribeResponse
  | RespStatus ServiceStatus
  | RespState AgentLifecycle
  | RespTunnels TunnelListResponse
  | RespAccountTunnels "AccountTunnelState list"
  | RespCreateTunnel TunnelCreateResponse
  | RespDeleteTunnel CommandResponse
  | RespReassignTunnel CommandResponse
  | RespAccount AccountResponse
  | RespClaim string
  | RespStop CommandResponse
  | RespSetSecret CommandResponse
  | RespResetSecret CommandResponse
  | RespSecretPath "string option"
  | RespAccountLoginUrl string
  | RespError ServiceError

record ResponseEnvelope =
  rs_ipc_version :: u32
  rs_request_id :: u64
  rs_response :: ServiceResponse

record EventEnvelope =
  ev_ipc_version :: u32
  ev_event :: ServiceUpdate

record UnknownTaggedEvent =
  ue_type_name :: string
  ue_data :: "json_value option"

datatype ServiceUpdateOrUnknown = KnownUpdate ServiceUpdate | UnknownUpdate UnknownTaggedEvent

record IncomingEventEnvelope =
  iev_ipc_version :: u32
  iev_event :: ServiceUpdateOrUnknown

text \<open>\<^verbatim>\<open>HelloEnvelope\<close> is its field \<^verbatim>\<open>protocol\<close>.\<close>

datatype ServerEnvelope = SrvHello ProtocolInfo | SrvResponse ResponseEnvelope | SrvEvent EventEnvelope

datatype IncomingServerEnvelope = InHello ProtocolInfo | InResponse ResponseEnvelope | InEvent IncomingEventEnvelope

fun service_response_name :: "ServiceResponse \<Rightarrow> string" where
  "service_response_name (RespSubscribe _) = ''subscribe''"
| "service_response_name (RespStatus _) = ''status''"
| "service_response_name (RespState _) = ''state''"
| "service_response_name (RespTunnels _) = ''tunnels''"
| "service_response_name (RespAccountTunnels _) = ''account_tunnels''"
| "service_response_name (RespCreateTunnel _) = ''create_tunnel''"
| "service_response_name (RespDeleteTunnel _) = ''delete_tunnel''"
| "service_response_name (RespReassignTunnel _) = ''reassign_tunnel''"
| "service_response_name (RespAccount _) = ''account''"
| "service_response_name (RespClaim _) = ''claim''"
| "service_response_name (RespStop _) = ''stop''"
| "service_response_name (RespSetSecret _) = ''set_secret''"
| "service_response_name (RespResetSecret _) = ''reset_secret''"
| "service_response_name (RespSecretPath _) = ''secret_path''"
| "service_response_name (RespAccountLoginUrl _) = ''account_login_url''"
| "service_response_name (RespError _) = ''error''"

fun service_update_name :: "ServiceUpdate \<Rightarrow> string" where
  "service_update_name (UpdateStatus _) = ''status''"
| "service_update_name (UpdateLifecycle _) = ''lifecycle''"
| "service_update_name (UpdateStats _) = ''stats''"
| "service_update_name (UpdateLog _) = ''log''"

definition is_known_request_type :: "string \<Rightarrow> bool" where
  "is_known_request_type type_name \<longleftrightarrow> type_name \<in> set [''subscribe'', ''get_status'', ''get_state'', ''get_tunnels'', ''get_account_tunnels'',
     ''create_tunnel'', ''create_minecraft_java_tunnel'', ''delete_tunnel'', ''reassign_tunnel'', ''get_account'', ''start_claim'', ''stop'',
     ''set_secret'', ''reset_secret'', ''get_secret_path'', ''get_account_login_url'']"

definition is_known_update_type :: "string \<Rightarrow> bool" where
  "is_known_update_type event_type \<longleftrightarrow> event_type \<in> set [''status'', ''lifecycle'', ''stats'', ''log'']"

text \<open>The tag that \<^verbatim>\<open>serde(tag = "type", rename_all = "snake_case")\<close> gives a request.\<close>

fun request_tag :: "ServiceRequest \<Rightarrow> string" where
  "request_tag ReqSubscribe = ''subscribe''"
| "request_tag ReqGetStatus = ''get_status''"
| "request_tag ReqGetState = ''get_state''"
| "request_tag ReqGetTunnels = ''get_tunnels''"
| "request_tag ReqGetAccountTunnels = ''get_account_tunnels''"
| "request_tag (ReqCreateTunnel _ _ _ _) = ''create_tunnel''"
| "request_tag (ReqCreateMinecraftJavaTunnel _ _ _) = ''create_minecraft_java_tunnel''"
| "request_tag (ReqDeleteTunnel _) = ''delete_tunnel''"
| "request_tag (ReqReassignTunnel _ _ _) = ''reassign_tunnel''"
| "request_tag ReqGetAccount = ''get_account''"
| "request_tag ReqStartClaim = ''start_claim''"
| "request_tag ReqStop = ''stop''"
| "request_tag (ReqSetSecret _) = ''set_secret''"
| "request_tag ReqResetSecret = ''reset_secret''"
| "request_tag ReqGetSecretPath = ''get_secret_path''"
| "request_tag ReqGetAccountLoginUrl = ''get_account_login_url''"

subsection \<open>Errors\<close>

datatype IpcError =
    IpcAlreadyRunning
  | IpcBindFailed io_error
  | IpcConnectionFailed io_error
  | IpcIoError io_error
  | IpcJsonError string
  | IpcNotRunning
  | IpcProtocolMismatch u32 u32
  | IpcProtocolError string
  | IpcService ServiceError

definition is_connection_closed_error :: "io_error \<Rightarrow> bool" where
  "is_connection_closed_error e = (case e of
     Error k _ \<Rightarrow> k \<in> {UnexpectedEof, BrokenPipe, ConnectionAborted, ConnectionReset, NotConnected} | Panic _ \<Rightarrow> False)"

fun is_connection_closed :: "IpcError \<Rightarrow> bool" where
  "is_connection_closed (IpcIoError e) = is_connection_closed_error e"
| "is_connection_closed _ = False"

text \<open>\<^verbatim>\<open>Display\<close>; \<open>io_text\<close> shows an I/O error and \<open>service_error_text\<close> a service error.\<close>

fun ipc_error_text :: "(io_error \<Rightarrow> string) \<Rightarrow> (ServiceError \<Rightarrow> string) \<Rightarrow> IpcError \<Rightarrow> string" where
  "ipc_error_text io_text service_error_text IpcAlreadyRunning = ''Another instance is already running''"
| "ipc_error_text io_text service_error_text (IpcBindFailed e) = ''Failed to bind to socket: '' @ io_text e"
| "ipc_error_text io_text service_error_text (IpcConnectionFailed e) = ''Failed to connect to socket: '' @ io_text e"
| "ipc_error_text io_text service_error_text (IpcIoError e) = ''IO error: '' @ io_text e"
| "ipc_error_text io_text service_error_text (IpcJsonError e) = ''JSON error: '' @ e"
| "ipc_error_text io_text service_error_text IpcNotRunning = ''Service is not running''"
| "ipc_error_text io_text service_error_text (IpcProtocolMismatch expected actual) =
     ''IPC protocol mismatch: expected version '' @ show_base 10 (unat expected) @ '', got '' @ show_base 10 (unat actual)"
| "ipc_error_text io_text service_error_text (IpcProtocolError msg) = msg"
| "ipc_error_text io_text service_error_text (IpcService e) = service_error_text e"

datatype LinesCodecError = LinesIo io_error | MaxLineLengthExceeded

fun line_codec_error :: "LinesCodecError \<Rightarrow> IpcError" where
  "line_codec_error (LinesIo e) = IpcIoError e"
| "line_codec_error MaxLineLengthExceeded = IpcProtocolError ''IPC frame exceeded maximum line length''"

subsection \<open>Frames\<close>

record 'j json_lib =
  request_to_string :: "RequestEnvelope \<Rightarrow> string + 'j"
  request_from_str :: "'j \<Rightarrow> string + IncomingRequestEnvelope"
  server_to_string :: "ServerEnvelope \<Rightarrow> string + 'j"
  server_from_str :: "'j \<Rightarrow> string + ServerEnvelope"
  incoming_from_str :: "'j \<Rightarrow> string + IncomingServerEnvelope"

record ('j, 'w) frame_stream =
  frame_next :: "'w \<Rightarrow> (LinesCodecError + 'j) option \<times> 'w"
  frame_send :: "'j \<Rightarrow> 'w \<Rightarrow> (LinesCodecError + unit) \<times> 'w"

definition connection_closed :: IpcError where
  "connection_closed = IpcIoError (Error UnexpectedEof ''Connection closed'')"

definition line_result :: "(LinesCodecError + 'j) option \<Rightarrow> IpcError + 'j" where
  "line_result r = (case r of None \<Rightarrow> Inl connection_closed | Some (Inl e) \<Rightarrow> Inl (line_codec_error e) | Some (Inr l) \<Rightarrow> Inr l)"

definition read_line :: "('j, 'w) frame_stream \<Rightarrow> 'w \<Rightarrow> (IpcError + 'j) \<times> 'w" where
  "read_line S w = (case frame_next S w of (r, w1) \<Rightarrow> (line_result r, w1))"

definition json_result :: "string + 'a \<Rightarrow> IpcError + 'a" where
  "json_result r = (case r of Inl e \<Rightarrow> Inl (IpcJsonError e) | Inr x \<Rightarrow> Inr x)"

definition read_json :: "('j \<Rightarrow> string + 'a) \<Rightarrow> ('j, 'w) frame_stream \<Rightarrow> 'w \<Rightarrow> (IpcError + 'a) \<times> 'w" where
  "read_json from_str S w = (case read_line S w of (r, w1) \<Rightarrow> (and_then r (\<lambda>l. json_result (from_str l)), w1))"

definition write_json :: "('a \<Rightarrow> string + 'j) \<Rightarrow> ('j, 'w) frame_stream \<Rightarrow> 'a \<Rightarrow> 'w \<Rightarrow> (IpcError + unit) \<times> 'w" where
  "write_json to_str S v w = (case to_str v of
     Inl e \<Rightarrow> (Inl (IpcJsonError e), w)
   | Inr json \<Rightarrow> (case frame_send S json w of
       (Inl e, w1) \<Rightarrow> (Inl (line_codec_error e), w1)
     | (Inr _, w1) \<Rightarrow> (Inr (), w1)))"

subsection \<open>The client\<close>

record IpcClient =
  next_request_id :: u64
  server_protocol :: ProtocolInfo

definition ensure_ipc_version :: "u32 \<Rightarrow> IpcError + unit" where
  "ensure_ipc_version actual = (if actual = IPC_VERSION then Inr () else Inl (IpcProtocolMismatch IPC_VERSION actual))"

definition recv_server_envelope :: "'j json_lib \<Rightarrow> ('j, 'w) frame_stream \<Rightarrow> 'w \<Rightarrow> (IpcError + ServerEnvelope) \<times> 'w" where
  "recv_server_envelope J S = read_json (server_from_str J) S"

definition hello_of :: "ServerEnvelope \<Rightarrow> IpcError + ProtocolInfo" where
  "hello_of envelope = (case envelope of
     SrvHello hello \<Rightarrow> Inr hello
   | SrvResponse response \<Rightarrow>
       Inl (IpcProtocolError (''expected hello frame, got '' @ service_response_name (rs_response response) @ '' RPC response''))
   | SrvEvent event \<Rightarrow> Inl (IpcProtocolError (''expected hello frame, got '' @ service_update_name (ev_event event) @ '' stream event'')))"

definition recv_hello :: "'j json_lib \<Rightarrow> ('j, 'w) frame_stream \<Rightarrow> 'w \<Rightarrow> (IpcError + ProtocolInfo) \<times> 'w" where
  "recv_hello J S w = (case recv_server_envelope J S w of (r, w1) \<Rightarrow> (and_then r hello_of, w1))"

definition response_of :: "ServerEnvelope \<Rightarrow> IpcError + ResponseEnvelope" where
  "response_of envelope = (case envelope of
     SrvResponse response \<Rightarrow> Inr response
   | SrvEvent event \<Rightarrow>
       Inl (IpcProtocolError (''received '' @ service_update_name (ev_event event) @ '' stream event while waiting for RPC response''))
   | SrvHello _ \<Rightarrow> Inl (IpcProtocolError ''received duplicate hello while waiting for RPC response''))"

definition recv_response :: "'j json_lib \<Rightarrow> ('j, 'w) frame_stream \<Rightarrow> 'w \<Rightarrow> (IpcError + ResponseEnvelope) \<times> 'w" where
  "recv_response J S w = (case recv_server_envelope J S w of (r, w1) \<Rightarrow> (and_then r response_of, w1))"

text \<open>\<open>try_connect\<close> opens the stream, or says why it cannot; it gets the endpoint that is parsed from the path.\<close>

definition connect_with_path ::
  "'j json_lib \<Rightarrow> ('j, 'w) frame_stream \<Rightarrow> (IpcEndpoint \<Rightarrow> IpcError + 'w) \<Rightarrow> string \<Rightarrow> IpcError + IpcClient \<times> 'w" where
  "connect_with_path J S try_connect socket_path =
     and_then (try_connect (endpoint_parse socket_path)) (\<lambda>w. case recv_hello J S w of (r, w1) \<Rightarrow>
     and_then r (\<lambda>hello. and_then (ensure_ipc_version (ipc_version hello)) (\<lambda>_.
     Inr (\<lparr>next_request_id = 1, server_protocol = hello\<rparr>, w1))))"

definition is_running :: "(IpcEndpoint \<Rightarrow> IpcError + 'w) \<Rightarrow> string \<Rightarrow> bool" where
  "is_running try_connect socket_path \<longleftrightarrow> \<not> isl (try_connect (endpoint_parse socket_path))"

text \<open>The counter of request ids wraps around.\<close>

definition send_request ::
  "'j json_lib \<Rightarrow> ('j, 'w) frame_stream \<Rightarrow> ServiceRequest \<Rightarrow> IpcClient \<times> 'w \<Rightarrow> (IpcError + u64) \<times> IpcClient \<times> 'w" where
  "send_request J S request = (\<lambda>(c, w).
     let rid = next_request_id c; c1 = c\<lparr>next_request_id := rid + 1\<rparr> in
     (case write_json (request_to_string J) S \<lparr>rq_ipc_version = IPC_VERSION, rq_request_id = rid, rq_request = request\<rparr> w of
        (Inl e, w1) \<Rightarrow> (Inl e, c1, w1)
      | (Inr _, w1) \<Rightarrow> (Inr rid, c1, w1)))"

definition check_response :: "u64 \<Rightarrow> ResponseEnvelope \<Rightarrow> IpcError + ServiceResponse" where
  "check_response rid response =
     and_then (ensure_ipc_version (rs_ipc_version response)) (\<lambda>_.
       if rs_request_id response \<noteq> rid
       then Inl (IpcProtocolError (''mismatched response id: expected '' @ show_base 10 (unat rid) @ '', got '' @
              show_base 10 (unat (rs_request_id response))))
       else Inr (rs_response response))"

definition client_request ::
  "'j json_lib \<Rightarrow> ('j, 'w) frame_stream \<Rightarrow> ServiceRequest \<Rightarrow> IpcClient \<times> 'w \<Rightarrow> (IpcError + ServiceResponse) \<times> IpcClient \<times> 'w" where
  "client_request J S request s = (case send_request J S request s of
     (Inl e, s1) \<Rightarrow> (Inl e, s1)
   | (Inr rid, c1, w1) \<Rightarrow> (case recv_response J S w1 of (r, w2) \<Rightarrow> (and_then r (check_response rid), c1, w2)))"

definition expect_response :: "ServiceResponse \<Rightarrow> string \<Rightarrow> (ServiceResponse \<Rightarrow> 'a option) \<Rightarrow> IpcError + 'a" where
  "expect_response response expected extract = (case response of
     RespError e \<Rightarrow> Inl (IpcService e)
   | _ \<Rightarrow> (case extract response of
       Some x \<Rightarrow> Inr x
     | None \<Rightarrow> Inl (IpcProtocolError (''expected '' @ expected @ '', got '' @ service_response_name response))))"

definition client_call ::
  "'j json_lib \<Rightarrow> ('j, 'w) frame_stream \<Rightarrow> ServiceRequest \<Rightarrow> string \<Rightarrow> (ServiceResponse \<Rightarrow> 'a option) \<Rightarrow> IpcClient \<times> 'w \<Rightarrow>
   (IpcError + 'a) \<times> IpcClient \<times> 'w" where
  "client_call J S request expected extract s = (case client_request J S request s of
     (r, s1) \<Rightarrow> (and_then r (\<lambda>response. expect_response response expected extract), s1))"

definition client_subscribe ::
  "'j json_lib \<Rightarrow> ('j, 'w) frame_stream \<Rightarrow> IpcClient \<times> 'w \<Rightarrow> (IpcError + SubscribeResponse) \<times> IpcClient \<times> 'w" where
  "client_subscribe J S = client_call J S ReqSubscribe ''subscribe response''
     (\<lambda>response. case response of RespSubscribe x \<Rightarrow> Some x | _ \<Rightarrow> None)"

definition client_status ::
  "'j json_lib \<Rightarrow> ('j, 'w) frame_stream \<Rightarrow> IpcClient \<times> 'w \<Rightarrow> (IpcError + ServiceStatus) \<times> IpcClient \<times> 'w" where
  "client_status J S = client_call J S ReqGetStatus ''status response''
     (\<lambda>response. case response of RespStatus x \<Rightarrow> Some x | _ \<Rightarrow> None)"

definition client_lifecycle ::
  "'j json_lib \<Rightarrow> ('j, 'w) frame_stream \<Rightarrow> IpcClient \<times> 'w \<Rightarrow> (IpcError + AgentLifecycle) \<times> IpcClient \<times> 'w" where
  "client_lifecycle J S = client_call J S ReqGetState ''lifecycle response''
     (\<lambda>response. case response of RespState x \<Rightarrow> Some x | _ \<Rightarrow> None)"

definition client_list_tunnels ::
  "'j json_lib \<Rightarrow> ('j, 'w) frame_stream \<Rightarrow> IpcClient \<times> 'w \<Rightarrow> (IpcError + TunnelListResponse) \<times> IpcClient \<times> 'w" where
  "client_list_tunnels J S = client_call J S ReqGetTunnels ''tunnel list response''
     (\<lambda>response. case response of RespTunnels x \<Rightarrow> Some x | _ \<Rightarrow> None)"

definition client_list_account_tunnels ::
  "'j json_lib \<Rightarrow> ('j, 'w) frame_stream \<Rightarrow> IpcClient \<times> 'w \<Rightarrow> (IpcError + AccountTunnelState list) \<times> IpcClient \<times> 'w" where
  "client_list_account_tunnels J S = client_call J S ReqGetAccountTunnels ''account tunnel list response''
     (\<lambda>response. case response of RespAccountTunnels x \<Rightarrow> Some x | _ \<Rightarrow> None)"

definition client_create_tunnel ::
  "'j json_lib \<Rightarrow> ('j, 'w) frame_stream \<Rightarrow> u16 \<Rightarrow> TunnelProtocol \<Rightarrow> string option \<Rightarrow> string option \<Rightarrow> IpcClient \<times> 'w \<Rightarrow> (IpcError + TunnelCreateResponse) \<times> IpcClient \<times> 'w" where
  "client_create_tunnel J S local_port protocol local_address name = client_call J S (ReqCreateTunnel local_port protocol local_address name) ''tunnel create response''
     (\<lambda>response. case response of RespCreateTunnel x \<Rightarrow> Some x | _ \<Rightarrow> None)"

definition client_create_minecraft_java_tunnel ::
  "'j json_lib \<Rightarrow> ('j, 'w) frame_stream \<Rightarrow> u16 \<Rightarrow> string option \<Rightarrow> string option \<Rightarrow> IpcClient \<times> 'w \<Rightarrow> (IpcError + TunnelCreateResponse) \<times> IpcClient \<times> 'w" where
  "client_create_minecraft_java_tunnel J S local_port local_address name = client_call J S (ReqCreateMinecraftJavaTunnel local_port local_address name) ''Minecraft Java tunnel create response''
     (\<lambda>response. case response of RespCreateTunnel x \<Rightarrow> Some x | _ \<Rightarrow> None)"

definition client_delete_tunnel ::
  "'j json_lib \<Rightarrow> ('j, 'w) frame_stream \<Rightarrow> string \<Rightarrow> IpcClient \<times> 'w \<Rightarrow> (IpcError + CommandResponse) \<times> IpcClient \<times> 'w" where
  "client_delete_tunnel J S tid = client_call J S (ReqDeleteTunnel tid) ''tunnel delete response''
     (\<lambda>response. case response of RespDeleteTunnel x \<Rightarrow> Some x | _ \<Rightarrow> None)"

definition client_reassign_tunnel ::
  "'j json_lib \<Rightarrow> ('j, 'w) frame_stream \<Rightarrow> string \<Rightarrow> u16 \<Rightarrow> string option \<Rightarrow> IpcClient \<times> 'w \<Rightarrow> (IpcError + CommandResponse) \<times> IpcClient \<times> 'w" where
  "client_reassign_tunnel J S tid local_port local_address = client_call J S (ReqReassignTunnel tid local_port local_address) ''tunnel reassignment response''
     (\<lambda>response. case response of RespReassignTunnel x \<Rightarrow> Some x | _ \<Rightarrow> None)"

definition client_account ::
  "'j json_lib \<Rightarrow> ('j, 'w) frame_stream \<Rightarrow> IpcClient \<times> 'w \<Rightarrow> (IpcError + AccountResponse) \<times> IpcClient \<times> 'w" where
  "client_account J S = client_call J S ReqGetAccount ''account response''
     (\<lambda>response. case response of RespAccount x \<Rightarrow> Some x | _ \<Rightarrow> None)"

definition client_start_claim ::
  "'j json_lib \<Rightarrow> ('j, 'w) frame_stream \<Rightarrow> IpcClient \<times> 'w \<Rightarrow> (IpcError + string) \<times> IpcClient \<times> 'w" where
  "client_start_claim J S = client_call J S ReqStartClaim ''claim response''
     (\<lambda>response. case response of RespClaim x \<Rightarrow> Some x | _ \<Rightarrow> None)"

definition client_stop ::
  "'j json_lib \<Rightarrow> ('j, 'w) frame_stream \<Rightarrow> IpcClient \<times> 'w \<Rightarrow> (IpcError + CommandResponse) \<times> IpcClient \<times> 'w" where
  "client_stop J S = client_call J S ReqStop ''stop response''
     (\<lambda>response. case response of RespStop x \<Rightarrow> Some x | _ \<Rightarrow> None)"

definition client_set_secret ::
  "'j json_lib \<Rightarrow> ('j, 'w) frame_stream \<Rightarrow> string \<Rightarrow> IpcClient \<times> 'w \<Rightarrow> (IpcError + CommandResponse) \<times> IpcClient \<times> 'w" where
  "client_set_secret J S secret = client_call J S (ReqSetSecret secret) ''secret provisioning response''
     (\<lambda>response. case response of RespSetSecret x \<Rightarrow> Some x | _ \<Rightarrow> None)"

definition client_reset_secret ::
  "'j json_lib \<Rightarrow> ('j, 'w) frame_stream \<Rightarrow> IpcClient \<times> 'w \<Rightarrow> (IpcError + CommandResponse) \<times> IpcClient \<times> 'w" where
  "client_reset_secret J S = client_call J S ReqResetSecret ''reset secret response''
     (\<lambda>response. case response of RespResetSecret x \<Rightarrow> Some x | _ \<Rightarrow> None)"

definition client_get_secret_path ::
  "'j json_lib \<Rightarrow> ('j, 'w) frame_stream \<Rightarrow> IpcClient \<times> 'w \<Rightarrow> (IpcError + string option) \<times> IpcClient \<times> 'w" where
  "client_get_secret_path J S = client_call J S ReqGetSecretPath ''secret path response''
     (\<lambda>response. case response of RespSecretPath x \<Rightarrow> Some x | _ \<Rightarrow> None)"

definition client_get_account_login_url ::
  "'j json_lib \<Rightarrow> ('j, 'w) frame_stream \<Rightarrow> IpcClient \<times> 'w \<Rightarrow> (IpcError + string) \<times> IpcClient \<times> 'w" where
  "client_get_account_login_url J S = client_call J S ReqGetAccountLoginUrl ''account login URL response''
     (\<lambda>response. case response of RespAccountLoginUrl x \<Rightarrow> Some x | _ \<Rightarrow> None)"

fun validate_incoming_server_envelope :: "IncomingServerEnvelope \<Rightarrow> IpcError + unit" where
  "validate_incoming_server_envelope (InEvent event) = (case iev_event event of
     UnknownUpdate unknown \<Rightarrow>
       if is_known_update_type (ue_type_name unknown)
       then Inl (IpcProtocolError (''invalid IPC event payload for '' @ ue_type_name unknown)) else Inr ()
   | KnownUpdate _ \<Rightarrow> Inr ())"
| "validate_incoming_server_envelope _ = Inr ()"

definition recv_incoming_server_envelope ::
  "'j json_lib \<Rightarrow> ('j, 'w) frame_stream \<Rightarrow> 'w \<Rightarrow> (IpcError + IncomingServerEnvelope) \<times> 'w" where
  "recv_incoming_server_envelope J S w = (case read_json (incoming_from_str J) S w of
     (r, w1) \<Rightarrow> (and_then r (\<lambda>envelope. and_then (validate_incoming_server_envelope envelope) (\<lambda>_. Inr envelope)), w1))"

text \<open>
  One turn of the loop of \<^verbatim>\<open>recv_update\<close>: \<open>None\<close> goes round again. The loop itself has no bound of its own, a server may send unknown events for ever;
  its value \<open>None\<close> is that it does not return.
\<close>

definition update_turn :: "IpcError + IncomingServerEnvelope \<Rightarrow> (IpcError + ServiceUpdate) option" where
  "update_turn r = (case r of
     Inl e \<Rightarrow> Some (Inl e)
   | Inr (InEvent event) \<Rightarrow> (case ensure_ipc_version (iev_ipc_version event) of
       Inl e \<Rightarrow> Some (Inl e)
     | Inr _ \<Rightarrow> (case iev_event event of KnownUpdate update \<Rightarrow> Some (Inr update) | UnknownUpdate _ \<Rightarrow> None))
   | Inr (InResponse response) \<Rightarrow> Some (Inl (IpcProtocolError
       (''received '' @ service_response_name (rs_response response) @ '' RPC response while waiting for stream event'')))
   | Inr (InHello _) \<Rightarrow> Some (Inl (IpcProtocolError ''received duplicate hello while waiting for stream event'')))"

partial_function (option) recv_update ::
  "'j json_lib \<Rightarrow> ('j, 'w) frame_stream \<Rightarrow> 'w \<Rightarrow> ((IpcError + ServiceUpdate) \<times> 'w) option" where
  [code]: "recv_update J S w = (case recv_incoming_server_envelope J S w of
     (r, w1) \<Rightarrow> (case update_turn r of Some result \<Rightarrow> Some (result, w1) | None \<Rightarrow> recv_update J S w1))"

subsection \<open>Laws\<close>

text \<open>The operations, one after the other, as a function of the request that they make; the result is put back under the constructor of its response.\<close>

fun client_op :: "'j json_lib \<Rightarrow> ('j, 'w) frame_stream \<Rightarrow> ServiceRequest \<Rightarrow> IpcClient \<times> 'w \<Rightarrow> (IpcError + ServiceResponse) \<times> IpcClient \<times> 'w" where
  "client_op J S ReqSubscribe s = map_prod (map_sum id RespSubscribe) id (client_subscribe J S s)"
| "client_op J S ReqGetStatus s = map_prod (map_sum id RespStatus) id (client_status J S s)"
| "client_op J S ReqGetState s = map_prod (map_sum id RespState) id (client_lifecycle J S s)"
| "client_op J S ReqGetTunnels s = map_prod (map_sum id RespTunnels) id (client_list_tunnels J S s)"
| "client_op J S ReqGetAccountTunnels s = map_prod (map_sum id RespAccountTunnels) id (client_list_account_tunnels J S s)"
| "client_op J S (ReqCreateTunnel local_port protocol local_address name) s = map_prod (map_sum id RespCreateTunnel) id (client_create_tunnel J S local_port protocol local_address name s)"
| "client_op J S (ReqCreateMinecraftJavaTunnel local_port local_address name) s = map_prod (map_sum id RespCreateTunnel) id (client_create_minecraft_java_tunnel J S local_port local_address name s)"
| "client_op J S (ReqDeleteTunnel tid) s = map_prod (map_sum id RespDeleteTunnel) id (client_delete_tunnel J S tid s)"
| "client_op J S (ReqReassignTunnel tid local_port local_address) s = map_prod (map_sum id RespReassignTunnel) id (client_reassign_tunnel J S tid local_port local_address s)"
| "client_op J S ReqGetAccount s = map_prod (map_sum id RespAccount) id (client_account J S s)"
| "client_op J S ReqStartClaim s = map_prod (map_sum id RespClaim) id (client_start_claim J S s)"
| "client_op J S ReqStop s = map_prod (map_sum id RespStop) id (client_stop J S s)"
| "client_op J S (ReqSetSecret secret) s = map_prod (map_sum id RespSetSecret) id (client_set_secret J S secret s)"
| "client_op J S ReqResetSecret s = map_prod (map_sum id RespResetSecret) id (client_reset_secret J S s)"
| "client_op J S ReqGetSecretPath s = map_prod (map_sum id RespSecretPath) id (client_get_secret_path J S s)"
| "client_op J S ReqGetAccountLoginUrl s = map_prod (map_sum id RespAccountLoginUrl) id (client_get_account_login_url J S s)"

text \<open>The variant of the response that answers a request.\<close>

fun response_fits :: "ServiceRequest \<Rightarrow> ServiceResponse \<Rightarrow> bool" where
  "response_fits ReqSubscribe response = (case response of RespSubscribe _ \<Rightarrow> True | RespError _ \<Rightarrow> True | _ \<Rightarrow> False)"
| "response_fits ReqGetStatus response = (case response of RespStatus _ \<Rightarrow> True | RespError _ \<Rightarrow> True | _ \<Rightarrow> False)"
| "response_fits ReqGetState response = (case response of RespState _ \<Rightarrow> True | RespError _ \<Rightarrow> True | _ \<Rightarrow> False)"
| "response_fits ReqGetTunnels response = (case response of RespTunnels _ \<Rightarrow> True | RespError _ \<Rightarrow> True | _ \<Rightarrow> False)"
| "response_fits ReqGetAccountTunnels response = (case response of RespAccountTunnels _ \<Rightarrow> True | RespError _ \<Rightarrow> True | _ \<Rightarrow> False)"
| "response_fits (ReqCreateTunnel _ _ _ _) response = (case response of RespCreateTunnel _ \<Rightarrow> True | RespError _ \<Rightarrow> True | _ \<Rightarrow> False)"
| "response_fits (ReqCreateMinecraftJavaTunnel _ _ _) response = (case response of RespCreateTunnel _ \<Rightarrow> True | RespError _ \<Rightarrow> True | _ \<Rightarrow> False)"
| "response_fits (ReqDeleteTunnel _) response = (case response of RespDeleteTunnel _ \<Rightarrow> True | RespError _ \<Rightarrow> True | _ \<Rightarrow> False)"
| "response_fits (ReqReassignTunnel _ _ _) response = (case response of RespReassignTunnel _ \<Rightarrow> True | RespError _ \<Rightarrow> True | _ \<Rightarrow> False)"
| "response_fits ReqGetAccount response = (case response of RespAccount _ \<Rightarrow> True | RespError _ \<Rightarrow> True | _ \<Rightarrow> False)"
| "response_fits ReqStartClaim response = (case response of RespClaim _ \<Rightarrow> True | RespError _ \<Rightarrow> True | _ \<Rightarrow> False)"
| "response_fits ReqStop response = (case response of RespStop _ \<Rightarrow> True | RespError _ \<Rightarrow> True | _ \<Rightarrow> False)"
| "response_fits (ReqSetSecret _) response = (case response of RespSetSecret _ \<Rightarrow> True | RespError _ \<Rightarrow> True | _ \<Rightarrow> False)"
| "response_fits ReqResetSecret response = (case response of RespResetSecret _ \<Rightarrow> True | RespError _ \<Rightarrow> True | _ \<Rightarrow> False)"
| "response_fits ReqGetSecretPath response = (case response of RespSecretPath _ \<Rightarrow> True | RespError _ \<Rightarrow> True | _ \<Rightarrow> False)"
| "response_fits ReqGetAccountLoginUrl response = (case response of RespAccountLoginUrl _ \<Rightarrow> True | RespError _ \<Rightarrow> True | _ \<Rightarrow> False)"

definition incoming_request :: "RequestEnvelope \<Rightarrow> IncomingRequestEnvelope" where
  "incoming_request r =
     \<lparr>irq_ipc_version = rq_ipc_version r, irq_request_id = rq_request_id r, irq_request = KnownRequest (rq_request r)\<rparr>"

fun incoming_server :: "ServerEnvelope \<Rightarrow> IncomingServerEnvelope" where
  "incoming_server (SrvHello hello) = InHello hello"
| "incoming_server (SrvResponse response) = InResponse response"
| "incoming_server (SrvEvent event) = InEvent \<lparr>iev_ipc_version = ev_ipc_version event, iev_event = KnownUpdate (ev_event event)\<rparr>"

text \<open>
  What the protocol relies on of \<^verbatim>\<open>serde_json\<close> and the derived implementations: the envelopes can be serialised, and a serialised envelope is parsed to
  itself, the receiving sides' own types taking the variant that knows the message.
\<close>

locale ipc_json =
  fixes J :: "'j json_lib"
  assumes request_total: "\<exists>j. request_to_string J r = Inr j"
    and request_back: "request_to_string J r = Inr j \<Longrightarrow> request_from_str J j = Inr (incoming_request r)"
    and server_total: "\<exists>j. server_to_string J e = Inr j"
    and server_back: "server_to_string J e = Inr j \<Longrightarrow> server_from_str J j = Inr e"
    and incoming_back: "server_to_string J e = Inr j \<Longrightarrow> incoming_from_str J j = Inr (incoming_server e)"
begin

lemma request_text: obtains j where "request_to_string J r = Inr j" "request_from_str J j = Inr (incoming_request r)"
  using request_total request_back by metis

lemma server_text:
  obtains j where "server_to_string J e = Inr j" "server_from_str J j = Inr e" "incoming_from_str J j = Inr (incoming_server e)"
  using server_total server_back incoming_back by metis

end

text \<open>An instance, whose texts are the envelopes themselves.\<close>

datatype plain_text = PlainRequest RequestEnvelope | PlainServer ServerEnvelope

definition plain_json :: "plain_text json_lib" where
  "plain_json = \<lparr>
     request_to_string = (\<lambda>r. Inr (PlainRequest r)),
     request_from_str = (\<lambda>j. case j of PlainRequest r \<Rightarrow> Inr (incoming_request r) | PlainServer _ \<Rightarrow> Inl ''missing field `ipc_version`''),
     server_to_string = (\<lambda>e. Inr (PlainServer e)),
     server_from_str = (\<lambda>j. case j of PlainServer e \<Rightarrow> Inr e | PlainRequest _ \<Rightarrow> Inl ''missing field `message_kind`''),
     incoming_from_str = (\<lambda>j. case j of PlainServer e \<Rightarrow> Inr (incoming_server e) | PlainRequest _ \<Rightarrow> Inl ''missing field `message_kind`'')\<rparr>"

interpretation plain: ipc_json plain_json
  by unfold_locales (auto simp: plain_json_def)

text \<open>Every request is of a known type, by the tag it is sent with, and every known type is the tag of a request.\<close>

lemma request_types_complete: "is_known_request_type type_name \<longleftrightarrow> (\<exists>r. request_tag r = type_name)"
proof
  assume "is_known_request_type type_name"
  then show "\<exists>r. request_tag r = type_name"
    unfolding is_known_request_type_def set_simps insert_iff empty_iff
    by (elim disjE) (fastforce intro: request_tag.simps)+
next
  assume "\<exists>r. request_tag r = type_name"
  then obtain r where "type_name = request_tag r" by blast
  then show "is_known_request_type type_name" by (cases r) (simp_all add: is_known_request_type_def)
qed

lemma update_types_complete: "is_known_update_type (service_update_name u)"
  by (cases u) (simp_all add: is_known_update_type_def)

text \<open>An operation gives the payload of the response that fits its request, and the error of the service when it answers with one.\<close>

definition op_result :: "IpcError + ServiceResponse \<Rightarrow> IpcError + ServiceResponse" where
  "op_result r = and_then r (\<lambda>response. case response of RespError e \<Rightarrow> Inl (IpcService e) | _ \<Rightarrow> Inr response)"

lemmas client_op_defs = client_subscribe_def client_status_def client_lifecycle_def client_list_tunnels_def client_list_account_tunnels_def
  client_create_tunnel_def client_create_minecraft_java_tunnel_def client_delete_tunnel_def client_reassign_tunnel_def client_account_def
  client_start_claim_def client_stop_def client_set_secret_def client_reset_secret_def client_get_secret_path_def client_get_account_login_url_def

lemma client_op_fits:
  assumes "client_request J S r s = (res, s1)" "\<And>response. res = Inr response \<Longrightarrow> response_fits r response"
  shows "client_op J S r s = (op_result res, s1)"
proof (cases res)
  case (Inl e)
  with assms(1) show ?thesis by (cases r) (simp_all add: client_op_defs client_call_def op_result_def)
next
  case (Inr response)
  with assms(2) have "response_fits r response" by simp
  with assms(1) Inr show ?thesis
    by (cases r; cases response; simp add: client_op_defs client_call_def expect_response_def op_result_def)
qed

end
