(* ===== verification/Ipc_Server.thy ===== *)
theory Ipc_Server
  imports Ipc_Protocol
begin

section \<open>The server of the service\<close>

text \<open>
  \<^verbatim>\<open>packages/playitd/src/ipc_server.rs\<close>, as built on Unix, with \<^verbatim>\<open>unix.rs\<close>. The server answers requests with the operations of the runtime's handle. The
  environment of a turn holds what these operations take from outside: the times, the claim code that is drawn, the calls of the API, the supervisor's
  answers, and \<open>meanwhile\<close>, what the rest of the service has done to the shared state since the last turn. A connection is driven by what its \<^verbatim>\<open>select!\<close>
  yields, one turn after the other.
\<close>

subsection \<open>Starting\<close>

record IpcServer =
  sv_runtime :: RuntimeInner
  sv_socket_path :: string
  sv_host_shutdown :: bool
  sv_fs :: fs

text \<open>\<^verbatim>\<open>Path::new\<close>: the components, without empty ones and without \<^verbatim>\<open>.\<close> unless it is the first of a relative path.\<close>

definition path_of :: "string \<Rightarrow> path" where
  "path_of s = (let ab = (s \<noteq> [] \<and> hd s = CHR ''/''); cs = filter (\<lambda>c. c \<noteq> []) (split_char (CHR ''/'') s) in
     \<lparr>absolute = ab, comps = (if \<not> ab \<and> cs \<noteq> [] \<and> hd cs = ''.'' then [''.''] else []) @ filter (\<lambda>c. c \<noteq> ''.'') cs\<rparr>)"

definition IpcServer_new ::
  "(IpcEndpoint \<Rightarrow> IpcError + 'w) \<Rightarrow> RuntimeInner \<Rightarrow> string option \<Rightarrow> bool \<Rightarrow> fs \<Rightarrow> (IpcError + IpcServer) \<times> fs" where
  "IpcServer_new try_connect runtime socket_path host_shutdown w =
     (let socket_path = (case socket_path of Some p \<Rightarrow> p | None \<Rightarrow> default_socket_path);
          endpoint = endpoint_parse socket_path in
      case try_connect endpoint of
        Inr _ \<Rightarrow> (Inl IpcAlreadyRunning, w)
      | Inl _ \<Rightarrow>
          let w1 = (if is_windows_named_pipe endpoint then w else (case filesystem_path endpoint of
                None \<Rightarrow> w
              | Some p \<Rightarrow>
                  let w' = (case path_parent (path_of p) of
                        Some parent \<Rightarrow> if path_is_empty parent then w else snd (fs_create_dir_all parent w) | None \<Rightarrow> w) in
                  snd (fs_remove_file (path_of p) w')))
          in (Inr \<lparr>sv_runtime = runtime, sv_socket_path = socket_path, sv_host_shutdown = host_shutdown, sv_fs = w1\<rparr>, w1))"

text \<open>
  \<open>create\<close> is \<^verbatim>\<open>create_tokio\<close> with the given mode, if any, and \<open>to_name\<close> the conversion of the endpoint to a name of the library.
\<close>

text \<open>The mode is \<^verbatim>\<open>0o660\<close>.\<close>

definition PLAYIT_SOCKET_MODE :: nat where "PLAYIT_SOCKET_MODE = 432"

definition create_listener ::
  "(IpcEndpoint \<Rightarrow> io_error + 'name) \<Rightarrow> (nat option \<Rightarrow> 'name \<Rightarrow> io_error + 'listener) \<Rightarrow> IpcServer \<Rightarrow> IpcError + 'listener" where
  "create_listener to_name create server =
     (let endpoint = endpoint_parse (sv_socket_path server) in
      case to_name endpoint of
        Inl e \<Rightarrow> Inl (IpcBindFailed e)
      | Inr name \<Rightarrow>
          let plain = (case create None name of Inl e \<Rightarrow> Inl (IpcBindFailed e) | Inr l \<Rightarrow> Inr l) in
          (case endpoint of
             Namespaced _ \<Rightarrow> plain
           | Filesystem _ \<Rightarrow> (case create (Some PLAYIT_SOCKET_MODE) name of
               Inr l \<Rightarrow> Inr l
             | Inl (Error Unsupported _) \<Rightarrow> plain
             | Inl e \<Rightarrow> Inl (IpcBindFailed e))))"

subsubsection \<open>Socket permissions\<close>

record SocketPermissionTarget =
  spt_path :: string
  spt_group_name :: string
  spt_mode :: nat
  spt_chown_group :: bool

definition socket_permission_target :: "string \<Rightarrow> u32 \<Rightarrow> SocketPermissionTarget option" where
  "socket_permission_target socket_path effective_uid =
     (if take 1 socket_path = ''@'' \<or> take (length pipe_prefix) socket_path = pipe_prefix then None
      else Some \<lparr>spt_path = socket_path, spt_group_name = ''playit'', spt_mode = PLAYIT_SOCKET_MODE, spt_chown_group = (effective_uid = 0)\<rparr>)"

text \<open>The system calls of the permissions: \<open>chown\<close> gets the path and the group.\<close>

record 'w perm_env =
  pe_exists :: "string \<Rightarrow> 'w \<Rightarrow> bool"
  pe_chmod :: "string \<Rightarrow> nat \<Rightarrow> 'w \<Rightarrow> (io_error + unit) \<times> 'w"
  pe_chown :: "string \<Rightarrow> u32 \<Rightarrow> 'w \<Rightarrow> (io_error + unit) \<times> 'w"
  pe_group_gid :: "string \<Rightarrow> u32 option"
  pe_io_text :: "io_error \<Rightarrow> string"
  pe_debug :: "string \<Rightarrow> string"

definition io_kind :: "io_error \<Rightarrow> ErrorKind" where
  "io_kind e = (case e of Error k _ \<Rightarrow> k | Panic _ \<Rightarrow> OtherKind)"

definition apply_socket_permissions ::
  "'w perm_env \<Rightarrow> string \<Rightarrow> u32 option \<Rightarrow> nat \<Rightarrow> 'w \<Rightarrow> (IpcError + unit) \<times> 'w" where
  "apply_socket_permissions E socket_path group_gid mode w = (case pe_chmod E socket_path mode w of
     (Inl e, w1) \<Rightarrow> (Inl (IpcBindFailed (Error (io_kind e)
       (''failed to chmod IPC socket '' @ socket_path @ '' to '' @ show_base 8 mode @ '': '' @ pe_io_text E e))), w1)
   | (Inr _, w1) \<Rightarrow> (case group_gid of
       None \<Rightarrow> (Inr (), w1)
     | Some gid \<Rightarrow>
         if CHR 0x00 \<in> set socket_path
         then (Inl (IpcBindFailed (Error InvalidInput (''invalid IPC socket path '' @ pe_debug E socket_path @
                '': nul byte found in provided data at position: '' @ show_base 10 (length (takeWhile (\<lambda>c. c \<noteq> CHR 0x00) socket_path))))), w1)
         else (case pe_chown E socket_path gid w1 of
           (Inl e, w2) \<Rightarrow> (Inl (IpcBindFailed (Error PermissionDenied
             (''failed to chown IPC socket '' @ socket_path @ '' to group gid '' @ show_base 10 (unat gid) @ '': '' @ pe_io_text E e))), w2)
         | (Inr _, w2) \<Rightarrow> (Inr (), w2))))"

definition configure_socket_permissions :: "'w perm_env \<Rightarrow> u32 \<Rightarrow> string \<Rightarrow> 'w \<Rightarrow> (IpcError + unit) \<times> 'w" where
  "configure_socket_permissions E effective_uid socket_path w = (case socket_permission_target socket_path effective_uid of
     None \<Rightarrow> (Inr (), w)
   | Some target \<Rightarrow>
       if \<not> pe_exists E (spt_path target) w
       then (Inl (IpcBindFailed (Error NotFound (''IPC socket '' @ spt_path target @ '' was not created''))), w)
       else apply_socket_permissions E (spt_path target)
              (if spt_chown_group target then pe_group_gid E (spt_group_name target) else None) (spt_mode target) w)"

subsection \<open>Requests\<close>

record ('f, 'v) server_env =
  sv_text :: text_env
  sv_status_text :: "nat \<Rightarrow> string"
  sv_now :: u64
  sv_now2 :: u64
  sv_claim_code :: string
  sv_tunnels_list :: "HttpClient \<Rightarrow> HttpClientError ApiErrorNoFail + AccountTunnelV1 list"
  sv_tunnels_create :: create_call
  sv_tunnels_delete :: "HttpClient \<Rightarrow> string \<Rightarrow> (DeleteError, HttpClientError) ApiError + unit"
  sv_tunnels_config :: "HttpClient \<Rightarrow> ReqTunnelsConfigV1 \<Rightarrow> ('v TunnelConfigError, HttpClientError) ApiError + unit"
  sv_login_guest :: "HttpClient \<Rightarrow> ('f, HttpClientError) ApiError + string"
  sv_secret_sent :: "string \<Rightarrow> bool option"
  sv_secret_answer :: "string \<Rightarrow> (string + unit) option option"
  sv_meanwhile :: "IpcServer \<Rightarrow> IpcServer"

record RequestOutcome =
  ro_response :: ServiceResponse
  ro_subscribed :: bool

definition respond :: "ServiceResponse \<Rightarrow> RequestOutcome" where
  "respond response = \<lparr>ro_response = response, ro_subscribed = False\<rparr>"

definition runtime_error_response :: "RuntimeError \<Rightarrow> ServiceResponse" where
  "runtime_error_response e = RespError (as_service_error e)"

text \<open>\<^verbatim>\<open>.map(variant).unwrap_or_else(runtime_error_response)\<close>\<close>

definition respond_result :: "('a \<Rightarrow> ServiceResponse) \<Rightarrow> RuntimeError + 'a \<Rightarrow> RequestOutcome" where
  "respond_result variant r = respond (case r of Inl e \<Rightarrow> runtime_error_response e | Inr x \<Rightarrow> variant x)"

definition protocol_error :: "ServiceErrorCode \<Rightarrow> string \<Rightarrow> bool \<Rightarrow> ServiceError" where
  "protocol_error code message again = \<lparr>se_code = code, se_message = message, se_retryable = again, se_details = None\<rparr>"

definition invalid_request_type_error :: "string \<Rightarrow> ServiceError" where
  "invalid_request_type_error request_type =
     \<lparr>se_code = CodeInvalidRequestType, se_message = ''unknown IPC request type: '' @ request_type, se_retryable = False,
      se_details = Some (JObject [(''request_type'', JString request_type)])\<rparr>"

definition validate_request_envelope :: "IncomingRequestEnvelope \<Rightarrow> ServiceResponse + ServiceRequest" where
  "validate_request_envelope envelope =
     (if irq_ipc_version envelope \<noteq> IPC_VERSION
      then Inl (RespError (protocol_error CodeUnsupportedProtocol
             (''unsupported IPC version '' @ show_base 10 (unat (irq_ipc_version envelope)) @ '' (expected '' @ show_base 10 (unat IPC_VERSION) @ '')'') False))
      else (case irq_request envelope of
        KnownRequest request \<Rightarrow> Inr request
      | UnknownRequest unknown \<Rightarrow>
          if is_known_request_type (um_type_name unknown)
          then Inl (RespError (protocol_error CodeInvalidRequest (''invalid IPC request payload for '' @ um_type_name unknown) False))
          else Inl (RespError (invalid_request_type_error (um_type_name unknown)))))"

definition subscribe_response :: "('f, 'v) server_env \<Rightarrow> IpcServer \<Rightarrow> SubscribeResponse" where
  "subscribe_response E srv =
     (let response = handle_subscription_snapshot (sv_now E) (sv_runtime srv); snapshot = sr_snapshot response in
      response\<lparr>sr_snapshot := snapshot\<lparr>ss_status := (ss_status snapshot)\<lparr>st_socket_path := sv_socket_path srv\<rparr>\<rparr>\<rparr>)"

definition status_response :: "('f, 'v) server_env \<Rightarrow> IpcServer \<Rightarrow> ServiceStatus" where
  "status_response E srv = (handle_status (sv_now E) (sv_runtime srv))\<lparr>st_socket_path := sv_socket_path srv\<rparr>"

text \<open>An operation that only reads the runtime, and one that changes it.\<close>

definition with_runtime :: "IpcServer \<Rightarrow> ('a \<Rightarrow> ServiceResponse) \<Rightarrow> (RuntimeError + 'a) \<times> RuntimeInner \<Rightarrow> RequestOutcome \<times> IpcServer" where
  "with_runtime srv variant = (\<lambda>(r, i). (respond_result variant r, srv\<lparr>sv_runtime := i\<rparr>))"

fun handle_service_request :: "('f, 'v) server_env \<Rightarrow> ServiceRequest \<Rightarrow> IpcServer \<Rightarrow> RequestOutcome \<times> IpcServer" where
  "handle_service_request E ReqSubscribe srv = (\<lparr>ro_response = RespSubscribe (subscribe_response E srv), ro_subscribed = True\<rparr>, srv)"
| "handle_service_request E ReqGetStatus srv = (respond (RespStatus (status_response E srv)), srv)"
| "handle_service_request E ReqGetState srv = (respond (RespState (sc_lifecycle (ri_state_cache (sv_runtime srv)))), srv)"
| "handle_service_request E ReqGetTunnels srv = (respond_result RespTunnels (list_tunnels (sv_runtime srv)), srv)"
| "handle_service_request E ReqGetAccountTunnels srv =
     (respond_result RespAccountTunnels (list_account_tunnels (sv_status_text E) (sv_tunnels_list E) (sv_runtime srv)), srv)"
| "handle_service_request E (ReqCreateTunnel local_port protocol local_address name) srv =
     (respond_result RespCreateTunnel
        (create_tunnel (sv_text E) (sv_status_text E) (sv_tunnels_create E) local_port protocol local_address name (sv_runtime srv)), srv)"
| "handle_service_request E (ReqCreateMinecraftJavaTunnel local_port local_address name) srv =
     (respond_result RespCreateTunnel
        (create_minecraft_java_tunnel (sv_text E) (sv_status_text E) (sv_tunnels_create E) local_port local_address name (sv_runtime srv)), srv)"
| "handle_service_request E (ReqDeleteTunnel tid) srv =
     (respond_result RespDeleteTunnel (delete_tunnel (sv_text E) (sv_status_text E) (sv_tunnels_delete E) tid (sv_runtime srv)), srv)"
| "handle_service_request E (ReqReassignTunnel tid local_port local_address) srv =
     (respond_result RespReassignTunnel
        (reassign_tunnel (sv_text E) (sv_status_text E) (sv_tunnels_config E) tid local_port local_address (sv_runtime srv)), srv)"
| "handle_service_request E ReqGetAccount srv = (respond_result RespAccount (handle_account (sv_runtime srv)), srv)"
| "handle_service_request E ReqStartClaim srv = with_runtime srv RespClaim (start_claim (sv_claim_code E) (sv_runtime srv))"
| "handle_service_request E ReqStop srv =
     (respond (RespStop \<lparr>cr_accepted = True, cr_message = Some ''shutdown requested''\<rparr>), srv\<lparr>sv_host_shutdown := True\<rparr>)"
| "handle_service_request E (ReqSetSecret secret) srv =
     (respond_result RespSetSecret (set_secret (sv_secret_sent E secret) (sv_secret_answer E secret) (sv_runtime srv)), srv)"
| "handle_service_request E ReqResetSecret srv = (case reset_secret (sv_runtime srv) (sv_fs srv) of
     (r, i, w) \<Rightarrow> with_runtime (srv\<lparr>sv_fs := w\<rparr>) RespResetSecret (r, i))"
| "handle_service_request E ReqGetSecretPath srv =
     (respond (RespSecretPath (map_option path_display (secret_path_of (ri_secret_source (sv_runtime srv))))), srv)"
| "handle_service_request E ReqGetAccountLoginUrl srv =
     with_runtime srv RespAccountLoginUrl (account_login_url (sv_status_text E) (sv_now E) (sv_now2 E) (sv_login_guest E) (sv_runtime srv))"

definition handle_request_envelope :: "('f, 'v) server_env \<Rightarrow> IncomingRequestEnvelope \<Rightarrow> IpcServer \<Rightarrow> RequestOutcome \<times> IpcServer" where
  "handle_request_envelope E envelope srv = (case validate_request_envelope envelope of
     Inr request \<Rightarrow> handle_service_request E request srv
   | Inl response \<Rightarrow> (respond response, srv))"

subsection \<open>Connections\<close>

definition send_response ::
  "'j json_lib \<Rightarrow> ('j, 'w) frame_stream \<Rightarrow> u64 \<Rightarrow> ServiceResponse \<Rightarrow> 'w \<Rightarrow> (IpcError + unit) \<times> 'w" where
  "send_response J S rid response =
     write_json (server_to_string J) S (SrvResponse \<lparr>rs_ipc_version = IPC_VERSION, rs_request_id = rid, rs_response = response\<rparr>)"

definition send_hello :: "'j json_lib \<Rightarrow> ('j, 'w) frame_stream \<Rightarrow> 'w \<Rightarrow> (IpcError + unit) \<times> 'w" where
  "send_hello J S = write_json (server_to_string J) S (SrvHello protocol_info)"

fun transport_event :: "IpcServer \<Rightarrow> ServiceUpdate \<Rightarrow> ServiceUpdate" where
  "transport_event srv (UpdateStatus status) = UpdateStatus (status\<lparr>st_socket_path := sv_socket_path srv\<rparr>)"
| "transport_event srv event = event"

definition ipc_send_event ::
  "'j json_lib \<Rightarrow> ('j, 'w) frame_stream \<Rightarrow> IpcServer \<Rightarrow> ServiceUpdate \<Rightarrow> 'w \<Rightarrow> (IpcError + unit) \<times> 'w" where
  "ipc_send_event J S srv event =
     write_json (server_to_string J) S (SrvEvent \<lparr>ev_ipc_version = IPC_VERSION, ev_event = transport_event srv event\<rparr>)"

text \<open>What \<^verbatim>\<open>select!\<close> yields: a line or the end of the connection, or what the receiver of the events gives, which is only asked once subscribed.\<close>

datatype 'j client_event = ReadReady "(LinesCodecError + 'j) option" | EventReady ServiceUpdate | EventsLagged | EventsClosed

definition read_request :: "'j json_lib \<Rightarrow> (LinesCodecError + 'j) option \<Rightarrow> IpcError + IncomingRequestEnvelope" where
  "read_request J r = and_then (line_result r) (\<lambda>l. json_result (request_from_str J l))"

text \<open>The result of a turn: \<open>None\<close> goes on, otherwise the value that the handler of the connection returns.\<close>

definition turn_result :: "(IpcError + unit) \<times> 'w \<Rightarrow> IpcServer \<Rightarrow> bool \<Rightarrow> (IpcError + unit) option \<times> IpcServer \<times> bool \<times> 'w" where
  "turn_result sent srv subscribed = (case sent of
     (Inl e, w) \<Rightarrow> (Some (Inl e), srv, subscribed, w) | (Inr _, w) \<Rightarrow> (None, srv, subscribed, w))"

definition client_turn ::
  "'j json_lib \<Rightarrow> ('j, 'w) frame_stream \<Rightarrow> ('f, 'v) server_env \<Rightarrow> 'j client_event \<Rightarrow> IpcServer \<times> bool \<times> 'w \<Rightarrow>
   (IpcError + unit) option \<times> IpcServer \<times> bool \<times> 'w" where
  "client_turn J S E event = (\<lambda>(srv0, subscribed, w). let srv = sv_meanwhile E srv0 in
     case event of
       ReadReady r \<Rightarrow> (case read_request J r of
         Inl e \<Rightarrow> (Some (Inl e), srv, subscribed, w)
       | Inr envelope \<Rightarrow> (case handle_request_envelope E envelope srv of (outcome, srv1) \<Rightarrow>
           turn_result (send_response J S (irq_request_id envelope) (ro_response outcome) w) srv1 (ro_subscribed outcome \<or> subscribed)))
     | _ \<Rightarrow>
       if \<not> subscribed then (None, srv, subscribed, w)
       else (case event of
         EventReady update \<Rightarrow> turn_result (ipc_send_event J S srv update w) srv subscribed
       | EventsLagged \<Rightarrow> (None, srv, subscribed, w)
       | _ \<Rightarrow> (Some (Inr ()), srv, subscribed, w)))"

fun client_loop ::
  "'j json_lib \<Rightarrow> ('j, 'w) frame_stream \<Rightarrow> (('f, 'v) server_env \<times> 'j client_event) list \<Rightarrow> IpcServer \<times> bool \<times> 'w \<Rightarrow>
   (IpcError + unit) option \<times> IpcServer \<times> bool \<times> 'w" where
  "client_loop J S [] s = (None, s)"
| "client_loop J S ((E, event) # rest) s = (case client_turn J S E event s of
     (None, s1) \<Rightarrow> client_loop J S rest s1
   | (Some result, s1) \<Rightarrow> (Some result, s1))"

definition handle_client ::
  "'j json_lib \<Rightarrow> ('j, 'w) frame_stream \<Rightarrow> (('f, 'v) server_env \<times> 'j client_event) list \<Rightarrow> IpcServer \<times> 'w \<Rightarrow>
   (IpcError + unit) option \<times> IpcServer \<times> bool \<times> 'w" where
  "handle_client J S inputs = (\<lambda>(srv, w). case send_hello J S w of
     (Inl e, w1) \<Rightarrow> (Some (Inl e), srv, False, w1)
   | (Inr _, w1) \<Rightarrow> client_loop J S inputs (srv, False, w1))"

text \<open>
  The loop that accepts connections, over what its \<^verbatim>\<open>select!\<close> yields: every connection is handled by a task of its own, a failure to accept is waited out,
  and the loop ends once the host shuts down. The value is the streams that were handed to tasks and whether the loop has ended.
\<close>

datatype 's accept_event = AcceptOk 's | AcceptFailed io_error | HostShutdown

fun server_run :: "'s accept_event list \<Rightarrow> 's list \<times> (IpcError + unit) option" where
  "server_run [] = ([], None)"
| "server_run (AcceptOk s # rest) = (case server_run rest of (tasks, r) \<Rightarrow> (s # tasks, r))"
| "server_run (AcceptFailed _ # rest) = server_run rest"
| "server_run (HostShutdown # _) = ([], Some (Inr ()))"

subsection \<open>Laws\<close>

lemma subscribed_iff: "ro_subscribed (fst (handle_service_request E r srv)) \<longleftrightarrow> r = ReqSubscribe"
  by (cases r) (auto simp: respond_def respond_result_def with_runtime_def split: prod.splits)

lemma response_fits_request: "response_fits r (ro_response (fst (handle_service_request E r srv)))"
  by (cases r)
    (auto simp: respond_def respond_result_def with_runtime_def runtime_error_response_def split: prod.splits sum.splits)

lemma subscribe_response_iff:
  "(\<exists>x. ro_response (fst (handle_service_request E r srv)) = RespSubscribe x) \<longleftrightarrow> r = ReqSubscribe"
  using response_fits_request [of r E srv]
  by (cases r) (auto split: ServiceResponse.splits)

lemma validate_Inl: "validate_request_envelope envelope = Inl response \<Longrightarrow> \<exists>e. response = RespError e"
  by (auto simp: validate_request_envelope_def split: if_splits ServiceRequestOrUnknown.splits)

lemma outcome_subscribed:
  "ro_subscribed (fst (handle_request_envelope E envelope srv)) \<longleftrightarrow>
   (\<exists>x. ro_response (fst (handle_request_envelope E envelope srv)) = RespSubscribe x)"
  using validate_Inl [of envelope]
  by (auto simp: handle_request_envelope_def subscribed_iff subscribe_response_iff respond_def split: sum.splits)

text \<open>A stream whose writes succeed, with the lines that were written.\<close>

definition collect_stream :: "('j, 'j list) frame_stream" where
  "collect_stream = \<lparr>frame_next = (\<lambda>w. (None, w)), frame_send = (\<lambda>j w. (Inr (), w @ [j]))\<rparr>"

context ipc_json
begin

lemma write_collect:
  obtains j where "write_json (server_to_string J) collect_stream e w = (Inr (), w @ [j])" "server_to_string J e = Inr j"
    "server_from_str J j = Inr e"
  using server_text [of e] by (auto simp: write_json_def collect_stream_def)

end

subsubsection \<open>What a connection writes\<close>

fun response_ids :: "ServerEnvelope list \<Rightarrow> u64 list" where
  "response_ids [] = []"
| "response_ids (SrvResponse r # fs) = rs_request_id r # response_ids fs"
| "response_ids (_ # fs) = response_ids fs"

fun sent_updates :: "ServerEnvelope list \<Rightarrow> ServiceUpdate list" where
  "sent_updates [] = []"
| "sent_updates (SrvEvent e # fs) = ev_event e # sent_updates fs"
| "sent_updates (_ # fs) = sent_updates fs"

text \<open>The ids of the requests that can be read, in order.\<close>

fun request_ids :: "'j json_lib \<Rightarrow> (('f, 'v) server_env \<times> 'j client_event) list \<Rightarrow> u64 list" where
  "request_ids J [] = []"
| "request_ids J ((E, event) # rest) = (case event of
     ReadReady r \<Rightarrow> (case read_request J r of
       Inl _ \<Rightarrow> [] | Inr envelope \<Rightarrow> irq_request_id envelope # request_ids J rest)
   | _ \<Rightarrow> request_ids J rest)"

text \<open>The protocol after the hello, from a state that is subscribed or not: the version is right, an event needs a subscription, there is no second hello.\<close>

fun speaks_protocol :: "bool \<Rightarrow> ServerEnvelope list \<Rightarrow> bool" where
  "speaks_protocol subscribed [] = True"
| "speaks_protocol subscribed (SrvHello _ # fs) = False"
| "speaks_protocol subscribed (SrvResponse r # fs) \<longleftrightarrow> rs_ipc_version r = IPC_VERSION \<and>
     speaks_protocol (subscribed \<or> (\<exists>x. rs_response r = RespSubscribe x)) fs"
| "speaks_protocol subscribed (SrvEvent e # fs) \<longleftrightarrow> subscribed \<and> ev_ipc_version e = IPC_VERSION \<and> speaks_protocol subscribed fs"

definition subscribes :: "ServerEnvelope \<Rightarrow> bool" where
  "subscribes f \<longleftrightarrow> (case f of SrvResponse r \<Rightarrow> (case rs_response r of RespSubscribe _ \<Rightarrow> True | _ \<Rightarrow> False) | _ \<Rightarrow> False)"

lemma subscribes_simps [simp]:
  "subscribes (SrvResponse r) \<longleftrightarrow> (\<exists>x. rs_response r = RespSubscribe x)" "\<not> subscribes (SrvHello h)" "\<not> subscribes (SrvEvent e)"
  by (auto simp: subscribes_def split: ServiceResponse.splits)

lemma speaks_protocol_Cons: "speaks_protocol b (f # fs) \<longleftrightarrow> speaks_protocol b [f] \<and> speaks_protocol (b \<or> subscribes f) fs"
  by (cases f) auto

lemma response_ids_Cons: "response_ids (f # fs) = response_ids [f] @ response_ids fs"
  by (cases f) auto

context ipc_json
begin

text \<open>A turn writes at most one frame.\<close>

lemma client_turn_read:
  assumes "read_request J r = Inr envelope"
  obtains j response srv1 where
    "client_turn J collect_stream E (ReadReady r) (srv, subscribed, w) =
       (None, srv1, subscribed \<or> (\<exists>x. response = RespSubscribe x), w @ [j])"
    "server_from_str J j = Inr (SrvResponse \<lparr>rs_ipc_version = IPC_VERSION, rs_request_id = irq_request_id envelope, rs_response = response\<rparr>)"
proof -
  obtain outcome srv1 where h: "handle_request_envelope E envelope (sv_meanwhile E srv) = (outcome, srv1)" by fastforce
  obtain j where j: "send_response J collect_stream (irq_request_id envelope) (ro_response outcome) w = (Inr (), w @ [j])"
    "server_from_str J j = Inr (SrvResponse \<lparr>rs_ipc_version = IPC_VERSION, rs_request_id = irq_request_id envelope,
       rs_response = ro_response outcome\<rparr>)"
    unfolding send_response_def by (rule write_collect)
  have "ro_subscribed outcome \<longleftrightarrow> (\<exists>x. ro_response outcome = RespSubscribe x)"
    using outcome_subscribed [of E envelope "sv_meanwhile E srv"] h by simp
  with h j assms show thesis by (intro that [of srv1 "ro_response outcome" j]) (auto simp: client_turn_def turn_result_def)
qed

lemma client_turn_event:
  assumes "subscribed"
  obtains j where "client_turn J collect_stream E (EventReady update) (srv, subscribed, w) = (None, sv_meanwhile E srv, subscribed, w @ [j])"
    "server_from_str J j = Inr (SrvEvent \<lparr>ev_ipc_version = IPC_VERSION, ev_event = transport_event (sv_meanwhile E srv) update\<rparr>)"
proof -
  obtain j where "ipc_send_event J collect_stream (sv_meanwhile E srv) update w = (Inr (), w @ [j])"
    "server_from_str J j = Inr (SrvEvent \<lparr>ev_ipc_version = IPC_VERSION, ev_event = transport_event (sv_meanwhile E srv) update\<rparr>)"
    unfolding ipc_send_event_def by (rule write_collect)
  with assms show thesis by (intro that [of j]) (auto simp: client_turn_def turn_result_def)
qed

lemma client_turn_frame:
  assumes "client_turn J collect_stream E event (srv, subscribed, w) = (res, srv1, subscribed1, w1)"
  shows "(\<exists>j f. res = None \<and> w1 = w @ [j] \<and> server_from_str J j = Inr f \<and> speaks_protocol subscribed [f] \<and>
      subscribed1 = (subscribed \<or> subscribes f) \<and> request_ids J ((E, event) # rest) = response_ids [f] @ request_ids J rest) \<or>
    w1 = w \<and> (res = None \<longrightarrow> subscribed1 = subscribed \<and> request_ids J ((E, event) # rest) = request_ids J rest)"
proof (cases event)
  case (ReadReady r)
  show ?thesis
  proof (cases "read_request J r")
    case (Inl e)
    with assms ReadReady show ?thesis by (auto simp: client_turn_def)
  next
    case (Inr envelope)
    show ?thesis by (rule client_turn_read [OF Inr, of E srv subscribed w]) (use assms ReadReady Inr in auto)
  qed
next
  case (EventReady update)
  show ?thesis
  proof (cases subscribed)
    case True
    show ?thesis by (rule client_turn_event [OF True, of E update srv w]) (use assms EventReady True in auto)
  qed (use assms EventReady in \<open>auto simp: client_turn_def\<close>)
qed (use assms in \<open>auto simp: client_turn_def Let_def split: if_splits\<close>)

lemma client_loop_frames:
  "client_loop J collect_stream inputs (srv, subscribed, w) = (res, srv1, subscribed1, w1) \<Longrightarrow>
   \<exists>js fs rest. w1 = w @ js \<and> map (server_from_str J) js = map Inr fs \<and> speaks_protocol subscribed fs \<and>
     request_ids J inputs = response_ids fs @ rest \<and> (res = None \<longrightarrow> rest = [])"
proof (induction inputs arbitrary: srv subscribed w)
  case Nil
  then show ?case by (auto intro!: exI [of _ "[]"])
next
  case (Cons p inputs)
  obtain E event where p: "p = (E, event)" by force
  obtain res' srv' subscribed' w' where t: "client_turn J collect_stream E event (srv, subscribed, w) = (res', srv', subscribed', w')"
    by (metis prod_cases4)
  note step = client_turn_frame [OF t, of inputs]
  show ?case
  proof (cases res')
    case (Some result)
    with Cons.prems p t have "w1 = w'" "res = Some result" by simp_all
    with step Some show ?thesis by (auto intro!: exI [of _ "[]"])
  next
    case None
    with Cons.prems p t have "client_loop J collect_stream inputs (srv', subscribed', w') = (res, srv1, subscribed1, w1)" by simp
    from Cons.IH [OF this] obtain js fs rest where IH: "w1 = w' @ js" "map (server_from_str J) js = map Inr fs" "speaks_protocol subscribed' fs"
      "request_ids J inputs = response_ids fs @ rest" "res = None \<longrightarrow> rest = []" by auto
    from step None consider (frame) j f where "w' = w @ [j]" "server_from_str J j = Inr f" "speaks_protocol subscribed [f]"
        "subscribed' = (subscribed \<or> subscribes f)" "request_ids J (p # inputs) = response_ids [f] @ request_ids J inputs"
      | (silent) "w' = w" "subscribed' = subscribed" "request_ids J (p # inputs) = request_ids J inputs" using p by auto
    then show ?thesis
    proof cases
      case frame
      with IH show ?thesis
        by (intro exI [of _ "j # js"] exI [of _ "f # fs"] exI [of _ rest])
          (simp add: speaks_protocol_Cons [of _ f fs] response_ids_Cons [of f fs])
    qed (use IH in auto)
  qed
qed

end

subsection \<open>Properties\<close>

text \<open>
  C32: A connection speaks the protocol. Whatever its client sends, whatever events there are and whatever the rest of the service does in between, as long as the
  writes succeed, the first frame that the connection writes is the hello; after it, the responses answer the readable requests one for one and in
  order, each under the id of its request, and none is left unanswered while the connection is open; an event is only written after the response to
  a subscription; every frame has the version of the protocol.
\<close>

theorem connection_speaks_protocol:
  assumes "ipc_json J" "handle_client J collect_stream inputs (srv, []) = (res, srv1, subscribed, out)"
  shows "\<exists>fs rest. map (server_from_str J) out = map Inr (SrvHello protocol_info # fs) \<and> speaks_protocol False fs \<and>
    request_ids J inputs = response_ids fs @ rest \<and> (res = None \<longrightarrow> rest = [])"
proof -
  obtain j where j: "send_hello J collect_stream [] = (Inr (), [j])" "server_from_str J j = Inr (SrvHello protocol_info)"
    unfolding send_hello_def using ipc_json.write_collect [OF assms(1), of "SrvHello protocol_info" "[]"] by auto
  then have "client_loop J collect_stream inputs (srv, False, [j]) = (res, srv1, subscribed, out)"
    using assms(2) by (simp add: handle_client_def)
  from ipc_json.client_loop_frames [OF assms(1) this] j(2) show ?thesis by auto
qed

definition example_env :: "(unit, unit) server_env" where
  "example_env = \<lparr>sv_text = example_text, sv_status_text = (\<lambda>_. []), sv_now = 5000, sv_now2 = 5001, sv_claim_code = ''abc'',
     sv_tunnels_list = (\<lambda>_. Inr []), sv_tunnels_create = (\<lambda>_ _. Inr ''t1''), sv_tunnels_delete = (\<lambda>_ _. Inr ()),
     sv_tunnels_config = (\<lambda>_ _. Inr ()), sv_login_guest = (\<lambda>_. Inr ''key''), sv_secret_sent = (\<lambda>_. Some True),
     sv_secret_answer = (\<lambda>_. Some (Some (Inr ()))), sv_meanwhile = (\<lambda>srv. srv)\<rparr>"

definition example_fs :: fs where
  "example_fs = \<lparr>fs_files = Map.empty, fs_dirs = {}, fs_dir_mode = (\<lambda>_. 0), fs_faults = []\<rparr>"

definition example_server :: IpcServer where
  "example_server = \<lparr>sv_runtime = example_waiting, sv_socket_path = ''@playit'', sv_host_shutdown = False, sv_fs = example_fs\<rparr>"

definition example_request :: "u32 \<Rightarrow> u64 \<Rightarrow> ServiceRequest \<Rightarrow> (unit, unit) server_env \<times> plain_text client_event" where
  "example_request v rid r =
     (example_env, ReadReady (Some (Inr (PlainRequest \<lparr>rq_ipc_version = v, rq_request_id = rid, rq_request = r\<rparr>))))"

definition example_inputs :: "((unit, unit) server_env \<times> plain_text client_event) list" where
  "example_inputs = [(example_env, EventReady (UpdateLifecycle LifecycleStarting)), example_request 2 1 ReqStop, example_request 3 2 ReqStartClaim,
     example_request 3 3 ReqSubscribe, (example_env, EventReady (UpdateLifecycle WaitingForSecret))]"

theorem connection_speaks_protocol_witness:
  "\<exists>res srv1 subscribed out fs. handle_client plain_json collect_stream example_inputs (example_server, []) = (res, srv1, subscribed, out) \<and>
     map (server_from_str plain_json) out = map Inr (SrvHello protocol_info # fs) \<and> speaks_protocol False fs \<and>
     response_ids fs = [1, 2, 3] \<and> res = None"
proof -
  obtain res srv1 subscribed out where h: "handle_client plain_json collect_stream example_inputs (example_server, []) = (res, srv1, subscribed, out)"
    by (metis prod_cases4)
  have none: "res = None"
    using h by (auto simp: handle_client_def send_hello_def send_response_def ipc_send_event_def write_json_def collect_stream_def plain_json_def
      example_inputs_def example_request_def client_turn_def read_request_def line_result_def json_result_def example_env_def turn_result_def
      handle_request_envelope_def validate_request_envelope_def incoming_request_def IPC_VERSION_def respond_def with_runtime_def
      subscribe_response_def split: prod.splits)
  have ids: "request_ids plain_json example_inputs = [1, 2, 3]"
    by (simp add: example_inputs_def example_request_def read_request_def line_result_def json_result_def plain_json_def incoming_request_def)
  from connection_speaks_protocol [OF plain.ipc_json_axioms h] none ids h show ?thesis by fastforce
qed

end
