(* ===== verification/Ipc_Session.thy ===== *)
theory Ipc_Session
  imports Ipc_Server Supervisor
begin

section \<open>Clients and the server together\<close>

text \<open>
  The client of \<^verbatim>\<open>ipc.rs\<close> on a connection of the server of \<^verbatim>\<open>ipc_server.rs\<close>, and what a subscriber knows of the service. The interface between the two is the
  locale \<open>rpc_peer\<close>: a stream whose other end answers each request with one response. The server's connections implement it.
\<close>

subsection \<open>A connection as a stream\<close>

text \<open>
  The world of a client's stream: the server's end of the connection and the lines that are on their way to the client. A line that the client sends is read by
  the server in a turn of its own, in the environment of that turn. Once the client has subscribed, the other branch of the server's \<^verbatim>\<open>select!\<close> may run before that turn, and
  writes the updates that are published. The daemon may end, and with it the connection, before it reads a line or before its answer is out.
\<close>

datatype stream_push = Pushed ServiceUpdate | PushLagged | PushesClosed

fun push_event :: "stream_push \<Rightarrow> 'j client_event" where
  "push_event (Pushed update) = EventReady update"
| "push_event PushLagged = EventsLagged"
| "push_event PushesClosed = EventsClosed"

datatype link_fault = LinkUp | ClosedBefore | ClosedAfter

record ('f, 'v) link_plan =
  lp_envs :: "nat \<Rightarrow> ('f, 'v) server_env"
  lp_pushes :: "nat \<Rightarrow> (('f, 'v) server_env \<times> stream_push) list"
  lp_fault :: "nat \<Rightarrow> link_fault"

record ('j, 'f, 'v) link =
  lk_server :: IpcServer
  lk_subscribed :: bool
  lk_result :: "(IpcError + unit) option"
  lk_inbox :: "'j list"
  lk_plan :: "('f, 'v) link_plan"
  lk_turn :: nat
  lk_opened :: nat

definition link_env :: "('j, 'f, 'v) link \<Rightarrow> ('f, 'v) server_env" where
  "link_env w = lp_envs (lk_plan w) (lk_turn w)"

definition link_fault_now :: "('j, 'f, 'v) link \<Rightarrow> link_fault" where
  "link_fault_now w = lp_fault (lk_plan w) (lk_turn w)"

definition link_pending :: "('j, 'f, 'v) link \<Rightarrow> (('f, 'v) server_env \<times> stream_push) list" where
  "link_pending w = (if lk_subscribed w then lp_pushes (lk_plan w) (lk_turn w) else [])"

definition broken_pipe :: "LinesCodecError + unit" where
  "broken_pipe = Inl (LinesIo (Error BrokenPipe ''Broken pipe''))"

definition link_send :: "'j json_lib \<Rightarrow> 'j \<Rightarrow> ('j, 'f, 'v) link \<Rightarrow> (LinesCodecError + unit) \<times> ('j, 'f, 'v) link" where
  "link_send J j w = (case lk_result w of
     Some _ \<Rightarrow> (broken_pipe, w)
   | None \<Rightarrow> (case client_loop J collect_stream (map (apsnd push_event) (link_pending w)) (lk_server w, lk_subscribed w, lk_inbox w) of
       (Some res, srv, sub, inbox) \<Rightarrow>
         (broken_pipe, w\<lparr>lk_server := srv, lk_subscribed := sub, lk_result := Some res, lk_inbox := inbox\<rparr>)
     | (None, srv, sub, inbox) \<Rightarrow>
         if link_fault_now w = ClosedBefore
         then (broken_pipe, w\<lparr>lk_server := srv, lk_subscribed := sub, lk_result := Some (Inr ()), lk_inbox := inbox\<rparr>)
         else (case client_turn J collect_stream (link_env w) (ReadReady (Some (Inr j))) (srv, sub, inbox) of
           (res, srv1, sub1, inbox1) \<Rightarrow>
             (Inr (), w\<lparr>lk_server := srv1, lk_subscribed := sub1, lk_result := (if link_fault_now w = ClosedAfter then Some (Inr ()) else res),
                lk_inbox := (if link_fault_now w = ClosedAfter then inbox else inbox1), lk_turn := Suc (lk_turn w)\<rparr>))))"

definition link_next :: "('j, 'f, 'v) link \<Rightarrow> (LinesCodecError + 'j) option \<times> ('j, 'f, 'v) link" where
  "link_next w = (case lk_inbox w of [] \<Rightarrow> (None, w) | j # js \<Rightarrow> (Some (Inr j), w\<lparr>lk_inbox := js\<rparr>))"

definition link_stream :: "'j json_lib \<Rightarrow> ('j, ('j, 'f, 'v) link) frame_stream" where
  "link_stream J = \<lparr>frame_next = link_next, frame_send = link_send J\<rparr>"

text \<open>The connection at its start: the server has written the hello. \<open>n\<close> counts the connections to the daemon.\<close>

definition link_open :: "'j json_lib \<Rightarrow> ('f, 'v) link_plan \<Rightarrow> nat \<Rightarrow> IpcServer \<Rightarrow> ('j, 'f, 'v) link" where
  "link_open J plan n srv = (case handle_client J collect_stream ([] :: (('f, 'v) server_env \<times> 'j client_event) list) (srv, []) of
     (res, srv1, sub, out) \<Rightarrow>
       \<lparr>lk_server = srv1, lk_subscribed = sub, lk_result = res, lk_inbox = out, lk_plan = plan, lk_turn = 0, lk_opened = n\<rparr>)"

text \<open>
  A connection between two requests; it is ready for the next one when nothing was written since and the daemon answers it. It is steady when in addition the client has not
  subscribed and the daemon answers all the requests to come.
\<close>

definition link_idle :: "('j, 'f, 'v) link \<Rightarrow> bool" where
  "link_idle w \<longleftrightarrow> lk_result w = None \<and> lk_inbox w = [] \<and> link_pending w = []"

definition link_ready :: "('j, 'f, 'v) link \<Rightarrow> bool" where
  "link_ready w \<longleftrightarrow> link_idle w \<and> link_fault_now w = LinkUp"

definition link_steady :: "('j, 'f, 'v) link \<Rightarrow> bool" where
  "link_steady w \<longleftrightarrow> link_idle w \<and> \<not> lk_subscribed w \<and> (\<forall>n \<ge> lk_turn w. lp_fault (lk_plan w) n = LinkUp)"

definition link_outcome :: "ServiceRequest \<Rightarrow> ('j, 'f, 'v) link \<Rightarrow> RequestOutcome \<times> IpcServer" where
  "link_outcome r w = handle_service_request (link_env w) r (sv_meanwhile (link_env w) (lk_server w))"

definition link_answer :: "ServiceRequest \<Rightarrow> ('j, 'f, 'v) link \<Rightarrow> ServiceResponse \<times> ('j, 'f, 'v) link" where
  "link_answer r w = (ro_response (fst (link_outcome r w)),
     w\<lparr>lk_server := snd (link_outcome r w), lk_subscribed := (r = ReqSubscribe \<or> lk_subscribed w), lk_turn := Suc (lk_turn w)\<rparr>)"

subsection \<open>The interface\<close>

fun run_ops ::
  "'j json_lib \<Rightarrow> ('j, 'w) frame_stream \<Rightarrow> ServiceRequest list \<Rightarrow> IpcClient \<times> 'w \<Rightarrow> (IpcError + ServiceResponse) list \<times> IpcClient \<times> 'w" where
  "run_ops J S [] s = ([], s)"
| "run_ops J S (r # rs) s = (case client_op J S r s of (res, s1) \<Rightarrow> (case run_ops J S rs s1 of (results, s2) \<Rightarrow> (res # results, s2)))"

fun answers :: "(ServiceRequest \<Rightarrow> 'w \<Rightarrow> ServiceResponse \<times> 'w) \<Rightarrow> ServiceRequest list \<Rightarrow> 'w \<Rightarrow> ServiceResponse list \<times> 'w" where
  "answers answer [] w = ([], w)"
| "answers answer (r # rs) w = (case answer r w of (x, w1) \<Rightarrow> (case answers answer rs w1 of (xs, w2) \<Rightarrow> (x # xs, w2)))"

text \<open>A peer that answers one request, and a session with it: it goes on being ready as long as the client has not subscribed.\<close>

locale rpc_peer = ipc_json J for J :: "'j json_lib" +
  fixes S :: "('j, 'w) frame_stream" and ready :: "'w \<Rightarrow> bool" and answer :: "ServiceRequest \<Rightarrow> 'w \<Rightarrow> ServiceResponse \<times> 'w"
  assumes responds: "ready w \<Longrightarrow> request_to_string J \<lparr>rq_ipc_version = IPC_VERSION, rq_request_id = rid, rq_request = r\<rparr> = Inr j \<Longrightarrow>
      \<exists>w1 jr. frame_send S j w = (Inr (), w1) \<and> frame_next S w1 = (Some (Inr jr), snd (answer r w)) \<and>
        server_to_string J (SrvResponse \<lparr>rs_ipc_version = IPC_VERSION, rs_request_id = rid, rs_response = fst (answer r w)\<rparr>) = Inr jr"
    and fits: "ready w \<Longrightarrow> response_fits r (fst (answer r w))"
begin

lemma request_answered:
  assumes "ready w"
  shows "client_request J S r (c, w) = (Inr (fst (answer r w)), c\<lparr>next_request_id := next_request_id c + 1\<rparr>, snd (answer r w))"
proof -
  let ?env = "\<lparr>rq_ipc_version = IPC_VERSION, rq_request_id = next_request_id c, rq_request = r\<rparr>"
  obtain j where j: "request_to_string J ?env = Inr j" by (rule request_text)
  from responds [OF assms j] obtain w1 jr where s: "frame_send S j w = (Inr (), w1)" "frame_next S w1 = (Some (Inr jr), snd (answer r w))"
    and jr: "server_to_string J (SrvResponse \<lparr>rs_ipc_version = IPC_VERSION, rs_request_id = next_request_id c, rs_response = fst (answer r w)\<rparr>) = Inr jr"
    by blast
  show ?thesis
    using j s server_back [OF jr]
    by (simp add: client_request_def send_request_def write_json_def recv_response_def recv_server_envelope_def read_json_def read_line_def
      line_result_def json_result_def response_of_def check_response_def ensure_ipc_version_def Let_def)
qed

lemma op_answered:
  assumes "ready w"
  shows "client_op J S r (c, w) = (op_result (Inr (fst (answer r w))), c\<lparr>next_request_id := next_request_id c + 1\<rparr>, snd (answer r w))"
  by (rule client_op_fits [OF request_answered [OF assms]]) (use fits [OF assms] in simp)

end

locale rpc_session = rpc_peer J S ready answer for J :: "'j json_lib" and S ready answer +
  fixes steady :: "'w \<Rightarrow> bool"
  assumes steady_ready: "steady w \<Longrightarrow> ready w"
    and stays_steady: "steady w \<Longrightarrow> r \<noteq> ReqSubscribe \<Longrightarrow> steady (snd (answer r w))"
begin

lemma answers_steady: "steady w \<Longrightarrow> ReqSubscribe \<notin> set rs \<Longrightarrow> steady (snd (answers answer rs w))"
proof (induction rs arbitrary: w)
  case (Cons r rs)
  then have "r \<noteq> ReqSubscribe" by auto
  from Cons.IH [OF stays_steady [OF Cons.prems(1) this]] Cons.prems(2) show ?case by (simp add: split_beta)
qed simp

lemma ops_answered:
  assumes "steady w" "ReqSubscribe \<notin> set (butlast rs)"
  shows "run_ops J S rs (c, w) =
     (map (\<lambda>x. op_result (Inr x)) (fst (answers answer rs w)), c\<lparr>next_request_id := next_request_id c + of_nat (length rs)\<rparr>, snd (answers answer rs w)) \<and>
   list_all2 response_fits rs (fst (answers answer rs w))"
  using assms
proof (induction rs arbitrary: w c)
  case (Cons r rs)
  note ready = steady_ready [OF Cons.prems(1)]
  note one = op_answered [OF ready, of r c] and fit = fits [OF ready, of r]
  show ?case
  proof (cases "rs = []")
    case True
    with one fit show ?thesis by (simp add: split_beta)
  next
    case False
    with Cons.prems have "r \<noteq> ReqSubscribe" "ReqSubscribe \<notin> set (butlast rs)" by auto
    with Cons.IH [OF stays_steady [OF Cons.prems(1)], of r "c\<lparr>next_request_id := next_request_id c + 1\<rparr>"] one fit
    show ?thesis by (simp add: split_beta)
  qed
qed simp

end

subsection \<open>The server implements the interface\<close>

context ipc_json
begin

text \<open>The turn in which the server reads a request of a client.\<close>

lemma request_turn:
  assumes "request_to_string J \<lparr>rq_ipc_version = IPC_VERSION, rq_request_id = rid, rq_request = r\<rparr> = Inr j"
  obtains jr where
    "server_to_string J (SrvResponse \<lparr>rs_ipc_version = IPC_VERSION, rs_request_id = rid, rs_response = ro_response (fst (handle_service_request E r (sv_meanwhile E srv)))\<rparr>) = Inr jr"
    "client_turn J collect_stream E (ReadReady (Some (Inr j))) (srv, sub, inbox) =
      (None, snd (handle_service_request E r (sv_meanwhile E srv)), r = ReqSubscribe \<or> sub, inbox @ [jr])"
proof -
  obtain outcome srv1 where o: "handle_service_request E r (sv_meanwhile E srv) = (outcome, srv1)" by fastforce
  let ?e = "SrvResponse \<lparr>rs_ipc_version = IPC_VERSION, rs_request_id = rid, rs_response = ro_response outcome\<rparr>"
  obtain jr where jr: "send_response J collect_stream rid (ro_response outcome) inbox = (Inr (), inbox @ [jr])" "server_to_string J ?e = Inr jr"
    unfolding send_response_def using write_collect [of ?e inbox] by auto
  have "ro_subscribed outcome \<longleftrightarrow> r = ReqSubscribe"
    using subscribed_iff [of E r "sv_meanwhile E srv"] o by simp
  moreover have "read_request J (Some (Inr j)) = Inr \<lparr>irq_ipc_version = IPC_VERSION, irq_request_id = rid, irq_request = KnownRequest r\<rparr>"
    using request_back [OF assms] by (simp add: read_request_def line_result_def json_result_def incoming_request_def)
  ultimately show thesis
    using o jr by (intro that [of jr]) (simp_all add: client_turn_def turn_result_def handle_request_envelope_def validate_request_envelope_def)
qed

lemma link_send_idle:
  assumes "link_idle w" "request_to_string J \<lparr>rq_ipc_version = IPC_VERSION, rq_request_id = rid, rq_request = r\<rparr> = Inr j"
  obtains jr where
    "server_to_string J (SrvResponse \<lparr>rs_ipc_version = IPC_VERSION, rs_request_id = rid, rs_response = fst (link_answer r w)\<rparr>) = Inr jr"
    "link_send J j w = (case link_fault_now w of
       LinkUp \<Rightarrow> (Inr (), (snd (link_answer r w))\<lparr>lk_inbox := [jr]\<rparr>)
     | ClosedBefore \<Rightarrow> (broken_pipe, w\<lparr>lk_result := Some (Inr ())\<rparr>)
     | ClosedAfter \<Rightarrow> (Inr (), (snd (link_answer r w))\<lparr>lk_result := Some (Inr ())\<rparr>))"
proof (rule request_turn [OF assms(2), of "link_env w" "lk_server w" "lk_subscribed w" "[]"])
  fix jr
  let ?o = "handle_service_request (link_env w) r (sv_meanwhile (link_env w) (lk_server w))"
  assume jr: "server_to_string J (SrvResponse \<lparr>rs_ipc_version = IPC_VERSION, rs_request_id = rid, rs_response = ro_response (fst ?o)\<rparr>) = Inr jr"
    and t: "client_turn J collect_stream (link_env w) (ReadReady (Some (Inr j))) (lk_server w, lk_subscribed w, []) =
      (None, snd ?o, r = ReqSubscribe \<or> lk_subscribed w, [] @ [jr])"
  have idle: "lk_result w = None" "lk_inbox w = []" "link_pending w = []" using assms(1) by (simp_all add: link_idle_def)
  have same: "w\<lparr>lk_server := lk_server w, lk_subscribed := lk_subscribed w, lk_result := x, lk_inbox := []\<rparr> = w\<lparr>lk_result := x\<rparr>"
    "w\<lparr>lk_server := a, lk_subscribed := b, lk_result := x, lk_inbox := [], lk_turn := n\<rparr> = w\<lparr>lk_server := a, lk_subscribed := b, lk_turn := n, lk_result := x\<rparr>"
    "w\<lparr>lk_server := a, lk_subscribed := b, lk_result := None, lk_inbox := js, lk_turn := n\<rparr> = w\<lparr>lk_server := a, lk_subscribed := b, lk_turn := n, lk_inbox := js\<rparr>"
    for x a b n js using idle by (cases w; simp)+
  show thesis
  proof (rule that [of jr])
    show "server_to_string J (SrvResponse \<lparr>rs_ipc_version = IPC_VERSION, rs_request_id = rid, rs_response = fst (link_answer r w)\<rparr>) = Inr jr"
      using jr by (simp add: link_answer_def link_outcome_def)
    show "link_send J j w = (case link_fault_now w of
       LinkUp \<Rightarrow> (Inr (), (snd (link_answer r w))\<lparr>lk_inbox := [jr]\<rparr>)
     | ClosedBefore \<Rightarrow> (broken_pipe, w\<lparr>lk_result := Some (Inr ())\<rparr>)
     | ClosedAfter \<Rightarrow> (Inr (), (snd (link_answer r w))\<lparr>lk_result := Some (Inr ())\<rparr>))"
      using t by (cases "link_fault_now w") (simp_all add: link_send_def idle same link_answer_def link_outcome_def)
  qed
qed

end

sublocale ipc_json \<subseteq> served: rpc_session J "link_stream J" link_ready link_answer link_steady
proof unfold_locales
  fix w :: "('j, 'f, 'v) link" and rid r j
  assume ready: "link_ready w" and j: "request_to_string J \<lparr>rq_ipc_version = IPC_VERSION, rq_request_id = rid, rq_request = r\<rparr> = Inr j"
  let ?e = "SrvResponse \<lparr>rs_ipc_version = IPC_VERSION, rs_request_id = rid, rs_response = fst (link_answer r w)\<rparr>"
  have "link_idle w" using ready by (simp add: link_ready_def)
  from link_send_idle [OF this j] obtain jr where jr: "server_to_string J ?e = Inr jr" "link_send J j w = (Inr (), (snd (link_answer r w))\<lparr>lk_inbox := [jr]\<rparr>)"
    using ready by (auto simp: link_ready_def)
  have "(snd (link_answer r w))\<lparr>lk_inbox := []\<rparr> = snd (link_answer r w)"
    using ready by (cases w) (simp add: link_answer_def link_ready_def link_idle_def)
  then show "\<exists>w1 jr. frame_send (link_stream J) j w = (Inr (), w1) \<and> frame_next (link_stream J) w1 = (Some (Inr jr), snd (link_answer r w)) \<and>
      server_to_string J ?e = Inr jr"
    using jr by (simp add: link_stream_def link_next_def)
next
  fix w :: "('j, 'f, 'v) link" and r
  show "response_fits r (fst (link_answer r w))" by (simp add: link_answer_def link_outcome_def response_fits_request)
next
  fix w :: "('j, 'f, 'v) link" and r
  assume "link_steady w"
  then show "link_ready w" by (simp add: link_steady_def link_ready_def link_fault_now_def)
  assume "r \<noteq> ReqSubscribe"
  with \<open>link_steady w\<close> show "link_steady (snd (link_answer r w))"
    by (simp add: link_steady_def link_idle_def link_answer_def link_pending_def)
qed

context ipc_json
begin

lemmas link_ops_answered = served.ops_answered

lemmas link_request_answered = served.request_answered

lemmas link_answers_steady = served.answers_steady

text \<open>A request on a connection that ends before or after the server reads it: an error, and the server has not or has handled it.\<close>

lemma link_request_cut:
  assumes "link_idle w" "link_fault_now w \<noteq> LinkUp"
  shows "\<exists>e w1. client_request J (link_stream J) r (c, w) = (Inl e, c\<lparr>next_request_id := next_request_id c + 1\<rparr>, w1) \<and>
    lk_server w1 = (if link_fault_now w = ClosedBefore then lk_server w else snd (link_outcome r w)) \<and> lk_opened w1 = lk_opened w"
proof -
  obtain j where j: "request_to_string J \<lparr>rq_ipc_version = IPC_VERSION, rq_request_id = next_request_id c, rq_request = r\<rparr> = Inr j" by (rule request_text)
  obtain jr where "link_send J j w = (case link_fault_now w of
       LinkUp \<Rightarrow> (Inr (), (snd (link_answer r w))\<lparr>lk_inbox := [jr]\<rparr>)
     | ClosedBefore \<Rightarrow> (broken_pipe, w\<lparr>lk_result := Some (Inr ())\<rparr>)
     | ClosedAfter \<Rightarrow> (Inr (), (snd (link_answer r w))\<lparr>lk_result := Some (Inr ())\<rparr>))" by (rule link_send_idle [OF assms(1) j])
  then show ?thesis
    using assms j
    by (cases "link_fault_now w")
      (simp_all add: client_request_def send_request_def write_json_def link_stream_def broken_pipe_def recv_response_def recv_server_envelope_def
        read_json_def read_line_def link_next_def line_result_def link_answer_def link_idle_def Let_def)
qed

text \<open>Updates that are published before a request of a subscriber is read: they are on their way to it ahead of the response.\<close>

lemma pushes_written:
  assumes "PushesClosed \<notin> snd ` set ps"
  shows "\<exists>srv1 js. client_loop J collect_stream (map (apsnd push_event) ps) (srv, True, inbox) = (None, srv1, True, inbox @ js)"
  using assms
proof (induction ps arbitrary: srv inbox)
  case (Cons p ps)
  obtain E x where p: "p = (E, x)" by fastforce
  show ?case
  proof (cases x)
    case (Pushed u)
    obtain j where "client_turn J collect_stream E (EventReady u) (srv, True, inbox) = (None, sv_meanwhile E srv, True, inbox @ [j])"
      by (rule client_turn_event [where subscribed = True and E = E and update = u and srv = srv and w = inbox]) simp_all
    then show ?thesis
      using Cons.IH [of "sv_meanwhile E srv" "inbox @ [j]"] Cons.prems p Pushed by auto
  next
    case PushLagged
    then show ?thesis using Cons.IH [of "sv_meanwhile E srv" inbox] Cons.prems p by (simp add: client_turn_def)
  next
    case PushesClosed
    then show ?thesis using Cons.prems p by simp
  qed
qed simp

lemma request_after_push:
  assumes "lk_result w = None" "lk_inbox w = []" "lk_subscribed w" "link_fault_now w = LinkUp"
    and "lp_pushes (lk_plan w) (lk_turn w) = (E, Pushed u) # ps" "PushesClosed \<notin> snd ` set ps"
  shows "fst (client_op J (link_stream J) r (c, w)) =
    Inl (IpcProtocolError (''received '' @ service_update_name u @ '' stream event while waiting for RPC response''))"
proof -
  obtain j where j: "request_to_string J \<lparr>rq_ipc_version = IPC_VERSION, rq_request_id = next_request_id c, rq_request = r\<rparr> = Inr j" by (rule request_text)
  obtain je where e: "client_turn J collect_stream E (EventReady u) (lk_server w, True, []) = (None, sv_meanwhile E (lk_server w), True, [] @ [je])"
    "server_from_str J je = Inr (SrvEvent \<lparr>ev_ipc_version = IPC_VERSION, ev_event = transport_event (sv_meanwhile E (lk_server w)) u\<rparr>)"
    by (rule client_turn_event [where subscribed = True and E = E and update = u and srv = "lk_server w" and w = "[]"]) simp_all
  obtain srv1 js where ps: "client_loop J collect_stream (map (apsnd push_event) ps) (sv_meanwhile E (lk_server w), True, [je]) = (None, srv1, True, [je] @ js)"
    using pushes_written [OF assms(6)] by blast
  obtain jr where t: "client_turn J collect_stream (link_env w) (ReadReady (Some (Inr j))) (srv1, True, [je] @ js) =
      (None, snd (handle_service_request (link_env w) r (sv_meanwhile (link_env w) srv1)), r = ReqSubscribe \<or> True, ([je] @ js) @ [jr])"
    by (rule request_turn [OF j])
  have "fst (client_request J (link_stream J) r (c, w)) =
      Inl (IpcProtocolError (''received '' @ service_update_name u @ '' stream event while waiting for RPC response''))"
    using assms(1-5) e ps t j
    by (cases u)
      (simp_all add: client_request_def send_request_def write_json_def link_stream_def link_send_def link_pending_def recv_response_def recv_server_envelope_def
        read_json_def read_line_def link_next_def line_result_def json_result_def response_of_def Let_def)
  then obtain s1 where "client_request J (link_stream J) r (c, w) =
      (Inl (IpcProtocolError (''received '' @ service_update_name u @ '' stream event while waiting for RPC response'')), s1)"
    by (metis prod.collapse)
  from client_op_fits [OF this] show ?thesis by (simp add: op_result_def)
qed

end

lemma link_open_hello:
  assumes "ipc_json J"
  obtains j where "link_open J plan n srv =
      \<lparr>lk_server = srv, lk_subscribed = False, lk_result = None, lk_inbox = [j], lk_plan = plan, lk_turn = 0, lk_opened = n\<rparr>"
    "server_from_str J j = Inr (SrvHello protocol_info)"
proof -
  obtain j where "send_hello J collect_stream [] = (Inr (), [j])" "server_from_str J j = Inr (SrvHello protocol_info)"
    unfolding send_hello_def using ipc_json.write_collect [OF assms, of "SrvHello protocol_info" "[]"] by auto
  then show thesis by (intro that) (simp add: link_open_def handle_client_def)
qed

text \<open>The same session without the wire: the operations of the handle, one after the other.\<close>

fun serve_all ::
  "(nat \<Rightarrow> ('f, 'v) server_env) \<Rightarrow> nat \<Rightarrow> ServiceRequest list \<Rightarrow> IpcServer \<Rightarrow> ServiceResponse list \<times> IpcServer" where
  "serve_all envs n [] srv = ([], srv)"
| "serve_all envs n (r # rs) srv = (case handle_service_request (envs n) r (sv_meanwhile (envs n) srv) of
     (outcome, srv1) \<Rightarrow> (case serve_all envs (Suc n) rs srv1 of (xs, srv2) \<Rightarrow> (ro_response outcome # xs, srv2)))"

lemma answers_serve_all:
  "fst (answers link_answer rs w) = fst (serve_all (lp_envs (lk_plan w)) (lk_turn w) rs (lk_server w))"
  "lk_server (snd (answers link_answer rs w)) = snd (serve_all (lp_envs (lk_plan w)) (lk_turn w) rs (lk_server w))"
proof (induction rs arbitrary: w)
  case (Cons r rs)
  {
    case 1
    then show ?case using Cons.IH(1) [of "snd (link_answer r w)"] by (simp add: split_beta link_answer_def link_outcome_def link_env_def)
  next
    case 2
    then show ?case using Cons.IH(2) [of "snd (link_answer r w)"] by (simp add: split_beta link_answer_def link_outcome_def link_env_def)
  }
qed simp_all

lemma answers_kept:
  "lk_plan (snd (answers link_answer rs w)) = lk_plan w" "lk_turn (snd (answers link_answer rs w)) = lk_turn w + length rs"
  by (induction rs arbitrary: w) (simp_all add: split_beta link_answer_def)

text \<open>The connection that a client has after the hello.\<close>

definition link_start :: "('f, 'v) link_plan \<Rightarrow> nat \<Rightarrow> IpcServer \<Rightarrow> ('j, 'f, 'v) link" where
  "link_start plan n srv = \<lparr>lk_server = srv, lk_subscribed = False, lk_result = None, lk_inbox = [], lk_plan = plan, lk_turn = 0, lk_opened = n\<rparr>"

lemma link_start_sel [simp]:
  "lk_server (link_start plan n srv) = srv" "lk_plan (link_start plan n srv) = plan" "lk_turn (link_start plan n srv) = 0"
  "lk_opened (link_start plan n srv) = n" "\<not> lk_subscribed (link_start plan n srv)"
  by (simp_all add: link_start_def)

lemma link_start_idle: "link_idle (link_start plan n srv)"
  by (simp add: link_start_def link_idle_def link_pending_def)

lemma connect_link:
  assumes "ipc_json J"
  shows "connect_with_path J (link_stream J) (\<lambda>_. Inr (link_open J plan n srv)) path =
    Inr (\<lparr>next_request_id = 1, server_protocol = protocol_info\<rparr>, link_start plan n srv)"
proof -
  obtain j where l: "link_open J plan n srv =
      \<lparr>lk_server = srv, lk_subscribed = False, lk_result = None, lk_inbox = [j], lk_plan = plan, lk_turn = 0, lk_opened = n\<rparr>"
    and j: "server_from_str J j = Inr (SrvHello protocol_info)" by (rule link_open_hello [OF assms])
  show ?thesis
    by (simp add: l j connect_with_path_def recv_hello_def recv_server_envelope_def read_json_def read_line_def link_stream_def link_next_def
        line_result_def json_result_def hello_of_def ensure_ipc_version_def protocol_info_def link_start_def)
qed

subsection \<open>Receiving updates\<close>

text \<open>The loop returns, because it takes a line from the connection in every turn and an empty connection is closed.\<close>

lemma recv_update_returns: "\<exists>result. recv_update J (link_stream J') w = Some result"
proof (induction "length (lk_inbox w)" arbitrary: w)
  case 0
  then show ?case
    by (subst recv_update.simps)
      (simp add: recv_incoming_server_envelope_def read_json_def read_line_def link_stream_def link_next_def line_result_def update_turn_def)
next
  case (Suc n)
  then obtain j js where "lk_inbox w = j # js" by (cases "lk_inbox w") auto
  with Suc.hyps have "\<exists>result. recv_update J (link_stream J') (w\<lparr>lk_inbox := js\<rparr>) = Some result" by simp
  with \<open>lk_inbox w = j # js\<close> show ?case
    by (subst recv_update.simps)
      (auto simp: recv_incoming_server_envelope_def read_json_def read_line_def link_stream_def link_next_def split: option.splits)
qed

text \<open>An update that the server has sent is what the client gets; an event of a later version of the service, whose type is not known, is passed over.\<close>

context ipc_json
begin

lemma recv_update_event:
  assumes "lk_inbox w = j # js" "server_to_string J (SrvEvent \<lparr>ev_ipc_version = IPC_VERSION, ev_event = u\<rparr>) = Inr j"
  shows "recv_update J (link_stream J) w = Some (Inr u, w\<lparr>lk_inbox := js\<rparr>)"
  using assms incoming_back [OF assms(2)]
  by (subst recv_update.simps)
    (simp add: recv_incoming_server_envelope_def read_json_def read_line_def link_stream_def link_next_def line_result_def json_result_def
      update_turn_def ensure_ipc_version_def)

lemma recv_update_unknown:
  assumes "lk_inbox w = j # js" "incoming_from_str J j = Inr (InEvent \<lparr>iev_ipc_version = IPC_VERSION, iev_event = UnknownUpdate u\<rparr>)"
    "\<not> is_known_update_type (ue_type_name u)"
  shows "recv_update J (link_stream J) w = recv_update J (link_stream J) (w\<lparr>lk_inbox := js\<rparr>)"
  using assms
  by (subst recv_update.simps)
    (simp add: recv_incoming_server_envelope_def read_json_def read_line_def link_stream_def link_next_def line_result_def json_result_def
      update_turn_def ensure_ipc_version_def)

end

subsection \<open>What a subscriber knows\<close>

text \<open>What a client makes of the snapshot and the updates that it gets, and what an update that is published says of the service's cache.\<close>

fun view_update :: "ServiceUpdate \<Rightarrow> SubscriptionSnapshot \<Rightarrow> SubscriptionSnapshot" where
  "view_update (UpdateStatus s) v = v\<lparr>ss_status := s\<rparr>"
| "view_update (UpdateLifecycle l) v = v\<lparr>ss_lifecycle := l\<rparr>"
| "view_update (UpdateStats s) v = v\<lparr>ss_stats := s\<rparr>"
| "view_update (UpdateLog _) v = v"

fun cache_update :: "ServiceUpdate \<Rightarrow> StateCache \<Rightarrow> StateCache" where
  "cache_update (UpdateStatus s) c = c\<lparr>sc_status := s\<rparr>"
| "cache_update (UpdateLifecycle l) c = c\<lparr>sc_lifecycle := l\<rparr>"
| "cache_update (UpdateStats s) c = c\<lparr>sc_stats := s\<rparr>"
| "cache_update (UpdateLog _) c = c"

text \<open>
  What the service does to the shared state: the supervisor and the tasks beside the agent publish, the log is sent, and everything else,
  the operations of any number of clients among it, leaves the cache and the updates alone.
\<close>

inductive runtime_moves :: "RuntimeInner \<Rightarrow> RuntimeInner \<Rightarrow> bool" where
  stay: "runtime_moves i i"
| state_published: "runtime_moves i i' \<Longrightarrow> runtime_moves i (publish_state status lifecycle i')"
| status_published: "runtime_moves i i' \<Longrightarrow> runtime_moves i (publish_status status i')"
| background: "runtime_moves i i' \<Longrightarrow> runtime_moves i (apply_background env b i')"
| logged: "runtime_moves i i' \<Longrightarrow> runtime_moves i (i'\<lparr>ri_event_tx := ri_event_tx i' @ [UpdateLog entry]\<rparr>)"
| other: "runtime_moves i i' \<Longrightarrow> ri_event_tx i'' = ri_event_tx i' \<Longrightarrow> ri_state_cache i'' = ri_state_cache i' \<Longrightarrow> runtime_moves i i''"

definition cache_follows :: "RuntimeInner \<Rightarrow> RuntimeInner \<Rightarrow> bool" where
  "cache_follows i i' \<longleftrightarrow>
     (\<exists>es. ri_event_tx i' = ri_event_tx i @ es \<and> ri_state_cache i' = fold cache_update es (ri_state_cache i))"

lemma cache_follows_refl: "cache_follows i i"
  by (auto simp: cache_follows_def intro: exI [of _ "[]"])

lemma cache_follows_step:
  assumes "cache_follows i i'" "ri_event_tx i'' = ri_event_tx i' @ es" "ri_state_cache i'' = fold cache_update es (ri_state_cache i')"
  shows "cache_follows i i''"
  using assms by (fastforce simp: cache_follows_def)

lemma other_operations:
  "ri_event_tx (sv_runtime (snd (handle_service_request E r srv))) = ri_event_tx (sv_runtime srv)"
  "ri_state_cache (sv_runtime (snd (handle_service_request E r srv))) = ri_state_cache (sv_runtime srv)"
  "ri_event_tx (set_api api i) = ri_event_tx i" "ri_state_cache (set_api api i) = ri_state_cache i"
  "ri_event_tx (set_agent_cancel token i) = ri_event_tx i" "ri_state_cache (set_agent_cancel token i) = ri_state_cache i"
  "ri_event_tx (request_shutdown i) = ri_event_tx i" "ri_state_cache (request_shutdown i) = ri_state_cache i"
  "ri_event_tx (claim_task_ends k i) = ri_event_tx i" "ri_state_cache (claim_task_ends k i) = ri_state_cache i"
  by (cases r; auto simp: with_runtime_def start_claim_def track_claim_task_def reset_secret_def request_shutdown_def account_login_url_def Let_def
    set_api_def set_agent_cancel_def claim_task_ends_def split: prod.splits sum.splits option.splits)+

lemma runtime_moves_request:
  "runtime_moves i (sv_runtime srv) \<Longrightarrow> runtime_moves i (sv_runtime (snd (handle_service_request E r srv)))"
  by (rule runtime_moves.other) (simp_all add: other_operations)

lemma runtime_moves_follows: "runtime_moves i i' \<Longrightarrow> cache_follows i i'"
proof (induction rule: runtime_moves.induct)
  case (background i i' env b)
  then show ?case
    by (cases b) (auto simp: broadcast_control_state_def publish_status_def intro: cache_follows_step)
next
  case (other i i' i'')
  then show ?case by (intro cache_follows_step [of i i' i'' "[]"]) simp_all
qed (auto simp: cache_follows_refl publish_state_def publish_status_def intro: cache_follows_step)

text \<open>A part of a view holds the newest value that was said of it.\<close>

definition newest :: "('u \<Rightarrow> 'x option) \<Rightarrow> 'u \<Rightarrow> 'x \<Rightarrow> 'x" where
  "newest g u x = (case g u of Some y \<Rightarrow> y | None \<Rightarrow> x)"

lemma newest_cases: "(\<forall>x. fold (newest g) es x = x) \<or> (\<exists>y. \<forall>x. fold (newest g) es x = y)"
  by (induction es) (auto simp: newest_def split: option.splits)

lemma newest_replay: "fold (newest g) (es1 @ es2) (fold (newest g) es1 x) = fold (newest g) (es1 @ es2) x"
  using newest_cases [of g es1] by auto

lemma fold_part:
  assumes "\<And>u v. part (f u v) = newest g u (part v)"
  shows "part (fold f es v) = fold (newest g) es (part v)"
  by (induction es arbitrary: v) (simp_all add: assms)

fun said_lifecycle :: "ServiceUpdate \<Rightarrow> AgentLifecycle option" where
  "said_lifecycle (UpdateLifecycle l) = Some l"
| "said_lifecycle _ = None"

fun said_stats :: "ServiceUpdate \<Rightarrow> ConnectionStats option" where
  "said_stats (UpdateStats s) = Some s"
| "said_stats _ = None"

fun said_status :: "(ServiceStatus \<Rightarrow> ServiceStatus) \<Rightarrow> ServiceUpdate \<Rightarrow> ServiceStatus option" where
  "said_status f (UpdateStatus s) = Some (f s)"
| "said_status f _ = None"

lemma view_parts:
  "ss_lifecycle (view_update (transport_event srv u) v) = newest said_lifecycle u (ss_lifecycle v)"
  "ss_stats (view_update (transport_event srv u) v) = newest said_stats u (ss_stats v)"
  "(ss_status (view_update (transport_event srv u) v))\<lparr>st_uptime_secs := 0, st_socket_path := sv_socket_path srv\<rparr> =
     newest (said_status (\<lambda>s. s\<lparr>st_uptime_secs := 0, st_socket_path := sv_socket_path srv\<rparr>)) u
       ((ss_status v)\<lparr>st_uptime_secs := 0, st_socket_path := sv_socket_path srv\<rparr>)"
  by (cases u; simp add: newest_def)+

lemma cache_parts:
  "sc_lifecycle (cache_update u c) = newest said_lifecycle u (sc_lifecycle c)"
  "sc_stats (cache_update u c) = newest said_stats u (sc_stats c)"
  "f (sc_status (cache_update u c)) = newest (said_status f) u (f (sc_status c))"
  by (cases u; simp add: newest_def)+

lemma view_socket_path:
  "st_socket_path (ss_status v) = sv_socket_path srv \<Longrightarrow>
   st_socket_path (ss_status (fold view_update (map (transport_event srv) es) v)) = sv_socket_path srv"
proof (induction es arbitrary: v)
  case (Cons u es)
  then show ?case by (cases u) simp_all
qed simp

lemma snapshot_parts:
  "ss_lifecycle (sr_snapshot (subscribe_response E srv)) = sc_lifecycle (ri_state_cache (sv_runtime srv))"
  "ss_stats (sr_snapshot (subscribe_response E srv)) = sc_stats (ri_state_cache (sv_runtime srv))"
  "(ss_status (sr_snapshot (subscribe_response E srv)))\<lparr>st_uptime_secs := 0, st_socket_path := sv_socket_path srv\<rparr> =
     (sc_status (ri_state_cache (sv_runtime srv)))\<lparr>st_uptime_secs := 0, st_socket_path := sv_socket_path srv\<rparr>"
  "st_socket_path (ss_status (sr_snapshot (subscribe_response E srv))) = sv_socket_path srv"
  by (simp_all add: subscribe_response_def handle_subscription_snapshot_def handle_status_def subscription_snapshot_def Let_def)

subsection \<open>Properties\<close>

text \<open>
  C31: The wire is transparent as long as the daemon runs and nothing has been subscribed. A client that connects to the server is accepted under the server's protocol, and any sequence of
  operations of which only the last may be the subscription
  gives, operation by operation, exactly what the operations of the runtime's handle answer, whatever the rest of the service does in between: the payload of
  the answer, or the service's own error when the answer is one, and never an error of the transport or of the protocol; the server ends in the same state. After a subscription this is no longer
  so: when the server has written an update ahead of the response to a further operation, that operation fails with a protocol error that names the update.
\<close>

theorem session_is_direct_calls:
  fixes J :: "'j json_lib" and plan :: "('f, 'v) link_plan"
  assumes "ipc_json J" "\<And>i. lp_fault plan i = LinkUp"
  shows "\<exists>client w.
    connect_with_path J (link_stream J) (\<lambda>_. Inr (link_open J plan n srv)) path = Inr (client, w) \<and> server_protocol client = protocol_info \<and>
    (\<forall>rs. ReqSubscribe \<notin> set (butlast rs) \<longrightarrow> (\<exists>client' w'.
      run_ops J (link_stream J) rs (client, w) = (map (\<lambda>x. op_result (Inr x)) (fst (serve_all (lp_envs plan) 0 rs srv)), client', w') \<and>
      lk_server w' = snd (serve_all (lp_envs plan) 0 rs srv) \<and> length (fst (serve_all (lp_envs plan) 0 rs srv)) = length rs)) \<and>
    (\<forall>rs r E u ps. ReqSubscribe \<notin> set rs \<and> lp_pushes plan (Suc (length rs)) = (E, Pushed u) # ps \<and> PushesClosed \<notin> snd ` set ps \<longrightarrow>
      (\<exists>client' w'. run_ops J (link_stream J) (rs @ [ReqSubscribe]) (client, w) =
         (map (\<lambda>x. op_result (Inr x)) (fst (serve_all (lp_envs plan) 0 (rs @ [ReqSubscribe]) srv)), client', w') \<and>
       fst (client_op J (link_stream J) r (client', w')) =
         Inl (IpcProtocolError (''received '' @ service_update_name u @ '' stream event while waiting for RPC response''))))"
proof -
  let ?c = "\<lparr>next_request_id = 1, server_protocol = protocol_info\<rparr>" and ?w = "link_start plan n srv :: ('j, 'f, 'v) link"
  have steady: "link_steady ?w" by (simp add: link_steady_def link_start_idle assms(2))
  have ops: "run_ops J (link_stream J) rs (?c, ?w) = (map (\<lambda>x. op_result (Inr x)) (fst (serve_all (lp_envs plan) 0 rs srv)),
       \<lparr>next_request_id = 1 + of_nat (length rs), server_protocol = protocol_info\<rparr>, snd (answers link_answer rs ?w)) \<and>
      lk_server (snd (answers link_answer rs ?w)) = snd (serve_all (lp_envs plan) 0 rs srv) \<and> length (fst (serve_all (lp_envs plan) 0 rs srv)) = length rs"
    if "ReqSubscribe \<notin> set (butlast rs)" for rs
  proof -
    note x = ipc_json.link_ops_answered [OF assms(1) steady that, of ?c] and a = answers_serve_all [of rs ?w, simplified]
    have "length rs = length (fst (serve_all (lp_envs plan) 0 rs srv))" using x [unfolded a] by (auto dest: list_all2_lengthD)
    with x a show ?thesis by simp
  qed
  moreover have "fst (client_op J (link_stream J) r (client', snd (answers link_answer (rs @ [ReqSubscribe]) ?w))) =
      Inl (IpcProtocolError (''received '' @ service_update_name u @ '' stream event while waiting for RPC response''))"
    if "ReqSubscribe \<notin> set rs" "lp_pushes plan (Suc (length rs)) = (E, Pushed u) # ps" "PushesClosed \<notin> snd ` set ps" for rs r E u ps client'
  proof -
    define w' where "w' = snd (answers link_answer rs ?w)"
    have w': "link_steady w'" "lk_plan w' = plan" "lk_turn w' = length rs"
      unfolding w'_def by (rule ipc_json.link_answers_steady [OF assms(1) steady that(1)]) (simp_all add: answers_kept)
    have "snd (answers link_answer (rs @ [ReqSubscribe]) w) = snd (link_answer ReqSubscribe (snd (answers link_answer rs w)))" for w :: "('j, 'f, 'v) link"
      by (induction rs arbitrary: w) (simp_all add: split_beta)
    then have s: "snd (answers link_answer (rs @ [ReqSubscribe]) ?w) = snd (link_answer ReqSubscribe w')" by (simp add: w'_def)
    show ?thesis
      unfolding s by (rule ipc_json.request_after_push [OF assms(1) _ _ _ _ _ that(3), where E = E])
        (use w' that(2) assms(2) in \<open>simp_all add: link_answer_def link_steady_def link_idle_def link_fault_now_def\<close>)
  qed
  ultimately show ?thesis
    using connect_link [OF assms(1), of plan n srv path] by (intro exI [of _ ?c] exI [of _ ?w]) (fastforce simp: butlast_snoc)
qed

text \<open>A daemon that stays up, whose environment never changes and which publishes one update before the second request.\<close>

definition example_plan :: "(unit, unit) link_plan" where
  "example_plan = \<lparr>lp_envs = (\<lambda>_. example_env), lp_pushes = (\<lambda>i. if i = 1 then [(example_env, Pushed (UpdateLifecycle LifecycleStarting))] else []),
     lp_fault = (\<lambda>_. LinkUp)\<rparr>"

theorem session_is_direct_calls_witness:
  "\<exists>client w client' w' client'' w''.
     connect_with_path plain_json (link_stream plain_json) (\<lambda>_. Inr (link_open plain_json example_plan 0 example_server)) ''@playit'' = Inr (client, w) \<and>
     run_ops plain_json (link_stream plain_json) [ReqStartClaim, ReqGetTunnels, ReqStop] (client, w) =
       ([Inr (RespClaim (claim_url ''abc'')), Inl (IpcService (as_service_error (service_not_ready_error ''list tunnels'' WaitingForSecret))),
         Inr (RespStop \<lparr>cr_accepted = True, cr_message = Some ''shutdown requested''\<rparr>)], client', w') \<and>
     sv_host_shutdown (lk_server w') \<and>
     snd (run_ops plain_json (link_stream plain_json) [ReqSubscribe] (client, w)) = (client'', w'') \<and>
     fst (client_op plain_json (link_stream plain_json) ReqGetState (client'', w'')) =
       Inl (IpcProtocolError (''received '' @ service_update_name (UpdateLifecycle LifecycleStarting) @ '' stream event while waiting for RPC response''))"
proof -
  note ex = example_waiting_def example_inner_def make_inner_def agent_version_of_def publish_state_def
  let ?envs = "lp_envs example_plan"
  have served: "fst (serve_all ?envs 0 [ReqStartClaim, ReqGetTunnels, ReqStop] example_server) =
      [RespClaim (claim_url ''abc''), RespError (as_service_error (service_not_ready_error ''list tunnels'' WaitingForSecret)),
       RespStop \<lparr>cr_accepted = True, cr_message = Some ''shutdown requested''\<rparr>]"
    "sv_host_shutdown (snd (serve_all ?envs 0 [ReqStartClaim, ReqGetTunnels, ReqStop] example_server))"
    by (simp_all add: example_plan_def example_env_def example_server_def with_runtime_def start_claim_def track_claim_task_def respond_result_def respond_def
      list_tunnels_def ensure_running_def tunnel_list_def runtime_error_response_def ex)
  have up: "lp_fault example_plan i = LinkUp" for i by (simp add: example_plan_def)
  have push: "lp_pushes example_plan (Suc (length ([] :: ServiceRequest list))) = (example_env, Pushed (UpdateLifecycle LifecycleStarting)) # []"
    by (simp add: example_plan_def)
  from session_is_direct_calls [OF plain.ipc_json_axioms up, of 0 example_server "''@playit''"] show ?thesis
  proof (elim exE conjE, goal_cases)
    case (1 client w)
    have "\<exists>client' w'. run_ops plain_json (link_stream plain_json) [ReqStartClaim, ReqGetTunnels, ReqStop] (client, w) =
       ([Inr (RespClaim (claim_url ''abc'')), Inl (IpcService (as_service_error (service_not_ready_error ''list tunnels'' WaitingForSecret))),
         Inr (RespStop \<lparr>cr_accepted = True, cr_message = Some ''shutdown requested''\<rparr>)], client', w') \<and> sv_host_shutdown (lk_server w')"
      using 1(3) [rule_format, of "[ReqStartClaim, ReqGetTunnels, ReqStop]"] served by (auto simp: op_result_def simp del: run_ops.simps serve_all.simps)
    moreover have "\<exists>client'' w''. snd (run_ops plain_json (link_stream plain_json) [ReqSubscribe] (client, w)) = (client'', w'') \<and>
      fst (client_op plain_json (link_stream plain_json) ReqGetState (client'', w'')) =
        Inl (IpcProtocolError (''received '' @ service_update_name (UpdateLifecycle LifecycleStarting) @ '' stream event while waiting for RPC response''))"
      using 1(4) [rule_format, of "[]" example_env "UpdateLifecycle LifecycleStarting" "[]" ReqGetState] push
      by (auto simp del: run_ops.simps client_op.simps serve_all.simps service_update_name.simps)
    ultimately show ?case using 1(1) by blast
  qed
qed

text \<open>
  C33: The operations and the answers agree on their types. When the response to the request of an operation has the variant that belongs to the request, the operation gives
  exactly the payload of the response, and when it is an error, exactly the error of the service; any other response is reported as a
  violation of the protocol. The server answers every
  request, in every state and environment, with the variant that belongs to it or with an error.
\<close>

theorem operations_typed:
  assumes "client_request J S r s = (Inr response, s1)"
  shows "(if response_fits r response
      then client_op J S r s = (case response of RespError e \<Rightarrow> Inl (IpcService e) | payload \<Rightarrow> Inr payload, s1)
      else (\<exists>message. client_op J S r s = (Inl (IpcProtocolError message), s1))) \<and>
    response_fits r (ro_response (fst (handle_service_request E r srv)))"
proof
  show "response_fits r (ro_response (fst (handle_service_request E r srv)))" by (rule response_fits_request)
  show "if response_fits r response
      then client_op J S r s = (case response of RespError e \<Rightarrow> Inl (IpcService e) | payload \<Rightarrow> Inr payload, s1)
      else (\<exists>message. client_op J S r s = (Inl (IpcProtocolError message), s1))"
    using assms by (cases r; cases response; simp add: client_op_defs client_call_def expect_response_def)
qed

theorem operations_typed_witness:
  "\<exists>w :: (plain_text, unit, unit) link.
     client_request plain_json (link_stream plain_json) ReqGetState (\<lparr>next_request_id = 1, server_protocol = protocol_info\<rparr>, w) =
       (Inr (RespState WaitingForSecret), \<lparr>next_request_id = 2, server_protocol = protocol_info\<rparr>, w\<lparr>lk_turn := 1\<rparr>) \<and>
     fst (client_op plain_json (link_stream plain_json) ReqGetState (\<lparr>next_request_id = 1, server_protocol = protocol_info\<rparr>, w)) = Inr (RespState WaitingForSecret)"
proof -
  let ?c = "\<lparr>next_request_id = 1, server_protocol = protocol_info\<rparr>"
  let ?w = "link_start example_plan 0 example_server :: (plain_text, unit, unit) link"
  have "link_ready ?w" by (simp add: link_ready_def link_start_idle) (simp add: link_fault_now_def link_start_def example_plan_def)
  then have r: "client_request plain_json (link_stream plain_json) ReqGetState (?c, ?w) =
      (Inr (RespState WaitingForSecret), \<lparr>next_request_id = 2, server_protocol = protocol_info\<rparr>, ?w\<lparr>lk_turn := 1\<rparr>)"
    using plain.link_request_answered [of ?w ReqGetState ?c]
    by (simp add: link_answer_def link_outcome_def link_env_def link_start_def example_plan_def example_env_def respond_def example_server_def
      example_waiting_def publish_state_def)
  from operations_typed [OF r, of example_env example_server] r show ?thesis by (intro exI [of _ ?w]) simp
qed

text \<open>
  A subscriber comes to know the service's state. A connection receives the updates that are published from the time when it is opened, also those
  before the client subscribes. However the service moves between the opening, the subscription and now, a client that starts from the snapshot and
  has applied all these updates, in order and without a loss, shows the lifecycle, the statistics and the status that the service has now; the uptime, which no update
  tells, apart. Its status carries the path of the server's socket.
\<close>

theorem subscriber_converges:
  assumes "runtime_moves i0 (sv_runtime srv)" "runtime_moves (sv_runtime srv) i2"
    and "view = fold view_update (map (transport_event srv) (drop (length (ri_event_tx i0)) (ri_event_tx i2))) (sr_snapshot (subscribe_response E srv))"
  shows "ss_lifecycle view = sc_lifecycle (ri_state_cache i2) \<and> ss_stats view = sc_stats (ri_state_cache i2) \<and>
    (ss_status view)\<lparr>st_uptime_secs := 0\<rparr> = (sc_status (ri_state_cache i2))\<lparr>st_uptime_secs := 0, st_socket_path := sv_socket_path srv\<rparr>"
proof -
  obtain es1 where 1: "ri_event_tx (sv_runtime srv) = ri_event_tx i0 @ es1" "ri_state_cache (sv_runtime srv) = fold cache_update es1 (ri_state_cache i0)"
    using runtime_moves_follows [OF assms(1)] by (auto simp: cache_follows_def)
  obtain es2 where 2: "ri_event_tx i2 = ri_event_tx (sv_runtime srv) @ es2" "ri_state_cache i2 = fold cache_update es2 (ri_state_cache (sv_runtime srv))"
    using runtime_moves_follows [OF assms(2)] by (auto simp: cache_follows_def)
  let ?n = "\<lambda>s :: ServiceStatus. s\<lparr>st_uptime_secs := 0, st_socket_path := sv_socket_path srv\<rparr>"
  have view: "view = fold (\<lambda>u. view_update (transport_event srv u)) (es1 @ es2) (sr_snapshot (subscribe_response E srv))"
    using assms(3) by (simp add: 1 2 fold_map comp_def)
  have cache: "ri_state_cache i2 = fold cache_update (es1 @ es2) (ri_state_cache i0)" by (simp add: 1 2)
  note replay = newest_replay [of _ es1 es2] and parts = fold_part [where part = ss_lifecycle, OF view_parts(1)]
    fold_part [where part = ss_stats, OF view_parts(2)] fold_part [where part = "\<lambda>v. ?n (ss_status v)", OF view_parts(3)]
    fold_part [where part = sc_lifecycle, OF cache_parts(1)] fold_part [where part = sc_stats, OF cache_parts(2)]
    fold_part [where part = "\<lambda>c. ?n (sc_status c)", OF cache_parts(3)]
  have "st_socket_path (ss_status view) = sv_socket_path srv"
    unfolding assms(3) by (rule view_socket_path [OF snapshot_parts(4)])
  then have "(ss_status view)\<lparr>st_uptime_secs := 0\<rparr> = ?n (ss_status view)" by (cases "ss_status view") simp
  moreover have "?n (ss_status view) = ?n (sc_status (ri_state_cache i2))"
    unfolding view cache parts snapshot_parts 1(2) by (rule replay)
  moreover have "ss_lifecycle view = sc_lifecycle (ri_state_cache i2)" "ss_stats view = sc_stats (ri_state_cache i2)"
    unfolding view cache parts snapshot_parts 1(2) by (rule replay)+
  ultimately show ?thesis by simp
qed

definition example_later :: RuntimeInner where
  "example_later = publish_state (sc_status StateCache_default) LifecycleStarting example_waiting"

theorem subscriber_converges_witness:
  "ss_lifecycle (fold view_update (map (transport_event example_server) (drop (length (ri_event_tx example_inner)) (ri_event_tx example_later)))
     (sr_snapshot (subscribe_response example_env example_server))) = LifecycleStarting \<and>
   length (drop (length (ri_event_tx example_inner)) (ri_event_tx example_later)) = 4"
proof -
  have "runtime_moves example_inner (sv_runtime example_server)"
    by (simp add: example_server_def example_waiting_def runtime_moves.stay runtime_moves.state_published)
  moreover have "runtime_moves (sv_runtime example_server) example_later"
    by (simp add: example_server_def example_later_def runtime_moves.stay runtime_moves.state_published)
  ultimately show ?thesis
    using subscriber_converges [OF _ _ refl, of example_inner example_server example_later example_env]
    by (simp add: example_later_def example_waiting_def publish_state_def)
qed

end
