(* ===== verification/Account_Session.thy ===== *)
theory Account_Session
  imports Http_Client Secret_Store Claim_Flow Account_State
begin

section \<open>Account sessions\<close>

text \<open>
  \<^verbatim>\<open>packages/api_client/src/auth.rs\<close>, \<^verbatim>\<open>web_api.rs\<close> and \<^verbatim>\<open>session.rs\<close>: signing in to an account, the calls that are made with an account session, and the stores for a
  session. The calls run on the HTTP client of \<open>Http_Client\<close>; \<open>to_json\<close> is the serialisation of a request body. The texts of errors of the API and of the client
  are the parameters \<open>et\<close>. A result \<open>None\<close> of a call is the \<^verbatim>\<open>unreachable!\<close> of the HTTP client, which is never reached. A UUID is its text.
\<close>

subsection \<open>Sessions\<close>



record SignedEpoch =
  epoch_sec :: u32

datatype TotpStatus = TotpRequired | TotpNotSetup | TotpSigned SignedEpoch

record WebAuthToken =
  wt_update_version :: u32
  wt_account_id :: u64
  wt_timestamp :: u64
  wt_account_status :: AccountStatus
  wt_totp_status :: TotpStatus
  wt_admin_id :: "u64 option"
  wt_admin_review_id :: "u64 option"
  wt_read_only :: bool
  wt_show_admin :: bool

record WebSession =
  ws_session_key :: string
  ws_auth :: WebAuthToken

record LoginCredentials =
  lc_email :: string
  lc_password :: string

datatype SigninFail = IncorrectCredentials | AccountBanned

text \<open>\<open>acs_created_at\<close> is the local time of the creation.\<close>

record AccountSession =
  acs_session :: WebSession
  acs_api_base :: string
  acs_created_at :: nat

definition AccountSession_new :: "nat \<Rightarrow> string \<Rightarrow> WebSession \<Rightarrow> AccountSession" where
  "AccountSession_new now api_base session = \<lparr>acs_session = session, acs_api_base = api_base, acs_created_at = now\<rparr>"

definition session_age :: "nat \<Rightarrow> AccountSession \<Rightarrow> nat" where
  "session_age now s = now - acs_created_at s"

definition account_id :: "AccountSession \<Rightarrow> u64" where
  "account_id s = wt_account_id (ws_auth (acs_session s))"

definition account_status :: "AccountSession \<Rightarrow> AccountStatus" where
  "account_status s = wt_account_status (ws_auth (acs_session s))"

definition totp_status :: "AccountSession \<Rightarrow> TotpStatus" where
  "totp_status s = wt_totp_status (ws_auth (acs_session s))"

definition requires_totp :: "AccountSession \<Rightarrow> bool" where
  "requires_totp s \<longleftrightarrow> wt_totp_status (ws_auth (acs_session s)) = TotpRequired"

definition is_read_only :: "AccountSession \<Rightarrow> bool" where
  "is_read_only s = wt_read_only (ws_auth (acs_session s))"

definition session_auth_state :: "AccountSession \<Rightarrow> AuthState" where
  "session_auth_state s = Bearer (ws_session_key (acs_session s))"

definition account_client :: "AccountSession \<Rightarrow> HttpClient" where
  "account_client s = PlayitApi_from_bearer (acs_api_base s) (ws_session_key (acs_session s))"

subsection \<open>Signing in\<close>

record error_texts =
  et_api :: "ApiResponseError \<Rightarrow> string"
  et_client :: "HttpClientError \<Rightarrow> string"
  et_api_debug :: "ApiResponseError \<Rightarrow> string"
  et_client_debug :: "HttpClientError \<Rightarrow> string"

datatype SigninError = EmptyCredentials | SigninIncorrectCredentials | SigninAccountBanned | SigninApi string | SigninTransport string

fun signin_error_text :: "SigninError \<Rightarrow> string" where
  "signin_error_text EmptyCredentials = ''email and password must not be empty''"
| "signin_error_text SigninIncorrectCredentials = ''incorrect email or password''"
| "signin_error_text SigninAccountBanned = ''playit.gg account is banned''"
| "signin_error_text (SigninApi e) = ''playit.gg API error: '' @ e"
| "signin_error_text (SigninTransport e) = ''playit.gg request failed: '' @ e"

fun signin_result :: "error_texts \<Rightarrow> nat \<Rightarrow> string \<Rightarrow> (SigninFail, HttpClientError) ApiError + WebSession \<Rightarrow> SigninError + AccountSession" where
  "signin_result et now api_base (Inr session) = Inr (AccountSession_new now api_base session)"
| "signin_result et now api_base (Inl (ApiErrorFail IncorrectCredentials)) = Inl SigninIncorrectCredentials"
| "signin_result et now api_base (Inl (ApiErrorFail AccountBanned)) = Inl SigninAccountBanned"
| "signin_result et now api_base (Inl (ApiErrorApi e)) = Inl (SigninApi (et_api et e))"
| "signin_result et now api_base (Inl (ApiErrorClient e)) = Inl (SigninTransport (et_client et e))"

definition sign_in ::
  "('w, WebSession, SigninFail) http_env \<Rightarrow> error_texts \<Rightarrow> (LoginCredentials \<Rightarrow> string + string) \<Rightarrow> string \<Rightarrow> string \<Rightarrow> string \<Rightarrow> 'w http_state \<Rightarrow>
   (SigninError + AccountSession) option \<times> 'w http_state" where
  "sign_in env et to_json api_base email password hs =
     (if trim email = [] \<or> password = [] then (Some (Inl EmptyCredentials), hs)
      else (case http_call env (PlayitApi_create api_base None) ''/login/signin'' (to_json \<lparr>lc_email = email, lc_password = password\<rparr>) hs of
        (r, hs1) \<Rightarrow> (map_option (\<lambda>r. signin_result et (he_now env (hs_world hs1)) api_base (api_unwrap r)) r, hs1)))"

datatype TotpError = TotpNotSupported | TotpInvalidCode | TotpSessionExpired | TotpFailed string

datatype TotpSubmitFail = SubmitInvalidCode | SubmitTotpNotSetup | SubmitOther

fun totp_error_text :: "TotpError \<Rightarrow> string" where
  "totp_error_text TotpNotSupported = ''TOTP completion is not available in this build; run `playit account login` again''"
| "totp_error_text TotpInvalidCode = ''the TOTP code was rejected''"
| "totp_error_text TotpSessionExpired = ''account session expired; run `playit account login` again''"
| "totp_error_text (TotpFailed e) = ''playit.gg request failed: '' @ e"

fun submit_fail_debug :: "TotpSubmitFail \<Rightarrow> string" where
  "submit_fail_debug SubmitInvalidCode = ''InvalidCode''"
| "submit_fail_debug SubmitTotpNotSetup = ''TotpNotSetup''"
| "submit_fail_debug SubmitOther = ''Other''"

definition ends_session :: "ApiResponseError \<Rightarrow> bool" where
  "ends_session e \<longleftrightarrow> e \<in> {ApiAuth SessionExpired, ApiAuth AuthRequired, ApiAuth NoLongerValid, ApiAuth InvalidToken}"

definition totp_result ::
  "error_texts \<Rightarrow> nat \<Rightarrow> string \<Rightarrow> HttpClientError + (WebSession, TotpSubmitFail) ApiResult \<Rightarrow> TotpError + AccountSession" where
  "totp_result et now api_base r = (case r of
     Inl e \<Rightarrow> Inl (TotpFailed (et_client_debug et e))
   | Inr (Success web_session) \<Rightarrow> Inr (AccountSession_new now api_base web_session)
   | Inr (Fail SubmitInvalidCode) \<Rightarrow> Inl TotpInvalidCode
   | Inr (Fail other) \<Rightarrow> Inl (TotpFailed (submit_fail_debug other))
   | Inr (ApiResultError api) \<Rightarrow> if ends_session api then Inl TotpSessionExpired else Inl (TotpFailed (et_api_debug et api)))"

definition complete_totp ::
  "('w, WebSession, TotpSubmitFail) http_env \<Rightarrow> error_texts \<Rightarrow> (string \<Rightarrow> string + string) \<Rightarrow> AccountSession \<Rightarrow> string \<Rightarrow> 'w http_state \<Rightarrow>
   (TotpError + AccountSession) option \<times> 'w http_state" where
  "complete_totp env et to_json session code hs = (case http_call env (account_client session) ''/login/totp'' (to_json code) hs of
     (r, hs1) \<Rightarrow> (map_option (totp_result et (he_now env (hs_world hs1)) (acs_api_base session)) r, hs1))"

subsection \<open>Calls with a session\<close>

datatype WebApiError = WebSessionExpired | WebApi string | WebTransport string

fun web_api_error_text :: "WebApiError \<Rightarrow> string" where
  "web_api_error_text WebSessionExpired = ''account session expired; run `playit account login` again''"
| "web_api_error_text (WebApi e) = ''playit.gg API error: '' @ e"
| "web_api_error_text (WebTransport e) = ''playit.gg request failed: '' @ e"

fun map_no_fail :: "error_texts \<Rightarrow> HttpClientError ApiErrorNoFail \<Rightarrow> WebApiError" where
  "map_no_fail et UnexpectedFail = WebApi ''unexpected fail response''"
| "map_no_fail et (NoFailApi api) = (if ends_session api then WebSessionExpired else WebApi (et_api_debug et api))"
| "map_no_fail et (NoFailClient e) = WebTransport (et_client_debug et e)"

text \<open>A call of the generated client that reads, and the wrapper's mapping of its errors.\<close>

definition account_read ::
  "('w, 's, unit) http_env \<Rightarrow> error_texts \<Rightarrow> HttpClient \<Rightarrow> string \<Rightarrow> string + string \<Rightarrow> 'w http_state \<Rightarrow> (WebApiError + 's) option \<times> 'w http_state" where
  "account_read env et api url_path body hs = (case call_with_policy env api url_path body RetryTransient hs of
     (r, hs1) \<Rightarrow> (map_option (\<lambda>r. case api_unwrap_no_fail r of Inl e \<Rightarrow> Inl (map_no_fail et e) | Inr x \<Rightarrow> Inr x) r, hs1))"

record ReqTunnelsList =
  rtl_tunnel_id :: "string option"
  rtl_agent_id :: "string option"

definition check_account_read ::
  "('w, 's, unit) http_env \<Rightarrow> error_texts \<Rightarrow> (ReqTunnelsList \<Rightarrow> string + string) \<Rightarrow> HttpClient \<Rightarrow> 'w http_state \<Rightarrow>
   (WebApiError + unit) option \<times> 'w http_state" where
  "check_account_read env et to_json api hs =
     map_prod (map_option (map_sum id (\<lambda>_. ()))) id
       (account_read env et api ''/tunnels/list'' (to_json \<lparr>rtl_tunnel_id = None, rtl_agent_id = None\<rparr>) hs)"

definition validate_session ::
  "('w, 's, unit) http_env \<Rightarrow> error_texts \<Rightarrow> (ReqTunnelsList \<Rightarrow> string + string) \<Rightarrow> AccountSession \<Rightarrow> 'w http_state \<Rightarrow>
   (WebApiError + unit) option \<times> 'w http_state" where
  "validate_session env et to_json session = check_account_read env et to_json (account_client session)"

definition validate_with_key ::
  "('w, 's, unit) http_env \<Rightarrow> error_texts \<Rightarrow> (ReqTunnelsList \<Rightarrow> string + string) \<Rightarrow> string \<Rightarrow> string \<Rightarrow> 'w http_state \<Rightarrow>
   (WebApiError + unit) option \<times> 'w http_state" where
  "validate_with_key env et to_json api_base session_key = check_account_read env et to_json (PlayitApi_from_bearer api_base session_key)"

definition web_list_tunnels ::
  "('w, 's, unit) http_env \<Rightarrow> error_texts \<Rightarrow> (ReqTunnelsList \<Rightarrow> string + string) \<Rightarrow> AccountSession \<Rightarrow> 'w http_state \<Rightarrow>
   (WebApiError + 's) option \<times> 'w http_state" where
  "web_list_tunnels env et to_json session =
     account_read env et (account_client session) ''/tunnels/list'' (to_json \<lparr>rtl_tunnel_id = None, rtl_agent_id = None\<rparr>)"

definition web_list_domains ::
  "('w, 's, unit) http_env \<Rightarrow> error_texts \<Rightarrow> string + string \<Rightarrow> AccountSession \<Rightarrow> 'w http_state \<Rightarrow> (WebApiError + 's) option \<times> 'w http_state" where
  "web_list_domains env et empty_json session = account_read env et (account_client session) ''/domains/list'' empty_json"

text \<open>\<open>web_post\<close> keeps the failures that the endpoint declares.\<close>

definition web_post ::
  "('w, 's, 'f) http_env \<Rightarrow> error_texts \<Rightarrow> HttpClient \<Rightarrow> string \<Rightarrow> string + string \<Rightarrow> 'w http_state \<Rightarrow>
   (WebApiError + ('s, 'f) ApiResult) option \<times> 'w http_state" where
  "web_post env et api url_path body hs = (case http_call env api url_path body hs of
     (r, hs1) \<Rightarrow> (map_option (map_sum (\<lambda>e. WebTransport (et_client_debug et e)) id) r, hs1))"

record ClaimDetails =
  cd_agent_type :: ClaimAgentType
  cd_name :: string
  cd_remote_ip :: string
  cd_version :: string

datatype ClaimDetailsFail =
    DetailsAlreadyClaimed | DetailsAlreadyRejected | DetailsClaimExpired | DetailsDifferentOwner | DetailsWaitingForAgent | DetailsInvalidCode
  | DetailsOther

definition claim_details ::
  "('w, ClaimDetails, ClaimDetailsFail) http_env \<Rightarrow> error_texts \<Rightarrow> (string \<Rightarrow> string + string) \<Rightarrow> HttpClient \<Rightarrow> string \<Rightarrow> 'w http_state \<Rightarrow>
   (WebApiError + (ClaimDetails, ClaimDetailsFail) ApiResult) option \<times> 'w http_state" where
  "claim_details env et to_json api code = web_post env et api ''/claim/details'' (to_json code)"

record ReqClaimAccept =
  rca_code :: string
  rca_name :: string
  rca_agent_type :: ClaimAgentType

datatype ClaimAcceptFail =
    AcceptInvalidCode | AcceptAgentNotReady | AcceptCodeNotFound | AcceptInvalidAgentType | AcceptClaimAlreadyAccepted | AcceptClaimRejected
  | AcceptCodeExpired | AcceptInvalidName | AcceptOther

text \<open>\<^verbatim>\<open>ClaimAccepted\<close> is the id of the new agent.\<close>

definition accept_claim ::
  "('w, string, ClaimAcceptFail) http_env \<Rightarrow> error_texts \<Rightarrow> (ReqClaimAccept \<Rightarrow> string + string) \<Rightarrow> HttpClient \<Rightarrow> string \<Rightarrow> string \<Rightarrow> ClaimAgentType \<Rightarrow>
   'w http_state \<Rightarrow> (WebApiError + (string, ClaimAcceptFail) ApiResult) option \<times> 'w http_state" where
  "accept_claim env et to_json api code name agent_type =
     web_post env et api ''/claim/accept'' (to_json \<lparr>rca_code = code, rca_name = name, rca_agent_type = agent_type\<rparr>)"

datatype ClaimRejectFail = RejectInvalidCode | RejectCodeNotFound | RejectClaimAccepted | RejectClaimAlreadyRejected | RejectOther

definition reject_claim ::
  "('w, unit, ClaimRejectFail) http_env \<Rightarrow> error_texts \<Rightarrow> (string \<Rightarrow> string + string) \<Rightarrow> HttpClient \<Rightarrow> string \<Rightarrow> 'w http_state \<Rightarrow>
   (WebApiError + (unit, ClaimRejectFail) ApiResult) option \<times> 'w http_state" where
  "reject_claim env et to_json api code = web_post env et api ''/claim/reject'' (to_json code)"

record AgentListEntry =
  ale_id :: string
  ale_name :: string

definition list_agents ::
  "('w, AgentListEntry list, json_value) http_env \<Rightarrow> error_texts \<Rightarrow> string + string \<Rightarrow> HttpClient \<Rightarrow> 'w http_state \<Rightarrow>
   (WebApiError + (AgentListEntry list, json_value) ApiResult) option \<times> 'w http_state" where
  "list_agents env et empty_json api = web_post env et api ''/agents/list'' empty_json"

record AgentDeleteMoveDetails =
  adm_agent_id :: "string option"
  adm_disable_tunnels :: bool

datatype TunnelsStrategy = MoveToAgent AgentDeleteMoveDetails

record ReqAgentsDelete =
  rad_agent_id :: string
  rad_tunnels_strategy :: TunnelsStrategy

definition delete_agent ::
  "('w, unit, json_value) http_env \<Rightarrow> error_texts \<Rightarrow> (ReqAgentsDelete \<Rightarrow> string + string) \<Rightarrow> HttpClient \<Rightarrow> ReqAgentsDelete \<Rightarrow> 'w http_state \<Rightarrow>
   (WebApiError + (unit, json_value) ApiResult) option \<times> 'w http_state" where
  "delete_agent env et to_json api req = web_post env et api ''/agents/delete'' (to_json req)"

datatype TunnelCreateError =
    TceDefaultAgentNotSupported | TceAgentNotFound | TceInvalidAgentId | TceAgentVersionTooOld | TceDedicatedIpNotFound | TceDedicatedIpPortNotAvailable
  | TceDedicatedIpNotEnoughSpace | TcePortAllocNotFound | TceInvalidIpHostname | TceManagedMissingAgentId | TceInvalidPortCount
  | TceRequiresVerifiedAccount | TceInvalidTunnelName | TceFirewallNotFound | TceAllocInvalid | TceInvalidOrigin | TceRequiresPlayitPremium
  | TceTunnelTypeRequiresDescription | TceOther

definition web_create_tunnel ::
  "('w, string, TunnelCreateError) http_env \<Rightarrow> error_texts \<Rightarrow> ('req \<Rightarrow> string + string) \<Rightarrow> HttpClient \<Rightarrow> 'req \<Rightarrow> 'w http_state \<Rightarrow>
   (WebApiError + (string, TunnelCreateError) ApiResult) option \<times> 'w http_state" where
  "web_create_tunnel env et to_json api req = web_post env et api ''/tunnels/create'' (to_json req)"

definition web_delete_tunnel ::
  "('w, unit, 'f) http_env \<Rightarrow> error_texts \<Rightarrow> (string \<Rightarrow> string + string) \<Rightarrow> HttpClient \<Rightarrow> string \<Rightarrow> 'w http_state \<Rightarrow>
   (WebApiError + (unit, 'f) ApiResult) option \<times> 'w http_state" where
  "web_delete_tunnel env et to_json api tid = web_post env et api ''/tunnels/delete'' (to_json tid)"

subsection \<open>Stores\<close>

record PersistedSession =
  pss_version :: u32
  pss_api_base :: string
  pss_session_key :: string
  pss_account_id :: u64
  pss_saved_at_unix :: u64

definition SESSION_FORMAT_VERSION :: u32 where "SESSION_FORMAT_VERSION = 1"

text \<open>\<open>now\<close> is the time in seconds since the epoch, and 0 for a clock before it.\<close>

definition from_account_session :: "u64 \<Rightarrow> AccountSession \<Rightarrow> PersistedSession" where
  "from_account_session now session =
     \<lparr>pss_version = SESSION_FORMAT_VERSION, pss_api_base = acs_api_base session, pss_session_key = ws_session_key (acs_session session),
      pss_account_id = account_id session, pss_saved_at_unix = now\<rparr>"

datatype SessionStoreError = Unavailable string

fun store_error_text :: "SessionStoreError \<Rightarrow> string" where
  "store_error_text (Unavailable e) = ''session store unavailable: '' @ e"

type_synonym memory_store = "PersistedSession option"

definition memory_save :: "PersistedSession \<Rightarrow> memory_store \<Rightarrow> (SessionStoreError + unit) \<times> memory_store" where
  "memory_save session m = (Inr (), Some session)"

definition memory_load :: "memory_store \<Rightarrow> (SessionStoreError + PersistedSession option) \<times> memory_store" where
  "memory_load m = (Inr m, m)"

definition memory_clear :: "memory_store \<Rightarrow> (SessionStoreError + unit) \<times> memory_store" where
  "memory_clear m = (Inr (), None)"

text \<open>
  \<^verbatim>\<open>fs::write\<close>: opens the file, which creates it with \<open>create_mode\<close>, the mode that the process's mask leaves, or empties it, and writes the data.
\<close>

definition fs_write :: "nat \<Rightarrow> path \<Rightarrow> string \<Rightarrow> fs \<Rightarrow> (fs_error + unit) \<times> fs" where
  "fs_write create_mode p data w = (case next_fault w of
     (Some (e, _), w1) \<Rightarrow> (Inl e, w1)
   | (None, w1) \<Rightarrow> fs_write_all p data (w1\<lparr>fs_files := (fs_files w1)(p \<mapsto>
       \<lparr>content_of = [], mode_of = (case fs_files w1 p of Some f \<Rightarrow> mode_of f | None \<Rightarrow> create_mode)\<rparr>)\<rparr>))"

text \<open>\<^verbatim>\<open>serde_json\<close>: \<open>to_string_pretty\<close> and \<open>from_slice\<close> of a session.\<close>

record session_json =
  sj_write :: "PersistedSession \<Rightarrow> string + string"
  sj_read :: "string \<Rightarrow> string + PersistedSession"

definition is_ascii_whitespace :: "char \<Rightarrow> bool" where
  "is_ascii_whitespace c \<longleftrightarrow> c \<in> {CHR '' '', CHR 0x09, CHR 0x0A, CHR 0x0C, CHR 0x0D}"

definition io_unavailable :: "fs_error \<Rightarrow> SessionStoreError" where
  "io_unavailable e = Unavailable (fs_text e)"

text \<open>The mode is \<^verbatim>\<open>0o600\<close>.\<close>

definition restrict_to_owner :: "path \<Rightarrow> fs \<Rightarrow> (SessionStoreError + unit) \<times> fs" where
  "restrict_to_owner p w = (case fs_chmod p 384 w of (Inl e, w1) \<Rightarrow> (Inl (io_unavailable e), w1) | (Inr _, w1) \<Rightarrow> (Inr (), w1))"

definition file_save :: "session_json \<Rightarrow> nat \<Rightarrow> path \<Rightarrow> PersistedSession \<Rightarrow> fs \<Rightarrow> (SessionStoreError + unit) \<times> fs" where
  "file_save sj create_mode p session w = (case sj_write sj session of
     Inl e \<Rightarrow> (Inl (Unavailable e), w)
   | Inr body \<Rightarrow> (case (case path_parent p of Some parent \<Rightarrow> fs_create_dir_all parent w | None \<Rightarrow> (Inr (), w)) of
       (Inl e, w1) \<Rightarrow> (Inl (io_unavailable e), w1)
     | (Inr _, w1) \<Rightarrow> (case fs_write create_mode p body w1 of
         (Inl e, w2) \<Rightarrow> (Inl (io_unavailable e), w2)
       | (Inr _, w2) \<Rightarrow> restrict_to_owner p w2)))"

definition file_load :: "session_json \<Rightarrow> path \<Rightarrow> fs \<Rightarrow> (SessionStoreError + PersistedSession option) \<times> fs" where
  "file_load sj p w = (case fs_read_to_string p w of
     (Inl (FsNotFound _), w1) \<Rightarrow> (Inr None, w1)
   | (Inl e, w1) \<Rightarrow> (Inl (io_unavailable e), w1)
   | (Inr body, w1) \<Rightarrow>
       if list_all is_ascii_whitespace body then (Inr None, w1)
       else (case sj_read sj body of Inl e \<Rightarrow> (Inl (Unavailable e), w1) | Inr session \<Rightarrow> (Inr (Some session), w1)))"

definition file_clear :: "path \<Rightarrow> fs \<Rightarrow> (SessionStoreError + unit) \<times> fs" where
  "file_clear p w = (case fs_remove_file p w of
     (Inr _, w1) \<Rightarrow> (Inr (), w1)
   | (Inl (FsNotFound _), w1) \<Rightarrow> (Inr (), w1)
   | (Inl e, w1) \<Rightarrow> (Inl (io_unavailable e), w1))"

subsection \<open>The contract of a store\<close>

text \<open>The trait \<^verbatim>\<open>SessionStore\<close>: in a state in which the store works, it holds the session that was saved last, or none after it was cleared.\<close>

datatype store_op = SaveSession PersistedSession | ClearSession

fun store_holds :: "store_op list \<Rightarrow> PersistedSession option \<Rightarrow> PersistedSession option" where
  "store_holds [] m = m"
| "store_holds (SaveSession x # ops) m = store_holds ops (Some x)"
| "store_holds (ClearSession # ops) m = store_holds ops None"

definition store_step ::
  "(PersistedSession \<Rightarrow> 's \<Rightarrow> (SessionStoreError + unit) \<times> 's) \<Rightarrow> ('s \<Rightarrow> (SessionStoreError + unit) \<times> 's) \<Rightarrow> store_op \<Rightarrow> 's \<Rightarrow> 's" where
  "store_step save clear action s = (case action of SaveSession x \<Rightarrow> snd (save x s) | ClearSession \<Rightarrow> snd (clear s))"

locale session_store =
  fixes save :: "PersistedSession \<Rightarrow> 's \<Rightarrow> (SessionStoreError + unit) \<times> 's"
    and load :: "'s \<Rightarrow> (SessionStoreError + PersistedSession option) \<times> 's"
    and clear :: "'s \<Rightarrow> (SessionStoreError + unit) \<times> 's"
    and holds :: "'s \<Rightarrow> PersistedSession option \<Rightarrow> bool"
  assumes save_holds: "holds s m \<Longrightarrow> fst (save x s) = Inr () \<and> holds (snd (save x s)) (Some x)"
    and clear_holds: "holds s m \<Longrightarrow> fst (clear s) = Inr () \<and> holds (snd (clear s)) None"
    and load_holds: "holds s m \<Longrightarrow> fst (load s) = Inr m \<and> holds (snd (load s)) m"
begin

lemma store_run: "holds s m \<Longrightarrow> holds (fold (store_step save clear) ops s) (store_holds ops m)"
proof (induction ops arbitrary: s m)
  case (Cons action ops)
  then show ?case
    using save_holds [OF Cons.prems] clear_holds [OF Cons.prems] by (cases action) (auto simp: store_step_def)
qed simp

lemma load_after_run: "holds s m \<Longrightarrow> fst (load (fold (store_step save clear) ops s)) = Inr (store_holds ops m)"
  using load_holds [OF store_run] by blast

end

interpretation memory: session_store memory_save memory_load memory_clear "\<lambda>s m. s = m"
  by unfold_locales (simp_all add: memory_save_def memory_load_def memory_clear_def)

text \<open>What the file store relies on of the serialisation.\<close>

locale session_json_law =
  fixes sj :: session_json
  assumes written: "\<exists>t. sj_write sj x = Inr t"
    and read_back: "sj_write sj x = Inr t \<Longrightarrow> sj_read sj t = Inr x \<and> \<not> list_all is_ascii_whitespace t"
begin

lemma session_text: obtains t where "sj_write sj x = Inr t" "sj_read sj t = Inr x" "\<not> list_all is_ascii_whitespace t"
  using written read_back by blast

end

text \<open>A file system on which no operation fails, with the session in the file.\<close>

definition file_holds :: "session_json \<Rightarrow> path \<Rightarrow> fs \<Rightarrow> PersistedSession option \<Rightarrow> bool" where
  "file_holds sj p w m \<longleftrightarrow> fs_faults w = [] \<and> (case m of
     None \<Rightarrow> fs_files w p = None
   | Some x \<Rightarrow> (\<exists>t md. sj_write sj x = Inr t \<and> fs_files w p = Some \<lparr>content_of = t, mode_of = md\<rparr>))"

lemma fs_no_faults:
  assumes "fs_faults w = []"
  shows "next_fault w = (None, w)" "fs_create_dir_all d w = (Inr (), w\<lparr>fs_dirs := fs_dirs w \<union> ancestors d\<rparr>)"
  using assms by (simp_all add: next_fault_def fs_create_dir_all_def)

lemma file_save_ok:
  assumes "fs_faults w = []" "sj_write sj x = Inr t"
  shows "\<exists>w'. file_save sj cm p x w = (Inr (), w') \<and> fs_faults w' = [] \<and> fs_files w' = (fs_files w)(p \<mapsto> \<lparr>content_of = t, mode_of = 384\<rparr>)"
  using assms
  by (cases "path_parent p")
    (simp_all add: file_save_def fs_no_faults fs_write_def fs_write_all_def restrict_to_owner_def fs_chmod_def next_fault_def)

sublocale session_json_law \<subseteq> stored: session_store "file_save sj cm p" "file_load sj p" "file_clear p" "file_holds sj p"
proof unfold_locales
  fix w m x
  assume holds: "file_holds sj p w m"
  obtain t where t: "sj_write sj x = Inr t" by (rule session_text)
  show "fst (file_save sj cm p x w) = Inr () \<and> file_holds sj p (snd (file_save sj cm p x w)) (Some x)"
    using file_save_ok [OF _ t, of w cm p] holds t by (auto simp: file_holds_def)
next
  fix w m
  assume "file_holds sj p w m"
  then show "fst (file_clear p w) = Inr () \<and> file_holds sj p (snd (file_clear p w)) None"
    by (auto simp: file_holds_def file_clear_def fs_remove_file_def fs_no_faults split: option.splits)
next
  fix w m
  assume "file_holds sj p w m"
  then show "fst (file_load sj p w) = Inr m \<and> file_holds sj p (snd (file_load sj p w)) m"
    using read_back by (auto simp: file_holds_def file_load_def fs_read_to_string_def fs_no_faults split: option.splits)
qed

text \<open>An instance of the serialisation: each field is a text whose characters are marked, a number is the text of that length.\<close>

fun enc_text :: "string \<Rightarrow> string" where
  "enc_text [] = ''.''"
| "enc_text (c # s) = CHR ''+'' # c # enc_text s"

fun dec_text :: "string \<Rightarrow> string \<times> string" where
  "dec_text (x # c # r) = (if x = CHR ''+'' then (case dec_text r of (s, t) \<Rightarrow> (c # s, t)) else ([], c # r))"
| "dec_text _ = ([], [])"

lemma dec_enc_text: "dec_text (enc_text s @ t) = (s, t)"
proof (induction s)
  case Nil
  then show ?case by (cases t) simp_all
qed simp

definition enc_word :: "'a::len word \<Rightarrow> string" where
  "enc_word n = enc_text (replicate (unat n) (CHR ''x''))"

definition plain_session_json :: session_json where
  "plain_session_json = \<lparr>
     sj_write = (\<lambda>x. Inr (enc_word (pss_version x) @ enc_text (pss_api_base x) @ enc_text (pss_session_key x) @ enc_word (pss_account_id x) @
       enc_word (pss_saved_at_unix x))),
     sj_read = (\<lambda>t. case dec_text t of (v, t1) \<Rightarrow> (case dec_text t1 of (base, t2) \<Rightarrow> (case dec_text t2 of (key, t3) \<Rightarrow>
       (case dec_text t3 of (aid, t4) \<Rightarrow> Inr \<lparr>pss_version = of_nat (length v), pss_api_base = base, pss_session_key = key,
          pss_account_id = of_nat (length aid), pss_saved_at_unix = of_nat (length (fst (dec_text t4)))\<rparr>))))\<rparr>"

lemma enc_text_not_blank: "\<not> list_all is_ascii_whitespace (enc_text s @ t)"
  by (cases s) (simp_all add: is_ascii_whitespace_def)

interpretation plain_session: session_json_law plain_session_json
proof unfold_locales
  fix x t
  show "\<exists>t. sj_write plain_session_json x = Inr t" by (simp add: plain_session_json_def)
  assume "sj_write plain_session_json x = Inr t"
  then show "sj_read plain_session_json t = Inr x \<and> \<not> list_all is_ascii_whitespace t"
    using dec_enc_text [of "replicate (unat (pss_saved_at_unix x)) (CHR ''x'')" "[]"]
    by (auto simp: plain_session_json_def enc_word_def dec_enc_text enc_text_not_blank simp del: list_all_append)
qed

text \<open>The calls with a session: they carry its key, and only a call that reads is sent again.\<close>

lemma http_call_once:
  "\<exists>r hs' k. http_call env client url_path body hs = (Some r, hs') \<and> k \<le> 1 \<and> hs_slept hs' = hs_slept hs \<and>
     hs_sent hs' = hs_sent hs @ replicate k \<lparr>rq_url = hc_api_base client @ url_path, rq_authorization = hc_auth_header client,
       rq_body = (case body of Inr json \<Rightarrow> json | Inl _ \<Rightarrow> [])\<rparr>"
  using call_with_policy_ends [of env client url_path body RetryNever hs] by (auto simp: http_call_def)

lemma web_post_once:
  "\<exists>r hs' k. web_post env et (account_client session) url_path body hs = (Some r, hs') \<and> k \<le> 1 \<and>
     hs_sent hs' = hs_sent hs @ replicate k \<lparr>rq_url = acs_api_base session @ url_path,
       rq_authorization = Some (''Bearer '' @ ws_session_key (acs_session session)), rq_body = (case body of Inr json \<Rightarrow> json | Inl _ \<Rightarrow> [])\<rparr>"
  using http_call_once [of env "account_client session" url_path body hs]
  by (auto simp: web_post_def account_client_def PlayitApi_from_bearer_def HttpClient_new_with_auth_def)

text \<open>
  A save whose last step fails leaves the key in a file with the mode that the process's mask gives, and \<^verbatim>\<open>session.rs\<close> promises a file that is created for its
  owner only.
\<close>

lemma save_fails_exposed:
  assumes "sj_write sj x = Inr t" "fs_files w p = None" "path_parent p = Some d" "fs_faults w = [None, None, None, Some (e, 0)]"
  shows "\<exists>w'. file_save sj create_mode p x w = (Inl (io_unavailable e), w') \<and>
    fs_files w' p = Some \<lparr>content_of = t, mode_of = create_mode\<rparr>"
  using assms by (simp add: file_save_def fs_create_dir_all_def fs_write_def fs_write_all_def restrict_to_owner_def fs_chmod_def next_fault_def)

context session_json_law
begin

lemmas file_load_after_run = stored.load_after_run

end

subsection \<open>Properties\<close>

text \<open>
  A password travels once. Signing in sends nothing when the email or the password is empty. Otherwise it sends at most one request, to the sign-in address of the given
  server, without a credential and with the email and the password in its body; the request is not sent again whatever happens. It always ends with a result, and
  the calls that are made with the session that it gives go to that server with the key of that session.
\<close>

theorem sign_in_sends_once:
  "\<exists>r hs' k. sign_in env et to_json api_base email password hs = (Some r, hs') \<and>
     k \<le> (if trim email = [] \<or> password = [] then 0 else 1) \<and> hs_slept hs' = hs_slept hs \<and>
     hs_sent hs' = hs_sent hs @ replicate k \<lparr>rq_url = api_base @ ''/login/signin'', rq_authorization = None,
       rq_body = (case to_json \<lparr>lc_email = email, lc_password = password\<rparr> of Inr json \<Rightarrow> json | Inl _ \<Rightarrow> [])\<rparr> \<and>
     (case r of Inl _ \<Rightarrow> True | Inr session \<Rightarrow>
        account_client session = \<lparr>hc_api_base = api_base, hc_auth_header = Some (''Bearer '' @ ws_session_key (acs_session session))\<rparr>)"
proof (cases "trim email = [] \<or> password = []")
  case True
  then show ?thesis by (auto simp: sign_in_def)
next
  case False
  obtain r hs' k where c: "http_call env (PlayitApi_create api_base None) ''/login/signin'' (to_json \<lparr>lc_email = email, lc_password = password\<rparr>) hs = (Some r, hs')"
    "k \<le> 1" "hs_slept hs' = hs_slept hs"
    "hs_sent hs' = hs_sent hs @ replicate k \<lparr>rq_url = hc_api_base (PlayitApi_create api_base None) @ ''/login/signin'',
       rq_authorization = hc_auth_header (PlayitApi_create api_base None),
       rq_body = (case to_json \<lparr>lc_email = email, lc_password = password\<rparr> of Inr json \<Rightarrow> json | Inl _ \<Rightarrow> [])\<rparr>"
    using http_call_once by blast
  have "\<And>session. signin_result et now api_base x = Inr session \<Longrightarrow>
      account_client session = \<lparr>hc_api_base = api_base, hc_auth_header = Some (''Bearer '' @ ws_session_key (acs_session session))\<rparr>" for now x
    by (cases "(et, now, api_base, x)" rule: signin_result.cases)
      (auto simp: AccountSession_new_def account_client_def PlayitApi_from_bearer_def HttpClient_new_with_auth_def)
  with False c show ?thesis
    by (intro exI [of _ "signin_result et (he_now env (hs_world hs')) api_base (api_unwrap r)"] exI [of _ hs'] exI [of _ k])
      (auto simp: sign_in_def PlayitApi_create_def HttpClient_new_with_auth_def split: sum.split)
qed

text \<open>
  The file store keeps its contract. On a file system that works, after any sequence of saves and clears a load gives the session that was saved last, as it
  was saved, or none when the store was cleared since or never used; and the file of a session that was saved last can be read and written by its owner only.
\<close>

theorem file_store_keeps_session:
  assumes "session_json_law sj" "fs_faults w = []" "fs_files w p = None"
  shows "fst (file_load sj p (fold (store_step (file_save sj create_mode p) (file_clear p)) ops w)) =
      Inr (store_holds ops None) \<and>
    (\<exists>t w'. file_save sj create_mode p x w = (Inr (), w') \<and> sj_write sj x = Inr t \<and> fs_files w' p = Some \<lparr>content_of = t, mode_of = 384\<rparr>)"
proof
  have holds: "file_holds sj p w None" using assms by (simp add: file_holds_def)
  show "fst (file_load sj p (fold (store_step (file_save sj create_mode p) (file_clear p)) ops w)) =
      Inr (store_holds ops None)"
    by (rule session_json_law.file_load_after_run [OF assms(1) holds])
  obtain t where t: "sj_write sj x = Inr t" by (rule session_json_law.session_text [OF assms(1)])
  show "\<exists>t w'. file_save sj create_mode p x w = (Inr (), w') \<and> sj_write sj x = Inr t \<and> fs_files w' p = Some \<lparr>content_of = t, mode_of = 384\<rparr>"
    using file_save_ok [OF assms(2) t, of create_mode p] t by auto
qed

definition example_persisted :: PersistedSession where
  "example_persisted = \<lparr>pss_version = 1, pss_api_base = ''api'', pss_session_key = ''key'', pss_account_id = 42, pss_saved_at_unix = 5\<rparr>"

definition example_empty_fs :: fs where
  "example_empty_fs = \<lparr>fs_files = Map.empty, fs_dirs = {}, fs_dir_mode = (\<lambda>_. 0), fs_faults = []\<rparr>"

theorem file_store_keeps_session_witness:
  "fst (file_load plain_session_json \<lparr>absolute = True, comps = [''s'']\<rparr>
     (fold (store_step (file_save plain_session_json 420 \<lparr>absolute = True, comps = [''s'']\<rparr>) (file_clear \<lparr>absolute = True, comps = [''s'']\<rparr>))
       [SaveSession example_persisted, ClearSession, SaveSession (example_persisted\<lparr>pss_account_id := 7\<rparr>)] example_empty_fs)) =
   Inr (Some (example_persisted\<lparr>pss_account_id := 7\<rparr>))"
  using file_store_keeps_session [OF plain_session.session_json_law_axioms, of example_empty_fs "\<lparr>absolute = True, comps = [''s'']\<rparr>" 420
    "[SaveSession example_persisted, ClearSession, SaveSession (example_persisted\<lparr>pss_account_id := 7\<rparr>)]"]
  by (simp add: example_empty_fs_def)

end
