(* ===== verification/Cli_Account.thy ===== *)
theory Cli_Account
  imports Account_Session
begin

section \<open>The account commands of the command line client\<close>

text \<open>
  \<^verbatim>\<open>packages/playit-cli/src/account.rs\<close> and the claim and agent commands of \<^verbatim>\<open>main.rs\<close>. A command runs on a world with the HTTP client's state, the file system, the screen and the
  lines of the standard input; \<open>None\<close> is a command that does not return. The environment has the endpoints of the API that the commands call, each with the serialisation of
  its request, the settings of the user and the texts of debug output. \<^verbatim>\<open>uuid\<close> and \<^verbatim>\<open>hex\<close> are parameters.
\<close>

subsection \<open>Commands\<close>

datatype CliError =
    CliInvalidClaimCode | CliNotImplemented | CliMissingSecret | CliMalformedSecret | CliInvalidSecret | CliRenderError io_error
  | CliSecretFileLoadError | CliSecretFileWriteError io_error | CliSecretFilePathMissing | CliInvalidPortType | CliInvalidPortCount
  | CliInvalidMappingOverride | CliAgentClaimRejected | CliInvalidConfigFile | CliTunnelNotFound string | CliTimedOut | CliAnswerNotProvided
  | CliSessionError string | CliTunnelOverwrittenAlready string | CliResourceNotFoundAfterCreate string | CliRequestError HttpClientError
  | CliApiError ApiResponseError | CliApiFail string | CliTunnelSetupError SetupError | CliServiceError string | CliIpcError string

text \<open>\<^verbatim>\<open>Display\<close>; \<open>debug\<close> is the derived \<^verbatim>\<open>Debug\<close>.\<close>

fun cli_error_text :: "(CliError \<Rightarrow> string) \<Rightarrow> CliError \<Rightarrow> string" where
  "cli_error_text debug (CliServiceError message) = message"
| "cli_error_text debug (CliIpcError message) = message"
| "cli_error_text debug (CliApiFail message) = message"
| "cli_error_text debug (CliSessionError message) = message"
| "cli_error_text debug e = debug e"

fun cli_error_of_api :: "('f \<Rightarrow> string) \<Rightarrow> ('f, HttpClientError) ApiError \<Rightarrow> CliError" where
  "cli_error_of_api fail_json (ApiErrorApi e) = CliApiError e"
| "cli_error_of_api fail_json (ApiErrorClient e) = CliRequestError e"
| "cli_error_of_api fail_json (ApiErrorFail fail) = CliApiFail (fail_json fail)"

fun cli_error_of_no_fail :: "HttpClientError ApiErrorNoFail \<Rightarrow> CliError" where
  "cli_error_of_no_fail UnexpectedFail = CliApiFail ''unexpected API fail response''"
| "cli_error_of_no_fail (NoFailApi e) = CliApiError e"
| "cli_error_of_no_fail (NoFailClient e) = CliRequestError e"

record 'w cli_world =
  cw_http :: "'w http_state"
  cw_fs :: fs
  cw_screen :: "string list"
  cw_stdin :: "(io_error + string) list"

type_synonym ('s, 'a) command = "'s \<Rightarrow> ((CliError + 'a) \<times> 's) option"

type_synonym ('w, 'a) cli = "('w cli_world, 'a) command"

definition cli_return :: "'a \<Rightarrow> ('s, 'a) command" where
  "cli_return x w = Some (Inr x, w)"

definition cli_fail :: "CliError \<Rightarrow> ('s, 'a) command" where
  "cli_fail e w = Some (Inl e, w)"

definition cli_bind :: "('s, 'a) command \<Rightarrow> ('a \<Rightarrow> ('s, 'b) command) \<Rightarrow> ('s, 'b) command" where
  "cli_bind m f w = (case m w of None \<Rightarrow> None | Some (Inl e, w1) \<Rightarrow> Some (Inl e, w1) | Some (Inr x, w1) \<Rightarrow> f x w1)"

definition write_screen :: "string \<Rightarrow> ('w, unit) cli" where
  "write_screen s w = Some (Inr (), w\<lparr>cw_screen := cw_screen w @ [s]\<rparr>)"

text \<open>A call of the API, with its error as one of the command, and an operation of the file store.\<close>

definition cli_call :: "('e \<Rightarrow> CliError) \<Rightarrow> ('w http_state \<Rightarrow> ('e + 'a) option \<times> 'w http_state) \<Rightarrow> ('w, 'a) cli" where
  "cli_call err call w = (case call (cw_http w) of
     (None, _) \<Rightarrow> None
   | (Some (Inl e), hs) \<Rightarrow> Some (Inl (err e), w\<lparr>cw_http := hs\<rparr>)
   | (Some (Inr x), hs) \<Rightarrow> Some (Inr x, w\<lparr>cw_http := hs\<rparr>))"

definition cli_store :: "(fs \<Rightarrow> (SessionStoreError + 'a) \<times> fs) \<Rightarrow> ('w, 'a) cli" where
  "cli_store action w = (case action (cw_fs w) of
     (Inl e, fs) \<Rightarrow> Some (Inl (CliSessionError (store_error_text e)), w\<lparr>cw_fs := fs\<rparr>)
   | (Inr x, fs) \<Rightarrow> Some (Inr x, w\<lparr>cw_fs := fs\<rparr>))"

record 'w cli_env =
  cl_et :: error_texts
  cl_signin :: "('w, WebSession, SigninFail) http_env"
  cl_signin_json :: "LoginCredentials \<Rightarrow> string + string"
  cl_totp :: "('w, WebSession, TotpSubmitFail) http_env"
  cl_text_json :: "string \<Rightarrow> string + string"
  cl_tunnels :: "('w, unit, unit) http_env"
  cl_tunnels_json :: "ReqTunnelsList \<Rightarrow> string + string"
  cl_details :: "('w, ClaimDetails, ClaimDetailsFail) http_env"
  cl_accept :: "('w, string, ClaimAcceptFail) http_env"
  cl_accept_json :: "ReqClaimAccept \<Rightarrow> string + string"
  cl_reject :: "('w, unit, ClaimRejectFail) http_env"
  cl_agents :: "('w, AgentListEntry list, json_value) http_env"
  cl_empty_json :: "string + string"
  cl_delete :: "('w, unit, json_value) http_env"
  cl_delete_json :: "ReqAgentsDelete \<Rightarrow> string + string"
  cl_setup :: "('w, ClaimSetupResponse, ClaimSetupError) http_env"
  cl_setup_json :: "ReqClaimSetup \<Rightarrow> string + string"
  cl_exchange :: "('w, string, ClaimExchangeError) http_env"
  cl_session_json :: session_json
  cl_create_mode :: nat
  cl_config_dir :: "path option"
  cl_password_var :: "string option"
  cl_api_base :: string
  cl_version :: string
  cl_hex_ok :: "string \<Rightarrow> bool"
  cl_uuid_parse :: "string \<Rightarrow> string option"
  cl_now_secs :: "'w \<Rightarrow> u64"
  cl_now_milli :: "'w \<Rightarrow> u64"
  cl_sleep :: "nat \<Rightarrow> 'w \<Rightarrow> 'w"
  cl_debug_status :: "AccountStatus \<Rightarrow> string"
  cl_debug_text :: "string \<Rightarrow> string"
  cl_debug_setup :: "ClaimSetupResponse \<Rightarrow> string"
  cl_debug_setup_error :: "(ClaimSetupError, HttpClientError) ApiError \<Rightarrow> string"
  cl_debug_exchange :: "ClaimExchangeError \<Rightarrow> string"
  cl_debug_details :: "ClaimDetailsFail \<Rightarrow> string"
  cl_debug_accept :: "ClaimAcceptFail \<Rightarrow> string"
  cl_debug_reject :: "ClaimRejectFail \<Rightarrow> string"
  cl_debug_agent_type :: "ClaimAgentType \<Rightarrow> string"
  cl_fail_json :: "json_value \<Rightarrow> string"
  cl_setup_fail_json :: "ClaimSetupError \<Rightarrow> string"

definition cli_sleep :: "'w cli_env \<Rightarrow> nat \<Rightarrow> ('w, unit) cli" where
  "cli_sleep E d w = Some (Inr (), w\<lparr>cw_http := (cw_http w)\<lparr>hs_world := cl_sleep E d (hs_world (cw_http w))\<rparr>\<rparr>)"

subsection \<open>\<^verbatim>\<open>account.rs\<close>\<close>

definition session_file :: "'w cli_env \<Rightarrow> CliError + path" where
  "session_file E = (case cl_config_dir E of
     Some d \<Rightarrow> Inr (d\<lparr>comps := comps d @ [''playit-cli'', ''account-session.json'']\<rparr>)
   | None \<Rightarrow> Inl (CliSessionError ''could not locate the user config directory''))"

definition cli_lift :: "CliError + 'a \<Rightarrow> ('s, 'a) command" where
  "cli_lift r w = Some (r, w)"

text \<open>The next line of the standard input; at its end it is empty.\<close>

definition stdin_line :: "('w, string) cli" where
  "stdin_line w = (case cw_stdin w of
     [] \<Rightarrow> Some (Inr [], w)
   | Inl e # rest \<Rightarrow> Some (Inl (CliRenderError e), w\<lparr>cw_stdin := rest\<rparr>)
   | Inr line # rest \<Rightarrow> Some (Inr line, w\<lparr>cw_stdin := rest\<rparr>))"

definition trim_line_end :: "string \<Rightarrow> string" where
  "trim_line_end s = rev (dropWhile (\<lambda>c. c \<in> {CHR 0x0D, CHR 0x0A}) (rev s))"

definition read_stdin_line :: "('w, string) cli" where
  "read_stdin_line = cli_bind stdin_line (\<lambda>line. cli_return (trim_line_end line))"

text \<open>The screen has the contents that are handed to the console, and the prompts and warnings.\<close>

definition read_line_prompt :: "string \<Rightarrow> ('w, string) cli" where
  "read_line_prompt prompt = cli_bind (write_screen (prompt @ '': '')) (\<lambda>_. cli_bind stdin_line (\<lambda>line. cli_return (trim line)))"

definition read_password :: "'w cli_env \<Rightarrow> bool \<Rightarrow> ('w, string) cli" where
  "read_password E password_stdin =
     (if password_stdin then read_stdin_line
      else (case cl_password_var E of
        Some password \<Rightarrow> if password = [] then cli_fail (CliSessionError ''PLAYIT_PASSWORD is set but empty'') else cli_return password
      | None \<Rightarrow> cli_bind (write_screen ''password input is echoed; prefer PLAYIT_PASSWORD or --password-stdin'') (\<lambda>_. read_stdin_line)))"

definition report_session :: "'w cli_env \<Rightarrow> AccountSession \<Rightarrow> ('w, unit) cli" where
  "report_session E session =
     cli_bind (write_screen (''signed in as account '' @ show_base 10 (unat (account_id session)) @ '' ('' @ cl_debug_status E (account_status session) @ '')'')) (\<lambda>_.
     if requires_totp session
     then write_screen ''the stored session still requires a TOTP code; run `playit account login` again to complete it.''
     else cli_return ())"

definition run_account_login :: "'w cli_env \<Rightarrow> string option \<Rightarrow> bool \<Rightarrow> ('w, unit) cli" where
  "run_account_login E email password_stdin =
     cli_bind (case email of Some e \<Rightarrow> cli_return e | None \<Rightarrow> read_line_prompt ''playit.gg email'') (\<lambda>email.
     cli_bind (read_password E password_stdin) (\<lambda>password.
     cli_bind (cli_call (\<lambda>e. CliSessionError (signin_error_text e))
       (sign_in (cl_signin E) (cl_et E) (cl_signin_json E) (cl_api_base E) (trim email) password)) (\<lambda>pending.
     cli_bind (if requires_totp pending
       then cli_bind (write_screen ''this account requires a TOTP code'') (\<lambda>_.
         cli_bind (read_line_prompt ''TOTP code'') (\<lambda>code.
         cli_call (\<lambda>e. CliSessionError (totp_error_text e)) (complete_totp (cl_totp E) (cl_et E) (cl_text_json E) pending (trim code))))
       else cli_return pending) (\<lambda>session.
     cli_bind (report_session E session) (\<lambda>_.
     cli_bind (cli_lift (session_file E)) (\<lambda>p.
     cli_bind (\<lambda>w. cli_store (file_save (cl_session_json E) (cl_create_mode E) p
       (from_account_session (cl_now_secs E (hs_world (cw_http w))) session)) w) (\<lambda>_.
     write_screen ''account session stored'')))))))"

definition load_stored_session :: "'w cli_env \<Rightarrow> ('w, PersistedSession) cli" where
  "load_stored_session E =
     cli_bind (cli_lift (session_file E)) (\<lambda>p.
     cli_bind (cli_store (file_load (cl_session_json E) p)) (\<lambda>kept. case kept of
       Some session \<Rightarrow> cli_return session
     | None \<Rightarrow> cli_fail (CliSessionError ''not logged in; run `playit account login` first'')))"

definition run_account_status :: "'w cli_env \<Rightarrow> ('w, unit) cli" where
  "run_account_status E = cli_bind (load_stored_session E) (\<lambda>kept.
     write_screen (''account '' @ show_base 10 (unat (pss_account_id kept)) @ '' ('' @ pss_api_base kept @ ''), saved at unix '' @
       show_base 10 (unat (pss_saved_at_unix kept))))"

definition cli_validate :: "'w cli_env \<Rightarrow> PersistedSession \<Rightarrow> ('w, unit) cli" where
  "cli_validate E kept = cli_call (\<lambda>e. CliSessionError (web_api_error_text e))
     (validate_with_key (cl_tunnels E) (cl_et E) (cl_tunnels_json E) (pss_api_base kept) (pss_session_key kept))"

definition run_account_validate :: "'w cli_env \<Rightarrow> ('w, unit) cli" where
  "run_account_validate E = cli_bind (load_stored_session E) (\<lambda>kept.
     cli_bind (cli_validate E kept) (\<lambda>_.
     write_screen (''account '' @ show_base 10 (unat (pss_account_id kept)) @ '' session is valid ('' @ pss_api_base kept @ '')'')))"

definition require_valid_stored_session :: "'w cli_env \<Rightarrow> ('w, unit) cli" where
  "require_valid_stored_session E = cli_bind (load_stored_session E) (\<lambda>kept.
     cli_bind (cli_validate E kept) (\<lambda>_.
     write_screen (''using stored account '' @ show_base 10 (unat (pss_account_id kept)) @ '' ('' @ pss_api_base kept @ '')'')))"

definition stored_account_client :: "PersistedSession \<Rightarrow> HttpClient" where
  "stored_account_client kept = PlayitApi_from_bearer (pss_api_base kept) (pss_session_key kept)"

definition stored_client :: "'w cli_env \<Rightarrow> ('w, PersistedSession \<times> HttpClient) cli" where
  "stored_client E = cli_bind (load_stored_session E) (\<lambda>kept. cli_return (kept, stored_account_client kept))"

definition run_account_logout :: "'w cli_env \<Rightarrow> ('w, unit) cli" where
  "run_account_logout E = cli_bind (cli_lift (session_file E)) (\<lambda>p.
     cli_bind (cli_store (file_clear p)) (\<lambda>_. write_screen ''account session cleared''))"

subsection \<open>\<^verbatim>\<open>main.rs\<close>: claims and agents\<close>

definition cli_claim_url :: "'w cli_env \<Rightarrow> string \<Rightarrow> CliError + string" where
  "cli_claim_url E code = (if cl_hex_ok E code then Inr (''https://playit.gg/claim/'' @ code) else Inl CliInvalidClaimCode)"

definition setup_request :: "'w cli_env \<Rightarrow> string \<Rightarrow> ClaimAgentType \<Rightarrow> string + string" where
  "setup_request E claim_code agent_type =
     cl_setup_json E \<lparr>cs_code = claim_code, cs_agent_type = agent_type, cs_version = ''playit '' @ cl_version E\<rparr>"

text \<open>\<^verbatim>\<open>api.claim_setup\<close> and \<^verbatim>\<open>api.claim_exchange\<close> of the generated client.\<close>

definition api_claim_setup ::
  "'w cli_env \<Rightarrow> HttpClient \<Rightarrow> string \<Rightarrow> ClaimAgentType \<Rightarrow> 'w http_state \<Rightarrow>
   ((ClaimSetupError, HttpClientError) ApiError + ClaimSetupResponse) option \<times> 'w http_state" where
  "api_claim_setup E api claim_code agent_type hs =
     map_prod (map_option api_unwrap) id (http_call (cl_setup E) api ''/claim/setup'' (setup_request E claim_code agent_type) hs)"

definition api_claim_exchange ::
  "'w cli_env \<Rightarrow> HttpClient \<Rightarrow> string \<Rightarrow> 'w http_state \<Rightarrow> ((ClaimExchangeError, HttpClientError) ApiError + string) option \<times> 'w http_state" where
  "api_claim_exchange E api claim_code hs =
     map_prod (map_option api_unwrap) id (http_call (cl_exchange E) api ''/claim/exchange'' (cl_text_json E claim_code) hs)"

definition claim_inspect :: "'w cli_env \<Rightarrow> string \<Rightarrow> ('w, unit) cli" where
  "claim_inspect E claim_code =
     cli_bind (cli_call (cli_error_of_api (cl_setup_fail_json E)) (api_claim_setup E (PlayitApi_create (cl_api_base E) None) claim_code SelfManaged)) (\<lambda>setup.
     write_screen (''claim '' @ claim_code @ '': '' @ cl_debug_setup E setup))"

definition parse_claim_agent_type :: "'w cli_env \<Rightarrow> string option \<Rightarrow> CliError + ClaimAgentType" where
  "parse_claim_agent_type E value = (case map_option trim value of
     None \<Rightarrow> Inr SelfManaged
   | Some v \<Rightarrow>
       if v = [] \<or> v = ''self-managed'' then Inr SelfManaged
       else if v = ''assignable'' then Inr Assignable
       else Inl (CliApiFail (''invalid --agent-type '' @ cl_debug_text E v @ '': expected `assignable` or `self-managed`'')))"

text \<open>The loop over its rounds, of which there are forty; the result of the announcement is dropped.\<close>

fun await_rounds :: "'w cli_env \<Rightarrow> nat \<Rightarrow> HttpClient \<Rightarrow> string \<Rightarrow> ('w, ClaimDetails) cli" where
  "await_rounds E 0 api claim_code = cli_fail (CliApiFail (''timed out waiting for claim '' @ claim_code @
     '' to become visible; is the machine polling this code?''))"
| "await_rounds E (Suc n) api claim_code =
     cli_bind (\<lambda>w. case api_claim_setup E (PlayitApi_create (cl_api_base E) None) claim_code SelfManaged (cw_http w) of
        (None, _) \<Rightarrow> None | (Some _, hs) \<Rightarrow> Some (Inr (), w\<lparr>cw_http := hs\<rparr>)) (\<lambda>_.
     cli_bind (cli_call (\<lambda>e. CliSessionError (web_api_error_text e)) (claim_details (cl_details E) (cl_et E) (cl_text_json E) api claim_code)) (\<lambda>r. case r of
       Success details \<Rightarrow> cli_return details
     | Fail fail \<Rightarrow>
         if fail = DetailsWaitingForAgent then cli_bind (cli_sleep E 500) (\<lambda>_. await_rounds E n api claim_code)
         else cli_fail (CliApiFail (''cannot use claim '' @ claim_code @ '': '' @ cl_debug_details E fail))
     | ApiResultError e \<Rightarrow> cli_fail (CliApiError e)))"

definition await_claim_details :: "'w cli_env \<Rightarrow> HttpClient \<Rightarrow> string \<Rightarrow> ('w, ClaimDetails) cli" where
  "await_claim_details E = await_rounds E 40"

definition claim_approve :: "'w cli_env \<Rightarrow> string \<Rightarrow> string option \<Rightarrow> string option \<Rightarrow> ('w, unit) cli" where
  "claim_approve E claim_code name agent_type =
     cli_bind (cli_lift (cli_claim_url E claim_code)) (\<lambda>_.
     cli_bind (stored_client E) (\<lambda>(_, api).
     cli_bind (await_claim_details E api claim_code) (\<lambda>details.
     cli_bind (write_screen (''claim '' @ claim_code @ '': '' @ cl_debug_agent_type E (cd_agent_type details) @ '' named '' @ cl_debug_text E (cd_name details))) (\<lambda>_.
     cli_bind (case name of
         Some n \<Rightarrow> if trim n \<noteq> [] then cli_return n else read_line_prompt ''agent name''
       | None \<Rightarrow> read_line_prompt ''agent name'') (\<lambda>given.
     let name = trim given in
     if name = [] then cli_fail (CliApiFail ''agent name must not be empty'')
     else cli_bind (cli_lift (parse_claim_agent_type E agent_type)) (\<lambda>agent_type.
       cli_bind (cli_call (\<lambda>e. CliSessionError (web_api_error_text e))
         (accept_claim (cl_accept E) (cl_et E) (cl_accept_json E) api claim_code name agent_type)) (\<lambda>r. case r of
           Success agent \<Rightarrow>
             cli_bind (write_screen (''claim approved, agent '' @ agent @ '' ('' @ name @ '')'')) (\<lambda>_.
             write_screen (''run `claim exchange '' @ claim_code @ ''` to fetch the agent secret''))
         | Fail fail \<Rightarrow> cli_fail (CliApiFail (''claim '' @ claim_code @ '' was not approved: '' @ cl_debug_accept E fail))
         | ApiResultError e \<Rightarrow> cli_fail (CliApiError e))))))))"

definition claim_reject :: "'w cli_env \<Rightarrow> string \<Rightarrow> ('w, unit) cli" where
  "claim_reject E claim_code =
     cli_bind (cli_lift (cli_claim_url E claim_code)) (\<lambda>_.
     cli_bind (stored_client E) (\<lambda>(_, api).
     cli_bind (cli_call (\<lambda>e. CliSessionError (web_api_error_text e)) (reject_claim (cl_reject E) (cl_et E) (cl_text_json E) api claim_code)) (\<lambda>r. case r of
       Success _ \<Rightarrow> write_screen (''claim '' @ claim_code @ '' rejected'')
     | Fail fail \<Rightarrow> cli_fail (CliApiFail (''claim '' @ claim_code @ '' was not rejected: '' @ cl_debug_reject E fail))
     | ApiResultError e \<Rightarrow> cli_fail (CliApiError e))))"

fun write_lines :: "string list \<Rightarrow> ('w, unit) cli" where
  "write_lines [] = cli_return ()"
| "write_lines (l # ls) = cli_bind (write_screen l) (\<lambda>_. write_lines ls)"

definition agents_list :: "'w cli_env \<Rightarrow> ('w, unit) cli" where
  "agents_list E = cli_bind (stored_client E) (\<lambda>(_, api).
     cli_bind (cli_call (\<lambda>e. CliSessionError (web_api_error_text e)) (list_agents (cl_agents E) (cl_et E) (cl_empty_json E) api)) (\<lambda>r. case r of
       Success agents \<Rightarrow>
         cli_bind (if agents = [] then write_screen ''no agents'' else cli_return ()) (\<lambda>_.
         write_lines (map (\<lambda>a. ale_id a @ '' '' @ ale_name a) agents))
     | Fail fail \<Rightarrow> cli_fail (CliApiFail (''agents list failed: '' @ cl_fail_json E fail))
     | ApiResultError e \<Rightarrow> cli_fail (CliApiError e)))"

definition agents_delete :: "'w cli_env \<Rightarrow> string \<Rightarrow> string option \<Rightarrow> bool \<Rightarrow> ('w, unit) cli" where
  "agents_delete E agent_ref move_tunnels_to disable_tunnels = (case cl_uuid_parse E (trim agent_ref) of
     None \<Rightarrow> cli_fail (CliApiFail (''invalid agent id: '' @ agent_ref))
   | Some aid \<Rightarrow>
       cli_bind (case move_tunnels_to of
           None \<Rightarrow> cli_return None
         | Some ref \<Rightarrow> (case cl_uuid_parse E (trim ref) of
             None \<Rightarrow> cli_fail (CliApiFail (''invalid --move-tunnels-to agent id: '' @ ref)) | Some u \<Rightarrow> cli_return (Some u))) (\<lambda>move_to.
       cli_bind (stored_client E) (\<lambda>(_, api).
       cli_bind (cli_call (\<lambda>e. CliSessionError (web_api_error_text e)) (delete_agent (cl_delete E) (cl_et E) (cl_delete_json E) api
         \<lparr>rad_agent_id = aid, rad_tunnels_strategy = MoveToAgent \<lparr>adm_agent_id = move_to, adm_disable_tunnels = disable_tunnels\<rparr>\<rparr>)) (\<lambda>r. case r of
           Success _ \<Rightarrow> write_screen (''agent '' @ aid @ '' deleted'')
         | Fail fail \<Rightarrow> cli_fail (CliApiFail (''agent '' @ aid @ '' was not deleted: '' @ cl_fail_json E fail))
         | ApiResultError e \<Rightarrow> cli_fail (CliApiError e)))))"

subsubsection \<open>Exchanging a claim\<close>

text \<open>
  The two loops of \<^verbatim>\<open>claim_exchange\<close>. A turn of the first ends the loop, the command, or goes round with a new message; a turn of the second gives the
  key, an error, or goes round. They have no bound of their own, so not to return is a value.
\<close>

datatype ('a, 'b) turn = TurnAgain 'a | TurnBreak 'b

definition waiting_message :: "'w cli_env \<Rightarrow> string \<Rightarrow> string \<Rightarrow> CliError + string" where
  "waiting_message E prefix claim_code = and_then (cli_claim_url E claim_code) (\<lambda>url. Inr (prefix @ url))"

definition setup_turn :: "'w cli_env \<Rightarrow> string \<Rightarrow> ClaimAgentType \<Rightarrow> string \<Rightarrow> ('w, (string, unit) turn) cli" where
  "setup_turn E claim_code agent_type last_message w =
     (case api_claim_setup E (PlayitApi_create (cl_api_base E) None) claim_code agent_type (cw_http w) of
        (None, _) \<Rightarrow> None
      | (Some (Inl e), hs) \<Rightarrow>
          cli_bind (write_screen (last_message @ [CHR 0x0A, CHR 0x0A] @ ''Error: '' @ cl_debug_setup_error E e)) (\<lambda>_.
          cli_bind (cli_sleep E 2000) (\<lambda>_. cli_return (TurnAgain last_message))) (w\<lparr>cw_http := hs\<rparr>)
      | (Some (Inr setup), hs) \<Rightarrow> (case setup of
          UserAccepted \<Rightarrow> cli_bind (write_screen ''Program approved. Finishing setup...'') (\<lambda>_. cli_return (TurnBreak ()))
        | UserRejected \<Rightarrow> cli_bind (write_screen ''Setup was not approved in the browser.'') (\<lambda>_.
            cli_bind (cli_sleep E 3000) (\<lambda>_. cli_fail CliAgentClaimRejected))
        | _ \<Rightarrow> cli_bind (cli_lift (waiting_message E
              (if setup = WaitingForUserVisit then ''Open this link to finish setting up playit:'' @ [CHR 0x0A]
               else ''Approve this program in your browser:'' @ [CHR 0x0A]) claim_code)) (\<lambda>message.
            cli_bind (write_screen message) (\<lambda>_. cli_bind (cli_sleep E 200) (\<lambda>_. cli_return (TurnAgain message))))) (w\<lparr>cw_http := hs\<rparr>))"

partial_function (option) setup_loop :: "'w cli_env \<Rightarrow> string \<Rightarrow> ClaimAgentType \<Rightarrow> string \<Rightarrow> ('w, unit) cli" where
  [code]: "setup_loop E claim_code agent_type last_message w = (case setup_turn E claim_code agent_type last_message w of
     None \<Rightarrow> None
   | Some (Inl e, w1) \<Rightarrow> Some (Inl e, w1)
   | Some (Inr t, w1) \<Rightarrow> (case t of TurnBreak _ \<Rightarrow> Some (Inr (), w1) | TurnAgain message \<Rightarrow> setup_loop E claim_code agent_type message w1))"

definition exchange_turn :: "'w cli_env \<Rightarrow> string \<Rightarrow> u64 \<Rightarrow> ('w, (unit, string) turn) cli" where
  "exchange_turn E claim_code end_at w = (case api_claim_exchange E (PlayitApi_create (cl_api_base E) None) claim_code (cw_http w) of
     (None, _) \<Rightarrow> None
   | (Some (Inr secret_key), hs) \<Rightarrow> Some (Inr (TurnBreak secret_key), w\<lparr>cw_http := hs\<rparr>)
   | (Some (Inl (ApiErrorFail status)), hs) \<Rightarrow>
       cli_bind (write_screen (''Waiting for claim code '' @ [CHR 0x22] @ claim_code @ [CHR 0x22] @ '' to be approved: '' @ cl_debug_exchange E status)) (\<lambda>_ w1.
         if end_at < cl_now_milli E (hs_world (cw_http w1))
         then cli_bind (write_screen ''Setup timed out before the program was approved.'') (\<lambda>_. cli_bind (cli_sleep E 2000) (\<lambda>_. cli_fail CliTimedOut)) w1
         else cli_bind (cli_sleep E 2000) (\<lambda>_. cli_return (TurnAgain ())) w1) (w\<lparr>cw_http := hs\<rparr>)
   | (Some (Inl e), hs) \<Rightarrow> Some (Inl (cli_error_of_api (\<lambda>_. []) e), w\<lparr>cw_http := hs\<rparr>))"

partial_function (option) exchange_loop :: "'w cli_env \<Rightarrow> string \<Rightarrow> u64 \<Rightarrow> ('w, string) cli" where
  [code]: "exchange_loop E claim_code end_at w = (case exchange_turn E claim_code end_at w of
     None \<Rightarrow> None
   | Some (Inl e, w1) \<Rightarrow> Some (Inl e, w1)
   | Some (Inr t, w1) \<Rightarrow> (case t of TurnBreak key \<Rightarrow> Some (Inr key, w1) | TurnAgain _ \<Rightarrow> exchange_loop E claim_code end_at w1))"

text \<open>\<open>max_word\<close> is \<^verbatim>\<open>u64::MAX\<close>; the sum with the present time stays far below it.\<close>

definition cli_claim_exchange :: "'w cli_env \<Rightarrow> string \<Rightarrow> ClaimAgentType \<Rightarrow> u32 \<Rightarrow> ('w, string) cli" where
  "cli_claim_exchange E claim_code agent_type wait_sec w =
     (let end_at = (if wait_sec = 0 then - 1 else cl_now_milli E (hs_world (cw_http w)) + ucast wait_sec * 1000) in
      cli_bind (setup_loop E claim_code agent_type ''Preparing setup...'') (\<lambda>_. exchange_loop E claim_code end_at) w)"

subsection \<open>Laws\<close>

lemma cli_bind_simps [simp]:
  "cli_bind (cli_return x) f = f x" "cli_bind (cli_fail e) f = cli_fail e"
  "m w = Some (Inr x, w1) \<Longrightarrow> cli_bind m f w = f x w1" "m w = Some (Inl e, w1) \<Longrightarrow> cli_bind m g w = Some (Inl e, w1)"
  by (auto simp: cli_bind_def cli_return_def cli_fail_def fun_eq_iff)

text \<open>The first loop of an exchange goes on as long as the user has not decided.\<close>

lemma setup_turn_waiting:
  assumes "api_claim_setup E (PlayitApi_create (cl_api_base E) None) claim_code agent_type (cw_http w) = (Some (Inr setup), hs)"
    "setup = WaitingForUserVisit \<or> setup = WaitingForUser" "cl_hex_ok E claim_code"
  shows "\<exists>message w1. setup_turn E claim_code agent_type last_message w = Some (Inr (TurnAgain message), w1)"
  using assms
  by (auto simp: setup_turn_def cli_lift_def waiting_message_def cli_claim_url_def write_screen_def cli_sleep_def cli_return_def cli_bind_def)

lemma setup_turn_failed:
  assumes "api_claim_setup E (PlayitApi_create (cl_api_base E) None) claim_code agent_type (cw_http w) = (Some (Inl e), hs)"
  shows "\<exists>w1. setup_turn E claim_code agent_type last_message w = Some (Inr (TurnAgain last_message), w1)"
  using assms by (simp add: setup_turn_def write_screen_def cli_sleep_def cli_return_def cli_bind_def)

lemma setup_turn_accepted:
  assumes "api_claim_setup E (PlayitApi_create (cl_api_base E) None) claim_code agent_type (cw_http w) = (Some (Inr UserAccepted), hs)"
  shows "setup_turn E claim_code agent_type last_message w =
    Some (Inr (TurnBreak ()), w\<lparr>cw_http := hs, cw_screen := cw_screen w @ [''Program approved. Finishing setup...'']\<rparr>)"
  using assms by (simp add: setup_turn_def write_screen_def cli_return_def cli_bind_def)

text \<open>What the server says while nobody decides: that it waits, or an error.\<close>

definition undecided :: "(ClaimSetupError, HttpClientError) ApiError + ClaimSetupResponse \<Rightarrow> bool" where
  "undecided r = (case r of Inl _ \<Rightarrow> True | Inr setup \<Rightarrow> setup = WaitingForUserVisit \<or> setup = WaitingForUser)"

lemma setup_loop_undecided:
  assumes "\<And>hs. \<exists>r hs'. api_claim_setup E (PlayitApi_create (cl_api_base E) None) claim_code agent_type hs = (Some r, hs') \<and> undecided r"
    "cl_hex_ok E claim_code" "setup_loop E claim_code agent_type last_message w = Some result"
  shows False
proof -
  have "E = E \<and> claim_code = claim_code \<and> agent_type = agent_type \<longrightarrow> False"
  proof (rule setup_loop.raw_induct [where P = "\<lambda>E' c' a' m' w' y. E' = E \<and> c' = claim_code \<and> a' = agent_type \<longrightarrow> False", OF _ assms(3)], goal_cases)
    case (1 loop E' c' a' m' w' y)
    obtain r hs where r: "api_claim_setup E (PlayitApi_create (cl_api_base E) None) claim_code agent_type (cw_http w') = (Some r, hs)" "undecided r"
      using assms(1) by blast
    then obtain message w1 where "setup_turn E claim_code agent_type m' w' = Some (Inr (TurnAgain message), w1)"
      using setup_turn_failed [of E claim_code agent_type w' _ hs m'] setup_turn_waiting [OF _ _ assms(2), of agent_type w' _ hs m']
      by (cases r) (auto simp: undecided_def)
    with 1 show ?case by (cases y) fastforce
  qed
  then show False by simp
qed

text \<open>An environment whose server gives a fixed answer to each endpoint.\<close>

definition fixed_http :: "('s, 'f) ApiResult \<Rightarrow> (unit, 's, 'f) http_env" where
  "fixed_http answer = \<lparr>he_build = (\<lambda>_. None), he_execute = (\<lambda>_ w. (Inr \<lparr>rs_status = 200, rs_retry_after = None, rs_text = Inr ''{}''\<rparr>, w)),
     he_now = (\<lambda>_. 0), he_sleep = (\<lambda>_ w. w), he_http_date = (\<lambda>_. None), he_deserialize = (\<lambda>t. Inr (answer, t)), he_end = (\<lambda>_. None)\<rparr>"

lemma fixed_http_call: "http_call (fixed_http answer) client url_path (Inr body) hs =
    (Some (Inr answer), hs\<lparr>hs_sent := hs_sent hs @ [\<lparr>rq_url = hc_api_base client @ url_path, rq_authorization = hc_auth_header client, rq_body = body\<rparr>]\<rparr>)"
  by (simp add: http_call_def call_with_policy_def http_attempt_def fixed_http_def parse_response_def Let_def)

definition example_web_session :: WebSession where
  "example_web_session = \<lparr>ws_session_key = ''key'', ws_auth = \<lparr>wt_update_version = 1, wt_account_id = 42, wt_timestamp = 7, wt_account_status = Verified,
     wt_totp_status = TotpNotSetup, wt_admin_id = None, wt_admin_review_id = None, wt_read_only = False, wt_show_admin = False\<rparr>\<rparr>"

definition example_cli :: "unit cli_env" where
  "example_cli = \<lparr>
     cl_et = \<lparr>et_api = (\<lambda>_. []), et_client = (\<lambda>_. []), et_api_debug = (\<lambda>_. []), et_client_debug = (\<lambda>_. [])\<rparr>,
     cl_signin = fixed_http (Success example_web_session), cl_signin_json = (\<lambda>c. Inr (lc_password c)), cl_totp = fixed_http (Fail SubmitInvalidCode),
     cl_text_json = Inr, cl_tunnels = fixed_http (Success ()), cl_tunnels_json = (\<lambda>_. Inr []),
     cl_details = fixed_http (Fail DetailsWaitingForAgent), cl_accept = fixed_http (Success ''agent''), cl_accept_json = (\<lambda>_. Inr []),
     cl_reject = fixed_http (Success ()), cl_agents = fixed_http (Success []), cl_empty_json = Inr [], cl_delete = fixed_http (Success ()),
     cl_delete_json = (\<lambda>_. Inr []), cl_setup = fixed_http (Success WaitingForUser), cl_setup_json = (\<lambda>_. Inr []), cl_exchange = fixed_http (Success ''secret''),
     cl_session_json = plain_session_json, cl_create_mode = 420, cl_config_dir = Some \<lparr>absolute = True, comps = [''config'']\<rparr>,
     cl_password_var = Some ''pw'', cl_api_base = ''api'', cl_version = ''1'', cl_hex_ok = (\<lambda>_. True), cl_uuid_parse = Some, cl_now_secs = (\<lambda>_. 5),
     cl_now_milli = (\<lambda>_. 5000), cl_sleep = (\<lambda>_ w. w), cl_debug_status = (\<lambda>_. []), cl_debug_text = (\<lambda>s. s), cl_debug_setup = (\<lambda>_. []),
     cl_debug_setup_error = (\<lambda>_. []), cl_debug_exchange = (\<lambda>_. []), cl_debug_details = (\<lambda>_. []), cl_debug_accept = (\<lambda>_. []), cl_debug_reject = (\<lambda>_. []),
     cl_debug_agent_type = (\<lambda>_. []), cl_fail_json = (\<lambda>_. []), cl_setup_fail_json = (\<lambda>_. [])\<rparr>"

definition example_cli_world :: "unit cli_world" where
  "example_cli_world = \<lparr>cw_http = \<lparr>hs_world = (), hs_sent = [], hs_slept = []\<rparr>,
     cw_fs = \<lparr>fs_files = Map.empty, fs_dirs = {}, fs_dir_mode = (\<lambda>_. 0), fs_faults = []\<rparr>, cw_screen = [], cw_stdin = []\<rparr>"

subsection \<open>Properties\<close>

text \<open>
  C35: The time that \<^verbatim>\<open>claim exchange --wait\<close> is given does not bound its wait for the user. For a hexadecimal claim code, as long as the server answers that the user has not decided,
  or with errors, the command does not return, whatever number of seconds it was told to wait.
\<close>

theorem claim_exchange_ignores_wait:
  assumes "\<And>hs. \<exists>r hs'. api_claim_setup E (PlayitApi_create (cl_api_base E) None) claim_code agent_type hs = (Some r, hs') \<and> undecided r"
    and "cl_hex_ok E claim_code"
  shows "cli_claim_exchange E claim_code agent_type wait_sec w = None"
proof -
  have "setup_loop E claim_code agent_type ''Preparing setup...'' w = None"
    using setup_loop_undecided [OF assms, of "''Preparing setup...''" w] by (cases "setup_loop E claim_code agent_type ''Preparing setup...'' w") auto
  then show ?thesis by (simp add: cli_claim_exchange_def cli_bind_def Let_def)
qed

theorem claim_exchange_ignores_wait_witness:
  "cli_claim_exchange example_cli ''abcd'' SelfManaged 5 example_cli_world = None"
  by (rule claim_exchange_ignores_wait)
    (simp_all add: example_cli_def api_claim_setup_def setup_request_def fixed_http_call undecided_def)

text \<open>
  C34: Logging in lasts until logging out, where there is a configuration directory and no access to the file system fails. When the e-mail address is given as an argument and the password by
  \<^verbatim>\<open>PLAYIT_PASSWORD\<close>, and signing in succeeds without a second factor, \<^verbatim>\<open>account login\<close> ends without an error, and a command that needs the account then finds the very session
  that the server gave: its key, its account and the server that it belongs to. After \<^verbatim>\<open>account logout\<close> there is no session any more, and such a command says so.
\<close>

theorem login_lasts_until_logout:
  assumes "session_json_law (cl_session_json E)" "cl_config_dir E = Some d" "fs_faults (cw_fs w) = []"
    and "cl_password_var E = Some password" "password \<noteq> []"
    and "sign_in (cl_signin E) (cl_et E) (cl_signin_json E) (cl_api_base E) (trim email) password (cw_http w) = (Some (Inr session), hs)"
    and "\<not> requires_totp session"
  shows "\<exists>w1 w2 kept. run_account_login E (Some email) False w = Some (Inr (), w1) \<and>
    stored_client E w1 = Some (Inr (kept, account_client session), w1) \<and> pss_account_id kept = account_id session \<and>
    run_account_logout E w1 = Some (Inr (), w2) \<and>
    stored_client E w2 = Some (Inl (CliSessionError ''not logged in; run `playit account login` first''), w2)"
proof -
  define p where "p = d\<lparr>comps := comps d @ [''playit-cli'', ''account-session.json'']\<rparr>"
  have sf: "session_file E = Inr p" using assms(2) by (simp add: session_file_def p_def)
  define x where "x = from_account_session (cl_now_secs E (hs_world hs)) session"
  obtain t where t: "sj_write (cl_session_json E) x = Inr t" "sj_read (cl_session_json E) t = Inr x" "\<not> list_all is_ascii_whitespace t"
    by (rule session_json_law.session_text [OF assms(1)])
  obtain fs1 where save: "file_save (cl_session_json E) (cl_create_mode E) p x (cw_fs w) = (Inr (), fs1)" "fs_faults fs1 = []"
    "fs_files fs1 = (fs_files (cw_fs w))(p \<mapsto> \<lparr>content_of = t, mode_of = 384\<rparr>)"
    using file_save_ok [OF assms(3) t(1)] by blast
  obtain w1 where login: "run_account_login E (Some email) False w = Some (Inr (), w1)" "cw_fs w1 = fs1"
    using assms(4-7) save sf
    by (simp add: run_account_login_def read_password_def cli_call_def report_session_def cli_lift_def cli_store_def write_screen_def cli_bind_def
      cli_return_def x_def)
  have load: "file_load (cl_session_json E) p fs1 = (Inr (Some x), fs1)"
    using save(2,3) t by (simp add: file_load_def fs_read_to_string_def next_fault_def)
  define fs2 where "fs2 = fs1\<lparr>fs_files := (fs_files fs1)(p := None)\<rparr>"
  have clear: "file_clear p fs1 = (Inr (), fs2)" "file_load (cl_session_json E) p fs2 = (Inr None, fs2)"
    using save(2,3) by (simp_all add: file_clear_def fs_remove_file_def next_fault_def fs2_def file_load_def fs_read_to_string_def)
  have client: "stored_account_client x = account_client session"
    by (simp add: stored_account_client_def account_client_def x_def from_account_session_def)
  have same: "w1\<lparr>cw_fs := fs1\<rparr> = w1" using login(2) by (cases w1) simp
  show ?thesis
    by (rule exI [of _ w1], rule exI [of _ "w1\<lparr>cw_fs := fs2, cw_screen := cw_screen w1 @ [''account session cleared'']\<rparr>"], rule exI [of _ x])
      (simp add: login same stored_client_def load_stored_session_def run_account_logout_def sf load clear cli_lift_def cli_store_def cli_bind_def
        cli_return_def cli_fail_def write_screen_def client, simp add: x_def from_account_session_def)
qed

theorem login_lasts_until_logout_witness:
  "\<exists>w1 w2 kept. run_account_login example_cli (Some ''me@example.org'') False example_cli_world = Some (Inr (), w1) \<and>
     stored_client example_cli w1 = Some (Inr (kept, \<lparr>hc_api_base = ''api'', hc_auth_header = Some ''Bearer key''\<rparr>), w1) \<and> pss_account_id kept = 42 \<and>
     run_account_logout example_cli w1 = Some (Inr (), w2) \<and>
     stored_client example_cli w2 = Some (Inl (CliSessionError ''not logged in; run `playit account login` first''), w2)"
proof -
  define session where "session = AccountSession_new 0 ''api'' example_web_session"
  have trim: "trim ''me@example.org'' = ''me@example.org''" by code_simp
  have s: "\<exists>hs. sign_in (cl_signin example_cli) (cl_et example_cli) (cl_signin_json example_cli) (cl_api_base example_cli) (trim ''me@example.org'') ''pw''
      (cw_http example_cli_world) = (Some (Inr session), hs)"
    by (simp add: sign_in_def example_cli_def fixed_http_call trim session_def, simp add: fixed_http_def)
  then obtain hs where hs: "sign_in (cl_signin example_cli) (cl_et example_cli) (cl_signin_json example_cli) (cl_api_base example_cli) (trim ''me@example.org'') ''pw''
      (cw_http example_cli_world) = (Some (Inr session), hs)" by blast
  have "account_client session = \<lparr>hc_api_base = ''api'', hc_auth_header = Some ''Bearer key''\<rparr>" "account_id session = 42" "\<not> requires_totp session"
    by (simp_all add: session_def AccountSession_new_def account_client_def PlayitApi_from_bearer_def HttpClient_new_with_auth_def account_id_def
      requires_totp_def example_web_session_def)
  then show ?thesis
    using login_lasts_until_logout [of example_cli _ example_cli_world "''pw''" "''me@example.org''" session hs] hs plain_session.session_json_law_axioms
    by (simp add: example_cli_def example_cli_world_def)
qed

end
