(* ===== verification/Ip_Resource.thy ===== *)
theory Ip_Resource
  imports Wire
begin

section \<open>Addresses of tunnels\<close>

text \<open>
  \<^verbatim>\<open>packages/api_client/src/ip_resource.rs\<close>: the number and the region that an address of a tunnel stands for, and the address of a number in a region.
\<close>

datatype PlayitRegion = RegionAnycast | RegionGlobal | RegionNorthAmerica | RegionEurope | RegionAsia | RegionIndia | RegionSouthAmerica

record IpResource =
  ipr_ip_num :: u64
  ipr_region :: PlayitRegion

fun region_number :: "PlayitRegion \<Rightarrow> u16" where
  "region_number RegionAnycast = 0"
| "region_number RegionGlobal = 1"
| "region_number RegionNorthAmerica = 2"
| "region_number RegionEurope = 3"
| "region_number RegionAsia = 4"
| "region_number RegionIndia = 5"
| "region_number RegionSouthAmerica = 6"

definition region_from_ip4 :: "Ipv4Addr \<Rightarrow> PlayitRegion option \<times> u64" where
  "region_from_ip4 ip = (let octs = be32 ip; net = (octs ! 0, octs ! 1, octs ! 2) in
     (if net = (0, 0, 0) then Some RegionAnycast
      else if net = (209, 25, 140) then Some RegionNorthAmerica
      else if net = (209, 25, 141) then Some RegionEurope
      else if net = (209, 25, 142) then Some RegionAsia
      else if net = (209, 25, 143) then Some RegionIndia
      else if net = (23, 133, 216) then Some RegionSouthAmerica
      else if net = (198, 22, 204) then Some RegionSouthAmerica
      else if net = (147, 185, 221) then Some RegionGlobal
      else None, ucast (octs ! 3)))"

definition region_from_ip6 :: "byteorder \<Rightarrow> Ipv6Addr \<Rightarrow> PlayitRegion option \<times> u64" where
  "region_from_ip6 bo ip = (let parts = be128 ip; number = bo_get_u16 bo (take 2 (drop 6 parts)) in
     (if number = 0 then Some RegionAnycast
      else if number = 1 then Some RegionGlobal
      else if number = 2 then Some RegionNorthAmerica
      else if number = 3 then Some RegionEurope
      else if number = 4 then Some RegionAsia
      else if number = 5 then Some RegionIndia
      else if number = 6 then Some RegionSouthAmerica
      else None, bo_get_u64 bo (drop 8 parts)))"

definition region_from_ip :: "byteorder \<Rightarrow> IpAddr \<Rightarrow> PlayitRegion option \<times> u64" where
  "region_from_ip bo ip = (case ip of IpV4 ip \<Rightarrow> region_from_ip4 ip | IpV6 ip \<Rightarrow> region_from_ip6 bo ip)"

definition tunnel_address :: "byteorder \<Rightarrow> PlayitRegion \<Rightarrow> u64 \<Rightarrow> Ipv6Addr" where
  "tunnel_address bo region ip_number =
     of_be ([0x26, 0x02, 0xfb, 0xaf, 0, 0] @ bo_put_u16 bo (region_number region) @ bo_put_u64 bo ip_number)"

definition IpResource_from_ip :: "byteorder \<Rightarrow> IpAddr \<Rightarrow> IpResource" where
  "IpResource_from_ip bo ip = (case region_from_ip bo ip of (region, ip_num) \<Rightarrow>
     \<lparr>ipr_ip_num = ip_num,
      ipr_region = (case region of Some r \<Rightarrow> if 64 \<le> ip_num \<and> ip_num < 128 then r else RegionAnycast | None \<Rightarrow> RegionAnycast)\<rparr>)"

definition to_tunnel_ip :: "byteorder \<Rightarrow> IpResource \<Rightarrow> Ipv6Addr" where
  "to_tunnel_ip bo r = tunnel_address bo (ipr_region r) (ipr_ip_num r)"

subsection \<open>Laws\<close>

context big_endian_io
begin

lemma region_of_tunnel_address: "region_from_ip6 bo (tunnel_address bo region n) = (Some region, n)"
proof -
  have "be128 (tunnel_address bo region n) = [0x26, 0x02, 0xfb, 0xaf, 0, 0] @ be16 (region_number region) @ be64 n"
    by (simp add: tunnel_address_def put_u16 put_u64 be_of_be)
  then show ?thesis by (cases region) (simp_all add: region_from_ip6_def get_u16 get_u64)
qed

text \<open>The address of a resource stands for the resource, unless it names a region for a number that is not a regional one.\<close>

lemma tunnel_ip_back:
  "IpResource_from_ip bo (IpV6 (to_tunnel_ip bo r)) = r \<longleftrightarrow> ipr_region r = RegionAnycast \<or> 64 \<le> ipr_ip_num r \<and> ipr_ip_num r < 128"
  by (cases r) (auto simp: IpResource_from_ip_def region_from_ip_def to_tunnel_ip_def region_of_tunnel_address)

end

text \<open>The region of an address of the fourth version is found by its network.\<close>

lemma region_of_net: "fst (region_from_ip4 (of_be [209, 25, 141, x])) = Some RegionEurope"
  by (simp add: region_from_ip4_def Let_def be_of_be)

end
