(* ===== verification/Daemon.thy ===== *)
theory Daemon
  imports Supervisor Ipc_Server
begin

section \<open>The daemon\<close>

text \<open>
  \<^verbatim>\<open>packages/playitd/src/daemon.rs\<close>, \<^verbatim>\<open>logging.rs\<close>, \<^verbatim>\<open>paths.rs\<close> and \<^verbatim>\<open>bin/playitd.rs\<close>, as built for Linux, with the owner of the runtime of \<^verbatim>\<open>playit-runtime/src/runtime.rs\<close>.
  The environment has what the program finds: variables, paths, the libraries that parse files, and the socket. A run of the daemon has which branch of its \<^verbatim>\<open>select!\<close> is
  taken, what the tasks have done to the shared state until then, and how they end when they are told to.
\<close>

subsection \<open>Logging\<close>

text \<open>A field of an event has a name and a value, a string or another value with its debug text.\<close>

datatype field_value = FieldStr string | FieldDebug string

fun field_text :: "field_value \<Rightarrow> string" where
  "field_text (FieldStr s) = s" | "field_text (FieldDebug s) = s"

definition record_field :: "string \<times> field_value \<Rightarrow> string \<Rightarrow> string" where
  "record_field = (\<lambda>(name, v) message.
     if name = ''message'' then field_text v
     else (if message = [] then [] else message @ '', '') @ name @ ''='' @ field_text v)"

datatype tracing_level = TRACE | DEBUG | INFO | WARN | ERROR

fun level_to_wire :: "tracing_level \<Rightarrow> LogLevel" where
  "level_to_wire TRACE = LevelTrace"
| "level_to_wire DEBUG = LevelDebug"
| "level_to_wire INFO = LevelInfo"
| "level_to_wire WARN = LevelWarn"
| "level_to_wire ERROR = LevelError"

definition on_event :: "tracing_level \<Rightarrow> string \<Rightarrow> (string \<times> field_value) list \<Rightarrow> u64 \<Rightarrow> ServiceUpdate list \<Rightarrow> ServiceUpdate list" where
  "on_event level target fds now event_tx = event_tx @ [UpdateLog \<lparr>le_level = level_to_wire level, le_target = target,
     le_message = fold record_field fds [], le_timestamp = now\<rparr>]"

text \<open>\<open>check\<close> is the limiter of \<^verbatim>\<open>governor\<close>, with its state.\<close>

definition LOG_RATE_LIMIT_PER_SECOND :: u32 where "LOG_RATE_LIMIT_PER_SECOND = 2"
definition LOG_RATE_LIMIT_BURST :: u32 where "LOG_RATE_LIMIT_BURST = 32"

definition log_allow :: "('r \<Rightarrow> bool \<times> 'r) \<Rightarrow> bool \<Rightarrow> 'r \<Rightarrow> bool \<times> 'r" where
  "log_allow check is_event r = (if \<not> is_event then (True, r) else check r)"

subsection \<open>Options\<close>

record DaemonOptions =
  do_secret :: "string option"
  do_secret_path :: "path option"
  do_socket_path :: "string option"
  do_log_path :: "path option"
  do_platform_docker :: bool
  do_version :: VersionDetails

datatype DaemonError = DaemonIpc IpcError | DaemonRuntime RuntimeError | DaemonSetupError string

definition fs_exists :: "path \<Rightarrow> fs \<Rightarrow> bool" where
  "fs_exists p w \<longleftrightarrow> fs_files w p \<noteq> None \<or> p \<in> fs_dirs w"

definition linux_default_secret_path :: "fs \<Rightarrow> path option" where
  "linux_default_secret_path w = (let p = \<lparr>absolute = True, comps = [''etc'', ''playit'', ''playit.toml'']\<rparr> in if fs_exists p w then Some p else None)"

definition default_secret_path :: "path \<Rightarrow> fs \<Rightarrow> path" where
  "default_secret_path config_dir w =
     (let here = \<lparr>absolute = False, comps = [''playit.toml'']\<rparr> in
      if fs_exists here w then here
      else (case linux_default_secret_path w of Some p \<Rightarrow> p | None \<Rightarrow> config_dir\<lparr>comps := comps config_dir @ [''playit.toml'']\<rparr>))"

definition load_version_overrides ::
  "(string \<Rightarrow> string + VersionOverrideFile) \<Rightarrow> (string \<Rightarrow> string + VersionOverrideFile) \<Rightarrow> path \<Rightarrow> fs \<Rightarrow> (string + VersionOverrideFile) \<times> fs" where
  "load_version_overrides json_from_str yaml_from_str p w = (case fs_read_to_string p w of
     (Inl e, w1) \<Rightarrow> (Inl (''Failed to read version override file '' @ path_display p @ '': '' @ fs_text e), w1)
   | (Inr file_text, w1) \<Rightarrow>
       (let ext = map_option (map ascii_lower) (path_extension p) in
        if ext = Some ''json'' then
          (case json_from_str file_text of Inl e \<Rightarrow> Inl (''Invalid JSON in '' @ path_display p @ '': '' @ e) | Inr f \<Rightarrow> Inr f)
        else if ext = Some ''yaml'' \<or> ext = Some ''yml'' then
          (case yaml_from_str file_text of Inl e \<Rightarrow> Inl (''Invalid YAML in '' @ path_display p @ '': '' @ e) | Inr f \<Rightarrow> Inr f)
        else Inl (''Unsupported version override file format for '' @ path_display p @ ''. Use .json, .yaml, or .yml''), w1))"

subsection \<open>The log file\<close>

definition dot_path :: path where "dot_path = \<lparr>absolute = False, comps = [''.'']\<rparr>"

definition log_parent :: "path \<Rightarrow> path" where
  "log_parent p = (case path_parent p of Some parent \<Rightarrow> parent | None \<Rightarrow> dot_path)"

definition create_log_parent_dir :: "path \<Rightarrow> fs \<Rightarrow> (string + unit) \<times> fs" where
  "create_log_parent_dir p w = (case fs_create_dir_all (log_parent p) w of
     (Inl e, w1) \<Rightarrow> (Inl (''Failed to create log directory '' @ path_display (log_parent p) @ '': '' @ fs_text e), w1)
   | (Inr _, w1) \<Rightarrow> (Inr (), w1))"

text \<open>\<^verbatim>\<open>Path::file_name\<close>.\<close>

definition path_file_name :: "path \<Rightarrow> string option" where
  "path_file_name p = (if comps p = [] \<or> last (comps p) \<in> {''.'', ''..''} then None else Some (last (comps p)))"

text \<open>The directory and the name that the writer of \<^verbatim>\<open>tracing_appender\<close> gets.\<close>

definition log_file_writer :: "path \<Rightarrow> fs \<Rightarrow> (string + path \<times> string) \<times> fs" where
  "log_file_writer p w = (case create_log_parent_dir p w of
     (Inl e, w1) \<Rightarrow> (Inl e, w1)
   | (Inr _, w1) \<Rightarrow> (case path_file_name p of
       None \<Rightarrow> (Inl (''Invalid --log-path '' @ path_display p), w1)
     | Some name \<Rightarrow> (Inr (log_parent p, name), w1)))"

definition init_tracing :: "path option \<Rightarrow> fs \<Rightarrow> (string + (path \<times> string) option) \<times> fs" where
  "init_tracing log_path w = (case log_path of
     Some p \<Rightarrow> map_prod (map_sum id Some) id (log_file_writer p w)
   | None \<Rightarrow> (Inr None, w))"

subsection \<open>The owner of the runtime\<close>

text \<open>\<open>pr_supervisor\<close>: whether the handle of the supervisor is still there. \<open>task\<close> runs the supervisor to its end, which is a value or the error of a task that failed.\<close>

record PlayitRuntime =
  pr_inner :: RuntimeInner
  pr_supervisor :: bool

type_synonym supervisor_task = "RuntimeInner \<Rightarrow> (string + (RuntimeError + unit)) \<times> RuntimeInner"

definition runtime_wait :: "supervisor_task \<Rightarrow> PlayitRuntime \<Rightarrow> (RuntimeError + unit) \<times> PlayitRuntime" where
  "runtime_wait task rt =
     (if \<not> pr_supervisor rt then (Inr (), rt)
      else (case task (pr_inner rt) of
          (Inl e, i) \<Rightarrow> (Inl (RuntimeError_setup (''runtime task failed: '' @ e) False), \<lparr>pr_inner = i, pr_supervisor = False\<rparr>)
        | (Inr result, i) \<Rightarrow> (result, \<lparr>pr_inner = i, pr_supervisor = False\<rparr>)))"

definition runtime_drop :: "PlayitRuntime \<Rightarrow> RuntimeInner" where
  "runtime_drop rt = request_shutdown (pr_inner rt)"

text \<open>\<open>None\<close> is a shutdown that waits for a claim task.\<close>

definition runtime_shutdown :: "supervisor_task \<Rightarrow> PlayitRuntime \<Rightarrow> ((RuntimeError + unit) \<times> RuntimeInner) option" where
  "runtime_shutdown task rt =
     (let (result, rt1) = runtime_wait task (rt\<lparr>pr_inner := request_shutdown (pr_inner rt)\<rparr>) in
      case join_claim_tasks (pr_inner rt1) of
        None \<Rightarrow> None
      | Some i \<Rightarrow> Some (result, runtime_drop (rt1\<lparr>pr_inner := i\<rparr>)))"

subsection \<open>Running\<close>

record ('n, 'l) daemon_env =
  de_sup :: sup_env
  de_variant_parse :: "string \<Rightarrow> string + string"
  de_platform :: Platform
  de_start_time :: u64
  de_api_base_var :: "string option"
  de_config_dir :: path
  de_try_connect :: "IpcEndpoint \<Rightarrow> IpcError + unit"
  de_to_name :: "IpcEndpoint \<Rightarrow> io_error + 'n"
  de_create :: "nat option \<Rightarrow> 'n \<Rightarrow> io_error + 'l"
  de_perm :: "fs perm_env"
  de_effective_uid :: u32

definition daemon_api_base :: "('n, 'l) daemon_env \<Rightarrow> string" where
  "daemon_api_base E = (case de_api_base_var E of Some v \<Rightarrow> v | None \<Rightarrow> ''https://api.playit.gg'')"

definition runtime_options :: "('n, 'l) daemon_env \<Rightarrow> DaemonOptions \<Rightarrow> fs \<Rightarrow> RuntimeOptions" where
  "runtime_options E options w =
     \<lparr>opt_secret_path = (case do_secret_path options of Some p \<Rightarrow> p | None \<Rightarrow> default_secret_path (de_config_dir E) w),
      opt_secret = do_secret options, opt_version = do_version options, opt_platform_docker = do_platform_docker options,
      opt_api_base = daemon_api_base E\<rparr>"

definition bind_listener :: "('n, 'l) daemon_env \<Rightarrow> IpcServer \<Rightarrow> fs \<Rightarrow> (IpcError + 'l) \<times> fs" where
  "bind_listener E server w = (case create_listener (de_to_name E) (de_create E) server of
     Inl e \<Rightarrow> (Inl e, w)
   | Inr listener \<Rightarrow> (case configure_socket_permissions (de_perm E) (de_effective_uid E) (sv_socket_path server) w of
       (Inl e, w1) \<Rightarrow> (Inl e, w1)
     | (Inr _, w1) \<Rightarrow> (Inr listener, w1)))"

text \<open>The branch of the \<^verbatim>\<open>select!\<close>; the IPC task ends with its result, or with the error of a task that failed.\<close>

datatype daemon_event = CtrlC | HostShutdownCancelled | RuntimeEnded | IpcTaskEnded "string + (IpcError + unit)"

record daemon_run =
  dn_event :: daemon_event
  dn_meanwhile :: "RuntimeInner \<Rightarrow> RuntimeInner"
  dn_supervisor :: supervisor_task

datatype daemon_end = DaemonReturns "DaemonError + unit" | DaemonPanics string | DaemonWaits

definition daemon_runtime_result :: "RuntimeError + unit \<Rightarrow> DaemonError + unit" where
  "daemon_runtime_result r = map_sum DaemonRuntime id r"

text \<open>After the \<^verbatim>\<open>select!\<close>. The wait for the IPC task is bounded and its result is dropped.\<close>

definition daemon_finish ::
  "supervisor_task \<Rightarrow> join_handle \<Rightarrow> DaemonError + unit \<Rightarrow> PlayitRuntime \<Rightarrow> daemon_end \<times> RuntimeInner" where
  "daemon_finish task ipc_task result rt = (case await_handle ipc_task of
       None \<Rightarrow> (DaemonPanics ''JoinHandle polled after completion'', runtime_drop rt)
     | Some _ \<Rightarrow> (case runtime_shutdown task rt of
          None \<Rightarrow> (DaemonWaits, request_shutdown (pr_inner rt))
        | Some (shutdown_result, i) \<Rightarrow>
            (DaemonReturns (case result of Inl e \<Rightarrow> Inl e | Inr _ \<Rightarrow> daemon_runtime_result shutdown_result), i)))"

definition daemon_select :: "daemon_run \<Rightarrow> PlayitRuntime \<Rightarrow> daemon_end \<times> RuntimeInner" where
  "daemon_select R rt = (case dn_event R of
     CtrlC \<Rightarrow> daemon_finish (dn_supervisor R) HandlePending (Inr ()) rt
   | HostShutdownCancelled \<Rightarrow> daemon_finish (dn_supervisor R) HandlePending (Inr ()) rt
   | RuntimeEnded \<Rightarrow> (case runtime_wait (dn_supervisor R) rt of
       (r, rt1) \<Rightarrow> daemon_finish (dn_supervisor R) HandlePending (daemon_runtime_result r) rt1)
   | IpcTaskEnded (Inl e) \<Rightarrow> (DaemonReturns (Inl (DaemonSetupError (''IPC task failed: '' @ e))), runtime_drop rt)
   | IpcTaskEnded (Inr r) \<Rightarrow> daemon_finish (dn_supervisor R) HandleTaken (map_sum DaemonIpc id r) rt)"

definition daemon_abort :: "supervisor_task \<Rightarrow> IpcError \<Rightarrow> PlayitRuntime \<Rightarrow> daemon_end \<times> RuntimeInner" where
  "daemon_abort task e rt = (case runtime_shutdown task rt of
     None \<Rightarrow> (DaemonWaits, request_shutdown (pr_inner rt)) | Some (_, i) \<Rightarrow> (DaemonReturns (Inl (DaemonIpc e)), i))"

text \<open>The runtime's state at the end, once there is one.\<close>

definition run_daemon ::
  "('n, 'l) daemon_env \<Rightarrow> daemon_run \<Rightarrow> DaemonOptions \<Rightarrow> fs \<Rightarrow> daemon_end \<times> RuntimeInner option \<times> fs" where
  "run_daemon E R options w = (case init_tracing (do_log_path options) w of
     (Inl e, w1) \<Rightarrow> (DaemonReturns (Inl (DaemonSetupError e)), None, w1)
   | (Inr _, w1) \<Rightarrow> (case start_with_event_sender (de_sup E) (de_variant_parse E) (de_platform E) (de_start_time E) (runtime_options E options w) [] of
       Inl e \<Rightarrow> (DaemonReturns (Inl (DaemonRuntime e)), None, w1)
     | Inr (inner, _) \<Rightarrow>
         (let rt = \<lparr>pr_inner = inner, pr_supervisor = True\<rparr> in
          case IpcServer_new (de_try_connect E) inner (do_socket_path options) False w1 of
            (Inl e, w2) \<Rightarrow> (case daemon_abort (dn_supervisor R) e rt of (r, i) \<Rightarrow> (r, Some i, w2))
          | (Inr server, w2) \<Rightarrow> (case bind_listener E server w2 of
              (Inl e, w3) \<Rightarrow> (case daemon_abort (dn_supervisor R) e rt of (r, i) \<Rightarrow> (r, Some i, w3))
            | (Inr _, w3) \<Rightarrow>
                (case daemon_select R (rt\<lparr>pr_inner := dn_meanwhile R inner\<rparr>) of (r, i) \<Rightarrow> (r, Some i, w3))))))"

subsection \<open>\<^verbatim>\<open>bin/playitd.rs\<close>\<close>

record daemon_cli =
  dc_secret :: "string option"
  dc_secret_path :: "path option"
  dc_socket_path :: "string option"
  dc_log_path :: "path option"
  dc_platform_docker :: bool
  dc_version_overrides :: "path option"

definition daemon_options_of :: "path \<Rightarrow> fs \<Rightarrow> daemon_cli \<Rightarrow> VersionDetails \<Rightarrow> DaemonOptions" where
  "daemon_options_of config_dir w cli version =
     \<lparr>do_secret = dc_secret cli,
      do_secret_path = (if dc_secret cli \<noteq> None then None
        else Some (case dc_secret_path cli of Some p \<Rightarrow> p | None \<Rightarrow> default_secret_path config_dir w)),
      do_socket_path = dc_socket_path cli, do_log_path = dc_log_path cli, do_platform_docker = dc_platform_docker cli, do_version = version\<rparr>"

text \<open>The options that the program runs the daemon with, or what it prints before it ends with a failure. \<open>package_version\<close> is the version of the package.\<close>

definition daemon_main_options ::
  "(string \<Rightarrow> string + VersionOverrideFile) \<Rightarrow> (string \<Rightarrow> string + VersionOverrideFile) \<Rightarrow> string \<Rightarrow> path \<Rightarrow> daemon_cli \<Rightarrow> fs \<Rightarrow> (string + DaemonOptions) \<times> fs" where
  "daemon_main_options json_from_str yaml_from_str package_version config_dir cli w =
     (case from_version_string package_version DEFAULT_VARIANT_ID of
        Inl e \<Rightarrow> (Inl (''playitd version error: '' @ e), w)
      | Inr version \<Rightarrow> (case dc_version_overrides cli of
          None \<Rightarrow> (Inr (daemon_options_of config_dir w cli version), w)
        | Some p \<Rightarrow> (case load_version_overrides json_from_str yaml_from_str p w of
            (Inl e, w1) \<Rightarrow> (Inl (''playitd version override error: '' @ e), w1)
          | (Inr ovr, w1) \<Rightarrow> (Inr (daemon_options_of config_dir w1 cli (apply_overrides ovr version)), w1))))"

subsection \<open>Laws\<close>

text \<open>The message of an event comes first and its fields follow.\<close>

lemma record_fields_append:
  "message \<noteq> [] \<Longrightarrow> list_all (\<lambda>(name, _). name \<noteq> ''message'') fds \<Longrightarrow>
   fold record_field fds message = message @ concat (map (\<lambda>(name, v). '', '' @ name @ ''='' @ field_text v) fds)"
  by (induction fds arbitrary: message) (auto simp: record_field_def)

lemma on_event_message:
  assumes "field_text v \<noteq> []" "list_all (\<lambda>(name, _). name \<noteq> ''message'') fds"
  shows "le_message (case last (on_event level target ((''message'', v) # fds) now event_tx) of UpdateLog entry \<Rightarrow> entry) =
    field_text v @ concat (map (\<lambda>(name, v). '', '' @ name @ ''='' @ field_text v) fds)"
  using record_fields_append [OF assms] by (simp add: on_event_def) (simp add: record_field_def)

lemma request_shutdown_cancelled [simp]: "ri_cancel_token (request_shutdown i)"
  by (simp add: request_shutdown_def)

lemma runtime_shutdown_cancels: "runtime_shutdown task rt = Some (r, i) \<Longrightarrow> ri_cancel_token i"
  by (auto simp: runtime_shutdown_def runtime_drop_def Let_def split: prod.splits option.splits)

lemma daemon_finish_cancels: "ri_cancel_token (snd (daemon_finish task ipc_task result rt))"
  by (auto simp: daemon_finish_def await_handle_def runtime_drop_def runtime_shutdown_cancels split: option.splits join_handle.splits)

lemma daemon_abort_cancels: "ri_cancel_token (snd (daemon_abort task e rt))"
  by (auto simp: daemon_abort_def runtime_shutdown_cancels split: option.splits)

lemma daemon_select_cancels: "ri_cancel_token (snd (daemon_select R rt))"
  by (auto simp: daemon_select_def daemon_finish_cancels runtime_drop_def split: daemon_event.splits prod.splits sum.splits)

lemma daemon_finish_returns: "fst (daemon_finish task HandlePending result rt) \<noteq> DaemonPanics e"
  by (simp add: daemon_finish_def await_handle_def split: option.splits prod.splits)

lemma daemon_select_panics: "(\<exists>e. fst (daemon_select R rt) = DaemonPanics e) \<longleftrightarrow> (\<exists>r. dn_event R = IpcTaskEnded (Inr r))"
  by (auto simp: daemon_select_def daemon_finish_returns split: daemon_event.splits prod.splits sum.splits) (simp add: daemon_finish_def await_handle_def)

lemma server_run_ends: "server_run accepts = (tasks, Some r) \<Longrightarrow> r = Inr () \<and> HostShutdown \<in> set accepts"
  by (induction accepts arbitrary: tasks rule: server_run.induct) (auto split: prod.splits)

lemma run_daemon_clean:
  assumes "run_daemon E R options w = (DaemonReturns (Inr ()), inner, w')"
  obtains i0 where "\<And>R'. run_daemon E R' options w =
    (case daemon_select R' \<lparr>pr_inner = dn_meanwhile R' i0, pr_supervisor = True\<rparr> of (r, i) \<Rightarrow> (r, Some i, w'))"
proof -
  have abort: "daemon_abort task e rt \<noteq> (DaemonReturns (Inr ()), i)" for task e rt i
    by (auto simp: daemon_abort_def split: option.splits)
  from assms show thesis
    by (auto simp: run_daemon_def Let_def abort split: prod.splits sum.splits intro: that)
qed

lemma daemon_runtime_result_clean: "daemon_runtime_result r = Inr () \<longleftrightarrow> r = Inr ()"
  by (cases r) (simp_all add: daemon_runtime_result_def)

lemma runtime_wait_clean: "runtime_wait task rt = (Inr (), rt1) \<Longrightarrow> pr_supervisor rt \<Longrightarrow> \<exists>i. fst (task i) = Inr (Inr ())"
  by (auto simp: runtime_wait_def split: prod.splits sum.splits) (metis fst_conv)

lemma daemon_finish_clean:
  assumes "fst (daemon_finish task ipc_task early rt) = DaemonReturns (Inr ())"
  shows "ipc_task = HandlePending \<and> early = Inr () \<and> (pr_supervisor rt \<longrightarrow> (\<exists>i. fst (task i) = Inr (Inr ())))"
  using assms runtime_wait_clean [of task "rt\<lparr>pr_inner := request_shutdown (pr_inner rt)\<rparr>"]
  by (auto simp: daemon_finish_def await_handle_def runtime_shutdown_def daemon_runtime_result_clean Let_def split: if_splits option.splits join_handle.splits prod.splits sum.splits)

lemma daemon_select_clean:
  assumes "fst (daemon_select R rt) = DaemonReturns (Inr ())" "pr_supervisor rt"
  shows "(\<exists>i. fst (dn_supervisor R i) = Inr (Inr ())) \<and> (\<forall>e. dn_event R \<noteq> IpcTaskEnded e)"
  using assms runtime_wait_clean [of "dn_supervisor R" rt] daemon_finish_clean [of "dn_supervisor R"]
  by (auto simp: daemon_select_def daemon_runtime_result_clean split: daemon_event.splits prod.splits sum.splits)
    (use daemon_runtime_result_clean in blast)+

subsection \<open>Properties\<close>

text \<open>
  C38: The daemon never leaves its runtime running and hides no failure. However a run ends once the runtime has been started, by a signal, a request, the end of the runtime or of the
  IPC task, a socket that cannot be bound or another instance, the runtime has been told to stop; and it ends without an error only after its supervisor has been waited
  for and has ended without one.
\<close>

theorem daemon_stops_runtime:
  assumes "run_daemon E R options w = (result, Some i, w')"
  shows "ri_cancel_token i \<and>
    (result = DaemonReturns (Inr ()) \<longrightarrow> (\<exists>i1. fst (dn_supervisor R i1) = Inr (Inr ())) \<and> (\<forall>e. dn_event R \<noteq> IpcTaskEnded e))"
proof
  show "ri_cancel_token i"
    using assms daemon_abort_cancels daemon_select_cancels
    by (auto simp: run_daemon_def Let_def split: prod.splits sum.splits) (metis snd_conv)+
  show "result = DaemonReturns (Inr ()) \<longrightarrow> (\<exists>i1. fst (dn_supervisor R i1) = Inr (Inr ())) \<and> (\<forall>e. dn_event R \<noteq> IpcTaskEnded e)"
  proof
    assume "result = DaemonReturns (Inr ())"
    with assms obtain i0 where "\<And>R'. run_daemon E R' options w =
        (case daemon_select R' \<lparr>pr_inner = dn_meanwhile R' i0, pr_supervisor = True\<rparr> of (r, i) \<Rightarrow> (r, Some i, w'))"
      using run_daemon_clean by metis
    with assms \<open>result = _\<close> have "fst (daemon_select R \<lparr>pr_inner = dn_meanwhile R i0, pr_supervisor = True\<rparr>) = DaemonReturns (Inr ())"
      by (auto split: prod.splits)
    then show "(\<exists>i1. fst (dn_supervisor R i1) = Inr (Inr ())) \<and> (\<forall>e. dn_event R \<noteq> IpcTaskEnded e)"
      by (rule daemon_select_clean) simp
  qed
qed

text \<open>
  C39: A requested stop can end in a panic. Whenever the daemon would end without an error because its \<^verbatim>\<open>select!\<close> sees the cancelled token, the same run panics when it sees
  the end of the IPC task instead, which ends for the same reason: its loop only ever ends because the token is cancelled. The result of the task is taken, and the daemon
  then waits for the task again. The runtime has been told to stop but is not waited for.
\<close>

theorem daemon_stop_race:
  assumes "run_daemon E (R\<lparr>dn_event := HostShutdownCancelled\<rparr>) options w = (DaemonReturns (Inr ()), inner, w')"
    and "server_run accepts = (tasks, Some r)"
  shows "r = Inr () \<and> HostShutdown \<in> set accepts \<and>
    (\<exists>i. run_daemon E (R\<lparr>dn_event := IpcTaskEnded (Inr r)\<rparr>) options w = (DaemonPanics ''JoinHandle polled after completion'', Some i, w') \<and> ri_cancel_token i)"
proof -
  obtain i0 where "\<And>R'. run_daemon E R' options w =
      (case daemon_select R' \<lparr>pr_inner = dn_meanwhile R' i0, pr_supervisor = True\<rparr> of (r, i) \<Rightarrow> (r, Some i, w'))"
    using run_daemon_clean [OF assms(1)] by blast
  then show ?thesis
    using server_run_ends [OF assms(2)] by (simp add: daemon_select_def daemon_finish_def await_handle_def runtime_drop_def)
qed

definition example_daemon_env :: "(unit, unit) daemon_env" where
  "example_daemon_env = \<lparr>de_sup = example_sup_env, de_variant_parse = Inr, de_platform = Linux, de_start_time = 0, de_api_base_var = None,
     de_config_dir = dot_path, de_try_connect = (\<lambda>_. Inl IpcNotRunning), de_to_name = (\<lambda>_. Inr ()), de_create = (\<lambda>_ _. Inr ()),
     de_perm = \<lparr>pe_exists = (\<lambda>_ _. True), pe_chmod = (\<lambda>_ _ w. (Inr (), w)), pe_chown = (\<lambda>_ _ w. (Inr (), w)), pe_group_gid = (\<lambda>_. None),
       pe_io_text = (\<lambda>_. []), pe_debug = id\<rparr>, de_effective_uid = 0\<rparr>"

definition example_daemon_options :: DaemonOptions where
  "example_daemon_options = \<lparr>do_secret = None, do_secret_path = Some dot_path, do_socket_path = Some ''@playit'', do_log_path = None,
     do_platform_docker = False, do_version = \<lparr>ver_variant_id = ''v'', ver_major = 1, ver_minor = 0, ver_patch = 0\<rparr>\<rparr>"

definition example_daemon_run :: daemon_run where
  "example_daemon_run = \<lparr>dn_event = HostShutdownCancelled, dn_meanwhile = id, dn_supervisor = (\<lambda>i. (Inr (Inr ()), i))\<rparr>"

lemma example_daemon_returns:
  "\<exists>i w'. run_daemon example_daemon_env example_daemon_run example_daemon_options w = (DaemonReturns (Inr ()), Some i, w')"
proof -
  have "trim ''https://api.playit.gg'' \<noteq> []" by code_simp
  then show ?thesis
    by (simp add: run_daemon_def example_daemon_options_def init_tracing_def start_with_event_sender_def runtime_options_def validate_options_def
      path_is_empty_def dot_path_def daemon_api_base_def example_daemon_env_def SecretSource_from_options_def make_inner_def agent_version_of_def
      Let_def IpcServer_new_def bind_listener_def create_listener_def configure_socket_permissions_def socket_permission_target_def
      daemon_select_def example_daemon_run_def daemon_finish_def await_handle_def runtime_shutdown_def runtime_wait_def join_claim_tasks_def join_claim_task_handles_def
      request_shutdown_def daemon_runtime_result_def publish_def publish_state_def split: prod.splits)
qed

theorem daemon_stops_runtime_witness:
  "\<exists>i w'. run_daemon example_daemon_env example_daemon_run example_daemon_options Ipc_Server.example_fs = (DaemonReturns (Inr ()), Some i, w') \<and> ri_cancel_token i"
proof -
  obtain i w' where r: "run_daemon example_daemon_env example_daemon_run example_daemon_options Ipc_Server.example_fs = (DaemonReturns (Inr ()), Some i, w')"
    using example_daemon_returns by blast
  then show ?thesis using daemon_stops_runtime [OF r] by blast
qed

theorem daemon_stop_race_witness:
  "\<exists>i w'. run_daemon example_daemon_env (example_daemon_run\<lparr>dn_event := IpcTaskEnded (Inr (Inr ()))\<rparr>) example_daemon_options Ipc_Server.example_fs =
     (DaemonPanics ''JoinHandle polled after completion'', Some i, w')"
proof -
  obtain i w' where r: "run_daemon example_daemon_env (example_daemon_run\<lparr>dn_event := HostShutdownCancelled\<rparr>) example_daemon_options Ipc_Server.example_fs =
      (DaemonReturns (Inr ()), Some i, w')"
    using example_daemon_returns [of Ipc_Server.example_fs] by (auto simp: example_daemon_run_def)
  from daemon_stop_race [OF r, of "[AcceptOk (), HostShutdown]" "[()]" "Inr ()"] show ?thesis by auto
qed

end
