(* ===== verification/Cli_Ui.thy ===== *)
theory Cli_Ui
  imports Cli_Account Ipc_Session
begin

section \<open>The console and the screen of the command line client\<close>

text \<open>
  \<^verbatim>\<open>packages/playit-cli/src/signal_handle.rs\<close>, \<^verbatim>\<open>ui/mod.rs\<close> and the state of \<^verbatim>\<open>ui/tui_app.rs\<close>. Drawing is not modelled; what the screen shows is the mode, the data, the statistics and
  the log of \<open>TuiApp\<close>. A key is its character, if it has one, and whether control is held.
\<close>

subsection \<open>Signals\<close>

record signal_inner =
  sg_confirm_close :: u32
  sg_close_requested :: bool

definition signal_setup :: signal_inner where
  "signal_setup = \<lparr>sg_confirm_close = 0, sg_close_requested = False\<rparr>"

definition is_confirming_close :: "signal_inner \<Rightarrow> bool" where
  "is_confirming_close s = sg_close_requested s"

definition decline_close :: "signal_inner \<Rightarrow> signal_inner" where
  "decline_close s = s\<lparr>sg_close_requested := False\<rparr>"

definition close_guard :: "signal_inner \<Rightarrow> signal_inner" where
  "close_guard s = s\<lparr>sg_confirm_close := sg_confirm_close s + 1\<rparr>"

definition close_guard_drop :: "signal_inner \<Rightarrow> signal_inner" where
  "close_guard_drop s = s\<lparr>sg_confirm_close := sg_confirm_close s - 1\<rparr>"

text \<open>A turn of the task that waits for Ctrl+C; \<open>None\<close> ends the program.\<close>

definition ctrl_c_turn :: "signal_inner \<Rightarrow> signal_inner option" where
  "ctrl_c_turn s = (if sg_confirm_close s = 0 then None else if sg_close_requested s then None else Some (s\<lparr>sg_close_requested := True\<rparr>))"

subsection \<open>The console\<close>

record ConsoleUi =
  cu_auto_answer :: "bool option"
  cu_last_display :: "(u64 \<times> string) option"

definition ConsoleUi_new :: "bool option \<Rightarrow> ConsoleUi" where
  "ConsoleUi_new auto_answer = \<lparr>cu_auto_answer = auto_answer, cu_last_display = None\<rparr>"

record 'w console_world =
  co_console :: ConsoleUi
  co_signal :: signal_inner
  co_cli :: "'w cli_world"

definition prompt_suffix :: "bool option \<Rightarrow> string" where
  "prompt_suffix default_yes = (case default_yes of Some True \<Rightarrow> ''Y/n'' | Some False \<Rightarrow> ''y/N'' | None \<Rightarrow> ''y/n'')"

text \<open>
  The loop of a question over the lines of the standard input. At the end of the input every line is empty, so that the default answers; without a default
  the question is asked for ever, which is \<open>None\<close>.
\<close>

fun yn_loop :: "string \<Rightarrow> bool option \<Rightarrow> (io_error + string) list \<Rightarrow> string list \<Rightarrow> ((CliError + bool) \<times> (io_error + string) list \<times> string list) option" where
  "yn_loop prompt default_yes [] out = (case default_yes of
     Some d \<Rightarrow> Some (Inr d, [], out @ [prompt @ '' ('' @ prompt_suffix default_yes @ '')? '']) | None \<Rightarrow> None)"
| "yn_loop prompt default_yes (Inl e # rest) out = Some (Inl (CliRenderError e), rest, out @ [prompt @ '' ('' @ prompt_suffix default_yes @ '')? ''])"
| "yn_loop prompt default_yes (Inr line # rest) out =
     (let out1 = out @ [prompt @ '' ('' @ prompt_suffix default_yes @ '')? '']; input = map ascii_lower (trim line) in
      if input = [] \<and> default_yes \<noteq> None then Some (Inr (the default_yes), rest, out1)
      else if input = ''y'' \<or> input = ''yes'' then Some (Inr True, rest, out1)
      else if input = ''n'' \<or> input = ''no'' then Some (Inr False, rest, out1)
      else yn_loop prompt default_yes rest (out1 @ [''Please answer y or n.'']))"

definition yn_question :: "bool option \<Rightarrow> string \<Rightarrow> bool option \<Rightarrow> ('w, bool) cli" where
  "yn_question auto_answer question default_yes w = (case auto_answer of
     Some auto \<Rightarrow> Some (Inr auto, w)
   | None \<Rightarrow> map_option (\<lambda>(r, stdin, out). (r, w\<lparr>cw_stdin := stdin, cw_screen := out\<rparr>)) (yn_loop question default_yes (cw_stdin w) (cw_screen w)))"

definition console_print :: "string \<Rightarrow> 'w console_world \<Rightarrow> 'w console_world" where
  "console_print s w = w\<lparr>co_cli := (co_cli w)\<lparr>cw_screen := cw_screen (co_cli w) @ [s]\<rparr>\<rparr>"

text \<open>\<^verbatim>\<open>now_milli() - *ts\<close> is an unsigned subtraction, which wraps around.\<close>

definition write_screen_inner :: "u64 \<Rightarrow> string \<Rightarrow> 'w console_world \<Rightarrow> 'w console_world" where
  "write_screen_inner now screen_text w =
     (let shown = (console_print screen_text w)\<lparr>co_console := (co_console w)\<lparr>cu_last_display := Some (now, screen_text)\<rparr>\<rparr> in
      case cu_last_display (co_console w) of
        Some (ts, last_render) \<Rightarrow> if now - ts < 10000 \<and> screen_text = last_render then w else shown
      | None \<Rightarrow> shown)"

text \<open>The outcome of \<^verbatim>\<open>write_screen\<close>: the program ends, or goes on.\<close>

datatype 'w screen_outcome = ScreenExit | ScreenGoesOn "'w console_world"

definition console_write_screen :: "(CliError \<Rightarrow> string) \<Rightarrow> u64 \<Rightarrow> string \<Rightarrow> 'w console_world \<Rightarrow> 'w screen_outcome option" where
  "console_write_screen debug now screen_text w =
     (if is_confirming_close (co_signal w)
      then (case yn_question (cu_auto_answer (co_console w)) (screen_text @ [CHR 0x0A] @ ''Close requested, close program?'') (Some True) (co_cli w) of
          None \<Rightarrow> None
        | Some (Inr True, _) \<Rightarrow> Some ScreenExit
        | Some (Inr False, c) \<Rightarrow> Some (ScreenGoesOn (w\<lparr>co_cli := c, co_signal := decline_close (co_signal w)\<rparr>))
        | Some (Inl e, c) \<Rightarrow> Some (ScreenGoesOn (console_print (''failed to ask close signal question: '' @ cli_error_text debug e) (w\<lparr>co_cli := c\<rparr>))))
      else Some (ScreenGoesOn (write_screen_inner now screen_text w)))"

definition write_error :: "(CliError \<Rightarrow> string) \<Rightarrow> u64 \<Rightarrow> string \<Rightarrow> string \<Rightarrow> 'w console_world \<Rightarrow> 'w screen_outcome option" where
  "write_error debug now msg error = console_write_screen debug now
     (''Got Error'' @ [CHR 0x0A] @ ''MSG: '' @ msg @ [CHR 0x0A] @ ''Error: '' @ error @ [CHR 0x0A])"

subsection \<open>The full screen\<close>

record TunnelInfo =
  ti_display_address :: string
  ti_destination :: string
  ti_is_disabled :: bool
  ti_disabled_reason :: "string option"

record PendingTunnelInfo =
  pti_id :: string
  pti_status_msg :: string

record NoticeInfo =
  ni_priority :: string
  ni_message :: string
  ni_resolve_link :: "string option"

datatype AccountStatusInfo = InfoUnknown | InfoGuest | InfoEmailNotVerified | InfoVerified

record AgentData =
  ad_version :: string
  ad_tunnels :: "TunnelInfo list"
  ad_pending_tunnels :: "PendingTunnelInfo list"
  ad_notices :: "NoticeInfo list"
  ad_account_status :: AccountStatusInfo
  ad_agent_id :: string
  ad_login_link :: "string option"
  ad_start_time :: u64

fun account_status_info :: "ServiceAccountStatus \<Rightarrow> AccountStatusInfo" where
  "account_status_info AccountGuest = InfoGuest"
| "account_status_info AccountEmailNotVerified = InfoEmailNotVerified"
| "account_status_info AccountVerified = InfoVerified"
| "account_status_info AccountUnknown = InfoUnknown"

definition AgentData_from :: "AgentState \<Rightarrow> AgentData" where
  "AgentData_from data = \<lparr>
     ad_version = as_version data,
     ad_tunnels = map (\<lambda>t. \<lparr>ti_display_address = ts_display_address t, ti_destination = ts_destination t, ti_is_disabled = ts_is_disabled t,
       ti_disabled_reason = ts_disabled_reason t\<rparr>) (as_tunnels data),
     ad_pending_tunnels = map (\<lambda>p. \<lparr>pti_id = pts_id p, pti_status_msg = pts_status_msg p\<rparr>) (as_pending_tunnels data),
     ad_notices = map (\<lambda>n. \<lparr>ni_priority = ns_priority n, ni_message = ns_message n, ni_resolve_link = ns_resolve_link n\<rparr>) (as_notices data),
     ad_account_status = account_status_info (as_account_status data), ad_agent_id = as_agent_id data, ad_login_link = as_login_link data,
     ad_start_time = as_start_time data\<rparr>"

datatype TuiMode = TuiMessage string | TuiRunning

record TuiApp =
  tui_service_logs :: "LogEntry list"
  tui_agent_data :: AgentData
  tui_stats :: ConnectionStats
  tui_mode :: TuiMode
  tui_should_quit :: bool
  tui_quit_confirm :: bool

definition SERVICE_LOG_CAPACITY :: nat where "SERVICE_LOG_CAPACITY = 500"

definition TuiApp_new :: TuiApp where
  "TuiApp_new = \<lparr>tui_service_logs = [],
     tui_agent_data = \<lparr>ad_version = [], ad_tunnels = [], ad_pending_tunnels = [], ad_notices = [], ad_account_status = InfoUnknown, ad_agent_id = [],
       ad_login_link = None, ad_start_time = 0\<rparr>,
     tui_stats = \<lparr>cs_bytes_in = 0, cs_bytes_out = 0, cs_active_tcp = 0, cs_active_udp = 0\<rparr>,
     tui_mode = TuiMessage ''Initializing...'', tui_should_quit = False, tui_quit_confirm = False\<rparr>"

definition set_message :: "string \<Rightarrow> TuiApp \<Rightarrow> TuiApp" where
  "set_message message t = t\<lparr>tui_mode := TuiMessage message\<rparr>"

definition set_agent_data :: "AgentData \<Rightarrow> TuiApp \<Rightarrow> TuiApp" where
  "set_agent_data data t = t\<lparr>tui_agent_data := data, tui_mode := TuiRunning\<rparr>"

definition set_stats :: "ConnectionStats \<Rightarrow> TuiApp \<Rightarrow> TuiApp" where
  "set_stats stats t = t\<lparr>tui_stats := stats\<rparr>"

definition push_service_log :: "LogEntry \<Rightarrow> TuiApp \<Rightarrow> TuiApp" where
  "push_service_log entry t =
     (let logs = (if SERVICE_LOG_CAPACITY \<le> length (tui_service_logs t) then tl (tui_service_logs t) else tui_service_logs t) in
      t\<lparr>tui_service_logs := logs @ [entry]\<rparr>)"

definition agent_over_limit_title :: string where
  "agent_over_limit_title = ''The playit service cannot start because this account is over the agent limit.''"

definition agent_over_limit_guidance :: string where
  "agent_over_limit_guidance = ''Delete unused agents: https://playit.gg/account/agents'' @ [CHR 0x0A] @
     ''Increase your agent limit: https://playit.gg/account/upgrade''"

fun apply_lifecycle :: "AgentLifecycle \<Rightarrow> TuiApp \<Rightarrow> TuiApp" where
  "apply_lifecycle (LifecycleRunning state) = set_agent_data (AgentData_from state)"
| "apply_lifecycle WaitingForSecret = set_message ''The playit service is waiting for setup to finish.''"
| "apply_lifecycle (HasInvalidSecret e) = set_message (''The playit service has an invalid secret: '' @ se_message e)"
| "apply_lifecycle (DisabledOverLimit _) = set_message (agent_over_limit_title @ [CHR 0x0A] @ agent_over_limit_guidance)"
| "apply_lifecycle LifecycleStarting = set_message ''The playit service is starting...''"
| "apply_lifecycle LifecycleStopping = set_message ''The playit service is stopping...''"
| "apply_lifecycle (LifecycleError e) = set_message (''The playit service reported an error: '' @ se_message e)"

fun service_phase_label :: "ServicePhase \<Rightarrow> string" where
  "service_phase_label PhaseWaitingForSecret = ''waiting for secret''"
| "service_phase_label PhaseHasInvalidSecret = ''invalid secret''"
| "service_phase_label PhaseDisabledOverLimit = ''disabled over limit''"
| "service_phase_label PhaseStarting = ''starting''"
| "service_phase_label PhaseReconnecting = ''reconnecting''"
| "service_phase_label PhaseRunning = ''running''"
| "service_phase_label PhaseStopping = ''stopping''"
| "service_phase_label PhaseError = ''error''"

definition status_message :: "ServiceStatus \<Rightarrow> string option" where
  "status_message status =
     (if st_phase status = PhaseDisabledOverLimit then Some (agent_over_limit_title @ [CHR 0x0A] @ agent_over_limit_guidance)
      else (case st_last_error status of
        Some e \<Rightarrow> Some (''playit service status: '' @ service_phase_label (st_phase status) @ '' ('' @ se_message e @ '')'')
      | None \<Rightarrow>
          if st_phase status = PhaseRunning then None else Some (''playit service status: '' @ service_phase_label (st_phase status))))"

definition apply_status :: "ServiceStatus \<Rightarrow> TuiApp \<Rightarrow> TuiApp" where
  "apply_status status t = (case status_message status of Some message \<Rightarrow> set_message message t | None \<Rightarrow> t)"

fun apply_tui_update :: "ServiceUpdate \<Rightarrow> TuiApp \<Rightarrow> TuiApp" where
  "apply_tui_update (UpdateLifecycle state) = apply_lifecycle state"
| "apply_tui_update (UpdateStatus status) = apply_status status"
| "apply_tui_update (UpdateStats stats) = set_stats stats"
| "apply_tui_update (UpdateLog entry) = push_service_log entry"

text \<open>What a session shows first.\<close>

definition tui_start :: "SubscriptionSnapshot \<Rightarrow> TuiApp" where
  "tui_start snapshot = set_stats (ss_stats snapshot) (apply_lifecycle (ss_lifecycle snapshot) (apply_status (ss_status snapshot) TuiApp_new))"

datatype key_code = KeyChar char | KeyEsc | KeyOther

record KeyEvent =
  key_code_of :: key_code
  key_control :: bool

definition handle_key_event :: "KeyEvent \<Rightarrow> TuiApp \<times> signal_inner \<Rightarrow> TuiApp \<times> signal_inner" where
  "handle_key_event key = (\<lambda>(t, s).
     if tui_quit_confirm t then
       (if key_code_of key \<in> {KeyChar (CHR ''y''), KeyChar (CHR ''Y'')} then (t\<lparr>tui_should_quit := True\<rparr>, s)
        else if key_code_of key \<in> {KeyChar (CHR ''n''), KeyChar (CHR ''N''), KeyEsc} then (t\<lparr>tui_quit_confirm := False\<rparr>, decline_close s)
        else (t, s))
     else if key_code_of key = KeyChar (CHR ''q'') \<or> key_code_of key = KeyChar (CHR ''c'') \<and> key_control key then (t\<lparr>tui_quit_confirm := True\<rparr>, s)
     else (t, s))"

text \<open>A tick after the drawing, with the key that was pressed, if any; the result is whether the session goes on.\<close>

definition tui_tick :: "KeyEvent option \<Rightarrow> TuiApp \<times> signal_inner \<Rightarrow> bool \<times> TuiApp \<times> signal_inner" where
  "tui_tick key ts = (let (t, s) = (case key of Some k \<Rightarrow> handle_key_event k ts | None \<Rightarrow> ts);
       t1 = (if is_confirming_close s \<and> \<not> tui_quit_confirm t then t\<lparr>tui_quit_confirm := True\<rparr> else t)
     in (\<not> tui_should_quit t1, t1, s))"

subsection \<open>What is drawn\<close>

text \<open>The texts of the widgets; the layout and the styles are those of \<^verbatim>\<open>ratatui\<close>. The marks are written as their UTF-8 bytes.\<close>

definition utf8_mark :: "nat list \<Rightarrow> string" where
  "utf8_mark bs = map (\<lambda>b. char_of b) bs"

definition tunnel_line :: "TunnelInfo \<Rightarrow> string" where
  "tunnel_line t = (let prefix = (if ti_is_disabled t then utf8_mark [0xE2, 0x9C, 0x97] else utf8_mark [0xE2, 0x97, 0x8F]) @ '' '' in
     case ti_disabled_reason t of
       Some reason \<Rightarrow> prefix @ ti_display_address t @ '' => (disabled: '' @ reason @ '')''
     | None \<Rightarrow> prefix @ ti_display_address t @ '' => '' @ ti_destination t)"

definition pending_line :: "PendingTunnelInfo \<Rightarrow> string" where
  "pending_line p = utf8_mark [0xE2, 0x97, 0x90] @ '' '' @ pti_id p @ '' ('' @ pti_status_msg p @ '')''"

definition tunnel_lines :: "AgentData \<Rightarrow> string list" where
  "tunnel_lines data =
     (if ad_tunnels data = [] \<and> ad_pending_tunnels data = []
      then [if ad_agent_id data = [] then ''Loading tunnels...'' else ''No tunnels configured. Add one at playit.gg'']
      else map tunnel_line (ad_tunnels data) @ map pending_line (ad_pending_tunnels data))"

text \<open>The entries that fit in an area of the given height, with its border.\<close>

definition visible_logs :: "u16 \<Rightarrow> LogEntry list \<Rightarrow> LogEntry list" where
  "visible_logs height entries = (let inner_height = unat (saturating_sub height 2) in take inner_height (drop (length entries - inner_height) entries))"

fun level_label :: "LogLevel \<Rightarrow> string" where
  "level_label LevelTrace = ''TRACE''"
| "level_label LevelDebug = ''DEBUG''"
| "level_label LevelInfo = ''INFO''"
| "level_label LevelWarn = ''WARN''"
| "level_label LevelError = ''ERROR''"

text \<open>What follows the last \<^verbatim>\<open>::\<close> of a target.\<close>

fun last_segment :: "string \<Rightarrow> string \<Rightarrow> string" where
  "last_segment segment [] = segment"
| "last_segment segment [c] = segment @ [c]"
| "last_segment segment (c # d # cs) =
     (if c = CHR '':'' \<and> d = CHR '':'' then last_segment [] cs else last_segment (segment @ [c]) (d # cs))"

definition log_line :: "LogEntry \<Rightarrow> string" where
  "log_line e = ''['' @ level_label (le_level e) @ ''] '' @ last_segment [] (le_target e) @ '': '' @ le_message e"

definition format_uptime :: "u64 \<Rightarrow> u64 \<Rightarrow> string" where
  "format_uptime now start_time =
     (let elapsed = unat (saturating_sub now start_time div 1000); hours = elapsed div 3600; minutes = elapsed mod 3600 div 60; seconds = elapsed mod 60;
          two = (\<lambda>n. (if n < 10 then ''0'' else []) @ show_base 10 n) in
      if hours > 0 then show_base 10 hours @ ''h '' @ two minutes @ ''m '' @ two seconds @ ''s''
      else if minutes > 0 then show_base 10 minutes @ ''m '' @ two seconds @ ''s''
      else show_base 10 seconds @ ''s'')"

text \<open>A line of a message, with its links marked. \<open>find_sub\<close> is \<^verbatim>\<open>str::find\<close>.\<close>

datatype text_span = PlainSpan string | LinkSpan string

fun span_text :: "text_span \<Rightarrow> string" where
  "span_text (PlainSpan s) = s" | "span_text (LinkSpan s) = s"

fun find_sub :: "string \<Rightarrow> string \<Rightarrow> nat option" where
  "find_sub pat [] = (if pat = [] then Some 0 else None)"
| "find_sub pat (c # cs) = (if starts_with pat (c # cs) then Some 0 else map_option Suc (find_sub pat cs))"

definition find_link :: "string \<Rightarrow> nat option" where
  "find_link s = (case find_sub ''https://'' s of Some pos \<Rightarrow> Some pos | None \<Rightarrow> find_sub ''http://'' s)"

lemma find_sub_starts: "find_sub pat s = Some pos \<Longrightarrow> starts_with pat (drop pos s)"
  by (induction pat s arbitrary: pos rule: find_sub.induct) (auto simp: starts_with_def split: if_splits)

lemma find_link_starts: "find_link s = Some pos \<Longrightarrow> \<exists>cs. drop pos s = CHR ''h'' # cs"
  by (auto simp: find_link_def starts_with_def split: option.splits dest!: find_sub_starts) (cases "drop pos s"; simp)+

function link_spans :: "string \<Rightarrow> text_span list" where
  "link_spans remaining = (case find_link remaining of
     None \<Rightarrow> if remaining = [] then [] else [PlainSpan remaining]
   | Some pos \<Rightarrow>
       let url = takeWhile (\<lambda>c. c \<noteq> CHR '' '') (drop pos remaining) in
       (if pos > 0 then [PlainSpan (take pos remaining)] else []) @ [LinkSpan url] @ link_spans (drop (pos + length url) remaining))"
  by pat_completeness auto
termination
proof (relation "measure length")
  fix remaining :: string and pos url
  assume pos: "find_link remaining = Some pos" and url: "url = takeWhile (\<lambda>c. c \<noteq> CHR '' '') (drop pos remaining)"
  obtain cs where "drop pos remaining = CHR ''h'' # cs"
    using find_link_starts [OF pos] by blast
  then have "length url > 0" "pos < length remaining" using url by (auto simp: not_le [symmetric])
  then have "length (drop (pos + length url) remaining) < length remaining" by (simp only: length_drop)
  then show "(drop (pos + length url) remaining, remaining) \<in> measure length" by simp
qed simp

definition contains_link :: "string \<Rightarrow> bool" where
  "contains_link line \<longleftrightarrow> find_link line \<noteq> None"

definition message_line :: "string \<Rightarrow> text_span list" where
  "message_line line =
     (if starts_with ''http://'' line \<or> starts_with ''https://'' line then [LinkSpan line]
      else if contains_link line then link_spans line else [PlainSpan line])"

declare link_spans.simps [simp del]

subsection \<open>Laws\<close>

text \<open>Marking links keeps the text, and a link has no blank.\<close>

lemma link_spans_text: "concat (map span_text (link_spans s)) = s"
proof (induction s rule: link_spans.induct)
  case (1 s)
  show ?case
  proof (cases "find_link s")
    case None
    then show ?thesis by (simp add: link_spans.simps [of s])
  next
    case (Some pos)
    define url where "url = takeWhile (\<lambda>c. c \<noteq> CHR '' '') (drop pos s)"
    have "url @ drop (pos + length url) s = drop pos s"
      unfolding url_def by (metis add.commute append_take_drop_id drop_drop takeWhile_eq_take)
    then have "take pos s @ url @ drop (pos + length url) s = s" by simp
    then show ?thesis
      using 1 [OF Some url_def] Some by (cases "pos = 0") (simp_all add: link_spans.simps [of s] url_def Let_def)
  qed
qed

lemma message_line_text: "concat (map span_text (message_line line)) = line"
  by (simp add: message_line_def link_spans_text)

lemma visible_logs_last: "visible_logs height entries = drop (length entries - unat (saturating_sub height 2)) entries"
  by (simp add: visible_logs_def Let_def)

lemma yn_loop_returns: "default_yes \<noteq> None \<Longrightarrow> \<exists>r. yn_loop prompt default_yes lines out = Some r"
  by (induction prompt default_yes lines out rule: yn_loop.induct) (auto simp: Let_def)

text \<open>The log keeps the newest entries.\<close>

lemma push_service_log_keeps:
  assumes "tui_service_logs t = drop (length es - 500) es"
  shows "tui_service_logs (push_service_log e t) = drop (length (es @ [e]) - 500) (es @ [e])"
proof (cases "500 \<le> length es")
  case True
  then have "length (es @ [e]) - 500 = Suc (length es - 500)" by simp
  with True assms show ?thesis by (simp add: push_service_log_def SERVICE_LOG_CAPACITY_def Let_def drop_Suc tl_drop del: length_append)
qed (use assms in \<open>simp add: push_service_log_def SERVICE_LOG_CAPACITY_def Let_def\<close>)

text \<open>
  The message of an interruption stays when the service is back: a status without an error that says so changes nothing on the screen, and the service sends
  nothing else when the connection of the agent comes back.
\<close>

lemma reconnecting_stays_on_screen:
  assumes "st_phase s1 = PhaseReconnecting" "st_last_error s1 = None" "st_phase s2 = PhaseRunning" "st_last_error s2 = None"
  shows "tui_mode (apply_tui_update (UpdateStatus s2) (apply_tui_update (UpdateStatus s1) t)) = TuiMessage ''playit service status: reconnecting''"
  using assms by (simp add: apply_status_def status_message_def set_message_def)

text \<open>The parts of the screen follow the updates.\<close>

fun said_log :: "ServiceUpdate \<Rightarrow> LogEntry list" where
  "said_log (UpdateLog e) = [e]"
| "said_log _ = []"

definition shows_running :: "AgentLifecycle \<Rightarrow> TuiApp \<Rightarrow> bool" where
  "shows_running l t \<longleftrightarrow> (tui_mode t = TuiRunning \<longrightarrow> (\<exists>state. l = LifecycleRunning state \<and> tui_agent_data t = AgentData_from state))"

lemma apply_lifecycle_shows: "shows_running l (apply_lifecycle l t)"
  by (cases l) (simp_all add: shows_running_def set_message_def set_agent_data_def)

lemma apply_status_keeps:
  "shows_running l t \<Longrightarrow> shows_running l (apply_status s t)" "tui_stats (apply_status s t) = tui_stats t"
  "tui_service_logs (apply_status s t) = tui_service_logs t"
  by (auto simp: apply_status_def shows_running_def set_message_def split: option.splits)

lemma apply_lifecycle_keeps [simp]: "tui_stats (apply_lifecycle l t) = tui_stats t" "tui_service_logs (apply_lifecycle l t) = tui_service_logs t"
  by (cases l; simp add: set_message_def set_agent_data_def)+

lemma other_updates_keep [simp]:
  "shows_running l (set_stats x t) = shows_running l t" "shows_running l (push_service_log e t) = shows_running l t"
  "tui_stats (set_stats x t) = x" "tui_service_logs (set_stats x t) = tui_service_logs t" "tui_stats (push_service_log e t) = tui_stats t"
  by (simp_all add: shows_running_def set_stats_def push_service_log_def Let_def)

lemma tui_updates:
  assumes "shows_running (ss_lifecycle v) t" "tui_stats t = ss_stats v" "tui_service_logs t = drop (length es - 500) es"
  shows "shows_running (ss_lifecycle (fold view_update us v)) (fold apply_tui_update us t) \<and>
    tui_stats (fold apply_tui_update us t) = ss_stats (fold view_update us v) \<and>
    tui_service_logs (fold apply_tui_update us t) = (let ls = es @ concat (map said_log us) in drop (length ls - 500) ls)"
  using assms
proof (induction us arbitrary: v t es)
  case (Cons u us)
  have "shows_running (ss_lifecycle (view_update u v)) (apply_tui_update u t)" "tui_stats (apply_tui_update u t) = ss_stats (view_update u v)"
    "tui_service_logs (apply_tui_update u t) = drop (length (es @ said_log u) - 500) (es @ said_log u)"
    using Cons.prems push_service_log_keeps [OF Cons.prems(3)]
    by (cases u; simp add: apply_lifecycle_shows apply_status_keeps)+
  then show ?case using Cons.IH [of "view_update u v" "apply_tui_update u t" "es @ said_log u"] by simp
qed (simp add: Let_def)

lemma tui_start_shows:
  "shows_running (ss_lifecycle snapshot) (tui_start snapshot)" "tui_stats (tui_start snapshot) = ss_stats snapshot" "tui_service_logs (tui_start snapshot) = []"
  using apply_lifecycle_shows [of "ss_lifecycle snapshot" "apply_status (ss_status snapshot) TuiApp_new"]
  by (simp_all add: tui_start_def set_stats_def shows_running_def apply_status_keeps TuiApp_new_def)

subsection \<open>Properties\<close>

text \<open>
  C36: The screen of an attached client tells the truth. However the service moves between the opening of the connection, the subscription and now, a screen that has been given the snapshot
  and then all updates, in order and without a loss, shows the statistics of the service and the newest five hundred log entries; and it only shows the agent as running, with
  its tunnels, notices and account, when the service's lifecycle now is that very running state.
\<close>

theorem tui_shows_service:
  assumes "runtime_moves i0 (sv_runtime srv)" "runtime_moves (sv_runtime srv) i2"
    and "us = map (transport_event srv) (drop (length (ri_event_tx i0)) (ri_event_tx i2))"
    and "t = fold apply_tui_update us (tui_start (sr_snapshot (subscribe_response E srv)))"
  shows "tui_stats t = sc_stats (ri_state_cache i2) \<and>
    tui_service_logs t = (let ls = concat (map said_log us) in drop (length ls - 500) ls) \<and>
    (tui_mode t = TuiRunning \<longrightarrow> (\<exists>state. sc_lifecycle (ri_state_cache i2) = LifecycleRunning state \<and> tui_agent_data t = AgentData_from state))"
proof -
  let ?v = "sr_snapshot (subscribe_response E srv)"
  have view: "ss_lifecycle (fold view_update us ?v) = sc_lifecycle (ri_state_cache i2)" "ss_stats (fold view_update us ?v) = sc_stats (ri_state_cache i2)"
    using subscriber_converges [OF assms(1,2) refl, of E] by (simp_all add: assms(3))
  have "shows_running (ss_lifecycle (fold view_update us ?v)) t \<and> tui_stats t = ss_stats (fold view_update us ?v) \<and>
      tui_service_logs t = (let ls = [] @ concat (map said_log us) in drop (length ls - 500) ls)"
    unfolding assms(4) by (rule tui_updates) (simp_all add: tui_start_shows)
  then show ?thesis unfolding view shows_running_def by simp
qed

definition example_agent_state :: AgentState where
  "example_agent_state = \<lparr>as_version = ''1'', as_tunnels = [], as_pending_tunnels = [], as_notices = [], as_account_status = AccountVerified,
     as_agent_id = ''a'', as_login_link = None, as_start_time = 0\<rparr>"

definition example_runs :: RuntimeInner where
  "example_runs = publish_state ((sc_status StateCache_default)\<lparr>st_phase := PhaseRunning\<rparr>) (LifecycleRunning example_agent_state) example_waiting"

theorem tui_shows_service_witness:
  "\<exists>t. t = fold apply_tui_update (map (transport_event example_server) (drop (length (ri_event_tx example_inner)) (ri_event_tx example_runs)))
     (tui_start (sr_snapshot (subscribe_response example_env example_server))) \<and>
     tui_mode t = TuiRunning \<and> tui_agent_data t = AgentData_from example_agent_state"
proof -
  define t where "t = fold apply_tui_update (map (transport_event example_server) (drop (length (ri_event_tx example_inner)) (ri_event_tx example_runs)))
    (tui_start (sr_snapshot (subscribe_response example_env example_server)))"
  have "runtime_moves example_inner (sv_runtime example_server)"
    by (simp add: example_server_def example_waiting_def runtime_moves.stay runtime_moves.state_published)
  moreover have "runtime_moves (sv_runtime example_server) example_runs"
    by (simp add: example_server_def example_runs_def runtime_moves.stay runtime_moves.state_published)
  moreover have "tui_mode t = TuiRunning"
    by (simp add: t_def example_runs_def example_waiting_def publish_state_def set_agent_data_def)
  moreover have "sc_lifecycle (ri_state_cache example_runs) = LifecycleRunning example_agent_state"
    by (simp add: example_runs_def publish_state_def)
  ultimately show ?thesis
    using tui_shows_service [OF _ _ refl t_def] by (intro exI [of _ t]) (auto simp: t_def)
qed

end
