(* ===== verification/Service_Manager.thy ===== *)
theory Service_Manager
  imports Cli_Ui
begin

section \<open>The installed service\<close>

text \<open>
  \<^verbatim>\<open>packages/playitd/src/manager.rs\<close>, \<^verbatim>\<open>linux.rs\<close> and \<^verbatim>\<open>unix_account.rs\<close>, and \<^verbatim>\<open>packages/playit-cli/src/service.rs\<close> and \<^verbatim>\<open>linux.rs\<close>, as built for Linux.
  The machine, of a type of its own, has the service, the service manager and the time; the environment has the operations on it. A connection to a socket is a state that contains the
  machine, which \<open>me_close\<close> gives back; a failed connection leaves the machine as it was. The output of a command is its exit code, if it has one, and its two streams as text.
\<close>

record command_output =
  cmd_code :: "int option"
  cmd_status_text :: string
  cmd_stdout :: string
  cmd_stderr :: string

record file_metadata =
  md_is_socket :: bool
  md_mode :: u32
  md_uid :: u32
  md_gid :: u32

record UnixUserAccount =
  ua_username :: string
  ua_primary_gid :: u32

record LinuxGroupInfo =
  lg_name :: string
  lg_members :: "string list"

record ('m, 's, 'j) machine_env =
  me_open :: "IpcEndpoint \<Rightarrow> 'm \<Rightarrow> IpcError + 's"
  me_close :: "'s \<Rightarrow> 'm"
  me_json :: "'j json_lib"
  me_frames :: "('j, 's) frame_stream"
  me_wait :: "nat \<Rightarrow> 's \<Rightarrow> 's"
  me_sleep :: "nat \<Rightarrow> 'm \<Rightarrow> 'm"
  me_command :: "string \<Rightarrow> string list \<Rightarrow> 'm \<Rightarrow> (io_error + command_output) \<times> 'm"
  me_metadata :: "string \<Rightarrow> 'm \<Rightarrow> io_error + file_metadata"
  me_effective_uid :: u32
  me_effective_gid :: u32
  me_group_access_list :: "u32 list option"
  me_current_user :: "UnixUserAccount option"
  me_group_by_gid :: "u32 \<Rightarrow> LinuxGroupInfo option"
  me_io_text :: "io_error \<Rightarrow> string"
  me_service_error_text :: "ServiceError \<Rightarrow> string"
  me_debug :: "CliError \<Rightarrow> string"

definition service_running :: "('m, 's, 'j) machine_env \<Rightarrow> 'm \<Rightarrow> bool" where
  "service_running E m = is_running (\<lambda>e. me_open E e m) default_socket_path"

subsection \<open>Service managers\<close>

datatype ServiceManagerError =
    ManagerNotAvailable string | ManagerStartFailed string | ManagerStopFailed string | ManagerNotFound | ManagerIoError io_error

fun manager_error_text :: "(io_error \<Rightarrow> string) \<Rightarrow> ServiceManagerError \<Rightarrow> string" where
  "manager_error_text io_text (ManagerNotAvailable msg) = ''Service manager not available: '' @ msg"
| "manager_error_text io_text (ManagerStartFailed msg) = ''Failed to start service: '' @ msg"
| "manager_error_text io_text (ManagerStopFailed msg) = ''Failed to stop service: '' @ msg"
| "manager_error_text io_text ManagerNotFound = ''Service not found''"
| "manager_error_text io_text (ManagerIoError e) = ''IO error: '' @ io_text e"

datatype LinuxServiceManager = Systemd | OpenRc

fun join_words :: "string list \<Rightarrow> string" where
  "join_words [] = []"
| "join_words [a] = a"
| "join_words (a # as) = a @ '' '' @ join_words as"

definition output_detail :: "command_output \<Rightarrow> string" where
  "output_detail out = (if trim (cmd_stderr out) \<noteq> [] then trim (cmd_stderr out)
     else if trim (cmd_stdout out) \<noteq> [] then trim (cmd_stdout out) else ''exit status '' @ cmd_status_text out)"

definition is_systemd_service_active :: "('m, 's, 'j) machine_env \<Rightarrow> 'm \<Rightarrow> (ServiceManagerError + bool) \<times> 'm" where
  "is_systemd_service_active E m = (let args = [''is-active'', ''--quiet'', ''playit''] in
     case me_command E ''systemctl'' args m of
       (Inl e, m1) \<Rightarrow> (Inl (ManagerNotAvailable (''Failed to run systemctl: '' @ me_io_text E e)), m1)
     | (Inr out, m1) \<Rightarrow>
         (if cmd_code out = Some 0 then Inr True
          else if cmd_code out = Some 3 \<or> cmd_code out = Some 4 then Inr False
          else Inl (ManagerNotAvailable (''systemctl '' @ join_words args @ '' failed: '' @ output_detail out)), m1))"

definition is_openrc_service_active :: "('m, 's, 'j) machine_env \<Rightarrow> 'm \<Rightarrow> (ServiceManagerError + bool) \<times> 'm" where
  "is_openrc_service_active E m = (case me_command E ''rc-service'' [''playit'', ''status''] m of
     (Inl e, m1) \<Rightarrow> (Inl (ManagerNotAvailable (''Failed to run rc-service: '' @ me_io_text E e)), m1)
   | (Inr out, m1) \<Rightarrow> (Inr (cmd_code out = Some 0), m1))"

definition run_systemctl ::
  "('m, 's, 'j) machine_env \<Rightarrow> string list \<Rightarrow> (string \<Rightarrow> ServiceManagerError) \<Rightarrow> 'm \<Rightarrow> (ServiceManagerError + unit) \<times> 'm" where
  "run_systemctl E args err m = (case me_command E ''systemctl'' args m of
     (Inl e, m1) \<Rightarrow> (Inl (err (''Failed to run systemctl: '' @ me_io_text E e)), m1)
   | (Inr out, m1) \<Rightarrow>
       (if cmd_code out = Some 0 then Inr () else Inl (err (''systemctl '' @ join_words args @ '' failed: '' @ trim (cmd_stderr out))), m1))"

definition run_rc_service ::
  "('m, 's, 'j) machine_env \<Rightarrow> string list \<Rightarrow> (string \<Rightarrow> ServiceManagerError) \<Rightarrow> 'm \<Rightarrow> (ServiceManagerError + unit) \<times> 'm" where
  "run_rc_service E args err m = (case me_command E ''rc-service'' args m of
     (Inl e, m1) \<Rightarrow> (Inl (err (''Failed to run rc-service: '' @ me_io_text E e)), m1)
   | (Inr out, m1) \<Rightarrow>
       (if cmd_code out = Some 0 then Inr () else Inl (err (''rc-service '' @ join_words args @ '' failed: '' @ output_detail out)), m1))"

definition installed_service_is_active_with_linux_manager ::
  "('m, 's, 'j) machine_env \<Rightarrow> LinuxServiceManager \<Rightarrow> 'm \<Rightarrow> (ServiceManagerError + bool) \<times> 'm" where
  "installed_service_is_active_with_linux_manager E manager = (case manager of
     Systemd \<Rightarrow> is_systemd_service_active E | OpenRc \<Rightarrow> is_openrc_service_active E)"

definition start_linux_service :: "('m, 's, 'j) machine_env \<Rightarrow> LinuxServiceManager \<Rightarrow> 'm \<Rightarrow> (ServiceManagerError + unit) \<times> 'm" where
  "start_linux_service E manager = (case manager of
     Systemd \<Rightarrow> run_systemctl E [''start'', ''playit''] ManagerStartFailed | OpenRc \<Rightarrow> run_rc_service E [''playit'', ''start''] ManagerStartFailed)"

definition stop_installed_service_with_linux_manager ::
  "('m, 's, 'j) machine_env \<Rightarrow> LinuxServiceManager \<Rightarrow> 'm \<Rightarrow> (ServiceManagerError + unit) \<times> 'm" where
  "stop_installed_service_with_linux_manager E manager = (case manager of
     Systemd \<Rightarrow> run_systemctl E [''stop'', ''playit''] ManagerStopFailed | OpenRc \<Rightarrow> run_rc_service E [''playit'', ''stop''] ManagerStopFailed)"

text \<open>The loop over its rounds, of which there are fifty.\<close>

fun wait_rounds :: "('m, 's, 'j) machine_env \<Rightarrow> nat \<Rightarrow> 'm \<Rightarrow> (ServiceManagerError + unit) \<times> 'm" where
  "wait_rounds E 0 m = (Inl (ManagerStartFailed ''Service did not start within timeout''), m)"
| "wait_rounds E (Suc n) m = (let m1 = me_sleep E 100 m in if service_running E m1 then (Inr (), m1) else wait_rounds E n m1)"

definition wait_for_installed_service :: "('m, 's, 'j) machine_env \<Rightarrow> 'm \<Rightarrow> (ServiceManagerError + unit) \<times> 'm" where
  "wait_for_installed_service E = wait_rounds E 50"

definition ensure_installed_service_running_with_linux_manager ::
  "('m, 's, 'j) machine_env \<Rightarrow> LinuxServiceManager \<Rightarrow> 'm \<Rightarrow> (ServiceManagerError + unit) \<times> 'm" where
  "ensure_installed_service_running_with_linux_manager E manager m =
     (if service_running E m then (Inr (), m)
      else (case installed_service_is_active_with_linux_manager E manager m of
          (Inl e, m1) \<Rightarrow> (Inl e, m1)
        | (Inr True, m1) \<Rightarrow> (Inr (), m1)
        | (Inr False, m1) \<Rightarrow> (case start_linux_service E manager m1 of
            (Inl e, m2) \<Rightarrow> (Inl e, m2)
          | (Inr _, m2) \<Rightarrow> wait_for_installed_service E m2)))"

text \<open>The variants that do not choose a manager use systemd on Linux.\<close>

datatype InstalledServiceState = ServiceIsRunning | ServiceIsStopped | ServiceStateUnknown

definition installed_service_state :: "('m, 's, 'j) machine_env \<Rightarrow> 'm \<Rightarrow> (ServiceManagerError + InstalledServiceState) \<times> 'm" where
  "installed_service_state E m = (case is_systemd_service_active E m of
     (r, m1) \<Rightarrow> (map_sum id (\<lambda>active. if active then ServiceIsRunning else ServiceIsStopped) r, m1))"

definition installed_service_is_running :: "('m, 's, 'j) machine_env \<Rightarrow> 'm \<Rightarrow> (ServiceManagerError + bool) \<times> 'm" where
  "installed_service_is_running E m = (case installed_service_state E m of (r, m1) \<Rightarrow> (map_sum id (\<lambda>state. state = ServiceIsRunning) r, m1))"

definition ensure_installed_service_running :: "('m, 's, 'j) machine_env \<Rightarrow> 'm \<Rightarrow> (ServiceManagerError + unit) \<times> 'm" where
  "ensure_installed_service_running E m =
     (if service_running E m then (Inr (), m)
      else (case is_systemd_service_active E m of
          (Inl e, m1) \<Rightarrow> (Inl e, m1)
        | (Inr True, m1) \<Rightarrow> (Inr (), m1)
        | (Inr False, m1) \<Rightarrow> (case run_systemctl E [''start'', ''playit''] ManagerStartFailed m1 of
            (Inl e, m2) \<Rightarrow> (Inl e, m2)
          | (Inr _, m2) \<Rightarrow> wait_for_installed_service E m2)))"

definition stop_installed_service :: "('m, 's, 'j) machine_env \<Rightarrow> 'm \<Rightarrow> (ServiceManagerError + unit) \<times> 'm" where
  "stop_installed_service E = run_systemctl E [''stop'', ''playit''] ManagerStopFailed"

subsection \<open>Access to the socket\<close>

datatype LinuxSocketAccessIssue =
    MissingSocket
  | InspectFailed string
  | NotASocket
  | PlayitGroupJoinRequired
  | PlayitGroupRefreshRequired
  | GenericPermissionDenied u32 u32 u32 u32 u32

definition current_process_has_group :: "('m, 's, 'j) machine_env \<Rightarrow> u32 \<Rightarrow> bool" where
  "current_process_has_group E gid \<longleftrightarrow>
     me_effective_gid E = gid \<or> (case me_group_access_list E of Some groups \<Rightarrow> gid \<in> set groups | None \<Rightarrow> False)"

definition current_user_can_write_socket :: "('m, 's, 'j) machine_env \<Rightarrow> file_metadata \<Rightarrow> bool" where
  "current_user_can_write_socket E md =
     (if me_effective_uid E = 0 then True
      else if me_effective_uid E = md_uid md then bit (md_mode md) 7
      else if current_process_has_group E (md_gid md) then bit (md_mode md) 4
      else bit (md_mode md) 1)"

definition current_user_account_is_configured_for_group ::
  "('m, 's, 'j) machine_env \<Rightarrow> u32 \<Rightarrow> LinuxGroupInfo option \<Rightarrow> bool option" where
  "current_user_account_is_configured_for_group E target_gid grp = (case me_current_user E of
     None \<Rightarrow> None
   | Some account \<Rightarrow>
       if ua_primary_gid account = target_gid then Some True
       else map_option (\<lambda>g. ua_username account \<in> set (lg_members g)) grp)"

definition playit_group_access_issue :: "('m, 's, 'j) machine_env \<Rightarrow> u32 \<Rightarrow> LinuxGroupInfo option \<Rightarrow> LinuxSocketAccessIssue option" where
  "playit_group_access_issue E target_gid grp =
     map_option (\<lambda>configured. if configured then PlayitGroupRefreshRequired else PlayitGroupJoinRequired)
       (current_user_account_is_configured_for_group E target_gid grp)"

definition socket_parent_access_issue :: "('m, 's, 'j) machine_env \<Rightarrow> path \<Rightarrow> 'm \<Rightarrow> LinuxSocketAccessIssue option" where
  "socket_parent_access_issue E p m = (case path_parent p of
     None \<Rightarrow> None
   | Some parent \<Rightarrow> (case me_metadata E (path_display parent) m of
       Inl _ \<Rightarrow> None
     | Inr md \<Rightarrow>
         let parent_group = me_group_by_gid E (md_gid md) in
         if map_option lg_name parent_group \<noteq> Some ''playit'' then None else playit_group_access_issue E (md_gid md) parent_group))"

definition socket_access_issue :: "('m, 's, 'j) machine_env \<Rightarrow> string \<Rightarrow> 'm \<Rightarrow> LinuxSocketAccessIssue option" where
  "socket_access_issue E socket_path m = (case me_metadata E socket_path m of
     Inl e \<Rightarrow>
       if io_kind e = NotFound then Some MissingSocket
       else if io_kind e = PermissionDenied then
         (case socket_parent_access_issue E (path_of socket_path) m of Some issue \<Rightarrow> Some issue | None \<Rightarrow> Some (InspectFailed (me_io_text E e)))
       else Some (InspectFailed (me_io_text E e))
   | Inr md \<Rightarrow>
       if \<not> md_is_socket md then Some NotASocket
       else if current_user_can_write_socket E md then None
       else
         (let grp = me_group_by_gid E (md_gid md);
              denied = Some (GenericPermissionDenied (me_effective_uid E) (me_effective_gid E) (md_uid md) (md_gid md) (take_bit 9 (md_mode md))) in
          if map_option lg_name grp = Some ''playit'' then
            (case playit_group_access_issue E (md_gid md) grp of Some issue \<Rightarrow> Some issue | None \<Rightarrow> denied)
          else denied))"

definition nl :: string where "nl = [CHR 0x0A]"

fun service_restart_command :: "LinuxServiceManager \<Rightarrow> string" where
  "service_restart_command Systemd = ''sudo systemctl restart playit''"
| "service_restart_command OpenRc = ''sudo rc-service playit restart''"

definition format_playit_group_join_message :: "string \<Rightarrow> string" where
  "format_playit_group_join_message socket_path =
     ''The playit service is running, but this shell cannot access its IPC socket:'' @ nl @ ''  '' @ socket_path @ nl @ nl @
     ''The socket is restricted to the `playit` group. Add your user to that group:'' @ nl @ ''  sudo usermod -aG playit $USER'' @ nl @ nl @
     ''Then refresh group membership for this shell:'' @ nl @ ''  newgrp playit'' @ nl @ nl @ ''After that, run:'' @ nl @ ''  playit''"

definition format_playit_group_refresh_message :: "string \<Rightarrow> string" where
  "format_playit_group_refresh_message socket_path =
     ''The playit service is running, but this shell cannot access its IPC socket:'' @ nl @ ''  '' @ socket_path @ nl @ nl @
     ''Your user is already in the `playit` group, but this shell has not picked up that membership yet.'' @ nl @ nl @
     ''Refresh group membership for this shell:'' @ nl @ ''  newgrp playit'' @ nl @ nl @ ''Then run:'' @ nl @ ''  playit''"

definition format_socket_access_issue :: "string \<Rightarrow> LinuxSocketAccessIssue \<Rightarrow> LinuxServiceManager \<Rightarrow> string" where
  "format_socket_access_issue socket_path issue manager = (case issue of
     MissingSocket \<Rightarrow> ''The playit service is running, but its IPC socket does not exist yet:'' @ nl @ ''  '' @ socket_path @ nl @ nl @
       ''Restart the service, then try again:'' @ nl @ ''  '' @ service_restart_command manager
   | InspectFailed e \<Rightarrow> ''The playit service is running, but playit could not inspect its IPC socket:'' @ nl @ ''  '' @ socket_path @ nl @ nl @ ''Error: '' @ e
   | NotASocket \<Rightarrow> ''The playit service is running, but this path is not a Unix socket:'' @ nl @ ''  '' @ socket_path @ nl @ nl @
       ''Remove or rename that file, then restart the service:'' @ nl @ ''  '' @ service_restart_command manager
   | PlayitGroupJoinRequired \<Rightarrow> format_playit_group_join_message socket_path
   | PlayitGroupRefreshRequired \<Rightarrow> format_playit_group_refresh_message socket_path
   | GenericPermissionDenied current_uid current_gid socket_uid socket_gid socket_mode \<Rightarrow>
       ''The playit service is running, but this user cannot access its IPC socket:'' @ nl @ ''  '' @ socket_path @ nl @ nl @
       ''Current user uid='' @ show_base 10 (unat current_uid) @ '', gid='' @ show_base 10 (unat current_gid) @ nl @
       ''Socket owner uid='' @ show_base 10 (unat socket_uid) @ '', gid='' @ show_base 10 (unat socket_gid) @ '', mode='' @ show_base 8 (unat socket_mode) @ nl @ nl @
       ''Check the socket permissions or run playit from a user that can access this socket.'')"

definition installed_service_unreachable_message :: "('m, 's, 'j) machine_env \<Rightarrow> LinuxServiceManager \<Rightarrow> 'm \<Rightarrow> string" where
  "installed_service_unreachable_message E manager m = (case socket_access_issue E default_socket_path m of
     Some issue \<Rightarrow> format_socket_access_issue default_socket_path issue manager
   | None \<Rightarrow> ''The playit service is running, but this shell cannot reach its IPC socket:'' @ nl @ ''  '' @ default_socket_path @ nl @ nl @
       ''Try running `playit status` again in a few seconds. If it still fails, restart the service with:'' @ nl @ ''  '' @ service_restart_command manager)"

subsection \<open>Starting and stopping from the command line\<close>

record ('w, 'm) client_world =
  kw_cli :: "'w cli_world"
  kw_machine :: 'm

text \<open>An operation on the machine, with its error as one of the command, and an operation on the console.\<close>

definition on_machine :: "('m \<Rightarrow> (CliError + 'a) \<times> 'm) \<Rightarrow> (('w, 'm) client_world, 'a) command" where
  "on_machine f k = (case f (kw_machine k) of (r, m) \<Rightarrow> Some (r, k\<lparr>kw_machine := m\<rparr>))"

definition on_cli :: "('w, 'a) cli \<Rightarrow> (('w, 'm) client_world, 'a) command" where
  "on_cli f k = map_option (\<lambda>(r, c). (r, k\<lparr>kw_cli := c\<rparr>)) (f (kw_cli k))"

definition manager_failed :: "('m, 's, 'j) machine_env \<Rightarrow> string \<Rightarrow> (ServiceManagerError + 'a) \<times> 'm \<Rightarrow> (CliError + 'a) \<times> 'm" where
  "manager_failed E prefix = map_prod (map_sum (\<lambda>e. CliServiceError (prefix @ manager_error_text (me_io_text E) e)) id) id"

datatype ServiceManagerMode = ModeNone | ModeSystemd | ModeOpenRc

datatype InstalledServiceStartState = AlreadyRunning | Started

datatype InstalledServiceStopState = AlreadyStopped | InstalledStopRequested

fun linux_service_manager :: "ServiceManagerMode \<Rightarrow> LinuxServiceManager option" where
  "linux_service_manager ModeNone = None"
| "linux_service_manager ModeSystemd = Some Systemd"
| "linux_service_manager ModeOpenRc = Some OpenRc"

definition no_service_manager_selected_message :: string where
  "no_service_manager_selected_message =
     ''The playit daemon is not reachable at '' @ default_socket_path @ ''.'' @ nl @ ''playitd must be running in the background before playit can connect to it.'' @ nl @ nl @
     ''Run with --systemd or --openrc to let playit start the installed service, or start playitd manually and connect with --socket-path:'' @ nl @
     ''  playitd --socket-path=./playit.sock --secret-path=./playit.toml'' @ nl @ ''  playit --socket-path=./playit.sock''"

definition cli_service_is_active :: "('m, 's, 'j) machine_env \<Rightarrow> LinuxServiceManager \<Rightarrow> 'm \<Rightarrow> (CliError + bool) \<times> 'm" where
  "cli_service_is_active E manager m =
     manager_failed E ''Failed to check service status: '' (installed_service_is_active_with_linux_manager E manager m)"

definition installed_service_is_active_for_cli :: "('m, 's, 'j) machine_env \<Rightarrow> ServiceManagerMode \<Rightarrow> 'm \<Rightarrow> (CliError + bool) \<times> 'm" where
  "installed_service_is_active_for_cli E mode m = (case linux_service_manager mode of
     None \<Rightarrow> (Inl (CliServiceError no_service_manager_selected_message), m)
   | Some manager \<Rightarrow> cli_service_is_active E manager m)"

fun service_start_command :: "LinuxServiceManager \<Rightarrow> bool \<Rightarrow> string" where
  "service_start_command Systemd is_root = (if is_root then ''systemctl start playit'' else ''sudo systemctl start playit'')"
| "service_start_command OpenRc is_root = (if is_root then ''rc-service playit start'' else ''sudo rc-service playit start'')"

definition service_start_prompt :: "LinuxServiceManager \<Rightarrow> bool \<Rightarrow> string" where
  "service_start_prompt manager is_root =
     ''The playit service is not running.'' @ nl @ ''Start it now so playit can run in the background?'' @ nl @ nl @ ''Command: '' @
     service_start_command manager is_root @ (if is_root then [] else nl @ ''You may be asked for your password.'')"

text \<open>The rounds of the wait for a service that is active; a round that finds it reachable ends the wait.\<close>

fun reach_rounds :: "('m, 's, 'j) machine_env \<Rightarrow> nat \<Rightarrow> 'm \<Rightarrow> bool \<times> 'm" where
  "reach_rounds E 0 m = (False, m)"
| "reach_rounds E (Suc n) m = (if service_running E m then (True, m) else reach_rounds E n (me_sleep E 100 m))"

text \<open>\<open>console\<close>: the answer that the console is set to give, if a console is given.\<close>

definition prepare_installed_service_for_cli ::
  "('m, 's, 'j) machine_env \<Rightarrow> bool option option \<Rightarrow> LinuxServiceManager \<Rightarrow> (('w, 'm) client_world, bool) command" where
  "prepare_installed_service_for_cli E console manager =
     cli_bind (on_machine (cli_service_is_active E manager)) (\<lambda>active.
     if active then
       on_machine (\<lambda>m. case reach_rounds E 20 m of
         (True, m1) \<Rightarrow> (Inr True, m1)
       | (False, m1) \<Rightarrow> (Inl (CliServiceError (installed_service_unreachable_message E manager m1)), m1))
     else (case console of
         None \<Rightarrow> cli_return False
       | Some auto_answer \<Rightarrow>
           cli_bind (on_cli (yn_question auto_answer (service_start_prompt manager (me_effective_uid E = 0)) (Some True))) (\<lambda>should_start.
           if should_start then cli_return False
           else cli_fail (CliServiceError (''The playit service is not running. Start it with `'' @ service_start_command manager False @
             ''`, then run `playit` again.'')))))"

definition ensure_installed_service_running_for_cli ::
  "('m, 's, 'j) machine_env \<Rightarrow> bool option option \<Rightarrow> ServiceManagerMode \<Rightarrow> (('w, 'm) client_world, InstalledServiceStartState) command" where
  "ensure_installed_service_running_for_cli E console mode k =
     (if service_running E (kw_machine k) then Some (Inr AlreadyRunning, k)
      else (case linux_service_manager mode of
          None \<Rightarrow> Some (Inl (CliServiceError no_service_manager_selected_message), k)
        | Some manager \<Rightarrow>
            cli_bind (prepare_installed_service_for_cli E console manager) (\<lambda>running.
            if running then cli_return AlreadyRunning
            else cli_bind (on_machine (\<lambda>m. manager_failed E ''Failed to start service: '' (ensure_installed_service_running_with_linux_manager E manager m)))
              (\<lambda>_. cli_return Started)) k))"

definition cli_println :: "string \<Rightarrow> (('w, 'm) client_world, unit) command" where
  "cli_println s = on_cli (write_screen s)"

definition stop_installed_service_for_cli ::
  "('m, 's, 'j) machine_env \<Rightarrow> ServiceManagerMode \<Rightarrow> (('w, 'm) client_world, InstalledServiceStopState) command" where
  "stop_installed_service_for_cli E mode = (case linux_service_manager mode of
     None \<Rightarrow> cli_fail (CliServiceError no_service_manager_selected_message)
   | Some manager \<Rightarrow>
       cli_bind (on_machine (installed_service_is_active_for_cli E mode)) (\<lambda>active.
       if \<not> active then cli_bind (cli_println ''The playit service is already stopped.'') (\<lambda>_. cli_return AlreadyStopped)
       else cli_bind (on_machine (\<lambda>m. (Inr (), snd (stop_installed_service_with_linux_manager E manager m)))) (\<lambda>_. cli_return InstalledStopRequested)))"

subsection \<open>Laws\<close>

lemma default_manager_is_systemd:
  "ensure_installed_service_running E = ensure_installed_service_running_with_linux_manager E Systemd"
  "stop_installed_service E = stop_installed_service_with_linux_manager E Systemd"
  "fst (installed_service_is_running E m) = fst (installed_service_is_active_with_linux_manager E Systemd m)"
  by (auto simp: fun_eq_iff ensure_installed_service_running_def ensure_installed_service_running_with_linux_manager_def start_linux_service_def
    installed_service_is_active_with_linux_manager_def stop_installed_service_def stop_installed_service_with_linux_manager_def
    installed_service_is_running_def installed_service_state_def sum.map_comp comp_def split: prod.splits) (simp add: sum.map_ident_strong)

lemma wait_rounds_iff: "fst (wait_rounds E n m) = Inr () \<longleftrightarrow> (\<exists>k < n. service_running E ((me_sleep E 100 ^^ Suc k) m))"
proof (induction n arbitrary: m)
  case (Suc n)
  then show ?case
    unfolding Ex_less_Suc2 by (simp add: Let_def funpow_Suc_right del: funpow.simps)
qed simp

lemma wait_rounds_time: "\<exists>k \<le> n. snd (wait_rounds E n m) = (me_sleep E 100 ^^ k) m"
proof (induction n arbitrary: m)
  case (Suc n)
  obtain k where "k \<le> n" "snd (wait_rounds E n (me_sleep E 100 m)) = (me_sleep E 100 ^^ k) (me_sleep E 100 m)" using Suc.IH by blast
  then show ?case
    by (cases "service_running E (me_sleep E 100 m)")
      (auto simp: Let_def funpow_swap1 intro: exI [of _ "Suc k"] exI [of _ "1 :: nat"])
qed simp

lemma reach_rounds_running: "reach_rounds E n m = (True, m1) \<Longrightarrow> service_running E m1"
  by (induction E n m rule: reach_rounds.induct) (auto split: if_splits)

text \<open>A service that is said to run already can be reached.\<close>

lemma already_running_reachable:
  assumes "ensure_installed_service_running_for_cli E console mode k = Some (Inr AlreadyRunning, k')"
  shows "service_running E (kw_machine k')"
  using assms reach_rounds_running [of E 20]
  by (auto simp: ensure_installed_service_running_for_cli_def prepare_installed_service_for_cli_def cli_bind_def cli_return_def cli_fail_def on_machine_def on_cli_def
    split: if_splits option.splits prod.splits sum.splits bool.splits)

end
