(* ===== verification/Cli_Client.thy ===== *)
theory Cli_Client
  imports Service_Manager
begin

section \<open>The service commands of the command line client\<close>

text \<open>
  \<^verbatim>\<open>packages/playit-cli/src/client.rs\<close> and the commands of \<^verbatim>\<open>main.rs\<close> that talk to the service. A command connects to the service, makes requests over the connection and
  prints. The console of the program has no answer of its own. The sessions of an attached client are driven by what their \<^verbatim>\<open>select!\<close> yields.
\<close>

subsection \<open>Connecting\<close>

datatype CliTarget = InstalledService | ExplicitSocket string

definition from_socket_path :: "string option \<Rightarrow> CliTarget" where
  "from_socket_path socket_path = (case socket_path of Some p \<Rightarrow> ExplicitSocket p | None \<Rightarrow> InstalledService)"

fun target_socket_path :: "CliTarget \<Rightarrow> string" where
  "target_socket_path InstalledService = default_socket_path"
| "target_socket_path (ExplicitSocket p) = p"

definition ipc_connection_error :: CliError where
  "ipc_connection_error = CliIpcError ''Could not connect to the playit service. Start it with `playit start`, then try again.''"

definition connect_target :: "('m, 's, 'j) machine_env \<Rightarrow> CliTarget \<Rightarrow> 'm \<Rightarrow> CliError + IpcClient \<times> 's" where
  "connect_target E target m = (case connect_with_path (me_json E) (me_frames E) (\<lambda>e. me_open E e m) (target_socket_path target) of
     Inl _ \<Rightarrow> Inl ipc_connection_error | Inr c \<Rightarrow> Inr c)"

definition target_running :: "('m, 's, 'j) machine_env \<Rightarrow> CliTarget \<Rightarrow> 'm \<Rightarrow> bool" where
  "target_running E target m = is_running (\<lambda>e. me_open E e m) (target_socket_path target)"

definition client_error_text :: "('m, 's, 'j) machine_env \<Rightarrow> IpcError \<Rightarrow> string" where
  "client_error_text E = ipc_error_text (me_io_text E) (me_service_error_text E)"

text \<open>Work over a connection that is opened for it and closed after it; \<open>err\<close> is what a failed connection becomes.\<close>

type_synonym ('s, 'a) on_connection = "IpcClient \<times> 's \<Rightarrow> (CliError + 'a) \<times> IpcClient \<times> 's"

definition over_connection_or ::
  "CliError \<Rightarrow> ('m, 's, 'j) machine_env \<Rightarrow> CliTarget \<Rightarrow> ('s, 'a) on_connection \<Rightarrow> 'm \<Rightarrow> (CliError + 'a) \<times> 'm" where
  "over_connection_or err E target f m = (case connect_target E target m of
     Inl _ \<Rightarrow> (Inl err, m) | Inr c \<Rightarrow> (case f c of (r, _, s) \<Rightarrow> (r, me_close E s)))"

definition over_connection :: "('m, 's, 'j) machine_env \<Rightarrow> CliTarget \<Rightarrow> ('s, 'a) on_connection \<Rightarrow> 'm \<Rightarrow> (CliError + 'a) \<times> 'm" where
  "over_connection = over_connection_or ipc_connection_error"

text \<open>A request whose error is reported after a text, and one whose response must say that it was accepted.\<close>

definition asking ::
  "('m, 's, 'j) machine_env \<Rightarrow> string \<Rightarrow> (IpcClient \<times> 's \<Rightarrow> (IpcError + 'a) \<times> IpcClient \<times> 's) \<Rightarrow> ('s, 'a) on_connection" where
  "asking E what op c = (case op c of (r, c1) \<Rightarrow> (map_sum (\<lambda>e. CliIpcError (what @ client_error_text E e)) id r, c1))"

definition accepted_or :: "string \<Rightarrow> (CliError + CommandResponse) \<times> 'c \<Rightarrow> (CliError + CommandResponse) \<times> 'c" where
  "accepted_or refusal = (\<lambda>(r, c). (and_then r (\<lambda>response.
     if cr_accepted response then Inr response
     else Inl (CliIpcError (case cr_message response of Some message \<Rightarrow> message | None \<Rightarrow> refusal))), c))"

definition read_lifecycle :: "('m, 's, 'j) machine_env \<Rightarrow> ('s, AgentLifecycle) on_connection" where
  "read_lifecycle E = asking E ''Failed to read playitd lifecycle: '' (client_lifecycle (me_json E) (me_frames E))"

subsection \<open>Setting up\<close>

text \<open>The polls of a lifecycle over one connection, of which there are fifty.\<close>

fun auto_lifecycle_rounds :: "('m, 's, 'j) machine_env \<Rightarrow> nat \<Rightarrow> ('s, AgentLifecycle) on_connection" where
  "auto_lifecycle_rounds E 0 c = (Inr LifecycleStarting, c)"
| "auto_lifecycle_rounds E (Suc n) c = (case read_lifecycle E c of
     (Inl e, c1) \<Rightarrow> (Inl e, c1)
   | (Inr lifecycle, client, s) \<Rightarrow>
       if lifecycle \<noteq> LifecycleStarting then (Inr lifecycle, client, s) else auto_lifecycle_rounds E n (client, me_wait E 100 s))"

definition wait_for_auto_lifecycle :: "('m, 's, 'j) machine_env \<Rightarrow> ('s, AgentLifecycle) on_connection" where
  "wait_for_auto_lifecycle E = auto_lifecycle_rounds E 50"

definition reset_service_secret_for_setup :: "('m, 's, 'j) machine_env \<Rightarrow> CliTarget \<Rightarrow> 'm \<Rightarrow> (CliError + CommandResponse) \<times> 'm" where
  "reset_service_secret_for_setup E target = over_connection E target (\<lambda>c.
     accepted_or ''playitd rejected the reset request'' (asking E ''Failed to reset secret: '' (client_reset_secret (me_json E) (me_frames E)) c))"

fun waiting_rounds :: "('m, 's, 'j) machine_env \<Rightarrow> CliTarget \<Rightarrow> nat \<Rightarrow> 'm \<Rightarrow> (CliError + unit) \<times> 'm" where
  "waiting_rounds E target 0 m =
     (Inl (CliServiceError ''Timed out while waiting for the playit service to become ready for setup after the reset.''), m)"
| "waiting_rounds E target (Suc n) m = (case connect_target E target m of
     Inl _ \<Rightarrow> waiting_rounds E target n (me_sleep E 100 m)
   | Inr c \<Rightarrow> (case read_lifecycle E c of
       (Inl e, _, s) \<Rightarrow> (Inl e, me_close E s)
     | (Inr lifecycle, _, s) \<Rightarrow> (case lifecycle of
         WaitingForSecret \<Rightarrow> (Inr (), me_close E s)
       | LifecycleStopping \<Rightarrow> (Inl (CliServiceError ''The playit service is stopping and did not become ready for setup after the reset.''), me_close E s)
       | LifecycleError e \<Rightarrow> (Inl (CliServiceError (''The playit service reported an error after the reset: '' @ se_message e)), me_close E s)
       | _ \<Rightarrow> waiting_rounds E target n (me_close E (me_wait E 100 s)))))"

definition wait_for_service_waiting_for_secret :: "('m, 's, 'j) machine_env \<Rightarrow> CliTarget \<Rightarrow> 'm \<Rightarrow> (CliError + unit) \<times> 'm" where
  "wait_for_service_waiting_for_secret E target = waiting_rounds E target 50"

definition start_if_installed ::
  "('m, 's, 'j) machine_env \<Rightarrow> CliTarget \<Rightarrow> ServiceManagerMode \<Rightarrow> (('w, 'm) client_world, unit) command" where
  "start_if_installed E target mode =
     (if target = InstalledService then cli_bind (ensure_installed_service_running_for_cli E (Some None) mode) (\<lambda>_. cli_return ()) else cli_return ())"

fun setup_verdict :: "AgentLifecycle \<Rightarrow> CliError + unit" where
  "setup_verdict WaitingForSecret = Inr ()"
| "setup_verdict (HasInvalidSecret e) = Inl (CliServiceError (''Setup cannot continue because the playit service has an invalid secret: '' @ se_message e @
     ''. Run `playit reset`, then run `playit setup` again.''))"
| "setup_verdict (DisabledOverLimit _) = Inl (CliServiceError (''Setup is unavailable because this account is over the agent limit.'' @ nl @ agent_over_limit_guidance))"
| "setup_verdict LifecycleStarting = Inl (CliServiceError ''The playit service is still starting. Try setup again in a few seconds.'')"
| "setup_verdict (LifecycleRunning _) = Inl (CliServiceError
     ''The playit service already has a configured secret. Run `playit reset` before claiming a new agent.'')"
| "setup_verdict LifecycleStopping = Inl (CliServiceError ''The playit service is stopping. Try setup again after it stops.'')"
| "setup_verdict (LifecycleError e) = Inl (CliServiceError (''The playit service reported an error and is not ready for setup: '' @ se_message e))"

definition ensure_service_waiting_for_secret ::
  "('m, 's, 'j) machine_env \<Rightarrow> CliTarget \<Rightarrow> ServiceManagerMode \<Rightarrow> (('w, 'm) client_world, unit) command" where
  "ensure_service_waiting_for_secret E target mode =
     cli_bind (start_if_installed E target mode) (\<lambda>_.
     cli_bind (on_machine (over_connection E target (read_lifecycle E))) (\<lambda>lifecycle. cli_lift (setup_verdict lifecycle)))"

definition provision_service_secret ::
  "('m, 's, 'j) machine_env \<Rightarrow> CliTarget \<Rightarrow> string \<Rightarrow> ServiceManagerMode \<Rightarrow> (('w, 'm) client_world, unit) command" where
  "provision_service_secret E target secret mode =
     cli_bind (start_if_installed E target mode) (\<lambda>_.
     cli_bind (on_machine (over_connection E target (\<lambda>c. accepted_or ''playitd rejected the secret''
       (asking E ''Failed to provision secret: '' (client_set_secret (me_json E) (me_frames E) secret) c)))) (\<lambda>_. cli_return ()))"

text \<open>\<open>login_guest\<close> is the call of the API, with the key of the session that it makes; \<open>claim_code\<close> is the code that \<^verbatim>\<open>claim_generate\<close> draws.\<close>

definition run_setup_flow ::
  "'w cli_env \<Rightarrow> ('m, 's, 'j) machine_env \<Rightarrow> (HttpClient \<Rightarrow> 'w http_state \<Rightarrow> ('e + string) option \<times> 'w http_state) \<Rightarrow> string \<Rightarrow>
   CliTarget \<Rightarrow> ServiceManagerMode \<Rightarrow> bool \<Rightarrow> string option \<Rightarrow> (('w, 'm) client_world, unit) command" where
  "run_setup_flow C E login_guest claim_code target mode direct name =
     (if direct then
        cli_bind (on_cli (require_valid_stored_session C)) (\<lambda>_.
        cli_bind (ensure_service_waiting_for_secret E target mode) (\<lambda>_.
        cli_bind (on_cli (claim_approve C claim_code name None)) (\<lambda>_.
        cli_bind (on_cli (cli_claim_exchange C claim_code Assignable 0)) (\<lambda>key.
        cli_bind (provision_service_secret E target key mode) (\<lambda>_.
        cli_println ''playit setup is complete. The background service is ready.'')))))
      else
        cli_bind (ensure_service_waiting_for_secret E target mode) (\<lambda>_.
        cli_bind (cli_lift (cli_claim_url C claim_code)) (\<lambda>url.
        cli_bind (cli_println (''Open this link to finish setting up playit:'' @ nl @ url)) (\<lambda>_.
        cli_bind (on_cli (cli_claim_exchange C claim_code Assignable 0)) (\<lambda>key.
        cli_bind (provision_service_secret E target key mode) (\<lambda>_.
        cli_bind (on_cli (\<lambda>c. case login_guest (PlayitApi_create (cl_api_base C) (Some key)) (cw_http c) of
            (None, _) \<Rightarrow> None
          | (Some (Inl _), hs) \<Rightarrow> Some (Inr (), c\<lparr>cw_http := hs\<rparr>)
          | (Some (Inr session_key), hs) \<Rightarrow>
              cli_bind (write_screen (''Guest login:'' @ nl @ ''https://playit.gg/login/guest-account/'' @ session_key)) (\<lambda>_. cli_sleep C 10000) (c\<lparr>cw_http := hs\<rparr>))) (\<lambda>_.
        cli_println ''playit setup is complete. The background service is ready.'')))))))"

subsection \<open>Attaching\<close>

datatype AttachMode = Interactive | AttachStdout

datatype AttachErrorContext = Standard | AutoCommand "string option"

definition is_linux_socket_access_message :: "string \<Rightarrow> bool" where
  "is_linux_socket_access_message message = starts_with ''The playit service is running, but'' message"

definition auto_attach_error :: "CliTarget \<Rightarrow> string option \<Rightarrow> CliError" where
  "auto_attach_error target start_attempt_failed = (case target of
     InstalledService \<Rightarrow> (case start_attempt_failed of
         Some e \<Rightarrow>
           if is_linux_socket_access_message e then CliIpcError e
           else if starts_with ''The playit service is running, but'' e then CliIpcError e
           else if starts_with ''The playit service is not reachable'' e then CliIpcError e
           else CliIpcError (''Could not connect to the playit service. playit also tried to start it first, but startup failed: '' @ e)
       | None \<Rightarrow> CliIpcError
           ''Could not connect to the playit service. playit tried to start it first, but it is still not reachable.'')
   | ExplicitSocket _ \<Rightarrow> ipc_connection_error)"

fun initial_attach_error :: "CliTarget \<Rightarrow> AttachErrorContext \<Rightarrow> CliError" where
  "initial_attach_error target Standard = ipc_connection_error"
| "initial_attach_error target (AutoCommand start_attempt_failed) = auto_attach_error target start_attempt_failed"

fun attach_lost_message :: "CliTarget \<Rightarrow> string \<Rightarrow> string" where
  "attach_lost_message InstalledService e = ''Connection to the playit service was lost: '' @ e @ ''. Run '' @ [CHR 0x22] @ ''playit attach'' @ [CHR 0x22] @ '' to reconnect.''"
| "attach_lost_message (ExplicitSocket p) e = ''Connection to the playit daemon was lost: '' @ e @ ''. Reattach with '' @ [CHR 0x22] @
     ''playit attach --socket-path '' @ p @ [CHR 0x22] @ '' once the daemon is reachable again.''"

definition detach_message :: "string list" where
  "detach_message = [''Detached from service. Service continues running in background.'', ''Use '' @ [CHR 0x27] @ ''playit stop'' @ [CHR 0x27] @ '' to stop the service.'']"

text \<open>
  What the loops wait for: an update or the error of its reception, and a tick of the screen or the signal. A tick has the key that was pressed, or the error of the terminal;
  \<open>shutdown_error\<close> is the error of its restoration, if there is one. A session is over with its result and what it prints, or it still runs.
\<close>

datatype attach_event = UpdateReceived "IpcError + ServiceUpdate" | TickElapsed "CliError + KeyEvent option"

definition after_shutdown :: "CliError option \<Rightarrow> (CliError + unit) \<times> string list \<Rightarrow> (CliError + unit) \<times> string list" where
  "after_shutdown shutdown_error r = (case shutdown_error of Some e \<Rightarrow> (Inl e, []) | None \<Rightarrow> r)"

fun attach_tui_loop ::
  "('m, 's, 'j) machine_env \<Rightarrow> CliTarget \<Rightarrow> CliError option \<Rightarrow> attach_event list \<Rightarrow> TuiApp \<times> signal_inner \<Rightarrow>
   ((CliError + unit) \<times> string list) option \<times> TuiApp \<times> signal_inner" where
  "attach_tui_loop E target shutdown_error [] ts = (None, ts)"
| "attach_tui_loop E target shutdown_error (UpdateReceived (Inr update) # evs) ts =
     attach_tui_loop E target shutdown_error evs (apfst (apply_tui_update update) ts)"
| "attach_tui_loop E target shutdown_error (UpdateReceived (Inl e) # evs) ts =
     (Some (after_shutdown shutdown_error (Inr (), [attach_lost_message target (client_error_text E e)])), ts)"
| "attach_tui_loop E target shutdown_error (TickElapsed (Inl e) # evs) ts = (Some (after_shutdown shutdown_error (Inl e, [])), ts)"
| "attach_tui_loop E target shutdown_error (TickElapsed (Inr key) # evs) ts = (case tui_tick key ts of
     (True, ts1) \<Rightarrow> attach_tui_loop E target shutdown_error evs ts1
   | (False, ts1) \<Rightarrow> (Some (after_shutdown shutdown_error (Inr (), detach_message)), ts1))"

text \<open>The guard is held as long as the session runs.\<close>

definition run_attach_tui_session ::
  "('m, 's, 'j) machine_env \<Rightarrow> CliTarget \<Rightarrow> CliError option \<Rightarrow> attach_event list \<Rightarrow> SubscribeResponse \<Rightarrow> signal_inner \<Rightarrow>
   ((CliError + unit) \<times> string list) option \<times> TuiApp \<times> signal_inner" where
  "run_attach_tui_session E target shutdown_error evs subscribe signal =
     (case attach_tui_loop E target shutdown_error evs (tui_start (sr_snapshot subscribe), close_guard signal) of
        (None, ts) \<Rightarrow> (None, ts) | (Some r, tui, s) \<Rightarrow> (Some r, tui, close_guard_drop s))"

definition stdout_update :: "(u64 \<Rightarrow> string option) \<Rightarrow> ServiceUpdate \<Rightarrow> string list" where
  "stdout_update timestamp update = (case update of
     UpdateLog entry \<Rightarrow>
       [(case timestamp (le_timestamp entry) of Some s \<Rightarrow> s | None \<Rightarrow> show_base 10 (unat (le_timestamp entry)) @ ''ms'') @ '' '' @
        replicate (5 - length (level_label (le_level entry))) (CHR '' '') @ level_label (le_level entry) @ '' '' @ le_target entry @ '': '' @ le_message entry]
   | _ \<Rightarrow> [])"

datatype stdout_event = StdoutUpdate "IpcError + ServiceUpdate" | StdoutCtrlC

fun run_attach_stdout_session :: "('m, 's, 'j) machine_env \<Rightarrow> (u64 \<Rightarrow> string option) \<Rightarrow> CliTarget \<Rightarrow> stdout_event list \<Rightarrow> bool \<times> string list" where
  "run_attach_stdout_session E timestamp target [] = (False, [])"
| "run_attach_stdout_session E timestamp target (StdoutUpdate (Inr update) # evs) =
     map_prod id (\<lambda>out. stdout_update timestamp update @ out) (run_attach_stdout_session E timestamp target evs)"
| "run_attach_stdout_session E timestamp target (StdoutUpdate (Inl e) # evs) = (True, [attach_lost_message target (client_error_text E e)])"
| "run_attach_stdout_session E timestamp target (StdoutCtrlC # evs) = (True, [] # detach_message)"

text \<open>A command that attaches, up to the session: the response to its subscription.\<close>

definition attach_subscribe ::
  "('m, 's, 'j) machine_env \<Rightarrow> CliTarget \<Rightarrow> AttachErrorContext \<Rightarrow> 'm \<Rightarrow> (CliError + SubscribeResponse) \<times> 'm" where
  "attach_subscribe E target context =
     over_connection_or (initial_attach_error target context) E target (\<lambda>c. case client_subscribe (me_json E) (me_frames E) c of
       (r, c1) \<Rightarrow> (map_sum (\<lambda>_. initial_attach_error target context) id r, c1))"

subsection \<open>The automatic command\<close>

fun auto_verdict :: "AgentLifecycle \<Rightarrow> CliError option" where
  "auto_verdict (DisabledOverLimit _) = Some (CliServiceError (agent_over_limit_title @ nl @ agent_over_limit_guidance))"
| "auto_verdict LifecycleStarting = Some (CliServiceError
     ''Timed out while waiting for the playit service to finish starting. Try `playit status` to check its current state.'')"
| "auto_verdict LifecycleStopping = Some (CliServiceError ''The playit service is stopping. Try again in a few seconds.'')"
| "auto_verdict (LifecycleError e) = Some (CliServiceError (''The playit service reported an error and cannot continue: '' @ se_message e))"
| "auto_verdict _ = None"

text \<open>\<open>setup\<close> is the setup flow. The result is the response to the subscription of the session that follows.\<close>

definition run_auto_command ::
  "('m, 's, 'j) machine_env \<Rightarrow> (('w, 'm) client_world, unit) command \<Rightarrow> CliTarget \<Rightarrow> ServiceManagerMode \<Rightarrow>
   (('w, 'm) client_world, SubscribeResponse) command" where
  "run_auto_command E setup target mode =
     cli_bind (\<lambda>k. case target of
         ExplicitSocket _ \<Rightarrow> Some (Inr None, k)
       | InstalledService \<Rightarrow> (case ensure_installed_service_running_for_cli E (Some None) mode k of
           None \<Rightarrow> None | Some (Inl e, k1) \<Rightarrow> Some (Inr (Some (cli_error_text (me_debug E) e)), k1) | Some (Inr _, k1) \<Rightarrow> Some (Inr None, k1))) (\<lambda>start_attempt_failed.
     cli_bind (on_machine (over_connection_or (initial_attach_error target (AutoCommand start_attempt_failed)) E target (wait_for_auto_lifecycle E))) (\<lambda>lifecycle.
     cli_bind (case lifecycle of
         LifecycleRunning _ \<Rightarrow> cli_return ()
       | WaitingForSecret \<Rightarrow> setup
       | HasInvalidSecret e \<Rightarrow>
           cli_bind (on_cli (yn_question None (''The playit service has an invalid secret: '' @ se_message e @ ''.'' @ nl @ ''Reset it now and run setup again?'') (Some False))) (\<lambda>should_reset.
           if \<not> should_reset then cli_fail (CliServiceError
             ''The playit service has an invalid secret. Run `playit reset`, then run `playit` again to set up this agent.'')
           else
             cli_bind (on_machine (reset_service_secret_for_setup E target)) (\<lambda>_.
             cli_bind (on_machine (wait_for_service_waiting_for_secret E target)) (\<lambda>_. setup)))
       | _ \<Rightarrow> cli_lift (case auto_verdict lifecycle of Some e \<Rightarrow> Inl e | None \<Rightarrow> Inr ())) (\<lambda>_.
     on_machine (attach_subscribe E target (AutoCommand start_attempt_failed)))))"

subsection \<open>Starting, stopping and asking\<close>

definition run_start_command ::
  "('m, 's, 'j) machine_env \<Rightarrow> CliTarget \<Rightarrow> ServiceManagerMode \<Rightarrow> (('w, 'm) client_world, unit) command" where
  "run_start_command E target mode = (case target of
     ExplicitSocket p \<Rightarrow> cli_fail (CliServiceError (''`playit start` only manages the installed background service. Remove `--socket-path '' @ p @
       ''` or start that daemon manually.''))
   | InstalledService \<Rightarrow>
       if mode = ModeNone then cli_fail (CliServiceError
         (''`playit start` can only start the installed service when run with --systemd or --openrc.'' @ nl @ nl @
          ''If you are managing playitd yourself, start it in the background and connect with --socket-path:'' @ nl @
          ''  playitd --socket-path=./playit.sock --secret-path=./playit.toml'' @ nl @ ''  playit --socket-path=./playit.sock''))
       else
         cli_bind (ensure_installed_service_running_for_cli E (Some None) mode) (\<lambda>state.
         cli_bind (cli_println (case state of AlreadyRunning \<Rightarrow> ''The playit service is already running.'' | Started \<Rightarrow> ''The playit service started.'')) (\<lambda>_.
         cli_println (''Run '' @ [CHR 0x22] @ ''playit attach'' @ [CHR 0x22] @ '' to view logs and tunnel status.''))))"

definition cli_wait :: "('m, 's, 'j) machine_env \<Rightarrow> nat \<Rightarrow> (('w, 'm) client_world, unit) command" where
  "cli_wait E d = on_machine (\<lambda>m. (Inr (), me_sleep E d m))"

definition ipc_unreachable :: string where
  "ipc_unreachable = ''Could not reach the playit service over IPC. Trying the system service manager instead.''"

text \<open>The stop of the installed service over its socket: whether the service manager is still needed.\<close>

definition stop_over_ipc :: "('m, 's, 'j) machine_env \<Rightarrow> (('w, 'm) client_world, bool) command" where
  "stop_over_ipc E k = (case connect_target E InstalledService (kw_machine k) of
     Inl _ \<Rightarrow> cli_bind (cli_println ipc_unreachable) (\<lambda>_. cli_return True) k
   | Inr c \<Rightarrow> (case client_stop (me_json E) (me_frames E) c of
       (Inr response, _, s) \<Rightarrow>
         if cr_accepted response
         then cli_bind (cli_println ''Asked the playit service to stop.'') (\<lambda>_. cli_return False) (k\<lparr>kw_machine := me_close E (me_wait E 1000 s)\<rparr>)
         else Some (Inr True, k\<lparr>kw_machine := me_close E s\<rparr>)
     | (Inl _, _, s) \<Rightarrow> cli_bind (cli_println ipc_unreachable) (\<lambda>_. cli_return True) (k\<lparr>kw_machine := me_close E s\<rparr>)))"

definition report_stopped ::
  "('m, 's, 'j) machine_env \<Rightarrow> CliTarget \<Rightarrow> string \<Rightarrow> string \<Rightarrow> (('w, 'm) client_world, unit) command" where
  "report_stopped E target stopped running k = cli_println (if target_running E target (kw_machine k) then running else stopped) k"

definition run_stop_command ::
  "('m, 's, 'j) machine_env \<Rightarrow> CliTarget \<Rightarrow> ServiceManagerMode \<Rightarrow> (('w, 'm) client_world, unit) command" where
  "run_stop_command E target mode = (case target of
     InstalledService \<Rightarrow>
       cli_bind (stop_over_ipc E) (\<lambda>fallback.
       cli_bind (if fallback then stop_installed_service_for_cli E mode else cli_return InstalledStopRequested) (\<lambda>state.
       if state = AlreadyStopped then cli_return ()
       else cli_bind (cli_wait E 500) (\<lambda>_. report_stopped E InstalledService ''The playit service stopped.''
         ''The playit service may still be running. Run `playit status` to check.'')))
   | ExplicitSocket p \<Rightarrow>
       cli_bind (on_machine (over_connection E target (\<lambda>c. accepted_or (''playitd rejected stop request for '' @ p)
         (asking E (''Failed to stop daemon at '' @ p @ '': '') (client_stop (me_json E) (me_frames E)) c)))) (\<lambda>_.
       cli_bind (cli_println (''playitd stop requested for socket '' @ p)) (\<lambda>_.
       cli_bind (cli_wait E 1000) (\<lambda>_. report_stopped E target ''playitd daemon stopped''
         (''The playit daemon may still be running. Check the daemon process for socket '' @ p @ ''.'')))))"

text \<open>\<open>debug\<close> is the debug text of the capabilities.\<close>

definition status_lines :: "(string list \<Rightarrow> string) \<Rightarrow> CliTarget \<Rightarrow> ServiceStatus \<Rightarrow> string list" where
  "status_lines debug target status =
     [case target of InstalledService \<Rightarrow> ''playit service status:'' | ExplicitSocket p \<Rightarrow> ''playitd daemon status for socket '' @ p @ '':'',
      ''  Phase: '' @ service_phase_label (st_phase status), ''  PID: '' @ show_base 10 (unat (st_pid status)),
      ''  Uptime: '' @ show_base 10 (unat (st_uptime_secs status)) @ '' seconds'', ''  Version: '' @ st_version status, ''  Socket: '' @ st_socket_path status,
      case st_secret_path status of Some p \<Rightarrow> ''  Secret path: '' @ p | None \<Rightarrow> ''  Secret path: <inline secret>'',
      ''  Secret configured: '' @ (if st_has_secret status then ''true'' else ''false''),
      ''  IPC version: '' @ show_base 10 (unat (ipc_version (st_protocol status)))] @
     (if capabilities (st_protocol status) = [] then [] else [''  Capabilities: '' @ debug (capabilities (st_protocol status))]) @
     (if st_phase status = PhaseDisabledOverLimit
      then ''  Message:'' # map (\<lambda>line. ''    '' @ line) (agent_over_limit_title # split_char (CHR 0x0A) agent_over_limit_guidance) else []) @
     (case st_last_error status of Some e \<Rightarrow> [''  Last error: '' @ se_message e] | None \<Rightarrow> [])"

definition run_status_command ::
  "('m, 's, 'j) machine_env \<Rightarrow> (string list \<Rightarrow> string) \<Rightarrow> CliTarget \<Rightarrow> (('w, 'm) client_world, unit) command" where
  "run_status_command E debug target k =
     (if \<not> target_running E target (kw_machine k) then
        cli_println (case target of InstalledService \<Rightarrow> ''The playit service is not running.''
          | ExplicitSocket p \<Rightarrow> ''The playit daemon is not reachable at socket '' @ p @ ''.'') k
      else
        cli_bind (on_machine (over_connection E target (\<lambda>c. case client_status (me_json E) (me_frames E) c of
          (r, c1) \<Rightarrow> (map_sum (\<lambda>_. ipc_connection_error) id r, c1)))) (\<lambda>status. on_cli (write_lines (status_lines debug target status))) k)"

text \<open>A reset asks for the reset of the secret and then, over the same connection, for the stop.\<close>

definition reset_and_stop :: "('m, 's, 'j) machine_env \<Rightarrow> ('s, CommandResponse \<times> CommandResponse) on_connection" where
  "reset_and_stop E c =
     (case accepted_or ''playitd rejected the reset request'' (asking E ''Failed to reset secret: '' (client_reset_secret (me_json E) (me_frames E)) c) of
        (Inl e, c1) \<Rightarrow> (Inl e, c1)
      | (Inr reset_response, c1) \<Rightarrow>
          (case accepted_or ''Secret was reset, but playitd rejected the stop request''
             (asking E ''Secret was reset, but failed to stop playitd: '' (client_stop (me_json E) (me_frames E)) c1) of
             (r, c2) \<Rightarrow> (map_sum id (\<lambda>stop_response. (reset_response, stop_response)) r, c2)))"

definition run_reset_command :: "('m, 's, 'j) machine_env \<Rightarrow> CliTarget \<Rightarrow> (('w, 'm) client_world, unit) command" where
  "run_reset_command E target =
     cli_bind (on_machine (over_connection E target (reset_and_stop E))) (\<lambda>(reset_response, stop_response).
     cli_bind (cli_println (case cr_message reset_response of Some message \<Rightarrow> message | None \<Rightarrow> ''playitd reset the secret file'')) (\<lambda>_.
     cli_println (''playitd stop requested: '' @ (case cr_message stop_response of Some message \<Rightarrow> message | None \<Rightarrow> ''shutdown requested''))))"

definition run_secret_path_command :: "('m, 's, 'j) machine_env \<Rightarrow> CliTarget \<Rightarrow> (('w, 'm) client_world, unit) command" where
  "run_secret_path_command E target =
     cli_bind (on_machine (over_connection E target (asking E ''Failed to read secret path: '' (client_get_secret_path (me_json E) (me_frames E))))) (\<lambda>secret_path.
     case secret_path of
       None \<Rightarrow> cli_fail (CliIpcError ''playitd is using an inline --secret, so no secret file path is available'')
     | Some p \<Rightarrow> cli_println p)"

definition run_account_login_url_command :: "('m, 's, 'j) machine_env \<Rightarrow> CliTarget \<Rightarrow> (('w, 'm) client_world, unit) command" where
  "run_account_login_url_command E target =
     cli_bind (on_machine (over_connection E target
       (asking E ''Failed to create account login URL: '' (client_get_account_login_url (me_json E) (me_frames E))))) cli_println"

subsection \<open>\<^verbatim>\<open>main.rs\<close>: the options\<close>

record cli_options =
  co_stdout :: bool
  co_socket_path :: "string option"
  co_systemd :: bool
  co_openrc :: bool

text \<open>\<open>None\<close> is the branch that the parser excludes.\<close>

definition service_manager_mode :: "cli_options \<Rightarrow> ServiceManagerMode option" where
  "service_manager_mode cli = (case (co_systemd cli, co_openrc cli) of
     (True, False) \<Rightarrow> Some ModeSystemd | (False, True) \<Rightarrow> Some ModeOpenRc | (False, False) \<Rightarrow> Some ModeNone | (True, True) \<Rightarrow> None)"

definition attach_mode_of :: "cli_options \<Rightarrow> bool \<Rightarrow> AttachMode" where
  "attach_mode_of cli attach_stdout = (if co_stdout cli \<or> attach_stdout then AttachStdout else Interactive)"

subsubsection \<open>The commands\<close>

datatype AgentCommands = AgentsList | AgentsDelete string "string option" bool

datatype AccountCommands = AccountLoginUrl | AccountLogin "string option" bool | AccountLogout | AccountShowStatus | AccountValidate

text \<open>The name and the type of \<^verbatim>\<open>claim url\<close> are not used.\<close>

datatype ClaimCommands =
    ClaimGenerate | ClaimUrl string | ClaimExchange string u32 | ClaimInspect string | ClaimApprove string "string option" "string option" | ClaimReject string

datatype Commands =
    CmdVersion | CmdAttach bool | CmdStart | CmdStop | CmdStatus | CmdReset | CmdSecretPath | CmdSetup bool "string option"
  | CmdAgents AgentCommands | CmdAccount AccountCommands | CmdClaim ClaimCommands

text \<open>\<open>session\<close> is the session that follows a subscription; \<open>debug\<close> the debug text of capabilities.\<close>

record ('w, 'm, 's, 'j, 'e) program_env =
  pg_cli :: "'w cli_env"
  pg_machine :: "('m, 's, 'j) machine_env"
  pg_login_guest :: "HttpClient \<Rightarrow> 'w http_state \<Rightarrow> ('e + string) option \<times> 'w http_state"
  pg_claim_code :: string
  pg_debug :: "string list \<Rightarrow> string"
  pg_session :: "AttachMode \<Rightarrow> SubscribeResponse \<Rightarrow> (('w, 'm) client_world, unit) command"

fun run_agents_command :: "'w cli_env \<Rightarrow> AgentCommands \<Rightarrow> ('w, unit) cli" where
  "run_agents_command C AgentsList = agents_list C"
| "run_agents_command C (AgentsDelete agent move_to disable) = agents_delete C agent move_to disable"

fun run_account_command :: "('w, 'm, 's, 'j, 'e) program_env \<Rightarrow> CliTarget \<Rightarrow> AccountCommands \<Rightarrow> (('w, 'm) client_world, unit) command" where
  "run_account_command P target AccountLoginUrl = run_account_login_url_command (pg_machine P) target"
| "run_account_command P target (AccountLogin email password_stdin) = on_cli (run_account_login (pg_cli P) email password_stdin)"
| "run_account_command P target AccountLogout = on_cli (run_account_logout (pg_cli P))"
| "run_account_command P target AccountShowStatus = on_cli (run_account_status (pg_cli P))"
| "run_account_command P target AccountValidate = on_cli (run_account_validate (pg_cli P))"

fun run_claim_command :: "('w, 'm, 's, 'j, 'e) program_env \<Rightarrow> ClaimCommands \<Rightarrow> ('w, unit) cli" where
  "run_claim_command P ClaimGenerate = write_screen (pg_claim_code P)"
| "run_claim_command P (ClaimUrl code) = cli_bind (cli_lift (cli_claim_url (pg_cli P) code)) write_screen"
| "run_claim_command P (ClaimExchange code wait) = cli_bind (cli_claim_exchange (pg_cli P) code SelfManaged wait) write_screen"
| "run_claim_command P (ClaimInspect code) = claim_inspect (pg_cli P) code"
| "run_claim_command P (ClaimApprove code name agent_type) = claim_approve (pg_cli P) code name agent_type"
| "run_claim_command P (ClaimReject code) = claim_reject (pg_cli P) code"

definition run_setup :: "('w, 'm, 's, 'j, 'e) program_env \<Rightarrow> CliTarget \<Rightarrow> ServiceManagerMode \<Rightarrow> bool \<Rightarrow> string option \<Rightarrow> (('w, 'm) client_world, unit) command" where
  "run_setup P = run_setup_flow (pg_cli P) (pg_machine P) (pg_login_guest P) (pg_claim_code P)"

text \<open>The program; its exit code is that of the result.\<close>

definition run_cli ::
  "('w, 'm, 's, 'j, 'e) program_env \<Rightarrow> cli_options \<Rightarrow> ServiceManagerMode \<Rightarrow> Commands option \<Rightarrow> (('w, 'm) client_world, unit) command" where
  "run_cli P cli mode command =
     (let target = from_socket_path (co_socket_path cli); E = pg_machine P in
      case command of
        None \<Rightarrow> cli_bind (run_auto_command E (run_setup P target mode False None) target mode) (pg_session P (attach_mode_of cli False))
      | Some (CmdAttach stdout) \<Rightarrow> cli_bind (on_machine (attach_subscribe E target Standard)) (pg_session P (attach_mode_of cli stdout))
      | Some CmdStart \<Rightarrow> run_start_command E target mode
      | Some CmdStop \<Rightarrow> run_stop_command E target mode
      | Some CmdStatus \<Rightarrow> run_status_command E (pg_debug P) target
      | Some CmdVersion \<Rightarrow> cli_println (cl_version (pg_cli P))
      | Some (CmdSetup direct name) \<Rightarrow> run_setup P target mode direct name
      | Some (CmdAgents c) \<Rightarrow> on_cli (run_agents_command (pg_cli P) c)
      | Some CmdReset \<Rightarrow> run_reset_command E target
      | Some CmdSecretPath \<Rightarrow> run_secret_path_command E target
      | Some (CmdAccount c) \<Rightarrow> run_account_command P target c
      | Some (CmdClaim c) \<Rightarrow> on_cli (run_claim_command P c))"

subsection \<open>Laws\<close>

text \<open>Without a service manager nothing is started, but the automatic command says that a start has failed.\<close>

lemma no_manager_reported_as_startup:
  "auto_attach_error InstalledService (Some no_service_manager_selected_message) =
     CliIpcError (''Could not connect to the playit service. playit also tried to start it first, but startup failed: '' @ no_service_manager_selected_message)"
  by (simp add: auto_attach_error_def is_linux_socket_access_message_def starts_with_def no_service_manager_selected_message_def)

subsection \<open>The commands and the service\<close>

text \<open>
  A machine with one daemon, at a time that counts the connections and the waits. At a time the daemon takes a connection, with what happens on it, or takes none (it may have ended); while the program waits it
  goes on by itself.
\<close>

record daemon_machine =
  dm_server :: IpcServer
  dm_time :: nat

record ('f, 'v) daemon_life =
  dl_plan :: "nat \<Rightarrow> ('f, 'v) link_plan option"
  dl_drift :: "nat \<Rightarrow> IpcServer \<Rightarrow> IpcServer"

definition link_machine ::
  "'j json_lib \<Rightarrow> ('f, 'v) daemon_life \<Rightarrow> (daemon_machine, ('j, 'f, 'v) link, 'j) machine_env \<Rightarrow> (daemon_machine, ('j, 'f, 'v) link, 'j) machine_env" where
  "link_machine J life base = base\<lparr>
     me_open := (\<lambda>_ m. case dl_plan life (dm_time m) of None \<Rightarrow> Inl IpcNotRunning | Some plan \<Rightarrow> Inr (link_open J plan (dm_time m) (dm_server m))),
     me_close := (\<lambda>w. \<lparr>dm_server = lk_server w, dm_time = Suc (lk_opened w)\<rparr>), me_json := J, me_frames := link_stream J,
     me_wait := (\<lambda>_ w. w\<lparr>lk_server := dl_drift life (lk_opened w) (lk_server w)\<rparr>),
     me_sleep := (\<lambda>_ m. \<lparr>dm_server = dl_drift life (dm_time m) (dm_server m), dm_time = Suc (dm_time m)\<rparr>)\<rparr>"

lemma link_machine_sel [simp]:
  "me_json (link_machine J life base) = J" "me_frames (link_machine J life base) = link_stream J"
  "me_close (link_machine J life base) w = \<lparr>dm_server = lk_server w, dm_time = Suc (lk_opened w)\<rparr>"
  "dm_server (me_sleep (link_machine J life base) d m) = dl_drift life (dm_time m) (dm_server m)"
  "lk_server (me_wait (link_machine J life base) d w) = dl_drift life (lk_opened w) (lk_server w)"
  by (simp_all add: link_machine_def)

definition first_client :: IpcClient where
  "first_client = \<lparr>next_request_id = 1, server_protocol = protocol_info\<rparr>"

lemma connect_target_link:
  assumes "ipc_json J"
  shows "connect_target (link_machine J life base) target m = (case dl_plan life (dm_time m) of
    None \<Rightarrow> Inl ipc_connection_error | Some plan \<Rightarrow> Inr (first_client, link_start plan (dm_time m) (dm_server m)))"
proof (cases "dl_plan life (dm_time m)")
  case None
  then show ?thesis by (simp add: connect_target_def link_machine_def connect_with_path_def)
next
  case (Some plan)
  then show ?thesis
    using connect_link [OF assms, of plan "dm_time m" "dm_server m" "target_socket_path target"]
    by (simp add: connect_target_def link_machine_def first_client_def)
qed

text \<open>One request on a connection between two requests: what it gives and what it leaves of the server.\<close>

lemma link_request:
  assumes "ipc_json J" "link_idle w"
  obtains e w1 where
    "client_request J (link_stream J) r (c, w) =
       (if link_fault_now w = LinkUp then Inr (fst (link_answer r w)) else Inl e, c\<lparr>next_request_id := next_request_id c + 1\<rparr>, w1)"
    "lk_server w1 = (if link_fault_now w = ClosedBefore then lk_server w else snd (link_outcome r w))" "lk_opened w1 = lk_opened w"
    "link_fault_now w = LinkUp \<longrightarrow> w1 = snd (link_answer r w)"
proof (cases "link_fault_now w = LinkUp")
  case True
  with assms(2) have "link_ready w" by (simp add: link_ready_def)
  from ipc_json.link_request_answered [OF assms(1) this, of r c] True show thesis
    by (intro that [of undefined "snd (link_answer r w)"]) (simp_all add: link_answer_def)
next
  case False
  then obtain e w1 where "client_request J (link_stream J) r (c, w) = (Inl e, c\<lparr>next_request_id := next_request_id c + 1\<rparr>, w1)"
    "lk_server w1 = (if link_fault_now w = ClosedBefore then lk_server w else snd (link_outcome r w))" "lk_opened w1 = lk_opened w"
    using ipc_json.link_request_cut [OF assms False, of r c] by blast
  with False show thesis by (intro that [of e w1]) simp_all
qed

text \<open>A reset of the secret: the file is gone and the runtime has been told to stop.\<close>

definition resettable :: "path \<Rightarrow> IpcServer \<Rightarrow> bool" where
  "resettable p srv \<longleftrightarrow> \<not> ri_cancel_token (sv_runtime srv) \<and> ri_secret_source (sv_runtime srv) = FileSecret p \<and> fs_faults (sv_fs srv) = []"

lemma reset_request:
  assumes "resettable p srv"
  obtains message srv1 where "handle_service_request E ReqResetSecret srv = (respond (RespResetSecret \<lparr>cr_accepted = True, cr_message = Some message\<rparr>), srv1)"
    "fs_files (sv_fs srv1) p = None" "ri_cancel_token (sv_runtime srv1)"
proof -
  obtain message w1 where "reset_secret_file p (sv_fs srv) = (Inr message, w1)" "fs_files w1 p = None"
    using assms
    by (cases "fs_files (sv_fs srv) p") (simp_all add: resettable_def reset_secret_file_def fs_remove_file_def next_fault_def)
  then show thesis
    using assms
    by (intro that [of message "srv\<lparr>sv_fs := w1, sv_runtime := request_shutdown (sv_runtime srv)\<rparr>"])
      (simp_all add: resettable_def reset_secret_def ensure_running_def secret_path_of_def with_runtime_def respond_result_def request_shutdown_def)
qed

lemma reset_stops:
  "ro_response (fst (handle_service_request E ReqResetSecret srv)) = RespResetSecret x \<Longrightarrow>
   ri_cancel_token (sv_runtime (snd (handle_service_request E ReqResetSecret srv)))"
  by (auto simp: reset_secret_def respond_result_def respond_def runtime_error_response_def with_runtime_def request_shutdown_def
    split: prod.splits sum.splits option.splits)

text \<open>The first request and the second one of a reset, on a connection between two requests.\<close>

lemma reset_asked:
  assumes "ipc_json J" "link_idle w" "\<not> lk_subscribed w" "resettable p (sv_meanwhile (link_env w) (lk_server w))"
  obtains message e w1 where
    "asking (link_machine J life base) what (client_reset_secret J (link_stream J)) (c, w) =
       (if link_fault_now w = LinkUp then Inr \<lparr>cr_accepted = True, cr_message = Some message\<rparr> else Inl (CliIpcError (what @ e)),
        c\<lparr>next_request_id := next_request_id c + 1\<rparr>, w1)"
    "link_fault_now w \<noteq> ClosedBefore \<Longrightarrow> fs_files (sv_fs (lk_server w1)) p = None \<and> ri_cancel_token (sv_runtime (lk_server w1))"
    "link_fault_now w = LinkUp \<Longrightarrow> link_idle w1 \<and> lk_plan w1 = lk_plan w \<and> lk_turn w1 = Suc (lk_turn w)"
proof -
  obtain message srv1 where h: "handle_service_request (link_env w) ReqResetSecret (sv_meanwhile (link_env w) (lk_server w)) =
      (respond (RespResetSecret \<lparr>cr_accepted = True, cr_message = Some message\<rparr>), srv1)"
    "fs_files (sv_fs srv1) p = None" "ri_cancel_token (sv_runtime srv1)" by (rule reset_request [OF assms(4)])
  obtain e w1 where r: "client_request J (link_stream J) ReqResetSecret (c, w) =
       (if link_fault_now w = LinkUp then Inr (fst (link_answer ReqResetSecret w)) else Inl e, c\<lparr>next_request_id := next_request_id c + 1\<rparr>, w1)"
    and w1: "lk_server w1 = (if link_fault_now w = ClosedBefore then lk_server w else snd (link_outcome ReqResetSecret w))"
      "link_fault_now w = LinkUp \<Longrightarrow> w1 = snd (link_answer ReqResetSecret w)"
    using link_request [OF assms(1,2), of ReqResetSecret c] by metis
  show thesis
  proof (rule that [of message "client_error_text (link_machine J life base) e" w1])
    show "asking (link_machine J life base) what (client_reset_secret J (link_stream J)) (c, w) =
       (if link_fault_now w = LinkUp then Inr \<lparr>cr_accepted = True, cr_message = Some message\<rparr>
        else Inl (CliIpcError (what @ client_error_text (link_machine J life base) e)), c\<lparr>next_request_id := next_request_id c + 1\<rparr>, w1)"
      using h(1) r by (simp add: asking_def client_reset_secret_def client_call_def link_answer_def link_outcome_def respond_def expect_response_def)
  qed (use h w1 assms(2,3) in \<open>simp_all add: link_answer_def link_outcome_def link_idle_def link_pending_def\<close>)
qed

lemma stop_asked:
  assumes "ipc_json J" "link_idle w"
  obtains e w1 where
    "asking (link_machine J life base) what (client_stop J (link_stream J)) (c, w) =
       (if link_fault_now w = LinkUp then Inr \<lparr>cr_accepted = True, cr_message = Some ''shutdown requested''\<rparr> else Inl (CliIpcError (what @ e)),
        c\<lparr>next_request_id := next_request_id c + 1\<rparr>, w1)"
    "lk_server w1 = (if link_fault_now w = ClosedBefore then lk_server w else (sv_meanwhile (link_env w) (lk_server w))\<lparr>sv_host_shutdown := True\<rparr>)"
proof -
  obtain e w1 where r: "client_request J (link_stream J) ReqStop (c, w) =
       (if link_fault_now w = LinkUp then Inr (fst (link_answer ReqStop w)) else Inl e, c\<lparr>next_request_id := next_request_id c + 1\<rparr>, w1)"
    and w1: "lk_server w1 = (if link_fault_now w = ClosedBefore then lk_server w else snd (link_outcome ReqStop w))"
    using link_request [OF assms, of ReqStop c] by metis
  show thesis
    by (rule that [of "client_error_text (link_machine J life base) e" w1])
      (use r w1 in \<open>simp_all add: asking_def client_stop_def client_call_def link_answer_def link_outcome_def respond_def expect_response_def\<close>)
qed

text \<open>
  What a command keeps of the machine, and commands that cannot succeed on a machine: the rules follow the way in which commands are put together.
\<close>

definition keeps :: "('m \<Rightarrow> bool) \<Rightarrow> (('w, 'm) client_world, 'a) command \<Rightarrow> bool" where
  "keeps P f \<longleftrightarrow> (\<forall>k r k'. P (kw_machine k) \<longrightarrow> f k = Some (r, k') \<longrightarrow> P (kw_machine k'))"

definition hopeless_on :: "('m \<Rightarrow> bool) \<Rightarrow> (('w, 'm) client_world, 'a) command \<Rightarrow> bool" where
  "hopeless_on P f \<longleftrightarrow> (\<forall>k x k'. P (kw_machine k) \<longrightarrow> f k \<noteq> Some (Inr x, k'))"

lemma keeps_basic:
  "keeps P (on_cli f)" "keeps P (cli_println s)" "keeps P (cli_lift r)" "keeps P (cli_return x)" "keeps P (cli_fail e)"
  by (auto simp: keeps_def on_cli_def cli_println_def cli_lift_def cli_return_def cli_fail_def)

lemma keeps_machine: "(\<And>m r m'. P m \<Longrightarrow> f m = (r, m') \<Longrightarrow> P m') \<Longrightarrow> keeps P (on_machine f)"
  by (auto simp: keeps_def on_machine_def split: prod.splits)

lemma keeps_bind: "keeps P f \<Longrightarrow> (\<And>x. keeps P (g x)) \<Longrightarrow> keeps P (cli_bind f g)"
  unfolding keeps_def
proof (intro allI impI)
  fix k r k'
  assume keep: "\<forall>k r k'. P (kw_machine k) \<longrightarrow> f k = Some (r, k') \<longrightarrow> P (kw_machine k')"
    "\<And>x. \<forall>k r k'. P (kw_machine k) \<longrightarrow> g x k = Some (r, k') \<longrightarrow> P (kw_machine k')"
    and k: "P (kw_machine k)" and b: "cli_bind f g k = Some (r, k')"
  from b obtain s k1 where f: "f k = Some (s, k1)" by (auto simp: cli_bind_def split: option.splits)
  with keep(1) k have k1: "P (kw_machine k1)" by blast
  show "P (kw_machine k')" using b f k1 keep(2) by (cases s) (auto simp: cli_bind_def)
qed

lemma hopeless_bind:
  "hopeless_on P f \<Longrightarrow> hopeless_on P (cli_bind f g)"
  "keeps P f \<Longrightarrow> (\<And>x. hopeless_on P (h x)) \<Longrightarrow> hopeless_on P (cli_bind f h)"
  by (auto simp: hopeless_on_def keeps_def cli_bind_def split: option.splits prod.splits sum.splits)

lemma hopeless_after:
  "(\<And>m x m'. f m = (Inr x, m') \<Longrightarrow> P m') \<Longrightarrow> (\<And>x. hopeless_on P (g x)) \<Longrightarrow> hopeless_on (\<lambda>_. True) (cli_bind (on_machine f) g)"
  by (auto simp: hopeless_on_def cli_bind_def on_machine_def split: option.splits prod.splits sum.splits)

lemma hopeless_fail: "hopeless_on P (cli_fail e)"
  by (simp add: hopeless_on_def cli_fail_def)

text \<open>A daemon whose runtime is cancelled stays so, whatever requests it is asked, and takes no secret.\<close>

definition runtime_over :: "IpcServer \<Rightarrow> bool" where
  "runtime_over srv \<longleftrightarrow> ri_cancel_token (sv_runtime srv)"

definition stays_over :: "('f, 'v) daemon_life \<Rightarrow> bool" where
  "stays_over life \<longleftrightarrow> (\<forall>t srv. runtime_over srv \<longrightarrow> runtime_over (dl_drift life t srv)) \<and>
     (\<forall>t plan i srv. dl_plan life t = Some plan \<longrightarrow> runtime_over srv \<longrightarrow> runtime_over (sv_meanwhile (lp_envs plan i) srv))"

lemma runtime_over_request: "runtime_over srv \<Longrightarrow> runtime_over (snd (handle_service_request E r srv))"
  unfolding runtime_over_def
  by (cases r; auto simp: with_runtime_def start_claim_def track_claim_task_def reset_secret_def request_shutdown_def account_login_url_def ensure_running_def Let_def
    split: prod.splits sum.splits option.splits)

lemma over_request:
  assumes "ipc_json J" "stays_over life" "dl_plan life t = Some plan" "runtime_over srv"
    and "client_request J (link_stream J) r (first_client, link_start plan t srv) = (res, c1, w1)"
  shows "runtime_over (lk_server w1)"
    "res = Inr response \<Longrightarrow> \<exists>i srv1. runtime_over srv1 \<and> response = ro_response (fst (handle_service_request (lp_envs plan i) r srv1))"
proof -
  obtain w where w: "w = link_start plan t srv" "client_request J (link_stream J) r (first_client, w) = (res, c1, w1)" using assms(5) by blast
  obtain e w2 where q: "client_request J (link_stream J) r (first_client, w) =
       (if link_fault_now w = LinkUp then Inr (fst (link_answer r w)) else Inl e, first_client\<lparr>next_request_id := next_request_id first_client + 1\<rparr>, w2)"
    "lk_server w2 = (if link_fault_now w = ClosedBefore then lk_server w else snd (link_outcome r w))" "lk_opened w2 = lk_opened w"
    "link_fault_now w = LinkUp \<longrightarrow> w2 = snd (link_answer r w)"
    by (rule link_request [OF assms(1), of w r first_client]) (simp_all add: w(1) link_start_idle)
  have over: "runtime_over (sv_meanwhile (link_env w) srv)" using assms(2-4) by (auto simp: w(1) stays_over_def link_env_def)
  then show "runtime_over (lk_server w1)"
    using q w assms(4) runtime_over_request [OF over] by (auto simp: link_outcome_def)
  show "\<exists>i srv1. runtime_over srv1 \<and> response = ro_response (fst (handle_service_request (lp_envs plan i) r srv1))" if "res = Inr response"
    using q(1) w(2) that over by (intro exI [of _ "lk_turn w"] exI [of _ "sv_meanwhile (link_env w) srv"])
      (auto simp: w(1) link_env_def link_answer_def link_outcome_def split: if_splits)
qed

lemma over_connection_keeps:
  assumes "ipc_json J" "stays_over life"
    and "\<And>plan t srv r c1 w1. dl_plan life t = Some plan \<Longrightarrow> runtime_over srv \<Longrightarrow> f (first_client, link_start plan t srv) = (r, c1, w1) \<Longrightarrow> runtime_over (lk_server w1)"
    and "runtime_over (dm_server m)" "over_connection (link_machine J life base) target f m = (r, m')"
  shows "runtime_over (dm_server m')"
  using assms(3) [of "dm_time m" _ "dm_server m"] assms(4,5)
  by (auto simp: over_connection_def over_connection_or_def connect_target_link [OF assms(1)] split: option.splits prod.splits)

lemma read_lifecycle_over:
  assumes "ipc_json J" "stays_over life" "dl_plan life t = Some plan" "runtime_over srv"
    and "read_lifecycle (link_machine J life base) (first_client, link_start plan t srv) = (r, c1, w1)"
  shows "runtime_over (lk_server w1)"
  using over_request(1) [OF assms(1-4)] assms(5)
  by (auto simp: read_lifecycle_def asking_def client_lifecycle_def client_call_def split: prod.splits)

lemma waiting_rounds_over:
  assumes "ipc_json J" "stays_over life"
  shows "runtime_over (dm_server m) \<Longrightarrow> waiting_rounds (link_machine J life base) target n m = (r, m') \<Longrightarrow> runtime_over (dm_server m')"
proof (induction n arbitrary: m)
  case (Suc n)
  let ?E = "link_machine J life base"
  note drift = assms(2) [unfolded stays_over_def, THEN conjunct1, rule_format]
  show ?case
  proof (cases "dl_plan life (dm_time m)")
    case None
    then show ?thesis
      using Suc.IH [of "me_sleep ?E 100 m"] Suc.prems drift by (simp add: connect_target_link [OF assms(1)])
  next
    case (Some plan)
    obtain x c w where x: "read_lifecycle ?E (first_client, link_start plan (dm_time m) (dm_server m)) = (x, c, w)" by (metis prod_cases3)
    have w: "runtime_over (lk_server w)" by (rule read_lifecycle_over [OF assms Some Suc.prems(1) x])
    then have "runtime_over (dm_server (me_close ?E w))" "runtime_over (dm_server (me_close ?E (me_wait ?E 100 w)))" using drift by simp_all
    then show ?thesis
      using Suc.IH [of "me_close ?E (me_wait ?E 100 w)"] Suc.prems(2)
      by (auto simp: connect_target_link [OF assms(1)] Some x simp del: link_machine_sel split: sum.splits AgentLifecycle.splits)
  qed
qed simp

lemma provision_refused:
  assumes "ipc_json J" "stays_over life" "runtime_over (dm_server (kw_machine k))"
  shows "\<exists>e k'. provision_service_secret (link_machine J life base) (ExplicitSocket socket) key mode k = Some (Inl e, k')"
proof (cases "dl_plan life (dm_time (kw_machine k))")
  case None
  then show ?thesis
    by (simp add: provision_service_secret_def start_if_installed_def on_machine_def over_connection_def over_connection_or_def connect_target_link [OF assms(1)]
      cli_bind_def cli_return_def)
next
  case (Some plan)
  let ?w = "link_start plan (dm_time (kw_machine k)) (dm_server (kw_machine k))"
  obtain res c1 w1 where q: "client_request J (link_stream J) (ReqSetSecret key) (first_client, ?w) = (res, c1, w1)" by (metis prod_cases3)
  have "response = RespError (as_service_error RtStopped)" if "res = Inr response" for response
    using over_request(2) [OF assms(1,2) Some assms(3) q that] stopped_refuses(7)
    by (auto simp: runtime_over_def respond_result_def respond_def runtime_error_response_def)
  then obtain e where "client_set_secret J (link_stream J) key (first_client, ?w) = (Inl e, c1, w1)"
    using q by (cases res) (auto simp: client_set_secret_def client_call_def expect_response_def)
  then show ?thesis
    by (simp add: provision_service_secret_def start_if_installed_def on_machine_def over_connection_def over_connection_or_def connect_target_link [OF assms(1)] Some
      accepted_or_def asking_def cli_bind_def cli_return_def)
qed

text \<open>An accepted reset: the runtime of the daemon is cancelled.\<close>

lemma reset_accepted_stops:
  assumes "ipc_json J" "reset_service_secret_for_setup (link_machine J life base) target m = (Inr x, m')"
  shows "runtime_over (dm_server m')"
proof -
  obtain plan where plan: "dl_plan life (dm_time m) = Some plan"
    using assms(2)
    by (cases "dl_plan life (dm_time m)")
      (simp_all add: reset_service_secret_for_setup_def over_connection_def over_connection_or_def connect_target_link [OF assms(1)])
  obtain w where w: "w = link_start plan (dm_time m) (dm_server m)" "connect_target (link_machine J life base) target m = Inr (first_client, w)"
    by (simp add: connect_target_link [OF assms(1)] plan)
  obtain e w1 where q: "client_request J (link_stream J) ReqResetSecret (first_client, w) =
       (if link_fault_now w = LinkUp then Inr (fst (link_answer ReqResetSecret w)) else Inl e, first_client\<lparr>next_request_id := next_request_id first_client + 1\<rparr>, w1)"
    "lk_server w1 = (if link_fault_now w = ClosedBefore then lk_server w else snd (link_outcome ReqResetSecret w))" "lk_opened w1 = lk_opened w"
    "link_fault_now w = LinkUp \<longrightarrow> w1 = snd (link_answer ReqResetSecret w)"
    by (rule link_request [OF assms(1), of w ReqResetSecret first_client]) (simp_all add: w(1) link_start_idle)
  have "link_fault_now w = LinkUp \<and> (\<exists>x. fst (link_answer ReqResetSecret w) = RespResetSecret x) \<and> dm_server m' = lk_server w1"
    using assms(2) q(1)
    by (auto simp: reset_service_secret_for_setup_def over_connection_def over_connection_or_def w(2) accepted_or_def asking_def
      client_reset_secret_def client_call_def expect_response_def and_then_Inr_conv split: if_splits ServiceResponse.splits option.splits)
  with q(4) reset_stops [of "link_env w" "sv_meanwhile (link_env w) (lk_server w)"] show ?thesis
    by (auto simp: runtime_over_def link_answer_def link_outcome_def)
qed

subsection \<open>Properties\<close>

text \<open>
  C37: A reset from the command line does what it says, through the client, the wire, the server and the runtime. When \<^verbatim>\<open>playit reset\<close> reaches a running service that has a secret file on which no
  operation fails, and the service reads the request, the secret file is gone, whether it was there or not, and the runtime has been told to stop, whatever else the
  service does until the end of the command, as long as it does not write the file again. The reset ends the runtime and so the daemon, which may close the connection at any time: the command ends without an
  error, and the daemon has been told to stop, if the connection lasts until the second answer; if it closes before, the command reports that the secret was reset but that the stop
  failed; and if it closes before the first answer, that the reset failed.
\<close>

theorem reset_command_forgets:
  assumes "ipc_json J" "dl_plan life (dm_time (kw_machine k)) = Some plan"
    and "resettable p (sv_meanwhile (lp_envs plan 0) (dm_server (kw_machine k)))"
    and "\<And>s. fs_files (sv_fs (sv_meanwhile (lp_envs plan 1) s)) p = fs_files (sv_fs s) p"
    and "\<And>s. ri_cancel_token (sv_runtime s) \<Longrightarrow> ri_cancel_token (sv_runtime (sv_meanwhile (lp_envs plan 1) s))"
  shows "\<exists>result k'. run_reset_command (link_machine J life base) target k = Some (result, k') \<and>
    (lp_fault plan 0 \<noteq> ClosedBefore \<longrightarrow>
      fs_files (sv_fs (dm_server (kw_machine k'))) p = None \<and> ri_cancel_token (sv_runtime (dm_server (kw_machine k')))) \<and>
    (if lp_fault plan 0 \<noteq> LinkUp then \<exists>e. result = Inl (CliIpcError (''Failed to reset secret: '' @ e))
     else if lp_fault plan 1 \<noteq> LinkUp then \<exists>e. result = Inl (CliIpcError (''Secret was reset, but failed to stop playitd: '' @ e))
     else result = Inr () \<and> sv_host_shutdown (dm_server (kw_machine k')))"
proof -
  let ?E = "link_machine J life base" and ?w = "link_start plan (dm_time (kw_machine k)) (dm_server (kw_machine k))"
  have start: "connect_target ?E target (kw_machine k) = Inr (first_client, ?w)" by (simp add: connect_target_link [OF assms(1)] assms(2))
  have w: "link_idle ?w" "\<not> lk_subscribed ?w" "resettable p (sv_meanwhile (link_env ?w) (lk_server ?w))" "link_fault_now ?w = lp_fault plan 0"
    using assms(3) by (simp_all add: link_start_idle link_env_def link_fault_now_def)
  obtain message e c1 w1 where r: "asking ?E ''Failed to reset secret: '' (client_reset_secret J (link_stream J)) (first_client, ?w) =
       (if lp_fault plan 0 = LinkUp then Inr \<lparr>cr_accepted = True, cr_message = Some message\<rparr> else Inl (CliIpcError (''Failed to reset secret: '' @ e)), c1, w1)"
    and w1: "lp_fault plan 0 \<noteq> ClosedBefore \<Longrightarrow> fs_files (sv_fs (lk_server w1)) p = None \<and> ri_cancel_token (sv_runtime (lk_server w1))"
      "lp_fault plan 0 = LinkUp \<Longrightarrow> link_idle w1 \<and> lk_plan w1 = plan \<and> lk_turn w1 = 1"
    by (rule reset_asked [OF assms(1) w(1-3), where life = life and base = base and what = "''Failed to reset secret: ''" and c = first_client]) (auto simp: w(4))
  note run = run_reset_command_def on_machine_def over_connection_def over_connection_or_def start reset_and_stop_def accepted_or_def cli_bind_def
  show ?thesis
  proof (cases "lp_fault plan 0 = LinkUp")
    case False
    then show ?thesis using r w1(1) by (simp add: run)
  next
    case True
    note up = w1(1) [unfolded True, simplified] w1(2) [OF True]
    obtain e2 c2 w2 where st: "asking ?E ''Secret was reset, but failed to stop playitd: '' (client_stop J (link_stream J)) (c1, w1) =
       (if link_fault_now w1 = LinkUp then Inr \<lparr>cr_accepted = True, cr_message = Some ''shutdown requested''\<rparr>
        else Inl (CliIpcError (''Secret was reset, but failed to stop playitd: '' @ e2)), c2, w2)"
      and w2: "lk_server w2 = (if link_fault_now w1 = ClosedBefore then lk_server w1 else (sv_meanwhile (link_env w1) (lk_server w1))\<lparr>sv_host_shutdown := True\<rparr>)"
      by (rule stop_asked [OF assms(1), where life = life and base = base and what = "''Secret was reset, but failed to stop playitd: ''" and w = w1 and c = c1])
        (use up in auto)
    have now: "link_fault_now w1 = lp_fault plan 1" "link_env w1 = lp_envs plan 1" using up by (simp_all add: link_fault_now_def link_env_def)
    have srv: "fs_files (sv_fs (lk_server w2)) p = None" "ri_cancel_token (sv_runtime (lk_server w2))"
      "lp_fault plan 1 = LinkUp \<Longrightarrow> sv_host_shutdown (lk_server w2)"
      using w2 up assms(4,5) by (simp_all add: now)
    then show ?thesis
      using r st True by (simp add: run now cli_println_def on_cli_def write_screen_def)
  qed
qed

definition example_base :: "(daemon_machine, (plain_text, unit, unit) link, plain_text) machine_env" where
  "example_base =
     \<lparr>me_open = (\<lambda>_ _. Inl IpcNotRunning), me_close = (\<lambda>w. \<lparr>dm_server = lk_server w, dm_time = 0\<rparr>), me_json = plain_json, me_frames = link_stream plain_json,
      me_wait = (\<lambda>_ s. s), me_sleep = (\<lambda>_ m. m),
      me_command = (\<lambda>_ _ m. (Inl (Error NotFound []), m)), me_metadata = (\<lambda>_ _. Inl (Error NotFound [])), me_effective_uid = 0, me_effective_gid = 0,
      me_group_access_list = None, me_current_user = None, me_group_by_gid = (\<lambda>_. None), me_io_text = (\<lambda>_. []), me_service_error_text = se_message,
      me_debug = (\<lambda>_. [])\<rparr>"

definition example_life :: "link_fault \<Rightarrow> (unit, unit) daemon_life" where
  "example_life fault = \<lparr>dl_plan = (\<lambda>_. Some (example_plan\<lparr>lp_fault := (\<lambda>i. if i = 1 then fault else LinkUp)\<rparr>)), dl_drift = (\<lambda>_ srv. srv)\<rparr>"

definition example_client_world :: "IpcServer \<Rightarrow> (unit, daemon_machine) client_world" where
  "example_client_world srv = \<lparr>kw_cli = example_cli_world, kw_machine = \<lparr>dm_server = srv, dm_time = 0\<rparr>\<rparr>"

lemma example_resettable: "resettable (opt_secret_path example_options) example_server" "sv_meanwhile example_env s = s"
  by (simp_all add: resettable_def example_env_def example_server_def example_waiting_def example_inner_def make_inner_def agent_version_of_def publish_state_def
    SecretSource_from_options_def Ipc_Server.example_fs_def example_options_def)

theorem reset_command_forgets_witness:
  "(\<exists>k'. run_reset_command (link_machine plain_json (example_life LinkUp) example_base) InstalledService (example_client_world example_server) = Some (Inr (), k') \<and>
     fs_files (sv_fs (dm_server (kw_machine k'))) (opt_secret_path example_options) = None \<and> sv_host_shutdown (dm_server (kw_machine k'))) \<and>
   (\<exists>e k'. run_reset_command (link_machine plain_json (example_life ClosedBefore) example_base) InstalledService (example_client_world example_server) =
      Some (Inl (CliIpcError (''Secret was reset, but failed to stop playitd: '' @ e)), k') \<and>
     fs_files (sv_fs (dm_server (kw_machine k'))) (opt_secret_path example_options) = None)"
proof -
  let ?plan = "\<lambda>fault. example_plan\<lparr>lp_fault := (\<lambda>i. if i = 1 then fault else LinkUp)\<rparr>"
  have h: "dl_plan (example_life fault) (dm_time (kw_machine (example_client_world example_server))) = Some (?plan fault)"
    "resettable (opt_secret_path example_options) (sv_meanwhile (lp_envs (?plan fault) 0) (dm_server (kw_machine (example_client_world example_server))))"
    "fs_files (sv_fs (sv_meanwhile (lp_envs (?plan fault) 1) s)) q = fs_files (sv_fs s) q"
    "ri_cancel_token (sv_runtime s) \<Longrightarrow> ri_cancel_token (sv_runtime (sv_meanwhile (lp_envs (?plan fault) 1) s))" for fault s q
    using example_resettable by (simp_all add: example_life_def example_client_world_def example_plan_def)
  show ?thesis
    using reset_command_forgets [OF plain.ipc_json_axioms h(1,2) h(3) h(4), of LinkUp example_base InstalledService]
      reset_command_forgets [OF plain.ipc_json_axioms h(1,2) h(3) h(4), of ClosedBefore example_base InstalledService]
    by auto
qed

text \<open>
  C40: The automatic command cannot set a daemon up again that it has reset. When the daemon on an explicit socket, which no service manager starts again, reports an invalid secret, \<^verbatim>\<open>playit\<close> offers to reset the
  secret, to wait and to run the setup; whatever the user answers, the command never succeeds: the reset stops the runtime, and a
  daemon whose runtime has stopped refuses the key of the setup, or is not reachable any more. This holds whatever the connections do, whichever setup is run and however the daemon goes on in the
  meantime, as long as no other daemon takes its place: a stopped runtime stays stopped.
\<close>

theorem setup_after_reset_refused:
  assumes "ipc_json J" "stays_over life"
    and "over_connection_or (initial_attach_error (ExplicitSocket socket) (AutoCommand None)) (link_machine J life base) (ExplicitSocket socket)
      (wait_for_auto_lifecycle (link_machine J life base)) (kw_machine k) = (Inr (HasInvalidSecret e), m1)"
  shows "(\<nexists>s k'. run_auto_command (link_machine J life base)
       (run_setup_flow C (link_machine J life base) login_guest claim_code (ExplicitSocket socket) mode direct name) (ExplicitSocket socket) mode k = Some (Inr s, k')) \<and>
    (\<forall>k2 key. runtime_over (dm_server (kw_machine k2)) \<longrightarrow>
      (\<exists>e k'. provision_service_secret (link_machine J life base) (ExplicitSocket socket) key mode k2 = Some (Inl e, k')))"
proof -
  let ?E = "link_machine J life base" and ?t = "ExplicitSocket socket" and ?P = "\<lambda>m. runtime_over (dm_server m)"
  have provision: "hopeless_on ?P (provision_service_secret ?E ?t key mode)" for key
    unfolding hopeless_on_def using provision_refused [OF assms(1,2)] by (metis Pair_inject option.inject sum.distinct(1))
  have ready: "keeps ?P (ensure_service_waiting_for_secret ?E ?t mode)"
    unfolding ensure_service_waiting_for_secret_def start_if_installed_def if_not_P [OF CliTarget.distinct(2)]
    by (intro keeps_bind keeps_basic keeps_machine, rule over_connection_keeps [OF assms(1,2)]) (rule read_lifecycle_over [OF assms(1,2)])
  have flow: "hopeless_on ?P (run_setup_flow C ?E login_guest claim_code ?t mode direct name)"
    unfolding run_setup_flow_def
    by (simp, intro conjI impI)
      ((rule hopeless_bind(2) [OF keeps_basic(1)] hopeless_bind(2) [OF keeps_basic(2)] hopeless_bind(2) [OF keeps_basic(3)] hopeless_bind(2) [OF ready]
        hopeless_bind(1) [OF provision])+)
  have waited: "keeps ?P (on_machine (wait_for_service_waiting_for_secret ?E ?t))"
    unfolding wait_for_service_waiting_for_secret_def by (rule keeps_machine) (rule waiting_rounds_over [OF assms(1,2)])
  have reset: "?P m'" if "reset_service_secret_for_setup ?E ?t m = (Inr x, m')" for m x m'
    by (rule reset_accepted_stops [OF assms(1) that])
  have again: "hopeless_on (\<lambda>_. True) (cli_bind (on_machine (reset_service_secret_for_setup ?E ?t)) (\<lambda>_.
      cli_bind (on_machine (wait_for_service_waiting_for_secret ?E ?t)) (\<lambda>_. run_setup_flow C ?E login_guest claim_code ?t mode direct name)))"
    by (rule hopeless_after [where P = ?P], erule reset) (rule hopeless_bind(2) [OF waited flow])
  have refuse: "hopeless_on (\<lambda>_. True) (cli_bind (cli_bind (on_cli question) (\<lambda>yes. if \<not> yes then cli_fail err else
      cli_bind (on_machine (reset_service_secret_for_setup ?E ?t)) (\<lambda>_.
      cli_bind (on_machine (wait_for_service_waiting_for_secret ?E ?t)) (\<lambda>_. run_setup_flow C ?E login_guest claim_code ?t mode direct name)))) g)" for question err g
    by (rule hopeless_bind(1), rule hopeless_bind(2) [OF keeps_basic(1)]) (use again in \<open>simp add: hopeless_fail\<close>)
  have "\<nexists>s k'. run_auto_command ?E (run_setup_flow C ?E login_guest claim_code ?t mode direct name) ?t mode k = Some (Inr s, k')"
    using assms(3) by (simp add: run_auto_command_def cli_bind_def [of _ _ k] on_machine_def [of _ k] refuse [unfolded hopeless_on_def, rule_format, OF TrueI])
  then show ?thesis using provision_refused [OF assms(1,2)] by blast
qed

definition example_invalid :: ServiceError where
  "example_invalid = \<lparr>se_code = CodeInvalidSecret, se_message = ''invalid secret'', se_retryable = False, se_details = None\<rparr>"

definition example_invalid_server :: IpcServer where
  "example_invalid_server = example_server\<lparr>sv_runtime := publish_state (sc_status StateCache_default) (HasInvalidSecret example_invalid) example_inner\<rparr>"

definition example_yes_world :: "(unit, daemon_machine) client_world" where
  "example_yes_world = (example_client_world example_invalid_server)\<lparr>kw_cli := example_cli_world\<lparr>cw_stdin := [Inr ''yes'']\<rparr>\<rparr>"

lemma example_invalid_seen:
  "\<exists>m1. over_connection_or err (link_machine plain_json (example_life LinkUp) example_base) target
     (wait_for_auto_lifecycle (link_machine plain_json (example_life LinkUp) example_base)) (kw_machine example_yes_world) = (Inr (HasInvalidSecret example_invalid), m1)"
proof -
  let ?E = "link_machine plain_json (example_life LinkUp) example_base"
  obtain w where w: "connect_target ?E target (kw_machine example_yes_world) = Inr (first_client, w)" "link_idle w" "link_fault_now w = LinkUp"
    "lk_server w = example_invalid_server" "link_env w = example_env"
    by (simp add: connect_target_link [OF plain.ipc_json_axioms] example_life_def example_yes_world_def example_client_world_def link_start_idle link_fault_now_def link_env_def
      example_plan_def)
  obtain e w1 where q: "client_request plain_json (link_stream plain_json) ReqGetState (first_client, w) =
       (if link_fault_now w = LinkUp then Inr (fst (link_answer ReqGetState w)) else Inl e, first_client\<lparr>next_request_id := next_request_id first_client + 1\<rparr>, w1)"
    "lk_server w1 = (if link_fault_now w = ClosedBefore then lk_server w else snd (link_outcome ReqGetState w))" "lk_opened w1 = lk_opened w"
    "link_fault_now w = LinkUp \<longrightarrow> w1 = snd (link_answer ReqGetState w)"
    by (rule link_request [OF plain.ipc_json_axioms w(2), of ReqGetState first_client])
  have "sc_lifecycle (ri_state_cache (sv_runtime example_invalid_server)) = HasInvalidSecret example_invalid"
    by (simp add: example_invalid_server_def publish_state_def)
  then show ?thesis
    using q(1) example_resettable(2)
    by (simp add: over_connection_or_def w wait_for_auto_lifecycle_def numeral_eq_Suc read_lifecycle_def asking_def client_lifecycle_def client_call_def expect_response_def
      link_answer_def link_outcome_def respond_def)
qed

theorem setup_after_reset_refused_witness:
  "\<nexists>s k'. run_auto_command (link_machine plain_json (example_life LinkUp) example_base)
     (run_setup_flow example_cli (link_machine plain_json (example_life LinkUp) example_base) (\<lambda>_ hs. (Some (Inr ''guest''), hs)) ''abcd'' (ExplicitSocket ''@playit'') ModeNone False None)
     (ExplicitSocket ''@playit'') ModeNone example_yes_world = Some (Inr s, k')"
proof -
  have life: "stays_over (example_life LinkUp)"
    using example_resettable(2) by (auto simp: stays_over_def example_life_def example_plan_def)
  obtain m1 where m1: "over_connection_or (initial_attach_error (ExplicitSocket ''@playit'') (AutoCommand None)) (link_machine plain_json (example_life LinkUp) example_base)
      (ExplicitSocket ''@playit'') (wait_for_auto_lifecycle (link_machine plain_json (example_life LinkUp) example_base)) (kw_machine example_yes_world) =
      (Inr (HasInvalidSecret example_invalid), m1)"
    using example_invalid_seen by blast
  show ?thesis using setup_after_reset_refused [OF plain.ipc_json_axioms life m1] by (rule conjunct1)
qed

end
