(* ===== verification/Spec2Isabelle.thy ===== *)
theory Spec2Isabelle
  imports Control_Laws Control_Feed Udp_Proto Id_Slab Utils Lan_Address Proxy_Protocol Origin_Lookup Stats Packets
    Udp_Channel Udp_Clients Tcp_Pipe Tcp_Clients Connected_Control Established_Control Maintained_Control
    Udp_Receiver Agent_Loop Service_Model Account_State Secret_Store Http_Client
    Tunnel_Requests Runtime_Options Claim_Flow Runtime_Handle Supervisor Ipc_Session Account_Session Cli_Account Ip_Resource
    Daemon Cli_Client
begin

section \<open>The playit agent\<close>

text \<open>
  A model of the playit agent (\<^verbatim>\<open>src/packages\<close>), the program that runs beside a game server or another local service and makes it reachable through
  the tunnel servers of playit. The Rust code is translated function by function; each theory names the files it follows.

  \<^bold>\<open>How the program works.\<close> The agent asks the web API for the addresses of the control servers, picks the first that answers a ping
  (\<^verbatim>\<open>address_selector.rs\<close>), registers there with a message that the API signed (\<^verbatim>\<open>connected_control.rs\<close>) and keeps this session alive
  with pings and keep alives (\<^verbatim>\<open>established_control.rs\<close>, \<^verbatim>\<open>maintained_control.rs\<close>). Over the session the server announces new TCP
  clients and the details of a UDP channel. For a TCP client the agent connects to a claim address and to the local target and copies bytes
  both ways (\<^verbatim>\<open>tcp_clients.rs\<close>, \<^verbatim>\<open>tcp_pipe.rs\<close>). UDP packets of all peers share one channel, each with a footer that
  names its flow (\<^verbatim>\<open>udp_proto.rs\<close>, \<^verbatim>\<open>udp_channel.rs\<close>); the agent keeps a local socket per peer and tunnel (\<^verbatim>\<open>udp_clients.rs\<close>).
  \<^verbatim>\<open>playit_agent.rs\<close> runs both as two tasks. Around it, \<^verbatim>\<open>playit-runtime\<close> finds the agent's secret, starts the agent again after failures
  and answers requests of the daemon's clients. \<^verbatim>\<open>playitd\<close> hosts that runtime behind a socket, and \<^verbatim>\<open>playit\<close> is the command line client that starts, sets up, shows and
  stops it.

  \<^bold>\<open>Theories.\<close>
  \<^item> \<open>Playit_Prelude\<close>, \<open>Wire\<close>, \<open>Proto_Core\<close>: machine integers, byte strings, readers and writers with errors and panics as values; the crates
    \<^verbatim>\<open>message-encoding\<close> and \<^verbatim>\<open>byteorder\<close> as records of functions with their laws as locales (\<open>proto_wire\<close>, \<open>big_endian_io\<close>), and a
    big-endian instance of both that shows the laws can hold.
  \<^item> \<open>Control_Messages\<close>, \<open>Control_Laws\<close>, \<open>Control_Feed\<close>, \<open>Udp_Proto\<close> (\<^verbatim>\<open>agent_proto\<close>): every message with its encoder and decoder. The laws are round
    trips, the signature of a registration, and that no input makes the footer parser panic.
  \<^item> \<open>Id_Slab\<close>, \<open>Utils\<close>, \<open>Stats\<close>, \<open>Packets\<close>: the containers and counters, as refinements of maps and sets, and the packet pool as a transition system in which
    no block has two owners.
  \<^item> \<open>Lan_Address\<close>, \<open>Proxy_Protocol\<close>, \<open>Origin_Lookup\<close>: local addresses, proxy headers and the way from a tunnel to a local target.
  \<^item> \<open>Udp_Channel\<close>, \<open>Udp_Clients\<close>, \<open>Udp_Receiver\<close>: the UDP side, with the invariant of the client table over every interleaving of packets and clearings.
  \<^item> \<open>Tcp_Pipe\<close>, \<open>Tcp_Clients\<close>: the copy loop, and the system of worker, queue and connecting tasks as a reachability relation.
  \<^item> \<open>Connected_Control\<close>, \<open>Established_Control\<close>, \<open>Maintained_Control\<close>: the control session over an environment of socket, clock and API. A timeout of a
    caller is the value \<open>Elapsed\<close>, which may end any wait.
  \<^item> \<open>Agent_Loop\<close>: one round of each of the two tasks, their end, and what they achieve together.
  \<^item> \<open>Service_Model\<close>, \<open>Account_State\<close>, \<open>Secret_Store\<close>: the state the runtime shows and how a poll of the account builds it, its errors, and the secret file on a file system in which every call may fail.
  \<^item> \<open>Rust_Text\<close>, \<open>Http_Client\<close>: numbers as text, and one call of the web API with its credential, retries and delays; a call is shown to end within three requests and ten
    seconds of waiting.
  \<^item> \<open>Tunnel_Requests\<close>, \<open>Runtime_Options\<close>: the requests that manage tunnels, with the way from a request back to the routing of the agent, the mapping of API errors, and versions.
  \<^item> \<open>Claim_Flow\<close>, \<open>Runtime_Handle\<close>, \<open>Supervisor\<close>: claiming an agent in the browser, the operations of the runtime's clients on the shared state, and the loop that
    builds, runs and restarts the agent. The supervisor is a function of the rounds that happen to it, with the delays between them; the claim flow takes the number of its rounds, for which 2401 are enough
    within its ten minutes.
  \<^item> \<open>Ipc_Protocol\<close>, \<open>Ipc_Server\<close>, \<open>Ipc_Session\<close>: the protocol between the clients and the service (\<^verbatim>\<open>playit-ipc\<close>), the server of the daemon and the two together. The laws of
    \<^verbatim>\<open>serde_json\<close> are the locale \<open>ipc_json\<close>, the interface between client and server is the locale \<open>rpc_peer\<close> for one request and \<open>rpc_session\<close> for a sequence of them, which the server's connections implement. A connection
    follows a plan: the environment of each turn, the updates that are written to a subscriber before it, and whether the daemon ends before or after it. Without such an end a session over the wire
    equals the calls of the runtime's handle up to a subscription, and a subscriber comes to know the state of the service.
  \<^item> \<open>Account_Session\<close>, \<open>Cli_Account\<close>, \<open>Ip_Resource\<close>: signing in to an account, the calls and the stores of a session (the locale \<open>session_store\<close>, which the memory and the
    file store implement), and the account, claim and agent commands of the command line client. A command that waits for the user is a partial function, whose value \<open>None\<close> is that
    it does not return.
  \<^item> \<open>Daemon\<close>: the options of \<^verbatim>\<open>playitd\<close>, its log events, and one run from the start of the runtime and the socket over the branches of its \<^verbatim>\<open>select!\<close> to the shutdown. Its runtime is
    always told to stop; which branch sees a requested stop decides between a clean end and a panic.
  \<^item> \<open>Cli_Ui\<close>, \<open>Service_Manager\<close>, \<open>Cli_Client\<close>: the console, signals and the state of the full screen; asking, starting and stopping the installed service; and every command of
    \<^verbatim>\<open>playit\<close>, on a machine of which the service is a part. With one daemon on that machine (\<open>link_machine\<close>), which takes connections or not, may close them and goes on while a command waits, the commands are composed with the wire, the server, the runtime and
    the secret file, and the screen with what the service publishes.

  \<^bold>\<open>Conventions.\<close> A Rust integer of \<open>w\<close> bits is a \<open>w word\<close>; plain \<^verbatim>\<open>+\<close> and \<^verbatim>\<open>-\<close> wrap as in a release build, and saturating and checked operations are
  spelt out. A panic is a value (\<open>Panic\<close>), so that its absence is a theorem. An asynchronous operation takes the state of the world and returns its result with the
  new state; cancellation is an outcome of the waits at which it can happen. Times are milliseconds. Loops are recursive functions on what they run over; the bounded loops of the code keep
  their bounds (five registration requests with five waits each, one or three pings of an address with three or five waits, thirty messages and ten silent waits
  of an update); a loop that runs as long as the program is one definition for its round and a relation or a
  list of rounds around it. The only fuel is the number of rounds of the claim flow.

  \<^bold>\<open>What is not modelled.\<close> The events that the code logs, other than the layer that forwards them, and \<^verbatim>\<open>Display\<close> and \<^verbatim>\<open>Debug\<close> output other than messages that are
  passed on; the generated API client apart from the types and calls that other code uses, and HTTP; the tokio scheduler, sockets and operating system services, which are
  parameters; the parsing of arguments and the layout and styles of the screen, which are those of libraries; the tray application, the installer and the other code for
  Windows, which consist of calls of that system. Where the code differs between systems the model follows Linux.
\<close>

end
